(* ===== verification/Prelude.thy ===== *)
theory Prelude
  imports Main "HOL-Library.Signed_Division"
begin

section \<open>Prelude: errors, big numbers and array access\<close>

text \<open>
  What every component of the SDK model shares:
  \<^item> the errors a JavaScript call of the SDK can raise, and results \<open>js_error + 'a\<close> with
    their bind, assertion and left fold (\<open>Array.reduce\<close> with a body that may throw);
  \<^item> the arithmetic of the \<open>BN\<close> integers: unbounded integers whose division truncates towards
    zero and whose division by zero fails an assertion;
  \<^item> array indexing, where an index out of range is \<open>undefined\<close>;
  \<^item> the bounds on truncating division that the price, swap and margin proofs use.
  The collection \<open>bn_simps\<close> holds the evaluation rules of results and big numbers.
\<close>

named_theorems bn_simps "evaluation rules of results and big numbers"
named_theorems curve_facts "facts about reserves on the constant product curve"

subsection \<open>Errors and results\<close>

text \<open>
  \<open>Error m\<close> is \<open>new Error(m)\<close>, \<open>BnAssertion\<close> the failed assertion inside \<open>BN\<close> (division by
  zero, an unsafe \<open>toNumber\<close>), \<open>TypeError\<close> the access of a property of \<open>undefined\<close> or \<open>null\<close>,
  \<open>ReferenceError x\<close> the use of a name \<open>x\<close> that no scope binds, \<open>RangeError\<close> the access of a
  \<open>Buffer\<close> method beyond the end of the buffer,
  \<open>NotSubscribedError m\<close> the error class of \<open>accounts/types.ts\<close>, \<open>Thrown m\<close> a text that is thrown.
\<close>

datatype js_error =
    Error string
  | BnAssertion
  | TypeError
  | ReferenceError string
  | RangeError
  | NotSubscribedError string
  | Thrown string

type_synonym 'a result = "js_error + 'a"

fun bindE :: "'e + 'a \<Rightarrow> ('a \<Rightarrow> 'e + 'b) \<Rightarrow> 'e + 'b" where
  "bindE (Inl e) f = Inl e"
| "bindE (Inr a) f = f a"

definition mapE :: "('a \<Rightarrow> 'b) \<Rightarrow> 'e + 'a \<Rightarrow> 'e + 'b" where
  "mapE f m = bindE m (\<lambda>a. Inr (f a))"

text \<open>\<open>assert.ts\<close>: a missing or empty message falls back to the default text.\<close>

definition assert :: "bool \<Rightarrow> string option \<Rightarrow> unit result" where
  "assert condition msg =
     (if condition then Inr ()
      else Inl (Error (case msg of
                         None \<Rightarrow> ''Unspecified AssertionError''
                       | Some m \<Rightarrow> if m = [] then ''Unspecified AssertionError'' else m)))"

text \<open>\<open>xs.reduce(f, a)\<close> where \<open>f\<close> may throw.\<close>

fun foldE :: "('b \<Rightarrow> 'a \<Rightarrow> 'e + 'b) \<Rightarrow> 'b \<Rightarrow> 'a list \<Rightarrow> 'e + 'b" where
  "foldE f b [] = Inr b"
| "foldE f b (x # xs) = bindE (f b x) (\<lambda>b'. foldE f b' xs)"

lemma bindE_cong [fundef_cong]:
  "m = m' \<Longrightarrow> (\<And>a. m' = Inr a \<Longrightarrow> f a = f' a) \<Longrightarrow> bindE m f = bindE m' f'"
  by (cases m') auto

lemma bindE_Inr_iff [bn_simps]: "bindE m f = Inr b \<longleftrightarrow> (\<exists>a. m = Inr a \<and> f a = Inr b)"
  by (cases m) auto

lemma bindE_Inl_iff [bn_simps]:
  "bindE m f = Inl e \<longleftrightarrow> m = Inl e \<or> (\<exists>a. m = Inr a \<and> f a = Inl e)"
  by (cases m) auto

lemma bindE_assoc: "bindE (bindE m f) g = bindE m (\<lambda>a. bindE (f a) g)"
  by (cases m) auto

lemma mapE_simps [simp]: "mapE f (Inl e) = Inl e" "mapE f (Inr a) = Inr (f a)"
  by (simp_all add: mapE_def)

lemma mapE_Inr_iff [bn_simps]: "mapE f m = Inr b \<longleftrightarrow> (\<exists>a. m = Inr a \<and> b = f a)"
  by (cases m) auto

lemma assert_True [simp]: "assert True msg = Inr ()"
  by (simp add: assert_def)

lemma assert_Inr_iff [bn_simps]: "assert c msg = Inr u \<longleftrightarrow> c"
  by (simp add: assert_def)

lemma assert_if: "\<not> c \<Longrightarrow> \<exists>m. assert c msg = Inl (Error m)"
  by (simp add: assert_def)

lemma foldE_append: "foldE f b (xs @ ys) = bindE (foldE f b xs) (\<lambda>b'. foldE f b' ys)"
  by (induction xs arbitrary: b) (auto simp: bindE_assoc)

text \<open>A fold that adds up values that may each throw is the sum when none of them throws.\<close>

lemma foldE_add_Inr:
  assumes "\<And>x. x \<in> set xs \<Longrightarrow> g x = Inr (h x)"
  shows "foldE (\<lambda>(acc :: int) x. bindE (g x) (\<lambda>v. Inr (acc + v))) a xs = Inr (a + (\<Sum>x\<leftarrow>xs. h x))"
  using assms by (induction xs arbitrary: a) auto

lemma foldE_add_InrD:
  assumes "foldE (\<lambda>(acc :: int) x. bindE (g x) (\<lambda>v. Inr (acc + v))) a xs = Inr r"
  shows "x \<in> set xs \<Longrightarrow> \<exists>v. g x = Inr v"
  using assms by (induction xs arbitrary: a) (auto simp: bn_simps)

lemma foldE_add_sum:
  assumes "foldE (\<lambda>(acc :: int) x. bindE (g x) (\<lambda>v. Inr (acc + v))) a xs = Inr r"
  shows "r = a + (\<Sum>x\<leftarrow>xs. case g x of Inl _ \<Rightarrow> 0 | Inr v \<Rightarrow> v)"
  using assms
proof (induction xs arbitrary: a)
  case (Cons x xs)
  from Cons.prems obtain v where "g x = Inr v"
    and "foldE (\<lambda>acc x. bindE (g x) (\<lambda>v. Inr (acc + v))) (a + v) xs = Inr r"
    by (auto simp: bn_simps)
  with Cons.IH [of "a + v"] show ?case by simp
qed simp

subsection \<open>Big numbers\<close>

text \<open>
  A \<open>BN\<close> is an unbounded integer. \<open>div\<close> and \<open>mod\<close> truncate towards zero (\<open>sdiv\<close>, \<open>smod\<close>) and
  assert a divisor different from zero; \<open>toNumber\<close> asserts a magnitude below \<open>2 ^ 53\<close>.
\<close>

type_synonym BN = int

definition bn_div :: "BN \<Rightarrow> BN \<Rightarrow> BN result" where
  "bn_div a b = (if b = 0 then Inl BnAssertion else Inr (a sdiv b))"

definition bn_mod :: "BN \<Rightarrow> BN \<Rightarrow> BN result" where
  "bn_mod a b = (if b = 0 then Inl BnAssertion else Inr (a smod b))"

definition bn_toNumber :: "BN \<Rightarrow> int result" where
  "bn_toNumber a = (if \<bar>a\<bar> < 2 ^ 53 then Inr a else Inl BnAssertion)"

text \<open>\<open>toString()\<close>: decimal digits, with a sign for negative numbers.\<close>

fun nat_toString :: "nat \<Rightarrow> string" where
  "nat_toString n =
     (if n < 10 then [char_of (48 + n)] else nat_toString (n div 10) @ [char_of (48 + n mod 10)])"

declare nat_toString.simps [simp del]

definition bn_toString :: "BN \<Rightarrow> string" where
  "bn_toString a = (if a < 0 then ''-'' @ nat_toString (nat (- a)) else nat_toString (nat a))"

text \<open>\<open>Number.MAX_SAFE_INTEGER\<close>.\<close>

definition MAX_SAFE_INTEGER :: int where
  "MAX_SAFE_INTEGER = 9007199254740991"

lemma bn_div_nonzero [simp]: "b \<noteq> 0 \<Longrightarrow> bn_div a b = Inr (a sdiv b)"
  by (simp add: bn_div_def)

lemma bn_div_zero [simp]: "bn_div a 0 = Inl BnAssertion"
  by (simp add: bn_div_def)

lemma bn_mod_nonzero [simp]: "b \<noteq> 0 \<Longrightarrow> bn_mod a b = Inr (a smod b)"
  by (simp add: bn_mod_def)

lemma bn_mod_zero [simp]: "bn_mod a 0 = Inl BnAssertion"
  by (simp add: bn_mod_def)

lemma bn_div_Inr_iff [bn_simps]: "bn_div a b = Inr c \<longleftrightarrow> b \<noteq> 0 \<and> c = a sdiv b"
  by (auto simp: bn_div_def)

lemma bn_div_Inl_iff [bn_simps]: "bn_div a b = Inl e \<longleftrightarrow> b = 0 \<and> e = BnAssertion"
  by (auto simp: bn_div_def)

subsection \<open>Truncating division\<close>

lemma int_le_div_iff: "0 < b \<Longrightarrow> c \<le> a div b \<longleftrightarrow> c * b \<le> (a :: int)"
proof
  assume b: "0 < b" and "c \<le> a div b"
  then have "c * b \<le> (a div b) * b" by (intro mult_right_mono) auto
  also have "\<dots> \<le> a" using pos_mod_sign [OF b, of a] div_mult_mod_eq [of a b] by linarith
  finally show "c * b \<le> a" .
next
  assume b: "0 < b" and "c * b \<le> a"
  then have "(c * b) div b \<le> a div b" by (intro zdiv_mono1)
  with b show "c \<le> a div b" by simp
qed

lemma int_div_less_iff: "0 < b \<Longrightarrow> a div b < c \<longleftrightarrow> (a :: int) < c * b"
  by (meson int_le_div_iff linorder_not_le)

lemma sdiv_nonneg_eq: "0 \<le> a \<Longrightarrow> 0 < b \<Longrightarrow> (a :: int) sdiv b = a div b"
  by (cases "a = 0") (auto simp: signed_divide_int_def)

lemma sdiv_zero_left [simp]: "(0 :: int) sdiv b = 0"
  by (simp add: signed_divide_int_def)

lemma sdiv_minus_left: "(- a) sdiv (b :: int) = - (a sdiv b)"
  by (simp add: signed_divide_int_def)

lemma sdiv_minus_right: "a sdiv (- b) = - ((a :: int) sdiv b)"
  by (simp add: signed_divide_int_def)

lemma sdiv_nonneg [simp]: "0 \<le> a \<Longrightarrow> 0 < b \<Longrightarrow> 0 \<le> (a :: int) sdiv b"
  by (simp add: sdiv_nonneg_eq pos_imp_zdiv_nonneg_iff)

lemma sdiv_nonpos: "a \<le> 0 \<Longrightarrow> 0 < b \<Longrightarrow> (a :: int) sdiv b \<le> 0"
  using sdiv_nonneg [of "- a" b] by (simp add: sdiv_minus_left)

lemma sdiv_mono:
  assumes "(a :: int) \<le> a'" "0 < b"
  shows "a sdiv b \<le> a' sdiv b"
proof (cases "0 \<le> a")
  case True
  with assms show ?thesis by (simp add: sdiv_nonneg_eq zdiv_mono1)
next
  case neg: False
  show ?thesis
  proof (cases "0 \<le> a'")
    case True
    with neg assms sdiv_nonpos [of a b] sdiv_nonneg [of a' b] show ?thesis by linarith
  next
    case False
    have "(- a') div b \<le> (- a) div b"
      using assms by (simp add: zdiv_mono1)
    then have "(- a') sdiv b \<le> (- a) sdiv b"
      using sdiv_nonneg_eq [of "- a" b] sdiv_nonneg_eq [of "- a'" b] neg False assms
      by linarith
    then show ?thesis by (simp only: sdiv_minus_left neg_le_iff_le)
  qed
qed

lemma sdiv_mult_le: "0 \<le> a \<Longrightarrow> 0 < b \<Longrightarrow> b * (a sdiv b) \<le> (a :: int)"
  by (simp add: sdiv_nonneg_eq minus_mod_eq_mult_div [symmetric])

lemma less_sdiv_mult: "0 \<le> a \<Longrightarrow> 0 < b \<Longrightarrow> (a :: int) < b * (a sdiv b + 1)"
proof -
  assume "0 \<le> a" and b: "0 < b"
  then have q: "a sdiv b = a div b" by (rule sdiv_nonneg_eq)
  show ?thesis
    unfolding q
    using pos_mod_bound [OF b, of a] mult_div_mod_eq [of b a] distrib_left [of b "a div b" 1]
    by linarith
qed

lemma sdiv_le_iff: "0 \<le> a \<Longrightarrow> 0 < b \<Longrightarrow> (c :: int) \<le> a sdiv b \<longleftrightarrow> c * b \<le> a"
  by (simp add: sdiv_nonneg_eq int_le_div_iff)

lemma sdiv_less_iff: "0 \<le> a \<Longrightarrow> 0 < b \<Longrightarrow> (a :: int) sdiv b < c \<longleftrightarrow> a < c * b"
  by (meson linorder_not_le sdiv_le_iff)

lemma le_sdiv_iff: "0 \<le> a \<Longrightarrow> 0 < b \<Longrightarrow> (a :: int) sdiv b \<le> c \<longleftrightarrow> a < (c + 1) * b"
  using sdiv_less_iff [of a b "c + 1"] by simp

lemma sdiv_antimono_right:
  "0 \<le> (a :: int) \<Longrightarrow> 0 < b \<Longrightarrow> b \<le> b' \<Longrightarrow> a sdiv b' \<le> a sdiv b"
  by (simp add: sdiv_nonneg_eq zdiv_mono2)

lemma sdiv_mult_cancel [simp]: "0 < b \<Longrightarrow> ((a :: int) * b) sdiv b = a"
  by (simp add: signed_divide_int_def abs_mult sgn_mult sgn_mult_abs)

lemma sdiv_le_self: "0 \<le> a \<Longrightarrow> 0 < b \<Longrightarrow> (a :: int) sdiv b \<le> a"
  using sdiv_antimono_right [of a 1 b] by (simp add: sdiv_nonneg_eq)

lemma abs_sdiv: "\<bar>(a :: int) sdiv b\<bar> = \<bar>a\<bar> sdiv \<bar>b\<bar>"
  by (simp add: signed_divide_int_def abs_mult sgn_if pos_imp_zdiv_nonneg_iff)

subsection \<open>Arrays\<close>

text \<open>\<open>xs[i]\<close>: \<open>undefined\<close> out of range.\<close>

definition js_index :: "'a list \<Rightarrow> int \<Rightarrow> 'a option" where
  "js_index xs i = (if 0 \<le> i \<and> i < int (length xs) then Some (xs ! nat i) else None)"

text \<open>The access of a property of a value that may be \<open>undefined\<close>.\<close>

definition deref :: "'a option \<Rightarrow> 'a result" where
  "deref x = (case x of None \<Rightarrow> Inl TypeError | Some a \<Rightarrow> Inr a)"

lemma deref_simps [simp]: "deref None = Inl TypeError" "deref (Some a) = Inr a"
  by (simp_all add: deref_def)

lemma deref_Inr_iff [bn_simps]: "deref x = Inr a \<longleftrightarrow> x = Some a"
  by (cases x) auto

lemma js_index_Some_iff: "js_index xs i = Some x \<longleftrightarrow> 0 \<le> i \<and> nat i < length xs \<and> xs ! nat i = x"
  by (auto simp: js_index_def)

lemma js_index_in_set: "js_index xs i = Some x \<Longrightarrow> x \<in> set xs"
  by (auto simp: js_index_Some_iff)

end
