(* ===== verification/Constants.thy ===== *)
theory Constants
  imports Prelude
begin

section \<open>Numeric constants\<close>

text \<open>
  The constants of \<open>sdk/src/constants/numericConstants.ts\<close> and \<open>MAXPCT\<close> of \<open>math/trade.ts\<close>.
  The ratios are the truncating quotients the source computes; \<open>constant_values\<close> evaluates all
  of them and is a rewrite rule of \<open>bn_simps\<close>.
\<close>

definition ZERO :: BN where "ZERO = 0"
definition ONE :: BN where "ONE = 1"
definition TEN_THOUSAND :: BN where "TEN_THOUSAND = 10000"
definition BN_MAX :: BN where "BN_MAX = MAX_SAFE_INTEGER"

definition MAX_LEVERAGE :: BN where "MAX_LEVERAGE = 5"
definition FULL_LIQUIDATION_RATIO :: BN where "FULL_LIQUIDATION_RATIO = 500"
definition PARTIAL_LIQUIDATION_RATIO :: BN where "PARTIAL_LIQUIDATION_RATIO = 625"

definition QUOTE_PRECISION :: BN where "QUOTE_PRECISION = 10 ^ 6"
definition MARK_PRICE_PRECISION :: BN where "MARK_PRICE_PRECISION = 10 ^ 10"
definition FUNDING_PAYMENT_PRECISION :: BN where "FUNDING_PAYMENT_PRECISION = 10000"
definition PEG_PRECISION :: BN where "PEG_PRECISION = 1000"

definition AMM_RESERVE_PRECISION :: BN where "AMM_RESERVE_PRECISION = 10 ^ 13"
definition BASE_PRECISION :: BN where "BASE_PRECISION = AMM_RESERVE_PRECISION"
definition AMM_TO_QUOTE_PRECISION_RATIO :: BN where
  "AMM_TO_QUOTE_PRECISION_RATIO = AMM_RESERVE_PRECISION sdiv QUOTE_PRECISION"
definition PRICE_TO_QUOTE_PRECISION :: BN where
  "PRICE_TO_QUOTE_PRECISION = MARK_PRICE_PRECISION sdiv QUOTE_PRECISION"
definition AMM_TIMES_PEG_TO_QUOTE_PRECISION_RATIO :: BN where
  "AMM_TIMES_PEG_TO_QUOTE_PRECISION_RATIO =
     (AMM_RESERVE_PRECISION * PEG_PRECISION) sdiv QUOTE_PRECISION"

definition MAXPCT :: BN where "MAXPCT = 1000"

lemma constant_values [bn_simps]:
  "ZERO = 0" "ONE = 1" "TEN_THOUSAND = 10000" "BN_MAX = 9007199254740991"
  "FULL_LIQUIDATION_RATIO = 500" "PARTIAL_LIQUIDATION_RATIO = 625"
  "QUOTE_PRECISION = 1000000" "MARK_PRICE_PRECISION = 10000000000"
  "FUNDING_PAYMENT_PRECISION = 10000" "PEG_PRECISION = 1000"
  "AMM_RESERVE_PRECISION = 10000000000000" "BASE_PRECISION = 10000000000000"
  "AMM_TO_QUOTE_PRECISION_RATIO = 10000000" "PRICE_TO_QUOTE_PRECISION = 10000"
  "AMM_TIMES_PEG_TO_QUOTE_PRECISION_RATIO = 10000000000" "MAXPCT = 1000"
  by (simp_all add: ZERO_def ONE_def TEN_THOUSAND_def BN_MAX_def MAX_SAFE_INTEGER_def
      FULL_LIQUIDATION_RATIO_def PARTIAL_LIQUIDATION_RATIO_def QUOTE_PRECISION_def
      MARK_PRICE_PRECISION_def FUNDING_PAYMENT_PRECISION_def PEG_PRECISION_def
      AMM_RESERVE_PRECISION_def BASE_PRECISION_def AMM_TO_QUOTE_PRECISION_RATIO_def
      PRICE_TO_QUOTE_PRECISION_def AMM_TIMES_PEG_TO_QUOTE_PRECISION_RATIO_def MAXPCT_def
      sdiv_nonneg_eq)

text \<open>The positivity facts that the division lemmas of the prelude ask for.\<close>

lemma constants_pos [simp]:
  "0 < MARK_PRICE_PRECISION" "0 < PEG_PRECISION" "0 < AMM_RESERVE_PRECISION"
  "0 < QUOTE_PRECISION" "0 < AMM_TO_QUOTE_PRECISION_RATIO" "0 < PRICE_TO_QUOTE_PRECISION"
  "0 < AMM_TIMES_PEG_TO_QUOTE_PRECISION_RATIO" "0 < TEN_THOUSAND" "0 < FUNDING_PAYMENT_PRECISION"
  "0 < MAXPCT"
  by (simp_all add: constant_values)

lemma constants_nonzero [simp]:
  "MARK_PRICE_PRECISION \<noteq> 0" "PEG_PRECISION \<noteq> 0" "AMM_RESERVE_PRECISION \<noteq> 0"
  "QUOTE_PRECISION \<noteq> 0" "AMM_TO_QUOTE_PRECISION_RATIO \<noteq> 0" "PRICE_TO_QUOTE_PRECISION \<noteq> 0"
  "AMM_TIMES_PEG_TO_QUOTE_PRECISION_RATIO \<noteq> 0" "TEN_THOUSAND \<noteq> 0"
  "FUNDING_PAYMENT_PRECISION \<noteq> 0" "MAXPCT \<noteq> 0"
  by (simp_all add: constant_values)

end
