(* ===== verification/Types.thy ===== *)
theory Types
  imports Constants
begin

section \<open>The account data of the SDK\<close>

text \<open>
  The data types of \<open>sdk/src/types.ts\<close>: directions, the markets account with its markets and
  automated market makers, the user's account and positions, the state account with the fee
  structure and the oracle guard rails. (The history accounts are in \<open>History\<close>.) A \<open>PublicKey\<close> is represented by its base58 text, the only view of it the SDK uses as data.
\<close>

type_synonym PublicKey = string

datatype SwapDirection = ADD | REMOVE

datatype PositionDirection = LONG | SHORT

datatype OracleSource = PYTH | SWITCHBOARD

datatype TradeSide = TradeSide_None | Buy | Sell

text \<open>\<open>type AssetType = 'quote' | 'base'\<close> of \<open>math/amm.ts\<close>.\<close>

datatype AssetType = Quote | Base

subsection \<open>Markets\<close>

record AMM =
  baseAssetReserve :: BN
  sqrtK :: BN
  cumulativeFundingRate :: BN
  lastFundingRate :: BN
  lastFundingRateTs :: BN
  lastMarkPriceTwap :: BN
  lastMarkPriceTwapTs :: BN
  lastOraclePriceTwap :: BN
  lastOraclePriceTwapTs :: BN
  amm_oracle :: PublicKey
  oracleSource :: OracleSource
  fundingPeriod :: BN
  quoteAssetReserve :: BN
  pegMultiplier :: BN
  cumulativeFundingRateLong :: BN
  cumulativeFundingRateShort :: BN
  cumulativeRepegRebateLong :: BN
  cumulativeRepegRebateShort :: BN
  totalFeeMinusDistributions :: BN
  totalFeeWithdrawn :: BN
  totalFee :: BN
  minimumTradeSize :: BN
  lastOraclePrice :: BN

record Market =
  amm :: AMM
  baseAssetAmount :: BN
  baseAssetAmountLong :: BN
  baseAssetAmountShort :: BN
  initialized :: bool
  openInterest :: BN

record MarketsAccount =
  accountIndex :: BN
  markets :: "Market list"

subsection \<open>User accounts\<close>

record UserPosition =
  baseAssetAmount :: BN
  lastCumulativeFundingRate :: BN
  marketIndex :: BN
  quoteAssetAmount :: BN

record UserPositionsAccount =
  positions :: "UserPosition list"
  user :: PublicKey

record UserAccount =
  authority :: PublicKey
  collateral :: BN
  cumulativeDeposits :: BN
  positions :: PublicKey
  totalFeePaid :: BN

subsection \<open>The state account\<close>

record DiscountTier =
  minimumBalance :: BN
  discountNumerator :: BN
  discountDenominator :: BN

record DiscountTokenTiers =
  firstTier :: DiscountTier
  secondTier :: DiscountTier
  thirdTier :: DiscountTier
  fourthTier :: DiscountTier

record ReferralDiscount =
  referrerRewardNumerator :: BN
  referrerRewardDenominator :: BN
  refereeDiscountNumerator :: BN
  refereeDiscountDenominator :: BN

record FeeStructure =
  feeNumerator :: BN
  feeDenominator :: BN
  discountTokenTiers :: DiscountTokenTiers
  referralDiscount :: ReferralDiscount

record PriceDivergenceGuardRails =
  markOracleDivergenceNumerator :: BN
  markOracleDivergenceDenominator :: BN

record ValidityGuardRails =
  slotsBeforeStale :: BN
  confidenceIntervalMaxSize :: BN
  tooVolatileRatio :: BN

record OracleGuardRails =
  priceDivergence :: PriceDivergenceGuardRails
  validity :: ValidityGuardRails
  useForLiquidations :: bool

record StateAccount =
  admin :: PublicKey
  fundingPaused :: bool
  exchangePaused :: bool
  adminControlsPrices :: bool
  collateralMint :: PublicKey
  collateralVault :: PublicKey
  collateralVaultAuthority :: PublicKey
  collateralVaultNonce :: nat
  insuranceVault :: PublicKey
  insuranceVaultAuthority :: PublicKey
  insuranceVaultNonce :: nat
  marginRatioInitial :: BN
  marginRatioMaintenance :: BN
  marginRatioPartial :: BN
  markets :: PublicKey
  curveHistory :: PublicKey
  depositHistory :: PublicKey
  fundingRateHistory :: PublicKey
  fundingPaymentHistory :: PublicKey
  tradeHistory :: PublicKey
  liquidationHistory :: PublicKey
  partialLiquidationClosePercentageNumerator :: BN
  partialLiquidationClosePercentageDenominator :: BN
  partialLiquidationPenaltyPercentageNumerator :: BN
  partialLiquidationPenaltyPercentageDenominator :: BN
  fullLiquidationPenaltyPercentageNumerator :: BN
  fullLiquidationPenaltyPercentageDenominator :: BN
  partialLiquidationLiquidatorShareDenominator :: BN
  fullLiquidationLiquidatorShareDenominator :: BN
  feeStructure :: FeeStructure
  totalFee :: BN
  totalFeeWithdrawn :: BN
  whitelistMint :: PublicKey
  discountMint :: PublicKey
  oracleGuardRails :: OracleGuardRails
  maxDeposit :: BN
  extendedCurveHistory :: PublicKey

subsection \<open>Sample accounts\<close>

text \<open>
  A market at a mark price of 50 with a pool of 1000 units of base asset, and a long position of
  one unit in it. The witnesses of the properties are evaluated on them.
\<close>

definition sample_amm :: AMM where
  "sample_amm = \<lparr>
     baseAssetReserve = 10000000000000000, sqrtK = 10000000000000000,
     cumulativeFundingRate = 0, lastFundingRate = 0, lastFundingRateTs = 1640995200,
     lastMarkPriceTwap = 500000000000, lastMarkPriceTwapTs = 1640995200,
     lastOraclePriceTwap = 490000000000, lastOraclePriceTwapTs = 1640995200,
     amm_oracle = ''H6ARHf6YXhGYeQfUzQNGk6rDNnLBQKrenN712K4AQJEG'', oracleSource = PYTH,
     fundingPeriod = 3600, quoteAssetReserve = 10000000000000000, pegMultiplier = 50000,
     cumulativeFundingRateLong = 700000000, cumulativeFundingRateShort = 600000000,
     cumulativeRepegRebateLong = 0, cumulativeRepegRebateShort = 0,
     totalFeeMinusDistributions = 3000000, totalFeeWithdrawn = 0, totalFee = 4000000,
     minimumTradeSize = 10000000, lastOraclePrice = 490000000000\<rparr>"

definition sample_market :: Market where
  "sample_market = \<lparr>
     amm = sample_amm, Market.baseAssetAmount = 10000000000000,
     Market.baseAssetAmountLong = 20000000000000, Market.baseAssetAmountShort = -10000000000000,
     initialized = True, Market.openInterest = 2\<rparr>"

definition sample_position :: UserPosition where
  "sample_position = \<lparr>
     UserPosition.baseAssetAmount = 10000000000000, lastCumulativeFundingRate = 500000000,
     UserPosition.marketIndex = 0, UserPosition.quoteAssetAmount = 49000000\<rparr>"

lemma sample_amm_simps [simp]:
  "AMM.baseAssetReserve sample_amm = 10000000000000000"
  "AMM.sqrtK sample_amm = 10000000000000000"
  "AMM.cumulativeFundingRate sample_amm = 0"
  "AMM.lastFundingRate sample_amm = 0"
  "AMM.lastFundingRateTs sample_amm = 1640995200"
  "AMM.lastMarkPriceTwap sample_amm = 500000000000"
  "AMM.lastMarkPriceTwapTs sample_amm = 1640995200"
  "AMM.lastOraclePriceTwap sample_amm = 490000000000"
  "AMM.lastOraclePriceTwapTs sample_amm = 1640995200"
  "AMM.amm_oracle sample_amm = ''H6ARHf6YXhGYeQfUzQNGk6rDNnLBQKrenN712K4AQJEG''"
  "AMM.oracleSource sample_amm = PYTH"
  "AMM.fundingPeriod sample_amm = 3600"
  "AMM.quoteAssetReserve sample_amm = 10000000000000000"
  "AMM.pegMultiplier sample_amm = 50000"
  "AMM.cumulativeFundingRateLong sample_amm = 700000000"
  "AMM.cumulativeFundingRateShort sample_amm = 600000000"
  "AMM.cumulativeRepegRebateLong sample_amm = 0"
  "AMM.cumulativeRepegRebateShort sample_amm = 0"
  "AMM.totalFeeMinusDistributions sample_amm = 3000000"
  "AMM.totalFeeWithdrawn sample_amm = 0"
  "AMM.totalFee sample_amm = 4000000"
  "AMM.minimumTradeSize sample_amm = 10000000"
  "AMM.lastOraclePrice sample_amm = 490000000000"
  by (simp_all add: sample_amm_def)

lemma sample_market_simps [simp]:
  "Market.amm sample_market = sample_amm"
  "Market.baseAssetAmount sample_market = 10000000000000"
  "Market.baseAssetAmountLong sample_market = 20000000000000"
  "Market.baseAssetAmountShort sample_market = -10000000000000"
  "Market.initialized sample_market = True"
  "Market.openInterest sample_market = 2"
  by (simp_all add: sample_market_def)

lemma sample_position_simps [simp]:
  "UserPosition.baseAssetAmount sample_position = 10000000000000"
  "UserPosition.lastCumulativeFundingRate sample_position = 500000000"
  "UserPosition.marketIndex sample_position = 0"
  "UserPosition.quoteAssetAmount sample_position = 49000000"
  by (simp_all add: sample_position_def)

definition sample_tier :: DiscountTier where
  "sample_tier = \<lparr>minimumBalance = 0, discountNumerator = 0, discountDenominator = 1\<rparr>"

definition sample_fees :: FeeStructure where
  "sample_fees = \<lparr>
     feeNumerator = 10, feeDenominator = 10000,
     discountTokenTiers = \<lparr>firstTier = sample_tier, secondTier = sample_tier,
       thirdTier = sample_tier, fourthTier = sample_tier\<rparr>,
     referralDiscount = \<lparr>referrerRewardNumerator = 1, referrerRewardDenominator = 20,
       refereeDiscountNumerator = 1, refereeDiscountDenominator = 20\<rparr>\<rparr>"

definition sample_guard_rails :: OracleGuardRails where
  "sample_guard_rails = \<lparr>
     priceDivergence = \<lparr>markOracleDivergenceNumerator = 1, markOracleDivergenceDenominator = 10\<rparr>,
     validity = \<lparr>slotsBeforeStale = 1000, confidenceIntervalMaxSize = 4, tooVolatileRatio = 5\<rparr>,
     useForLiquidations = True\<rparr>"

definition sample_state :: StateAccount where
  "sample_state = \<lparr>
     StateAccount.admin = ''admin'',
     StateAccount.fundingPaused = False,
     StateAccount.exchangePaused = False,
     StateAccount.adminControlsPrices = False,
     StateAccount.collateralMint = ''collateralMint'',
     StateAccount.collateralVault = ''vault'',
     StateAccount.collateralVaultAuthority = ''collateralVaultAuthority'',
     StateAccount.collateralVaultNonce = 255,
     StateAccount.insuranceVault = ''insurance'',
     StateAccount.insuranceVaultAuthority = ''insuranceVaultAuthority'',
     StateAccount.insuranceVaultNonce = 255,
     StateAccount.marginRatioInitial = 2000,
     StateAccount.marginRatioMaintenance = 500,
     StateAccount.marginRatioPartial = 625,
     StateAccount.markets = ''markets'',
     StateAccount.curveHistory = ''curveHistory'',
     StateAccount.depositHistory = ''depositHistory'',
     StateAccount.fundingRateHistory = ''fundingRateHistory'',
     StateAccount.fundingPaymentHistory = ''fundingPaymentHistory'',
     StateAccount.tradeHistory = ''tradeHistory'',
     StateAccount.liquidationHistory = ''liquidationHistory'',
     StateAccount.partialLiquidationClosePercentageNumerator = 1,
     StateAccount.partialLiquidationClosePercentageDenominator = 1,
     StateAccount.partialLiquidationPenaltyPercentageNumerator = 1,
     StateAccount.partialLiquidationPenaltyPercentageDenominator = 1,
     StateAccount.fullLiquidationPenaltyPercentageNumerator = 1,
     StateAccount.fullLiquidationPenaltyPercentageDenominator = 1,
     StateAccount.partialLiquidationLiquidatorShareDenominator = 1,
     StateAccount.fullLiquidationLiquidatorShareDenominator = 1,
     StateAccount.feeStructure = sample_fees,
     StateAccount.totalFee = 1,
     StateAccount.totalFeeWithdrawn = 1,
     StateAccount.whitelistMint = ''whitelistMint'',
     StateAccount.discountMint = ''discountMint'',
     StateAccount.oracleGuardRails = sample_guard_rails,
     StateAccount.maxDeposit = 1,
     StateAccount.extendedCurveHistory = ''extendedCurveHistory''\<rparr>"

definition sample_markets :: MarketsAccount where
  "sample_markets = \<lparr>accountIndex = 0, MarketsAccount.markets = [sample_market]\<rparr>"

definition sample_user :: UserAccount where
  "sample_user = \<lparr>
     authority = ''authority'', collateral = 10000000, cumulativeDeposits = 10000000,
     UserAccount.positions = ''positions'', totalFeePaid = 0\<rparr>"

lemma sample_state_simps [simp]:
  "StateAccount.collateralVault sample_state = ''vault''"
  "StateAccount.insuranceVault sample_state = ''insurance''"
  "StateAccount.marginRatioInitial sample_state = 2000"
  "StateAccount.marginRatioMaintenance sample_state = 500"
  "StateAccount.marginRatioPartial sample_state = 625"
  "StateAccount.feeStructure sample_state = sample_fees"
  by (simp_all add: sample_state_def)

lemma sample_markets_simps [simp]:
  "MarketsAccount.markets sample_markets = [sample_market]"
  by (simp add: sample_markets_def)

lemma sample_user_simps [simp]: "collateral sample_user = 10000000"
  by (simp add: sample_user_def)

end
