(* ===== verification/Amm.thy ===== *)
theory Amm
  imports Types
begin

section \<open>The virtual market maker: prices and swaps\<close>

text \<open>
  \<open>sdk/src/math/amm.ts\<close> (prices, swaps, swap directions, the terminal price) and
  \<open>sdk/src/math/market.ts\<close> (the mark price). Division by a constant different from zero is
  written \<open>sdiv\<close>; division by a variable is \<open>bn_div\<close>, which fails on zero.

  \<open>curve_ok\<close> is the well-formedness of the reserves: positive, and on the integer grid next to
  the curve \<open>base * quote = sqrtK ^ 2\<close>. A swap keeps it and moves the price in the direction of
  the trade. The locale \<open>base_swap\<close> states what the valuation of positions and trades relies on
  in a swap of base asset; it is interpreted on \<open>calculateAmmReservesAfterSwap\<close>.
\<close>

subsection \<open>The operations\<close>

definition calculatePrice :: "BN \<Rightarrow> BN \<Rightarrow> BN \<Rightarrow> BN" where
  "calculatePrice baseAmount quoteAmount peg_multiplier =
     (if \<bar>baseAmount\<bar> \<le> ZERO then 0
      else ((quoteAmount * MARK_PRICE_PRECISION * peg_multiplier) sdiv PEG_PRECISION) sdiv baseAmount)"

definition calculateMarkPrice :: "Market \<Rightarrow> BN" where
  "calculateMarkPrice market =
     calculatePrice (baseAssetReserve (amm market)) (quoteAssetReserve (amm market))
       (pegMultiplier (amm market))"

definition calculateSwapOutput :: "BN \<Rightarrow> BN \<Rightarrow> SwapDirection \<Rightarrow> BN \<Rightarrow> (BN \<times> BN) result" where
  "calculateSwapOutput inputAssetReserve swapAmount swapDirection invariant =
     (let newInputAssetReserve =
            (if swapDirection = ADD then inputAssetReserve + swapAmount
             else inputAssetReserve - swapAmount)
      in bindE (bn_div invariant newInputAssetReserve) (\<lambda>newOutputAssetReserve.
           Inr (newInputAssetReserve, newOutputAssetReserve)))"

text \<open>The result is the pair of the new quote reserve and the new base reserve.\<close>

definition calculateAmmReservesAfterSwap ::
  "AMM \<Rightarrow> AssetType \<Rightarrow> BN \<Rightarrow> SwapDirection \<Rightarrow> (BN \<times> BN) result" where
  "calculateAmmReservesAfterSwap a inputAssetType swapAmount swapDirection =
     bindE (assert (ZERO \<le> swapAmount) (Some ''swapAmount must be greater than 0'')) (\<lambda>_.
       case inputAssetType of
         Quote \<Rightarrow>
           bindE (bn_div (swapAmount * AMM_TIMES_PEG_TO_QUOTE_PRECISION_RATIO) (pegMultiplier a))
             (\<lambda>swapAmount'.
               bindE (calculateSwapOutput (quoteAssetReserve a) swapAmount' swapDirection
                        (sqrtK a * sqrtK a))
                 (\<lambda>(newQuote, newBase). Inr (newQuote, newBase)))
       | Base \<Rightarrow>
           bindE (calculateSwapOutput (baseAssetReserve a) swapAmount swapDirection
                    (sqrtK a * sqrtK a))
             (\<lambda>(newBase, newQuote). Inr (newQuote, newBase)))"

definition getSwapDirection :: "AssetType \<Rightarrow> PositionDirection \<Rightarrow> SwapDirection" where
  "getSwapDirection inputAssetType positionDirection =
     (if positionDirection = LONG \<and> inputAssetType = Base then REMOVE
      else if positionDirection = SHORT \<and> inputAssetType = Quote then REMOVE
      else ADD)"

text \<open>The direction that closes a net position of the given base amount.\<close>

definition directionToClose :: "BN \<Rightarrow> PositionDirection" where
  "directionToClose baseAmount = (if baseAmount > ZERO then SHORT else LONG)"

definition calculateTerminalPrice :: "Market \<Rightarrow> BN result" where
  "calculateTerminalPrice market =
     (if \<not> initialized market then Inr 0
      else
        bindE (calculateAmmReservesAfterSwap (amm market) Base \<bar>Market.baseAssetAmount market\<bar>
                 (getSwapDirection Base (directionToClose (Market.baseAssetAmount market))))
          (\<lambda>(newQuoteAssetReserve, newBaseAssetReserve).
             bn_div ((newQuoteAssetReserve * MARK_PRICE_PRECISION * pegMultiplier (amm market))
                       sdiv PEG_PRECISION)
               newBaseAssetReserve))"

lemma getSwapDirection_simps [simp]:
  "getSwapDirection Base LONG = REMOVE" "getSwapDirection Base SHORT = ADD"
  "getSwapDirection Quote LONG = ADD" "getSwapDirection Quote SHORT = REMOVE"
  by (simp_all add: getSwapDirection_def)

text \<open>The two parts of a swap of base asset, without the error plumbing.\<close>

lemma base_swap_eval:
  "0 \<le> n \<Longrightarrow> calculateAmmReservesAfterSwap a Base n d =
     (let b = (if d = ADD then baseAssetReserve a + n else baseAssetReserve a - n) in
      if b = 0 then Inl BnAssertion else Inr ((sqrtK a * sqrtK a) sdiv b, b))"
  by (simp add: calculateAmmReservesAfterSwap_def calculateSwapOutput_def Let_def ZERO_def bn_div_def)

lemma quote_swap_eval:
  "0 \<le> n \<Longrightarrow> pegMultiplier a \<noteq> 0 \<Longrightarrow> calculateAmmReservesAfterSwap a Quote n d =
     (let s = (n * AMM_TIMES_PEG_TO_QUOTE_PRECISION_RATIO) sdiv pegMultiplier a;
          q = (if d = ADD then quoteAssetReserve a + s else quoteAssetReserve a - s) in
      if q = 0 then Inl BnAssertion else Inr (q, (sqrtK a * sqrtK a) sdiv q))"
  by (simp add: calculateAmmReservesAfterSwap_def calculateSwapOutput_def Let_def ZERO_def bn_div_def)

lemma swap_negative:
  "n < 0 \<Longrightarrow> calculateAmmReservesAfterSwap a ty n d
     = Inl (Error ''swapAmount must be greater than 0'')"
  by (simp add: calculateAmmReservesAfterSwap_def assert_def ZERO_def)

subsection \<open>Well-formed reserves\<close>

definition curve_k :: "AMM \<Rightarrow> BN" where
  "curve_k a = sqrtK a * sqrtK a"

definition curve_ok :: "AMM \<Rightarrow> bool" where
  "curve_ok a \<longleftrightarrow> 0 < baseAssetReserve a \<and> 0 < quoteAssetReserve a \<and> 0 < pegMultiplier a \<and>
     baseAssetReserve a * quoteAssetReserve a \<le> curve_k a \<and>
     curve_k a < (baseAssetReserve a + 1) * (quoteAssetReserve a + 1)"

lemma sample_curve_ok [simp]: "curve_ok sample_amm"
  by (simp add: curve_ok_def curve_k_def sample_amm_def)

text \<open>The market maker after its reserves moved to the result of a swap.\<close>

definition with_reserves :: "AMM \<Rightarrow> BN \<times> BN \<Rightarrow> AMM" where
  "with_reserves a r = a\<lparr>quoteAssetReserve := fst r, baseAssetReserve := snd r\<rparr>"

lemma with_reserves_simps [simp]:
  "quoteAssetReserve (with_reserves a r) = fst r" "baseAssetReserve (with_reserves a r) = snd r"
  "sqrtK (with_reserves a r) = sqrtK a" "pegMultiplier (with_reserves a r) = pegMultiplier a"
  "curve_k (with_reserves a r) = curve_k a"
  by (simp_all add: with_reserves_def curve_k_def)

lemma curve_okD [curve_facts]:
  assumes "curve_ok a"
  shows "0 < baseAssetReserve a" "0 < quoteAssetReserve a" "0 < pegMultiplier a"
    and "baseAssetReserve a * quoteAssetReserve a \<le> curve_k a"
    and "curve_k a < (baseAssetReserve a + 1) * (quoteAssetReserve a + 1)" and "0 < curve_k a"
proof -
  show *: "0 < baseAssetReserve a" "0 < quoteAssetReserve a" "0 < pegMultiplier a"
    "baseAssetReserve a * quoteAssetReserve a \<le> curve_k a"
    "curve_k a < (baseAssetReserve a + 1) * (quoteAssetReserve a + 1)"
    using assms by (auto simp: curve_ok_def)
  have "0 < baseAssetReserve a * quoteAssetReserve a" using * by simp
  with * show "0 < curve_k a" by linarith
qed

text \<open>Reserves \<open>x\<close> and \<open>k sdiv x\<close> lie next to the curve, from either side.\<close>

lemma div_on_curve:
  assumes "0 \<le> (k :: int)" "0 < x"
  shows "x * (k sdiv x) \<le> k" "k < (x + 1) * (k sdiv x + 1)"
proof -
  show "x * (k sdiv x) \<le> k" using assms by (rule sdiv_mult_le)
  have "k < x * (k sdiv x + 1)" using assms by (rule less_sdiv_mult)
  also have "\<dots> \<le> (x + 1) * (k sdiv x + 1)" using assms by (intro mult_right_mono) auto
  finally show "k < (x + 1) * (k sdiv x + 1)" .
qed

lemma div_pos_iff: "0 \<le> (k :: int) \<Longrightarrow> 0 < x \<Longrightarrow> 0 < k sdiv x \<longleftrightarrow> x \<le> k"
  using sdiv_le_iff [of k x 1] by linarith

subsection \<open>A swap of base asset\<close>

lemma base_add_Inr:
  "curve_ok a \<Longrightarrow> 0 \<le> n \<Longrightarrow> calculateAmmReservesAfterSwap a Base n ADD =
     Inr (curve_k a sdiv (baseAssetReserve a + n), baseAssetReserve a + n)"
  by (auto simp: base_swap_eval Let_def curve_k_def dest: curve_okD)

lemma base_remove_Inr:
  "curve_ok a \<Longrightarrow> 0 \<le> n \<Longrightarrow> n < baseAssetReserve a \<Longrightarrow> calculateAmmReservesAfterSwap a Base n REMOVE =
     Inr (curve_k a sdiv (baseAssetReserve a - n), baseAssetReserve a - n)"
  by (auto simp: base_swap_eval Let_def curve_k_def dest: curve_okD)

lemma base_add_quote_le:
  assumes "curve_ok a" "0 < n"
  shows "curve_k a sdiv (baseAssetReserve a + n) \<le> quoteAssetReserve a"
proof -
  note c = curve_okD [OF assms(1)]
  have "curve_k a < (baseAssetReserve a + 1) * (quoteAssetReserve a + 1)" by (rule c)
  also have "\<dots> \<le> (baseAssetReserve a + n) * (quoteAssetReserve a + 1)"
    using c assms by (intro mult_right_mono) auto
  finally show ?thesis using c assms by (simp add: le_sdiv_iff mult.commute)
qed

lemma base_remove_quote_ge:
  assumes "curve_ok a" "0 \<le> n" "n < baseAssetReserve a"
  shows "quoteAssetReserve a \<le> curve_k a sdiv (baseAssetReserve a - n)"
proof -
  note c = curve_okD [OF assms(1)]
  have "quoteAssetReserve a * (baseAssetReserve a - n) \<le> quoteAssetReserve a * baseAssetReserve a"
    using c assms by (intro mult_left_mono) auto
  also have "\<dots> \<le> curve_k a" using c by (simp add: mult.commute)
  finally show ?thesis using c assms by (simp add: sdiv_le_iff)
qed

lemma curve_ok_reserves:
  assumes "curve_ok a" "0 < b" "b \<le> curve_k a"
  shows "curve_ok (with_reserves a (curve_k a sdiv b, b))"
    and "curve_ok (with_reserves a (b, curve_k a sdiv b))"
  using curve_okD [OF assms(1)] assms div_on_curve [of "curve_k a" b] div_pos_iff [of "curve_k a" b]
  by (auto simp: curve_ok_def mult.commute)

subsection \<open>The interface of a swap of base asset\<close>

text \<open>
  What the valuation of positions and trades relies on: adding base to the pool gives quote
  back, removing base costs quote, and both are monotone in the amount. \<open>swap\<close> is a swap of base
  asset and \<open>wf\<close> the well-formed reserves.
\<close>

locale base_swap =
  fixes swap :: "AMM \<Rightarrow> BN \<Rightarrow> SwapDirection \<Rightarrow> (BN \<times> BN) result"
    and wf :: "AMM \<Rightarrow> bool"
    and out_add :: "AMM \<Rightarrow> BN \<Rightarrow> BN"
    and out_remove :: "AMM \<Rightarrow> BN \<Rightarrow> BN"
  assumes swap_add: "wf a \<Longrightarrow> 0 < n \<Longrightarrow>
      swap a n ADD = Inr (quoteAssetReserve a - out_add a n, baseAssetReserve a + n)"
    and swap_remove: "wf a \<Longrightarrow> 0 < n \<Longrightarrow> n < baseAssetReserve a \<Longrightarrow>
      swap a n REMOVE = Inr (quoteAssetReserve a + out_remove a n, baseAssetReserve a - n)"
    and out_add_range: "wf a \<Longrightarrow> 0 < n \<Longrightarrow> 0 \<le> out_add a n \<and> out_add a n \<le> quoteAssetReserve a"
    and out_remove_nonneg: "wf a \<Longrightarrow> 0 < n \<Longrightarrow> n < baseAssetReserve a \<Longrightarrow> 0 \<le> out_remove a n"
    and out_add_mono: "wf a \<Longrightarrow> 0 < n \<Longrightarrow> n \<le> m \<Longrightarrow> out_add a n \<le> out_add a m"
    and out_remove_mono: "wf a \<Longrightarrow> 0 < n \<Longrightarrow> n \<le> m \<Longrightarrow> m < baseAssetReserve a \<Longrightarrow>
      out_remove a n \<le> out_remove a m"
    and wf_pos: "wf a \<Longrightarrow> 0 < baseAssetReserve a \<and> 0 < quoteAssetReserve a \<and> 0 < pegMultiplier a"
begin

lemma value_scaled_nonneg:
  "wf a \<Longrightarrow> 0 < n \<Longrightarrow>
     0 \<le> (out_add a n * pegMultiplier a) sdiv AMM_TIMES_PEG_TO_QUOTE_PRECISION_RATIO"
  using out_add_range [of a n] wf_pos [of a] by (intro sdiv_nonneg) auto

lemma cost_scaled_nonneg:
  "wf a \<Longrightarrow> 0 < n \<Longrightarrow> n < baseAssetReserve a \<Longrightarrow>
     0 \<le> (out_remove a n * pegMultiplier a) sdiv AMM_TIMES_PEG_TO_QUOTE_PRECISION_RATIO"
  using out_remove_nonneg [of a n] wf_pos [of a] by (intro sdiv_nonneg) auto

lemma value_scaled_mono:
  "wf a \<Longrightarrow> 0 < n \<Longrightarrow> n \<le> m \<Longrightarrow>
     (out_add a n * pegMultiplier a) sdiv AMM_TIMES_PEG_TO_QUOTE_PRECISION_RATIO
     \<le> (out_add a m * pegMultiplier a) sdiv AMM_TIMES_PEG_TO_QUOTE_PRECISION_RATIO"
  using out_add_mono [of a n m] wf_pos [of a] by (intro sdiv_mono mult_right_mono) auto

lemma cost_scaled_mono:
  "wf a \<Longrightarrow> 0 < n \<Longrightarrow> n \<le> m \<Longrightarrow> m < baseAssetReserve a \<Longrightarrow>
     (out_remove a n * pegMultiplier a) sdiv AMM_TIMES_PEG_TO_QUOTE_PRECISION_RATIO
     \<le> (out_remove a m * pegMultiplier a) sdiv AMM_TIMES_PEG_TO_QUOTE_PRECISION_RATIO"
  using out_remove_mono [of a n m] wf_pos [of a] by (intro sdiv_mono mult_right_mono) auto

end

text \<open>The quote asset that leaves or enters the pool in a swap of base asset.\<close>

definition quote_out :: "AMM \<Rightarrow> BN \<Rightarrow> BN" where
  "quote_out a n = quoteAssetReserve a - curve_k a sdiv (baseAssetReserve a + n)"

definition quote_in :: "AMM \<Rightarrow> BN \<Rightarrow> BN" where
  "quote_in a n = curve_k a sdiv (baseAssetReserve a - n) - quoteAssetReserve a"

interpretation base_pool: base_swap
  "\<lambda>a. calculateAmmReservesAfterSwap a Base" curve_ok quote_out quote_in
proof unfold_locales
  fix a :: AMM and n m :: BN
  assume a: "curve_ok a"
  note c = curve_okD [OF a]
  show "0 < baseAssetReserve a \<and> 0 < quoteAssetReserve a \<and> 0 < pegMultiplier a"
    using c by simp
  assume n: "0 < n"
  show "calculateAmmReservesAfterSwap a Base n ADD
      = Inr (quoteAssetReserve a - quote_out a n, baseAssetReserve a + n)"
    using a n by (simp add: base_add_Inr quote_out_def)
  show "0 \<le> quote_out a n \<and> quote_out a n \<le> quoteAssetReserve a"
    using base_add_quote_le [OF a n] c n by (simp add: quote_out_def)
  { assume "n \<le> m"
    then show "quote_out a n \<le> quote_out a m"
      using c n by (simp add: quote_out_def sdiv_antimono_right) }
  { assume "n \<le> m" "m < baseAssetReserve a"
    then show "quote_in a n \<le> quote_in a m"
      using c n by (simp add: quote_in_def sdiv_antimono_right) }
  assume "n < baseAssetReserve a"
  then show "calculateAmmReservesAfterSwap a Base n REMOVE
      = Inr (quoteAssetReserve a + quote_in a n, baseAssetReserve a - n)"
    and "0 \<le> quote_in a n"
    using base_remove_quote_ge [OF a, of n] a n by (simp_all add: base_remove_Inr quote_in_def)
qed

subsection \<open>Prices\<close>

lemma calculatePrice_pos_base:
  "0 < b \<Longrightarrow> calculatePrice b q peg = ((q * MARK_PRICE_PRECISION * peg) sdiv PEG_PRECISION) sdiv b"
  by (simp add: calculatePrice_def ZERO_def)

lemma calculatePrice_nonneg: "0 < b \<Longrightarrow> 0 \<le> q \<Longrightarrow> 0 \<le> peg \<Longrightarrow> 0 \<le> calculatePrice b q peg"
  by (simp add: calculatePrice_pos_base constants_pos less_imp_le)

lemma calculatePrice_mono:
  assumes "0 < b" "b \<le> b'" "0 \<le> q'" "q' \<le> q" "0 \<le> peg"
  shows "calculatePrice b' q' peg \<le> calculatePrice b q peg"
proof -
  let ?v = "\<lambda>q. (q * MARK_PRICE_PRECISION * peg) sdiv PEG_PRECISION"
  have "0 \<le> ?v q'" using assms by (simp add: less_imp_le)
  then have "?v q' sdiv b' \<le> ?v q' sdiv b"
    using assms by (intro sdiv_antimono_right) auto
  also have "\<dots> \<le> ?v q sdiv b"
    using assms by (intro sdiv_mono mult_right_mono) (auto simp: less_imp_le)
  finally show ?thesis using assms by (simp add: calculatePrice_pos_base)
qed

lemma reserve_price_le:
  "curve_ok a \<Longrightarrow> 0 < n \<Longrightarrow>
     calculatePrice (baseAssetReserve a + n) (quoteAssetReserve a - quote_out a n) (pegMultiplier a)
     \<le> calculatePrice (baseAssetReserve a) (quoteAssetReserve a) (pegMultiplier a)"
  using base_pool.out_add_range [of a n] base_pool.wf_pos [of a] by (intro calculatePrice_mono) auto

lemma reserve_price_ge:
  "curve_ok a \<Longrightarrow> 0 < n \<Longrightarrow> n < baseAssetReserve a \<Longrightarrow>
     calculatePrice (baseAssetReserve a) (quoteAssetReserve a) (pegMultiplier a)
     \<le> calculatePrice (baseAssetReserve a - n) (quoteAssetReserve a + quote_in a n) (pegMultiplier a)"
  using base_pool.out_remove_nonneg [of a n] base_pool.wf_pos [of a]
  by (intro calculatePrice_mono) auto

subsection \<open>Properties of swaps\<close>

lemma swap_on_curve:
  assumes "curve_ok a" "calculateAmmReservesAfterSwap a ty n d = Inr r" "0 < fst r" "0 < snd r"
  shows "curve_ok (with_reserves a r)"
proof -
  have n: "0 \<le> n" using assms(2) swap_negative [of n a ty d] by (cases "0 \<le> n") auto
  note k = curve_okD(6) [OF assms(1)] and peg = curve_okD(3) [OF assms(1)]
  show ?thesis
  proof (cases ty)
    case Base
    then have r: "r = (curve_k a sdiv snd r, snd r)"
      using assms(2) n by (auto simp: base_swap_eval Let_def curve_k_def split: if_splits)
    with assms k have "snd r \<le> curve_k a" by (metis div_pos_iff fst_conv less_imp_le)
    with curve_ok_reserves(1) [OF assms(1,4)] r show ?thesis by metis
  next
    case Quote
    then have r: "r = (fst r, curve_k a sdiv fst r)"
      using assms(2) n peg by (auto simp: quote_swap_eval Let_def curve_k_def split: if_splits)
    with assms k have "fst r \<le> curve_k a" by (metis div_pos_iff snd_conv less_imp_le)
    with curve_ok_reserves(2) [OF assms(1,3)] r show ?thesis by metis
  qed
qed

text \<open>
  C1: a swap that leaves positive reserves, whichever asset is put in and in whichever direction,
  leaves them well-formed: still next to the curve of the unchanged \<open>sqrtK\<close>.
\<close>

theorem swap_keeps_curve:
  assumes "curve_ok a" "calculateAmmReservesAfterSwap a ty n d = Inr r" "0 < fst r" "0 < snd r"
  shows "curve_ok (with_reserves a r)"
  using assms by (rule swap_on_curve)

theorem swap_keeps_curve_witness:
  "curve_ok (with_reserves sample_amm (10000002000000000, 9999998000000399))"
  using swap_keeps_curve [of sample_amm Quote 10000 ADD "(10000002000000000, 9999998000000399)"]
  by (simp add: sample_curve_ok quote_swap_eval Let_def constant_values)

text \<open>
  Swaps of base asset compose: putting in (or taking out) \<open>n\<close> and then \<open>m\<close> leads to exactly
  the reserves of one swap of \<open>n + m\<close>, errors included. No amount of rounding accumulates over
  the steps of a split trade.
\<close>

theorem base_swaps_compose:
  assumes "0 \<le> n" "0 \<le> m" "calculateAmmReservesAfterSwap a Base n d = Inr r"
  shows "calculateAmmReservesAfterSwap (with_reserves a r) Base m d =
           calculateAmmReservesAfterSwap a Base (n + m) d"
  using assms by (auto simp: base_swap_eval Let_def add.assoc diff_diff_eq split: if_splits)

theorem base_swaps_compose_witness:
  "calculateAmmReservesAfterSwap
     (with_reserves sample_amm (9990009990009990, 10010000000000000)) Base 5000000000000 ADD =
   calculateAmmReservesAfterSwap sample_amm Base 15000000000000 ADD"
  using base_swaps_compose [of 10000000000000 5000000000000 sample_amm ADD
      "(9990009990009990, 10010000000000000)"]
  by (simp add: base_swap_eval Let_def)



text \<open>
  C34: on well-formed reserves a swap fails in exactly two ways: the assertion on a negative amount,
  and the division by zero when the whole input reserve is taken out.
\<close>

theorem swap_error_iff:
  assumes "curve_ok a"
  shows "calculateAmmReservesAfterSwap a ty n d = Inl e \<longleftrightarrow>
           n < 0 \<and> e = Error ''swapAmount must be greater than 0'' \<or>
           0 \<le> n \<and> d = REMOVE \<and> e = BnAssertion \<and>
             (case ty of
                Base \<Rightarrow> n = baseAssetReserve a
              | Quote \<Rightarrow> (n * AMM_TIMES_PEG_TO_QUOTE_PRECISION_RATIO) sdiv pegMultiplier a
                            = quoteAssetReserve a)"
proof (cases "0 \<le> n")
  case False
  then show ?thesis by (auto simp: swap_negative)
next
  case True
  note c = curve_okD [OF assms]
  have s: "0 \<le> (n * AMM_TIMES_PEG_TO_QUOTE_PRECISION_RATIO) sdiv pegMultiplier a"
    using True c by (simp add: less_imp_le)
  show ?thesis
  proof (cases ty)
    case Base
    with True c show ?thesis by (cases d) (auto simp: base_swap_eval Let_def)
  next
    case Quote
    with True c s show ?thesis by (cases d) (auto simp: quote_swap_eval Let_def)
  qed
qed

theorem swap_error_iff_witness:
  "calculateAmmReservesAfterSwap sample_amm Base 10000000000000000 REMOVE = Inl BnAssertion"
  using swap_error_iff [OF sample_curve_ok, of Base 10000000000000000 REMOVE BnAssertion]
  by (simp add:)

text \<open>
  The terminal price, after the net position of the market is closed against the pool, is on
  the side of the mark price where the net position leaves it: not above it for a net long
  market, not below it for a net short one, and equal to it for a flat one.
\<close>

theorem terminal_price_side:
  assumes "initialized m" "curve_ok (amm m)"
    and "- Market.baseAssetAmount m < baseAssetReserve (amm m)"
    and "quoteAssetReserve (amm m) = curve_k (amm m) sdiv baseAssetReserve (amm m)"
  shows "\<exists>p. calculateTerminalPrice m = Inr p \<and>
           (Market.baseAssetAmount m \<ge> 0 \<longrightarrow> p \<le> calculateMarkPrice m) \<and>
           (Market.baseAssetAmount m \<le> 0 \<longrightarrow> calculateMarkPrice m \<le> p)"
proof -
  let ?a = "amm m" and ?n = "Market.baseAssetAmount m"
  note c = curve_okD [OF assms(2)]
  consider "0 < ?n" | "?n < 0" | "?n = 0" by linarith
  then show ?thesis
  proof cases
    case 1
    with assms c reserve_price_le [OF assms(2) 1] show ?thesis
      by (auto simp: calculateTerminalPrice_def directionToClose_def ZERO_def
          base_pool.swap_add calculatePrice_pos_base calculateMarkPrice_def)
  next
    case 2
    with assms c reserve_price_ge [OF assms(2), of "- ?n"] show ?thesis
      by (auto simp: calculateTerminalPrice_def directionToClose_def ZERO_def
          base_pool.swap_remove calculatePrice_pos_base calculateMarkPrice_def)
  next
    case 3
    with assms c show ?thesis
      by (auto simp: calculateTerminalPrice_def directionToClose_def ZERO_def base_remove_Inr
          calculatePrice_pos_base calculateMarkPrice_def)
  qed
qed

theorem terminal_price_side_witness:
  "\<exists>p. calculateTerminalPrice sample_market = Inr p \<and> p \<le> calculateMarkPrice sample_market"
  using terminal_price_side [of sample_market] sample_curve_ok
  by (auto simp: curve_k_def)

end
