(* ===== verification/Position.thy ===== *)
theory Position
  imports Amm
begin

section \<open>Positions: value, profit and funding\<close>

text \<open>
  \<open>sdk/src/math/position.ts\<close>. The value of a position is what closing all of it against the pool
  pays (a long position) or costs (a short one); the unrealised profit compares it with the quote
  amount of the position; the funding profit is the cumulative funding rate since the last
  settlement on the size of the position.
\<close>

subsection \<open>The operations\<close>

definition calculateBaseAssetValue :: "Market \<Rightarrow> UserPosition \<Rightarrow> BN result" where
  "calculateBaseAssetValue market userPosition =
     (if UserPosition.baseAssetAmount userPosition = ZERO then Inr ZERO
      else
        let dir = directionToClose (UserPosition.baseAssetAmount userPosition) in
        bindE (calculateAmmReservesAfterSwap (amm market) Base
                 \<bar>UserPosition.baseAssetAmount userPosition\<bar> (getSwapDirection Base dir))
          (\<lambda>(newQuoteAssetReserve, _).
             case dir of
               SHORT \<Rightarrow>
                 Inr (((quoteAssetReserve (amm market) - newQuoteAssetReserve)
                        * pegMultiplier (amm market)) sdiv AMM_TIMES_PEG_TO_QUOTE_PRECISION_RATIO)
             | LONG \<Rightarrow>
                 Inr (((newQuoteAssetReserve - quoteAssetReserve (amm market))
                        * pegMultiplier (amm market)) sdiv AMM_TIMES_PEG_TO_QUOTE_PRECISION_RATIO)))"

definition calculatePositionFundingPNL :: "Market \<Rightarrow> UserPosition \<Rightarrow> BN" where
  "calculatePositionFundingPNL market marketPosition =
     (if UserPosition.baseAssetAmount marketPosition = ZERO then ZERO
      else
        let ammCumulativeFundingRate =
              (if UserPosition.baseAssetAmount marketPosition > ZERO
               then AMM.cumulativeFundingRateLong (amm market)
               else AMM.cumulativeFundingRateShort (amm market))
        in ((((ammCumulativeFundingRate - lastCumulativeFundingRate marketPosition)
               * UserPosition.baseAssetAmount marketPosition)
              sdiv AMM_RESERVE_PRECISION)
             sdiv FUNDING_PAYMENT_PRECISION) * (-1))"

definition calculatePositionPNL :: "Market \<Rightarrow> UserPosition \<Rightarrow> bool \<Rightarrow> BN result" where
  "calculatePositionPNL market marketPosition withFunding =
     (if UserPosition.baseAssetAmount marketPosition = ZERO then Inr ZERO
      else
        bindE (calculateBaseAssetValue market marketPosition) (\<lambda>baseAssetValue.
          let pnl = (if UserPosition.baseAssetAmount marketPosition > ZERO
                     then baseAssetValue - UserPosition.quoteAssetAmount marketPosition
                     else UserPosition.quoteAssetAmount marketPosition - baseAssetValue - ONE)
          in if withFunding
             then Inr (pnl + calculatePositionFundingPNL market marketPosition
                               sdiv PRICE_TO_QUOTE_PRECISION)
             else Inr pnl))"

definition calculateEntryPrice :: "UserPosition \<Rightarrow> BN" where
  "calculateEntryPrice userPosition =
     (if UserPosition.baseAssetAmount userPosition = ZERO then ZERO
      else \<bar>(UserPosition.quoteAssetAmount userPosition * MARK_PRICE_PRECISION
              * AMM_TO_QUOTE_PRECISION_RATIO) sdiv UserPosition.baseAssetAmount userPosition\<bar>)"

subsection \<open>The value of a position on a well-formed pool\<close>

text \<open>Quote reserve units scaled to the precision of the quote asset.\<close>

definition scaled :: "AMM \<Rightarrow> BN \<Rightarrow> BN" where
  "scaled a q = (q * pegMultiplier a) sdiv AMM_TIMES_PEG_TO_QUOTE_PRECISION_RATIO"

lemma value_cong:
  "UserPosition.baseAssetAmount p = UserPosition.baseAssetAmount q \<Longrightarrow>
     calculateBaseAssetValue m p = calculateBaseAssetValue m q"
  by (simp add: calculateBaseAssetValue_def)

lemma value_flat [simp]:
  "UserPosition.baseAssetAmount p = 0 \<Longrightarrow> calculateBaseAssetValue m p = Inr 0"
  by (simp add: calculateBaseAssetValue_def ZERO_def)

lemma value_long:
  "curve_ok (amm m) \<Longrightarrow> 0 < UserPosition.baseAssetAmount p \<Longrightarrow>
     calculateBaseAssetValue m p
       = Inr (scaled (amm m) (quote_out (amm m) (UserPosition.baseAssetAmount p)))"
  by (simp add: calculateBaseAssetValue_def directionToClose_def ZERO_def Let_def
      base_pool.swap_add scaled_def)

lemma value_short:
  "curve_ok (amm m) \<Longrightarrow> UserPosition.baseAssetAmount p < 0 \<Longrightarrow>
     - UserPosition.baseAssetAmount p < baseAssetReserve (amm m) \<Longrightarrow>
     calculateBaseAssetValue m p
       = Inr (scaled (amm m) (quote_in (amm m) (- UserPosition.baseAssetAmount p)))"
  by (simp add: calculateBaseAssetValue_def directionToClose_def ZERO_def Let_def
      base_pool.swap_remove scaled_def)

text \<open>A position the pool can close: a short one is smaller than the base reserve.\<close>

definition closable :: "Market \<Rightarrow> UserPosition \<Rightarrow> bool" where
  "closable m p \<longleftrightarrow> curve_ok (amm m) \<and>
     - UserPosition.baseAssetAmount p < baseAssetReserve (amm m)"

lemma closable_value:
  assumes "closable m p"
  obtains v where "calculateBaseAssetValue m p = Inr v" "0 \<le> v"
proof -
  have c: "curve_ok (amm m)" using assms by (simp add: closable_def)
  consider "UserPosition.baseAssetAmount p = 0" | "0 < UserPosition.baseAssetAmount p"
    | "UserPosition.baseAssetAmount p < 0" by linarith
  then show ?thesis
  proof cases
    case 1 then show ?thesis by (intro that) auto
  next
    case 2 with c base_pool.value_scaled_nonneg [OF c 2] show ?thesis
      by (intro that) (auto simp: value_long scaled_def)
  next
    case 3 with c assms base_pool.cost_scaled_nonneg [OF c, of "- UserPosition.baseAssetAmount p"]
    show ?thesis by (intro that) (auto simp: value_short scaled_def closable_def)
  qed
qed

lemma closable_pnl:
  assumes "closable m p"
  obtains v where "calculatePositionPNL m p f = Inr v"
proof -
  from assms obtain v where "calculateBaseAssetValue m p = Inr v" by (rule closable_value)
  then have "\<exists>w. calculatePositionPNL m p f = Inr w"
    by (simp add: calculatePositionPNL_def Let_def)
  then show ?thesis using that by blast
qed

subsection \<open>Properties\<close>

text \<open>
  On a well-formed pool the value of a position is defined and never negative, unless the
  position is a short one at least as large as the base reserve.
\<close>

theorem base_value_nonneg:
  assumes "curve_ok (amm m)" "- UserPosition.baseAssetAmount p < baseAssetReserve (amm m)"
  shows "\<exists>v. calculateBaseAssetValue m p = Inr v \<and> 0 \<le> v"
proof -
  from assms have "closable m p" by (simp add: closable_def)
  then obtain v where "calculateBaseAssetValue m p = Inr v" "0 \<le> v" by (rule closable_value)
  then show ?thesis by blast
qed

theorem base_value_nonneg_witness:
  "\<exists>v. calculateBaseAssetValue sample_market sample_position = Inr v \<and> 0 \<le> v"
  using base_value_nonneg [of sample_market sample_position] by simp

text \<open>
  The value grows with the size of the position: the larger of two positions on the same side
  of a well-formed pool is worth at least as much (long) or costs at least as much to close
  (short).
\<close>

theorem base_value_mono:
  assumes "curve_ok (amm m)" "\<bar>UserPosition.baseAssetAmount p\<bar> \<le> \<bar>UserPosition.baseAssetAmount q\<bar>"
    and "0 \<le> UserPosition.baseAssetAmount p * UserPosition.baseAssetAmount q"
    and "- UserPosition.baseAssetAmount q < baseAssetReserve (amm m)"
    and "calculateBaseAssetValue m p = Inr v" "calculateBaseAssetValue m q = Inr w"
  shows "v \<le> w"
proof -
  let ?p = "UserPosition.baseAssetAmount p" and ?q = "UserPosition.baseAssetAmount q"
  have "closable m q" using assms by (simp add: closable_def)
  then have w: "0 \<le> w" using assms(6) by (auto elim: closable_value)
  consider "?p = 0" | "0 < ?p" "?p \<le> ?q" | "?p < 0" "- ?p \<le> - ?q"
    using assms(2,3) by (smt (verit) mult_neg_pos mult_pos_neg)
  then show ?thesis
  proof cases
    case 1 with assms w show ?thesis by simp
  next
    case 2 with assms base_pool.value_scaled_mono [OF assms(1), of ?p ?q] show ?thesis
      by (auto simp: value_long scaled_def)
  next
    case 3 with assms base_pool.cost_scaled_mono [OF assms(1), of "- ?p" "- ?q"] show ?thesis
      by (auto simp: value_short scaled_def)
  qed
qed

theorem base_value_mono_witness:
  "scaled sample_amm (quote_out sample_amm 10000000000000)
     \<le> scaled sample_amm (quote_out sample_amm 20000000000000)"
  using base_value_mono [of sample_market sample_position
      "sample_position\<lparr>UserPosition.baseAssetAmount := 20000000000000\<rparr>"]
  by (simp add: value_long)

text \<open>
  Opening a position at the price of the pool and looking at it right away shows no profit:
  after a swap of \<open>n\<close> units of base asset out of the pool, the long position over \<open>n\<close> with the
  quote amount that was paid has profit 0.
\<close>

theorem open_long_no_profit:
  assumes "curve_ok (amm m)" "0 < n" "n < baseAssetReserve (amm m)"
    and "calculateAmmReservesAfterSwap (amm m) Base n REMOVE = Inr r"
    and "quoteAssetReserve (amm m) = curve_k (amm m) sdiv baseAssetReserve (amm m)"
    and "UserPosition.baseAssetAmount p = n"
    and "UserPosition.quoteAssetAmount p = scaled (amm m) (fst r - quoteAssetReserve (amm m))"
  shows "calculatePositionPNL (m\<lparr>amm := with_reserves (amm m) r\<rparr>) p False = Inr 0"
  using assms
  by (auto simp: calculatePositionPNL_def calculateBaseAssetValue_def directionToClose_def
      Let_def constant_values base_swap_eval curve_k_def scaled_def split: if_splits)

theorem open_long_no_profit_witness:
  "calculatePositionPNL
     (sample_market\<lparr>amm := with_reserves sample_amm (10010010010010010, 9990000000000000)\<rparr>)
     (sample_position\<lparr>UserPosition.quoteAssetAmount := 50050050\<rparr>) False = Inr 0"
  using open_long_no_profit [of sample_market 10000000000000 "(10010010010010010, 9990000000000000)"
      "sample_position\<lparr>UserPosition.quoteAssetAmount := 50050050\<rparr>"]
  by (simp add: base_swap_eval Let_def scaled_def constant_values curve_k_def)

text \<open>
  The funding profit is antisymmetric: against the same cumulative funding rate, the short
  position of the same size receives exactly what the long one pays.
\<close>

theorem funding_pnl_antisym:
  assumes "AMM.cumulativeFundingRateLong (amm m) = AMM.cumulativeFundingRateShort (amm m)"
  shows "calculatePositionFundingPNL m
           (p\<lparr>UserPosition.baseAssetAmount := - UserPosition.baseAssetAmount p\<rparr>) =
         - calculatePositionFundingPNL m p"
  using assms by (simp add: calculatePositionFundingPNL_def Let_def ZERO_def sdiv_minus_left)

theorem funding_pnl_antisym_witness:
  "calculatePositionFundingPNL
      (sample_market\<lparr>amm := sample_amm\<lparr>AMM.cumulativeFundingRateShort := 700000000\<rparr>\<rparr>)
      (sample_position\<lparr>UserPosition.baseAssetAmount := -10000000000000\<rparr>) = 20000"
  using funding_pnl_antisym
    [of "sample_market\<lparr>amm := sample_amm\<lparr>AMM.cumulativeFundingRateShort := 700000000\<rparr>\<rparr>"
      sample_position]
  by (simp add: calculatePositionFundingPNL_def Let_def constant_values)

text \<open>The cumulative rate of the position's side.\<close>

definition sideFundingRate :: "Market \<Rightarrow> UserPosition \<Rightarrow> BN" where
  "sideFundingRate m p =
     (if 0 < UserPosition.baseAssetAmount p then AMM.cumulativeFundingRateLong (amm m)
      else AMM.cumulativeFundingRateShort (amm m))"

text \<open>
  Funding has the direction the rates say: when the cumulative rate of the position's side has
  grown since the last settlement a long position does not gain and a short one does not lose,
  and the other way round when it has fallen.
\<close>

theorem funding_pnl_direction:
  "(0 \<le> (sideFundingRate m p - lastCumulativeFundingRate p) * UserPosition.baseAssetAmount p \<longrightarrow>
      calculatePositionFundingPNL m p \<le> 0) \<and>
   ((sideFundingRate m p - lastCumulativeFundingRate p) * UserPosition.baseAssetAmount p \<le> 0 \<longrightarrow>
      0 \<le> calculatePositionFundingPNL m p)"
  by (simp add: calculatePositionFundingPNL_def sideFundingRate_def Let_def ZERO_def sdiv_nonpos)

theorem funding_pnl_direction_witness: "calculatePositionFundingPNL sample_market sample_position \<le> 0"
  using funding_pnl_direction [of sample_market sample_position] by (simp add: sideFundingRate_def)

end
