(* ===== verification/Conversion.thy ===== *)
theory Conversion
  imports Complex_Main Amm
begin

section \<open>Big numbers as floating point numbers\<close>

text \<open>
  \<open>sdk/src/math/conversion.ts\<close>. The integer part and the fraction are converted separately and
  added. The two floating point operations (the division and the addition) round with \<open>fl\<close>, an
  argument of the model: the theorems that mention the value say what \<open>fl\<close> must satisfy. An
  \<open>undefined\<close> argument (\<open>None\<close>) gives 0.
\<close>

definition convertToNumber :: "(rat \<Rightarrow> rat) \<Rightarrow> BN option \<Rightarrow> BN \<Rightarrow> rat result" where
  "convertToNumber fl bigNumber precision =
     (case bigNumber of
        None \<Rightarrow> Inr 0
      | Some b \<Rightarrow>
          bindE (bindE (bn_div b precision) bn_toNumber) (\<lambda>whole.
            bindE (bindE (bn_mod b precision) bn_toNumber) (\<lambda>rest.
              bindE (bn_toNumber precision) (\<lambda>p.
                Inr (fl (of_int whole + fl (of_int rest / of_int p)))))))"

text \<open>\<open>new BN(x)\<close> of a number cuts the fraction off and asserts \<open>x < 2 ^ 53\<close>.\<close>

definition bn_of_number :: "rat \<Rightarrow> BN result" where
  "bn_of_number x =
     (if \<bar>x\<bar> < 2 ^ 53 then Inr (if x < 0 then - \<lfloor>- x\<rfloor> else \<lfloor>x\<rfloor>) else Inl BnAssertion)"

definition convertBaseAssetAmountToNumber :: "(rat \<Rightarrow> rat) \<Rightarrow> BN \<Rightarrow> rat result" where
  "convertBaseAssetAmountToNumber fl baseAmount =
     convertToNumber fl (Some baseAmount) (MARK_PRICE_PRECISION * PEG_PRECISION)"

lemma sdiv_smod_eq: "b smod p + p * (b sdiv p) = (b :: int)"
  using smod_mult_sdiv_eq [of b p] by (simp add: mult.commute)

lemma sdiv_smod_split:
  "p \<noteq> 0 \<Longrightarrow> (of_int (b sdiv p) + of_int (b smod p) / of_int p :: rat) = of_int b / of_int p"
  by (simp add: field_simps sdiv_smod_eq flip: of_int_mult of_int_add)

lemma smod_bound:
  assumes "0 < p"
  shows "\<bar>(b :: int) smod p\<bar> < p"
  using assms smod_int_range [of p b] by auto

text \<open>
  For a precision that is a safe number, the conversion fails exactly when the integer part of
  the quotient is not a safe number, and otherwise returns the two roundings of the exact quotient
  \<open>b / precision\<close> split into integer part and fraction; with exact arithmetic it is the quotient.
\<close>

theorem convertToNumber_value:
  assumes "0 < precision" "precision < 2 ^ 53"
  shows "convertToNumber fl (Some b) precision =
           (if \<bar>b sdiv precision\<bar> < 2 ^ 53
            then Inr (fl (of_int (b sdiv precision) + fl (of_int (b smod precision) / of_int precision)))
            else Inl BnAssertion) \<and>
         (\<bar>b sdiv precision\<bar> < 2 ^ 53 \<longrightarrow>
            convertToNumber id (Some b) precision = Inr (of_int b / of_int precision))"
  using assms smod_bound [of precision b]
  by (auto simp: convertToNumber_def bn_toNumber_def sdiv_smod_split)

theorem convertToNumber_value_witness:
  "convertToNumber id (Some (calculateMarkPrice sample_market + 5000000000)) MARK_PRICE_PRECISION
     = Inr (101 / 2)"
  using convertToNumber_value
    [of MARK_PRICE_PRECISION id "calculateMarkPrice sample_market + 5000000000"]
  by (simp add: constant_values calculateMarkPrice_def calculatePrice_def)

end
