(* ===== verification/AmmCost.thy ===== *)
theory AmmCost
  imports Position Conversion
begin

section \<open>The cost of changing the curve\<close>

text \<open>
  The helpers of \<open>sdk/src/math/amm.ts\<close> that price a change of the market maker by its effect on
  the net position of all users: \<open>calculateAdjustKCost\<close> scales the reserves and \<open>sqrtK\<close> by a
  fraction, \<open>calculateRepegCost\<close> moves the peg. Both value the net position before the change and
  return its profit after it. \<open>calculateRepegCost\<close> also logs the two prices, and the conversion of
  the logged prices can fail.
\<close>

definition netUserPosition :: "Market \<Rightarrow> BN \<Rightarrow> BN \<Rightarrow> UserPosition" where
  "netUserPosition market index quoteAmount =
     \<lparr>UserPosition.baseAssetAmount = Market.baseAssetAmount market,
      lastCumulativeFundingRate = cumulativeFundingRate (amm market),
      UserPosition.marketIndex = index,
      UserPosition.quoteAssetAmount = quoteAmount\<rparr>"

definition calculateAdjustKCost :: "Market \<Rightarrow> BN \<Rightarrow> BN \<Rightarrow> BN \<Rightarrow> BN result" where
  "calculateAdjustKCost market index numerator denomenator =
     bindE (calculateBaseAssetValue market (netUserPosition market index 0)) (\<lambda>currentValue.
       bindE (bn_div (baseAssetReserve (amm market) * numerator) denomenator) (\<lambda>newBase.
         bindE (bn_div (quoteAssetReserve (amm market) * numerator) denomenator) (\<lambda>newQuote.
           bindE (bn_div (sqrtK (amm market) * numerator) denomenator) (\<lambda>newSqrtK.
             let marketNewK = market\<lparr>amm := (amm market)
                   \<lparr>baseAssetReserve := newBase, quoteAssetReserve := newQuote, sqrtK := newSqrtK\<rparr>\<rparr>
             in calculatePositionPNL marketNewK (netUserPosition market index currentValue) False))))"

definition calculateRepegCost :: "(rat \<Rightarrow> rat) \<Rightarrow> Market \<Rightarrow> BN \<Rightarrow> BN \<Rightarrow> BN result" where
  "calculateRepegCost fl market index newPeg =
     bindE (calculateBaseAssetValue market (netUserPosition market index 0)) (\<lambda>currentValue.
       let marketNewPeg = market\<lparr>amm := (amm market)\<lparr>pegMultiplier := newPeg\<rparr>\<rparr>
       in bindE (convertToNumber fl (Some (calculateMarkPrice market)) MARK_PRICE_PRECISION) (\<lambda>_.
            bindE (convertToNumber fl (Some (calculateMarkPrice marketNewPeg)) MARK_PRICE_PRECISION)
              (\<lambda>_.
                calculatePositionPNL marketNewPeg (netUserPosition market index currentValue) False)))"

lemma netUserPosition_simps [simp]:
  "UserPosition.baseAssetAmount (netUserPosition m i q) = Market.baseAssetAmount m"
  "UserPosition.quoteAssetAmount (netUserPosition m i q) = q"
  by (simp_all add: netUserPosition_def)

subsection \<open>The logged prices\<close>

text \<open>A price below \<open>2 ^ 53\<close> units of quote asset can be logged.\<close>

definition loggable :: "Market \<Rightarrow> bool" where
  "loggable m \<longleftrightarrow> \<bar>calculateMarkPrice m sdiv MARK_PRICE_PRECISION\<bar> < 2 ^ 53"

lemma loggable_convert:
  "loggable m \<Longrightarrow> \<exists>v. convertToNumber fl (Some (calculateMarkPrice m)) MARK_PRICE_PRECISION = Inr v"
  using smod_bound [of MARK_PRICE_PRECISION "calculateMarkPrice m"]
  by (auto simp: loggable_def convertToNumber_def bn_toNumber_def constant_values)

lemma repeg_cost_eq:
  assumes "loggable m" "loggable (m\<lparr>amm := (amm m)\<lparr>pegMultiplier := newPeg\<rparr>\<rparr>)"
  shows "calculateRepegCost fl m i newPeg =
           bindE (calculateBaseAssetValue m (netUserPosition m i 0)) (\<lambda>v.
             calculatePositionPNL (m\<lparr>amm := (amm m)\<lparr>pegMultiplier := newPeg\<rparr>\<rparr>)
               (netUserPosition m i v) False)"
proof -
  from loggable_convert [OF assms(1), of fl] loggable_convert [OF assms(2), of fl]
  obtain v w where
    "convertToNumber fl (Some (calculateMarkPrice m)) MARK_PRICE_PRECISION = Inr v"
    "convertToNumber fl (Some (calculateMarkPrice (m\<lparr>amm := (amm m)\<lparr>pegMultiplier := newPeg\<rparr>\<rparr>)))
       MARK_PRICE_PRECISION = Inr w" by blast
  then show ?thesis by (simp add: calculateRepegCost_def Let_def)
qed

subsection \<open>Properties\<close>

text \<open>
  A repeg to a higher peg is never a gain for the protocol against a net long market, a repeg
  to a lower peg never a loss: the cost of the new peg lies on the side of the difference of the
  pegs. (The cost is the profit of the users' net position.)
\<close>

theorem repeg_cost_sign_long:
  assumes "curve_ok (amm m)" "0 < Market.baseAssetAmount m" "0 < newPeg"
    and "loggable m" "loggable (m\<lparr>amm := (amm m)\<lparr>pegMultiplier := newPeg\<rparr>\<rparr>)"
  shows "\<exists>c. calculateRepegCost fl m i newPeg = Inr c \<and>
           (pegMultiplier (amm m) \<le> newPeg \<longrightarrow> 0 \<le> c) \<and> (newPeg \<le> pegMultiplier (amm m) \<longrightarrow> c \<le> 0)"
proof -
  let ?n = "Market.baseAssetAmount m" and ?a = "amm m"
  let ?m' = "m\<lparr>amm := ?a\<lparr>pegMultiplier := newPeg\<rparr>\<rparr>"
  have c': "curve_ok (amm ?m')" using assms by (simp add: curve_ok_def curve_k_def)
  have out: "quote_out (amm ?m') ?n = quote_out ?a ?n" by (simp add: quote_out_def curve_k_def)
  have q: "0 \<le> quote_out ?a ?n" using base_pool.out_add_range [OF assms(1,2)] by simp
  have v: "calculateBaseAssetValue m (netUserPosition m i 0) = Inr (scaled ?a (quote_out ?a ?n))"
    using assms by (simp add: value_long)
  have "calculateBaseAssetValue ?m' (netUserPosition m i w)
      = Inr (scaled (amm ?m') (quote_out ?a ?n))" for w
    using assms c' out value_long [of ?m' "netUserPosition m i w"] by simp
  then have "calculateRepegCost fl m i newPeg
      = Inr (scaled (amm ?m') (quote_out ?a ?n) - scaled ?a (quote_out ?a ?n))"
    using v assms by (simp add: repeg_cost_eq calculatePositionPNL_def constant_values
        Let_def)
  moreover have "pegMultiplier ?a \<le> newPeg \<Longrightarrow>
      scaled ?a (quote_out ?a ?n) \<le> scaled (amm ?m') (quote_out ?a ?n)"
    using q by (auto simp: scaled_def intro!: sdiv_mono mult_left_mono)
  moreover have "newPeg \<le> pegMultiplier ?a \<Longrightarrow>
      scaled (amm ?m') (quote_out ?a ?n) \<le> scaled ?a (quote_out ?a ?n)"
    using q by (auto simp: scaled_def intro!: sdiv_mono mult_left_mono)
  ultimately show ?thesis by simp
qed

theorem repeg_cost_sign_long_witness:
  "\<exists>c. calculateRepegCost id sample_market 0 51000 = Inr c \<and> 0 \<le> c"
  using repeg_cost_sign_long [of sample_market 51000 id 0]
  by (auto simp: loggable_def calculateMarkPrice_def calculatePrice_def constant_values)

text \<open>
  Changing the curve to itself costs nothing but the rounding unit that a short position is
  always charged: scaling by \<open>n / n\<close> costs 0 for a flat or a net long market and \<open>-1\<close> for a net
  short one.
\<close>

theorem adjust_k_identity:
  assumes "curve_ok (amm m)" "- Market.baseAssetAmount m < baseAssetReserve (amm m)" "0 < n"
  shows "calculateAdjustKCost m i n n = Inr (if Market.baseAssetAmount m < 0 then -1 else 0)"
proof -
  let ?p = "netUserPosition m i"
  have "closable m (?p 0)" using assms by (simp add: closable_def netUserPosition_def)
  then obtain v where v: "calculateBaseAssetValue m (?p 0) = Inr v" by (rule closable_value)
  then have "calculateBaseAssetValue m (?p w) = Inr v" for w
    using value_cong [of "?p w" "?p 0" m] by (simp add: netUserPosition_def)
  with v assms show ?thesis
    by (auto simp: calculateAdjustKCost_def calculatePositionPNL_def Let_def constant_values)
qed

theorem adjust_k_identity_witness: "calculateAdjustKCost sample_market 0 3 3 = Inr 0"
  using adjust_k_identity [of sample_market 3 0] by simp

end
