(* ===== verification/User.thy ===== *)
theory User
  imports Position
begin

section \<open>ClearingHouseUser: collateral, margin and liquidation\<close>

text \<open>
  The first part of \<open>sdk/src/clearingHouseUser.ts\<close>: the class reads the accounts of the user and
  of the clearing house through its subscribers and derives from them the collateral, the value
  of the positions, leverage, margin ratio and whether the user can be liquidated.

  The record \<open>UserView\<close> holds what the four getters of the subscribers return (each may throw
  \<open>NotSubscribedError\<close>). Every method is a function of it. An index without a market gives
  \<open>undefined\<close>, which only throws when a property of it is read.
\<close>

record UserView =
  userAccount :: "UserAccount result"
  userPositionsAccount :: "UserPositionsAccount result"
  stateAccount :: "StateAccount result"
  marketsAccount :: "MarketsAccount result"

subsection \<open>Looking up markets and positions\<close>

text \<open>\<open>ClearingHouse.getMarket\<close>.\<close>

definition getMarket :: "UserView \<Rightarrow> BN \<Rightarrow> Market option result" where
  "getMarket u mi =
     bindE (bn_toNumber mi) (\<lambda>i.
       bindE (marketsAccount u) (\<lambda>ma. Inr (js_index (MarketsAccount.markets ma) i)))"

definition userPositions :: "UserView \<Rightarrow> UserPosition list result" where
  "userPositions u = mapE UserPositionsAccount.positions (userPositionsAccount u)"

definition getUserPosition :: "UserView \<Rightarrow> BN \<Rightarrow> UserPosition option result" where
  "getUserPosition u mi = mapE (find (\<lambda>p. marketIndex p = mi)) (userPositions u)"

definition getEmptyPosition :: "BN \<Rightarrow> UserPosition" where
  "getEmptyPosition mi = \<lparr>
     UserPosition.baseAssetAmount = ZERO, lastCumulativeFundingRate = ZERO,
     marketIndex = mi, UserPosition.quoteAssetAmount = ZERO\<rparr>"

text \<open>\<open>this.getUserPosition(i) || this.getEmptyPosition(i)\<close>.\<close>

definition positionOrEmpty :: "UserView \<Rightarrow> BN \<Rightarrow> UserPosition result" where
  "positionOrEmpty u mi =
     mapE (\<lambda>p. case p of None \<Rightarrow> getEmptyPosition mi | Some q \<Rightarrow> q) (getUserPosition u mi)"

text \<open>
  The three functions of \<open>math/position.ts\<close> on a market that may be \<open>undefined\<close>: they return
  before they read the market when the position is empty.
\<close>

definition baseAssetValueIn :: "Market option \<Rightarrow> UserPosition \<Rightarrow> BN result" where
  "baseAssetValueIn m p =
     (if UserPosition.baseAssetAmount p = ZERO then Inr ZERO
      else bindE (deref m) (\<lambda>market. calculateBaseAssetValue market p))"

definition positionPNLIn :: "bool \<Rightarrow> Market option \<Rightarrow> UserPosition \<Rightarrow> BN result" where
  "positionPNLIn withFunding m p =
     (if UserPosition.baseAssetAmount p = ZERO then Inr ZERO
      else bindE (deref m) (\<lambda>market. calculatePositionPNL market p withFunding))"

definition positionFundingPNLIn :: "Market option \<Rightarrow> UserPosition \<Rightarrow> BN result" where
  "positionFundingPNLIn m p =
     (if UserPosition.baseAssetAmount p = ZERO then Inr ZERO
      else bindE (deref m) (\<lambda>market. Inr (calculatePositionFundingPNL market p)))"

text \<open>The \<open>reduce\<close> over positions that the totals share.\<close>

definition sumPositions ::
  "(Market option \<Rightarrow> UserPosition \<Rightarrow> BN result) \<Rightarrow> UserView \<Rightarrow> UserPosition list \<Rightarrow> BN result" where
  "sumPositions f u ps =
     foldE (\<lambda>acc p. bindE (bindE (getMarket u (marketIndex p)) (\<lambda>m. f m p)) (\<lambda>v. Inr (acc + v)))
       ZERO ps"

subsection \<open>Profit and collateral\<close>

text \<open>
  The optional market argument of the two profit functions is compared with \<open>===\<close>, which is the
  identity of objects: \<open>FreshIndex\<close> is a \<open>BN\<close> object of the caller's, \<open>IndexOfPosition n\<close> the
  index object stored in the \<open>n\<close>-th position of the account itself.
\<close>

datatype IndexArgument = NoIndex | FreshIndex BN | IndexOfPosition nat

fun selectedBy :: "IndexArgument \<Rightarrow> nat \<Rightarrow> bool" where
  "selectedBy NoIndex n = True"
| "selectedBy (FreshIndex mi) n = False"
| "selectedBy (IndexOfPosition k) n = (n = k)"

definition selectPositions :: "IndexArgument \<Rightarrow> UserPosition list \<Rightarrow> UserPosition list" where
  "selectPositions arg ps = map snd (filter (\<lambda>(n, p). selectedBy arg n) (enumerate 0 ps))"

definition getUnrealizedPNL :: "UserView \<Rightarrow> bool \<Rightarrow> IndexArgument \<Rightarrow> BN result" where
  "getUnrealizedPNL u withFunding arg =
     bindE (userPositions u) (\<lambda>ps. sumPositions (positionPNLIn withFunding) u (selectPositions arg ps))"

definition getUnrealizedFundingPNL :: "UserView \<Rightarrow> IndexArgument \<Rightarrow> BN result" where
  "getUnrealizedFundingPNL u arg =
     bindE (userPositions u) (\<lambda>ps. sumPositions positionFundingPNLIn u (selectPositions arg ps))"

definition getTotalCollateral :: "UserView \<Rightarrow> BN result" where
  "getTotalCollateral u =
     bindE (userAccount u) (\<lambda>ua.
       bindE (getUnrealizedPNL u True NoIndex) (\<lambda>pnl. Inr (collateral ua + pnl)))"

definition getTotalPositionValue :: "UserView \<Rightarrow> BN result" where
  "getTotalPositionValue u = bindE (userPositions u) (sumPositions baseAssetValueIn u)"

definition getPositionValue :: "UserView \<Rightarrow> BN \<Rightarrow> BN result" where
  "getPositionValue u mi =
     bindE (positionOrEmpty u mi) (\<lambda>userPosition.
       bindE (getMarket u (marketIndex userPosition)) (\<lambda>m. baseAssetValueIn m userPosition))"

definition getPositionSide :: "UserPosition \<Rightarrow> PositionDirection option" where
  "getPositionSide p =
     (if UserPosition.baseAssetAmount p > ZERO then Some LONG
      else if UserPosition.baseAssetAmount p < ZERO then Some SHORT
      else None)"

text \<open>The result is \<open>[exitPrice, pnl]\<close>.\<close>

definition getPositionEstimatedExitPriceAndPnl ::
  "UserView \<Rightarrow> UserPosition \<Rightarrow> BN option \<Rightarrow> (BN \<times> BN) result" where
  "getPositionEstimatedExitPriceAndPnl u position amountToClose =
     bindE (getMarket u (marketIndex position)) (\<lambda>m.
       let entryPrice = calculateEntryPrice position in
       if amountToClose = Some ZERO then bindE (deref m) (\<lambda>market. Inr (calculateMarkPrice market, ZERO))
       else
         let p = (case amountToClose of
                    None \<Rightarrow> position
                  | Some amt \<Rightarrow> position\<lparr>UserPosition.baseAssetAmount := amt\<rparr>) in
         bindE (baseAssetValueIn m p) (\<lambda>baseAssetValue.
           if UserPosition.baseAssetAmount p = ZERO then Inr (ZERO, ZERO)
           else
             bindE (bn_div (baseAssetValue * AMM_TO_QUOTE_PRECISION_RATIO * MARK_PRICE_PRECISION)
                      \<bar>UserPosition.baseAssetAmount p\<bar>) (\<lambda>exitPrice.
               let pnlPerBase = exitPrice - entryPrice;
                   pnl = ((pnlPerBase * UserPosition.baseAssetAmount p) sdiv MARK_PRICE_PRECISION)
                           sdiv AMM_TO_QUOTE_PRECISION_RATIO
               in Inr (exitPrice, pnl))))"

subsection \<open>Leverage and margin\<close>

datatype MarginCategory = Initial | Partial | Maintenance

definition getMaxLeverage :: "UserView \<Rightarrow> MarginCategory option \<Rightarrow> BN result" where
  "getMaxLeverage u category =
     bindE (stateAccount u) (\<lambda>chState.
       let marginRatioCategory =
             (case category of
                Some Initial \<Rightarrow> marginRatioInitial chState
              | Some Maintenance \<Rightarrow> marginRatioMaintenance chState
              | Some Partial \<Rightarrow> marginRatioPartial chState
              | None \<Rightarrow> marginRatioInitial chState)
       in bn_div (TEN_THOUSAND * TEN_THOUSAND) marginRatioCategory)"

definition getFreeCollateral :: "UserView \<Rightarrow> BN result" where
  "getFreeCollateral u =
     bindE (getTotalCollateral u) (\<lambda>tc.
       bindE (getTotalPositionValue u) (\<lambda>tpv.
         bindE (getMaxLeverage u (Some Initial)) (\<lambda>ml.
           bindE (bn_div (tpv * TEN_THOUSAND) ml) (\<lambda>used. Inr (tc - used)))))"

definition getBuyingPower :: "UserView \<Rightarrow> BN result" where
  "getBuyingPower u =
     bindE (getFreeCollateral u) (\<lambda>fc.
       bindE (getMaxLeverage u (Some Initial)) (\<lambda>ml. bn_div (fc * ml) TEN_THOUSAND))"

definition getLeverage :: "UserView \<Rightarrow> BN result" where
  "getLeverage u =
     bindE (getTotalCollateral u) (\<lambda>totalCollateral.
       bindE (getTotalPositionValue u) (\<lambda>totalPositionValue.
         if totalPositionValue = ZERO \<and> totalCollateral = ZERO then Inr ZERO
         else bn_div (totalPositionValue * TEN_THOUSAND) totalCollateral))"

definition getMarginRatio :: "UserView \<Rightarrow> BN result" where
  "getMarginRatio u =
     bindE (getTotalPositionValue u) (\<lambda>totalPositionValue.
       if totalPositionValue = ZERO then Inr BN_MAX
       else bindE (getTotalCollateral u) (\<lambda>tc. bn_div (tc * TEN_THOUSAND) totalPositionValue))"

definition canBeLiquidated :: "UserView \<Rightarrow> (bool \<times> BN) result" where
  "canBeLiquidated u =
     bindE (getMarginRatio u) (\<lambda>marginRatio.
       let canLiquidate = (marginRatio \<le> PARTIAL_LIQUIDATION_RATIO)
       in Inr (canLiquidate, marginRatio))"

text \<open>The loop of \<open>needsToSettleFundingPayment\<close>, over the markets and the remaining positions.\<close>

fun needsToSettleLoop :: "Market list \<Rightarrow> UserPosition list \<Rightarrow> bool result" where
  "needsToSettleLoop ms [] = Inr False"
| "needsToSettleLoop ms (p # ps) =
     (if UserPosition.baseAssetAmount p = ZERO then needsToSettleLoop ms ps
      else
        bindE (bn_toNumber (marketIndex p)) (\<lambda>i.
          bindE (deref (js_index ms i)) (\<lambda>market.
            if AMM.cumulativeFundingRateLong (amm market) = lastCumulativeFundingRate p \<or>
               AMM.cumulativeFundingRateShort (amm market) = lastCumulativeFundingRate p
            then needsToSettleLoop ms ps
            else Inr True)))"

definition needsToSettleFundingPayment :: "UserView \<Rightarrow> bool result" where
  "needsToSettleFundingPayment u =
     bindE (marketsAccount u) (\<lambda>ma.
       bindE (userPositions u) (\<lambda>ps. needsToSettleLoop (MarketsAccount.markets ma) ps))"

definition calculateFeeForQuoteAmount :: "UserView \<Rightarrow> BN \<Rightarrow> BN result" where
  "calculateFeeForQuoteAmount u quoteAmount =
     bindE (stateAccount u) (\<lambda>st.
       bn_div (quoteAmount * feeNumerator (feeStructure st)) (feeDenominator (feeStructure st)))"

definition getTotalPositionValueExcludingMarket :: "UserView \<Rightarrow> BN \<Rightarrow> BN result" where
  "getTotalPositionValueExcludingMarket u marketToIgnore =
     bindE (positionOrEmpty u marketToIgnore) (\<lambda>currentMarketPosition.
       bindE (getPositionValue u marketToIgnore) (\<lambda>currentMarketPositionValueUSDC.
         bindE (getTotalPositionValue u) (\<lambda>tpv. Inr (tpv - currentMarketPositionValueUSDC))))"

subsection \<open>Accounts a subscribed user sees\<close>

text \<open>All four getters return: the account, the position slots, the state and the markets.\<close>

definition sees ::
  "UserView \<Rightarrow> UserAccount \<Rightarrow> UserPosition list \<Rightarrow> StateAccount \<Rightarrow> Market list \<Rightarrow> bool" where
  "sees u ua ps st ms \<longleftrightarrow>
     userAccount u = Inr ua \<and> userPositions u = Inr ps \<and> stateAccount u = Inr st \<and>
     mapE MarketsAccount.markets (marketsAccount u) = Inr ms"

text \<open>
  Every slot has an index that is a safe number, and an open position is in a market of the list
  whose pool can close it.
\<close>

definition indexOk :: "UserPosition \<Rightarrow> bool" where
  "indexOk p \<longleftrightarrow> \<bar>marketIndex p\<bar> < 2 ^ 53"

definition positionOk :: "Market list \<Rightarrow> UserPosition \<Rightarrow> bool" where
  "positionOk ms p \<longleftrightarrow> indexOk p \<and>
     (UserPosition.baseAssetAmount p \<noteq> 0 \<longrightarrow>
        (case js_index ms (marketIndex p) of None \<Rightarrow> False | Some m \<Rightarrow> closable m p))"

definition positionsOk :: "Market list \<Rightarrow> UserPosition list \<Rightarrow> bool" where
  "positionsOk ms ps \<longleftrightarrow> list_all (positionOk ms) ps"

text \<open>
  The slots of an account: the program opens a position in the first free slot, so a slot of a
  market comes before an open position in it only when it is that position.
\<close>

fun slotsOk :: "UserPosition list \<Rightarrow> bool" where
  "slotsOk [] = True"
| "slotsOk (p # ps) \<longleftrightarrow>
     list_all (\<lambda>q. UserPosition.baseAssetAmount q \<noteq> 0 \<longrightarrow> marketIndex q \<noteq> marketIndex p) ps \<and> slotsOk ps"

text \<open>The amount a position contributes to a total.\<close>

definition amountOf ::
  "(Market option \<Rightarrow> UserPosition \<Rightarrow> BN result) \<Rightarrow> Market list \<Rightarrow> UserPosition \<Rightarrow> BN" where
  "amountOf f ms p =
     (case f (js_index ms (marketIndex p)) p of Inl _ \<Rightarrow> 0 | Inr v \<Rightarrow> v)"

abbreviation totalOf ::
  "(Market option \<Rightarrow> UserPosition \<Rightarrow> BN result) \<Rightarrow> Market list \<Rightarrow> UserPosition list \<Rightarrow> BN" where
  "totalOf f ms ps \<equiv> (\<Sum>p\<leftarrow>ps. amountOf f ms p)"

lemma seesD:
  assumes "sees u ua ps st ms"
  shows "userAccount u = Inr ua" "userPositions u = Inr ps" "stateAccount u = Inr st"
    and "mapE MarketsAccount.markets (marketsAccount u) = Inr ms"
  using assms by (simp_all add: sees_def)

lemma getMarket_eq:
  assumes "mapE MarketsAccount.markets (marketsAccount u) = Inr ms"
  shows "getMarket u mi = (if \<bar>mi\<bar> < 2 ^ 53 then Inr (js_index ms mi) else Inl BnAssertion)"
  using assms by (auto simp: getMarket_def bn_toNumber_def mapE_Inr_iff)

lemma selectPositions_all [simp]: "selectPositions NoIndex ps = ps"
  by (simp add: selectPositions_def)

lemma selectPositions_fresh [simp]: "selectPositions (FreshIndex mi) ps = []"
  by (simp add: selectPositions_def split_def)

subsection \<open>Totals over the positions\<close>

text \<open>
  The contract of the three functions the totals add up: an empty position counts nothing, even
  without a market, and a position the pool can close has an amount.
\<close>

locale position_total =
  fixes f :: "Market option \<Rightarrow> UserPosition \<Rightarrow> BN result"
  assumes flat: "UserPosition.baseAssetAmount p = 0 \<Longrightarrow> f mo p = Inr 0"
    and defined: "closable m p \<Longrightarrow> \<exists>v. f (Some m) p = Inr v"
begin

lemma amount_flat: "UserPosition.baseAssetAmount p = 0 \<Longrightarrow> amountOf f ms p = 0"
  by (simp add: amountOf_def flat)

lemma amount_defined: "positionOk ms p \<Longrightarrow> f (js_index ms (marketIndex p)) p = Inr (amountOf f ms p)"
  by (cases "UserPosition.baseAssetAmount p = 0")
    (auto simp: amountOf_def flat positionOk_def split: option.splits dest: defined)

lemma market_amount:
  "sees u ua ps st ms \<Longrightarrow> positionOk ms p \<Longrightarrow>
     bindE (getMarket u (marketIndex p)) (\<lambda>m. f m p) = Inr (amountOf f ms p)"
  by (simp add: getMarket_eq [OF seesD(4)] amount_defined) (simp add: positionOk_def indexOk_def)

lemma total_defined:
  "sees u ua ps st ms \<Longrightarrow> positionsOk ms qs \<Longrightarrow> sumPositions f u qs = Inr (totalOf f ms qs)"
  unfolding sumPositions_def
  by (subst foldE_add_Inr [where h = "amountOf f ms"])
    (auto simp: market_amount positionsOk_def list_all_iff ZERO_def)

lemma total_flat:
  assumes "mapE MarketsAccount.markets (marketsAccount u) = Inr ms"
    and "\<forall>p \<in> set ps. UserPosition.baseAssetAmount p = 0 \<and> indexOk p"
  shows "sumPositions f u ps = Inr 0"
  unfolding sumPositions_def using assms
  by (subst foldE_add_Inr [where h = "\<lambda>_. 0"]) (auto simp: getMarket_eq flat indexOk_def ZERO_def)

lemma total_split:
  "slotsOk ps \<Longrightarrow>
     totalOf f ms ps =
       (case find (\<lambda>p. marketIndex p = mi) ps of None \<Rightarrow> 0 | Some p \<Rightarrow> amountOf f ms p) +
       totalOf f ms (filter (\<lambda>p. marketIndex p \<noteq> mi) ps)"
proof (induction ps)
  case (Cons p ps)
  have "totalOf f ms ps = totalOf f ms (filter (\<lambda>q. marketIndex q \<noteq> marketIndex p) ps)"
    if "list_all (\<lambda>q. UserPosition.baseAssetAmount q \<noteq> 0 \<longrightarrow> marketIndex q \<noteq> marketIndex p) ps"
    using that by (induction ps) (auto simp: amount_flat)
  with Cons show ?case by auto
qed simp

end

text \<open>The value of the positions is also never negative, so a part never exceeds the total.\<close>

locale nonneg_total = position_total +
  assumes nonneg: "closable m p \<Longrightarrow> f (Some m) p = Inr v \<Longrightarrow> 0 \<le> v"
begin

lemma amount_nonneg: "positionOk ms p \<Longrightarrow> 0 \<le> amountOf f ms p"
  using amount_defined [of ms p]
  by (cases "UserPosition.baseAssetAmount p = 0")
    (auto simp: amount_flat positionOk_def split: option.splits dest: nonneg)

lemma total_nonneg: "positionsOk ms ps \<Longrightarrow> 0 \<le> totalOf f ms ps"
  unfolding positionsOk_def by (induction ps) (auto simp: amount_nonneg)

lemma part_le_total: "positionsOk ms ps \<Longrightarrow> p \<in> set ps \<Longrightarrow> amountOf f ms p \<le> totalOf f ms ps"
proof (induction ps)
  case (Cons q ps)
  then have "0 \<le> amountOf f ms q" "0 \<le> totalOf f ms ps" "positionsOk ms ps"
    using total_nonneg [of ms ps] by (auto simp: positionsOk_def amount_nonneg)
  with Cons show ?case by auto
qed simp

end

interpretation value_total: nonneg_total baseAssetValueIn
proof
  show "closable m p \<Longrightarrow> \<exists>v. baseAssetValueIn (Some m) p = Inr v" for m p
    by (auto simp: baseAssetValueIn_def elim: closable_value)
  show "closable m p \<Longrightarrow> baseAssetValueIn (Some m) p = Inr v \<Longrightarrow> 0 \<le> v" for m p v
    by (auto simp: baseAssetValueIn_def ZERO_def split: if_splits elim: closable_value)
qed (simp add: baseAssetValueIn_def ZERO_def)

interpretation pnl_total: position_total "positionPNLIn withFunding" for withFunding
  by unfold_locales (auto simp: positionPNLIn_def ZERO_def elim: closable_pnl)

interpretation funding_total: position_total positionFundingPNLIn
  by unfold_locales (auto simp: positionFundingPNLIn_def ZERO_def)

text \<open>The totals of a user whose positions can all be closed.\<close>

abbreviation valueTotal :: "Market list \<Rightarrow> UserPosition list \<Rightarrow> BN" where
  "valueTotal \<equiv> totalOf baseAssetValueIn"

abbreviation collateralTotal :: "UserAccount \<Rightarrow> Market list \<Rightarrow> UserPosition list \<Rightarrow> BN" where
  "collateralTotal ua ms ps \<equiv> collateral ua + totalOf (positionPNLIn True) ms ps"

lemma total_value_eq:
  "sees u ua ps st ms \<Longrightarrow> positionsOk ms ps \<Longrightarrow> getTotalPositionValue u = Inr (valueTotal ms ps)"
  by (simp add: getTotalPositionValue_def seesD value_total.total_defined)

lemma total_collateral_eq:
  "sees u ua ps st ms \<Longrightarrow> positionsOk ms ps \<Longrightarrow> getTotalCollateral u = Inr (collateralTotal ua ms ps)"
  by (simp add: getTotalCollateral_def getUnrealizedPNL_def seesD pnl_total.total_defined)

lemmas user_totals = total_value_eq total_collateral_eq

lemma find_positionOk:
  "positionsOk ms ps \<Longrightarrow> find P ps = Some p \<Longrightarrow> P p \<and> p \<in> set ps \<and> positionOk ms p"
  by (auto simp: positionsOk_def list_all_iff find_Some_iff)

lemma getEmptyPosition_simps [simp]:
  "UserPosition.baseAssetAmount (getEmptyPosition mi) = 0"
  "lastCumulativeFundingRate (getEmptyPosition mi) = 0"
  "marketIndex (getEmptyPosition mi) = mi"
  "UserPosition.quoteAssetAmount (getEmptyPosition mi) = 0"
  by (simp_all add: getEmptyPosition_def ZERO_def)

lemma positionOrEmpty_eq:
  "sees u ua ps st ms \<Longrightarrow> positionOrEmpty u mi =
     Inr (case find (\<lambda>p. marketIndex p = mi) ps of None \<Rightarrow> getEmptyPosition mi | Some p \<Rightarrow> p)"
  by (simp add: positionOrEmpty_def getUserPosition_def seesD)

text \<open>The value of the first slot of a market.\<close>

abbreviation valueAt :: "Market list \<Rightarrow> UserPosition list \<Rightarrow> BN \<Rightarrow> BN" where
  "valueAt ms ps mi \<equiv>
     (case find (\<lambda>p. marketIndex p = mi) ps of None \<Rightarrow> 0 | Some p \<Rightarrow> amountOf baseAssetValueIn ms p)"

lemma position_value_eq:
  assumes "sees u ua ps st ms" "positionsOk ms ps" "\<bar>mi\<bar> < 2 ^ 53"
  shows "getPositionValue u mi = Inr (valueAt ms ps mi)"
  using assms find_positionOk [OF assms(2)]
  by (auto simp: getPositionValue_def positionOrEmpty_eq getMarket_eq [OF seesD(4)] value_total.flat
      value_total.amount_defined split: option.splits)

lemma value_at_bounds:
  assumes "positionsOk ms ps"
  shows "0 \<le> valueAt ms ps mi" "valueAt ms ps mi \<le> valueTotal ms ps"
  using assms find_positionOk [OF assms] value_total.total_nonneg [OF assms]
  by (auto simp: value_total.amount_nonneg value_total.part_le_total split: option.split)

lemma excluding_eq:
  assumes "sees u ua ps st ms" "positionsOk ms ps" "\<bar>mi\<bar> < 2 ^ 53"
  shows "getTotalPositionValueExcludingMarket u mi = Inr (valueTotal ms ps - valueAt ms ps mi)"
  using assms
  by (simp add: getTotalPositionValueExcludingMarket_def positionOrEmpty_eq position_value_eq
      user_totals)

end
