(* ===== verification/Margin.thy ===== *)
theory Margin
  imports User
begin

section \<open>Properties of collateral, margin and liquidation\<close>

text \<open>
  The properties of the operations of \<open>User\<close>, on views in which the accounts are there
  (\<open>sees\<close>) and the pools can close the open positions (\<open>positionsOk\<close>). The sample view holds the
  sample account with one open position.
\<close>

definition sample_view :: UserView where
  "sample_view = \<lparr>
     userAccount = Inr sample_user,
     userPositionsAccount = Inr \<lparr>UserPositionsAccount.positions = [sample_position], user = ''user''\<rparr>,
     stateAccount = Inr sample_state,
     marketsAccount = Inr sample_markets\<rparr>"

definition view_with :: "UserPosition list \<Rightarrow> UserView" where
  "view_with ps = sample_view\<lparr>
     userPositionsAccount := Inr \<lparr>UserPositionsAccount.positions = ps, user = ''user''\<rparr>\<rparr>"

lemma sample_sees: "sees sample_view sample_user [sample_position] sample_state [sample_market]"
  by (simp add: sees_def sample_view_def userPositions_def)

lemma view_with_sees: "sees (view_with ps) sample_user ps sample_state [sample_market]"
  by (simp add: sees_def view_with_def sample_view_def userPositions_def)

lemma sample_positionsOk: "positionsOk [sample_market] [sample_position]"
  by (simp add: positionsOk_def positionOk_def indexOk_def js_index_def closable_def)

lemma sample_value: "amountOf baseAssetValueIn [sample_market] sample_position = 49950049"
  by (simp add: amountOf_def js_index_def baseAssetValueIn_def value_long scaled_def quote_out_def
      curve_k_def constant_values)

lemma sample_pnl: "amountOf (positionPNLIn True) [sample_market] sample_position = 950047"
  by (simp add: amountOf_def js_index_def positionPNLIn_def calculatePositionPNL_def value_long
      scaled_def quote_out_def curve_k_def constant_values calculatePositionFundingPNL_def Let_def)

lemmas sample_amounts = sample_value sample_pnl

subsection \<open>Totals\<close>

text \<open>
  C19: for a user whose positions the pools can close, every total is defined: the position value is
  the sum of the values of the positions and never negative, and the total collateral is the
  deposited collateral plus the sum of the profits with funding.
\<close>

theorem totals_are_sums:
  assumes "sees u ua ps st ms" "positionsOk ms ps"
  shows "getTotalPositionValue u = Inr (\<Sum>p\<leftarrow>ps. amountOf baseAssetValueIn ms p) \<and>
         0 \<le> (\<Sum>p\<leftarrow>ps. amountOf baseAssetValueIn ms p) \<and>
         getTotalCollateral u
           = Inr (collateral ua + (\<Sum>p\<leftarrow>ps. amountOf (positionPNLIn True) ms p))"
  using assms by (auto simp: user_totals value_total.total_nonneg)

theorem totals_are_sums_witness:
  "getTotalPositionValue sample_view = Inr 49950049 \<and> getTotalCollateral sample_view = Inr 10950047"
  using totals_are_sums [OF sample_sees sample_positionsOk] by (simp add: sample_amounts)

text \<open>
  The value excluding a market is the sum over the positions in the other markets. The lookup
  takes the first slot of the market, so this rests on the order of the slots.
\<close>

theorem excluding_market_is_rest:
  assumes "sees u ua ps st ms" "positionsOk ms ps" "slotsOk ps" "\<bar>mi\<bar> < 2 ^ 53"
  shows "getTotalPositionValueExcludingMarket u mi =
           Inr (\<Sum>p\<leftarrow>filter (\<lambda>p. marketIndex p \<noteq> mi) ps. amountOf baseAssetValueIn ms p)"
  using assms value_total.total_split [OF assms(3), of ms mi] by (simp add: excluding_eq)

theorem excluding_market_is_rest_witness:
  "getTotalPositionValueExcludingMarket sample_view 0 = Inr 0 \<and>
   getTotalPositionValueExcludingMarket sample_view 1 = Inr 49950049"
  using excluding_market_is_rest [OF sample_sees sample_positionsOk, of 0]
    excluding_market_is_rest [OF sample_sees sample_positionsOk, of 1]
  by (simp add: sample_value)

text \<open>
  Without open positions nothing depends on the pools, not even on the existence of the markets
  of the empty slots: the total collateral is the deposit, leverage is 0 and the user cannot be
  liquidated.
\<close>

theorem flat_account_is_safe:
  assumes "sees u ua ps st ms" "\<forall>p \<in> set ps. UserPosition.baseAssetAmount p = 0 \<and> indexOk p"
  shows "getTotalCollateral u = Inr (collateral ua) \<and> getTotalPositionValue u = Inr 0 \<and>
         getLeverage u = Inr 0 \<and> canBeLiquidated u = Inr (False, BN_MAX)"
proof -
  have v: "getTotalPositionValue u = Inr 0"
    using assms by (simp add: getTotalPositionValue_def seesD value_total.total_flat [OF seesD(4)])
  have c: "getTotalCollateral u = Inr (collateral ua)"
    using assms by (simp add: getTotalCollateral_def getUnrealizedPNL_def seesD
        pnl_total.total_flat [OF seesD(4)])
  from v c show ?thesis
    by (simp add: getLeverage_def canBeLiquidated_def getMarginRatio_def constant_values bn_div_def)
qed

theorem flat_account_is_safe_witness:
  "canBeLiquidated (view_with [getEmptyPosition 7]) = Inr (False, BN_MAX)"
  using flat_account_is_safe [OF view_with_sees [of "[getEmptyPosition 7]"]]
  by (simp add: indexOk_def)

subsection \<open>Margin and liquidation\<close>

lemma sdiv_le_nonneg_iff: "0 < b \<Longrightarrow> 0 \<le> c \<Longrightarrow> (a :: int) sdiv b \<le> c \<longleftrightarrow> a < (c + 1) * b"
proof (cases "0 \<le> a")
  case False
  assume b: "0 < b" and c: "0 \<le> c"
  then have "0 < (c + 1) * b" by simp
  with False b c sdiv_nonpos [of a b] show ?thesis by linarith
qed (simp add: le_sdiv_iff)

lemma sdiv_less_pos_iff: "0 < b \<Longrightarrow> 0 < c \<Longrightarrow> (a :: int) sdiv b < c \<longleftrightarrow> a < c * b"
  using sdiv_le_nonneg_iff [of b "c - 1" a] by simp

text \<open>
  C8: the liquidation test answers for every user whose positions can be closed, and it holds
  exactly when there is position value and the collateral is below 6.26 percent of it (the
  truncated ratio is at most 625 basis points).
\<close>

theorem liquidatable_iff:
  assumes "sees u ua ps st ms" "positionsOk ms ps"
  shows "\<exists>V C r. getTotalPositionValue u = Inr V \<and> getTotalCollateral u = Inr C \<and>
           canBeLiquidated u = Inr (0 < V \<and> C * 10000 < 626 * V, r)"
proof -
  let ?V = "valueTotal ms ps" and ?C = "collateralTotal ua ms ps"
  have V: "0 \<le> ?V" using assms by (simp add: value_total.total_nonneg)
  have "\<exists>r. canBeLiquidated u = Inr (0 < ?V \<and> ?C * 10000 < 626 * ?V, r)"
  proof (cases "?V = 0")
    case True
    with assms show ?thesis
      by (simp add: canBeLiquidated_def getMarginRatio_def user_totals constant_values)
  next
    case False
    with assms V sdiv_le_nonneg_iff [of ?V 625 "?C * 10000"] show ?thesis
      by (simp add: canBeLiquidated_def getMarginRatio_def user_totals constant_values)
  qed
  with assms user_totals show ?thesis by blast
qed

theorem liquidatable_iff_witness:
  "\<exists>r. canBeLiquidated sample_view = Inr (False, r)"
  using liquidatable_iff [OF sample_sees sample_positionsOk]
  by (auto simp: user_totals [OF sample_sees sample_positionsOk] sample_amounts)

text \<open>
  The free collateral agrees with the leverage: for a user with positive total collateral and
  an initial margin ratio between 1 and 100000000, it is positive exactly when the leverage is
  below the maximal initial leverage.
\<close>

theorem free_collateral_pos_iff:
  assumes "sees u ua ps st ms" "positionsOk ms ps" "getTotalCollateral u = Inr C" "0 < C"
    and "0 < marginRatioInitial st" "marginRatioInitial st \<le> 100000000"
  shows "\<exists>fc lev ml. getFreeCollateral u = Inr fc \<and> getLeverage u = Inr lev \<and>
           getMaxLeverage u (Some Initial) = Inr ml \<and> (0 < fc \<longleftrightarrow> lev < ml)"
proof -
  define ml where "ml = 100000000 sdiv marginRatioInitial st"
  let ?V = "valueTotal ms ps"
  have ml: "0 < ml" using assms sdiv_le_iff [of 100000000 "marginRatioInitial st" 1]
    by (simp add: ml_def)
  have ml_eq: "getMaxLeverage u (Some Initial) = Inr ml"
    using assms by (simp add: getMaxLeverage_def seesD constant_values ml_def)
  have "0 < C - (?V * 10000) sdiv ml \<longleftrightarrow> (?V * 10000) sdiv C < ml"
    using ml assms(4) sdiv_less_pos_iff [of ml C "?V * 10000"] sdiv_less_pos_iff [of C ml "?V * 10000"]
    by (simp add: mult.commute)
  with assms ml ml_eq show ?thesis
    by (simp add: getFreeCollateral_def getLeverage_def user_totals constant_values)
qed

theorem free_collateral_pos_iff_witness:
  "\<exists>fc lev. getFreeCollateral sample_view = Inr fc \<and> getLeverage sample_view = Inr lev \<and> (0 < fc \<longleftrightarrow> lev < 50000)"
  using free_collateral_pos_iff [OF sample_sees sample_positionsOk, of 10950047]
  by (auto simp: user_totals [OF sample_sees sample_positionsOk] sample_amounts getMaxLeverage_def
      seesD [OF sample_sees] constant_values)

text \<open>
  Buying power respects the initial leverage: when it is all spent the position value exceeds
  what the total collateral allows by less than the share of one more unit of collateral.
\<close>

theorem buying_power_bound:
  assumes "sees u ua ps st ms" "positionsOk ms ps"
    and "0 < marginRatioInitial st" "marginRatioInitial st \<le> 100000000"
    and "getFreeCollateral u = Inr fc" "0 \<le> fc"
  shows "\<exists>V C ml bp. getTotalPositionValue u = Inr V \<and> getTotalCollateral u = Inr C \<and>
           getMaxLeverage u (Some Initial) = Inr ml \<and> getBuyingPower u = Inr bp \<and>
           0 \<le> bp \<and> (V + bp) * 10000 < (C + 1) * ml"
proof -
  define ml where "ml = 100000000 sdiv marginRatioInitial st"
  let ?V = "valueTotal ms ps" and ?C = "collateralTotal ua ms ps"
  have ml: "0 < ml" using assms sdiv_le_iff [of 100000000 "marginRatioInitial st" 1]
    by (simp add: ml_def)
  have ml_eq: "getMaxLeverage u (Some Initial) = Inr ml"
    using assms by (simp add: getMaxLeverage_def seesD constant_values ml_def)
  have fc: "fc = ?C - (?V * 10000) sdiv ml"
    using assms ml ml_eq by (simp add: getFreeCollateral_def user_totals constant_values)
  have V: "0 \<le> ?V" using assms by (simp add: value_total.total_nonneg)
  have "?V * 10000 < ml * ((?V * 10000) sdiv ml + 1)"
    using V ml by (intro less_sdiv_mult) auto
  moreover have "10000 * ((fc * ml) sdiv 10000) \<le> fc * ml"
    using assms ml by (intro sdiv_mult_le) auto
  moreover have "ml * ((?V * 10000) sdiv ml + 1) + fc * ml = (?C + 1) * ml"
    by (simp add: fc algebra_simps)
  ultimately have "(?V + (fc * ml) sdiv 10000) * 10000 < (?C + 1) * ml"
    by (simp add: distrib_right)
  moreover have "getBuyingPower u = Inr ((fc * ml) sdiv 10000)"
    using assms ml_eq by (simp add: getBuyingPower_def constant_values)
  ultimately show ?thesis
    using assms ml ml_eq by (auto simp: user_totals)
qed

theorem buying_power_bound_witness:
  "\<exists>bp. getBuyingPower sample_view = Inr bp \<and> 0 \<le> bp \<and> (49950049 + bp) * 10000 < 10950048 * 50000"
  using buying_power_bound [OF sample_sees sample_positionsOk, of 960038]
  by (auto simp: user_totals [OF sample_sees sample_positionsOk] sample_amounts getMaxLeverage_def
      getFreeCollateral_def seesD [OF sample_sees] constant_values)

text \<open>
  The leverage throws exactly when the total collateral is zero while there is position value
  (a division by zero).
\<close>

theorem leverage_error_iff:
  assumes "getTotalCollateral u = Inr C" "getTotalPositionValue u = Inr V"
  shows "getLeverage u = Inl e \<longleftrightarrow> C = 0 \<and> V \<noteq> 0 \<and> e = BnAssertion"
  using assms by (auto simp: getLeverage_def constant_values bn_div_def)

theorem leverage_error_iff_witness: "\<not> getLeverage sample_view = Inl BnAssertion"
  using leverage_error_iff [of sample_view 10950047 49950049 BnAssertion]
  by (simp add: user_totals [OF sample_sees sample_positionsOk] sample_amounts)

subsection \<open>Funding settlement\<close>

text \<open>An open position whose last rate is neither of the two rates of its market.\<close>

definition fundingDiffers :: "Market list \<Rightarrow> UserPosition \<Rightarrow> bool" where
  "fundingDiffers ms p \<longleftrightarrow> UserPosition.baseAssetAmount p \<noteq> 0 \<and>
     (case js_index ms (marketIndex p) of
        None \<Rightarrow> False
      | Some m \<Rightarrow> AMM.cumulativeFundingRateLong (amm m) \<noteq> lastCumulativeFundingRate p \<and>
                  AMM.cumulativeFundingRateShort (amm m) \<noteq> lastCumulativeFundingRate p)"

lemma needsToSettleLoop_eq:
  "positionsOk ms ps \<Longrightarrow> needsToSettleLoop ms ps = Inr (\<exists>p \<in> set ps. fundingDiffers ms p)"
  by (induction ps)
    (auto simp: positionsOk_def positionOk_def indexOk_def bn_toNumber_def fundingDiffers_def
      ZERO_def split: option.splits)

text \<open>
  The settlement check answers for every user whose positions can be closed; it asks for a
  settlement exactly when some open position has a last rate that is neither of its market's two
  cumulative rates.
\<close>

theorem needs_settle_iff:
  assumes "sees u ua ps st ms" "positionsOk ms ps"
  shows "needsToSettleFundingPayment u = Inr (\<exists>p \<in> set ps. fundingDiffers ms p)"
proof -
  obtain ma where "marketsAccount u = Inr ma" "MarketsAccount.markets ma = ms"
    using seesD(4) [OF assms(1)] by (auto simp: mapE_Inr_iff)
  with assms show ?thesis
    by (simp add: needsToSettleFundingPayment_def seesD needsToSettleLoop_eq)
qed

theorem needs_settle_iff_witness: "needsToSettleFundingPayment sample_view = Inr True"
  using needs_settle_iff [OF sample_sees sample_positionsOk]
  by (simp add: fundingDiffers_def js_index_def)

definition missed_position :: UserPosition where
  "missed_position = sample_position\<lparr>lastCumulativeFundingRate := 600000000\<rparr>"

text \<open>
  The check compares a position with the rates of both sides, so it can miss a payment: a long
  position whose last rate happens to be the rate of the short side owes funding and is reported
  as settled.
\<close>

theorem needs_settle_misses_payment:
  "needsToSettleFundingPayment (view_with [missed_position]) = Inr False \<and>
   getUnrealizedFundingPNL (view_with [missed_position]) NoIndex = Inr (- 10000)"
  by (simp add: needsToSettleFundingPayment_def getUnrealizedFundingPNL_def view_with_def
      sample_view_def userPositions_def sumPositions_def getMarket_def missed_position_def
      bn_toNumber_def js_index_def positionFundingPNLIn_def calculatePositionFundingPNL_def
      Let_def constant_values)

text \<open>
  The market argument of the two profit functions is compared by object identity, so with an
  index object of the caller's own both return zero, whatever the positions are.
\<close>

theorem fresh_index_selects_nothing:
  assumes "userPositions u = Inr ps"
  shows "getUnrealizedPNL u withFunding (FreshIndex mi) = Inr 0 \<and>
         getUnrealizedFundingPNL u (FreshIndex mi) = Inr 0"
  using assms
  by (simp add: getUnrealizedPNL_def getUnrealizedFundingPNL_def sumPositions_def ZERO_def)

theorem fresh_index_selects_nothing_witness:
  "getUnrealizedPNL sample_view True (FreshIndex 0) = Inr 0 \<and>
   getUnrealizedPNL sample_view True NoIndex = Inr 950047"
  using fresh_index_selects_nothing [OF seesD(2) [OF sample_sees], of True 0]
    pnl_total.total_defined [OF sample_sees sample_positionsOk, of True]
  by (simp add: getUnrealizedPNL_def seesD [OF sample_sees] sample_pnl)

subsection \<open>The estimated exit price\<close>

lemma sdiv_floor_mult:
  "0 \<le> (v :: int) \<Longrightarrow> 0 < b \<Longrightarrow> v * s - b < (v * s) sdiv b * b \<and> (v * s) sdiv b * b \<le> v * s" if "0 \<le> s"
  using that sdiv_mult_le [of "v * s" b] less_sdiv_mult [of "v * s" b]
  by (auto simp: algebra_simps)

lemma sdiv_near:
  assumes "0 < s" "\<bar>x - d * s\<bar> < (s :: int)"
  shows "\<bar>x sdiv s - d\<bar> \<le> 1"
proof (cases "0 \<le> x")
  case True
  have "d - 1 \<le> x sdiv s"
    using True assms sdiv_le_iff [of x s "d - 1"] by (auto simp: algebra_simps)
  moreover have "x sdiv s < d + 1"
    using True assms sdiv_less_iff [of x s "d + 1"] by (auto simp: algebra_simps)
  ultimately show ?thesis by simp
next
  case False
  have "- d - 1 \<le> (- x) sdiv s"
    using False assms sdiv_le_iff [of "- x" s "- d - 1"] by (auto simp: algebra_simps)
  moreover have "(- x) sdiv s < - d + 1"
    using False assms sdiv_less_iff [of "- x" s "- d + 1"] by (auto simp: algebra_simps)
  ultimately show ?thesis by (simp add: sdiv_minus_left)
qed

lemma sdiv_sdiv:
  assumes "0 < b" "0 < c"
  shows "((a :: int) sdiv b) sdiv c = a sdiv (b * c)"
proof -
  have nonneg: "(x sdiv b) sdiv c = x sdiv (b * c)" if "0 \<le> x" for x :: int
    using that assms by (simp add: sdiv_nonneg_eq zdiv_zmult2_eq pos_imp_zdiv_nonneg_iff)
  show ?thesis
  proof (cases "0 \<le> a")
    case False
    then have "(- (- a) sdiv b) sdiv c = - (- a) sdiv (b * c)"
      using nonneg [of "- a"] by (simp only: sdiv_minus_left)
    then show ?thesis by simp
  qed (rule nonneg)
qed

text \<open>The profit per unit at two rounded prices, against the difference of the quote amounts.\<close>

lemma rounded_pnl_near:
  assumes "0 < b" "b \<le> s" "0 \<le> v" "0 \<le> (q :: int)"
  shows "\<bar>(((v * s) sdiv b - (q * s) sdiv b) * b) sdiv s - (v - q)\<bar> \<le> 1"
proof (rule sdiv_near)
  show "0 < s" using assms by simp
  have "\<bar>(v * s) sdiv b * b - (q * s) sdiv b * b - (v * s - q * s)\<bar> < b"
    using assms sdiv_floor_mult [of s v b] sdiv_floor_mult [of s q b] by auto
  with assms show "\<bar>((v * s) sdiv b - (q * s) sdiv b) * b - (v - q) * s\<bar> < s"
    by (simp add: left_diff_distrib)
qed

text \<open>
  The estimated profit of closing a whole position agrees with \<open>calculatePositionPNL\<close> without
  funding up to rounding: it is at most one unit lower and at most two units higher, for positions
  of up to 10000 units of base asset.
\<close>

theorem exit_pnl_agrees:
  assumes "getMarket u (marketIndex p) = Inr (Some m)" "closable m p"
    and "UserPosition.baseAssetAmount p \<noteq> 0" "\<bar>UserPosition.baseAssetAmount p\<bar> \<le> 10 ^ 17"
    and "0 \<le> UserPosition.quoteAssetAmount p"
  shows "\<exists>x pnl l. getPositionEstimatedExitPriceAndPnl u p None = Inr (x, pnl) \<and>
           calculatePositionPNL m p False = Inr l \<and> l - 1 \<le> pnl \<and> pnl \<le> l + 2"
proof -
  let ?b = "UserPosition.baseAssetAmount p" and ?q = "UserPosition.quoteAssetAmount p"
  obtain v where v: "calculateBaseAssetValue m p = Inr v" "0 \<le> v"
    using assms(2) by (rule closable_value)
  let ?x = "(v * 10 ^ 17) sdiv \<bar>?b\<bar>" and ?n = "(?q * 10 ^ 17) sdiv \<bar>?b\<bar>"
  let ?pnl = "((?x - ?n) * ?b) sdiv 10 ^ 17"
  have near: "\<bar>((?x - ?n) * \<bar>?b\<bar>) sdiv 10 ^ 17 - (v - ?q)\<bar> \<le> 1"
    using assms v by (intro rounded_pnl_near) auto
  have est: "getPositionEstimatedExitPriceAndPnl u p None = Inr (?x, ?pnl)"
    using assms v
    by (simp add: getPositionEstimatedExitPriceAndPnl_def baseAssetValueIn_def Let_def
        constant_values calculateEntryPrice_def abs_sdiv sdiv_sdiv mult.assoc)
  show ?thesis
  proof (cases "0 < ?b")
    case True
    with near have "\<bar>?pnl - (v - ?q)\<bar> \<le> 1" by simp
    with True est v show ?thesis
      by (auto simp: calculatePositionPNL_def constant_values abs_le_iff)
  next
    case False
    then have "(?x - ?n) * ?b = - ((?x - ?n) * \<bar>?b\<bar>)" by (simp add: abs_if)
    then have "?pnl = - (((?x - ?n) * \<bar>?b\<bar>) sdiv 10 ^ 17)" by (simp only: sdiv_minus_left)
    with near have "\<bar>?pnl - (?q - v)\<bar> \<le> 1" by linarith
    with False assms est v show ?thesis
      by (auto simp: calculatePositionPNL_def constant_values abs_le_iff)
  qed
qed

theorem exit_pnl_agrees_witness:
  "\<exists>x pnl l. getPositionEstimatedExitPriceAndPnl sample_view sample_position None = Inr (x, pnl) \<and>
     calculatePositionPNL sample_market sample_position False = Inr l \<and> l - 1 \<le> pnl \<and> pnl \<le> l + 2"
  using exit_pnl_agrees [of sample_view sample_position sample_market]
  by (simp add: getMarket_eq [OF seesD(4) [OF sample_sees]] js_index_def closable_def)

end
