(* ===== verification/Sqrt.thy ===== *)
theory Sqrt
  imports Constants
begin

section \<open>The integer square root\<close>

text \<open>
  \<open>squareRootBN\<close> of \<open>sdk/src/math/utils.ts\<close>: Newton's iteration from \<open>x = n\<close> that stops when
  two successive guesses are at most \<open>closeness\<close> apart, or after \<open>Number.MAX_SAFE_INTEGER\<close>
  rounds. The loop state is the guess \<open>x\<close> and the round count; after the last statement of the
  body \<open>root\<close> and \<open>x\<close> are equal, so the value returned when the rounds run out is \<open>x\<close>.
  The result is shown to be within one of the exact root for every positive argument.
\<close>

function sqrt_loop :: "BN \<Rightarrow> BN \<Rightarrow> BN \<Rightarrow> int \<Rightarrow> BN result" where
  "sqrt_loop n closeness x count =
     (if count < MAX_SAFE_INTEGER then
        bindE (bn_div n x) (\<lambda>q.
          let root = (x + q) sdiv 2 in
          if \<bar>x - root\<bar> \<le> closeness then Inr root
          else sqrt_loop n closeness root (count + 1))
      else Inr x)"
  by pat_completeness auto
termination
  by (relation "measure (\<lambda>(n, c, x, count). nat (MAX_SAFE_INTEGER - count))") auto

declare sqrt_loop.simps [simp del]

definition squareRootBN :: "BN \<Rightarrow> BN \<Rightarrow> BN result" where
  "squareRootBN n closeness = sqrt_loop n closeness n 0"

subsection \<open>One round of the iteration\<close>

text \<open>\<open>is_root n s\<close>: \<open>s\<close> is the exact integer square root of \<open>n\<close>.\<close>

definition is_root :: "int \<Rightarrow> int \<Rightarrow> bool" where
  "is_root n s \<longleftrightarrow> 0 \<le> s \<and> s * s \<le> n \<and> n < (s + 1) * (s + 1)"

lemma is_root_exists: "0 \<le> n \<Longrightarrow> \<exists>s. is_root n s"
proof (induction n rule: int_ge_induct)
  case base
  show ?case by (rule exI [of _ 0]) (simp add: is_root_def)
next
  case (step n)
  then obtain s where s: "is_root n s" by blast
  show ?case
  proof (cases "n + 1 < (s + 1) * (s + 1)")
    case True
    with s show ?thesis by (intro exI [of _ s]) (auto simp: is_root_def)
  next
    case False
    with s show ?thesis
      by (intro exI [of _ "s + 1"]) (auto simp: is_root_def algebra_simps)
  qed
qed

lemma is_root_pos: "is_root n s \<Longrightarrow> 0 < n \<Longrightarrow> 0 < s"
  by (cases "s = 0") (auto simp: is_root_def)

lemma newton_step_eq:
  "0 \<le> n \<Longrightarrow> 0 < x \<Longrightarrow> (x + n sdiv x) sdiv 2 = (x + n div x) div (2 :: int)"
  by (simp add: sdiv_nonneg_eq pos_imp_zdiv_nonneg_iff)

lemma newton_ge:
  assumes "0 < x" and "is_root n s"
  shows "s \<le> (x + n div x) div 2"
proof -
  have "0 \<le> (s - x) * (s - x)" by simp
  then have "(2 * s - x) * x \<le> s * s" by (simp add: algebra_simps)
  also have "\<dots> \<le> n" using assms by (simp add: is_root_def)
  finally have "((2 * s - x) * x) div x \<le> n div x"
    using assms by (intro zdiv_mono1)
  with assms show ?thesis by simp
qed

lemma newton_halves:
  assumes "s < x" and "is_root n s"
  shows "(x + n div x) div 2 \<le> s + (x - s) div 2"
proof -
  have "0 \<le> s" using assms by (simp add: is_root_def)
  have "n < (s + 1) * (s + 1)" using assms by (simp add: is_root_def)
  also have "\<dots> \<le> (s + 1) * x" using assms \<open>0 \<le> s\<close> by (intro mult_left_mono) auto
  finally have "n div x < s + 1"
    using assms \<open>0 \<le> s\<close> int_div_less_iff [of x n "s + 1"] by simp
  then show ?thesis by linarith
qed

lemma newton_at_root:
  assumes "is_root n s" and "0 < s"
  shows "(s + n div s) div 2 \<in> {s, s + 1}"
proof -
  have "s * s \<le> n" "n < s * (s + 3)"
    using assms by (auto simp: is_root_def algebra_simps)
  then have "s \<le> n div s" "n div s < s + 3"
    using assms by (simp_all add: int_le_div_iff int_div_less_iff mult.commute)
  with assms show ?thesis by auto
qed

subsection \<open>The loop returns the root, within one\<close>

lemma sqrt_loop_close:
  assumes "is_root n s" "0 < s" "s \<le> x" "x - s < 2 ^ k" "count + int k < MAX_SAFE_INTEGER"
  shows "\<exists>r \<in> {s, s + 1}. sqrt_loop n 1 x count = Inr r"
  using assms
proof (induction k arbitrary: x count)
  case 0
  then have x: "x = s" and n: "0 \<le> n"
    by (auto simp: is_root_def intro: order_trans [of 0 "s * s"])
  with 0 newton_at_root [of n s] newton_step_eq [of n s] show ?case
    by (auto simp: sqrt_loop.simps [of n 1 s count] Let_def)
next
  case (Suc k)
  let ?root = "(x + n div x) div 2"
  have pos: "0 \<le> n" "0 < x"
    using Suc.prems by (auto simp: is_root_def intro: order_trans [of 0 "s * s"])
  have loop: "sqrt_loop n 1 x count =
      (if \<bar>x - ?root\<bar> \<le> 1 then Inr ?root else sqrt_loop n 1 ?root (count + 1))"
    using pos Suc.prems newton_step_eq [OF pos]
    by (simp add: sqrt_loop.simps [of n 1 x count] Let_def)
  show ?case
  proof (cases "x = s")
    case True
    with loop newton_at_root [of n s] Suc.prems show ?thesis by auto
  next
    case False
    then have ge: "s \<le> ?root" and le: "?root \<le> s + (x - s) div 2"
      using Suc.prems pos by (auto intro: newton_ge newton_halves)
    show ?thesis
    proof (cases "\<bar>x - ?root\<bar> \<le> 1")
      case True
      with ge le have "?root \<in> {s, s + 1}" by auto
      with True loop show ?thesis by auto
    next
      case False
      moreover have "\<exists>r \<in> {s, s + 1}. sqrt_loop n 1 ?root (count + 1) = Inr r"
        using Suc.prems ge le by (intro Suc.IH) auto
      ultimately show ?thesis using loop by simp
    qed
  qed
qed

lemma squareRootBN_root:
  assumes "0 < n" "n \<le> 2 ^ k" "int k < MAX_SAFE_INTEGER" "is_root n s"
  shows "\<exists>r \<in> {s, s + 1}. squareRootBN n 1 = Inr r"
  unfolding squareRootBN_def
proof (rule sqrt_loop_close [where k = k])
  show s: "0 < s" using assms by (blast intro: is_root_pos)
  have "s * 1 \<le> s * s" using s by (intro mult_left_mono) auto
  with assms show "s \<le> n" by (simp add: is_root_def)
  show "n - s < 2 ^ k" using assms s by simp
qed (use assms in auto)

lemma squareRootBN_zero: "squareRootBN 0 closeness = Inl BnAssertion"
  by (simp add: squareRootBN_def sqrt_loop.simps [of 0 closeness 0 0] MAX_SAFE_INTEGER_def)

subsection \<open>Property\<close>



end
