(* ===== verification/Trade.thy ===== *)
theory Trade
  imports Sqrt Position
begin

section \<open>Trades: slippage, acquired amounts and target prices\<close>

text \<open>
  \<open>sdk/src/math/trade.ts\<close>. \<open>calculateTradeAcquiredAmounts\<close> is the change of a trader's base and
  quote amounts, \<open>calculateTradeSlippage\<close> the average and the worst price impact, and
  \<open>calculateTargetPriceTrade\<close> the trade that moves the mark price to a target, found with
  \<open>squareRootBN\<close> and checked by assertions. The comparison \<open>tp2.sub(tp1).abs() < 100000\<close> of the
  source converts the \<open>BN\<close> to a number through its decimal text and is the comparison of the
  integers.
\<close>

subsection \<open>The operations\<close>

definition calculateTradeAcquiredAmounts ::
  "PositionDirection \<Rightarrow> BN \<Rightarrow> Market \<Rightarrow> AssetType \<Rightarrow> (BN \<times> BN) result" where
  "calculateTradeAcquiredAmounts direction amt market inputAssetType =
     (if amt = ZERO then Inr (ZERO, ZERO)
      else
        bindE (calculateAmmReservesAfterSwap (amm market) inputAssetType amt
                 (getSwapDirection inputAssetType direction))
          (\<lambda>(newQuoteAssetReserve, newBaseAssetReserve).
             Inr (baseAssetReserve (amm market) - newBaseAssetReserve,
                  quoteAssetReserve (amm market) - newQuoteAssetReserve)))"

text \<open>The result is \<open>[pctAvgSlippage, pctMaxSlippage, entryPrice, newPrice]\<close>.\<close>

definition calculateTradeSlippage ::
  "PositionDirection \<Rightarrow> BN \<Rightarrow> Market \<Rightarrow> AssetType \<Rightarrow> (BN \<times> BN \<times> BN \<times> BN) result" where
  "calculateTradeSlippage direction amt market inputAssetType =
     (let oldPrice = calculateMarkPrice market in
      if amt = ZERO then Inr (ZERO, ZERO, oldPrice, oldPrice)
      else
        bindE (calculateTradeAcquiredAmounts direction amt market inputAssetType)
          (\<lambda>(acquiredBase, acquiredQuote).
             let entryPrice =
                   calculatePrice acquiredBase acquiredQuote (pegMultiplier (amm market)) * (-1);
                 newPrice =
                   calculatePrice (baseAssetReserve (amm market) - acquiredBase)
                     (quoteAssetReserve (amm market) - acquiredQuote) (pegMultiplier (amm market))
             in bindE (if direction = SHORT then assert (newPrice < oldPrice) None
                       else assert (oldPrice < newPrice) None) (\<lambda>_.
                  bindE (bn_div ((newPrice - oldPrice) * MARK_PRICE_PRECISION) oldPrice)
                    (\<lambda>maxSlippage.
                      bindE (bn_div ((entryPrice - oldPrice) * MARK_PRICE_PRECISION) oldPrice)
                        (\<lambda>avgSlippage.
                          Inr (\<bar>avgSlippage\<bar>, \<bar>maxSlippage\<bar>, entryPrice, newPrice))))))"

text \<open>The target price after the gap to it is scaled by \<open>pct\<close> (lines 158 to 166).\<close>

definition scaledTargetPrice :: "BN \<Rightarrow> BN \<Rightarrow> BN \<Rightarrow> BN" where
  "scaledTargetPrice markBefore targetPrice pct =
     (if targetPrice > markBefore
      then markBefore + ((targetPrice - markBefore) * pct) sdiv MAXPCT
      else markBefore - ((markBefore - targetPrice) * pct) sdiv MAXPCT)"

text \<open>The entry price and the checks at the end of the function (lines 233 to 262).\<close>

definition finishTargetTrade ::
  "PositionDirection \<Rightarrow> BN \<Rightarrow> BN \<Rightarrow> BN \<Rightarrow> BN \<Rightarrow> BN \<Rightarrow> AssetType \<Rightarrow>
     (PositionDirection \<times> BN \<times> BN \<times> BN) result" where
  "finishTargetTrade direction tradeSize baseSize markBefore markAfter targetPrice
       outputAssetType =
     (let tp1 = (if direction = SHORT then markAfter else targetPrice);
          tp2 = (if direction = SHORT then targetPrice else markAfter);
          originalDiff = (if direction = SHORT then markBefore - targetPrice
                          else targetPrice - markBefore)
      in bindE (bn_div (tradeSize * AMM_TO_QUOTE_PRECISION_RATIO * MARK_PRICE_PRECISION) \<bar>baseSize\<bar>)
           (\<lambda>entryPrice.
             bindE (assert (tp1 - tp2 \<le> originalDiff) (Some ''Target Price Calculation incorrect''))
               (\<lambda>_.
                 bindE (assert (tp2 \<le> tp1 \<or> \<bar>tp2 - tp1\<bar> < 100000)
                          (Some (''Target Price Calculation incorrect'' @ bn_toString tp2 @ ''>=''
                                   @ bn_toString tp1 @ ''err: '' @ bn_toString \<bar>tp2 - tp1\<bar>)))
                   (\<lambda>_.
                     Inr (direction, if outputAssetType = Quote then tradeSize else baseSize,
                          entryPrice, targetPrice)))))"

definition calculateTargetPriceTrade ::
  "Market \<Rightarrow> BN \<Rightarrow> BN \<Rightarrow> AssetType \<Rightarrow> (PositionDirection \<times> BN \<times> BN \<times> BN) result" where
  "calculateTargetPriceTrade market target pct outputAssetType =
     bindE (assert (baseAssetReserve (amm market) > ZERO) None) (\<lambda>_.
     bindE (assert (target > ZERO) None) (\<lambda>_.
     bindE (assert (pct \<le> MAXPCT \<and> pct > ZERO) None) (\<lambda>_.
       let markBefore = calculateMarkPrice market;
           targetPrice = scaledTargetPrice markBefore target pct;
           baseBefore = baseAssetReserve (amm market);
           quoteBefore = quoteAssetReserve (amm market);
           peg = pegMultiplier (amm market);
           k = sqrtK (amm market) * sqrtK (amm market) * MARK_PRICE_PRECISION
       in
         if markBefore > targetPrice then
           bindE (bn_div k targetPrice) (\<lambda>x.
           bindE (squareRootBN ((x * peg) sdiv PEG_PRECISION - 1) 1) (\<lambda>root.
             let baseAfter = root - 1 in
             bindE (bn_div (k sdiv MARK_PRICE_PRECISION) baseAfter) (\<lambda>quoteAfter.
               finishTargetTrade SHORT
                 ((((quoteBefore - quoteAfter) * peg) sdiv PEG_PRECISION)
                    sdiv AMM_TO_QUOTE_PRECISION_RATIO)
                 (baseAfter - baseBefore) markBefore (calculatePrice baseAfter quoteAfter peg)
                 targetPrice outputAssetType)))
         else if markBefore < targetPrice then
           bindE (bn_div k targetPrice) (\<lambda>x.
           bindE (squareRootBN ((x * peg) sdiv PEG_PRECISION + 1) 1) (\<lambda>root.
             let baseAfter = root + 1 in
             bindE (bn_div (k sdiv MARK_PRICE_PRECISION) baseAfter) (\<lambda>quoteAfter.
               finishTargetTrade LONG
                 ((((quoteAfter - quoteBefore) * peg) sdiv PEG_PRECISION)
                    sdiv AMM_TO_QUOTE_PRECISION_RATIO)
                 (baseBefore - baseAfter) markBefore (calculatePrice baseAfter quoteAfter peg)
                 targetPrice outputAssetType)))
         else Inr (LONG, ZERO, targetPrice, targetPrice))))"

subsection \<open>Trades of base asset\<close>

lemma acquired_long:
  "curve_ok (amm m) \<Longrightarrow> 0 < n \<Longrightarrow> n < baseAssetReserve (amm m) \<Longrightarrow>
     calculateTradeAcquiredAmounts LONG n m Base = Inr (n, - quote_in (amm m) n)"
  by (simp add: calculateTradeAcquiredAmounts_def ZERO_def base_pool.swap_remove)

lemma acquired_short:
  "curve_ok (amm m) \<Longrightarrow> 0 < n \<Longrightarrow>
     calculateTradeAcquiredAmounts SHORT n m Base = Inr (- n, quote_out (amm m) n)"
  by (simp add: calculateTradeAcquiredAmounts_def ZERO_def base_pool.swap_add)

subsection \<open>Trades of quote asset\<close>

text \<open>The quote amount in units of the reserve.\<close>

definition reserveAmount :: "AMM \<Rightarrow> BN \<Rightarrow> BN" where
  "reserveAmount a n = (n * AMM_TIMES_PEG_TO_QUOTE_PRECISION_RATIO) sdiv pegMultiplier a"

lemma quote_add_base_le:
  assumes "curve_ok a" "0 < s"
  shows "curve_k a sdiv (quoteAssetReserve a + s) \<le> baseAssetReserve a"
proof -
  note c = curve_okD [OF assms(1)]
  have "curve_k a < (baseAssetReserve a + 1) * (quoteAssetReserve a + 1)" by (rule c)
  also have "\<dots> \<le> (baseAssetReserve a + 1) * (quoteAssetReserve a + s)"
    using c assms by (intro mult_left_mono) auto
  finally show ?thesis using c assms by (simp add: le_sdiv_iff)
qed

lemma quote_remove_base_ge:
  assumes "curve_ok a" "0 < s" "s < quoteAssetReserve a"
  shows "baseAssetReserve a \<le> curve_k a sdiv (quoteAssetReserve a - s)"
proof -
  note c = curve_okD [OF assms(1)]
  have "baseAssetReserve a * (quoteAssetReserve a - s) \<le> baseAssetReserve a * quoteAssetReserve a"
    using c assms by (intro mult_left_mono) auto
  with c have "baseAssetReserve a * (quoteAssetReserve a - s) \<le> curve_k a" by linarith
  with c assms show ?thesis by (simp add: sdiv_le_iff)
qed

subsection \<open>Properties\<close>

text \<open>
  A trade moves the trader's amounts in the direction of the trade. On a well-formed pool a long
  trade acquires base asset and pays quote asset, a short trade the opposite, whichever of the two
  assets the amount is given in.
\<close>

theorem acquired_amounts_sign:
  assumes "curve_ok (amm m)" "0 < n"
    and "ty = Base \<Longrightarrow> dir = LONG \<Longrightarrow> n < baseAssetReserve (amm m)"
    and "ty = Quote \<Longrightarrow> 0 < reserveAmount (amm m) n"
    and "ty = Quote \<Longrightarrow> dir = SHORT \<Longrightarrow> reserveAmount (amm m) n < quoteAssetReserve (amm m)"
  shows "\<exists>b q. calculateTradeAcquiredAmounts dir n m ty = Inr (b, q) \<and>
           (if dir = LONG then 0 \<le> b \<and> q \<le> 0 else b \<le> 0 \<and> 0 \<le> q)"
proof (cases ty)
  case Base
  with assms base_pool.out_remove_nonneg [of "amm m" n] base_pool.out_add_range [of "amm m" n]
  show ?thesis by (cases dir) (auto simp: acquired_long acquired_short)
next
  case Quote
  note c = curve_okD [OF assms(1)]
  from Quote assms c quote_add_base_le [of "amm m" "reserveAmount (amm m) n"]
    quote_remove_base_ge [of "amm m" "reserveAmount (amm m) n"]
  show ?thesis
    by (cases dir) (auto simp: calculateTradeAcquiredAmounts_def ZERO_def quote_swap_eval Let_def
        reserveAmount_def [symmetric] curve_k_def)
qed

theorem acquired_amounts_sign_witness:
  "\<exists>b q. calculateTradeAcquiredAmounts SHORT 10000 sample_market Quote = Inr (b, q) \<and>
     b \<le> 0 \<and> 0 \<le> q"
  using acquired_amounts_sign [of sample_market 10000 Quote SHORT]
  by (simp add: reserveAmount_def constant_values)

text \<open>
  The slippage of a trade of base asset is rejected exactly when the trade is too small to
  move the mark price by one unit of its precision: for an amount the pool can serve, with a
  positive mark price, \<open>calculateTradeSlippage\<close> throws if and only if the price after the trade
  equals the mark price, and then with the default assertion text.
\<close>

theorem slippage_error_iff:
  assumes "curve_ok (amm m)" "0 < n" "n < baseAssetReserve (amm m)" "0 < calculateMarkPrice m"
  shows "calculateTradeSlippage dir n m Base = Inl e \<longleftrightarrow>
           e = Error ''Unspecified AssertionError'' \<and>
           calculateMarkPrice m =
             (if dir = LONG
              then calculatePrice (baseAssetReserve (amm m) - n)
                     (quoteAssetReserve (amm m) + quote_in (amm m) n) (pegMultiplier (amm m))
              else calculatePrice (baseAssetReserve (amm m) + n)
                     (quoteAssetReserve (amm m) - quote_out (amm m) n) (pegMultiplier (amm m)))"
proof (cases dir)
  case LONG
  with assms reserve_price_ge [of "amm m" n] show ?thesis
    by (auto simp: calculateTradeSlippage_def acquired_long Let_def ZERO_def assert_def
        calculateMarkPrice_def)
next
  case SHORT
  with assms reserve_price_le [of "amm m" n] show ?thesis
    by (auto simp: calculateTradeSlippage_def acquired_short Let_def ZERO_def assert_def
        calculateMarkPrice_def)
qed

theorem slippage_error_iff_witness:
  "calculateTradeSlippage LONG 1 sample_market Base = Inl (Error ''Unspecified AssertionError'')"
  using slippage_error_iff [of sample_market 1 LONG "Error ''Unspecified AssertionError''"]
  by (simp add: calculateMarkPrice_def calculatePrice_def constant_values quote_in_def curve_k_def)

text \<open>The two nested truncations of a price are one.\<close>

lemma price_floor:
  "0 < b \<Longrightarrow> 0 \<le> q \<Longrightarrow> 0 \<le> peg \<Longrightarrow>
     calculatePrice b q peg = (q * MARK_PRICE_PRECISION * peg) div (PEG_PRECISION * b)"
  by (simp add: calculatePrice_pos_base sdiv_nonneg_eq pos_imp_zdiv_nonneg_iff zdiv_zmult2_eq
      less_imp_le)

lemma price_cross_le:
  assumes "0 < b" "0 < b'" "0 \<le> q" "0 \<le> q'" "0 \<le> peg" "q * b' \<le> q' * b"
  shows "calculatePrice b q peg \<le> calculatePrice b' q' peg"
proof -
  let ?C = "MARK_PRICE_PRECISION * peg" and ?p = "calculatePrice b q peg"
  have C: "0 \<le> ?C" using assms by (simp add: less_imp_le)
  have "?p * (PEG_PRECISION * b) \<le> q * ?C"
    using assms int_le_div_iff [of "PEG_PRECISION * b" ?p "q * ?C"]
    by (simp add: price_floor mult.assoc)
  then have "(?p * (PEG_PRECISION * b)) * b' \<le> (q * ?C) * b'"
    using assms by (intro mult_right_mono) auto
  also have "\<dots> = (q * b') * ?C" by (simp add: ac_simps)
  also have "\<dots> \<le> (q' * b) * ?C" using assms C by (intro mult_right_mono) auto
  finally have "b * (?p * (PEG_PRECISION * b')) \<le> b * (q' * ?C)" by (simp add: ac_simps)
  then have "?p * (PEG_PRECISION * b') \<le> q' * ?C" using assms by simp
  then show ?thesis
    using assms int_le_div_iff [of "PEG_PRECISION * b'" ?p "q' * ?C"]
    by (simp add: price_floor [of b'] mult.assoc)
qed

text \<open>
  The average price of a long trade of base asset is never above the price the trade leaves
  behind, when the reserves multiply to \<open>sqrtK ^ 2\<close>: the slippage the trader sees on average is
  bounded by the maximal one.
\<close>

theorem long_entry_le_new_price:
  assumes "curve_ok (amm m)" "baseAssetReserve (amm m) * quoteAssetReserve (amm m) = curve_k (amm m)"
    and "0 < n" "n < baseAssetReserve (amm m)"
    and "calculateTradeSlippage LONG n m Base = Inr (avg, mx, entryPrice, newPrice)"
  shows "entryPrice \<le> newPrice"
proof -
  let ?a = "amm m"
  let ?b = "baseAssetReserve ?a" and ?q = "quoteAssetReserve ?a" and ?peg = "pegMultiplier ?a"
  note c = curve_okD [OF assms(1)]
  have q: "0 \<le> quote_in ?a n" using base_pool.out_remove_nonneg [OF assms(1,3,4)] .
  have "(?b - n) * (curve_k ?a sdiv (?b - n)) \<le> curve_k ?a"
    using c assms by (intro sdiv_mult_le) auto
  then have "quote_in ?a n * (?b - n) \<le> ?q * n"
    using assms(2) by (simp add: quote_in_def algebra_simps)
  also have "\<dots> \<le> (?q + quote_in ?a n) * n" using q assms(3) by simp
  finally have "calculatePrice n (quote_in ?a n) ?peg
      \<le> calculatePrice (?b - n) (?q + quote_in ?a n) ?peg"
    using c q assms by (intro price_cross_le) auto
  moreover have "calculatePrice n (- quote_in ?a n) ?peg = - calculatePrice n (quote_in ?a n) ?peg"
    using assms(3) by (simp add: calculatePrice_pos_base sdiv_minus_left)
  ultimately show ?thesis
    using assms by (auto simp: calculateTradeSlippage_def acquired_long Let_def ZERO_def bn_simps)
qed

theorem long_entry_le_new_price_witness:
  "calculateTradeSlippage LONG 10000000000000 sample_market Base
     = Inr (10010010, 20030040, 500500500500, 501001502002) \<and> (500500500500 :: BN) \<le> 501001502002"
proof -
  have r: "calculateTradeSlippage LONG 10000000000000 sample_market Base
      = Inr (10010010, 20030040, 500500500500, 501001502002)"
    by (simp add: calculateTradeSlippage_def calculateTradeAcquiredAmounts_def base_swap_eval
        calculateMarkPrice_def calculatePrice_def Let_def constant_values)
  with long_entry_le_new_price [of sample_market 10000000000000 10010010 20030040 500500500500
      501001502002]
  show ?thesis by (simp add: curve_k_def)
qed

subsection \<open>Properties of the target price trade\<close>

lemma scaledTargetPrice_full [simp]: "scaledTargetPrice mark target MAXPCT = target"
  by (simp add: scaledTargetPrice_def)

text \<open>Filling the gap from 50 to 51 on the sample market.\<close>

lemma sample_root:
  "squareRootBN 98039215686274509803921568627451 1 = Inr 9901475429766743"
  by code_simp

lemma sample_target_trade:
  "calculateTargetPriceTrade sample_market 510000000000 MAXPCT out
     = Inr (LONG, if out = Quote then 497524691 else 98524570233256, 504975246095, 510000000000)"
  by (simp add: calculateTargetPriceTrade_def calculateMarkPrice_def calculatePrice_def Let_def
      constant_values scaledTargetPrice_def sample_root finishTargetTrade_def)

lemma gap_scaled:
  assumes "0 \<le> (g :: int)" "0 < pct" "pct \<le> MAXPCT"
  shows "0 \<le> (g * pct) sdiv MAXPCT" "(g * pct) sdiv MAXPCT \<le> g"
proof -
  show "0 \<le> (g * pct) sdiv MAXPCT" using assms by simp
  have "(g * pct) sdiv MAXPCT \<le> (g * MAXPCT) sdiv MAXPCT"
    using assms by (intro sdiv_mono mult_left_mono) auto
  then show "(g * pct) sdiv MAXPCT \<le> g" by simp
qed

lemma scaledTargetPrice_range:
  assumes "0 < pct" "pct \<le> MAXPCT"
  shows "min mark target \<le> scaledTargetPrice mark target pct \<and>
         scaledTargetPrice mark target pct \<le> max mark target"
  using gap_scaled [of "target - mark" pct] gap_scaled [of "mark - target" pct] assms
  by (auto simp: scaledTargetPrice_def)

lemma finishTargetTrade_InrD:
  assumes "finishTargetTrade dir tradeSize bs mark after t out = Inr (dir', sz, entry, t')"
  shows "dir' = dir \<and> t' = t \<and> sz = (if out = Quote then tradeSize else bs) \<and>
         (if dir = SHORT then after \<le> mark \<and> t < after + 100000
          else mark \<le> after \<and> after < t + 100000)"
  using assms by (cases dir) (auto simp: finishTargetTrade_def Let_def bn_simps)

lemma target_trade_InrD:
  assumes "calculateTargetPriceTrade m target pct out = Inr (dir, sz, entry, t)"
  shows "0 < baseAssetReserve (amm m)" "0 < target" "0 < pct" "pct \<le> MAXPCT"
    and "t = scaledTargetPrice (calculateMarkPrice m) target pct"
    and "dir = (if t < calculateMarkPrice m then SHORT else LONG)"
  using assms
  by (auto simp: calculateTargetPriceTrade_def Let_def bindE_Inr_iff assert_Inr_iff ZERO_def
      dest!: finishTargetTrade_InrD split: if_splits)

text \<open>
  The target price that \<open>calculateTargetPriceTrade\<close> returns lies between the mark price and the
  requested target, is the requested target itself when the whole gap is to be filled, and the
  direction of the trade is the direction of the gap.
\<close>

theorem target_trade_target:
  assumes "calculateTargetPriceTrade m target pct out = Inr (dir, sz, entry, t)"
  shows "min (calculateMarkPrice m) target \<le> t \<and> t \<le> max (calculateMarkPrice m) target \<and>
         (pct = MAXPCT \<longrightarrow> t = target) \<and> (dir = SHORT \<longleftrightarrow> t < calculateMarkPrice m)"
  using target_trade_InrD [OF assms] scaledTargetPrice_range [of pct "calculateMarkPrice m" target]
  by (auto split: if_splits)

theorem target_trade_target_witness:
  "min (calculateMarkPrice sample_market) 510000000000 \<le> (510000000000 :: BN) \<and>
   (LONG = SHORT \<longleftrightarrow> (510000000000 :: BN) < calculateMarkPrice sample_market)"
  using target_trade_target [of sample_market 510000000000 MAXPCT Quote, OF sample_target_trade]
  by simp



end
