(* ===== verification/UserTrade.thy ===== *)
theory UserTrade
  imports Margin Trade
begin

section \<open>ClearingHouseUser: liquidation prices and trade sizes\<close>

text \<open>
  The second part of \<open>sdk/src/clearingHouseUser.ts\<close>: at which price a position is liquidated,
  now or after a trade, how large a trade a leverage setting allows, and the leverage after a
  trade.
\<close>

subsection \<open>Liquidation prices\<close>

text \<open>Collateral less the margin that a position value takes up in a margin category.\<close>

definition collateralBeyond :: "UserView \<Rightarrow> BN \<Rightarrow> BN \<Rightarrow> MarginCategory \<Rightarrow> BN result" where
  "collateralBeyond u tc val category =
     bindE (getMaxLeverage u (Some category)) (\<lambda>ml.
       bindE (bn_div (val * TEN_THOUSAND) ml) (\<lambda>used. Inr (tc - used)))"

definition liquidationPriceOld :: "UserView \<Rightarrow> BN \<Rightarrow> BN \<Rightarrow> bool \<Rightarrow> BN result" where
  "liquidationPriceOld u mi positionBaseSizeChange partial =
     bindE (getMarket u mi) (\<lambda>m0.
     bindE (deref m0) (\<lambda>market0.
     let currentPrice = calculateMarkPrice market0 in
     bindE (getTotalCollateral u) (\<lambda>totalCollateralUSDC.
     bindE (getTotalPositionValueExcludingMarket u mi) (\<lambda>totalCurrentPositionValueIgnoringTargetUSDC.
     bindE (positionOrEmpty u mi) (\<lambda>currentMarketPosition.
     let proposedMarketPosition = \<lparr>
           UserPosition.baseAssetAmount =
             UserPosition.baseAssetAmount currentMarketPosition + positionBaseSizeChange,
           lastCumulativeFundingRate = 0, marketIndex = mi, UserPosition.quoteAssetAmount = 0\<rparr> in
     bindE (getMarket u mi) (\<lambda>m.
     bindE (baseAssetValueIn m proposedMarketPosition) (\<lambda>proposedMarketPositionValueUSDC.
     let targetTotalPositionValueUSDC =
           totalCurrentPositionValueIgnoringTargetUSDC + proposedMarketPositionValueUSDC in
     bindE (getTotalCollateral u) (\<lambda>tc.
     bindE (getTotalPositionValue u) (\<lambda>tpv.
     bindE (collateralBeyond u tc tpv Maintenance) (\<lambda>free0.
     bindE (if partial
            then bindE (getTotalCollateral u) (\<lambda>tc'. bindE (getTotalPositionValue u) (\<lambda>tpv'.
                   collateralBeyond u tc' tpv' Partial))
            else Inr free0) (\<lambda>totalFreeCollateralUSDC.
     if targetTotalPositionValueUSDC \<le> totalFreeCollateralUSDC \<and>
        UserPosition.baseAssetAmount proposedMarketPosition > ZERO
     then Inr (-1)
     else
       bindE (if proposedMarketPositionValueUSDC = ZERO then Inr BN_MAX
              else bn_div (totalCollateralUSDC * TEN_THOUSAND) proposedMarketPositionValueUSDC)
         (\<lambda>marginRatio.
           let liqRatio = (if partial then PARTIAL_LIQUIDATION_RATIO else FULL_LIQUIDATION_RATIO);
               pctChange = \<bar>marginRatio\<bar> - liqRatio in
           if UserPosition.baseAssetAmount proposedMarketPosition < 0
           then Inr ((currentPrice * (pctChange + TEN_THOUSAND)) sdiv TEN_THOUSAND)
           else if TEN_THOUSAND \<le> pctChange then Inr (-1)
           else Inr ((currentPrice * (TEN_THOUSAND - pctChange)) sdiv TEN_THOUSAND)))))))))))))"

text \<open>The price a liquidation price starts from: after the trade, when there is one.\<close>

definition priceAfterChange :: "UserView \<Rightarrow> BN \<Rightarrow> BN \<Rightarrow> BN result" where
  "priceAfterChange u mi positionBaseSizeChange =
     bindE (getMarket u mi) (\<lambda>m.
     bindE (deref m) (\<lambda>market.
       if positionBaseSizeChange = ZERO then Inr (calculateMarkPrice market)
       else
         let direction = (if positionBaseSizeChange > ZERO then LONG else SHORT) in
         mapE (\<lambda>(_, _, _, newPrice). newPrice)
           (calculateTradeSlippage direction \<bar>positionBaseSizeChange\<bar> market Base)))"

definition liquidationPrice :: "UserView \<Rightarrow> BN \<Rightarrow> BN \<Rightarrow> bool \<Rightarrow> BN result" where
  "liquidationPrice u mi positionBaseSizeChange partial =
     bindE (getTotalCollateral u) (\<lambda>tc.
     bindE (getTotalPositionValue u) (\<lambda>tpv.
     let partialLev = 16; maintLev = 20;
         thisLev = (if partial then partialLev else maintLev) in
     bindE (getTotalPositionValueExcludingMarket u mi) (\<lambda>totalCurrentPositionValueIgnoringTargetUSDC.
     bindE (positionOrEmpty u mi) (\<lambda>currentMarketPosition.
     let proposedBaseAssetAmount =
           UserPosition.baseAssetAmount currentMarketPosition + positionBaseSizeChange;
         proposedMarketPosition = \<lparr>
           UserPosition.baseAssetAmount = proposedBaseAssetAmount,
           lastCumulativeFundingRate = lastCumulativeFundingRate currentMarketPosition,
           marketIndex = mi, UserPosition.quoteAssetAmount = 0\<rparr> in
     bindE (getMarket u mi) (\<lambda>m.
     bindE (baseAssetValueIn m proposedMarketPosition) (\<lambda>proposedMarketPositionValueUSDC.
     let targetTotalPositionValueUSDC =
           totalCurrentPositionValueIgnoringTargetUSDC + proposedMarketPositionValueUSDC in
     bindE (collateralBeyond u tc totalCurrentPositionValueIgnoringTargetUSDC Maintenance) (\<lambda>free0.
     bindE (if partial
            then collateralBeyond u tc totalCurrentPositionValueIgnoringTargetUSDC Partial
            else Inr free0) (\<lambda>totalFreeCollateralUSDC.
     let priceDelt =
           (if proposedBaseAssetAmount < ZERO
            then ((tc * thisLev - tpv) * PRICE_TO_QUOTE_PRECISION) sdiv (thisLev + 1)
            else ((tc * thisLev - tpv) * PRICE_TO_QUOTE_PRECISION) sdiv (thisLev - 1)) in
     bindE (priceAfterChange u mi positionBaseSizeChange) (\<lambda>currentPrice.
     if targetTotalPositionValueUSDC \<le> totalFreeCollateralUSDC \<and>
        UserPosition.baseAssetAmount proposedMarketPosition > ZERO
     then Inr (-1)
     else if proposedBaseAssetAmount = ZERO then Inr (-1)
     else
       bindE (bn_div (priceDelt * AMM_RESERVE_PRECISION) proposedBaseAssetAmount) (\<lambda>eatMargin2.
         if eatMargin2 > currentPrice then Inr (-1)
         else Inr (currentPrice - eatMargin2)))))))))))"

text \<open>The base amount that closes a quote amount of a position.\<close>

definition closeBaseAmount :: "UserPosition \<Rightarrow> BN \<Rightarrow> BN result" where
  "closeBaseAmount currentPosition closeQuoteAmount =
     bindE (bn_div (UserPosition.baseAssetAmount currentPosition * closeQuoteAmount)
              (UserPosition.quoteAssetAmount currentPosition)) (\<lambda>q.
       bindE (bn_mod (UserPosition.baseAssetAmount currentPosition * closeQuoteAmount)
                (UserPosition.quoteAssetAmount currentPosition)) (\<lambda>r. Inr (- (q + r))))"

definition liquidationPriceAfterClose :: "UserView \<Rightarrow> BN \<Rightarrow> BN \<Rightarrow> BN result" where
  "liquidationPriceAfterClose u positionMarketIndex closeQuoteAmount =
     bindE (positionOrEmpty u positionMarketIndex) (\<lambda>currentPosition.
       bindE (closeBaseAmount currentPosition closeQuoteAmount) (\<lambda>closeBase.
         liquidationPrice u positionMarketIndex closeBase False))"

subsection \<open>Trade sizes\<close>

definition getMaxTradeSizeUSDC :: "UserView \<Rightarrow> BN \<Rightarrow> PositionDirection \<Rightarrow> BN \<Rightarrow> BN result" where
  "getMaxTradeSizeUSDC u targetMarketIndex tradeSide userMaxLeverageSetting =
     bindE (positionOrEmpty u targetMarketIndex) (\<lambda>currentPosition.
     let targetShort = (tradeSide = SHORT);
         currentShort = (UserPosition.baseAssetAmount currentPosition < 0);
         targettingSameSide = (targetShort = currentShort) in
     bindE (if targettingSameSide then Inr ZERO else getPositionValue u targetMarketIndex)
       (\<lambda>oppositeSizeValueUSDC.
     bindE (getLeverage u) (\<lambda>currentLeverage.
     let remainingLeverage = max (userMaxLeverageSetting - currentLeverage) ZERO in
     bindE (getTotalCollateral u) (\<lambda>totalCollateral.
     let maxPositionSize0 = (remainingLeverage * totalCollateral) sdiv TEN_THOUSAND in
     bindE
       (if userMaxLeverageSetting - currentLeverage \<ge> ZERO then
          if oppositeSizeValueUSDC = ZERO then Inr maxPositionSize0
          else Inr (maxPositionSize0 + oppositeSizeValueUSDC * 2)
        else if \<not> targettingSameSide then
          bindE (getPositionValue u targetMarketIndex) (\<lambda>currentPositionQuoteSize.
            let currentTotalQuoteSize = (currentLeverage * totalCollateral) sdiv TEN_THOUSAND;
                otherPositionsTotalQuoteSize = currentTotalQuoteSize - currentPositionQuoteSize;
                quoteValueOfMaxLeverage =
                  (userMaxLeverageSetting * totalCollateral) sdiv TEN_THOUSAND in
            if otherPositionsTotalQuoteSize - currentPositionQuoteSize \<ge> quoteValueOfMaxLeverage
            then Inr currentPositionQuoteSize
            else
              let allowedQuoteSizeAfterClosingCurrentPosition =
                    quoteValueOfMaxLeverage - otherPositionsTotalQuoteSize in
              Inr (currentPositionQuoteSize + allowedQuoteSizeAfterClosingCurrentPosition))
        else Inr maxPositionSize0)
       (\<lambda>maxPositionSize.
     let oneMilli = maxPositionSize sdiv QUOTE_PRECISION in
     Inr (maxPositionSize - oneMilli))))))"

definition accountLeverageRatioAfterTrade ::
  "UserView \<Rightarrow> BN \<Rightarrow> BN \<Rightarrow> PositionDirection \<Rightarrow> BN result" where
  "accountLeverageRatioAfterTrade u targetMarketIndex tradeQuoteAmount0 tradeSide =
     bindE (positionOrEmpty u targetMarketIndex) (\<lambda>currentPosition.
     bindE (getPositionValue u targetMarketIndex) (\<lambda>currentPositionQuoteAmount0.
     let currentSide = (if UserPosition.baseAssetAmount currentPosition < 0 then SHORT else LONG);
         currentPositionQuoteAmount =
           (if currentSide = SHORT then - currentPositionQuoteAmount0
            else currentPositionQuoteAmount0);
         tradeQuoteAmount = (if tradeSide = SHORT then - tradeQuoteAmount0 else tradeQuoteAmount0);
         currentMarketPositionAfterTrade = \<bar>currentPositionQuoteAmount + tradeQuoteAmount\<bar> in
     bindE (getTotalPositionValueExcludingMarket u targetMarketIndex)
       (\<lambda>totalPositionAfterTradeExcludingTargetMarket.
     bindE (getTotalCollateral u) (\<lambda>totalCollateral.
       if totalCollateral > ZERO
       then bn_div (\<bar>currentMarketPositionAfterTrade + totalPositionAfterTradeExcludingTargetMarket\<bar>
                      * TEN_THOUSAND) totalCollateral
       else Inr 0))))"

subsection \<open>The largest trade keeps the leverage\<close>

text \<open>
  The arithmetic of the cases without excess leverage: \<open>V\<close> is the total position value, \<open>lev\<close> the
  leverage, \<open>T\<close> a trade that adds at most the remaining leverage to it.
\<close>

lemma remaining_leverage_bound:
  assumes "0 < C" "0 \<le> (V :: int)" "lev = (V * 10000) sdiv C" "0 \<le> V + T" "T * 10000 \<le> (s - lev) * C"
  shows "((V + T) * 10000) sdiv C \<le> s"
proof -
  have "V * 10000 < C * (lev + 1)" unfolding assms(3) using assms by (intro less_sdiv_mult) auto
  then have "(V + T) * 10000 < (s + 1) * C" using assms(5) by (simp add: algebra_simps)
  then show ?thesis using assms by (simp add: le_sdiv_iff)
qed

lemma minus_millionth:
  assumes "0 \<le> (x :: int)"
  shows "0 \<le> x - x sdiv 1000000" "x - x sdiv 1000000 \<le> x" "x \<le> 2 * (x - x sdiv 1000000)"
  using assms sdiv_nonneg [of x 1000000] sdiv_le_self [of x 1000000] sdiv_mult_le [of x 1000000]
  by auto

lemma leverage_eq:
  "sees u ua ps st ms \<Longrightarrow> positionsOk ms ps \<Longrightarrow> collateralTotal ua ms ps \<noteq> 0 \<Longrightarrow>
     getLeverage u = Inr ((valueTotal ms ps * 10000) sdiv collateralTotal ua ms ps)"
  by (simp add: getLeverage_def user_totals constant_values)

text \<open>What a trade leaves of the signed position: on the same side it adds, else it is flipped.\<close>

definition sameSide :: "UserPosition \<Rightarrow> PositionDirection \<Rightarrow> bool" where
  "sameSide p side \<longleftrightarrow> (side = SHORT) = (UserPosition.baseAssetAmount p < 0)"

lemma ratio_after_trade_eq:
  assumes "sees u ua ps st ms" "positionsOk ms ps" "\<bar>mi\<bar> < 2 ^ 53" "0 < collateralTotal ua ms ps"
    and "positionOrEmpty u mi = Inr p" "0 \<le> T" "v = valueAt ms ps mi"
  shows "accountLeverageRatioAfterTrade u mi T side =
     Inr (((if sameSide p side then v + T else \<bar>v - T\<bar>) + valueTotal ms ps - v) * 10000
            sdiv collateralTotal ua ms ps)"
  using assms value_at_bounds [OF assms(2), of mi]
  by (cases side; cases "UserPosition.baseAssetAmount p < 0")
    (auto simp: accountLeverageRatioAfterTrade_def position_value_eq excluding_eq user_totals
      Let_def constant_values sameSide_def abs_minus_commute algebra_simps)

lemma max_trade_eq:
  assumes "sees u ua ps st ms" "positionsOk ms ps" "\<bar>mi\<bar> < 2 ^ 53" "0 < collateralTotal ua ms ps"
    and "positionOrEmpty u mi = Inr p" "v = valueAt ms ps mi"
    and "getLeverage u = Inr lev" "lev \<le> s"
  shows "getMaxTradeSizeUSDC u mi side s =
     (let x = ((s - lev) * collateralTotal ua ms ps) sdiv 10000 + (if sameSide p side then 0 else v * 2)
      in Inr (x - x sdiv 1000000))"
  using assms
  by (auto simp: getMaxTradeSizeUSDC_def position_value_eq user_totals Let_def constant_values
      sameSide_def)

text \<open>
  C4: the largest trade the SDK offers keeps the user's leverage setting: when the current leverage
  is within the setting, the leverage after a trade of that size on that side, as
  \<open>accountLeverageRatioAfterTrade\<close> computes it, is within the setting too.
\<close>

theorem max_trade_within_leverage:
  assumes "sees u ua ps st ms" "positionsOk ms ps" "\<bar>mi\<bar> < 2 ^ 53"
    and "getTotalCollateral u = Inr C" "0 < C" "getLeverage u = Inr lev" "lev \<le> s"
  shows "\<exists>T r. getMaxTradeSizeUSDC u mi side s = Inr T \<and> 0 \<le> T \<and>
           accountLeverageRatioAfterTrade u mi T side = Inr r \<and> r \<le> s"
proof -
  define v where "v = valueAt ms ps mi"
  let ?V = "valueTotal ms ps"
  obtain p where p: "positionOrEmpty u mi = Inr p" using assms by (simp add: positionOrEmpty_eq)
  have C: "C = collateralTotal ua ms ps" using assms by (simp add: user_totals)
  have lev: "lev = (?V * 10000) sdiv C" using assms C by (simp add: leverage_eq)
  have v: "0 \<le> v" "v \<le> ?V" using value_at_bounds [OF assms(2), of mi] by (simp_all add: v_def)
  define x where "x = ((s - lev) * C) sdiv 10000"
  have x: "0 \<le> x" "x * 10000 \<le> (s - lev) * C"
    using assms sdiv_mult_le [of "(s - lev) * C" 10000] by (simp_all add: x_def)
  define y where "y = x + (if sameSide p side then 0 else v * 2)"
  define T where "T = y - y sdiv 1000000"
  have T: "0 \<le> T" "T \<le> y" "y \<le> 2 * T"
    using minus_millionth [of y] x v by (auto simp: y_def T_def)
  have "getMaxTradeSizeUSDC u mi side s = Inr T"
    using max_trade_eq [OF assms(1-3) _ p v_def assms(6,7)] assms(5)
    by (simp add: C x_def y_def T_def Let_def)
  moreover define G where "G = (if sameSide p side then T else \<bar>v - T\<bar> - v)"
  have "accountLeverageRatioAfterTrade u mi T side = Inr (((?V + G) * 10000) sdiv C)"
    using ratio_after_trade_eq [OF assms(1-3) _ p T(1) v_def] assms(5)
    by (simp add: C G_def algebra_simps)
  moreover have "G \<le> x" "0 \<le> ?V + G"
    using T v x by (auto simp: G_def y_def split: if_splits)
  then have "((?V + G) * 10000) sdiv C \<le> s"
    using assms lev v x by (intro remaining_leverage_bound) auto
  ultimately show ?thesis using T by blast
qed

theorem max_trade_within_leverage_witness:
  "\<exists>T r. getMaxTradeSizeUSDC sample_view 0 SHORT 50000 = Inr T \<and> 0 \<le> T \<and>
     accountLeverageRatioAfterTrade sample_view 0 T SHORT = Inr r \<and> r \<le> 50000"
  using max_trade_within_leverage [OF sample_sees sample_positionsOk, of 0 10950047 45616 50000 SHORT]
  by (simp add: user_totals [OF sample_sees sample_positionsOk] sample_amounts
      leverage_eq [OF sample_sees sample_positionsOk])

subsection \<open>The liquidation price solves the margin equation\<close>

text \<open>The truncated quotients of the price change, against the exact margin surplus \<open>A\<close>.\<close>

lemma price_change_bounds:
  assumes "0 \<le> (A :: int)" "0 < n" "0 < b" "e = ((A sdiv n) * 10 ^ 13) sdiv b"
  shows "0 \<le> e" "n * (b * e) \<le> A * 10 ^ 13" "A * 10 ^ 13 < n * (b * e) + n * (b + 10 ^ 13)"
proof -
  define d where "d = A sdiv n"
  have d: "0 \<le> d" "n * d \<le> A" "A < n * (d + 1)"
    using assms sdiv_mult_le [of A n] less_sdiv_mult [of A n] by (simp_all add: d_def)
  have e: "b * e \<le> d * 10 ^ 13" "d * 10 ^ 13 < b * (e + 1)"
    using assms d sdiv_mult_le [of "d * 10 ^ 13" b] less_sdiv_mult [of "d * 10 ^ 13" b]
    by (simp_all add: d_def)
  show "0 \<le> e" using assms d by (simp add: d_def)
  have "n * (b * e) \<le> n * (d * 10 ^ 13)" using e assms by (intro mult_left_mono) auto
  also have "\<dots> \<le> A * 10 ^ 13" using d by simp
  finally show "n * (b * e) \<le> A * 10 ^ 13" .
  have "A * 10 ^ 13 < n * (d * 10 ^ 13) + n * 10 ^ 13" using d by (simp add: algebra_simps)
  also have "n * (d * 10 ^ 13) < n * (b * (e + 1))" using e assms by (intro mult_strict_left_mono) auto
  finally show "A * 10 ^ 13 < n * (b * e) + n * (b + 10 ^ 13)" by (simp add: algebra_simps)
qed

lemma max_leverage_pos:
  assumes "stateAccount u = Inr st"
    and "0 < marginRatioMaintenance st" "marginRatioMaintenance st \<le> 100000000"
    and "0 < marginRatioPartial st" "marginRatioPartial st \<le> 100000000"
    and "c = Maintenance \<or> c = Partial"
  shows "\<exists>f. collateralBeyond u tc val c = Inr f"
proof -
  have "0 < 100000000 sdiv r" if "0 < r" "r \<le> 100000000" for r :: int
    using that sdiv_le_iff [of 100000000 r 1] by simp
  with assms show ?thesis
    by (fastforce simp: collateralBeyond_def getMaxLeverage_def constant_values bn_div_def)
qed

lemma liquidation_price_shape:
  assumes "getTotalCollateral u = Inr C" "getTotalPositionValue u = Inr V"
    and "getTotalPositionValueExcludingMarket u mi = Inr x" "positionOrEmpty u mi = Inr p"
    and "getMarket u mi = Inr (Some m)" "calculateBaseAssetValue m p = Inr v"
    and "collateralBeyond u C x Maintenance = Inr f0" "collateralBeyond u C x Partial = Inr f1"
    and "UserPosition.baseAssetAmount p \<noteq> 0"
    and "lev = (if partial then 16 else 20)"
    and "n = (if UserPosition.baseAssetAmount p < 0 then lev + 1 else lev - 1)"
    and "V \<le> lev * C" "0 \<le> calculateMarkPrice m"
  shows "\<exists>L. liquidationPrice u mi 0 partial = Inr L \<and>
           (L = -1 \<and> 0 < UserPosition.baseAssetAmount p \<or> L = calculateMarkPrice m
              - ((((lev * C - V) * 10000) sdiv n) * 10 ^ 13) sdiv UserPosition.baseAssetAmount p)"
proof -
  have "calculateBaseAssetValue m \<lparr>UserPosition.baseAssetAmount = UserPosition.baseAssetAmount p,
      lastCumulativeFundingRate = l, marketIndex = mi, UserPosition.quoteAssetAmount = 0\<rparr> = Inr v" for l
    using assms(6) by (subst value_cong [where q = p]) auto
  moreover have "\<not> calculateMarkPrice m < ((((lev * C - V) * 10000) sdiv n) * 10 ^ 13)
      sdiv UserPosition.baseAssetAmount p" if "UserPosition.baseAssetAmount p < 0"
    using that assms(10-13)
      sdiv_nonneg [of "(((lev * C - V) * 10000) sdiv n) * 10 ^ 13" "- UserPosition.baseAssetAmount p"]
    by (simp add: sdiv_minus_right)
  ultimately show ?thesis using assms
    by (cases partial; cases "UserPosition.baseAssetAmount p < 0")
      (simp_all add: liquidationPrice_def priceAfterChange_def baseAssetValueIn_def Let_def
        constant_values mult.commute)
qed



subsection \<open>The size of a partial close\<close>

text \<open>
  The base amount that \<open>liquidationPriceAfterClose\<close> uses is exact when all of the quote amount
  is closed, and adding the remainder of the division to its quotient overshoots otherwise:
  closing 48.999999 of a position entered at 49 closes more than the position has, so the
  liquidation price is computed for a short position.
\<close>

theorem close_base_amount:
  "(UserPosition.quoteAssetAmount p \<noteq> 0 \<longrightarrow>
      closeBaseAmount p (UserPosition.quoteAssetAmount p) = Inr (- UserPosition.baseAssetAmount p)) \<and>
   closeBaseAmount sample_position 48999999 = Inr (- 10000017795918)"
proof -
  have "(b * q) sdiv q + (b * q) smod q = b" if "q \<noteq> 0" for b q :: int
    using that by (auto simp: signed_divide_int_def signed_modulo_int_def abs_mult sgn_if
        zero_less_mult_iff mult_less_0_iff)
  then show ?thesis
    by (simp add: closeBaseAmount_def signed_modulo_int_def signed_divide_int_def)
qed

theorem close_base_amount_witness: "closeBaseAmount sample_position 49000000 = Inr (- 10000000000000)"
  using close_base_amount [of sample_position] by simp

end
