(* ===== verification/Funding.thy ===== *)
theory Funding
  imports Conversion
begin

section \<open>Funding rate estimates\<close>

text \<open>
  \<open>sdk/src/math/funding.ts\<close>. The estimates are computed from the market, the price data of the
  oracle and the current time in seconds, the argument \<open>now\<close>. The price data are floating point
  numbers; a price that is \<open>undefined\<close> is \<open>None\<close>. Their average and its product with the price
  precision round with \<open>fl\<close> after every operation; \<open>bn_of_number\<close> is \<open>new BN(x)\<close>, which cuts the
  fraction off and asserts \<open>x < 2 ^ 53\<close>, so that the quotient 0 / 0 of an empty average fails.
\<close>

subsection \<open>The operations\<close>

record PriceData =
  price :: "rat option"
  previousPrice :: "rat option"

definition calculateFundingPool :: "Market \<Rightarrow> BN" where
  "calculateFundingPool market =
     (let totalFeeLB = AMM.totalFee (amm market) sdiv 2
      in max ZERO (((totalFeeMinusDistributions (amm market) - totalFeeLB) * 2) sdiv 3))"

text \<open>The average of the prices that are not negative, as a big number (lines 68 to 83).\<close>

definition oracleStablePrice :: "(rat \<Rightarrow> rat) \<Rightarrow> PriceData \<Rightarrow> BN result" where
  "oracleStablePrice fl data =
     (let (s1, c1) = (case price data of
                        Some p \<Rightarrow> if 0 \<le> p then (fl (0 + p), 0 + 1) else (0, 0)
                      | None \<Rightarrow> (0, 0 :: int));
          (s2, c2) = (case previousPrice data of
                        Some p \<Rightarrow> if 0 \<le> p then (fl (s1 + p), c1 + 1) else (s1, c1)
                      | None \<Rightarrow> (s1, c1))
      in if c2 = 0 then Inl BnAssertion
         else bn_of_number (fl (fl (s2 / of_int c2) * of_int MARK_PRICE_PRECISION)))"

text \<open>The time weighted average of an old average and a live price (lines 46 to 55, 63 to 66, 95 to 100).\<close>

definition secondsInHour :: BN where "secondsInHour = 3600"
definition hoursInDay :: BN where "hoursInDay = 24"

definition twapWeight :: "BN \<Rightarrow> BN" where
  "twapWeight timeSince = max secondsInHour (secondsInHour - timeSince)"

record FundingEstimates =
  markTwapLive :: BN
  oracleTwapLive :: BN
  lowerboundEst :: BN
  cappedAltEst :: BN
  interpEst :: BN

text \<open>
  The capped estimate of the smaller side (lines 129 to 193): \<open>interp\<close> unless the two sides
  differ and the spread favours the larger one.
\<close>

definition cappedEstimate :: "Market \<Rightarrow> BN \<Rightarrow> BN \<Rightarrow> BN \<Rightarrow> BN \<Rightarrow> BN \<Rightarrow> BN result" where
  "cappedEstimate market twapSpread feePoolSize oracleTwap periodAdjustment interp =
     (let long = Market.baseAssetAmountLong market;
          short = \<bar>Market.baseAssetAmountShort market\<bar>;
          capped = (\<lambda>largerSide smallerSide.
            if largerSide > ZERO then
              let feePoolTopOff = feePoolSize * (MARK_PRICE_PRECISION sdiv QUOTE_PRECISION)
                                    * AMM_RESERVE_PRECISION
              in bindE (bn_div ((smallerSide * twapSpread) sdiv hoursInDay + feePoolTopOff) largerSide)
                   (\<lambda>c1. bindE (bn_div (c1 * MARK_PRICE_PRECISION * 100) oracleTwap) (\<lambda>c2.
                      let c3 = c2 * periodAdjustment
                      in Inr (if \<bar>c3\<bar> \<ge> \<bar>interp\<bar> then interp else c3)))
            else Inr interp)
      in if long > short then
           (if twapSpread > 0 then Inr interp else capped \<bar>long\<bar> short)
         else if long < short then
           (if twapSpread < 0 then Inr interp else capped short \<bar>long\<bar>)
         else Inr interp)"

definition calculateAllEstimatedFundingRate ::
  "(rat \<Rightarrow> rat) \<Rightarrow> BN \<Rightarrow> Market \<Rightarrow> PriceData \<Rightarrow> BN \<Rightarrow> FundingEstimates result" where
  "calculateAllEstimatedFundingRate fl now market oraclePriceData periodAdjustment =
     (if \<not> initialized market then
        Inr \<lparr>markTwapLive = ZERO, oracleTwapLive = ZERO, lowerboundEst = ZERO,
             cappedAltEst = ZERO, interpEst = ZERO\<rparr>
      else
        let a = amm market;
            timeSinceLastUpdate = now - lastFundingRateTs a;
            timeSinceLastMarkChange = now - lastMarkPriceTwapTs a;
            markWeight = twapWeight timeSinceLastMarkChange;
            timeSinceLastOracleTwapUpdate = now - lastOraclePriceTwapTs a;
            oracleWeight = twapWeight timeSinceLastOracleTwapUpdate
        in
        bindE (bn_div (markWeight * lastMarkPriceTwap a
                         + timeSinceLastMarkChange * calculateMarkPrice market)
                 (timeSinceLastMarkChange + markWeight)) (\<lambda>markTwap.
        bindE (oracleStablePrice fl oraclePriceData) (\<lambda>stable.
        bindE (bn_div (\<bar>stable - lastOraclePriceTwap a\<bar> * MARK_PRICE_PRECISION * 100)
                 (lastOraclePriceTwap a)) (\<lambda>oracleLiveVsTwap.
        bindE (if oracleLiveVsTwap \<le> MARK_PRICE_PRECISION * 10
               then bn_div (oracleWeight * lastOraclePriceTwap a + timeSinceLastMarkChange * stable)
                      (timeSinceLastOracleTwapUpdate + oracleWeight)
               else Inr (lastOraclePriceTwap a)) (\<lambda>oracleTwap.
          let twapSpread = lastMarkPriceTwap a - lastOraclePriceTwap a in
          bindE (bn_div (twapSpread * MARK_PRICE_PRECISION * 100) oracleTwap) (\<lambda>twapSpreadPct.
            let lowerbound = (((twapSpreadPct * fundingPeriod a * min secondsInHour timeSinceLastUpdate
                                  * periodAdjustment) sdiv secondsInHour) sdiv secondsInHour)
                               sdiv hoursInDay;
                interp = (twapSpreadPct * periodAdjustment) sdiv hoursInDay;
                interpRateQuote = ((twapSpreadPct * periodAdjustment) sdiv hoursInDay)
                                    sdiv (MARK_PRICE_PRECISION sdiv QUOTE_PRECISION);
                feePoolSize = (if interpRateQuote < 0 then calculateFundingPool market * (-1)
                               else calculateFundingPool market)
            in bindE (cappedEstimate market twapSpread feePoolSize oracleTwap periodAdjustment interp)
                 (\<lambda>capped.
                   Inr \<lparr>markTwapLive = markTwap, oracleTwapLive = oracleTwap,
                        lowerboundEst = lowerbound, cappedAltEst = capped, interpEst = interp\<rparr>)))))))"

datatype EstimationMethod = interpolated | lowerbound | capped

definition calculateEstimatedFundingRate ::
  "(rat \<Rightarrow> rat) \<Rightarrow> BN \<Rightarrow> Market \<Rightarrow> PriceData \<Rightarrow> BN \<Rightarrow> EstimationMethod \<Rightarrow> BN result" where
  "calculateEstimatedFundingRate fl now market oraclePriceData periodAdjustment estimationMethod =
     bindE (calculateAllEstimatedFundingRate fl now market oraclePriceData periodAdjustment) (\<lambda>e.
       Inr (case estimationMethod of
              lowerbound \<Rightarrow> lowerboundEst e
            | capped \<Rightarrow> cappedAltEst e
            | interpolated \<Rightarrow> interpEst e))"

definition calculateLongShortFundingRate ::
  "(rat \<Rightarrow> rat) \<Rightarrow> BN \<Rightarrow> Market \<Rightarrow> PriceData \<Rightarrow> BN \<Rightarrow> (BN \<times> BN) result" where
  "calculateLongShortFundingRate fl now market oraclePriceData periodAdjustment =
     bindE (calculateAllEstimatedFundingRate fl now market oraclePriceData periodAdjustment) (\<lambda>e.
       Inr (if Market.baseAssetAmountLong market > Market.baseAssetAmountShort market
            then (cappedAltEst e, interpEst e)
            else if Market.baseAssetAmountLong market < Market.baseAssetAmountShort market
            then (interpEst e, cappedAltEst e)
            else (interpEst e, interpEst e)))"

definition calculateLongShortFundingRateAndLiveTwaps ::
  "(rat \<Rightarrow> rat) \<Rightarrow> BN \<Rightarrow> Market \<Rightarrow> PriceData \<Rightarrow> BN \<Rightarrow> (BN \<times> BN \<times> BN \<times> BN) result" where
  "calculateLongShortFundingRateAndLiveTwaps fl now market oraclePriceData periodAdjustment =
     bindE (calculateAllEstimatedFundingRate fl now market oraclePriceData periodAdjustment) (\<lambda>e.
       Inr (if Market.baseAssetAmountLong market > \<bar>Market.baseAssetAmountShort market\<bar>
            then (markTwapLive e, oracleTwapLive e, cappedAltEst e, interpEst e)
            else if Market.baseAssetAmountLong market < \<bar>Market.baseAssetAmountShort market\<bar>
            then (markTwapLive e, oracleTwapLive e, interpEst e, cappedAltEst e)
            else (markTwapLive e, oracleTwapLive e, interpEst e, interpEst e)))"

subsection \<open>Facts\<close>

lemma estimate_initialized:
  assumes "calculateAllEstimatedFundingRate fl now m d adj = Inr e" "initialized m"
  obtains stable twapSpreadPct feePool where
    "bn_div (twapWeight (now - lastMarkPriceTwapTs (amm m)) * lastMarkPriceTwap (amm m)
               + (now - lastMarkPriceTwapTs (amm m)) * calculateMarkPrice m)
       ((now - lastMarkPriceTwapTs (amm m)) + twapWeight (now - lastMarkPriceTwapTs (amm m)))
       = Inr (markTwapLive e)"
    and "oracleStablePrice fl d = Inr stable"
    and "oracleTwapLive e = lastOraclePriceTwap (amm m) \<or>
         bn_div (twapWeight (now - lastOraclePriceTwapTs (amm m)) * lastOraclePriceTwap (amm m)
                   + (now - lastMarkPriceTwapTs (amm m)) * stable)
           ((now - lastOraclePriceTwapTs (amm m)) + twapWeight (now - lastOraclePriceTwapTs (amm m)))
           = Inr (oracleTwapLive e)"
    and "interpEst e = (twapSpreadPct * adj) sdiv hoursInDay"
    and "cappedEstimate m (lastMarkPriceTwap (amm m) - lastOraclePriceTwap (amm m)) feePool
           (oracleTwapLive e) adj (interpEst e) = Inr (cappedAltEst e)"
  using assms
  by (auto simp: calculateAllEstimatedFundingRate_def Let_def bindE_Inr_iff split: if_splits)

lemma capped_abs_le:
  "cappedEstimate m spread pool twap adj interp = Inr c \<Longrightarrow> \<bar>c\<bar> \<le> \<bar>interp\<bar>"
  by (auto simp: cappedEstimate_def Let_def bindE_Inr_iff split: if_splits)

lemma capped_sides:
  "cappedEstimate m spread pool twap adj interp = Inr c \<Longrightarrow>
   Market.baseAssetAmountLong m = \<bar>Market.baseAssetAmountShort m\<bar> \<Longrightarrow> c = interp"
  by (simp add: cappedEstimate_def Let_def)

text \<open>A weighted average lies between its two values.\<close>

lemma weighted_average:
  assumes "0 < w" "0 \<le> t" "0 \<le> x" "0 \<le> (y :: int)"
  shows "min x y \<le> (w * x + t * y) sdiv (t + w) \<and> (w * x + t * y) sdiv (t + w) \<le> max x y"
proof -
  let ?s = "w * x + t * y"
  have "(t + w) * min x y \<le> ?s"
    using assms mult_left_mono [of "min x y" x w] mult_left_mono [of "min x y" y t]
      distrib_right [of t w "min x y"]
    by linarith
  moreover have "?s \<le> (t + w) * max x y"
    using assms mult_left_mono [of x "max x y" w] mult_left_mono [of y "max x y" t]
      distrib_right [of t w "max x y"]
    by linarith
  moreover have "0 \<le> ?s" using assms by simp
  ultimately show ?thesis
    using assms sdiv_le_iff [of ?s "t + w" "min x y"] le_sdiv_iff [of ?s "t + w" "max x y"]
    by (simp add: mult.commute distrib_left)
qed

lemma twapWeight_pos: "0 < twapWeight t"
  by (simp add: twapWeight_def secondsInHour_def)

lemma twapWeight_after: "0 \<le> t \<Longrightarrow> twapWeight t = 3600"
  by (simp add: twapWeight_def secondsInHour_def)

subsection \<open>Properties\<close>

definition sample_prices :: PriceData where
  "sample_prices = \<lparr>price = Some 49, previousPrice = Some 50\<rparr>"

lemmas funding_eval = calculateAllEstimatedFundingRate_def oracleStablePrice_def sample_prices_def
  bn_of_number_def twapWeight_def secondsInHour_def hoursInDay_def cappedEstimate_def
  calculateFundingPool_def calculateMarkPrice_def calculatePrice_def Let_def constant_values

lemma sample_estimates:
  "calculateAllEstimatedFundingRate id 1640998800 sample_market sample_prices 1
     = Inr \<lparr>markTwapLive = 500000000000, oracleTwapLive = 492500000000,
            lowerboundEst = 846023688, cappedAltEst = 846023688, interpEst = 846023688\<rparr>"
  by (simp add: funding_eval)

definition short_heavy_market :: Market where
  "short_heavy_market = sample_market\<lparr>
     amm := sample_amm\<lparr>totalFeeMinusDistributions := 2000000\<rparr>,
     Market.baseAssetAmountLong := 10000000000000, Market.baseAssetAmountShort := -20000000000000\<rparr>"

lemma short_heavy_estimates:
  "calculateAllEstimatedFundingRate id 1640998800 short_heavy_market sample_prices 1
     = Inr \<lparr>markTwapLive = 500000000000, oracleTwapLive = 492500000000,
            lowerboundEst = 846023688, cappedAltEst = 423011843, interpEst = 846023688\<rparr>"
  by (simp add: funding_eval short_heavy_market_def)

text \<open>
  The capped estimate is never larger in magnitude than the interpolated one: the rate of the
  side that pays out of the fee pool is a reduction of the full rate.
\<close>

theorem capped_within_interp:
  assumes "calculateAllEstimatedFundingRate fl now m d adj = Inr e"
  shows "\<bar>cappedAltEst e\<bar> \<le> \<bar>interpEst e\<bar>"
proof (cases "initialized m")
  case True
  with assms show ?thesis by (rule estimate_initialized) (blast dest: capped_abs_le)
next
  case False
  with assms show ?thesis by (auto simp: calculateAllEstimatedFundingRate_def)
qed

theorem capped_within_interp_witness:
  "\<exists>e. calculateAllEstimatedFundingRate id 1640998800 short_heavy_market sample_prices 1 = Inr e \<and>
     \<bar>cappedAltEst e\<bar> \<le> \<bar>interpEst e\<bar>"
  using capped_within_interp [OF short_heavy_estimates] short_heavy_estimates by blast

text \<open>
  The live average of the mark price lies between the last average and the mark price, at
  every time that is not before the last update.
\<close>

theorem mark_twap_between:
  assumes "calculateAllEstimatedFundingRate fl now m d adj = Inr e" "initialized m"
    and "lastMarkPriceTwapTs (amm m) \<le> now" "0 \<le> lastMarkPriceTwap (amm m)"
    and "0 \<le> calculateMarkPrice m"
  shows "min (lastMarkPriceTwap (amm m)) (calculateMarkPrice m) \<le> markTwapLive e \<and>
         markTwapLive e \<le> max (lastMarkPriceTwap (amm m)) (calculateMarkPrice m)"
  using assms(1,2)
proof (rule estimate_initialized)
  let ?t = "now - lastMarkPriceTwapTs (amm m)"
  assume "bn_div (twapWeight ?t * lastMarkPriceTwap (amm m) + ?t * calculateMarkPrice m)
            (?t + twapWeight ?t) = Inr (markTwapLive e)"
  with weighted_average [of "twapWeight ?t" ?t "lastMarkPriceTwap (amm m)" "calculateMarkPrice m"]
    assms twapWeight_pos [of ?t]
  show ?thesis by (simp add: bn_div_Inr_iff)
qed

theorem mark_twap_between_witness:
  "\<exists>e. calculateAllEstimatedFundingRate id 1640998800 sample_market sample_prices 1 = Inr e \<and>
     min (lastMarkPriceTwap sample_amm) (calculateMarkPrice sample_market) \<le> markTwapLive e"
  using mark_twap_between [OF sample_estimates] sample_estimates
  by (auto simp: calculateMarkPrice_def calculatePrice_def constant_values)

text \<open>
  The live average of the oracle price weighs the live price with the time since the last
  \<^emph>\<open>mark\<close> update but divides by the time since the last \<^emph>\<open>oracle\<close> update: when the two times
  differ, an oracle price that has not moved at all can double the average.
\<close>

theorem oracle_twap_mixes_times:
  "\<exists>m d e. initialized m \<and>
     oracleStablePrice id d = Inr (lastOraclePriceTwap (amm m)) \<and>
     calculateAllEstimatedFundingRate id 1640998800 m d 1 = Inr e \<and>
     oracleTwapLive e = 2 * lastOraclePriceTwap (amm m)"
proof (intro exI conjI)
  let ?m = "sample_market\<lparr>amm := sample_amm\<lparr>lastOraclePriceTwapTs := 1640998800\<rparr>\<rparr>"
  let ?d = "\<lparr>price = Some 49, previousPrice = None\<rparr>"
  let ?e = "\<lparr>markTwapLive = 500000000000, oracleTwapLive = 980000000000,
              lowerboundEst = 425170068, cappedAltEst = 425170068, interpEst = 425170068\<rparr>"
  show "initialized ?m" by simp
  show "oracleStablePrice id ?d = Inr (lastOraclePriceTwap (amm ?m))" by (simp add: funding_eval)
  show "calculateAllEstimatedFundingRate id 1640998800 ?m ?d 1 = Inr ?e" by (simp add: funding_eval)
  show "oracleTwapLive ?e = 2 * lastOraclePriceTwap (amm ?m)" by simp
qed

text \<open>
  The old average of the mark price keeps the weight of a full hour however long ago it was
  taken, so the live average never catches up with the mark price.
\<close>

theorem mark_twap_weight_constant:
  assumes "calculateAllEstimatedFundingRate fl now m d adj = Inr e" "initialized m"
    and "lastMarkPriceTwapTs (amm m) \<le> now"
  shows "markTwapLive e =
           (3600 * lastMarkPriceTwap (amm m)
              + (now - lastMarkPriceTwapTs (amm m)) * calculateMarkPrice m)
             sdiv (now - lastMarkPriceTwapTs (amm m) + 3600)"
  using assms(1,2)
  by (rule estimate_initialized) (use assms(3) in \<open>auto simp: twapWeight_after bn_div_Inr_iff\<close>)

theorem mark_twap_weight_constant_witness:
  "(500000000000 :: BN) = (3600 * lastMarkPriceTwap sample_amm
      + 3600 * calculateMarkPrice sample_market) sdiv 7200"
  using mark_twap_weight_constant [OF sample_estimates] by simp

text \<open>
  The two functions that split the estimate into a long and a short rate disagree: with the
  short amount stored as a negative number, \<open>calculateLongShortFundingRate\<close> assigns the capped
  rate to the long side of every market with open positions, also when the short side is the
  larger one, where \<open>calculateLongShortFundingRateAndLiveTwaps\<close> assigns it to the short side.
\<close>

theorem long_short_rates_disagree:
  assumes "calculateAllEstimatedFundingRate fl now m d adj = Inr e"
    and "0 \<le> Market.baseAssetAmountLong m" "Market.baseAssetAmountShort m < 0"
    and "Market.baseAssetAmountLong m < \<bar>Market.baseAssetAmountShort m\<bar>"
  shows "calculateLongShortFundingRate fl now m d adj = Inr (cappedAltEst e, interpEst e) \<and>
         calculateLongShortFundingRateAndLiveTwaps fl now m d adj
           = Inr (markTwapLive e, oracleTwapLive e, interpEst e, cappedAltEst e)"
  using assms
  by (simp add: calculateLongShortFundingRate_def calculateLongShortFundingRateAndLiveTwaps_def)

theorem long_short_rates_disagree_witness:
  "calculateLongShortFundingRate id 1640998800 short_heavy_market sample_prices 1
     = Inr (423011843, 846023688) \<and>
   calculateLongShortFundingRateAndLiveTwaps id 1640998800 short_heavy_market sample_prices 1
     = Inr (500000000000, 492500000000, 846023688, 423011843)"
  using long_short_rates_disagree [OF short_heavy_estimates] by (simp add: short_heavy_market_def)

text \<open>
  The funding pool is never negative, and never exceeds two thirds of what the market earned
  above half of its total fees.
\<close>

theorem funding_pool_bounds:
  "0 \<le> calculateFundingPool m \<and>
   3 * calculateFundingPool m
     \<le> max 0 (2 * (totalFeeMinusDistributions (amm m) - AMM.totalFee (amm m) sdiv 2))"
proof -
  let ?d = "totalFeeMinusDistributions (amm m) - AMM.totalFee (amm m) sdiv 2"
  have "0 \<le> ?d \<Longrightarrow> 3 * ((?d * 2) sdiv 3) \<le> ?d * 2" by (intro sdiv_mult_le) auto
  moreover have "?d \<le> 0 \<Longrightarrow> (?d * 2) sdiv 3 \<le> 0" by (intro sdiv_nonpos) auto
  ultimately show ?thesis by (auto simp: calculateFundingPool_def Let_def ZERO_def max_def)
qed

end
