(* ===== verification/Vaults.thy ===== *)
theory Vaults
  imports Types
begin

section \<open>The vaults\<close>

text \<open>
  \<open>sdk/src/math/collateral.ts\<close> and \<open>sdk/src/math/insuranceFund.ts\<close>: the size of the user
  collateral and of the insurance fund, from the balance of a token account and the fees of the
  markets. The RPC node is a parameter: \<open>getTokenAccountBalance\<close> answers a public key with the
  raw amount of the token account in decimal digits, or the call throws.
\<close>

text \<open>\<open>new BN(s)\<close> for a text \<open>s\<close> of decimal digits.\<close>

definition bn_of_string :: "string \<Rightarrow> BN" where
  "bn_of_string s = foldl (\<lambda>acc c. 10 * acc + (int (of_char c) - 48)) 0 s"

text \<open>
  \<open>collateral.ts\<close> imports no \<open>BN\<close>: \<open>new BN(...)\<close> refers to a global name. Whether the surrounding
  program binds it is the first argument.
\<close>

definition calculateUserCollateralSize ::
  "bool \<Rightarrow> (PublicKey \<Rightarrow> string result) \<Rightarrow> StateAccount \<Rightarrow> MarketsAccount \<Rightarrow> BN result" where
  "calculateUserCollateralSize globalBN getTokenAccountBalance state marketsAccount =
     (let collateralVaultPublicKey = collateralVault state in
      if \<not> globalBN then Inl (ReferenceError ''BN'')
      else
        bindE (getTokenAccountBalance collateralVaultPublicKey) (\<lambda>amt.
          Inr (foldl (\<lambda>collateralVaultAmount market. collateralVaultAmount - AMM.totalFee (amm market))
                 (bn_of_string amt) (MarketsAccount.markets marketsAccount))))"

definition calculateInsuranceFundSize ::
  "(PublicKey \<Rightarrow> string result) \<Rightarrow> StateAccount \<Rightarrow> MarketsAccount \<Rightarrow> BN result" where
  "calculateInsuranceFundSize getTokenAccountBalance state marketsAccount =
     (let insuranceVaultPublicKey = insuranceVault state in
      bindE (getTokenAccountBalance insuranceVaultPublicKey) (\<lambda>amt.
        Inr (foldl (\<lambda>insuranceVaultAmount market. insuranceVaultAmount + AMM.totalFee (amm market) sdiv 2)
               (bn_of_string amt) (MarketsAccount.markets marketsAccount))))"

lemma bn_of_string_snoc: "bn_of_string (s @ [c]) = 10 * bn_of_string s + (int (of_char c) - 48)"
  by (simp add: bn_of_string_def)

lemma bn_of_string_toString: "bn_of_string (nat_toString n) = int n"
proof (induction n rule: nat_toString.induct)
  case (1 n)
  show ?case
  proof (cases "n < 10")
    case True
    then show ?thesis
      by (subst nat_toString.simps) (simp add: bn_of_string_def of_char_of)
  next
    case False
    have "10 * int (n div 10) + int (n mod 10) = int (10 * (n div 10) + n mod 10)"
      by (simp only: of_nat_add of_nat_mult of_nat_numeral)
    also have "\<dots> = int n" by simp
    finally show ?thesis
      using False 1 by (subst nat_toString.simps) (simp add: bn_of_string_snoc of_char_of)
  qed
qed

lemma foldl_minus_sum: "foldl (\<lambda>a x. a - f x) (b :: int) xs = b - (\<Sum>x\<leftarrow>xs. f x)"
  by (induction xs arbitrary: b) auto

lemma foldl_plus_sum: "foldl (\<lambda>a x. a + f x) (b :: int) xs = b + (\<Sum>x\<leftarrow>xs. f x)"
  by (induction xs arbitrary: b) auto

text \<open>
  When both vaults answer, the two sizes account for the fees of the markets: what is deducted
  from the collateral vault is the total fee of all markets, and the insurance fund is credited
  with half of each market's fee, rounded towards zero, so twice its gain falls short of that
  total by at most one unit per market.
\<close>

theorem vault_sizes_account_fees:
  assumes "rpc (collateralVault st) = Inr (nat_toString c)"
    and "rpc (insuranceVault st) = Inr (nat_toString i)"
    and "\<forall>m \<in> set (MarketsAccount.markets ma). 0 \<le> AMM.totalFee (amm m)"
  shows "\<exists>u f. calculateUserCollateralSize True rpc st ma = Inr u \<and>
               calculateInsuranceFundSize rpc st ma = Inr f \<and>
               int c - u = (\<Sum>m\<leftarrow>MarketsAccount.markets ma. AMM.totalFee (amm m)) \<and>
               2 * (f - int i) \<le> int c - u \<and>
               int c - u \<le> 2 * (f - int i) + int (length (MarketsAccount.markets ma))"
proof -
  have half: "2 * (x sdiv 2) \<le> x \<and> x \<le> 2 * (x sdiv 2) + 1" if "0 \<le> x" for x :: int
    using that sdiv_mult_le [of x 2] less_sdiv_mult [of x 2] by simp
  have "2 * (\<Sum>m\<leftarrow>ms. AMM.totalFee (amm m) sdiv 2) \<le> (\<Sum>m\<leftarrow>ms. AMM.totalFee (amm m)) \<and>
        (\<Sum>m\<leftarrow>ms. AMM.totalFee (amm m))
          \<le> 2 * (\<Sum>m\<leftarrow>ms. AMM.totalFee (amm m) sdiv 2) + int (length ms)"
    if "\<forall>m \<in> set ms. 0 \<le> AMM.totalFee (amm m)" for ms
    using that
  proof (induction ms)
    case (Cons m ms)
    with half [of "AMM.totalFee (amm m)"] show ?case by simp
  qed simp
  from this [OF assms(3)] assms(1,2) show ?thesis
    by (simp add: calculateUserCollateralSize_def calculateInsuranceFundSize_def Let_def
        foldl_minus_sum foldl_plus_sum bn_of_string_toString)
qed

lemma sample_decimals: "nat_toString 900 = ''900''" "nat_toString 5 = ''5''"
  by code_simp+

theorem vault_sizes_account_fees_witness:
  "calculateInsuranceFundSize (\<lambda>k. Inr (if k = ''vault'' then ''900'' else ''5'')) sample_state
     (sample_markets\<lparr>MarketsAccount.markets :=
        [sample_market\<lparr>amm := sample_amm\<lparr>AMM.totalFee := 7\<rparr>\<rparr>]\<rparr>) = Inr 8"
  using vault_sizes_account_fees
    [of "\<lambda>k. Inr (if k = ''vault'' then ''900'' else ''5'')" sample_state 900 5
      "sample_markets\<lparr>MarketsAccount.markets :=
         [sample_market\<lparr>amm := sample_amm\<lparr>AMM.totalFee := 7\<rparr>\<rparr>]\<rparr>"]
  by (auto simp: sample_decimals)

end
