(* ===== verification/History.thy ===== *)
theory History
  imports Types
begin

section \<open>The history accounts of the SDK\<close>

text \<open>
  The history accounts of \<open>sdk/src/types.ts\<close> and their records.
  Each history account is a ring of records with a \<open>head\<close>; the direction of a deposit or of a
  trade record is the variant object the program encodes.
\<close>

datatype DepositDirection = Deposit | Withdraw

record DepositRecord =
  ts :: BN
  recordId :: BN
  userAuthority :: PublicKey
  user :: PublicKey
  deposit_direction :: DepositDirection
  collateralBefore :: BN
  cumulativeDepositsBefore :: BN
  amount :: BN

record ExtendedCurveRecord =
  ts :: BN
  recordId :: BN
  marketIndex :: BN
  pegMultiplierBefore :: BN
  baseAssetReserveBefore :: BN
  quoteAssetReserveBefore :: BN
  sqrtKBefore :: BN
  pegMultiplierAfter :: BN
  baseAssetReserveAfter :: BN
  quoteAssetReserveAfter :: BN
  sqrtKAfter :: BN
  baseAssetAmountLong :: BN
  baseAssetAmountShort :: BN
  baseAssetAmount :: BN
  openInterest :: BN
  oraclePrice :: BN
  tradeId :: BN

record TradeRecord =
  ts :: BN
  recordId :: BN
  userAuthority :: PublicKey
  user :: PublicKey
  trade_direction :: PositionDirection
  baseAssetAmount :: BN
  quoteAssetAmount :: BN
  markPriceBefore :: BN
  markPriceAfter :: BN
  fee :: BN
  referrerReward :: BN
  refereeDiscount :: BN
  tokenDiscount :: BN
  marketIndex :: BN
  liquidation :: bool
  oraclePrice :: BN

record FundingRateRecord =
  ts :: BN
  recordId :: BN
  marketIndex :: BN
  fundingRate :: BN
  cumulativeFundingRateLong :: BN
  cumulativeFundingRateShort :: BN
  oraclePriceTwap :: BN
  markPriceTwap :: BN

record FundingPaymentRecord =
  ts :: BN
  recordId :: BN
  userAuthority :: PublicKey
  user :: PublicKey
  marketIndex :: BN
  fundingPayment :: BN
  baseAssetAmount :: BN
  userLastCumulativeFunding :: BN
  userLastFundingRateTs :: BN
  ammCumulativeFundingLong :: BN
  ammCumulativeFundingShort :: BN

record LiquidationRecord =
  ts :: BN
  recordId :: BN
  userAuthority :: PublicKey
  user :: PublicKey
  liquidation_partial :: bool
  baseAssetValue :: BN
  baseAssetValueClosed :: BN
  liquidationFee :: BN
  feeToLiquidator :: BN
  feeToInsuranceFund :: BN
  liquidator :: PublicKey
  totalCollateral :: BN
  collateral :: BN
  unrealizedPnl :: BN
  marginRatio :: BN

record TradeHistoryAccount =
  head :: BN
  tradeRecords :: "TradeRecord list"

record DepositHistoryAccount =
  head :: BN
  depositRecords :: "DepositRecord list"

record ExtendedCurveHistoryAccount =
  head :: BN
  curveRecords :: "ExtendedCurveRecord list"

record FundingRateHistoryAccount =
  head :: BN
  fundingRateRecords :: "FundingRateRecord list"

record FundingPaymentHistoryAccount =
  head :: BN
  fundingPaymentRecords :: "FundingPaymentRecord list"

record LiquidationHistoryAccount =
  head :: BN
  liquidationRecords :: "LiquidationRecord list"

end
