(* ===== verification/SlotCache.thy ===== *)
theory SlotCache
  imports Prelude
begin

section \<open>Account data with a slot\<close>

text \<open>
  The type \<open>AccountData\<close> of \<open>sdk/src/accounts/types.ts\<close> and the contract its two keepers share,
  the \<open>BulkAccountLoader\<close> (one entry per account) and the \<open>WebSocketAccountSubscriber\<close> (one
  account): what a response of the RPC node for a slot does to the data that is there. The locale
  \<open>slot_cache\<close> states the contract and derives what a sequence of responses leaves behind.
\<close>

type_synonym Buffer = "nat list"

record AccountData =
  slot :: nat
  buffer :: "Buffer option"

text \<open>
  What a response means for the data: the first one is always taken, a later one only when its
  slot is newer and it has a buffer that differs.
\<close>

definition fresher :: "AccountData option \<Rightarrow> nat \<Rightarrow> Buffer option \<Rightarrow> bool" where
  "fresher old newSlot newBuffer =
     (case old of
        None \<Rightarrow> True
      | Some d \<Rightarrow> slot d < newSlot \<and> newBuffer \<noteq> None \<and> newBuffer \<noteq> buffer d)"

definition nextData :: "AccountData option \<Rightarrow> nat \<Rightarrow> Buffer option \<Rightarrow> AccountData option" where
  "nextData old newSlot newBuffer =
     (if fresher old newSlot newBuffer then Some \<lparr>slot = newSlot, buffer = newBuffer\<rparr> else old)"

locale slot_cache =
  fixes handle :: "nat \<Rightarrow> Buffer option \<Rightarrow> 's \<Rightarrow> 's"
    and cached :: "'s \<Rightarrow> AccountData option"
  assumes cached_handle: "cached (handle n b s) = nextData (cached s) n b"
begin

lemma first_taken: "cached s = None \<Longrightarrow> cached (handle n b s) = Some \<lparr>slot = n, buffer = b\<rparr>"
  by (simp add: cached_handle nextData_def fresher_def)

lemma stale_ignored: "cached s = Some d \<Longrightarrow> n \<le> slot d \<Longrightarrow> cached (handle n b s) = Some d"
  by (simp add: cached_handle nextData_def fresher_def)

lemma newer_taken:
  "cached s = Some d \<Longrightarrow> slot d < n \<Longrightarrow>
     \<exists>d'. cached (handle n (Some b) s) = Some d' \<and> buffer d' = Some b"
  by (auto simp: cached_handle nextData_def fresher_def)

lemma slot_mono: "cached s = Some d \<Longrightarrow> \<exists>d'. cached (handle n b s) = Some d' \<and> slot d \<le> slot d'"
  by (auto simp: cached_handle nextData_def fresher_def)

lemma slots_mono:
  "cached s = Some d \<Longrightarrow> \<exists>d'. cached (fold (\<lambda>(n, b). handle n b) rs s) = Some d' \<and> slot d \<le> slot d'"
proof (induction rs arbitrary: s d)
  case (Cons r rs)
  obtain n b where r: "r = (n, b)" by (cases r)
  obtain d' where d': "cached (handle n b s) = Some d'" "slot d \<le> slot d'"
    using slot_mono [OF Cons.prems] by blast
  from Cons.IH [OF d'(1)] d'(2) r show ?case by (auto intro: order_trans)
qed simp

text \<open>Nothing is made up: the data is the initial data or one of the responses.\<close>

lemma cached_from_responses:
  "cached (fold (\<lambda>(n, b). handle n b) rs s) = Some d \<Longrightarrow>
     cached s = Some d \<or> (slot d, buffer d) \<in> set rs"
proof (induction rs arbitrary: s)
  case (Cons r rs)
  obtain n b where r: "r = (n, b)" by (cases r)
  with Cons.IH [of "handle n b s"] Cons.prems
  have "cached (handle n b s) = Some d \<or> (slot d, buffer d) \<in> set rs" by simp
  with r show ?case by (auto simp: cached_handle nextData_def split: if_splits)
qed simp

text \<open>Responses that arrive in the order of their slots leave the buffer of the last one.\<close>

lemma ordered_slot_bound:
  "sorted_wrt (<) (map fst rs) \<Longrightarrow> (\<forall>d. cached s = Some d \<longrightarrow> (\<forall>r \<in> set rs. slot d < fst r)) \<Longrightarrow>
     cached (fold (\<lambda>(n, b). handle n b) rs s) = Some d \<Longrightarrow>
     cached s = Some d \<or> (\<exists>r \<in> set rs. slot d = fst r)"
  using cached_from_responses [of rs s d] by force

lemma ordered_last:
  assumes "sorted_wrt (<) (map fst (rs @ [(n, Some b)]))"
    and "\<forall>d. cached s = Some d \<longrightarrow> (\<forall>r \<in> set (rs @ [(n, Some b)]). slot d < fst r)"
  shows "\<exists>d. cached (fold (\<lambda>(n, b). handle n b) (rs @ [(n, Some b)]) s) = Some d \<and> buffer d = Some b"
proof (cases "cached (fold (\<lambda>(n, b). handle n b) rs s)")
  case None
  then show ?thesis by (simp add: first_taken)
next
  case (Some d)
  have "slot d < n"
    using ordered_slot_bound [OF _ _ Some] assms by (auto simp: sorted_wrt_append)
  with newer_taken [OF Some] show ?thesis by simp
qed

end

end
