(* ===== verification/Loader.thy ===== *)
theory Loader
  imports SlotCache Types "HOL-Library.AList"
begin

section \<open>BulkAccountLoader\<close>

text \<open>
  \<open>sdk/src/accounts/bulkAccountLoader.ts\<close>: accounts are registered with callbacks, loaded in
  chunks of at most 99 with one RPC request per chunk, and the callbacks run when an account has
  new data. The maps of the class keep insertion order, as \<open>AList.update\<close> does.

  What is not the loader's code is a parameter. A callback is a token of type \<open>Callback\<close>, and the
  record \<open>Runtime\<close> says whether running it throws (the coder of a subscriber throws on a missing
  buffer, \<open>emit('error')\<close> throws without a listener) and how \<open>Buffer.from\<close> decodes. The identifier
  \<open>uuidv4()\<close> returns is an argument of the operations that call it. An \<open>AccountToLoad\<close> object is
  mutable and shared between the map and the chunks in flight: \<open>objectId\<close> is its identity.

  Promises are numbers: \<open>loadPromise\<close> is the promise handed to callers while a load runs,
  \<open>loadPromiseResolver\<close> the promise its resolver belongs to, \<open>resolvedPromises\<close> those that have
  been resolved.
\<close>

type_synonym Callback = nat

record AccountToLoad =
  publicKey :: PublicKey
  callbacks :: "(string \<times> Callback) list"
  objectId :: nat

record Loader =
  accountsToLoad :: "(string \<times> AccountToLoad) list"
  accountData :: "(string \<times> AccountData) list"
  errorCallbacks :: "(string \<times> Callback) list"
  intervalId :: "nat option"
  loadPromise :: "nat option"
  loadPromiseResolver :: "nat option"
  resolvedPromises :: "nat list"
  nextPromise :: nat
  nextObject :: nat
  nextInterval :: nat

definition GET_MULTIPLE_ACCOUNTS_CHUNK_SIZE :: nat where
  "GET_MULTIPLE_ACCOUNTS_CHUNK_SIZE = 99"

text \<open>The constructor (connection, commitment and polling frequency are not read by the model).\<close>

definition newLoader :: Loader where
  "newLoader = \<lparr>
     accountsToLoad = [], accountData = [], errorCallbacks = [], intervalId = None,
     loadPromise = None, loadPromiseResolver = None, resolvedPromises = [],
     nextPromise = 0, nextObject = 0, nextInterval = 0\<rparr>"

subsection \<open>Polling\<close>

definition startPolling :: "Loader \<Rightarrow> Loader" where
  "startPolling l =
     (case intervalId l of
        Some _ \<Rightarrow> l
      | None \<Rightarrow> l\<lparr>intervalId := Some (nextInterval l), nextInterval := nextInterval l + 1\<rparr>)"

definition stopPolling :: "Loader \<Rightarrow> Loader" where
  "stopPolling l = (case intervalId l of Some _ \<Rightarrow> l\<lparr>intervalId := None\<rparr> | None \<Rightarrow> l)"

subsection \<open>Registration\<close>

text \<open>\<open>addAccount\<close> returns the identifier of the callback, which is the argument \<open>callbackId\<close>.\<close>

definition addAccount :: "string \<Rightarrow> PublicKey \<Rightarrow> Callback \<Rightarrow> Loader \<Rightarrow> Loader" where
  "addAccount callbackId pk callback l =
     (let existingSize = length (accountsToLoad l);
          l1 = (case map_of (accountsToLoad l) pk of
                  Some a \<Rightarrow>
                    l\<lparr>accountsToLoad := AList.update pk
                        (a\<lparr>callbacks := AList.update callbackId callback (callbacks a)\<rparr>)
                        (accountsToLoad l)\<rparr>
                | None \<Rightarrow>
                    l\<lparr>accountsToLoad := AList.update pk
                        \<lparr>publicKey = pk, callbacks = [(callbackId, callback)], objectId = nextObject l\<rparr>
                        (accountsToLoad l),
                      nextObject := nextObject l + 1\<rparr>);
          l2 = (if existingSize = 0 then startPolling l1 else l1)
      in l2\<lparr>loadPromise := None\<rparr>)"

definition removeAccount :: "PublicKey \<Rightarrow> string \<Rightarrow> Loader \<Rightarrow> Loader" where
  "removeAccount pk callbackId l =
     (let l1 = (case map_of (accountsToLoad l) pk of
                  None \<Rightarrow> l
                | Some a \<Rightarrow>
                    let a' = a\<lparr>callbacks := AList.delete callbackId (callbacks a)\<rparr> in
                    if callbacks a' = []
                    then l\<lparr>accountsToLoad := AList.delete (publicKey a) (accountsToLoad l)\<rparr>
                    else l\<lparr>accountsToLoad := AList.update pk a' (accountsToLoad l)\<rparr>)
      in if accountsToLoad l1 = [] then stopPolling l1 else l1)"

definition addErrorCallbacks :: "string \<Rightarrow> Callback \<Rightarrow> Loader \<Rightarrow> Loader" where
  "addErrorCallbacks callbackId callback l =
     l\<lparr>errorCallbacks := AList.update callbackId callback (errorCallbacks l)\<rparr>"

definition removeErrorCallbacks :: "string \<Rightarrow> Loader \<Rightarrow> Loader" where
  "removeErrorCallbacks callbackId l =
     l\<lparr>errorCallbacks := AList.delete callbackId (errorCallbacks l)\<rparr>"

text \<open>\<open>chunks\<close>: \<open>Math.ceil(length / size)\<close> slices of the array.\<close>

definition chunks :: "'a list \<Rightarrow> nat \<Rightarrow> 'a list list" where
  "chunks array n =
     map (\<lambda>begin. take n (drop begin array))
       (map (\<lambda>index. index * n) [0 ..< (length array + n - 1) div n])"

subsection \<open>Callbacks\<close>

record Runtime =
  accountThrows :: "Callback \<Rightarrow> Buffer option \<Rightarrow> js_error option"
  errorThrows :: "Callback \<Rightarrow> js_error \<Rightarrow> js_error option"
  bufferFrom :: "string \<Rightarrow> string \<Rightarrow> Buffer"

datatype Invocation =
    AccountCallback Callback "Buffer option"
  | ErrorCallback Callback js_error

text \<open>A loop over callbacks: it stops at the first one that throws.\<close>

fun runAll ::
  "(Callback \<Rightarrow> js_error option) \<Rightarrow> (Callback \<Rightarrow> Invocation) \<Rightarrow> Callback list \<Rightarrow>
     Invocation list \<times> js_error option" where
  "runAll throws call [] = ([], None)"
| "runAll throws call (c # cs) =
     (case throws c of
        Some e \<Rightarrow> ([call c], Some e)
      | None \<Rightarrow> (let (out, r) = runAll throws call cs in (call c # out, r)))"

definition handleAccountCallbacks ::
  "Runtime \<Rightarrow> Callback list \<Rightarrow> Buffer option \<Rightarrow> Invocation list \<times> js_error option" where
  "handleAccountCallbacks R cs b = runAll (\<lambda>c. accountThrows R c b) (\<lambda>c. AccountCallback c b) cs"

definition handleErrorCallbacks ::
  "Runtime \<Rightarrow> Loader \<Rightarrow> js_error \<Rightarrow> Invocation list \<times> js_error option" where
  "handleErrorCallbacks R l e =
     runAll (\<lambda>c. errorThrows R c e) (\<lambda>c. ErrorCallback c e) (map snd (errorCallbacks l))"

text \<open>
  The callbacks of an \<open>AccountToLoad\<close> object at the time a response is handled: those of the map
  entry while it is that object, and none after it was dropped (it is dropped when its last
  callback is removed, and nothing adds to it afterwards).
\<close>

definition currentCallbacks :: "Loader \<Rightarrow> AccountToLoad \<Rightarrow> Callback list" where
  "currentCallbacks l a =
     (case map_of (accountsToLoad l) (publicKey a) of
        Some a' \<Rightarrow> if objectId a' = objectId a then map snd (callbacks a') else []
      | None \<Rightarrow> [])"

subsection \<open>Loading\<close>

text \<open>
  The RPC request either throws, answers without a result, or answers with the slot and one value
  per account: \<open>null\<close> or the raw data with its encoding.
\<close>

datatype RpcResponse =
    RpcThrow js_error
  | RpcNoResult
  | RpcResult nat "(string \<times> string) option list"

text \<open>The body of the loop of \<open>loadChunk\<close> for one account.\<close>

definition loadAccount ::
  "Runtime \<Rightarrow> nat \<Rightarrow> Buffer option \<Rightarrow> AccountToLoad \<Rightarrow> Loader \<Rightarrow>
     Loader \<times> Invocation list \<times> js_error option" where
  "loadAccount R newSlot newBuffer a l =
     (let key = publicKey a;
          l' = l\<lparr>accountData := AList.update key \<lparr>slot = newSlot, buffer = newBuffer\<rparr> (accountData l)\<rparr>
      in case map_of (accountData l) key of
           None \<Rightarrow> (l', handleAccountCallbacks R (currentCallbacks l a) newBuffer)
         | Some old \<Rightarrow>
             if newSlot \<le> slot old then (l, [], None)
             else
               case newBuffer of
                 None \<Rightarrow> (l, [], None)
               | Some b \<Rightarrow>
                   if (case buffer old of None \<Rightarrow> True | Some oldBuffer \<Rightarrow> b \<noteq> oldBuffer)
                   then (l', handleAccountCallbacks R (currentCallbacks l a) newBuffer)
                   else (l, [], None))"

text \<open>The buffer of the \<open>i\<close>-th value of a response.\<close>

definition responseBuffer :: "Runtime \<Rightarrow> (string \<times> string) option list \<Rightarrow> nat \<Rightarrow> Buffer option" where
  "responseBuffer R vs i =
     (if i < length vs then map_option (\<lambda>(raw, dataType). bufferFrom R raw dataType) (vs ! i)
      else None)"

text \<open>The loop: an exception of a callback leaves the rest of the chunk unprocessed.\<close>

fun loadAccounts ::
  "Runtime \<Rightarrow> nat \<Rightarrow> (string \<times> string) option list \<Rightarrow> nat \<Rightarrow> AccountToLoad list \<Rightarrow> Loader \<Rightarrow>
     Loader \<times> Invocation list \<times> js_error option" where
  "loadAccounts R newSlot vs i [] l = (l, [], None)"
| "loadAccounts R newSlot vs i (a # as) l =
     (case loadAccount R newSlot (responseBuffer R vs i) a l of
        (l', out, Some e) \<Rightarrow> (l', out, Some e)
      | (l', out, None) \<Rightarrow>
          (case loadAccounts R newSlot vs (Suc i) as l' of (l'', out2, r) \<Rightarrow> (l'', out @ out2, r)))"

definition loadChunk ::
  "Runtime \<Rightarrow> RpcResponse \<Rightarrow> AccountToLoad list \<Rightarrow> Loader \<Rightarrow>
     Loader \<times> Invocation list \<times> js_error option" where
  "loadChunk R response as l =
     (if as = [] then (l, [], None)
      else case response of
             RpcThrow e \<Rightarrow> (l, handleErrorCallbacks R l e)
           | RpcNoResult \<Rightarrow> (l, [], Some TypeError)
           | RpcResult newSlot vs \<Rightarrow> loadAccounts R newSlot vs 0 as l)"

text \<open>
  \<open>load\<close> up to its first \<open>await\<close>: nothing to do when a load is cached, else a new promise and the
  chunks that are requested.
\<close>

definition loadStart :: "Loader \<Rightarrow> Loader \<times> AccountToLoad list list option" where
  "loadStart l =
     (case loadPromise l of
        Some p \<Rightarrow> (l, None)
      | None \<Rightarrow>
          (l\<lparr>loadPromise := Some (nextPromise l), loadPromiseResolver := Some (nextPromise l),
             nextPromise := nextPromise l + 1\<rparr>,
           Some (chunks (map snd (accountsToLoad l)) GET_MULTIPLE_ACCOUNTS_CHUNK_SIZE)))"

text \<open>The end of \<open>load\<close>: \<open>this.loadPromiseResolver(); this.loadPromise = undefined\<close>.\<close>

definition loadSettle :: "Loader \<Rightarrow> Loader" where
  "loadSettle l =
     l\<lparr>resolvedPromises :=
         (case loadPromiseResolver l of
            None \<Rightarrow> resolvedPromises l | Some p \<Rightarrow> p # resolvedPromises l),
       loadPromise := None\<rparr>"

text \<open>
  The part of \<open>load\<close> after its \<open>await\<close>: with an error the error callbacks run first, and when one
  of them throws \<open>load\<close> is left by that exception.
\<close>

definition loadFinish ::
  "Runtime \<Rightarrow> js_error option \<Rightarrow> Loader \<Rightarrow> Loader \<times> Invocation list \<times> js_error option" where
  "loadFinish R r l =
     (case r of
        None \<Rightarrow> (loadSettle l, [], None)
      | Some e \<Rightarrow>
          (case handleErrorCallbacks R l e of
             (out, None) \<Rightarrow> (loadSettle l, out, None)
           | (out, Some e') \<Rightarrow> (l, out, Some e')))"

definition getAccountData :: "PublicKey \<Rightarrow> Loader \<Rightarrow> Buffer option" where
  "getAccountData pk l = Option.bind (map_of (accountData l) pk) buffer"

subsection \<open>Chunks\<close>

lemma chunks_Nil [simp]: "chunks [] n = []"
  by (cases "n = 0") (simp_all add: chunks_def)

lemma chunks_step:
  assumes "0 < n" "xs \<noteq> []"
  shows "chunks xs n = take n xs # chunks (drop n xs) n"
proof -
  let ?k = "\<lambda>ys :: 'a list. (length ys + n - 1) div n"
  have k: "?k xs = Suc (?k (drop n xs))"
  proof (cases "length xs \<le> n")
    case True
    with assms have "n \<le> length xs + n - 1" "length xs + n - 1 < 2 * n" by (cases xs; simp)+
    then have "?k xs = 1" by (intro div_nat_eqI) auto
    with True assms show ?thesis by simp
  next
    case False
    then have "?k xs = ((length (drop n xs) + n - 1) + n) div n" by (intro arg_cong2 [where f = "(div)"]) auto
    also have "\<dots> = ?k (drop n xs) + 1" using assms by (intro div_add_self2) simp
    finally show ?thesis by simp
  qed
  show ?thesis
    unfolding chunks_def k upt_conv_Cons [OF zero_less_Suc] map_Suc_upt [symmetric]
    by (simp add: o_def add.commute)
qed

lemma chunks_induct_facts:
  assumes "0 < n"
  shows "concat (chunks xs n) = xs \<and> (\<forall>c \<in> set (chunks xs n). c \<noteq> [] \<and> length c \<le> n)"
proof (induction "length xs" arbitrary: xs rule: less_induct)
  case less
  show ?case
  proof (cases "xs = []")
    case False
    have "concat (chunks (drop n xs) n) = drop n xs"
      "\<forall>c \<in> set (chunks (drop n xs) n). c \<noteq> [] \<and> length c \<le> n"
      using less [of "drop n xs"] False assms by simp_all
    then show ?thesis unfolding chunks_step [OF assms False] using False assms by simp
  qed simp
qed

text \<open>
  A load that starts requests every registered account exactly once and in order, in non-empty
  chunks of at most 99 accounts; while a load is cached nothing is requested.
\<close>

theorem load_requests_every_account:
  "(loadPromise l = None \<longrightarrow>
      (\<exists>l' cs. loadStart l = (l', Some cs) \<and> concat cs = map snd (accountsToLoad l) \<and>
               (\<forall>c \<in> set cs. c \<noteq> [] \<and> length c \<le> 99))) \<and>
   (loadPromise l \<noteq> None \<longrightarrow> loadStart l = (l, None))"
  using chunks_induct_facts [of 99 "map snd (accountsToLoad l)"]
  by (auto simp: loadStart_def GET_MULTIPLE_ACCOUNTS_CHUNK_SIZE_def)

theorem load_requests_every_account_witness:
  "\<exists>l' cs. loadStart (addAccount ''id'' ''key'' 0 newLoader) = (l', Some cs) \<and>
     concat cs = [\<lparr>publicKey = ''key'', callbacks = [(''id'', 0)], objectId = 0\<rparr>] \<and>
     (\<forall>c \<in> set cs. c \<noteq> [] \<and> length c \<le> 99)"
  using load_requests_every_account [of "addAccount ''id'' ''key'' 0 newLoader"]
  by (simp add: addAccount_def newLoader_def startPolling_def)

subsection \<open>The data of one account\<close>

definition dataOf :: "PublicKey \<Rightarrow> Loader \<Rightarrow> AccountData option" where
  "dataOf pk l = map_of (accountData l) pk"

lemma loadAccount_fst:
  "fst (loadAccount R n b a l) =
     (if fresher (dataOf (publicKey a) l) n b
      then l\<lparr>accountData := AList.update (publicKey a) \<lparr>slot = n, buffer = b\<rparr> (accountData l)\<rparr>
      else l)"
  by (auto simp: loadAccount_def fresher_def dataOf_def Let_def split: option.splits)

lemma loadAccount_snd:
  "snd (loadAccount R n b a l) =
     (if fresher (dataOf (publicKey a) l) n b
      then handleAccountCallbacks R (currentCallbacks l a) b else ([], None))"
  by (auto simp: loadAccount_def fresher_def dataOf_def Let_def split: option.splits)

lemma dataOf_loadAccount:
  "dataOf k (fst (loadAccount R n b a l)) =
     (if k = publicKey a then nextData (dataOf k l) n b else dataOf k l)"
  by (auto simp: loadAccount_fst nextData_def dataOf_def update_conv')

interpretation account_cache:
  slot_cache "\<lambda>n b l. fst (loadAccount R n b a l)" "dataOf (publicKey a)" for R a
  by unfold_locales (simp add: dataOf_loadAccount)

text \<open>
  When the responses for an account arrive in the order of their slots, the loader ends with the
  buffer of the last response, and the slot it keeps never decreases on the way.
\<close>

theorem loader_ordered_responses:
  assumes "sorted_wrt (<) (map fst (rs @ [(n, Some b)]))"
    and "\<forall>d. dataOf (publicKey a) l = Some d \<longrightarrow> (\<forall>r \<in> set (rs @ [(n, Some b)]). slot d < fst r)"
  shows "getAccountData (publicKey a)
           (fold (\<lambda>(n, b) l. fst (loadAccount R n b a l)) (rs @ [(n, Some b)]) l) = Some b"
  using account_cache.ordered_last [where a = a and R = R, OF assms]
  by (auto simp: getAccountData_def dataOf_def)

definition sample_account :: AccountToLoad where
  "sample_account = \<lparr>publicKey = ''key'', callbacks = [(''id'', 7)], objectId = 0\<rparr>"

definition quiet :: Runtime where
  "quiet = \<lparr>accountThrows = \<lambda>_ _. None, errorThrows = \<lambda>_ _. None, bufferFrom = \<lambda>raw _. map of_char raw\<rparr>"

theorem loader_ordered_responses_witness:
  "getAccountData ''key''
     (fold (\<lambda>(n, b) l. fst (loadAccount quiet n b sample_account l))
        [(3, Some [1]), (5, None), (8, Some [2, 3])] newLoader) = Some [2, 3]"
  using loader_ordered_responses [of "[(3, Some [1]), (5, None)]" 8 "[2, 3]" sample_account newLoader quiet]
  by (simp add: sample_account_def dataOf_def newLoader_def)

text \<open>
  Out of order the newest buffer can be lost: a response that repeats the cached buffer does not
  advance the slot, so a response of an older slot that arrives after it is taken, and the loader
  serves data that an earlier response had already superseded.
\<close>

theorem loader_reordered_responses:
  "getAccountData ''key''
     (fold (\<lambda>(n, b) l. fst (loadAccount quiet n b sample_account l))
        [(1, Some [1]), (9, Some [1]), (5, Some [2])] newLoader) = Some [2]"
  by (simp add: getAccountData_def loadAccount_fst dataOf_def fresher_def newLoader_def
      sample_account_def)

subsection \<open>Callbacks\<close>

lemma runAll_quiet: "\<forall>c \<in> set cs. throws c = None \<Longrightarrow> runAll throws call cs = (map call cs, None)"
  by (induction cs) auto

lemma runAll_throw:
  "\<forall>c \<in> set cs. throws c = None \<Longrightarrow> throws c = Some e \<Longrightarrow>
     runAll throws call (cs @ c # cs') = (map call cs @ [call c], Some e)"
  by (induction cs) auto

text \<open>
  A response runs the callbacks of an account, in the order they were added and with the new
  buffer, exactly when it changes the stored data.
\<close>

theorem callbacks_iff_changed:
  assumes "\<forall>c. accountThrows R c b = None" "currentCallbacks l a \<noteq> []"
  shows "snd (loadAccount R n b a l) =
     (if dataOf (publicKey a) (fst (loadAccount R n b a l)) \<noteq> dataOf (publicKey a) l
      then (map (\<lambda>c. AccountCallback c b) (currentCallbacks l a), None) else ([], None))"
  using assms
  by (auto simp: loadAccount_snd dataOf_loadAccount handleAccountCallbacks_def runAll_quiet
      nextData_def fresher_def split: option.splits)

theorem callbacks_iff_changed_witness:
  "snd (loadAccount quiet 3 (Some [1]) sample_account (addAccount ''id'' ''key'' 7 newLoader))
     = ([AccountCallback 7 (Some [1])], None)"
  using callbacks_iff_changed [of quiet "Some [1]" "addAccount ''id'' ''key'' 7 newLoader" sample_account 3]
  by (simp add: quiet_def currentCallbacks_def addAccount_def newLoader_def startPolling_def
      sample_account_def loadAccount_fst fresher_def dataOf_def)

text \<open>
  When the first response for an account carries no data and its callback throws on the missing
  buffer, as the coders of the subscribers do, the rest of the chunk is not processed: no other
  account of it gets its data or its callbacks, and the load ends with the error.
\<close>

theorem missing_account_aborts_chunk:
  assumes "dataOf (publicKey a) l = None" "currentCallbacks l a = c # cs"
    and "accountThrows R c None = Some e"
  shows "loadChunk R (RpcResult n (None # vs)) (a # as) l =
     (l\<lparr>accountData := AList.update (publicKey a) \<lparr>slot = n, buffer = None\<rparr> (accountData l)\<rparr>,
      [AccountCallback c None], Some e)"
proof -
  have "loadAccount R n None a l =
      (l\<lparr>accountData := AList.update (publicKey a) \<lparr>slot = n, buffer = None\<rparr> (accountData l)\<rparr>,
       [AccountCallback c None], Some e)"
    using assms by (simp add: loadAccount_def dataOf_def handleAccountCallbacks_def Let_def)
  then show ?thesis by (simp add: loadChunk_def responseBuffer_def)
qed

definition decoder :: Runtime where
  "decoder = quiet\<lparr>accountThrows := \<lambda>_ b. if b = None then Some TypeError else None\<rparr>"

theorem missing_account_aborts_chunk_witness:
  "getAccountData ''key2'' (fst (loadChunk decoder (RpcResult 3 [None, Some (''abc'', ''base64'')])
     [sample_account, sample_account\<lparr>publicKey := ''key2''\<rparr>]
     (addAccount ''id'' ''key'' 7 newLoader))) = None"
  using missing_account_aborts_chunk [of sample_account "addAccount ''id'' ''key'' 7 newLoader" 7 "[]"
      decoder TypeError 3 "[Some (''abc'', ''base64'')]" "[sample_account\<lparr>publicKey := ''key2''\<rparr>]"]
  by (simp add: decoder_def dataOf_def currentCallbacks_def addAccount_def newLoader_def
      startPolling_def sample_account_def getAccountData_def)

end
