(* ===== verification/LoaderSystem.thy ===== *)
theory LoaderSystem
  imports Loader
begin

section \<open>The loader in operation\<close>

text \<open>
  The interleavings of \<open>BulkAccountLoader\<close>: clients add and remove accounts and callbacks, call
  \<open>load\<close> (as the polling timer does), and the responses to the chunks in flight arrive in any
  order and with any content. Between two \<open>await\<close>s the code runs without interruption, which makes
  each of these a step.

  \<open>inflight\<close> holds the requested chunks with the number of their load, \<open>running\<close> the loads that
  wait for their chunks, with the first error one of them had (\<open>Promise.all\<close> is left at the first
  rejection, the other chunks are still processed), \<open>waiters\<close> the promises handed to callers of
  \<open>load\<close>, \<open>trace\<close> the callbacks that ran.
\<close>

record System =
  loader :: Loader
  inflight :: "(nat \<times> AccountToLoad list) list"
  running :: "(nat \<times> js_error option) list"
  waiters :: "nat list"
  trace :: "Invocation list"

definition initialSystem :: System where
  "initialSystem = \<lparr>loader = newLoader, inflight = [], running = [], waiters = [], trace = []\<rparr>"

text \<open>The result of a chunk: the first error of a load is kept.\<close>

definition noteResult ::
  "nat \<Rightarrow> js_error option \<Rightarrow> (nat \<times> js_error option) list \<Rightarrow> (nat \<times> js_error option) list" where
  "noteResult p r rs =
     (case r of
        None \<Rightarrow> rs
      | Some e \<Rightarrow> if map_of rs p = Some None then AList.update p (Some e) rs else rs)"

inductive step :: "Runtime \<Rightarrow> System \<Rightarrow> System \<Rightarrow> bool" for R where
  add: "step R s (s\<lparr>loader := addAccount callbackId pk callback (loader s)\<rparr>)"
| remove: "step R s (s\<lparr>loader := removeAccount pk callbackId (loader s)\<rparr>)"
| addError: "step R s (s\<lparr>loader := addErrorCallbacks callbackId callback (loader s)\<rparr>)"
| removeError: "step R s (s\<lparr>loader := removeErrorCallbacks callbackId (loader s)\<rparr>)"
| cachedLoad: "loadPromise (loader s) = Some p \<Longrightarrow> step R s (s\<lparr>waiters := p # waiters s\<rparr>)"
| load: "loadStart (loader s) = (l, Some cs) \<Longrightarrow> p = nextPromise (loader s) \<Longrightarrow>
    step R s (s\<lparr>loader := l, inflight := inflight s @ map (Pair p) cs,
                running := (p, None) # running s\<rparr>)"
| reply: "inflight s = xs @ (p, c) # ys \<Longrightarrow> loadChunk R response c (loader s) = (l, out, r) \<Longrightarrow>
    step R s (s\<lparr>loader := l, inflight := xs @ ys, running := noteResult p r (running s),
                trace := trace s @ out\<rparr>)"
| finish: "map_of (running s) p = Some r \<Longrightarrow> r \<noteq> None \<or> p \<notin> fst ` set (inflight s) \<Longrightarrow>
    loadFinish R r (loader s) = (l, out, r') \<Longrightarrow>
    step R s (s\<lparr>loader := l, running := AList.delete p (running s), trace := trace s @ out\<rparr>)"

inductive reachable :: "Runtime \<Rightarrow> System \<Rightarrow> bool" for R where
  init: "reachable R initialSystem"
| step: "reachable R s \<Longrightarrow> step R s s' \<Longrightarrow> reachable R s'"

inductive_cases stepE: "step R s s'"

subsection \<open>What each operation does to the parts of the loader\<close>

text \<open>The promise fields, the registrations and the data of a loader, as far as others keep them.\<close>

definition promises :: "Loader \<Rightarrow> nat option \<times> nat option \<times> nat list \<times> nat" where
  "promises l = (loadPromise l, loadPromiseResolver l, resolvedPromises l, nextPromise l)"

definition registrations :: "Loader \<Rightarrow> (string \<times> AccountToLoad) list \<times> nat option" where
  "registrations l = (accountsToLoad l, intervalId l)"

lemma polling_promises [simp]:
  "promises (startPolling l) = promises l" "promises (stopPolling l) = promises l"
  by (simp_all add: promises_def startPolling_def stopPolling_def split: option.split)

lemma removeAccount_promises [simp]: "promises (removeAccount pk i l) = promises l"
proof -
  have "promises (l\<lparr>accountsToLoad := x\<rparr>) = promises l" for x by (simp add: promises_def)
  then show ?thesis by (simp add: removeAccount_def Let_def split: option.split)
qed

lemma addAccount_promises:
  "loadPromise (addAccount i pk c l) = None"
  "loadPromiseResolver (addAccount i pk c l) = loadPromiseResolver l"
  "resolvedPromises (addAccount i pk c l) = resolvedPromises l"
  "nextPromise (addAccount i pk c l) = nextPromise l"
  by (simp_all add: addAccount_def startPolling_def Let_def split: option.split)

lemma errorCallbacks_keep [simp]:
  "promises (addErrorCallbacks i c l) = promises l"
  "promises (removeErrorCallbacks i l) = promises l"
  "registrations (addErrorCallbacks i c l) = registrations l"
  "registrations (removeErrorCallbacks i l) = registrations l"
  by (simp_all add: promises_def registrations_def addErrorCallbacks_def removeErrorCallbacks_def)

lemma loadAccount_keeps:
  "promises (fst (loadAccount R n b a l)) = promises l"
  "registrations (fst (loadAccount R n b a l)) = registrations l"
  by (simp_all add: loadAccount_fst promises_def registrations_def)

lemma loadAccounts_keeps:
  "promises (fst (loadAccounts R n vs i as l)) = promises l \<and>
   registrations (fst (loadAccounts R n vs i as l)) = registrations l"
proof (induction as arbitrary: i l)
  case (Cons a as)
  obtain l' out r where e: "loadAccount R n (responseBuffer R vs i) a l = (l', out, r)"
    by (metis prod.exhaust)
  then have "promises l' = promises l" "registrations l' = registrations l"
    using loadAccount_keeps [of R n "responseBuffer R vs i" a l] by simp_all
  with e Cons.IH [of "Suc i" l'] show ?case by (auto split: prod.splits option.splits)
qed simp

lemma loadChunk_keeps:
  assumes "loadChunk R response c l = (l', out, r)"
  shows "promises l' = promises l" "registrations l' = registrations l"
  using assms loadAccounts_keeps [of R _ _ 0 c l]
  by (auto simp: loadChunk_def split: if_splits RpcResponse.splits) (metis fst_conv)+

lemma loadStart_Some:
  "loadStart l = (l', Some cs) \<Longrightarrow>
     loadPromise l = None \<and> loadPromise l' = Some (nextPromise l) \<and>
     loadPromiseResolver l' = Some (nextPromise l) \<and> resolvedPromises l' = resolvedPromises l \<and>
     nextPromise l' = Suc (nextPromise l) \<and> registrations l' = registrations l"
  by (auto simp: loadStart_def registrations_def split: option.splits)

lemma loadFinish_cases:
  assumes "loadFinish R r l = (l', out, r')"
  shows "l' = loadSettle l \<or> l' = l \<and> (\<exists>c e. errorThrows R c e \<noteq> None)"
proof (cases "\<exists>c e. errorThrows R c e \<noteq> None")
  case False
  then have "handleErrorCallbacks R l e = (map (\<lambda>c. ErrorCallback c e) (map snd (errorCallbacks l)), None)" for e
    by (simp add: handleErrorCallbacks_def runAll_quiet)
  with assms show ?thesis by (auto simp: loadFinish_def split: option.splits)
next
  case True
  with assms show ?thesis by (auto simp: loadFinish_def split: option.splits prod.splits)
qed

lemma loadSettle_keeps [simp]: "registrations (loadSettle l) = registrations l"
  by (simp add: loadSettle_def registrations_def)

subsection \<open>The registrations\<close>

definition registeredOk :: "Loader \<Rightarrow> bool" where
  "registeredOk l \<longleftrightarrow> distinct (map fst (accountsToLoad l)) \<and>
     (\<forall>(k, a) \<in> set (accountsToLoad l). publicKey a = k \<and> callbacks a \<noteq> []) \<and>
     (intervalId l \<noteq> None \<longleftrightarrow> accountsToLoad l \<noteq> [])"

lemma registeredOk_cong: "registrations l = registrations l' \<Longrightarrow> registeredOk l \<longleftrightarrow> registeredOk l'"
  by (simp add: registrations_def registeredOk_def)

lemma update_ok:
  assumes "\<forall>(k, a) \<in> set xs. P k a" "P k a"
  shows "\<forall>(k', a') \<in> set (AList.update k a xs). P k' a'"
  using assms by (induction xs) auto

lemma newLoader_registeredOk: "registeredOk newLoader"
  by (simp add: registeredOk_def newLoader_def)

lemma addAccount_accounts:
  "accountsToLoad (addAccount i pk c l) =
     AList.update pk
       (case map_of (accountsToLoad l) pk of
          Some a \<Rightarrow> a\<lparr>callbacks := AList.update i c (callbacks a)\<rparr>
        | None \<Rightarrow> \<lparr>publicKey = pk, callbacks = [(i, c)], objectId = nextObject l\<rparr>)
       (accountsToLoad l)"
  by (simp add: addAccount_def startPolling_def Let_def split: option.split)

lemma addAccount_interval:
  "intervalId (addAccount i pk c l) \<noteq> None \<longleftrightarrow> intervalId l \<noteq> None \<or> accountsToLoad l = []"
  by (auto simp: addAccount_def startPolling_def Let_def split: option.splits)

lemma addAccount_registeredOk: "registeredOk l \<Longrightarrow> registeredOk (addAccount i pk c l)"
  unfolding registeredOk_def addAccount_accounts addAccount_interval
  by (intro conjI update_ok distinct_update) (auto split: option.splits dest: map_of_SomeD)

lemma removeAccount_accounts:
  "accountsToLoad (removeAccount pk i l) =
     (case map_of (accountsToLoad l) pk of
        None \<Rightarrow> accountsToLoad l
      | Some a \<Rightarrow>
          if AList.delete i (callbacks a) = [] then AList.delete (publicKey a) (accountsToLoad l)
          else AList.update pk (a\<lparr>callbacks := AList.delete i (callbacks a)\<rparr>) (accountsToLoad l))"
  by (simp add: removeAccount_def stopPolling_def Let_def split: option.split)

lemma removeAccount_interval:
  "intervalId (removeAccount pk i l) =
     (if accountsToLoad (removeAccount pk i l) = [] then None else intervalId l)"
  by (auto simp: removeAccount_def stopPolling_def Let_def split: option.splits)

lemma removeAccount_empty: "accountsToLoad l = [] \<Longrightarrow> accountsToLoad (removeAccount pk i l) = []"
  by (simp add: removeAccount_accounts)

lemma removeAccount_registeredOk: "registeredOk l \<Longrightarrow> registeredOk (removeAccount pk i l)"
proof -
  assume ok: "registeredOk l"
  let ?P = "\<lambda>k a. publicKey a = k \<and> callbacks a \<noteq> []"
  have d: "distinct (map fst (accountsToLoad l))" and P: "\<forall>(k, a) \<in> set (accountsToLoad l). ?P k a"
    using ok by (simp_all add: registeredOk_def)
  have "distinct (map fst (accountsToLoad (removeAccount pk i l))) \<and>
      (\<forall>(k, a) \<in> set (accountsToLoad (removeAccount pk i l)). ?P k a)"
  proof (cases "map_of (accountsToLoad l) pk")
    case None
    with d P show ?thesis by (simp add: removeAccount_accounts)
  next
    case (Some a)
    then have "publicKey a = pk" using P by (auto dest: map_of_SomeD)
    moreover have "\<forall>(k, a) \<in> set (AList.delete pk (accountsToLoad l)). ?P k a"
      using P by (auto simp: AList.delete_eq)
    ultimately show ?thesis
      using Some distinct_update [OF d]
        update_ok [OF P, where k = pk and a = "a\<lparr>callbacks := AList.delete i (callbacks a)\<rparr>"] distinct_delete [OF d]
      by (simp add: removeAccount_accounts)
  qed
  with ok removeAccount_empty [of l] show ?thesis
    by (auto simp: registeredOk_def removeAccount_interval)
qed

lemma step_registeredOk: "step R s s' \<Longrightarrow> registeredOk (loader s) \<Longrightarrow> registeredOk (loader s')"
proof (induction rule: step.induct)
  case (load s l cs p)
  then show ?case using registeredOk_cong [of l "loader s"] by (simp add: loadStart_Some)
next
  case (reply s xs p c ys response l out r)
  then show ?case using registeredOk_cong [of l "loader s"] by (simp add: loadChunk_keeps)
next
  case (finish s p r l out r')
  then have "registrations l = registrations (loader s)"
    using loadFinish_cases [OF finish.hyps(3)] by auto
  with finish registeredOk_cong [of l "loader s"] show ?case by simp
next
  case (addError s i c)
  then show ?case using registeredOk_cong [of "addErrorCallbacks i c (loader s)" "loader s"] by simp
next
  case (removeError s i)
  then show ?case using registeredOk_cong [of "removeErrorCallbacks i (loader s)" "loader s"] by simp
qed (auto simp: addAccount_registeredOk removeAccount_registeredOk)


definition one_account :: System where
  "one_account = initialSystem\<lparr>loader := addAccount ''id'' ''key'' 7 newLoader\<rparr>"

lemma one_account_reachable: "reachable R one_account"
  using reachable.step [OF reachable.init step.add, of R "''id''" "''key''" 7]
  by (simp add: one_account_def initialSystem_def)


subsection \<open>The data\<close>

lemma dataOf_cong: "accountData l = accountData l' \<Longrightarrow> dataOf k l = dataOf k l'"
  by (simp add: dataOf_def)

lemma operations_accountData [simp]:
  "accountData (addAccount i pk c l) = accountData l"
  "accountData (removeAccount pk i l) = accountData l"
  "accountData (addErrorCallbacks i c l) = accountData l"
  "accountData (removeErrorCallbacks i l) = accountData l"
  "accountData (loadSettle l) = accountData l"
  by (simp_all add: addAccount_def removeAccount_def startPolling_def stopPolling_def
      addErrorCallbacks_def removeErrorCallbacks_def loadSettle_def Let_def split: option.split)

lemma loadAccounts_slot_mono:
  "dataOf k l = Some d \<Longrightarrow>
     \<exists>d'. dataOf k (fst (loadAccounts R n vs i as l)) = Some d' \<and> slot d \<le> slot d'"
proof (induction as arbitrary: i l d)
  case (Cons a as)
  obtain l' out r where e: "loadAccount R n (responseBuffer R vs i) a l = (l', out, r)"
    by (metis prod.exhaust)
  then have "dataOf k l' = (if k = publicKey a then nextData (dataOf k l) n (responseBuffer R vs i)
      else dataOf k l)"
    using dataOf_loadAccount [of k R n "responseBuffer R vs i" a l] by simp
  then obtain d' where d': "dataOf k l' = Some d'" "slot d \<le> slot d'"
    using Cons.prems by (auto simp: nextData_def fresher_def split: if_splits)
  from Cons.IH [OF d'(1), of "Suc i"] d' e show ?case
    by (auto split: prod.splits option.splits intro: order_trans)
qed simp

lemma loadChunk_slot_mono:
  assumes "loadChunk R response c l = (l', out, r)" "dataOf k l = Some d"
  shows "\<exists>d'. dataOf k l' = Some d' \<and> slot d \<le> slot d'"
proof -
  have "\<exists>d'. dataOf k (fst (loadChunk R response c l)) = Some d' \<and> slot d \<le> slot d'"
    using loadAccounts_slot_mono [OF assms(2)] assms(2)
    by (simp add: loadChunk_def split: RpcResponse.split)
  with assms(1) show ?thesis by simp
qed

text \<open>
  C11: whatever happens, in any order, an account that has data keeps having data, and the slot of
  its data never decreases.
\<close>

theorem slots_never_decrease:
  assumes "step R s s'" "dataOf k (loader s) = Some d"
  shows "\<exists>d'. dataOf k (loader s') = Some d' \<and> slot d \<le> slot d'"
  using assms
proof (induction rule: step.induct)
  case (load s l cs p)
  then have "accountData l = accountData (loader s)"
    by (auto simp: loadStart_def split: option.splits)
  with load dataOf_cong [of l "loader s" k] show ?case by simp
next
  case (reply s xs p c ys response l out r)
  then show ?case by (simp add: loadChunk_slot_mono)
next
  case (finish s p r l out r')
  then have "accountData l = accountData (loader s)"
    using loadFinish_cases [OF finish.hyps(3)] by auto
  with finish dataOf_cong [of l "loader s" k] show ?case by simp
qed (simp_all add: dataOf_def)

definition loaded_account :: System where
  "loaded_account = one_account\<lparr>loader :=
     fst (loadAccount quiet 3 (Some [1]) sample_account (loader one_account))\<rparr>"

theorem slots_never_decrease_witness:
  "\<exists>d'. dataOf ''key'' (removeAccount ''key'' ''id'' (loader loaded_account)) = Some d' \<and> 3 \<le> slot d'"
proof -
  have "dataOf ''key'' (loader loaded_account) = Some \<lparr>slot = 3, buffer = Some [1]\<rparr>"
    by (simp add: loaded_account_def one_account_def loadAccount_fst sample_account_def fresher_def
        dataOf_def newLoader_def)
  from slots_never_decrease [OF step.remove [of quiet loaded_account "''key''" "''id''"] this]
  show ?thesis by simp
qed

subsection \<open>The promises\<close>

definition promisesOk :: "System \<Rightarrow> bool" where
  "promisesOk s \<longleftrightarrow>
     (\<forall>p. loadPromise (loader s) = Some p \<longrightarrow>
        loadPromiseResolver (loader s) = Some p \<and> p \<in> fst ` set (running s))"

lemma noteResult_keys [simp]: "fst ` set (noteResult p r rs) = fst ` set rs"
proof -
  have "map_of rs p = Some None \<Longrightarrow> p \<in> fst ` set rs" by (force dest: map_of_SomeD)
  then show ?thesis by (auto simp: noteResult_def dom_update split: option.split)
qed

text \<open>
  As long as no error callback throws, the promise a caller of \<open>load\<close> is handed belongs, at that
  time, to a load that is still running, and it is the one the resolver resolves.
\<close>

theorem cached_promise_is_live:
  assumes "reachable R s" "\<forall>c e. errorThrows R c e = None" "loadPromise (loader s) = Some p"
  shows "loadPromiseResolver (loader s) = Some p \<and> p \<in> fst ` set (running s)"
proof -
  have "promisesOk s" using assms(1)
  proof induction
    case init
    then show ?case by (simp add: promisesOk_def initialSystem_def newLoader_def)
  next
    case (step s s')
    from step.hyps(2) step.IH show ?case
    proof (induction rule: step.induct)
      case (add s i pk c)
      then show ?case by (simp add: promisesOk_def addAccount_promises)
    next
      case (remove s pk i)
      then show ?case using removeAccount_promises [of pk i "loader s"]
        by (simp add: promisesOk_def promises_def)
    next
      case (addError s i c)
      then show ?case using errorCallbacks_keep(1) [of i c "loader s"]
        by (simp add: promisesOk_def promises_def)
    next
      case (removeError s i)
      then show ?case using errorCallbacks_keep(2) [of i "loader s"]
        by (simp add: promisesOk_def promises_def)
    next
      case (load s l cs q)
      then show ?case using loadStart_Some [OF load.hyps(1)] by (simp add: promisesOk_def)
    next
      case (reply s xs q c ys response l out r)
      then show ?case using loadChunk_keeps [OF reply.hyps(2)]
        by (simp add: promisesOk_def promises_def)
    next
      case (finish s q r l out r')
      then have "l = loadSettle (loader s)"
        using loadFinish_cases [OF finish.hyps(3)] assms(2) by simp
      then show ?case by (simp add: promisesOk_def loadSettle_def)
    qed (simp add: promisesOk_def)
  qed
  with assms(3) show ?thesis by (simp add: promisesOk_def)
qed

text \<open>The load of the one registered account is started.\<close>

definition loading_one :: System where
  "loading_one = one_account\<lparr>
     loader := fst (loadStart (loader one_account)),
     inflight := [(0, [sample_account])], running := [(0, None)]\<rparr>"

lemma chunks_single [simp]: "chunks [x] 99 = [[x]]"
  using chunks_step [of 99 "[x]"] by simp

lemma loading_one_reachable: "reachable R loading_one"
proof -
  have "loadStart (loader one_account) =
      (fst (loadStart (loader one_account)), Some [[sample_account]])"
    by (simp add: one_account_def loadStart_def addAccount_promises addAccount_accounts newLoader_def
        sample_account_def GET_MULTIPLE_ACCOUNTS_CHUNK_SIZE_def)
  from reachable.step [OF one_account_reachable step.load [OF this refl]] show ?thesis
    by (simp add: loading_one_def one_account_def initialSystem_def addAccount_promises newLoader_def)
qed

theorem cached_promise_is_live_witness:
  "loadPromiseResolver (loader loading_one) = Some 0 \<and> 0 \<in> fst ` set (running loading_one)"
proof -
  have "loadPromise (loader loading_one) = Some 0"
    by (simp add: loading_one_def one_account_def loadStart_def addAccount_promises newLoader_def)
  then show ?thesis
    using cached_promise_is_live [OF loading_one_reachable, of quiet 0] by (simp add: quiet_def)
qed

subsection \<open>A promise that is lost\<close>

text \<open>A promise that has not been resolved and that the current resolver does not belong to.\<close>

definition lost :: "nat \<Rightarrow> System \<Rightarrow> bool" where
  "lost p s \<longleftrightarrow> p < nextPromise (loader s) \<and> p \<notin> set (resolvedPromises (loader s)) \<and>
     loadPromiseResolver (loader s) \<noteq> Some p"

lemma lost_promises:
  "lost p s \<longleftrightarrow> (case promises (loader s) of (_, r, rs, n) \<Rightarrow> p < n \<and> p \<notin> set rs \<and> r \<noteq> Some p)"
  by (simp add: lost_def promises_def)

lemma step_lost: "step R s s' \<Longrightarrow> lost p s \<Longrightarrow> lost p s'"
proof (induction rule: step.induct)
  case (load s l cs q)
  then show ?case using loadStart_Some [OF load.hyps(1)] by (auto simp: lost_def)
next
  case (finish s q r l out r')
  then show ?case using loadFinish_cases [OF finish.hyps(3)]
    by (auto simp: lost_def loadSettle_def split: option.splits)
next
  case (reply s xs q c ys response l out r)
  then show ?case using loadChunk_keeps [OF reply.hyps(2)] by (simp add: lost_promises)
qed (simp_all add: lost_promises, simp add: promises_def addAccount_promises)

lemma steps_lost: "(step R)\<^sup>*\<^sup>* s s' \<Longrightarrow> lost p s \<Longrightarrow> lost p s'"
  by (induction rule: rtranclp_induct) (auto intro: step_lost)

lemma reachable_failed_request:
  assumes "reachable R s" "inflight s = (p, c) # ys" "c \<noteq> []" "errorCallbacks (loader s) = []"
  shows "reachable R (s\<lparr>inflight := ys\<rparr>)"
proof -
  have "loadChunk R (RpcThrow TypeError) c (loader s) = (loader s, [], None)"
    using assms by (simp add: loadChunk_def handleErrorCallbacks_def)
  from reachable.step [OF assms(1) step.reply [OF _ this, of "[]" p ys]] assms(2)
  show ?thesis by (cases s) (simp add: noteResult_def)
qed

lemma reachable_finish:
  assumes "reachable R s" "map_of (running s) p = Some None" "p \<notin> fst ` set (inflight s)"
  shows "reachable R (s\<lparr>loader := loadSettle (loader s), running := AList.delete p (running s)\<rparr>)"
  using reachable.step [OF assms(1) step.finish [OF assms(2)]] assms(3)
  by (cases s) (simp add: loadFinish_def)

definition two_loads :: System where
  "two_loads = loading_one\<lparr>
     waiters := [0],
     loader := fst (loadStart (addAccount ''id2'' ''key2'' 8 (loader loading_one))),
     inflight := [(0, [sample_account]),
                  (1, [sample_account, \<lparr>publicKey = ''key2'', callbacks = [(''id2'', 8)], objectId = 1\<rparr>])],
     running := [(1, None), (0, None)]\<rparr>"

lemmas two_loads_simps =
  two_loads_def loading_one_def one_account_def initialSystem_def loadStart_def addAccount_def
  newLoader_def sample_account_def startPolling_def GET_MULTIPLE_ACCOUNTS_CHUNK_SIZE_def

lemma chunks_pair [simp]: "chunks [x, y] 99 = [[x, y]]"
  using chunks_step [of 99 "[x, y]"] by simp

lemma two_loads_reachable: "reachable R two_loads"
proof -
  let ?s = "loading_one\<lparr>waiters := [0]\<rparr>"
  let ?t = "?s\<lparr>loader := addAccount ''id2'' ''key2'' 8 (loader ?s)\<rparr>"
  have "loadPromise (loader loading_one) = Some 0" by (simp add: two_loads_simps)
  from reachable.step [OF loading_one_reachable step.cachedLoad [OF this], of R]
  have "reachable R ?s" by (simp add: two_loads_simps)
  then have t: "reachable R ?t" by (rule reachable.step [OF _ step.add])
  have "\<exists>cs. loadStart (loader ?t) = (fst (loadStart (loader ?t)), Some cs)
      \<and> map (Pair 1) cs = tl (inflight two_loads) \<and> nextPromise (loader ?t) = 1"
    by (simp add: two_loads_simps)
  then obtain cs where "loadStart (loader ?t) = (fst (loadStart (loader ?t)), Some cs)"
    and cs: "map (Pair 1) cs = tl (inflight two_loads)" "nextPromise (loader ?t) = 1" by blast
  from reachable.step [OF t step.load [OF this(1) refl]] cs show ?thesis
    by (simp add: two_loads_def loading_one_def)
qed

text \<open>
  C37: a caller of \<open>load\<close> can wait forever: when an account is added while a load runs and \<open>load\<close> is
  called again, the second load replaces the resolver, and the promise that was handed out for
  the first load is never resolved, although both loads end and whatever happens afterwards.
\<close>

theorem load_promise_lost:
  "\<exists>s p. reachable R s \<and> running s = [] \<and> inflight s = [] \<and> p \<in> set (waiters s) \<and>
     \<not> (\<exists>s'. (step R)\<^sup>*\<^sup>* s s' \<and> p \<in> set (resolvedPromises (loader s')))"
proof -
  let ?s0 = two_loads
  let ?s1 = "?s0\<lparr>inflight := tl (inflight ?s0)\<rparr>"
  let ?s2 = "?s1\<lparr>loader := loadSettle (loader ?s1), running := AList.delete 0 (running ?s1)\<rparr>"
  let ?s3 = "?s2\<lparr>inflight := []\<rparr>"
  let ?s4 = "?s3\<lparr>loader := loadSettle (loader ?s3), running := AList.delete 1 (running ?s3)\<rparr>"
  have "reachable R ?s1"
    by (rule reachable_failed_request [OF two_loads_reachable, where p = 0 and c = "[sample_account]"])
      (simp_all add: two_loads_simps)
  then have "reachable R ?s2" by (rule reachable_finish) (simp_all add: two_loads_simps)
  then have "reachable R ?s3"
    by (rule reachable_failed_request
        [where p = 1 and c = "snd (hd (tl (inflight two_loads)))" and ys = "[]"])
      (simp_all add: two_loads_simps loadSettle_def)
  then have "reachable R ?s4" by (rule reachable_finish) (simp_all add: two_loads_simps)
  moreover have "lost 0 ?s4" by (simp add: lost_def loadSettle_def two_loads_simps)
  then have "\<not> (\<exists>s'. (step R)\<^sup>*\<^sup>* ?s4 s' \<and> 0 \<in> set (resolvedPromises (loader s')))"
    using steps_lost [of R ?s4 _ 0] by (auto simp: lost_def)
  moreover have "running ?s4 = []" "inflight ?s4 = []" "0 \<in> set (waiters ?s4)"
    by (simp_all add: two_loads_simps)
  ultimately show ?thesis by blast
qed

end
