(* ===== verification/WebSocketAccount.thy ===== *)
theory WebSocketAccount
  imports SlotCache Types
begin

section \<open>WebSocketAccountSubscriber\<close>

text \<open>
  \<open>sdk/src/accounts/webSocketAccountSubscriber.ts\<close>: the subscriber of one account keeps its raw
  data with the slot and the decoded account, and reports a change to its listener. The coder of
  the program is the parameter \<open>decode\<close> (it gets the capitalised account name and the buffer, and
  may throw), the number \<open>onAccountChange\<close> returns for the listener is a parameter of \<open>subscribe\<close>.

  \<open>changes\<close> records the calls of \<open>onChange\<close>, \<open>listeners\<close> the listeners registered with the connection.
\<close>

text \<open>\<open>capitalize\<close> of \<open>accounts/utils.ts\<close>: the first letter in upper case, an empty text throws.\<close>

definition toUpperCase :: "char \<Rightarrow> char" where
  "toUpperCase c =
     (if 97 \<le> (of_char c :: nat) \<and> (of_char c :: nat) \<le> 122 then char_of (of_char c - 32 :: nat) else c)"

fun capitalize :: "string \<Rightarrow> string result" where
  "capitalize [] = Inl TypeError"
| "capitalize (c # cs) = Inr (toUpperCase c # cs)"

record 'a AccountSubscriber =
  subscriber_data :: "'a option"
  subscriber_accountData :: "AccountData option"
  accountName :: string
  accountPublicKey :: PublicKey
  listenerId :: "nat option"
  changes :: "'a list"
  listeners :: "nat list"

type_synonym 'a Decoder = "string \<Rightarrow> Buffer \<Rightarrow> 'a result"

definition newSubscriber :: "string \<Rightarrow> PublicKey \<Rightarrow> 'a AccountSubscriber" where
  "newSubscriber name pk = \<lparr>
     subscriber_data = None, subscriber_accountData = None, accountName = name,
     accountPublicKey = pk, listenerId = None, changes = [], listeners = []\<rparr>"

text \<open>Decoding and reporting: \<open>this.data = decode(...); this.onChange(this.data)\<close>.\<close>

definition decodeAndReport ::
  "'a Decoder \<Rightarrow> Buffer \<Rightarrow> 'a AccountSubscriber \<Rightarrow> 'a AccountSubscriber \<times> js_error option" where
  "decodeAndReport decode b s =
     (case bindE (capitalize (accountName s)) (\<lambda>name. decode name b) of
        Inl e \<Rightarrow> (s, Some e)
      | Inr a \<Rightarrow> (s\<lparr>subscriber_data := Some a, changes := changes s @ [a]\<rparr>, None))"

definition handleRpcResponse ::
  "'a Decoder \<Rightarrow> nat \<Rightarrow> Buffer option \<Rightarrow> 'a AccountSubscriber \<Rightarrow>
     'a AccountSubscriber \<times> js_error option" where
  "handleRpcResponse decode newSlot newBuffer s =
     (let s' = s\<lparr>subscriber_accountData := Some \<lparr>slot = newSlot, buffer = newBuffer\<rparr>\<rparr> in
      case subscriber_accountData s of
        None \<Rightarrow>
          (case newBuffer of None \<Rightarrow> (s', None) | Some b \<Rightarrow> decodeAndReport decode b s')
      | Some old \<Rightarrow>
          if newSlot \<le> slot old then (s, None)
          else
            case newBuffer of
              None \<Rightarrow> (s, None)
            | Some b \<Rightarrow>
                if (case buffer old of None \<Rightarrow> True | Some oldBuffer \<Rightarrow> b \<noteq> oldBuffer)
                then decodeAndReport decode b s' else (s, None))"

text \<open>\<open>if (this.listenerId)\<close>: the number 0 is falsy.\<close>

definition hasListener :: "'a AccountSubscriber \<Rightarrow> bool" where
  "hasListener s = (case listenerId s of None \<Rightarrow> False | Some n \<Rightarrow> n \<noteq> 0)"

text \<open>\<open>fetch\<close>: the response of \<open>getAccountInfoAndContext\<close> is a parameter; the request may throw.\<close>

definition fetchAccount ::
  "'a Decoder \<Rightarrow> (nat \<times> Buffer option) result \<Rightarrow> 'a AccountSubscriber \<Rightarrow>
     'a AccountSubscriber \<times> js_error option" where
  "fetchAccount decode rpcResponse s =
     (case rpcResponse of
        Inl e \<Rightarrow> (s, Some e)
      | Inr (n, b) \<Rightarrow> handleRpcResponse decode n b s)"

definition subscribeAccount ::
  "'a Decoder \<Rightarrow> (nat \<times> Buffer option) result \<Rightarrow> nat \<Rightarrow> 'a AccountSubscriber \<Rightarrow>
     'a AccountSubscriber \<times> js_error option" where
  "subscribeAccount decode rpcResponse newId s =
     (if hasListener s then (s, None)
      else
        case fetchAccount decode rpcResponse s of
          (s', Some e) \<Rightarrow> (s', Some e)
        | (s', None) \<Rightarrow> (s'\<lparr>listenerId := Some newId, listeners := newId # listeners s'\<rparr>, None))"

definition unsubscribeAccount :: "'a AccountSubscriber \<Rightarrow> 'a AccountSubscriber" where
  "unsubscribeAccount s =
     (if hasListener s
      then s\<lparr>listeners := removeAll (the (listenerId s)) (listeners s), listenerId := None\<rparr>
      else s)"

subsection \<open>The contract of the cached data\<close>

lemma decodeAndReport_accountData [simp]:
  "subscriber_accountData (fst (decodeAndReport decode b s)) = subscriber_accountData s"
  by (simp add: decodeAndReport_def split: sum.split)

lemma handleRpcResponse_accountData:
  "subscriber_accountData (fst (handleRpcResponse decode n b s))
     = nextData (subscriber_accountData s) n b"
  by (auto simp: handleRpcResponse_def nextData_def fresher_def Let_def split: option.split)

interpretation socket_cache:
  slot_cache "\<lambda>n b s. fst (handleRpcResponse decode n b s)" subscriber_accountData for decode
  by unfold_locales (rule handleRpcResponse_accountData)

subsection \<open>The decoded account\<close>

text \<open>The decoded account is the one of the stored buffer, as long as the coder does not throw.\<close>

definition inSync :: "'a Decoder \<Rightarrow> 'a AccountSubscriber \<Rightarrow> bool" where
  "inSync decode s \<longleftrightarrow>
     (case Option.bind (subscriber_accountData s) buffer of
        None \<Rightarrow> subscriber_data s = None
      | Some b \<Rightarrow>
          (\<exists>a. subscriber_data s = Some a \<and>
               bindE (capitalize (accountName s)) (\<lambda>name. decode name b) = Inr a))"

lemma handleRpcResponse_inSync:
  assumes "inSync decode s" "snd (handleRpcResponse decode n b s) = None"
  shows "inSync decode (fst (handleRpcResponse decode n b s))"
proof -
  have new: "inSync decode (fst (decodeAndReport decode b' (s\<lparr>subscriber_accountData := Some \<lparr>slot = n, buffer = Some b'\<rparr>\<rparr>)))"
    if "snd (decodeAndReport decode b' (s\<lparr>subscriber_accountData := Some \<lparr>slot = n, buffer = Some b'\<rparr>\<rparr>)) = None" for b'
    using that by (auto simp: decodeAndReport_def inSync_def split: sum.splits)
  show ?thesis
  proof (cases "subscriber_accountData s")
    case None
    with assms new show ?thesis
      by (cases b) (auto simp: handleRpcResponse_def inSync_def Let_def)
  next
    case (Some old)
    with assms new show ?thesis
      by (cases b) (auto simp: handleRpcResponse_def Let_def split: if_splits)
  qed
qed

text \<open>
  The decoded account of a subscriber is always the decoding of the newest buffer it has stored:
  after any sequence of responses for which the coder does not throw, the data is the decoding of
  the stored buffer, and with responses in the order of their slots that is the last one.
\<close>

theorem socket_data_in_sync:
  assumes "\<forall>name b. \<exists>a. decode name b = Inr a" "accountName s \<noteq> []"
    and "subscriber_accountData s = None" "subscriber_data s = None"
    and "sorted_wrt (<) (map fst (rs @ [(n, Some b)]))"
  shows "\<exists>name a. capitalize (accountName s) = Inr name \<and> decode name b = Inr a \<and>
           subscriber_data
             (fold (\<lambda>(n, b) s. fst (handleRpcResponse decode n b s)) (rs @ [(n, Some b)]) s) = Some a"
proof -
  let ?run = "\<lambda>rs. fold (\<lambda>(n, b) s. fst (handleRpcResponse decode n b s)) rs"
  obtain name where name: "capitalize (accountName s) = Inr name"
    using assms(2) by (cases "accountName s") auto
  have step: "inSync decode (fst (handleRpcResponse decode n b t)) \<and>
      accountName (fst (handleRpcResponse decode n b t)) = accountName s"
    if "inSync decode t" "accountName t = accountName s" for n b t
  proof -
    have "snd (decodeAndReport decode b' t') = None \<and> accountName (fst (decodeAndReport decode b' t')) = accountName s"
      if "accountName t' = accountName s" for b' t'
      using that name assms(1) by (auto simp: decodeAndReport_def split: sum.split)
        (metis Inr_not_Inl)
    then have "snd (handleRpcResponse decode n b t) = None"
      "accountName (fst (handleRpcResponse decode n b t)) = accountName s"
      using that(2) by (auto simp: handleRpcResponse_def Let_def split: option.splits)
    with that(1) show ?thesis by (simp add: handleRpcResponse_inSync)
  qed
  have "inSync decode (?run xs t) \<and> accountName (?run xs t) = accountName s"
    if "inSync decode t" "accountName t = accountName s" for xs t
    using that
  proof (induction xs arbitrary: t)
    case (Cons x xs)
    then show ?case using step by (cases x) simp
  qed simp
  moreover have "inSync decode s" using assms(3,4) by (simp add: inSync_def)
  ultimately have sync: "inSync decode (?run (rs @ [(n, Some b)]) s)"
    "accountName (?run (rs @ [(n, Some b)]) s) = accountName s" by blast+
  obtain d where "subscriber_accountData (?run (rs @ [(n, Some b)]) s) = Some d" "buffer d = Some b"
    using socket_cache.ordered_last [where s = s and decode = decode, OF assms(5)] assms(3) by auto
  with sync name show ?thesis by (auto simp: inSync_def)
qed

definition sample_subscriber :: "nat AccountSubscriber" where
  "sample_subscriber = newSubscriber ''user'' ''key''"

theorem socket_data_in_sync_witness:
  "\<exists>name a. capitalize ''user'' = Inr name \<and> Inr (length [4, 5, 6 :: nat]) = (Inr a :: nat result) \<and>
     subscriber_data (fold (\<lambda>(n, b) s. fst (handleRpcResponse (\<lambda>_ b. Inr (length b)) n b s))
       [(2, Some [1]), (3, Some [4, 5, 6])] sample_subscriber) = Some a"
  using socket_data_in_sync [of "\<lambda>_ b. Inr (length b)" sample_subscriber "[(2, Some [1])]" 3 "[4, 5, 6]"]
  by (simp add: sample_subscriber_def newSubscriber_def)

text \<open>
  Unsubscribing removes the listener that subscribing registered, except when the connection
  gave it the number 0, which the code takes for no listener: then it stays registered.
\<close>

theorem unsubscribe_removes_listener:
  assumes "\<not> hasListener s" "newId \<notin> set (listeners s)"
    and "subscribeAccount decode rpcResponse newId s = (s', None)"
  shows "newId \<in> set (listeners s') \<and>
         (newId \<in> set (listeners (unsubscribeAccount s')) \<longleftrightarrow> newId = 0)"
  using assms
  by (auto simp: subscribeAccount_def unsubscribeAccount_def hasListener_def
      split: prod.splits option.splits)

theorem unsubscribe_removes_listener_witness:
  "listeners (unsubscribeAccount
     (fst (subscribeAccount (\<lambda>_ b. Inr (length b)) (Inr (2, None)) 0 sample_subscriber))) = [0]"
  using unsubscribe_removes_listener [of sample_subscriber 0 "\<lambda>_ b. Inr (length b)" "Inr (2, None)"]
  by (simp add: hasListener_def sample_subscriber_def newSubscriber_def subscribeAccount_def
      fetchAccount_def handleRpcResponse_def unsubscribeAccount_def)

end
