(* ===== verification/Polling.thy ===== *)
theory Polling
  imports LoaderSystem WebSocketAccount
begin

section \<open>Subscribers that poll through the loader\<close>

text \<open>
  What \<open>pollingClearingHouseAccountSubscriber.ts\<close>, \<open>pollingUserAccountSubscriber.ts\<close> and
  \<open>pollingTokenAccountSubscriber.ts\<close> share: they register callbacks with the loader and take
  them back. The locale \<open>registry\<close> is the contract of such a registration, and the loader fulfils
  it; a client that takes back all it registered leaves the registry as it was.
\<close>

subsection \<open>The contract of registration\<close>

locale registry =
  fixes add :: "string \<Rightarrow> string \<Rightarrow> 'c \<Rightarrow> 's \<Rightarrow> 's"
    and remove :: "string \<Rightarrow> string \<Rightarrow> 's \<Rightarrow> 's"
    and entries :: "'s \<Rightarrow> string \<Rightarrow> (string \<times> 'c) list"
    and invar :: "'s \<Rightarrow> bool"
  assumes entries_add:
      "invar s \<Longrightarrow> entries (add i k c s) = (entries s)(k := AList.update i c (entries s k))"
    and entries_remove:
      "invar s \<Longrightarrow> entries (remove k i s) = (entries s)(k := AList.delete i (entries s k))"
    and invar_add: "invar s \<Longrightarrow> invar (add i k c s)"
    and invar_remove: "invar s \<Longrightarrow> invar (remove k i s)"
begin

lemma invar_adds: "invar s \<Longrightarrow> invar (fold (\<lambda>(i, k, c). add i k c) rs s)"
  by (induction rs arbitrary: s) (auto simp: invar_add)

lemma invar_removes: "invar s \<Longrightarrow> invar (fold (\<lambda>(i, k, c). remove k i) rs s)"
  by (induction rs arbitrary: s) (auto simp: invar_remove)

lemma entries_adds:
  "invar s \<Longrightarrow> distinct (map (\<lambda>(i, k, c). k) rs) \<Longrightarrow>
     entries (fold (\<lambda>(i, k, c). add i k c) rs s) k' =
       (case find (\<lambda>(i, k, c). k = k') rs of
          None \<Rightarrow> entries s k' | Some (i, k, c) \<Rightarrow> AList.update i c (entries s k'))"
proof (induction rs arbitrary: s)
  case (Cons r rs)
  obtain i k c where r: "r = (i, k, c)" by (cases r)
  have "find (\<lambda>(i, k, c). k = k') rs = None" if "k = k'"
    using Cons.prems r that by (force simp: find_None_iff)
  moreover have "entries (add i k c s) k' =
      (if k = k' then AList.update i c (entries s k') else entries s k')"
    using Cons.prems by (simp add: entries_add)
  ultimately show ?case using Cons.IH [of "add i k c s"] Cons.prems r
    by (auto simp: invar_add split: option.split)
qed simp

lemma entries_removes:
  "invar s \<Longrightarrow> distinct (map (\<lambda>(i, k, c). k) rs) \<Longrightarrow>
     entries (fold (\<lambda>(i, k, c). remove k i) rs s) k' =
       (case find (\<lambda>(i, k, c). k = k') rs of
          None \<Rightarrow> entries s k' | Some (i, k, c) \<Rightarrow> AList.delete i (entries s k'))"
proof (induction rs arbitrary: s)
  case (Cons r rs)
  obtain i k c where r: "r = (i, k, c)" by (cases r)
  have "find (\<lambda>(i, k, c). k = k') rs = None" if "k = k'"
    using Cons.prems r that by (force simp: find_None_iff)
  moreover have "entries (remove k i s) k' =
      (if k = k' then AList.delete i (entries s k') else entries s k')"
    using Cons.prems by (simp add: entries_remove)
  ultimately show ?case using Cons.IH [of "remove k i s"] Cons.prems r
    by (auto simp: invar_remove split: option.split)
qed simp

text \<open>The registry is restored when the identifiers were new.\<close>

lemma restored:
  assumes "invar s" "invar t" "entries t = entries (fold (\<lambda>(i, k, c). add i k c) rs s)"
    and "distinct (map (\<lambda>(i, k, c). k) rs)" "\<forall>(i, k, c) \<in> set rs. i \<notin> fst ` set (entries s k)"
  shows "entries (fold (\<lambda>(i, k, c). remove k i) rs t) = entries s"
proof
  fix k'
  show "entries (fold (\<lambda>(i, k, c). remove k i) rs t) k' = entries s k'"
  proof (cases "find (\<lambda>(i, k, c). k = k') rs")
    case None
    with assms show ?thesis by (simp add: entries_removes entries_adds)
  next
    case (Some r)
    obtain i k c where r: "r = (i, k, c)" by (cases r)
    with Some have "k = k'" "(i, k', c) \<in> set rs" by (auto simp: find_Some_iff dest: nth_mem)
    with assms(5) have "i \<notin> fst ` set (entries s k')" by auto
    with assms Some r show ?thesis
      by (simp add: entries_removes entries_adds delete_update_same)
  qed
qed

end

subsection \<open>The loader is a registry\<close>

definition accountCallbacks :: "Loader \<Rightarrow> string \<Rightarrow> (string \<times> Callback) list" where
  "accountCallbacks l k =
     (case map_of (accountsToLoad l) k of None \<Rightarrow> [] | Some a \<Rightarrow> callbacks a)"

lemma registered_key:
  "registeredOk l \<Longrightarrow> map_of (accountsToLoad l) k = Some a \<Longrightarrow> publicKey a = k"
  by (auto simp: registeredOk_def dest: map_of_SomeD)

lemma accountCallbacks_errors [simp]:
  "accountCallbacks (addErrorCallbacks i c l) = accountCallbacks l"
  "accountCallbacks (removeErrorCallbacks i l) = accountCallbacks l"
  by (simp_all add: accountCallbacks_def addErrorCallbacks_def removeErrorCallbacks_def fun_eq_iff)

lemma accountCallbacks_cong: "registrations l = registrations l' \<Longrightarrow> accountCallbacks l = accountCallbacks l'"
  by (simp add: accountCallbacks_def registrations_def fun_eq_iff)

lemma accountCallbacks_add:
  "accountCallbacks (addAccount i k c l) = (accountCallbacks l)(k := AList.update i c (accountCallbacks l k))"
  by (auto simp: accountCallbacks_def addAccount_accounts update_conv' split: option.split)

lemma accountCallbacks_remove:
  "registeredOk l \<Longrightarrow>
     accountCallbacks (removeAccount k i l) = (accountCallbacks l)(k := AList.delete i (accountCallbacks l k))"
  by (auto simp: accountCallbacks_def removeAccount_accounts update_conv' delete_conv'
      registered_key split: option.split)

interpretation loader_registry: registry addAccount removeAccount accountCallbacks registeredOk
  by unfold_locales
    (simp_all add: accountCallbacks_add accountCallbacks_remove addAccount_registeredOk
      removeAccount_registeredOk)

subsection \<open>Accounts to poll\<close>

record AccountToPoll =
  pollKey :: string
  pollPublicKey :: PublicKey
  eventType :: string
  callbackId :: "string option"

text \<open>
  The loop of \<open>addToAccountLoader\<close> over \<open>accountsToPoll\<close>. The callback that decodes the account of a
  key is the token \<open>callbackOf key\<close>, \<open>uuids n\<close> the \<open>n\<close>-th identifier \<open>uuidv4\<close> returns.
\<close>

fun registerAccounts ::
  "(string \<Rightarrow> Callback) \<Rightarrow> (nat \<Rightarrow> string) \<Rightarrow> nat \<Rightarrow> (string \<times> AccountToPoll) list \<Rightarrow> Loader \<Rightarrow>
     (string \<times> AccountToPoll) list \<times> Loader" where
  "registerAccounts callbackOf uuids n [] l = ([], l)"
| "registerAccounts callbackOf uuids n ((k, a) # as) l =
     (let l' = addAccount (uuids n) (pollPublicKey a) (callbackOf (pollKey a)) l;
          (as', l'') = registerAccounts callbackOf uuids (Suc n) as l'
      in ((k, a\<lparr>callbackId := Some (uuids n)\<rparr>) # as', l''))"

text \<open>The loop of \<open>unsubscribe\<close>. (A missing identifier removes no callback.)\<close>

definition unregisterAccounts :: "(string \<times> AccountToPoll) list \<Rightarrow> Loader \<Rightarrow> Loader" where
  "unregisterAccounts as l =
     fold (\<lambda>(k, a) l. case callbackId a of None \<Rightarrow> l | Some i \<Rightarrow> removeAccount (pollPublicKey a) i l) as l"

text \<open>The loop of \<open>fetch\<close>: the accounts that have data are decoded into their fields.\<close>

fun decodeAccounts ::
  "'a Decoder \<Rightarrow> Loader \<Rightarrow> (string \<times> AccountToPoll) list \<Rightarrow> (string \<times> 'a) list \<Rightarrow>
     (string \<times> 'a) list \<times> js_error option" where
  "decodeAccounts decode l [] vals = (vals, None)"
| "decodeAccounts decode l ((k, a) # as) vals =
     (case getAccountData (pollPublicKey a) l of
        None \<Rightarrow> decodeAccounts decode l as vals
      | Some b \<Rightarrow>
          (case bindE (capitalize (pollKey a)) (\<lambda>name. decode name b) of
             Inl e \<Rightarrow> (vals, Some e)
           | Inr x \<Rightarrow> decodeAccounts decode l as (AList.update (pollKey a) x vals)))"

text \<open>The registrations of a list of accounts to poll.\<close>

fun registrationsOf ::
  "(string \<Rightarrow> Callback) \<Rightarrow> (nat \<Rightarrow> string) \<Rightarrow> nat \<Rightarrow> (string \<times> AccountToPoll) list \<Rightarrow>
     (string \<times> string \<times> Callback) list" where
  "registrationsOf callbackOf uuids n [] = []"
| "registrationsOf callbackOf uuids n ((k, a) # as) =
     (uuids n, pollPublicKey a, callbackOf (pollKey a)) # registrationsOf callbackOf uuids (Suc n) as"

lemma registerAccounts_loader:
  "snd (registerAccounts callbackOf uuids n as l) =
     fold (\<lambda>(i, k, c). addAccount i k c) (registrationsOf callbackOf uuids n as) l"
  by (induction as arbitrary: n l) (auto simp: Let_def split_def)

lemma unregister_registered:
  "unregisterAccounts (fst (registerAccounts callbackOf uuids n as l)) t =
     fold (\<lambda>(i, k, c). removeAccount k i) (registrationsOf callbackOf uuids n as) t"
  unfolding unregisterAccounts_def
  by (induction as arbitrary: n l t) (auto simp: Let_def split_def)

lemma registrationsOf_keys:
  "map (\<lambda>(i, k, c). k) (registrationsOf callbackOf uuids n as) = map (pollPublicKey \<circ> snd) as"
  by (induction as arbitrary: n) auto

lemma registrationsOf_ids:
  "(i, k, c) \<in> set (registrationsOf callbackOf uuids n as) \<Longrightarrow> \<exists>m. i = uuids m"
  by (induction as arbitrary: n) auto

text \<open>Registering and taking back, with whatever happens to the other parts of the loader between.\<close>

lemma register_unregister:
  assumes "registeredOk l" "distinct (map (pollPublicKey \<circ> snd) as)"
    and "\<forall>n k. uuids n \<notin> fst ` set (accountCallbacks l k)"
    and "registerAccounts callbackOf uuids n as l = (as', l1)"
    and "registrations l2 = registrations l1"
  shows "accountCallbacks (unregisterAccounts as' l2) = accountCallbacks l"
proof -
  let ?rs = "registrationsOf callbackOf uuids n as"
  have l1: "l1 = fold (\<lambda>(i, k, c). addAccount i k c) ?rs l"
    using registerAccounts_loader [of callbackOf uuids n as l] assms(4) by simp
  have "registeredOk l2"
    using registeredOk_cong [OF assms(5)] assms(1) by (simp add: l1 loader_registry.invar_adds)
  moreover have "accountCallbacks l2 = accountCallbacks l1"
    using assms(5) by (rule accountCallbacks_cong)
  moreover have "\<forall>(i, k, c) \<in> set ?rs. i \<notin> fst ` set (accountCallbacks l k)"
    using assms(3) by (auto dest!: registrationsOf_ids)
  ultimately have "accountCallbacks (fold (\<lambda>(i, k, c). removeAccount k i) ?rs l2) = accountCallbacks l"
    using assms(1,2) l1 by (intro loader_registry.restored) (simp_all add: registrationsOf_keys)
  then show ?thesis
    using unregister_registered [of callbackOf uuids n as l l2] assms(4) by simp
qed

end
