(* ===== verification/PollingUser.thy ===== *)
theory PollingUser
  imports Polling
begin

section \<open>PollingUserAccountSubscriber and PollingTokenAccountSubscriber\<close>

text \<open>
  \<open>sdk/src/accounts/pollingUserAccountSubscriber.ts\<close> polls the account of a user and its positions,
  \<open>sdk/src/accounts/pollingTokenAccountSubscriber.ts\<close> a token account. The parameters are those of
  \<open>PollingClearingHouse\<close>: the coder, the identifiers, the fetched user account and what happens
  while the loader's \<open>load\<close> is awaited.
\<close>

subsection \<open>The user's accounts\<close>

record 'a PollingUserSub =
  user_isSubscribed :: bool
  user_accountsToPoll :: "(string \<times> AccountToPoll) list"
  user_errorCallbackId :: "string option"
  user_accounts :: "(string \<times> 'a) list"
  user_emitted :: "string list"

definition newPollingUser :: "'a PollingUserSub" where
  "newPollingUser = \<lparr>
     user_isSubscribed = False, user_accountsToPoll = [], user_errorCallbackId = None,
     user_accounts = [], user_emitted = []\<rparr>"

definition userAddToAccountLoader ::
  "(string \<Rightarrow> Callback) \<Rightarrow> Callback \<Rightarrow> (nat \<Rightarrow> string) \<Rightarrow> PublicKey \<Rightarrow> UserAccount result \<Rightarrow>
     'a PollingUserSub \<Rightarrow> Loader \<Rightarrow> 'a PollingUserSub \<times> Loader \<times> js_error option" where
  "userAddToAccountLoader callbackOf errorCallback uuids userPublicKey fetched s l =
     (if user_accountsToPoll s \<noteq> [] then (s, l, None)
      else
        case fetched of
          Inl e \<Rightarrow> (s, l, Some e)
        | Inr ua \<Rightarrow>
            let m0 = AList.update userPublicKey
                       \<lparr>pollKey = ''user'', pollPublicKey = userPublicKey,
                        eventType = ''userAccountData'', callbackId = None\<rparr> (user_accountsToPoll s);
                m1 = AList.update (UserAccount.positions ua)
                       \<lparr>pollKey = ''userPositions'', pollPublicKey = UserAccount.positions ua,
                        eventType = ''userPositionsData'', callbackId = None\<rparr> m0;
                (as, l1) = registerAccounts callbackOf uuids 0 m1 l;
                errorId = uuids (length m1);
                l2 = addErrorCallbacks errorId errorCallback l1
            in (s\<lparr>user_accountsToPoll := as, user_errorCallbackId := Some errorId\<rparr>, l2, None))"

definition userOnBuffer ::
  "'a Decoder \<Rightarrow> AccountToPoll \<Rightarrow> Buffer \<Rightarrow> 'a PollingUserSub \<Rightarrow>
     'a PollingUserSub \<times> js_error option" where
  "userOnBuffer decode a b s =
     (case bindE (capitalize (pollKey a)) (\<lambda>name. decode name b) of
        Inl e \<Rightarrow> (s, Some e)
      | Inr x \<Rightarrow>
          (s\<lparr>user_accounts := AList.update (pollKey a) x (user_accounts s),
             user_emitted := user_emitted s @ [eventType a, ''update'']\<rparr>, None))"

definition userFetch ::
  "'a Decoder \<Rightarrow> ('a PollingUserSub \<times> Loader \<Rightarrow> 'a PollingUserSub \<times> Loader) \<Rightarrow>
     'a PollingUserSub \<Rightarrow> Loader \<Rightarrow> 'a PollingUserSub \<times> Loader \<times> js_error option" where
  "userFetch decode duringLoad s l =
     (let (s1, l1) = duringLoad (s, l);
          (vals, r) = decodeAccounts decode l1 (user_accountsToPoll s1) (user_accounts s1)
      in (s1\<lparr>user_accounts := vals\<rparr>, l1, r))"

definition fetchIfUnloaded ::
  "'a Decoder \<Rightarrow> ('a PollingUserSub \<times> Loader \<Rightarrow> 'a PollingUserSub \<times> Loader) \<Rightarrow>
     'a PollingUserSub \<Rightarrow> Loader \<Rightarrow> 'a PollingUserSub \<times> Loader \<times> js_error option" where
  "fetchIfUnloaded decode duringLoad s l =
     (let shouldFetch =
            list_ex (\<lambda>(k, a). map_of (user_accounts s) (pollKey a) = None) (user_accountsToPoll s)
      in if shouldFetch then userFetch decode duringLoad s l else (s, l, None))"

definition userSubscribe ::
  "'a Decoder \<Rightarrow> (string \<Rightarrow> Callback) \<Rightarrow> Callback \<Rightarrow> (nat \<Rightarrow> string) \<Rightarrow>
     ('a PollingUserSub \<times> Loader \<Rightarrow> 'a PollingUserSub \<times> Loader) \<Rightarrow> PublicKey \<Rightarrow>
     UserAccount result \<Rightarrow> 'a PollingUserSub \<Rightarrow> Loader \<Rightarrow> 'a PollingUserSub \<times> Loader \<times> bool result" where
  "userSubscribe decode callbackOf errorCallback uuids duringLoad userPublicKey fetched s l =
     (if user_isSubscribed s then (s, l, Inr True)
      else
        case userAddToAccountLoader callbackOf errorCallback uuids userPublicKey fetched s l of
          (s1, l1, Some e) \<Rightarrow> (s1, l1, Inl e)
        | (s1, l1, None) \<Rightarrow>
            (case fetchIfUnloaded decode duringLoad s1 l1 of
               (s2, l2, Some e) \<Rightarrow> (s2, l2, Inl e)
             | (s2, l2, None) \<Rightarrow>
                 (s2\<lparr>user_emitted := user_emitted s2 @ [''update''], user_isSubscribed := True\<rparr>,
                  l2, Inr True)))"

definition userUnsubscribe :: "'a PollingUserSub \<Rightarrow> Loader \<Rightarrow> 'a PollingUserSub \<times> Loader" where
  "userUnsubscribe s l =
     (if \<not> user_isSubscribed s then (s, l)
      else
        let l1 = unregisterAccounts (user_accountsToPoll s) l;
            l2 = (case user_errorCallbackId s of None \<Rightarrow> l1 | Some i \<Rightarrow> removeErrorCallbacks i l1)
        in (s\<lparr>user_errorCallbackId := None, user_accountsToPoll := [], user_isSubscribed := False\<rparr>, l2))"

definition userAssertIsSubscribed :: "'a PollingUserSub \<Rightarrow> unit result" where
  "userAssertIsSubscribed s =
     (if \<not> user_isSubscribed s
      then Inl (NotSubscribedError ''You must call `subscribe` before using this function'')
      else Inr ())"

definition getUserAccount :: "'a PollingUserSub \<Rightarrow> 'a option result" where
  "getUserAccount s = bindE (userAssertIsSubscribed s) (\<lambda>_. Inr (map_of (user_accounts s) ''user''))"

definition getUserPositionsAccount :: "'a PollingUserSub \<Rightarrow> 'a option result" where
  "getUserPositionsAccount s =
     bindE (userAssertIsSubscribed s) (\<lambda>_. Inr (map_of (user_accounts s) ''userPositions''))"

subsection \<open>The token account\<close>

record 'a PollingToken =
  token_isSubscribed :: bool
  token_publicKey :: PublicKey
  token_callbackId :: "string option"
  token_errorCallbackId :: "string option"
  tokenAccount :: "'a option"
  token_emitted :: "string list"

definition newPollingToken :: "PublicKey \<Rightarrow> 'a PollingToken" where
  "newPollingToken pk = \<lparr>
     token_isSubscribed = False, token_publicKey = pk, token_callbackId = None,
     token_errorCallbackId = None, tokenAccount = None, token_emitted = []\<rparr>"

text \<open>An identifier counts as present when it is not the empty text.\<close>

definition tokenAddToAccountLoader ::
  "Callback \<Rightarrow> Callback \<Rightarrow> (nat \<Rightarrow> string) \<Rightarrow> 'a PollingToken \<Rightarrow> Loader \<Rightarrow> 'a PollingToken \<times> Loader" where
  "tokenAddToAccountLoader callback errorCallback uuids s l =
     (if token_callbackId s \<noteq> None \<and> token_callbackId s \<noteq> Some [] then (s, l)
      else
        (s\<lparr>token_callbackId := Some (uuids 0), token_errorCallbackId := Some (uuids 1)\<rparr>,
         addErrorCallbacks (uuids 1) errorCallback
           (addAccount (uuids 0) (token_publicKey s) callback l)))"

text \<open>The callback, with \<open>parseTokenAccount\<close> as parameter (it may throw, also on a missing buffer).\<close>

definition tokenOnBuffer ::
  "(Buffer option \<Rightarrow> 'a result) \<Rightarrow> Buffer option \<Rightarrow> 'a PollingToken \<Rightarrow>
     'a PollingToken \<times> js_error option" where
  "tokenOnBuffer parseTokenAccount b s =
     (case parseTokenAccount b of
        Inl e \<Rightarrow> (s, Some e)
      | Inr a \<Rightarrow>
          (s\<lparr>tokenAccount := Some a,
             token_emitted := token_emitted s @ [''tokenAccountUpdate'', ''update'']\<rparr>, None))"

definition tokenFetch ::
  "(Buffer option \<Rightarrow> 'a result) \<Rightarrow> ('a PollingToken \<times> Loader \<Rightarrow> 'a PollingToken \<times> Loader) \<Rightarrow>
     'a PollingToken \<Rightarrow> Loader \<Rightarrow> 'a PollingToken \<times> Loader \<times> js_error option" where
  "tokenFetch parseTokenAccount duringLoad s l =
     (let (s1, l1) = duringLoad (s, l) in
      case parseTokenAccount (getAccountData (token_publicKey s1) l1) of
        Inl e \<Rightarrow> (s1, l1, Some e)
      | Inr a \<Rightarrow> (s1\<lparr>tokenAccount := Some a\<rparr>, l1, None))"

definition tokenSubscribe ::
  "(Buffer option \<Rightarrow> 'a result) \<Rightarrow> Callback \<Rightarrow> Callback \<Rightarrow> (nat \<Rightarrow> string) \<Rightarrow>
     ('a PollingToken \<times> Loader \<Rightarrow> 'a PollingToken \<times> Loader) \<Rightarrow> 'a PollingToken \<Rightarrow> Loader \<Rightarrow>
     'a PollingToken \<times> Loader \<times> bool result" where
  "tokenSubscribe parseTokenAccount callback errorCallback uuids duringLoad s l =
     (if token_isSubscribed s then (s, l, Inr True)
      else
        let (s1, l1) = tokenAddToAccountLoader callback errorCallback uuids s l in
        case tokenFetch parseTokenAccount duringLoad s1 l1 of
          (s2, l2, Some e) \<Rightarrow> (s2, l2, Inl e)
        | (s2, l2, None) \<Rightarrow>
            (s2\<lparr>token_emitted := token_emitted s2 @ [''update''], token_isSubscribed := True\<rparr>,
             l2, Inr True))"

definition tokenUnsubscribe :: "'a PollingToken \<Rightarrow> Loader \<Rightarrow> 'a PollingToken \<times> Loader" where
  "tokenUnsubscribe s l =
     (if \<not> token_isSubscribed s then (s, l)
      else
        let l1 = (case token_callbackId s of
                    None \<Rightarrow> l | Some i \<Rightarrow> removeAccount (token_publicKey s) i l);
            l2 = (case token_errorCallbackId s of
                    None \<Rightarrow> l1 | Some i \<Rightarrow> removeErrorCallbacks i l1)
        in (s\<lparr>token_callbackId := None, token_errorCallbackId := None,
              token_isSubscribed := False\<rparr>, l2))"

definition getTokenAccount :: "'a PollingToken \<Rightarrow> 'a option result" where
  "getTokenAccount s =
     (if \<not> token_isSubscribed s
      then Inl (NotSubscribedError ''You must call `subscribe` before using this function'')
      else Inr (tokenAccount s))"

subsection \<open>Properties\<close>

text \<open>
  A user subscription that succeeds and is undone leaves the callbacks of the loader as they
  were, when the load that is awaited changes no registration and the identifiers are new.
\<close>

theorem user_unsubscribe_restores:
  fixes s :: "'a PollingUserSub"
  assumes "registeredOk l" "\<not> user_isSubscribed s" "user_accountsToPoll s = []"
    and "\<forall>s l. case duringLoad (s, l) of (s', l') \<Rightarrow>
           registrations l' = registrations l \<and> user_accountsToPoll s' = user_accountsToPoll s"
    and "\<forall>n k. uuids n \<notin> fst ` set (accountCallbacks l k)"
    and "userSubscribe decode cb ecb uuids duringLoad pk (Inr ua) s l = (s1, l1, Inr r)"
    and "userUnsubscribe s1 l1 = (s2, l2)"
  shows "accountCallbacks l2 = accountCallbacks l \<and> \<not> user_isSubscribed s2"
proof -
  define m where "m = AList.update (UserAccount.positions ua)
      \<lparr>pollKey = ''userPositions'', pollPublicKey = UserAccount.positions ua,
       eventType = ''userPositionsData'', callbackId = None\<rparr>
      [(pk, \<lparr>pollKey = ''user'', pollPublicKey = pk, eventType = ''userAccountData'', callbackId = None\<rparr>)]"
  obtain as lr where as: "registerAccounts cb uuids 0 m l = (as, lr)" by fastforce
  define t where "t = s\<lparr>user_accountsToPoll := as, user_errorCallbackId := Some (uuids (length m))\<rparr>"
  define lt where "lt = addErrorCallbacks (uuids (length m)) ecb lr"
  have add: "userAddToAccountLoader cb ecb uuids pk (Inr ua) s l = (t, lt, None)"
    using assms(3) as by (simp add: userAddToAccountLoader_def m_def t_def lt_def Let_def)
  have fetch: "registrations l' = registrations lr \<and> user_accountsToPoll s' = as"
    if "fetchIfUnloaded decode duringLoad t lt = (s', l', e)" for s' l' e
    using that assms(4) [THEN spec [of _ t], THEN spec [of _ lt]]
    by (auto simp: fetchIfUnloaded_def userFetch_def t_def lt_def Let_def
        split: if_splits prod.splits)
  have l1: "registrations l1 = registrations lr" "user_accountsToPoll s1 = as"
      "user_isSubscribed s1"
    using assms(2,6) add fetch
    by (auto simp: userSubscribe_def split: if_splits prod.splits option.splits)
  have "distinct (map (pollPublicKey \<circ> snd) m)" by (simp add: m_def)
  from register_unregister [OF assms(1) this assms(5) as l1(1)]
  have "accountCallbacks (unregisterAccounts as l1) = accountCallbacks l" .
  with assms(7) l1 show ?thesis
    by (auto simp: userUnsubscribe_def Let_def split: option.splits)
qed

theorem user_unsubscribe_restores_witness:
  "\<exists>s1 l1. userSubscribe (\<lambda>_ b. Inr (length b)) (\<lambda>_. 1) 2 (\<lambda>n. replicate (Suc n) CHR ''x'') id
       ''userKey'' (Inr sample_user) newPollingUser newLoader = (s1, l1, Inr True) \<and>
     accountCallbacks (snd (userUnsubscribe s1 l1)) = accountCallbacks newLoader"
proof -
  let ?sub = "userSubscribe (\<lambda>_ b. Inr (length b)) (\<lambda>_. 1) 2 (\<lambda>n. replicate (Suc n) CHR ''x'') id
      ''userKey'' (Inr sample_user) newPollingUser newLoader"
  have "\<exists>s1 l1. ?sub = (s1, l1, Inr True)"
    by (simp add: userSubscribe_def userAddToAccountLoader_def fetchIfUnloaded_def userFetch_def
        newPollingUser_def sample_user_def newLoader_def addAccount_def addErrorCallbacks_def
        startPolling_def getAccountData_def Let_def)
  then obtain s1 l1 where s1: "?sub = (s1, l1, Inr True)" by blast
  obtain s2 l2 where s2: "userUnsubscribe s1 l1 = (s2, l2)" by fastforce
  have "accountCallbacks newLoader k = []" for k by (simp add: accountCallbacks_def newLoader_def)
  with user_unsubscribe_restores [OF newLoader_registeredOk _ _ _ _ s1 s2] s1 s2 show ?thesis
    by (simp add: newPollingUser_def)
qed

text \<open>
  A token subscription that fails cannot be undone: when the token account cannot be parsed,
  for instance because it does not exist, \<open>subscribe\<close> throws with the callback registered, and as
  the subscriber does not count as subscribed \<open>unsubscribe\<close> does nothing, so the loader keeps
  polling the account.
\<close>

theorem failed_token_subscribe_leaks:
  fixes s :: "'a PollingToken"
  assumes "\<not> token_isSubscribed s" "token_callbackId s = None"
    and "\<forall>s l. case duringLoad (s, l) of (s', l') \<Rightarrow>
           registrations l' = registrations l \<and> token_isSubscribed s' = token_isSubscribed s \<and>
           token_publicKey s' = token_publicKey s"
    and "tokenSubscribe parse cb ecb uuids duringLoad s l = (s1, l1, Inl e)"
  shows "tokenUnsubscribe s1 l1 = (s1, l1) \<and> (uuids 0, cb) \<in> set (accountCallbacks l1 (token_publicKey s1))"
proof -
  let ?t = "s\<lparr>token_callbackId := Some (uuids 0), token_errorCallbackId := Some (uuids 1)\<rparr>"
  let ?lt = "addErrorCallbacks (uuids 1) ecb (addAccount (uuids 0) (token_publicKey s) cb l)"
  have in_update: "(i, c) \<in> set (AList.update i c cs)" for i :: string and c :: Callback and cs
    by (induction cs) auto
  have "registrations l1 = registrations ?lt \<and> \<not> token_isSubscribed s1 \<and>
      token_publicKey s1 = token_publicKey s"
    using assms(1,2,4) assms(3) [THEN spec [of _ ?t], THEN spec [of _ ?lt]]
    by (auto simp: tokenSubscribe_def tokenAddToAccountLoader_def tokenFetch_def Let_def
        split: prod.splits option.splits sum.splits)
  moreover from this have "accountCallbacks l1 = accountCallbacks (addAccount (uuids 0) (token_publicKey s) cb l)"
    using accountCallbacks_cong [of l1 ?lt] by simp
  ultimately show ?thesis
    by (simp add: tokenUnsubscribe_def accountCallbacks_add in_update)
qed

theorem failed_token_subscribe_leaks_witness:
  "\<exists>s1 l1. tokenSubscribe (\<lambda>b. case b of None \<Rightarrow> Inl TypeError | Some x \<Rightarrow> Inr (length x))
       7 8 (\<lambda>n. replicate (Suc n) CHR ''x'') id (newPollingToken ''token'') newLoader
     = (s1, l1, Inl TypeError) \<and> tokenUnsubscribe s1 l1 = (s1, l1)"
proof -
  let ?parse = "\<lambda>b :: Buffer option. case b of None \<Rightarrow> Inl TypeError | Some x \<Rightarrow> Inr (length x)"
  let ?sub = "tokenSubscribe ?parse 7 8 (\<lambda>n. replicate (Suc n) CHR ''x'') id
      (newPollingToken ''token'') newLoader"
  have "\<exists>s1 l1. ?sub = (s1, l1, Inl TypeError)"
    by (simp add: tokenSubscribe_def tokenAddToAccountLoader_def tokenFetch_def newPollingToken_def
        newLoader_def addAccount_def addErrorCallbacks_def startPolling_def getAccountData_def)
  then obtain s1 l1 where s1: "?sub = (s1, l1, Inl TypeError)" by blast
  from failed_token_subscribe_leaks [OF _ _ _ s1] s1 show ?thesis
    by (simp add: newPollingToken_def)
qed

end
