(* ===== verification/PollingClearingHouse.thy ===== *)
theory PollingClearingHouse
  imports Polling
begin

section \<open>PollingClearingHouseAccountSubscriber\<close>

text \<open>
  \<open>sdk/src/accounts/pollingClearingHouseAccountSubscriber.ts\<close>: the accounts of the clearing house
  (state, markets and the optional histories) are polled through the loader. The decoded accounts
  of the fields \<open>this[key]\<close> are in \<open>accounts\<close>, of any type the coder \<open>decode\<close> returns.

  The key of the state account, the state account fetched from it, the identifiers of the loader
  and what happens to the loader while \<open>load\<close> is awaited (\<open>duringLoad\<close>) are parameters; \<open>emitted\<close>
  records the events.
\<close>

datatype ClearingHouseAccountTypes =
    TradeHistoryAccount
  | DepositHistoryAccount
  | FundingPaymentHistoryAccount
  | FundingRateHistoryAccount
  | CurveHistoryAccount
  | LiquidationHistoryAccount

text \<open>The literal of each type.\<close>

fun typeName :: "ClearingHouseAccountTypes \<Rightarrow> string" where
  "typeName TradeHistoryAccount = ''tradeHistoryAccount''"
| "typeName DepositHistoryAccount = ''depositHistoryAccount''"
| "typeName FundingPaymentHistoryAccount = ''fundingPaymentHistoryAccount''"
| "typeName FundingRateHistoryAccount = ''fundingRateHistoryAccount''"
| "typeName CurveHistoryAccount = ''curveHistoryAccount''"
| "typeName LiquidationHistoryAccount = ''liquidationHistoryAccount''"

record 'a PollingCH =
  isSubscribed :: bool
  accountsToPoll :: "(string \<times> AccountToPoll) list"
  errorCallbackId :: "string option"
  accounts :: "(string \<times> 'a) list"
  optionalExtraSubscriptions :: "ClearingHouseAccountTypes list option"
  isSubscribing :: bool
  emitted :: "string list"

definition newPollingCH :: "'a PollingCH" where
  "newPollingCH = \<lparr>
     isSubscribed = False, accountsToPoll = [], errorCallbackId = None, accounts = [],
     optionalExtraSubscriptions = Some [], isSubscribing = False, emitted = []\<rparr>"

subsection \<open>The accounts to poll\<close>

definition accountToPoll :: "string \<Rightarrow> PublicKey \<Rightarrow> string \<Rightarrow> AccountToPoll" where
  "accountToPoll k pk e = \<lparr>pollKey = k, pollPublicKey = pk, eventType = e, callbackId = None\<rparr>"

text \<open>\<open>this.optionalExtraSubscriptions?.includes(t)\<close>.\<close>

definition wants :: "ClearingHouseAccountTypes list option \<Rightarrow> ClearingHouseAccountTypes \<Rightarrow> bool" where
  "wants opts t = (case opts of None \<Rightarrow> False | Some ts \<Rightarrow> t \<in> set ts)"

definition setIf :: "bool \<Rightarrow> PublicKey \<Rightarrow> string \<Rightarrow> string \<Rightarrow> (string \<times> AccountToPoll) list \<Rightarrow>
    (string \<times> AccountToPoll) list" where
  "setIf c pk k e m = (if c then AList.update pk (accountToPoll k pk e) m else m)"

definition updateAccountsToPoll ::
  "PublicKey \<Rightarrow> StateAccount result \<Rightarrow> 'a PollingCH \<Rightarrow> 'a PollingCH \<times> js_error option" where
  "updateAccountsToPoll statePublicKey fetched s =
     (if accountsToPoll s \<noteq> [] then (s, None)
      else
        case fetched of
          Inl e \<Rightarrow> (s, Some e)
        | Inr st \<Rightarrow>
            let opts = optionalExtraSubscriptions s;
                m0 = AList.update statePublicKey
                       (accountToPoll ''state'' statePublicKey ''stateAccountUpdate'') (accountsToPoll s);
                m1 = AList.update (StateAccount.markets st)
                       (accountToPoll ''markets'' (StateAccount.markets st) ''marketsAccountUpdate'') m0;
                m2 = setIf (wants opts TradeHistoryAccount) (tradeHistory st)
                       ''tradeHistory'' ''tradeHistoryAccountUpdate'' m1;
                m3 = setIf (wants opts DepositHistoryAccount) (depositHistory st)
                       ''depositHistory'' ''depositHistoryAccountUpdate'' m2;
                m4 = setIf (wants opts FundingPaymentHistoryAccount) (fundingPaymentHistory st)
                       ''fundingPaymentHistory'' ''fundingPaymentHistoryAccountUpdate'' m3;
                m5 = setIf (wants opts FundingRateHistoryAccount) (fundingRateHistory st)
                       ''fundingRateHistory'' ''fundingRateHistoryAccountUpdate'' m4;
                m6 = setIf (wants opts CurveHistoryAccount) (extendedCurveHistory st)
                       ''extendedCurveHistory'' ''curveHistoryAccountUpdate'' m5;
                m7 = setIf (wants opts LiquidationHistoryAccount) (liquidationHistory st)
                       ''liquidationHistory'' ''liquidationHistoryAccountUpdate'' m6
            in (s\<lparr>accountsToPoll := m7\<rparr>, None))"

text \<open>
  \<open>addToAccountLoader\<close>: a callback per account, then the error callback. The identifiers \<open>uuids\<close>
  are used in order; the error callback is the token \<open>errorCallback\<close>.
\<close>

definition addToAccountLoader ::
  "(string \<Rightarrow> Callback) \<Rightarrow> Callback \<Rightarrow> (nat \<Rightarrow> string) \<Rightarrow> 'a PollingCH \<Rightarrow> Loader \<Rightarrow>
     'a PollingCH \<times> Loader" where
  "addToAccountLoader callbackOf errorCallback uuids s l =
     (let (as, l1) = registerAccounts callbackOf uuids 0 (accountsToPoll s) l;
          errorId = uuids (length (accountsToPoll s));
          l2 = addErrorCallbacks errorId errorCallback l1
      in (s\<lparr>accountsToPoll := as, errorCallbackId := Some errorId\<rparr>, l2))"

text \<open>The callback of an account: decode, store, and emit the event of the account and \<open>update\<close>.\<close>

definition onAccountBuffer ::
  "'a Decoder \<Rightarrow> AccountToPoll \<Rightarrow> Buffer \<Rightarrow> 'a PollingCH \<Rightarrow> 'a PollingCH \<times> js_error option" where
  "onAccountBuffer decode a b s =
     (case bindE (capitalize (pollKey a)) (\<lambda>name. decode name b) of
        Inl e \<Rightarrow> (s, Some e)
      | Inr x \<Rightarrow>
          (s\<lparr>accounts := AList.update (pollKey a) x (accounts s),
             emitted := emitted s @ [eventType a, ''update'']\<rparr>, None))"

text \<open>\<open>fetch\<close>: what happens while \<open>load\<close> is awaited is the function \<open>duringLoad\<close>.\<close>

definition fetchPolling ::
  "'a Decoder \<Rightarrow> ('a PollingCH \<times> Loader \<Rightarrow> 'a PollingCH \<times> Loader) \<Rightarrow> 'a PollingCH \<Rightarrow> Loader \<Rightarrow>
     'a PollingCH \<times> Loader \<times> js_error option" where
  "fetchPolling decode duringLoad s l =
     (let (s1, l1) = duringLoad (s, l);
          (vals, r) = decodeAccounts decode l1 (accountsToPoll s1) (accounts s1)
      in (s1\<lparr>accounts := vals\<rparr>, l1, r))"

subsection \<open>Subscribing\<close>

text \<open>
  A call of \<open>subscribe\<close> returns, waits for the promise of the call that is under way, or throws.
\<close>

datatype SubscribeOutcome = Subscribed bool | AwaitsPromise | Throws js_error

definition subscribe ::
  "'a Decoder \<Rightarrow> (string \<Rightarrow> Callback) \<Rightarrow> Callback \<Rightarrow> (nat \<Rightarrow> string) \<Rightarrow>
     ('a PollingCH \<times> Loader \<Rightarrow> 'a PollingCH \<times> Loader) \<Rightarrow> PublicKey \<Rightarrow> StateAccount result \<Rightarrow>
     ClearingHouseAccountTypes list option \<Rightarrow> 'a PollingCH \<Rightarrow> Loader \<Rightarrow>
     'a PollingCH \<times> Loader \<times> SubscribeOutcome" where
  "subscribe decode callbackOf errorCallback uuids duringLoad statePublicKey fetched opts s l =
     (if isSubscribed s then (s, l, Subscribed True)
      else if isSubscribing s then (s, l, AwaitsPromise)
      else
        let s0 = s\<lparr>optionalExtraSubscriptions := opts, isSubscribing := True\<rparr> in
        case updateAccountsToPoll statePublicKey fetched s0 of
          (s1, Some e) \<Rightarrow> (s1, l, Throws e)
        | (s1, None) \<Rightarrow>
            (let (s2, l2) = addToAccountLoader callbackOf errorCallback uuids s1 l in
             case fetchPolling decode duringLoad s2 l2 of
               (s3, l3, Some e) \<Rightarrow> (s3, l3, Throws e)
             | (s3, l3, None) \<Rightarrow>
                 (s3\<lparr>emitted := emitted s3 @ [''update''], isSubscribing := False,
                     isSubscribed := True\<rparr>, l3, Subscribed True)))"

definition unsubscribe :: "'a PollingCH \<Rightarrow> Loader \<Rightarrow> 'a PollingCH \<times> Loader" where
  "unsubscribe s l =
     (if \<not> isSubscribed s then (s, l)
      else
        let l1 = unregisterAccounts (accountsToPoll s) l;
            l2 = (case errorCallbackId s of None \<Rightarrow> l1 | Some i \<Rightarrow> removeErrorCallbacks i l1)
        in (s\<lparr>errorCallbackId := None, accountsToPoll := [], isSubscribed := False\<rparr>, l2))"

subsection \<open>Reading the accounts\<close>

definition notSubscribed :: js_error where
  "notSubscribed = NotSubscribedError ''You must call `subscribe` before using this function''"

definition assertIsSubscribed :: "'a PollingCH \<Rightarrow> unit result" where
  "assertIsSubscribed s = (if \<not> isSubscribed s then Inl notSubscribed else Inr ())"

text \<open>\<open>this.optionalExtraSubscriptions.includes(...)\<close> throws when the field is \<open>undefined\<close>.\<close>

definition assertOptionalIsSubscribed :: "ClearingHouseAccountTypes \<Rightarrow> 'a PollingCH \<Rightarrow> unit result" where
  "assertOptionalIsSubscribed t s =
     (if \<not> isSubscribed s then Inl notSubscribed
      else
        bindE (deref (optionalExtraSubscriptions s)) (\<lambda>ts.
          if t \<notin> set ts
          then Inl (NotSubscribedError
                 (''You need to subscribe to the optional Clearing House account '' @ [CHR 0x22]
                    @ typeName t @ [CHR 0x22] @ '' to use this method''))
          else Inr ()))"

definition getStateAccount :: "'a PollingCH \<Rightarrow> 'a option result" where
  "getStateAccount s = bindE (assertIsSubscribed s) (\<lambda>_. Inr (map_of (accounts s) ''state''))"

definition getMarketsAccount :: "'a PollingCH \<Rightarrow> 'a option result" where
  "getMarketsAccount s = bindE (assertIsSubscribed s) (\<lambda>_. Inr (map_of (accounts s) ''markets''))"

definition getOptional :: "ClearingHouseAccountTypes \<Rightarrow> string \<Rightarrow> 'a PollingCH \<Rightarrow> 'a option result" where
  "getOptional t k s =
     bindE (assertIsSubscribed s) (\<lambda>_.
       bindE (assertOptionalIsSubscribed t s) (\<lambda>_. Inr (map_of (accounts s) k)))"

definition getTradeHistoryAccount :: "'a PollingCH \<Rightarrow> 'a option result" where
  "getTradeHistoryAccount = getOptional TradeHistoryAccount ''tradeHistory''"

definition getDepositHistoryAccount :: "'a PollingCH \<Rightarrow> 'a option result" where
  "getDepositHistoryAccount = getOptional DepositHistoryAccount ''depositHistory''"

definition getFundingPaymentHistoryAccount :: "'a PollingCH \<Rightarrow> 'a option result" where
  "getFundingPaymentHistoryAccount = getOptional FundingPaymentHistoryAccount ''fundingPaymentHistory''"

definition getFundingRateHistoryAccount :: "'a PollingCH \<Rightarrow> 'a option result" where
  "getFundingRateHistoryAccount = getOptional FundingRateHistoryAccount ''fundingRateHistory''"

definition getCurveHistoryAccount :: "'a PollingCH \<Rightarrow> 'a option result" where
  "getCurveHistoryAccount = getOptional CurveHistoryAccount ''extendedCurveHistory''"

definition getLiquidationHistoryAccount :: "'a PollingCH \<Rightarrow> 'a option result" where
  "getLiquidationHistoryAccount = getOptional LiquidationHistoryAccount ''liquidationHistory''"

subsection \<open>The map of the accounts to poll\<close>

text \<open>
  A map as \<open>updateAccountsToPoll\<close> builds it: each entry is under the public key it polls, and the
  field names are distinct and among \<open>ks\<close>.
\<close>

definition pollMapOk :: "string list \<Rightarrow> (string \<times> AccountToPoll) list \<Rightarrow> bool" where
  "pollMapOk ks m \<longleftrightarrow> distinct (map fst m) \<and> (\<forall>(k, a) \<in> set m. pollPublicKey a = k) \<and>
     distinct (map (pollKey \<circ> snd) m) \<and> pollKey ` snd ` set m \<subseteq> set ks"

lemma pollMapOk_Nil: "pollMapOk ks []"
  by (simp add: pollMapOk_def)

lemma update_pollKeys: "pollKey ` snd ` set (AList.update k v m) \<subseteq> insert (pollKey v) (pollKey ` snd ` set m)"
  by (induction m) auto

lemma update_pollKeys_distinct:
  "distinct (map (pollKey \<circ> snd) m) \<Longrightarrow> pollKey v \<notin> pollKey ` snd ` set m \<Longrightarrow>
     distinct (map (pollKey \<circ> snd) (AList.update k v m))"
proof (induction m)
  case (Cons x m)
  with update_pollKeys [of k v m] show ?case by (auto simp: image_image)
qed simp

lemma pollMapOk_update:
  assumes "pollMapOk ks m" "k \<notin> set ks"
  shows "pollMapOk (k # ks) (AList.update pk (accountToPoll k pk e) m)"
proof -
  let ?v = "accountToPoll k pk e"
  have "pollKey ?v = k" "pollPublicKey ?v = pk" by (simp_all add: accountToPoll_def)
  moreover have "\<forall>(k, a) \<in> set (AList.update pk ?v m). pollPublicKey a = k"
    using assms by (intro update_ok) (auto simp: pollMapOk_def accountToPoll_def)
  moreover have new: "k \<notin> pollKey ` snd ` set m" using assms by (auto simp: pollMapOk_def)
  moreover have "pollKey ` snd ` set (AList.update pk ?v m) \<subseteq> set (k # ks)"
    using update_pollKeys [of pk ?v m] assms(1) \<open>pollKey ?v = k\<close>
    by (simp add: pollMapOk_def) (meson insert_mono order_trans)
  ultimately show ?thesis
    using assms update_pollKeys_distinct [of m ?v pk]
    by (simp add: pollMapOk_def distinct_update)
qed

lemma pollMapOk_setIf:
  "pollMapOk ks m \<Longrightarrow> k \<notin> set ks \<Longrightarrow> pollMapOk (k # ks) (setIf c pk k e m)"
  using pollMapOk_update [of ks m k pk e] by (fastforce simp: setIf_def pollMapOk_def)

lemma updateAccountsToPoll_ok:
  assumes "accountsToPoll s = []" "updateAccountsToPoll sk (Inr st) s = (s', r)"
  shows "pollMapOk [''liquidationHistory'', ''extendedCurveHistory'', ''fundingRateHistory'',
     ''fundingPaymentHistory'', ''depositHistory'', ''tradeHistory'', ''markets'', ''state'']
     (accountsToPoll s')"
  using assms unfolding updateAccountsToPoll_def
  by (auto simp: Let_def simp del: update.simps
      intro!: pollMapOk_setIf pollMapOk_update pollMapOk_Nil)

lemma setIf_other: "pk \<noteq> pk' \<Longrightarrow> map_of (setIf c pk' k e m) pk = map_of m pk"
  by (simp add: setIf_def update_conv')

lemma updateAccountsToPoll_markets:
  assumes "accountsToPoll s = []" "updateAccountsToPoll sk (Inr st) s = (s', r)"
    and "StateAccount.markets st \<notin> {tradeHistory st, depositHistory st, fundingPaymentHistory st,
           fundingRateHistory st, extendedCurveHistory st, liquidationHistory st}"
  shows "map_of (accountsToPoll s') (StateAccount.markets st)
           = Some (accountToPoll ''markets'' (StateAccount.markets st) ''marketsAccountUpdate'')"
  using assms by (auto simp: updateAccountsToPoll_def Let_def setIf_other update_conv')

lemma registerAccounts_entries:
  "map (\<lambda>(k, a). (k, pollKey a, pollPublicKey a)) (fst (registerAccounts c u n as l))
     = map (\<lambda>(k, a). (k, pollKey a, pollPublicKey a)) as"
  by (induction as arbitrary: n l) (auto simp: Let_def split_def)

lemma decodeAccounts_other:
  "decodeAccounts decode l as vals = (vals', None) \<Longrightarrow> q \<notin> pollKey ` snd ` set as \<Longrightarrow>
     map_of vals' q = map_of vals q"
proof (induction as arbitrary: vals)
  case (Cons x as)
  then show ?case
    by (cases x) (auto simp: update_conv' split: option.splits sum.splits)
qed simp

lemma decodeAccounts_value:
  "decodeAccounts decode l as vals = (vals', None) \<Longrightarrow> distinct (map (pollKey \<circ> snd) as) \<Longrightarrow>
     (k, a) \<in> set as \<Longrightarrow> getAccountData (pollPublicKey a) l = Some b \<Longrightarrow>
     \<exists>name x. capitalize (pollKey a) = Inr name \<and> decode name b = Inr x \<and> map_of vals' (pollKey a) = Some x"
proof (induction as arbitrary: vals)
  case (Cons y as)
  show ?case
  proof (cases "y = (k, a)")
    case True
    with Cons.prems have other: "pollKey a \<notin> pollKey ` snd ` set as" by auto
    from True Cons.prems obtain x where x: "bindE (capitalize (pollKey a)) (\<lambda>name. decode name b) = Inr x"
      "decodeAccounts decode l as (AList.update (pollKey a) x vals) = (vals', None)"
      by (auto split: sum.splits)
    with decodeAccounts_other [OF x(2) other] show ?thesis
      by (auto simp: update_conv' bindE_Inr_iff)
  next
    case False
    with Cons show ?thesis
      by (cases y) (auto split: option.splits sum.splits)
  qed
qed simp

subsection \<open>Properties\<close>

text \<open>
  Nothing but the load happens while it is awaited: data, promises and decoded accounts may change,
  the registrations of the loader and the bookkeeping of the subscriber do not.
\<close>

definition onlyLoads :: "('a PollingCH \<times> Loader \<Rightarrow> 'a PollingCH \<times> Loader) \<Rightarrow> bool" where
  "onlyLoads duringLoad \<longleftrightarrow>
     (\<forall>s l. case duringLoad (s, l) of (s', l') \<Rightarrow>
        registrations l' = registrations l \<and> errorCallbacks l' = errorCallbacks l \<and>
        accountsToPoll s' = accountsToPoll s \<and> errorCallbackId s' = errorCallbackId s \<and>
        optionalExtraSubscriptions s' = optionalExtraSubscriptions s)"

text \<open>What a successful call of \<open>subscribe\<close> went through.\<close>

lemma subscribe_success:
  assumes "\<not> isSubscribed s" "accountsToPoll s = []" "onlyLoads duringLoad"
    and "subscribe decode cb ecb uuids duringLoad sk fetched opts s l = (s', l', Subscribed r)"
  obtains st s1 as l1 vals vals' where "fetched = Inr st"
    and "updateAccountsToPoll sk (Inr st) (s\<lparr>optionalExtraSubscriptions := opts, isSubscribing := True\<rparr>) = (s1, None)"
    and "registerAccounts cb uuids 0 (accountsToPoll s1) l = (as, l1)"
    and "registrations l' = registrations l1"
    and "errorCallbacks l' = AList.update (uuids (length (accountsToPoll s1))) ecb (errorCallbacks l1)"
    and "accountsToPoll s' = as" "errorCallbackId s' = Some (uuids (length (accountsToPoll s1)))"
    and "optionalExtraSubscriptions s' = opts" "isSubscribed s'"
    and "decodeAccounts decode l' as vals = (vals', None)" "accounts s' = vals'"
proof -
  let ?s0 = "s\<lparr>optionalExtraSubscriptions := opts, isSubscribing := True\<rparr>"
  from assms(1,4) obtain s1 where s1: "updateAccountsToPoll sk fetched ?s0 = (s1, None)"
    by (auto simp: subscribe_def Let_def split: if_splits prod.splits option.splits)
  with assms(2) obtain st where st: "fetched = Inr st"
    by (cases fetched) (auto simp: updateAccountsToPoll_def)
  have opts: "optionalExtraSubscriptions s1 = opts"
    using s1 st assms(2) by (auto simp: updateAccountsToPoll_def Let_def)
  obtain as l1 where as: "registerAccounts cb uuids 0 (accountsToPoll s1) l = (as, l1)" by fastforce
  let ?id = "uuids (length (accountsToPoll s1))"
  let ?s2 = "s1\<lparr>accountsToPoll := as, errorCallbackId := Some ?id\<rparr>"
  let ?l2 = "addErrorCallbacks ?id ecb l1"
  obtain s3 l3 where d: "duringLoad (?s2, ?l2) = (s3, l3)" by fastforce
  with assms(3) have keep: "registrations l3 = registrations ?l2 \<and> errorCallbacks l3 = errorCallbacks ?l2 \<and>
      accountsToPoll s3 = as \<and> errorCallbackId s3 = Some ?id \<and> optionalExtraSubscriptions s3 = opts"
    unfolding onlyLoads_def using opts by (force split: prod.splits)
  obtain vals' e where v: "decodeAccounts decode l3 as (accounts s3) = (vals', e)" by fastforce
  have result: "(s', l', Subscribed r) =
      (case (s3\<lparr>accounts := vals'\<rparr>, l3, e) of
         (t, l, Some e) \<Rightarrow> (t, l, Throws e)
       | (t, l, None) \<Rightarrow> (t\<lparr>emitted := emitted t @ [''update''], isSubscribing := False,
                            isSubscribed := True\<rparr>, l, Subscribed True))"
    using assms(1,4) s1 as d v keep
    by (simp add: subscribe_def addToAccountLoader_def fetchPolling_def Let_def split: if_splits)
  show ?thesis
    using result keep v as s1 st
    by (intro that [of st s1 as l1 "accounts s3" vals'])
      (auto simp: addErrorCallbacks_def registrations_def split: option.splits)
qed

text \<open>
  C21: subscribing and unsubscribing leaves the loader as it was: when nothing else happens while
  the load is awaited and the identifiers are new, the callbacks of every account and the error
  callbacks are the ones from before.
\<close>

theorem unsubscribe_restores_loader:
  fixes s :: "'a PollingCH"
  assumes "registeredOk l" "\<not> isSubscribed s" "accountsToPoll s = []" "onlyLoads duringLoad"
    and "\<forall>n k. uuids n \<notin> fst ` set (accountCallbacks l k)" "\<forall>n. uuids n \<notin> fst ` set (errorCallbacks l)"
    and "subscribe decode cb ecb uuids duringLoad sk fetched opts s l = (s1, l1, Subscribed r)"
    and "unsubscribe s1 l1 = (s2, l2)"
  shows "accountCallbacks l2 = accountCallbacks l \<and> errorCallbacks l2 = errorCallbacks l \<and>
         \<not> isSubscribed s2 \<and> accountsToPoll s2 = []"
  using assms(2,3,4,7)
proof (rule subscribe_success)
  fix st as lr vals vals' and t :: "'a PollingCH"
  let ?id = "uuids (length (accountsToPoll t))"
  assume st: "updateAccountsToPoll sk (Inr st) (s\<lparr>optionalExtraSubscriptions := opts, isSubscribing := True\<rparr>) = (t, None)"
    and as: "registerAccounts cb uuids 0 (accountsToPoll t) l = (as, lr)"
    and l1: "registrations l1 = registrations lr" "errorCallbacks l1 = AList.update ?id ecb (errorCallbacks lr)"
    and s1: "accountsToPoll s1 = as" "errorCallbackId s1 = Some ?id" "isSubscribed s1"
  have "pollMapOk [''liquidationHistory'', ''extendedCurveHistory'', ''fundingRateHistory'',
      ''fundingPaymentHistory'', ''depositHistory'', ''tradeHistory'', ''markets'', ''state''] (accountsToPoll t)"
    using updateAccountsToPoll_ok [OF _ st] assms(3) by simp
  then have eq: "map (pollPublicKey \<circ> snd) (accountsToPoll t) = map fst (accountsToPoll t)"
    and d: "distinct (map fst (accountsToPoll t))"
    by (auto simp: pollMapOk_def)
  have restored: "accountCallbacks (unregisterAccounts as l1) = accountCallbacks l"
    by (rule register_unregister [OF assms(1) _ assms(5) as l1(1)]) (use d in \<open>simp only: eq\<close>)
  have errors: "errorCallbacks (addAccount i k c x) = errorCallbacks x"
    "errorCallbacks (removeAccount k i x) = errorCallbacks x" for i k c x
    by (simp_all add: addAccount_def removeAccount_def startPolling_def stopPolling_def Let_def
        split: option.split)
  have "errorCallbacks (fold (\<lambda>(i, k, c). addAccount i k c) rs x) = errorCallbacks x" for rs x
    by (induction rs arbitrary: x) (auto simp: errors)
  then have lr: "errorCallbacks lr = errorCallbacks l"
    using registerAccounts_loader [of cb uuids 0 "accountsToPoll t" l] as by simp
  have "errorCallbacks (unregisterAccounts xs x) = errorCallbacks x" for xs x
    unfolding unregisterAccounts_def
    by (induction xs arbitrary: x) (auto simp: errors split: option.split)
  with assms(6,8) s1 l1 lr restored show ?thesis
    by (auto simp: unsubscribe_def removeErrorCallbacks_def accountCallbacks_def delete_update_same fun_eq_iff)
qed

text \<open>A coder that decodes to the length of the buffer, and identifiers that nobody else has.\<close>

definition lengthDecoder :: "nat Decoder" where
  "lengthDecoder name b = Inr (length b)"

definition sampleIds :: "nat \<Rightarrow> string" where
  "sampleIds n = replicate (Suc n) CHR ''x''"

definition sampleSubscribe ::
  "ClearingHouseAccountTypes list option \<Rightarrow> Loader \<Rightarrow> nat PollingCH \<times> Loader \<times> SubscribeOutcome" where
  "sampleSubscribe opts l =
     subscribe lengthDecoder (\<lambda>_. 1) 2 sampleIds id ''stateKey'' (Inr sample_state) opts newPollingCH l"

lemma onlyLoads_id: "onlyLoads id"
  by (simp add: onlyLoads_def)

lemma decodeAccounts_total: "snd (decodeAccounts lengthDecoder l as vals) = None"
  if "\<forall>(k, a) \<in> set as. pollKey a \<noteq> []"
  using that
proof (induction as arbitrary: vals)
  case (Cons x as)
  obtain k a where x: "x = (k, a)" by (cases x)
  with Cons.prems obtain name where "capitalize (pollKey a) = Inr name"
    by (cases "pollKey a") auto
  with Cons x show ?case by (simp add: lengthDecoder_def split: option.split)
qed simp

lemma sampleSubscribe_succeeds:
  "\<exists>s l'. sampleSubscribe None l = (s, l', Subscribed True) \<and> accountData l' = accountData l"
proof -
  obtain as l1 where r: "registerAccounts (\<lambda>_. 1) sampleIds 0
      [(''stateKey'', accountToPoll ''state'' ''stateKey'' ''stateAccountUpdate''),
       (''markets'', accountToPoll ''markets'' ''markets'' ''marketsAccountUpdate'')] l = (as, l1)"
    by fastforce
  then have "\<forall>(k, a) \<in> set as. pollKey a \<noteq> []" "accountData l1 = accountData l"
    by (auto simp: accountToPoll_def Let_def)
  moreover from this(1) decodeAccounts_total [of as "addErrorCallbacks (sampleIds 2) 2 l1" "[]"]
  obtain vals where "decodeAccounts lengthDecoder (addErrorCallbacks (sampleIds 2) 2 l1) as [] = (vals, None)"
    by (cases "decodeAccounts lengthDecoder (addErrorCallbacks (sampleIds 2) 2 l1) as []") auto
  moreover have "accountData (addErrorCallbacks i c l1) = accountData l1" for i c
    by (simp add: addErrorCallbacks_def)
  ultimately show ?thesis using r
    by (simp add: sampleSubscribe_def subscribe_def newPollingCH_def updateAccountsToPoll_def
        addToAccountLoader_def fetchPolling_def setIf_def wants_def sample_state_def Let_def
        numeral_2_eq_2)
qed

lemma sampleIds_fresh:
  "\<forall>n k. sampleIds n \<notin> fst ` set (accountCallbacks (loader one_account) k)"
  "\<forall>n. sampleIds n \<notin> fst ` set (errorCallbacks (loader one_account))"
  by (auto simp: accountCallbacks_def one_account_def addAccount_def newLoader_def startPolling_def
      sampleIds_def)

theorem unsubscribe_restores_loader_witness:
  "\<exists>s1 l1. sampleSubscribe None (loader one_account) = (s1, l1, Subscribed True) \<and>
     accountCallbacks (snd (unsubscribe s1 l1)) = accountCallbacks (loader one_account)"
proof -
  obtain s1 l1 where sub: "sampleSubscribe None (loader one_account) = (s1, l1, Subscribed True)"
    using sampleSubscribe_succeeds by blast
  have ok: "registeredOk (loader one_account)"
    by (simp add: one_account_def addAccount_registeredOk newLoader_registeredOk)
  obtain s2 l2 where un: "unsubscribe s1 l1 = (s2, l2)" by fastforce
  have "accountCallbacks l2 = accountCallbacks (loader one_account)"
    using unsubscribe_restores_loader [OF ok _ _ onlyLoads_id sampleIds_fresh
        sub [unfolded sampleSubscribe_def] un]
    by (simp add: newPollingCH_def)
  with sub un show ?thesis by simp
qed

lemma capitalize_markets: "capitalize ''markets'' = Inr ''Markets''"
  by code_simp

text \<open>
  After subscribing, the markets account a caller reads is the decoding of the data the loader
  has for the account the state names, for every choice of optional accounts.
\<close>

theorem subscribed_markets_account:
  fixes s :: "'a PollingCH"
  assumes "\<not> isSubscribed s" "accountsToPoll s = []" "onlyLoads duringLoad"
    and "subscribe decode cb ecb uuids duringLoad sk (Inr st) opts s l = (s', l', Subscribed r)"
    and "StateAccount.markets st \<notin> {tradeHistory st, depositHistory st, fundingPaymentHistory st,
           fundingRateHistory st, extendedCurveHistory st, liquidationHistory st}"
    and "getAccountData (StateAccount.markets st) l' = Some b"
  shows "\<exists>x. decode ''Markets'' b = Inr x \<and> getMarketsAccount s' = Inr (Some x)"
  using assms(1-4)
proof (rule subscribe_success)
  fix st' as lr vals vals' and t :: "'a PollingCH"
  let ?s0 = "s\<lparr>optionalExtraSubscriptions := opts, isSubscribing := True\<rparr>"
  let ?e = "\<lambda>(k, a). (k, pollKey a, pollPublicKey a)"
  let ?pk = "StateAccount.markets st"
  assume "Inr st = (Inr st' :: StateAccount result)"
    and t': "updateAccountsToPoll sk (Inr st') ?s0 = (t, None)"
    and as: "registerAccounts cb uuids 0 (accountsToPoll t) l = (as, lr)"
    and s': "isSubscribed s'" "accounts s' = vals'" "decodeAccounts decode l' as vals = (vals', None)"
  then have t: "updateAccountsToPoll sk (Inr st) ?s0 = (t, None)" by simp
  have es: "map ?e as = map ?e (accountsToPoll t)"
    using registerAccounts_entries [of cb uuids 0 "accountsToPoll t" l] as by simp
  have "map_of (accountsToPoll t) ?pk = Some (accountToPoll ''markets'' ?pk ''marketsAccountUpdate'')"
    by (rule updateAccountsToPoll_markets [OF _ t assms(5)]) (use assms(2) in simp)
  then have "(?pk, ''markets'', ?pk) \<in> set (map ?e (accountsToPoll t))"
    by (force simp: accountToPoll_def dest: map_of_SomeD)
  then obtain a where a: "(?pk, a) \<in> set as" "pollKey a = ''markets''" "pollPublicKey a = ?pk"
    unfolding es [symmetric] by auto
  have "map (pollKey \<circ> snd) as = map (fst \<circ> snd) (map ?e as)" by auto
  also have "\<dots> = map (pollKey \<circ> snd) (accountsToPoll t)" unfolding es by auto
  finally have "distinct (map (pollKey \<circ> snd) as)"
    using updateAccountsToPoll_ok [OF _ t] assms(2) by (simp add: pollMapOk_def)
  from decodeAccounts_value [OF s'(3) this a(1)] a assms(6) s' show ?thesis
    by (auto simp: getMarketsAccount_def assertIsSubscribed_def capitalize_markets simp del: capitalize.simps)
qed

text \<open>A loader that already has data for the markets account of the sample state.\<close>

definition marketsLoader :: Loader where
  "marketsLoader = newLoader\<lparr>accountData := [(''markets'', \<lparr>slot = 5, buffer = Some [1, 2, 3]\<rparr>)]\<rparr>"

theorem subscribed_markets_account_witness:
  "\<exists>s l. sampleSubscribe None marketsLoader = (s, l, Subscribed True) \<and>
     getMarketsAccount s = Inr (Some 3)"
proof -
  obtain s l where sub: "sampleSubscribe None marketsLoader = (s, l, Subscribed True)"
    and "accountData l = accountData marketsLoader"
    using sampleSubscribe_succeeds by blast
  then have "getAccountData (StateAccount.markets sample_state) l = Some [1, 2, 3]"
    by (simp add: getAccountData_def marketsLoader_def sample_state_def)
  from subscribed_markets_account [OF _ _ onlyLoads_id sub [unfolded sampleSubscribe_def] _ this] sub
  show ?thesis by (simp add: newPollingCH_def sample_state_def lengthDecoder_def)
qed

text \<open>
  A subscription without optional accounts succeeds, and reading the trade history afterwards
  throws a \<open>TypeError\<close>, where the interface and the other subscriber have \<open>NotSubscribedError\<close>.
\<close>

theorem trade_history_without_options:
  assumes "\<not> isSubscribed s" "accountsToPoll s = []" "onlyLoads duringLoad"
    and "subscribe decode cb ecb uuids duringLoad sk fetched None s l = (s', l', Subscribed r)"
  shows "getTradeHistoryAccount s' = Inl TypeError"
  using assms
  by (rule subscribe_success)
    (simp add: getTradeHistoryAccount_def getOptional_def assertIsSubscribed_def
      assertOptionalIsSubscribed_def)

theorem trade_history_without_options_witness:
  "\<exists>s l. sampleSubscribe None newLoader = (s, l, Subscribed True) \<and> getTradeHistoryAccount s = Inl TypeError"
proof -
  obtain s l where sub: "sampleSubscribe None newLoader = (s, l, Subscribed True)"
    using sampleSubscribe_succeeds by blast
  from trade_history_without_options [OF _ _ onlyLoads_id sub [unfolded sampleSubscribe_def]] sub
  show ?thesis by (simp add: newPollingCH_def)
qed

text \<open>
  A failed subscription cannot be retried: when fetching the state account throws, the flag
  \<open>isSubscribing\<close> stays set, and every later call of \<open>subscribe\<close>, whatever its arguments and the
  state of the network, waits for the promise of the failed call and changes nothing.
\<close>

theorem failed_subscribe_blocks:
  assumes "\<not> isSubscribed s" "\<not> isSubscribing s" "accountsToPoll s = []"
    and "subscribe decode cb ecb uuids duringLoad sk (Inl e) opts s l = (s', l', out)"
  shows "out = Throws e \<and> l' = l \<and>
         subscribe decode' cb' ecb' uuids' duringLoad' sk' fetched' opts' s' l'' = (s', l'', AwaitsPromise)"
  using assms by (auto simp: subscribe_def updateAccountsToPoll_def Let_def)

theorem failed_subscribe_blocks_witness:
  "subscribe lengthDecoder (\<lambda>_. 1) 2 sampleIds id ''stateKey'' (Inr sample_state) None
     (fst (subscribe lengthDecoder (\<lambda>_. 1) 2 sampleIds id ''stateKey'' (Inl TypeError) None newPollingCH newLoader))
     newLoader
   = (newPollingCH\<lparr>optionalExtraSubscriptions := None, isSubscribing := True\<rparr>, newLoader, AwaitsPromise)"
proof -
  let ?s = "newPollingCH\<lparr>optionalExtraSubscriptions := None, isSubscribing := True\<rparr>"
  have f: "subscribe lengthDecoder (\<lambda>_. 1) 2 sampleIds id ''stateKey'' (Inl TypeError) None newPollingCH newLoader
      = (?s, newLoader, Throws TypeError)"
    by (simp add: subscribe_def updateAccountsToPoll_def newPollingCH_def Let_def)
  from failed_subscribe_blocks [OF _ _ _ f] f show ?thesis by (simp add: newPollingCH_def)
qed

end
