(* ===== verification/WebSocketClearingHouse.thy ===== *)
theory WebSocketClearingHouse
  imports PollingClearingHouse
begin

section \<open>WebSocketClearingHouseAccountSubscriber and WebSocketUserAccountSubscriber\<close>

text \<open>
  \<open>sdk/src/accounts/webSocketClearingHouseAccountSubscriber.ts\<close> and
  \<open>sdk/src/accounts/webSocketUserAccountSubscriber.ts\<close>: one \<open>WebSocketAccountSubscriber\<close> per account.
  The fields that hold them are the map \<open>subscribers\<close>, under the name of the field without the
  suffix \<open>Subscriber\<close>.

  Parameters: the coder \<open>decode\<close>, the view \<open>asState\<close> of a decoded state account, the response \<open>rpc\<close>
  of the node to the request for an account, and the number \<open>ids\<close> of the listener the connection
  registers for a field. \<open>ws_emitted\<close> records the events.
\<close>

record 'a WsSubscribers =
  ws_isSubscribed :: bool
  subscribers :: "(string \<times> 'a AccountSubscriber) list"
  ws_optional :: "ClearingHouseAccountTypes list"
  ws_isSubscribing :: bool
  ws_emitted :: "string list"

definition newWsSubscribers :: "'a WsSubscribers" where
  "newWsSubscribers = \<lparr>
     ws_isSubscribed = False, subscribers = [], ws_optional = [], ws_isSubscribing = False,
     ws_emitted = []\<rparr>"

subsection \<open>One account\<close>

text \<open>\<open>this.<name>Subscriber = new WebSocketAccountSubscriber(accountName, program, key)\<close>.\<close>

definition createSubscriber :: "string \<Rightarrow> string \<Rightarrow> PublicKey \<Rightarrow> 'a WsSubscribers \<Rightarrow> 'a WsSubscribers" where
  "createSubscriber name accName pk s =
     s\<lparr>subscribers := AList.update name (newSubscriber accName pk) (subscribers s)\<rparr>"

text \<open>
  \<open>this.<name>Subscriber.subscribe(data => ...)\<close>, where the listener emits the event of the account
  and \<open>update\<close> for every change it is told.
\<close>

definition subscribeField ::
  "'a Decoder \<Rightarrow> (PublicKey \<Rightarrow> (nat \<times> Buffer option) result) \<Rightarrow> (string \<Rightarrow> nat) \<Rightarrow> string \<times> string \<Rightarrow>
     'a WsSubscribers \<Rightarrow> 'a WsSubscribers \<times> js_error option" where
  "subscribeField decode rpc ids = (\<lambda>(name, event) s.
     case map_of (subscribers s) name of
       None \<Rightarrow> (s, Some TypeError)
     | Some sub \<Rightarrow>
         (case subscribeAccount decode (rpc (accountPublicKey sub)) (ids name) sub of (sub', r) \<Rightarrow>
            (s\<lparr>subscribers := AList.update name sub' (subscribers s),
               ws_emitted := ws_emitted s
                 @ concat (map (\<lambda>_. [event, ''update'']) (drop (length (changes sub)) (changes sub')))\<rparr>,
             r)))"

definition fetchField ::
  "'a Decoder \<Rightarrow> (PublicKey \<Rightarrow> (nat \<times> Buffer option) result) \<Rightarrow> string \<Rightarrow> 'a WsSubscribers \<Rightarrow>
     'a WsSubscribers \<times> js_error option" where
  "fetchField decode rpc name s =
     (case map_of (subscribers s) name of
        None \<Rightarrow> (s, Some TypeError)
      | Some sub \<Rightarrow>
          (case fetchAccount decode (rpc (accountPublicKey sub)) sub of (sub', r) \<Rightarrow>
             (s\<lparr>subscribers := AList.update name sub' (subscribers s)\<rparr>, r)))"

definition unsubscribeField :: "string \<Rightarrow> 'a WsSubscribers \<Rightarrow> 'a WsSubscribers" where
  "unsubscribeField name s =
     (case map_of (subscribers s) name of
        None \<Rightarrow> s
      | Some sub \<Rightarrow> s\<lparr>subscribers := AList.update name (unsubscribeAccount sub) (subscribers s)\<rparr>)"

text \<open>\<open>Promise.all\<close>: every call runs, the first error is the result.\<close>

fun allOf ::
  "('x \<Rightarrow> 's \<Rightarrow> 's \<times> js_error option) \<Rightarrow> 'x list \<Rightarrow> 's \<Rightarrow> 's \<times> js_error option" where
  "allOf f [] s = (s, None)"
| "allOf f (x # xs) s =
     (case f x s of (s1, r1) \<Rightarrow>
        (case allOf f xs s1 of (s2, r2) \<Rightarrow> (s2, case r1 of None \<Rightarrow> r2 | Some e \<Rightarrow> Some e)))"

subsection \<open>The clearing house\<close>

definition extraSubscribers :: "ClearingHouseAccountTypes list option \<Rightarrow> (string \<times> string) list" where
  "extraSubscribers opts =
     (if wants opts TradeHistoryAccount then [(''tradeHistoryAccount'', ''tradeHistoryAccountUpdate'')] else [])
   @ (if wants opts DepositHistoryAccount then [(''depositHistoryAccount'', ''depositHistoryAccountUpdate'')] else [])
   @ (if wants opts FundingPaymentHistoryAccount
      then [(''fundingPaymentHistoryAccount'', ''fundingPaymentHistoryAccountUpdate'')] else [])
   @ (if wants opts FundingRateHistoryAccount
      then [(''fundingRateHistoryAccount'', ''fundingRateHistoryAccountUpdate'')] else [])
   @ (if wants opts LiquidationHistoryAccount
      then [(''liquidationHistoryAccount'', ''liquidationHistoryAccountUpdate'')] else [])
   @ (if wants opts CurveHistoryAccount then [(''curveHistoryAccount'', ''curveHistoryAccountUpdate'')] else [])"

text \<open>The subscribers of the history accounts are created whether they are wanted or not.\<close>

definition createHistorySubscribers :: "StateAccount \<Rightarrow> 'a WsSubscribers \<Rightarrow> 'a WsSubscribers" where
  "createHistorySubscribers st s =
     createSubscriber ''curveHistoryAccount'' ''extendedCurveHistory'' (extendedCurveHistory st)
    (createSubscriber ''liquidationHistoryAccount'' ''liquidationHistory'' (liquidationHistory st)
    (createSubscriber ''fundingRateHistoryAccount'' ''fundingRateHistory'' (fundingRateHistory st)
    (createSubscriber ''fundingPaymentHistoryAccount'' ''fundingPaymentHistory'' (fundingPaymentHistory st)
    (createSubscriber ''depositHistoryAccount'' ''depositHistory'' (depositHistory st)
    (createSubscriber ''tradeHistoryAccount'' ''tradeHistory'' (tradeHistory st) s)))))"

definition fieldData :: "string \<Rightarrow> 'a WsSubscribers \<Rightarrow> 'a option result" where
  "fieldData name s = mapE subscriber_data (deref (map_of (subscribers s) name))"

definition wsSubscribe ::
  "'a Decoder \<Rightarrow> ('a \<Rightarrow> StateAccount) \<Rightarrow> (PublicKey \<Rightarrow> (nat \<times> Buffer option) result) \<Rightarrow> (string \<Rightarrow> nat) \<Rightarrow>
     PublicKey result \<Rightarrow> ClearingHouseAccountTypes list option \<Rightarrow> 'a WsSubscribers \<Rightarrow>
     'a WsSubscribers \<times> SubscribeOutcome" where
  "wsSubscribe decode asState rpc ids stateKey opts s =
     (if ws_isSubscribed s then (s, Subscribed True)
      else if ws_isSubscribing s then (s, AwaitsPromise)
      else
        let s0 = s\<lparr>ws_isSubscribing := True\<rparr> in
        case stateKey of
          Inl e \<Rightarrow> (s0, Throws e)
        | Inr statePublicKey \<Rightarrow>
            (case subscribeField decode rpc ids (''stateAccount'', ''stateAccountUpdate'')
                    (createSubscriber ''stateAccount'' ''state'' statePublicKey s0) of
               (s1, Some e) \<Rightarrow> (s1, Throws e)
             | (s1, None) \<Rightarrow>
                 (case fieldData ''stateAccount'' s1 of
                    Inl e \<Rightarrow> (s1, Throws e)
                  | Inr None \<Rightarrow> (s1, Throws TypeError)
                  | Inr (Some a) \<Rightarrow>
                      let st = asState a in
                      (case subscribeField decode rpc ids (''marketsAccount'', ''marketsAccountUpdate'')
                              (createSubscriber ''marketsAccount'' ''markets'' (StateAccount.markets st) s1) of
                         (s2, Some e) \<Rightarrow> (s2, Throws e)
                       | (s2, None) \<Rightarrow>
                           let s3 = (createHistorySubscribers st s2)\<lparr>ws_optional :=
                                      (case opts of None \<Rightarrow> [] | Some ts \<Rightarrow> ts)\<rparr> in
                           (case allOf (subscribeField decode rpc ids) (extraSubscribers opts) s3 of
                              (s4, Some e) \<Rightarrow> (s4, Throws e)
                            | (s4, None) \<Rightarrow>
                                (s4\<lparr>ws_emitted := ws_emitted s4 @ [''update''], ws_isSubscribing := False,
                                    ws_isSubscribed := True\<rparr>, Subscribed True))))))"

definition wsFetch ::
  "'a Decoder \<Rightarrow> (PublicKey \<Rightarrow> (nat \<times> Buffer option) result) \<Rightarrow> 'a WsSubscribers \<Rightarrow>
     'a WsSubscribers \<times> js_error option" where
  "wsFetch decode rpc s =
     (if \<not> ws_isSubscribed s then (s, None)
      else allOf (fetchField decode rpc)
             (map typeName (ws_optional s) @ [''stateAccount'', ''marketsAccount'']) s)"

definition unsubscribeIf :: "ClearingHouseAccountTypes \<Rightarrow> 'a WsSubscribers \<Rightarrow> 'a WsSubscribers" where
  "unsubscribeIf t s = (if t \<in> set (ws_optional s) then unsubscribeField (typeName t) s else s)"

definition wsUnsubscribe :: "'a WsSubscribers \<Rightarrow> 'a WsSubscribers" where
  "wsUnsubscribe s =
     (if \<not> ws_isSubscribed s then s
      else
        (unsubscribeIf LiquidationHistoryAccount
        (unsubscribeIf CurveHistoryAccount
        (unsubscribeIf DepositHistoryAccount
        (unsubscribeIf FundingPaymentHistoryAccount
        (unsubscribeIf FundingRateHistoryAccount
        (unsubscribeIf TradeHistoryAccount
        (unsubscribeField ''marketsAccount''
        (unsubscribeField ''stateAccount'' s))))))))\<lparr>ws_isSubscribed := False\<rparr>)"

definition wsAssertIsSubscribed :: "'a WsSubscribers \<Rightarrow> unit result" where
  "wsAssertIsSubscribed s = (if \<not> ws_isSubscribed s then Inl notSubscribed else Inr ())"

definition wsAssertOptionalIsSubscribed ::
  "ClearingHouseAccountTypes \<Rightarrow> 'a WsSubscribers \<Rightarrow> unit result" where
  "wsAssertOptionalIsSubscribed t s =
     (if \<not> ws_isSubscribed s then Inl notSubscribed
      else if t \<notin> set (ws_optional s)
      then Inl (NotSubscribedError
             (''You need to subscribe to the optional Clearing House account '' @ [CHR 0x22]
                @ typeName t @ [CHR 0x22] @ '' to use this method''))
      else Inr ())"

definition wsGetStateAccount :: "'a WsSubscribers \<Rightarrow> 'a option result" where
  "wsGetStateAccount s = bindE (wsAssertIsSubscribed s) (\<lambda>_. fieldData ''stateAccount'' s)"

definition wsGetMarketsAccount :: "'a WsSubscribers \<Rightarrow> 'a option result" where
  "wsGetMarketsAccount s = bindE (wsAssertIsSubscribed s) (\<lambda>_. fieldData ''marketsAccount'' s)"

text \<open>The six getters of the history accounts; each reads the field named after its type.\<close>

definition wsGetHistoryAccount :: "ClearingHouseAccountTypes \<Rightarrow> 'a WsSubscribers \<Rightarrow> 'a option result" where
  "wsGetHistoryAccount t s =
     bindE (wsAssertIsSubscribed s) (\<lambda>_.
       bindE (wsAssertOptionalIsSubscribed t s) (\<lambda>_. fieldData (typeName t) s))"

subsection \<open>The user\<close>

definition wsUserSubscribe ::
  "'a Decoder \<Rightarrow> ('a \<Rightarrow> UserAccount) \<Rightarrow> (PublicKey \<Rightarrow> (nat \<times> Buffer option) result) \<Rightarrow> (string \<Rightarrow> nat) \<Rightarrow>
     PublicKey result \<Rightarrow> 'a WsSubscribers \<Rightarrow> 'a WsSubscribers \<times> bool result" where
  "wsUserSubscribe decode asUser rpc ids userKey s =
     (if ws_isSubscribed s then (s, Inr True)
      else
        case userKey of
          Inl e \<Rightarrow> (s, Inl e)
        | Inr userPublicKey \<Rightarrow>
            (case subscribeField decode rpc ids (''userDataAccount'', ''userAccountData'')
                    (createSubscriber ''userDataAccount'' ''user'' userPublicKey s) of
               (s1, Some e) \<Rightarrow> (s1, Inl e)
             | (s1, None) \<Rightarrow>
                 (case fieldData ''userDataAccount'' s1 of
                    Inl e \<Rightarrow> (s1, Inl e)
                  | Inr None \<Rightarrow> (s1, Inl TypeError)
                  | Inr (Some a) \<Rightarrow>
                      (case subscribeField decode rpc ids (''userPositionsAccount'', ''userPositionsData'')
                              (createSubscriber ''userPositionsAccount'' ''userPositions''
                                 (UserAccount.positions (asUser a)) s1) of
                         (s2, Some e) \<Rightarrow> (s2, Inl e)
                       | (s2, None) \<Rightarrow>
                           (s2\<lparr>ws_emitted := ws_emitted s2 @ [''update''], ws_isSubscribed := True\<rparr>,
                            Inr True)))))"

definition wsUserFetch ::
  "'a Decoder \<Rightarrow> (PublicKey \<Rightarrow> (nat \<times> Buffer option) result) \<Rightarrow> 'a WsSubscribers \<Rightarrow>
     'a WsSubscribers \<times> js_error option" where
  "wsUserFetch decode rpc s = allOf (fetchField decode rpc) [''userDataAccount'', ''userPositionsAccount''] s"

definition wsUserUnsubscribe :: "'a WsSubscribers \<Rightarrow> 'a WsSubscribers" where
  "wsUserUnsubscribe s =
     (if \<not> ws_isSubscribed s then s
      else (unsubscribeField ''userPositionsAccount''
             (unsubscribeField ''userDataAccount'' s))\<lparr>ws_isSubscribed := False\<rparr>)"

definition wsGetUserAccount :: "'a WsSubscribers \<Rightarrow> 'a option result" where
  "wsGetUserAccount s = bindE (wsAssertIsSubscribed s) (\<lambda>_. fieldData ''userDataAccount'' s)"

definition wsGetUserPositionsAccount :: "'a WsSubscribers \<Rightarrow> 'a option result" where
  "wsGetUserPositionsAccount s = bindE (wsAssertIsSubscribed s) (\<lambda>_. fieldData ''userPositionsAccount'' s)"

subsection \<open>The listeners\<close>

text \<open>The listener number and the registered listeners of a field.\<close>

definition listening :: "'a WsSubscribers \<Rightarrow> string \<Rightarrow> (nat option \<times> nat list) option" where
  "listening s name = map_option (\<lambda>sub. (listenerId sub, listeners sub)) (map_of (subscribers s) name)"

lemma listening_cong [simp]:
  "listening (s\<lparr>ws_isSubscribed := b\<rparr>) = listening s"
  "listening (s\<lparr>ws_isSubscribing := b\<rparr>) = listening s"
  "listening (s\<lparr>ws_optional := ts\<rparr>) = listening s"
  "listening (s\<lparr>ws_emitted := es\<rparr>) = listening s"
  by (simp_all add: listening_def fun_eq_iff)

lemma listening_create [simp]:
  "listening (createSubscriber name accName pk s) = (listening s)(name \<mapsto> (None, []))"
  by (auto simp: listening_def createSubscriber_def newSubscriber_def update_conv')

lemma fetchAccount_listeners:
  "listenerId (fst (fetchAccount decode r sub)) = listenerId sub \<and>
   listeners (fst (fetchAccount decode r sub)) = listeners sub"
  by (auto simp: fetchAccount_def handleRpcResponse_def decodeAndReport_def Let_def
      split: sum.split option.split)

lemma subscribeAccount_listeners:
  assumes "subscribeAccount decode r n sub = (sub', None)" "listenerId sub = None" "listeners sub = []"
  shows "listenerId sub' = Some n \<and> listeners sub' = [n]"
  using assms fetchAccount_listeners [of decode r sub]
  by (auto simp: subscribeAccount_def hasListener_def split: prod.splits option.splits)

lemma listening_subscribe:
  assumes "subscribeField decode rpc ids (name, event) s = (s', None)" "listening s name = Some (None, [])"
  shows "listening s' = (listening s)(name \<mapsto> (Some (ids name), [ids name]))"
  using assms subscribeAccount_listeners [of decode _ "ids name"]
  by (auto simp: subscribeField_def listening_def update_conv' fun_eq_iff
      split: option.splits prod.splits)

lemma listening_all:
  assumes "allOf (subscribeField decode rpc ids) xs s = (s', None)" "distinct (map fst xs)"
    and "\<forall>x \<in> set xs. listening s (fst x) = Some (None, [])"
  shows "listening s' name =
     (if name \<in> fst ` set xs then Some (Some (ids name), [ids name]) else listening s name)"
  using assms
proof (induction xs arbitrary: s)
  case (Cons x xs)
  obtain n e where x: "x = (n, e)" by (cases x)
  from Cons.prems(1) x obtain s1 where s1: "subscribeField decode rpc ids (n, e) s = (s1, None)"
    and rest: "allOf (subscribeField decode rpc ids) xs s1 = (s', None)"
    by (auto split: prod.splits option.splits)
  have l: "listening s1 = (listening s)(n \<mapsto> (Some (ids n), [ids n]))"
    using listening_subscribe [OF s1] Cons.prems(3) x by simp
  have "n \<notin> fst ` set xs" using Cons.prems(2) x by simp
  moreover have "\<forall>y \<in> set xs. listening s1 (fst y) = Some (None, [])"
    using Cons.prems(2,3) x l by (auto simp: image_iff)
  ultimately show ?case using Cons.IH [OF rest] Cons.prems(2) x l by auto
qed simp

definition unlisten :: "nat option \<times> nat list \<Rightarrow> nat option \<times> nat list" where
  "unlisten = (\<lambda>(i, ls). case i of None \<Rightarrow> (i, ls) | Some n \<Rightarrow> if n = 0 then (i, ls) else (None, removeAll n ls))"

lemma listening_unsubscribe [simp]:
  "listening (unsubscribeField name s) n = (if n = name then map_option unlisten (listening s n) else listening s n)"
  by (auto simp: unsubscribeField_def listening_def update_conv' unsubscribeAccount_def hasListener_def
      unlisten_def split: option.split)

lemma unsubscribeField_optional [simp]: "ws_optional (unsubscribeField name s) = ws_optional s"
  by (simp add: unsubscribeField_def split: option.split)

lemma unsubscribeIf_optional [simp]: "ws_optional (unsubscribeIf t s) = ws_optional s"
  by (simp add: unsubscribeIf_def)

lemma listening_unsubscribeIf [simp]:
  "listening (unsubscribeIf t s) n =
     (if t \<in> set (ws_optional s) \<and> n = typeName t then map_option unlisten (listening s n) else listening s n)"
  by (simp add: unsubscribeIf_def)

lemma typeName_inj [simp]: "typeName t = typeName t' \<longleftrightarrow> t = t'"
  by (cases t; cases t') auto

lemma typeName_base [simp]: "typeName t \<noteq> ''stateAccount''" "typeName t \<noteq> ''marketsAccount''"
  by (cases t; simp)+

lemma fst_concat_if:
  "fst ` set (concat (map (\<lambda>t. if P t then [(f t, g t)] else []) ts)) = f ` {t \<in> set ts. P t}"
  by (induction ts) auto

lemma extraSubscribers_names: "fst ` set (extraSubscribers opts) = typeName ` {t. wants opts t}"
proof -
  let ?ts = "[TradeHistoryAccount, DepositHistoryAccount, FundingPaymentHistoryAccount,
      FundingRateHistoryAccount, LiquidationHistoryAccount, CurveHistoryAccount]"
  have "extraSubscribers opts =
      concat (map (\<lambda>t. if wants opts t then [(typeName t, typeName t @ ''Update'')] else []) ?ts)"
    by (simp add: extraSubscribers_def)
  then have "fst ` set (extraSubscribers opts) = typeName ` {t \<in> set ?ts. wants opts t}"
    by (simp only: fst_concat_if)
  moreover have "t \<in> set ?ts" for t by (cases t) simp_all
  ultimately show ?thesis by simp
qed

lemma extraSubscribers_distinct: "distinct (map fst (extraSubscribers opts))"
  by (simp add: extraSubscribers_def)

lemma subscribeField_optional [simp]: "ws_optional (fst (subscribeField decode rpc ids x s)) = ws_optional s"
  by (simp add: subscribeField_def split: prod.split option.split)

lemma allOf_optional:
  "allOf (subscribeField decode rpc ids) xs s = (s', r) \<Longrightarrow> ws_optional s' = ws_optional s"
proof (induction xs arbitrary: s s' r)
  case (Cons x xs)
  then show ?case
    using subscribeField_optional [of decode rpc ids x s]
    by (auto simp del: subscribeField_optional split: prod.splits)
qed simp

lemma listening_history:
  "listening (createHistorySubscribers st s) name =
     (if name \<in> range typeName then Some (None, []) else listening s name)"
proof -
  have "name \<in> range typeName \<longleftrightarrow> name \<in> {''tradeHistoryAccount'', ''depositHistoryAccount'',
      ''fundingPaymentHistoryAccount'', ''fundingRateHistoryAccount'', ''curveHistoryAccount'',
      ''liquidationHistoryAccount''}"
    (is "_ \<longleftrightarrow> name \<in> ?names")
  proof
    assume "name \<in> range typeName"
    then obtain t where "name = typeName t" by blast
    then show "name \<in> ?names" by (cases t) auto
  next
    assume "name \<in> ?names"
    then show "name \<in> range typeName" by (auto intro: typeName.simps [symmetric] rangeI simp flip: typeName.simps)
  qed
  then show ?thesis by (simp add: createHistorySubscribers_def)
qed

text \<open>A subscription that succeeds listens to the state, the markets and the wanted accounts.\<close>

lemma wsSubscribe_listening:
  assumes "subscribers s = []" "\<not> ws_isSubscribed s"
    and "wsSubscribe decode asState rpc ids stateKey opts s = (s', Subscribed r)"
  shows "ws_isSubscribed s' \<and> set (ws_optional s') = {t. wants opts t} \<and>
     listening s' name =
       (if name \<in> {''stateAccount'', ''marketsAccount''} \<union> typeName ` {t. wants opts t}
        then Some (Some (ids name), [ids name])
        else if name \<in> range typeName then Some (None, []) else None)"
proof -
  let ?s0 = "s\<lparr>ws_isSubscribing := True\<rparr>"
  from assms(2,3) obtain pk s1 a s2 s4 where
    s1: "subscribeField decode rpc ids (''stateAccount'', ''stateAccountUpdate'')
           (createSubscriber ''stateAccount'' ''state'' pk ?s0) = (s1, None)"
    and s2: "subscribeField decode rpc ids (''marketsAccount'', ''marketsAccountUpdate'')
           (createSubscriber ''marketsAccount'' ''markets'' (StateAccount.markets (asState a)) s1) = (s2, None)"
    and s4: "allOf (subscribeField decode rpc ids) (extraSubscribers opts)
           ((createHistorySubscribers (asState a) s2)\<lparr>ws_optional := (case opts of None \<Rightarrow> [] | Some ts \<Rightarrow> ts)\<rparr>) = (s4, None)"
    and s': "s' = s4\<lparr>ws_emitted := ws_emitted s4 @ [''update''], ws_isSubscribing := False, ws_isSubscribed := True\<rparr>"
    by (auto simp: wsSubscribe_def Let_def split: if_splits sum.splits prod.splits option.splits)
  have "listening s = (\<lambda>_. None)" using assms(1) by (simp add: listening_def fun_eq_iff)
  then have "listening s1 = (\<lambda>_. None)(''stateAccount'' \<mapsto> (Some (ids ''stateAccount''), [ids ''stateAccount'']))"
    using listening_subscribe [OF s1] by (simp add: fun_upd_upd)
  then have l2: "listening s2 = (\<lambda>_. None)(''stateAccount'' \<mapsto> (Some (ids ''stateAccount''), [ids ''stateAccount'']),
      ''marketsAccount'' \<mapsto> (Some (ids ''marketsAccount''), [ids ''marketsAccount'']))"
    using listening_subscribe [OF s2] by (simp add: fun_upd_upd)
  have pre: "\<forall>x \<in> set (extraSubscribers opts). listening ((createHistorySubscribers (asState a) s2)
      \<lparr>ws_optional := (case opts of None \<Rightarrow> [] | Some ts \<Rightarrow> ts)\<rparr>) (fst x) = Some (None, [])"
  proof
    fix x assume "x \<in> set (extraSubscribers opts)"
    then have "fst x \<in> typeName ` {t. wants opts t}" using extraSubscribers_names [of opts] by blast
    then have "fst x \<in> range typeName" by blast
    then show "listening ((createHistorySubscribers (asState a) s2)
        \<lparr>ws_optional := (case opts of None \<Rightarrow> [] | Some ts \<Rightarrow> ts)\<rparr>) (fst x) = Some (None, [])"
      by (simp add: listening_history)
  qed
  have "listening s4 name =
      (if name \<in> typeName ` {t. wants opts t} then Some (Some (ids name), [ids name])
       else if name \<in> range typeName then Some (None, []) else listening s2 name)"
    using listening_all [OF s4 extraSubscribers_distinct pre, of name]
    by (simp add: listening_history extraSubscribers_names)
  moreover have "ws_optional s4 = (case opts of None \<Rightarrow> [] | Some ts \<Rightarrow> ts)"
    using allOf_optional [OF s4] by simp
  moreover have "set (case opts of None \<Rightarrow> [] | Some ts \<Rightarrow> ts) = {t. wants opts t}"
    by (cases opts) (simp_all add: wants_def)
  moreover have "listening s2 name = (if name \<in> {''stateAccount'', ''marketsAccount''}
      then Some (Some (ids name), [ids name]) else None)"
    by (simp add: l2)
  moreover have "typeName t \<notin> {''stateAccount'', ''marketsAccount''}" for t by simp
  then have "name \<in> {''stateAccount'', ''marketsAccount''} \<Longrightarrow> name \<notin> range typeName" by blast
  moreover have "name \<in> typeName ` {t. wants opts t} \<Longrightarrow> name \<in> range typeName" by blast
  ultimately show ?thesis
    unfolding s' by (simp only: listening_cong WsSubscribers.simps) auto
qed

text \<open>What unsubscribing does to the listeners of a field.\<close>

lemma unsubscribe_history:
  "ws_isSubscribed s \<Longrightarrow> listening (wsUnsubscribe s) (typeName t) =
     (if t \<in> set (ws_optional s) then map_option unlisten (listening s (typeName t))
      else listening s (typeName t))"
  by (cases t) (simp_all add: wsUnsubscribe_def)

lemma unsubscribe_base:
  "ws_isSubscribed s \<Longrightarrow> name \<in> {''stateAccount'', ''marketsAccount''} \<Longrightarrow>
     listening (wsUnsubscribe s) name = map_option unlisten (listening s name)"
  by (auto simp: wsUnsubscribe_def)

lemma unsubscribe_other:
  assumes "name \<notin> range typeName" "name \<notin> {''stateAccount'', ''marketsAccount''}"
  shows "listening (wsUnsubscribe s) name = listening s name"
proof -
  have "name \<noteq> typeName t" for t using assms(1) by blast
  then have "listening (unsubscribeIf t x) name = listening x name" for t and x :: "'a WsSubscribers" by simp
  with assms(2) show ?thesis by (simp add: wsUnsubscribe_def del: listening_unsubscribeIf)
qed

text \<open>
  Unsubscribing stops listening: after a subscription with any choice of optional accounts has
  succeeded, each account that was asked for has exactly one listener, and unsubscribing removes
  every listener, provided that the connection numbers its listeners from 1.
\<close>

theorem unsubscribe_stops_listening:
  assumes "subscribers s = []" "\<not> ws_isSubscribed s" "\<forall>n. ids n \<noteq> 0"
    and "wsSubscribe decode asState rpc ids stateKey opts s = (s', Subscribed r)"
  shows "(\<forall>name sub. map_of (subscribers s') name = Some sub \<longrightarrow>
            listeners sub = (if name \<in> {''stateAccount'', ''marketsAccount''} \<union> typeName ` {t. wants opts t}
                             then [ids name] else [])) \<and>
         (\<forall>name sub. map_of (subscribers (wsUnsubscribe s')) name = Some sub \<longrightarrow> listeners sub = [])"
proof -
  note l = wsSubscribe_listening [OF assms(1,2,4)]
  have 1: "listeners sub = (if name \<in> {''stateAccount'', ''marketsAccount''} \<union> typeName ` {t. wants opts t}
      then [ids name] else [])" if "map_of (subscribers s') name = Some sub" for name sub
    using that l [of name] by (auto simp: listening_def split: if_splits)
  have "listening (wsUnsubscribe s') name \<in> {None, Some (None, [])}" for name
  proof -
    have un: "unlisten (Some (ids name), [ids name]) = (None, [])" "unlisten (None, []) = (None, [])"
      using assms(3) by (simp_all add: unlisten_def)
    consider t where "name = typeName t" | "name \<in> {''stateAccount'', ''marketsAccount''}"
      | "name \<notin> range typeName" "name \<notin> {''stateAccount'', ''marketsAccount''}" by blast
    then show ?thesis
    proof cases
      case (1 t)
      then have "listening (wsUnsubscribe s') name =
          (if wants opts t then map_option unlisten (listening s' name) else listening s' name)"
        using l [of name] unsubscribe_history [of s' t] by simp
      with 1 l [of name] un show ?thesis by (auto simp: image_iff)
    next
      case 2
      then have "listening (wsUnsubscribe s') name = map_option unlisten (listening s' name)"
        using l [of name] unsubscribe_base [of s' name] by simp
      with 2 l [of name] un show ?thesis by auto
    next
      case 3
      then have "listening (wsUnsubscribe s') name = None"
        using l [of name] unsubscribe_other [of name s'] by auto
      then show ?thesis by simp
    qed
  qed
  then have 2: "listeners sub = []" if "map_of (subscribers (wsUnsubscribe s')) name = Some sub" for name sub
    using that by (simp add: listening_def) (metis option.distinct(1) option.map_disc_iff option.simps(9) option.inject prod.inject)
  from 1 2 show ?thesis by blast
qed

text \<open>A node that answers every request, and a sample decoding of state accounts.\<close>

definition sampleWsSubscribe ::
  "ClearingHouseAccountTypes list option \<Rightarrow> nat WsSubscribers \<times> SubscribeOutcome" where
  "sampleWsSubscribe opts =
     wsSubscribe lengthDecoder (\<lambda>_. sample_state) (\<lambda>_. Inr (1, Some [7])) (\<lambda>_. 5) (Inr ''stateKey'') opts
       newWsSubscribers"

lemma sampleWsSubscribe_succeeds: "\<exists>s. sampleWsSubscribe (Some [TradeHistoryAccount]) = (s, Subscribed True)"
proof -
  have "snd (sampleWsSubscribe (Some [TradeHistoryAccount])) = Subscribed True" by code_simp
  then show ?thesis by (metis prod.collapse)
qed

theorem unsubscribe_stops_listening_witness:
  "\<exists>s. sampleWsSubscribe (Some [TradeHistoryAccount]) = (s, Subscribed True) \<and>
     (\<forall>name sub. map_of (subscribers (wsUnsubscribe s)) name = Some sub \<longrightarrow> listeners sub = [])"
proof -
  obtain s where s: "sampleWsSubscribe (Some [TradeHistoryAccount]) = (s, Subscribed True)"
    using sampleWsSubscribe_succeeds by blast
  from unsubscribe_stops_listening [OF _ _ _ s [unfolded sampleWsSubscribe_def]] s
  show ?thesis by (simp add: newWsSubscribers_def)
qed

end
