(* ===== verification/Effects.thy ===== *)
theory Effects
  imports Prelude
begin

section \<open>Computations with state and errors\<close>

text \<open>
  The methods of the client classes read and change fields of the object, await calls that may
  throw, and keep the changes made before a throw. Such a method is a function from the state to
  a result and the state it leaves behind. \<open>keeps P m Q\<close> says that \<open>m\<close> keeps the invariant \<open>P\<close> on
  every path, the throwing ones included, and that what it returns satisfies \<open>Q\<close>; its rules are
  in the collection \<open>keeps_rules\<close>.
\<close>

named_theorems keeps_rules "rules for invariants and results of computations"
named_theorems eff_simps "evaluation rules of computations"

type_synonym ('s, 'a) eff = "'s \<Rightarrow> 'a result \<times> 's"

definition returnS :: "'a \<Rightarrow> ('s, 'a) eff" where
  "returnS a = (\<lambda>s. (Inr a, s))"

definition throwS :: "js_error \<Rightarrow> ('s, 'a) eff" where
  "throwS e = (\<lambda>s. (Inl e, s))"

definition bindS :: "('s, 'a) eff \<Rightarrow> ('a \<Rightarrow> ('s, 'b) eff) \<Rightarrow> ('s, 'b) eff" where
  "bindS m f = (\<lambda>s. case m s of (Inl e, s') \<Rightarrow> (Inl e, s') | (Inr a, s') \<Rightarrow> f a s')"

text \<open>A call that does not touch the object, a read of a field, an assignment to fields.\<close>

definition liftS :: "'a result \<Rightarrow> ('s, 'a) eff" where
  "liftS r = (\<lambda>s. (r, s))"

definition getS :: "('s \<Rightarrow> 'a) \<Rightarrow> ('s, 'a) eff" where
  "getS f = (\<lambda>s. (Inr (f s), s))"

definition readS :: "('s \<Rightarrow> 'a result) \<Rightarrow> ('s, 'a) eff" where
  "readS f = (\<lambda>s. (f s, s))"

definition modifyS :: "('s \<Rightarrow> 's) \<Rightarrow> ('s, unit) eff" where
  "modifyS f = (\<lambda>s. (Inr (), f s))"

lemma eff_evaluation [eff_simps]:
  "returnS a s = (Inr a, s)" "throwS e s = (Inl e, s)" "liftS r s = (r, s)"
  "getS f s = (Inr (f s), s)" "readS g s = (g s, s)" "modifyS h s = (Inr (), h s)"
  by (simp_all add: returnS_def throwS_def liftS_def getS_def readS_def modifyS_def)

lemma bindS_eval [eff_simps]:
  "bindS m f s = (case m s of (Inl e, s') \<Rightarrow> (Inl e, s') | (Inr a, s') \<Rightarrow> f a s')"
  by (simp add: bindS_def)

lemma bindS_assoc: "bindS (bindS m f) g = bindS m (\<lambda>a. bindS (f a) g)"
  by (auto simp: bindS_def fun_eq_iff split: prod.splits sum.splits)

lemma bindS_return [simp]: "bindS (returnS a) f = f a" "bindS m returnS = m"
  by (auto simp: bindS_def returnS_def fun_eq_iff split: prod.splits sum.splits)

subsection \<open>Invariants and results\<close>

definition keeps :: "('s \<Rightarrow> bool) \<Rightarrow> ('s, 'a) eff \<Rightarrow> ('a \<Rightarrow> bool) \<Rightarrow> bool" where
  "keeps P m Q \<longleftrightarrow>
     (\<forall>s. P s \<longrightarrow> (case m s of (Inl e, s') \<Rightarrow> P s' | (Inr a, s') \<Rightarrow> P s' \<and> Q a))"

lemma keepsI:
  "(\<And>s r s'. P s \<Longrightarrow> m s = (r, s') \<Longrightarrow> P s' \<and> (\<forall>a. r = Inr a \<longrightarrow> Q a)) \<Longrightarrow> keeps P m Q"
  unfolding keeps_def
proof (intro allI impI)
  fix s
  assume *: "\<And>s r s'. P s \<Longrightarrow> m s = (r, s') \<Longrightarrow> P s' \<and> (\<forall>a. r = Inr a \<longrightarrow> Q a)" and "P s"
  obtain r s' where "m s = (r, s')" by fastforce
  with * [OF \<open>P s\<close> this] show "case m s of (Inl e, s') \<Rightarrow> P s' | (Inr a, s') \<Rightarrow> P s' \<and> Q a"
    by (cases r) auto
qed

lemma keepsD:
  assumes "keeps P m Q" "P s" "m s = (r, s')"
  shows "P s'" and "r = Inr a \<Longrightarrow> Q a"
proof -
  have c: "case m s of (Inl e, s') \<Rightarrow> P s' | (Inr a, s') \<Rightarrow> P s' \<and> Q a"
    using assms(1,2) by (simp add: keeps_def)
  show "P s'" using c assms(3) by (cases r) auto
  show "Q a" if "r = Inr a" using c assms(3) that by simp
qed

lemma keeps_return [keeps_rules]: "Q a \<Longrightarrow> keeps P (returnS a) Q"
  by (simp add: keeps_def returnS_def)

lemma keeps_throw [keeps_rules]: "keeps P (throwS e) Q"
  by (simp add: keeps_def throwS_def)

lemma keeps_lift [keeps_rules]: "(\<And>a. r = Inr a \<Longrightarrow> Q a) \<Longrightarrow> keeps P (liftS r) Q"
  by (cases r) (simp_all add: keeps_def liftS_def)

lemma keeps_get [keeps_rules]: "(\<And>s. P s \<Longrightarrow> Q (f s)) \<Longrightarrow> keeps P (getS f) Q"
  by (simp add: keeps_def getS_def)

lemma keeps_read [keeps_rules]: "(\<And>s a. P s \<Longrightarrow> f s = Inr a \<Longrightarrow> Q a) \<Longrightarrow> keeps P (readS f) Q"
  by (auto simp: keeps_def readS_def split: sum.split)

lemma keeps_modify [keeps_rules]: "(\<And>s. P s \<Longrightarrow> P (f s)) \<Longrightarrow> Q () \<Longrightarrow> keeps P (modifyS f) Q"
  by (simp add: keeps_def modifyS_def)

lemma keeps_bind:
  assumes m: "keeps P m Q" and f: "\<And>a. Q a \<Longrightarrow> keeps P (f a) R"
  shows "keeps P (bindS m f) R"
proof (rule keepsI)
  fix s r s'
  assume "P s" and run: "bindS m f s = (r, s')"
  show "P s' \<and> (\<forall>a. r = Inr a \<longrightarrow> R a)"
  proof (cases "m s")
    case (Pair x t)
    show ?thesis
    proof (cases x)
      case (Inl e)
      with run Pair keepsD [OF m \<open>P s\<close> Pair] show ?thesis by (auto simp: bindS_def)
    next
      case (Inr a)
      then have "P t" "Q a" using keepsD [OF m \<open>P s\<close> Pair] by auto
      moreover from run Pair Inr have "f a t = (r, s')" by (simp add: bindS_def)
      ultimately show ?thesis using keepsD [OF f] by blast
    qed
  qed
qed

lemma keeps_bind_get [keeps_rules]:
  "(\<And>a. \<exists>s. P s \<and> a = f s \<Longrightarrow> keeps P (g a) R) \<Longrightarrow> keeps P (bindS (getS f) g) R"
  by (rule keeps_bind [where Q = "\<lambda>a. \<exists>s. P s \<and> a = f s"]) (auto intro: keeps_rules)

lemma keeps_bind_read [keeps_rules]:
  "(\<And>a. \<exists>s. P s \<and> f s = Inr a \<Longrightarrow> keeps P (g a) R) \<Longrightarrow> keeps P (bindS (readS f) g) R"
  by (rule keeps_bind [where Q = "\<lambda>a. \<exists>s. P s \<and> f s = Inr a"]) (auto intro: keeps_rules)

lemma keeps_bind_lift [keeps_rules]:
  "(\<And>a. r = Inr a \<Longrightarrow> keeps P (g a) R) \<Longrightarrow> keeps P (bindS (liftS r) g) R"
  by (rule keeps_bind [where Q = "\<lambda>a. r = Inr a"]) (auto intro: keeps_rules)

lemma keeps_bind_modify [keeps_rules]:
  "(\<And>s. P s \<Longrightarrow> P (f s)) \<Longrightarrow> keeps P (g ()) R \<Longrightarrow> keeps P (bindS (modifyS f) g) R"
  by (rule keeps_bind [where Q = "\<lambda>_. True"]) (auto intro: keeps_rules)

lemma keeps_bind_return [keeps_rules]: "keeps P (g a) R \<Longrightarrow> keeps P (bindS (returnS a) g) R"
  by simp

lemma keeps_if [keeps_rules]:
  "(b \<Longrightarrow> keeps P m R) \<Longrightarrow> (\<not> b \<Longrightarrow> keeps P n R) \<Longrightarrow> keeps P (if b then m else n) R"
  by simp

lemma keeps_option [keeps_rules]:
  "(x = None \<Longrightarrow> keeps P m R) \<Longrightarrow> (\<And>a. x = Some a \<Longrightarrow> keeps P (n a) R) \<Longrightarrow>
     keeps P (case x of None \<Rightarrow> m | Some a \<Rightarrow> n a) R"
  by (cases x) auto

lemma keeps_prod [keeps_rules]:
  "(\<And>x y. a = (x, y) \<Longrightarrow> keeps P (f x y) R) \<Longrightarrow> keeps P (case a of (x, y) \<Rightarrow> f x y) R"
  by (cases a) auto

subsection \<open>Two objects\<close>

text \<open>A method that works on two objects calls methods of either.\<close>

definition onFst :: "('s, 'a) eff \<Rightarrow> ('s \<times> 't, 'a) eff" where
  "onFst m = (\<lambda>(s, t). case m s of (r, s') \<Rightarrow> (r, (s', t)))"

definition onSnd :: "('t, 'a) eff \<Rightarrow> ('s \<times> 't, 'a) eff" where
  "onSnd m = (\<lambda>(s, t). case m t of (r, t') \<Rightarrow> (r, (s, t')))"

lemma keeps_onFst: "keeps P m Q \<Longrightarrow> keeps (\<lambda>(s, t). P s \<and> R t) (onFst m) Q"
  by (fastforce simp: keeps_def onFst_def split: prod.split sum.split)

lemma keeps_onSnd: "keeps R m Q \<Longrightarrow> keeps (\<lambda>(s, t). P s \<and> R t) (onSnd m) Q"
  by (fastforce simp: keeps_def onSnd_def split: prod.split sum.split)

lemma keeps_weaken: "keeps P m Q \<Longrightarrow> (\<And>a. Q a \<Longrightarrow> R a) \<Longrightarrow> keeps P m R"
  by (fastforce simp: keeps_def split: prod.split sum.split)

end
