(* ===== verification/Idl.thy ===== *)
theory Idl
  imports Types
begin

section \<open>The interface of the on-chain programs\<close>

text \<open>
  The SDK calls the on-chain programs through Anchor, which is driven by the interface
  descriptions \<open>sdk/src/idl/clearing_house.json\<close> and \<open>sdk/src/idl/mock_usdc_faucet.json\<close>: for each
  instruction the accounts it takes, which of them are written and which must sign, and the
  types of its arguments. This theory holds both descriptions (instructions, and the types their
  arguments reach), the values the SDK passes, the instructions it builds, and when an
  instruction conforms to a description.
\<close>

subsection \<open>Interface descriptions\<close>

datatype IdlType = U8 | U64 | U128 | I64 | I128 | BoolT | PublicKeyT | Defined string

datatype IdlTypeDef = StructDef "(string \<times> IdlType) list" | EnumDef "string list"

record IdlAccount =
  account_name :: string
  isMut :: bool
  account_isSigner :: bool

record IdlInstruction =
  idl_name :: string
  idl_accounts :: "IdlAccount list"
  idl_args :: "(string \<times> IdlType) list"

record Idl =
  idl_instructions :: "IdlInstruction list"
  idl_types :: "(string \<times> IdlTypeDef) list"

abbreviation account :: "string \<Rightarrow> bool \<Rightarrow> bool \<Rightarrow> IdlAccount" where
  "account n w s \<equiv> \<lparr>account_name = n, isMut = w, account_isSigner = s\<rparr>"

subsection \<open>Arguments and instructions\<close>

text \<open>
  The JavaScript values that are passed as arguments: big numbers, numbers, booleans, public
  keys, enumeration values such as \<open>{ long: {} }\<close>, objects, and the texts and missing values that
  an untyped caller can pass.
\<close>

datatype Arg =
    ABN BN
  | ANum int
  | ABool bool
  | AKey PublicKey
  | AEnum string
  | AStruct "(string \<times> Arg) list"
  | AText string
  | AUndefined

text \<open>An entry of \<open>remainingAccounts\<close>.\<close>

record AccountMeta =
  pubkey :: PublicKey
  isWritable :: bool
  isSigner :: bool

text \<open>What \<open>program.instruction.name(...args, { accounts, remainingAccounts })\<close> is called with.\<close>

record Instruction =
  ix_name :: string
  ix_args :: "Arg list"
  ix_accounts :: "(string \<times> PublicKey) list"
  ix_remaining :: "AccountMeta list"

abbreviation instruction ::
  "string \<Rightarrow> Arg list \<Rightarrow> (string \<times> PublicKey) list \<Rightarrow> AccountMeta list \<Rightarrow> Instruction" where
  "instruction n args accounts remaining \<equiv>
     \<lparr>ix_name = n, ix_args = args, ix_accounts = accounts, ix_remaining = remaining\<rparr>"

subsection \<open>Conformance\<close>

text \<open>The entry of a table, or the property of an object, with the given name.\<close>

fun entry :: "(string \<times> 'a) list \<Rightarrow> string \<Rightarrow> 'a option" where
  "entry [] n = None"
| "entry ((m, x) # xs) n = (if m = n then Some x else entry xs n)"

lemma entry_map_of: "entry xs n = map_of xs n"
  by (induction xs n rule: entry.induct) auto

text \<open>A variant \<open>Long\<close> of the description is the property \<open>long\<close> of the JavaScript value.\<close>

fun lowerFirst :: "string \<Rightarrow> string" where
  "lowerFirst [] = []"
| "lowerFirst (c # cs) =
     (if 65 \<le> (of_char c :: nat) \<and> (of_char c :: nat) \<le> 90 then char_of ((of_char c :: nat) + 32) else c) # cs"

declare lowerFirst.simps [simp del]

text \<open>
  The kind of a value fits a type: integers of more than 32 bits are big numbers, small ones
  numbers, and an object has the fields of the structure. (The range of an integer is a matter
  of its own.)
\<close>

fun fitsType :: "(string \<times> IdlTypeDef) list \<Rightarrow> Arg \<Rightarrow> IdlType \<Rightarrow> bool"
  and fields_fit :: "(string \<times> IdlTypeDef) list \<Rightarrow> (string \<times> Arg) list \<Rightarrow> (string \<times> IdlType) list \<Rightarrow> bool"
where
  "fitsType tds (ABN n) t \<longleftrightarrow> t \<in> {U64, U128, I64, I128}"
| "fitsType tds (ANum n) t \<longleftrightarrow> t = U8"
| "fitsType tds (ABool b) t \<longleftrightarrow> t = BoolT"
| "fitsType tds (AKey k) t \<longleftrightarrow> t = PublicKeyT"
| "fitsType tds (AEnum v) t \<longleftrightarrow>
     (case t of
        Defined n \<Rightarrow> (case entry tds n of Some (EnumDef vs) \<Rightarrow> v \<in> set (map lowerFirst vs) | _ \<Rightarrow> False)
      | _ \<Rightarrow> False)"
| "fitsType tds (AStruct fs) t \<longleftrightarrow>
     (case t of
        Defined n \<Rightarrow> (case entry tds n of Some (StructDef ts) \<Rightarrow> fields_fit tds fs ts | _ \<Rightarrow> False)
      | _ \<Rightarrow> False)"
| "fitsType tds (AText s) t \<longleftrightarrow> False"
| "fitsType tds AUndefined t \<longleftrightarrow> False"
| "fields_fit tds [] ts \<longleftrightarrow> ts = []"
| "fields_fit tds ((f, v) # fs) ts \<longleftrightarrow>
     (case ts of [] \<Rightarrow> False | (g, t) # ts' \<Rightarrow> f = g \<and> fitsType tds v t \<and> fields_fit tds fs ts')"

definition findInstruction :: "Idl \<Rightarrow> string \<Rightarrow> IdlInstruction option" where
  "findInstruction idl n = find (\<lambda>i. idl_name i = n) (idl_instructions idl)"

definition argsConform :: "Idl \<Rightarrow> IdlInstruction \<Rightarrow> Arg list \<Rightarrow> bool" where
  "argsConform idl i args = list_all2 (\<lambda>a (n, t). fitsType (idl_types idl) a t) args (idl_args i)"

definition accountsGiven :: "IdlInstruction \<Rightarrow> (string \<times> PublicKey) list \<Rightarrow> bool" where
  "accountsGiven i accounts = list_all (\<lambda>a. account_name a \<in> set (map fst accounts)) (idl_accounts i)"

text \<open>
  An instruction conforms when the description has it, its arguments fit one by one and every
  account of the description is given. It is \<open>exact\<close> when no other account is given and none twice.
\<close>

definition conforms :: "Idl \<Rightarrow> Instruction \<Rightarrow> bool" where
  "conforms idl ix =
     (case findInstruction idl (ix_name ix) of
        None \<Rightarrow> False
      | Some i \<Rightarrow> argsConform idl i (ix_args ix) \<and> accountsGiven i (ix_accounts ix))"

definition exactAccounts :: "Idl \<Rightarrow> Instruction \<Rightarrow> bool" where
  "exactAccounts idl ix =
     (case findInstruction idl (ix_name ix) of
        None \<Rightarrow> False
      | Some i \<Rightarrow> distinct (map fst (ix_accounts ix)) \<and>
                  set (map fst (ix_accounts ix)) = set (map account_name (idl_accounts i)))"

text \<open>The keys that have to sign, by the description and by \<open>remainingAccounts\<close>.\<close>

definition requiredSigners :: "Idl \<Rightarrow> Instruction \<Rightarrow> PublicKey list" where
  "requiredSigners idl ix =
     (case findInstruction idl (ix_name ix) of
        None \<Rightarrow> []
      | Some i \<Rightarrow>
          List.map_filter (\<lambda>a. if account_isSigner a then entry (ix_accounts ix) (account_name a) else None)
            (idl_accounts i)) @
     map pubkey (filter isSigner (ix_remaining ix))"

subsection \<open>The clearing house program\<close>

definition idl_initialize :: IdlInstruction where
  "idl_initialize = \<lparr>
     idl_name = ''initialize'',
     idl_accounts =
       [account ''admin'' False True, account ''state'' True False,
        account ''collateralMint'' False False, account ''collateralVault'' True False,
        account ''collateralVaultAuthority'' False False, account ''insuranceVault'' True False,
        account ''insuranceVaultAuthority'' False False, account ''markets'' True False,
        account ''rent'' False False, account ''systemProgram'' False False,
        account ''tokenProgram'' False False],
     idl_args =
       [(''clearingHouseNonce'', U8), (''collateralVaultNonce'', U8),
        (''insuranceVaultNonce'', U8), (''adminControlsPrices'', BoolT)]\<rparr>"

definition idl_initializeHistory :: IdlInstruction where
  "idl_initializeHistory = \<lparr>
     idl_name = ''initializeHistory'',
     idl_accounts =
       [account ''admin'' False True, account ''state'' True False,
        account ''fundingPaymentHistory'' True False, account ''tradeHistory'' True False,
        account ''liquidationHistory'' True False, account ''depositHistory'' True False,
        account ''fundingRateHistory'' True False, account ''curveHistory'' True False],
     idl_args =
       []\<rparr>"

definition idl_initializeMarket :: IdlInstruction where
  "idl_initializeMarket = \<lparr>
     idl_name = ''initializeMarket'',
     idl_accounts =
       [account ''admin'' False True, account ''state'' False False,
        account ''markets'' True False, account ''oracle'' False False],
     idl_args =
       [(''marketIndex'', U64), (''ammBaseAssetReserve'', U128),
        (''ammQuoteAssetReserve'', U128), (''ammPeriodicity'', I64),
        (''ammPegMultiplier'', U128)]\<rparr>"

definition idl_depositCollateral :: IdlInstruction where
  "idl_depositCollateral = \<lparr>
     idl_name = ''depositCollateral'',
     idl_accounts =
       [account ''state'' True False, account ''user'' True False,
        account ''authority'' False True, account ''collateralVault'' True False,
        account ''userCollateralAccount'' True False, account ''tokenProgram'' False False,
        account ''markets'' False False, account ''userPositions'' True False,
        account ''fundingPaymentHistory'' True False, account ''depositHistory'' True False],
     idl_args =
       [(''amount'', U64)]\<rparr>"

definition idl_withdrawCollateral :: IdlInstruction where
  "idl_withdrawCollateral = \<lparr>
     idl_name = ''withdrawCollateral'',
     idl_accounts =
       [account ''state'' True False, account ''user'' True False,
        account ''authority'' False True, account ''collateralVault'' True False,
        account ''collateralVaultAuthority'' False False, account ''insuranceVault'' True False,
        account ''insuranceVaultAuthority'' False False,
        account ''userCollateralAccount'' True False, account ''tokenProgram'' False False,
        account ''markets'' False False, account ''userPositions'' True False,
        account ''fundingPaymentHistory'' True False, account ''depositHistory'' True False],
     idl_args =
       [(''amount'', U64)]\<rparr>"

definition idl_openPosition :: IdlInstruction where
  "idl_openPosition = \<lparr>
     idl_name = ''openPosition'',
     idl_accounts =
       [account ''state'' True False, account ''user'' True False,
        account ''authority'' False True, account ''markets'' True False,
        account ''userPositions'' True False, account ''tradeHistory'' True False,
        account ''fundingPaymentHistory'' True False, account ''fundingRateHistory'' True False,
        account ''oracle'' False False],
     idl_args =
       [(''direction'', Defined ''PositionDirection''), (''quoteAssetAmount'', U128),
        (''marketIndex'', U64), (''limitPrice'', U128),
        (''optionalAccounts'', Defined ''ManagePositionOptionalAccounts'')]\<rparr>"

definition idl_closePosition :: IdlInstruction where
  "idl_closePosition = \<lparr>
     idl_name = ''closePosition'',
     idl_accounts =
       [account ''state'' True False, account ''user'' True False,
        account ''authority'' False True, account ''markets'' True False,
        account ''userPositions'' True False, account ''tradeHistory'' True False,
        account ''fundingPaymentHistory'' True False, account ''fundingRateHistory'' True False,
        account ''oracle'' False False],
     idl_args =
       [(''marketIndex'', U64),
        (''optionalAccounts'', Defined ''ManagePositionOptionalAccounts'')]\<rparr>"

definition idl_liquidate :: IdlInstruction where
  "idl_liquidate = \<lparr>
     idl_name = ''liquidate'',
     idl_accounts =
       [account ''state'' False False, account ''authority'' False True,
        account ''liquidator'' True False, account ''user'' True False,
        account ''collateralVault'' True False,
        account ''collateralVaultAuthority'' False False, account ''insuranceVault'' True False,
        account ''insuranceVaultAuthority'' False False, account ''tokenProgram'' False False,
        account ''markets'' True False, account ''userPositions'' True False,
        account ''tradeHistory'' True False, account ''liquidationHistory'' True False,
        account ''fundingPaymentHistory'' True False],
     idl_args =
       []\<rparr>"

definition idl_moveAmmPrice :: IdlInstruction where
  "idl_moveAmmPrice = \<lparr>
     idl_name = ''moveAmmPrice'',
     idl_accounts =
       [account ''state'' False False, account ''admin'' False True,
        account ''markets'' True False],
     idl_args =
       [(''baseAssetReserve'', U128), (''quoteAssetReserve'', U128), (''marketIndex'',
         U64)]\<rparr>"

definition idl_withdrawFees :: IdlInstruction where
  "idl_withdrawFees = \<lparr>
     idl_name = ''withdrawFees'',
     idl_accounts =
       [account ''state'' False False, account ''admin'' False True,
        account ''collateralVault'' True False,
        account ''collateralVaultAuthority'' False False, account ''markets'' True False,
        account ''recipient'' True False, account ''tokenProgram'' False False],
     idl_args =
       [(''marketIndex'', U64), (''amount'', U64)]\<rparr>"

definition idl_withdrawFromInsuranceVault :: IdlInstruction where
  "idl_withdrawFromInsuranceVault = \<lparr>
     idl_name = ''withdrawFromInsuranceVault'',
     idl_accounts =
       [account ''state'' False False, account ''admin'' False True,
        account ''insuranceVault'' True False, account ''insuranceVaultAuthority'' False False,
        account ''recipient'' True False, account ''tokenProgram'' False False],
     idl_args =
       [(''amount'', U64)]\<rparr>"

definition idl_withdrawFromInsuranceVaultToMarket :: IdlInstruction where
  "idl_withdrawFromInsuranceVaultToMarket = \<lparr>
     idl_name = ''withdrawFromInsuranceVaultToMarket'',
     idl_accounts =
       [account ''state'' True False, account ''markets'' True False,
        account ''admin'' False True, account ''insuranceVault'' True False,
        account ''insuranceVaultAuthority'' False False, account ''collateralVault'' True False,
        account ''tokenProgram'' False False],
     idl_args =
       [(''marketIndex'', U64), (''amount'', U64)]\<rparr>"

definition idl_repegAmmCurve :: IdlInstruction where
  "idl_repegAmmCurve = \<lparr>
     idl_name = ''repegAmmCurve'',
     idl_accounts =
       [account ''state'' False False, account ''markets'' True False,
        account ''oracle'' False False, account ''admin'' False True,
        account ''curveHistory'' True False],
     idl_args =
       [(''newPegCandidate'', U128), (''marketIndex'', U64)]\<rparr>"

definition idl_updateAmmOracleTwap :: IdlInstruction where
  "idl_updateAmmOracleTwap = \<lparr>
     idl_name = ''updateAmmOracleTwap'',
     idl_accounts =
       [account ''state'' False False, account ''markets'' True False,
        account ''oracle'' False False, account ''admin'' False True,
        account ''curveHistory'' True False],
     idl_args =
       [(''marketIndex'', U64)]\<rparr>"

definition idl_resetAmmOracleTwap :: IdlInstruction where
  "idl_resetAmmOracleTwap = \<lparr>
     idl_name = ''resetAmmOracleTwap'',
     idl_accounts =
       [account ''state'' False False, account ''markets'' True False,
        account ''oracle'' False False, account ''admin'' False True,
        account ''curveHistory'' True False],
     idl_args =
       [(''marketIndex'', U64)]\<rparr>"

definition idl_initializeUser :: IdlInstruction where
  "idl_initializeUser = \<lparr>
     idl_name = ''initializeUser'',
     idl_accounts =
       [account ''user'' True False, account ''state'' False False,
        account ''userPositions'' True True, account ''authority'' True True,
        account ''rent'' False False, account ''systemProgram'' False False],
     idl_args =
       [(''userNonce'', U8), (''optionalAccounts'',
         Defined ''InitializeUserOptionalAccounts'')]\<rparr>"

definition idl_initializeUserWithExplicitPayer :: IdlInstruction where
  "idl_initializeUserWithExplicitPayer = \<lparr>
     idl_name = ''initializeUserWithExplicitPayer'',
     idl_accounts =
       [account ''user'' True False, account ''state'' False False,
        account ''userPositions'' True True, account ''authority'' False True,
        account ''payer'' True True, account ''rent'' False False,
        account ''systemProgram'' False False],
     idl_args =
       [(''userNonce'', U8), (''optionalAccounts'',
         Defined ''InitializeUserOptionalAccounts'')]\<rparr>"

definition idl_deleteUser :: IdlInstruction where
  "idl_deleteUser = \<lparr>
     idl_name = ''deleteUser'',
     idl_accounts =
       [account ''user'' True False, account ''userPositions'' True False,
        account ''authority'' False True],
     idl_args =
       []\<rparr>"

definition idl_settleFundingPayment :: IdlInstruction where
  "idl_settleFundingPayment = \<lparr>
     idl_name = ''settleFundingPayment'',
     idl_accounts =
       [account ''state'' False False, account ''user'' True False,
        account ''markets'' False False, account ''userPositions'' True False,
        account ''fundingPaymentHistory'' True False],
     idl_args =
       []\<rparr>"

definition idl_updateFundingRate :: IdlInstruction where
  "idl_updateFundingRate = \<lparr>
     idl_name = ''updateFundingRate'',
     idl_accounts =
       [account ''state'' False False, account ''markets'' True False,
        account ''oracle'' False False, account ''fundingRateHistory'' True False],
     idl_args =
       [(''marketIndex'', U64)]\<rparr>"

definition idl_updateK :: IdlInstruction where
  "idl_updateK = \<lparr>
     idl_name = ''updateK'',
     idl_accounts =
       [account ''admin'' False True, account ''state'' False False,
        account ''markets'' True False, account ''oracle'' False False,
        account ''curveHistory'' True False],
     idl_args =
       [(''sqrtK'', U128), (''marketIndex'', U64)]\<rparr>"

definition idl_updateCurveHistory :: IdlInstruction where
  "idl_updateCurveHistory = \<lparr>
     idl_name = ''updateCurveHistory'',
     idl_accounts =
       [account ''admin'' False True, account ''state'' True False,
        account ''extendedCurveHistory'' True False, account ''curveHistory'' False False],
     idl_args =
       []\<rparr>"

definition idl_updateMarginRatio :: IdlInstruction where
  "idl_updateMarginRatio = \<lparr>
     idl_name = ''updateMarginRatio'',
     idl_accounts =
       [account ''admin'' False True, account ''state'' True False],
     idl_args =
       [(''marginRatioInitial'', U128), (''marginRatioPartial'', U128),
        (''marginRatioMaintenance'', U128)]\<rparr>"

definition idl_updatePartialLiquidationClosePercentage :: IdlInstruction where
  "idl_updatePartialLiquidationClosePercentage = \<lparr>
     idl_name = ''updatePartialLiquidationClosePercentage'',
     idl_accounts =
       [account ''admin'' False True, account ''state'' True False],
     idl_args =
       [(''numerator'', U128), (''denominator'', U128)]\<rparr>"

definition idl_updatePartialLiquidationPenaltyPercentage :: IdlInstruction where
  "idl_updatePartialLiquidationPenaltyPercentage = \<lparr>
     idl_name = ''updatePartialLiquidationPenaltyPercentage'',
     idl_accounts =
       [account ''admin'' False True, account ''state'' True False],
     idl_args =
       [(''numerator'', U128), (''denominator'', U128)]\<rparr>"

definition idl_updateFullLiquidationPenaltyPercentage :: IdlInstruction where
  "idl_updateFullLiquidationPenaltyPercentage = \<lparr>
     idl_name = ''updateFullLiquidationPenaltyPercentage'',
     idl_accounts =
       [account ''admin'' False True, account ''state'' True False],
     idl_args =
       [(''numerator'', U128), (''denominator'', U128)]\<rparr>"

definition idl_updatePartialLiquidationLiquidatorShareDenominator :: IdlInstruction where
  "idl_updatePartialLiquidationLiquidatorShareDenominator = \<lparr>
     idl_name = ''updatePartialLiquidationLiquidatorShareDenominator'',
     idl_accounts =
       [account ''admin'' False True, account ''state'' True False],
     idl_args =
       [(''denominator'', U64)]\<rparr>"

definition idl_updateFullLiquidationLiquidatorShareDenominator :: IdlInstruction where
  "idl_updateFullLiquidationLiquidatorShareDenominator = \<lparr>
     idl_name = ''updateFullLiquidationLiquidatorShareDenominator'',
     idl_accounts =
       [account ''admin'' False True, account ''state'' True False],
     idl_args =
       [(''denominator'', U64)]\<rparr>"

definition idl_updateFee :: IdlInstruction where
  "idl_updateFee = \<lparr>
     idl_name = ''updateFee'',
     idl_accounts =
       [account ''admin'' False True, account ''state'' True False],
     idl_args =
       [(''fees'', Defined ''FeeStructure'')]\<rparr>"

definition idl_updateOracleGuardRails :: IdlInstruction where
  "idl_updateOracleGuardRails = \<lparr>
     idl_name = ''updateOracleGuardRails'',
     idl_accounts =
       [account ''admin'' False True, account ''state'' True False],
     idl_args =
       [(''oracleGuardRails'', Defined ''OracleGuardRails'')]\<rparr>"

definition idl_updateMarketOracle :: IdlInstruction where
  "idl_updateMarketOracle = \<lparr>
     idl_name = ''updateMarketOracle'',
     idl_accounts =
       [account ''admin'' False True, account ''state'' False False,
        account ''markets'' True False],
     idl_args =
       [(''marketIndex'', U64), (''oracle'', PublicKeyT),
        (''oracleSource'', Defined ''OracleSource'')]\<rparr>"

definition idl_updateMarketMinimumTradeSize :: IdlInstruction where
  "idl_updateMarketMinimumTradeSize = \<lparr>
     idl_name = ''updateMarketMinimumTradeSize'',
     idl_accounts =
       [account ''admin'' False True, account ''state'' False False,
        account ''markets'' True False],
     idl_args =
       [(''marketIndex'', U64), (''minimumTradeSize'', U128)]\<rparr>"

definition idl_updateAdmin :: IdlInstruction where
  "idl_updateAdmin = \<lparr>
     idl_name = ''updateAdmin'',
     idl_accounts =
       [account ''admin'' False True, account ''state'' True False],
     idl_args =
       [(''admin'', PublicKeyT)]\<rparr>"

definition idl_updateWhitelistMint :: IdlInstruction where
  "idl_updateWhitelistMint = \<lparr>
     idl_name = ''updateWhitelistMint'',
     idl_accounts =
       [account ''admin'' False True, account ''state'' True False],
     idl_args =
       [(''whitelistMint'', PublicKeyT)]\<rparr>"

definition idl_updateDiscountMint :: IdlInstruction where
  "idl_updateDiscountMint = \<lparr>
     idl_name = ''updateDiscountMint'',
     idl_accounts =
       [account ''admin'' False True, account ''state'' True False],
     idl_args =
       [(''discountMint'', PublicKeyT)]\<rparr>"

definition idl_updateMaxDeposit :: IdlInstruction where
  "idl_updateMaxDeposit = \<lparr>
     idl_name = ''updateMaxDeposit'',
     idl_accounts =
       [account ''admin'' False True, account ''state'' True False],
     idl_args =
       [(''maxDeposit'', U128)]\<rparr>"

definition idl_updateExchangePaused :: IdlInstruction where
  "idl_updateExchangePaused = \<lparr>
     idl_name = ''updateExchangePaused'',
     idl_accounts =
       [account ''admin'' False True, account ''state'' True False],
     idl_args =
       [(''exchangePaused'', BoolT)]\<rparr>"

definition idl_disableAdminControlsPrices :: IdlInstruction where
  "idl_disableAdminControlsPrices = \<lparr>
     idl_name = ''disableAdminControlsPrices'',
     idl_accounts =
       [account ''admin'' False True, account ''state'' True False],
     idl_args =
       []\<rparr>"

definition idl_updateFundingPaused :: IdlInstruction where
  "idl_updateFundingPaused = \<lparr>
     idl_name = ''updateFundingPaused'',
     idl_accounts =
       [account ''admin'' False True, account ''state'' True False],
     idl_args =
       [(''fundingPaused'', BoolT)]\<rparr>"

definition clearingHouseTypes :: "(string \<times> IdlTypeDef) list" where
  "clearingHouseTypes =
       [(''InitializeUserOptionalAccounts'', StructDef [(''whitelistToken'', BoolT)]),
        (''ManagePositionOptionalAccounts'', StructDef [(''discountToken'', BoolT),
         (''referrer'', BoolT)]),
        (''OracleGuardRails'', StructDef [(''priceDivergence'',
         Defined ''PriceDivergenceGuardRails''), (''validity'', Defined ''ValidityGuardRails''),
         (''useForLiquidations'', BoolT)]),
        (''PriceDivergenceGuardRails'', StructDef [(''markOracleDivergenceNumerator'', U128),
         (''markOracleDivergenceDenominator'', U128)]),
        (''ValidityGuardRails'', StructDef [(''slotsBeforeStale'', I64),
         (''confidenceIntervalMaxSize'', U128), (''tooVolatileRatio'', I128)]),
        (''FeeStructure'', StructDef [(''feeNumerator'', U128), (''feeDenominator'', U128),
         (''discountTokenTiers'', Defined ''DiscountTokenTiers''), (''referralDiscount'',
         Defined ''ReferralDiscount'')]),
        (''DiscountTokenTiers'', StructDef [(''firstTier'', Defined ''DiscountTokenTier''),
         (''secondTier'', Defined ''DiscountTokenTier''), (''thirdTier'',
         Defined ''DiscountTokenTier''), (''fourthTier'', Defined ''DiscountTokenTier'')]),
        (''DiscountTokenTier'', StructDef [(''minimumBalance'', U64), (''discountNumerator'',
         U128), (''discountDenominator'', U128)]),
        (''ReferralDiscount'', StructDef [(''referrerRewardNumerator'', U128),
         (''referrerRewardDenominator'', U128), (''refereeDiscountNumerator'', U128),
         (''refereeDiscountDenominator'', U128)]),
        (''OracleSource'', EnumDef [''Pyth'', ''Switchboard'']),
        (''PositionDirection'', EnumDef [''Long'', ''Short''])]"

definition clearingHouseIDL :: Idl where
  "clearingHouseIDL = \<lparr>
     idl_instructions =
       [idl_initialize, idl_initializeHistory, idl_initializeMarket, idl_depositCollateral,
        idl_withdrawCollateral, idl_openPosition, idl_closePosition, idl_liquidate,
        idl_moveAmmPrice, idl_withdrawFees, idl_withdrawFromInsuranceVault,
        idl_withdrawFromInsuranceVaultToMarket, idl_repegAmmCurve, idl_updateAmmOracleTwap,
        idl_resetAmmOracleTwap, idl_initializeUser, idl_initializeUserWithExplicitPayer,
        idl_deleteUser, idl_settleFundingPayment, idl_updateFundingRate, idl_updateK,
        idl_updateCurveHistory, idl_updateMarginRatio,
        idl_updatePartialLiquidationClosePercentage,
        idl_updatePartialLiquidationPenaltyPercentage,
        idl_updateFullLiquidationPenaltyPercentage,
        idl_updatePartialLiquidationLiquidatorShareDenominator,
        idl_updateFullLiquidationLiquidatorShareDenominator, idl_updateFee,
        idl_updateOracleGuardRails, idl_updateMarketOracle, idl_updateMarketMinimumTradeSize,
        idl_updateAdmin, idl_updateWhitelistMint, idl_updateDiscountMint, idl_updateMaxDeposit,
        idl_updateExchangePaused, idl_disableAdminControlsPrices, idl_updateFundingPaused],
     idl_types = clearingHouseTypes\<rparr>"

subsection \<open>The faucet program\<close>

definition faucet_initialize :: IdlInstruction where
  "faucet_initialize = \<lparr>
     idl_name = ''initialize'',
     idl_accounts =
       [account ''mockUsdcFaucetState'' True False, account ''admin'' False True,
        account ''mintAccount'' False False, account ''rent'' False False,
        account ''systemProgram'' False False],
     idl_args =
       [(''mockUsdcFaucetNonce'', U8)]\<rparr>"

definition faucet_mintToUser :: IdlInstruction where
  "faucet_mintToUser = \<lparr>
     idl_name = ''mintToUser'',
     idl_accounts =
       [account ''mockUsdcFaucetState'' False False, account ''mintAccount'' True False,
        account ''userTokenAccount'' True False, account ''mintAuthority'' False False,
        account ''tokenProgram'' False False],
     idl_args =
       [(''amount'', U64)]\<rparr>"

definition mockUSDCFaucetIDL :: Idl where
  "mockUSDCFaucetIDL = \<lparr>idl_instructions = [faucet_initialize, faucet_mintToUser],
         idl_types = []\<rparr>"

lemmas idl_definitions =
  idl_initialize_def idl_initializeHistory_def idl_initializeMarket_def
  idl_depositCollateral_def idl_withdrawCollateral_def idl_openPosition_def
  idl_closePosition_def idl_liquidate_def idl_moveAmmPrice_def idl_withdrawFees_def
  idl_withdrawFromInsuranceVault_def idl_withdrawFromInsuranceVaultToMarket_def
  idl_repegAmmCurve_def idl_updateAmmOracleTwap_def idl_resetAmmOracleTwap_def
  idl_initializeUser_def idl_initializeUserWithExplicitPayer_def idl_deleteUser_def
  idl_settleFundingPayment_def idl_updateFundingRate_def idl_updateK_def
  idl_updateCurveHistory_def idl_updateMarginRatio_def
  idl_updatePartialLiquidationClosePercentage_def
  idl_updatePartialLiquidationPenaltyPercentage_def
  idl_updateFullLiquidationPenaltyPercentage_def
  idl_updatePartialLiquidationLiquidatorShareDenominator_def
  idl_updateFullLiquidationLiquidatorShareDenominator_def idl_updateFee_def
  idl_updateOracleGuardRails_def idl_updateMarketOracle_def
  idl_updateMarketMinimumTradeSize_def idl_updateAdmin_def idl_updateWhitelistMint_def
  idl_updateDiscountMint_def idl_updateMaxDeposit_def idl_updateExchangePaused_def
  idl_disableAdminControlsPrices_def idl_updateFundingPaused_def

subsection \<open>Looking up instructions\<close>

lemma idl_names:
  "idl_name idl_initialize = ''initialize''"
  "idl_name idl_initializeHistory = ''initializeHistory''"
  "idl_name idl_initializeMarket = ''initializeMarket''"
  "idl_name idl_depositCollateral = ''depositCollateral''"
  "idl_name idl_withdrawCollateral = ''withdrawCollateral''"
  "idl_name idl_openPosition = ''openPosition''"
  "idl_name idl_closePosition = ''closePosition''"
  "idl_name idl_liquidate = ''liquidate''"
  "idl_name idl_moveAmmPrice = ''moveAmmPrice''"
  "idl_name idl_withdrawFees = ''withdrawFees''"
  "idl_name idl_withdrawFromInsuranceVault = ''withdrawFromInsuranceVault''"
  "idl_name idl_withdrawFromInsuranceVaultToMarket = ''withdrawFromInsuranceVaultToMarket''"
  "idl_name idl_repegAmmCurve = ''repegAmmCurve''"
  "idl_name idl_updateAmmOracleTwap = ''updateAmmOracleTwap''"
  "idl_name idl_resetAmmOracleTwap = ''resetAmmOracleTwap''"
  "idl_name idl_initializeUser = ''initializeUser''"
  "idl_name idl_initializeUserWithExplicitPayer = ''initializeUserWithExplicitPayer''"
  "idl_name idl_deleteUser = ''deleteUser''"
  "idl_name idl_settleFundingPayment = ''settleFundingPayment''"
  "idl_name idl_updateFundingRate = ''updateFundingRate''"
  "idl_name idl_updateK = ''updateK''"
  "idl_name idl_updateCurveHistory = ''updateCurveHistory''"
  "idl_name idl_updateMarginRatio = ''updateMarginRatio''"
  "idl_name idl_updatePartialLiquidationClosePercentage = ''updatePartialLiquidationClosePercentage''"
  "idl_name idl_updatePartialLiquidationPenaltyPercentage = ''updatePartialLiquidationPenaltyPercentage''"
  "idl_name idl_updateFullLiquidationPenaltyPercentage = ''updateFullLiquidationPenaltyPercentage''"
  "idl_name idl_updatePartialLiquidationLiquidatorShareDenominator = ''updatePartialLiquidationLiquidatorShareDenominator''"
  "idl_name idl_updateFullLiquidationLiquidatorShareDenominator = ''updateFullLiquidationLiquidatorShareDenominator''"
  "idl_name idl_updateFee = ''updateFee''"
  "idl_name idl_updateOracleGuardRails = ''updateOracleGuardRails''"
  "idl_name idl_updateMarketOracle = ''updateMarketOracle''"
  "idl_name idl_updateMarketMinimumTradeSize = ''updateMarketMinimumTradeSize''"
  "idl_name idl_updateAdmin = ''updateAdmin''"
  "idl_name idl_updateWhitelistMint = ''updateWhitelistMint''"
  "idl_name idl_updateDiscountMint = ''updateDiscountMint''"
  "idl_name idl_updateMaxDeposit = ''updateMaxDeposit''"
  "idl_name idl_updateExchangePaused = ''updateExchangePaused''"
  "idl_name idl_disableAdminControlsPrices = ''disableAdminControlsPrices''"
  "idl_name idl_updateFundingPaused = ''updateFundingPaused''"
  by (simp_all only: idl_definitions IdlInstruction.select_convs)

lemma find_clearing_house [simp]:
  "findInstruction clearingHouseIDL ''initialize'' = Some idl_initialize"
  "findInstruction clearingHouseIDL ''initializeHistory'' = Some idl_initializeHistory"
  "findInstruction clearingHouseIDL ''initializeMarket'' = Some idl_initializeMarket"
  "findInstruction clearingHouseIDL ''depositCollateral'' = Some idl_depositCollateral"
  "findInstruction clearingHouseIDL ''withdrawCollateral'' = Some idl_withdrawCollateral"
  "findInstruction clearingHouseIDL ''openPosition'' = Some idl_openPosition"
  "findInstruction clearingHouseIDL ''closePosition'' = Some idl_closePosition"
  "findInstruction clearingHouseIDL ''liquidate'' = Some idl_liquidate"
  "findInstruction clearingHouseIDL ''moveAmmPrice'' = Some idl_moveAmmPrice"
  "findInstruction clearingHouseIDL ''withdrawFees'' = Some idl_withdrawFees"
  "findInstruction clearingHouseIDL ''withdrawFromInsuranceVault'' = Some idl_withdrawFromInsuranceVault"
  "findInstruction clearingHouseIDL ''withdrawFromInsuranceVaultToMarket'' = Some idl_withdrawFromInsuranceVaultToMarket"
  "findInstruction clearingHouseIDL ''repegAmmCurve'' = Some idl_repegAmmCurve"
  "findInstruction clearingHouseIDL ''updateAmmOracleTwap'' = Some idl_updateAmmOracleTwap"
  "findInstruction clearingHouseIDL ''resetAmmOracleTwap'' = Some idl_resetAmmOracleTwap"
  "findInstruction clearingHouseIDL ''initializeUser'' = Some idl_initializeUser"
  "findInstruction clearingHouseIDL ''initializeUserWithExplicitPayer'' = Some idl_initializeUserWithExplicitPayer"
  "findInstruction clearingHouseIDL ''deleteUser'' = Some idl_deleteUser"
  "findInstruction clearingHouseIDL ''settleFundingPayment'' = Some idl_settleFundingPayment"
  "findInstruction clearingHouseIDL ''updateFundingRate'' = Some idl_updateFundingRate"
  "findInstruction clearingHouseIDL ''updateK'' = Some idl_updateK"
  "findInstruction clearingHouseIDL ''updateCurveHistory'' = Some idl_updateCurveHistory"
  "findInstruction clearingHouseIDL ''updateMarginRatio'' = Some idl_updateMarginRatio"
  "findInstruction clearingHouseIDL ''updatePartialLiquidationClosePercentage'' = Some idl_updatePartialLiquidationClosePercentage"
  "findInstruction clearingHouseIDL ''updatePartialLiquidationPenaltyPercentage'' = Some idl_updatePartialLiquidationPenaltyPercentage"
  "findInstruction clearingHouseIDL ''updateFullLiquidationPenaltyPercentage'' = Some idl_updateFullLiquidationPenaltyPercentage"
  "findInstruction clearingHouseIDL ''updatePartialLiquidationLiquidatorShareDenominator'' = Some idl_updatePartialLiquidationLiquidatorShareDenominator"
  "findInstruction clearingHouseIDL ''updateFullLiquidationLiquidatorShareDenominator'' = Some idl_updateFullLiquidationLiquidatorShareDenominator"
  "findInstruction clearingHouseIDL ''updateFee'' = Some idl_updateFee"
  "findInstruction clearingHouseIDL ''updateOracleGuardRails'' = Some idl_updateOracleGuardRails"
  "findInstruction clearingHouseIDL ''updateMarketOracle'' = Some idl_updateMarketOracle"
  "findInstruction clearingHouseIDL ''updateMarketMinimumTradeSize'' = Some idl_updateMarketMinimumTradeSize"
  "findInstruction clearingHouseIDL ''updateAdmin'' = Some idl_updateAdmin"
  "findInstruction clearingHouseIDL ''updateWhitelistMint'' = Some idl_updateWhitelistMint"
  "findInstruction clearingHouseIDL ''updateDiscountMint'' = Some idl_updateDiscountMint"
  "findInstruction clearingHouseIDL ''updateMaxDeposit'' = Some idl_updateMaxDeposit"
  "findInstruction clearingHouseIDL ''updateExchangePaused'' = Some idl_updateExchangePaused"
  "findInstruction clearingHouseIDL ''disableAdminControlsPrices'' = Some idl_disableAdminControlsPrices"
  "findInstruction clearingHouseIDL ''updateFundingPaused'' = Some idl_updateFundingPaused"
  by (simp_all add: findInstruction_def clearingHouseIDL_def idl_names)

lemma find_faucet [simp]:
  "findInstruction mockUSDCFaucetIDL ''initialize'' = Some faucet_initialize"
  "findInstruction mockUSDCFaucetIDL ''mintToUser'' = Some faucet_mintToUser"
  by (simp_all add: findInstruction_def mockUSDCFaucetIDL_def faucet_initialize_def faucet_mintToUser_def)

end
