(* ===== verification/Chain.thy ===== *)
theory Chain
  imports Effects Idl
begin

section \<open>The chain as the clients see it: addresses, transactions, answers\<close>

text \<open>
  What the client classes share. \<open>Solana\<close> stands for the functions and constants of the Solana
  and SPL libraries that do not depend on the state of the chain: program addresses, associated
  token addresses and the well-known program identifiers. \<open>Rpc\<close> stands for what the node answers
  during one call of a client method; it changes from call to call. Both are arguments of the
  operations. The addresses are those of \<open>sdk/src/addresses.ts\<close>.
\<close>

subsection \<open>Addresses\<close>

text \<open>The seeds of a program address: a text in UTF-8, or the bytes of a public key.\<close>

datatype Seed = Utf8 string | KeyBytes PublicKey

record Solana =
  findProgramAddress :: "Seed list \<Rightarrow> PublicKey \<Rightarrow> PublicKey \<times> int"
  getAssociatedTokenAddress :: "PublicKey \<Rightarrow> PublicKey \<Rightarrow> PublicKey \<Rightarrow> PublicKey \<Rightarrow> PublicKey"
  TOKEN_PROGRAM_ID :: PublicKey
  ASSOCIATED_TOKEN_PROGRAM_ID :: PublicKey
  SYSVAR_RENT_PUBKEY :: PublicKey
  SystemProgramId :: PublicKey

definition getClearingHouseStateAccountPublicKeyAndNonce :: "Solana \<Rightarrow> PublicKey \<Rightarrow> PublicKey \<times> int" where
  "getClearingHouseStateAccountPublicKeyAndNonce sol programId =
     findProgramAddress sol [Utf8 ''clearing_house''] programId"

definition getClearingHouseStateAccountPublicKey :: "Solana \<Rightarrow> PublicKey \<Rightarrow> PublicKey" where
  "getClearingHouseStateAccountPublicKey sol programId =
     fst (getClearingHouseStateAccountPublicKeyAndNonce sol programId)"

definition getUserAccountPublicKeyAndNonce ::
  "Solana \<Rightarrow> PublicKey \<Rightarrow> PublicKey \<Rightarrow> PublicKey \<times> int" where
  "getUserAccountPublicKeyAndNonce sol programId auth =
     findProgramAddress sol [Utf8 ''user'', KeyBytes auth] programId"

definition getUserAccountPublicKey :: "Solana \<Rightarrow> PublicKey \<Rightarrow> PublicKey \<Rightarrow> PublicKey" where
  "getUserAccountPublicKey sol programId auth =
     fst (getUserAccountPublicKeyAndNonce sol programId auth)"

subsection \<open>Transactions\<close>

text \<open>
  The instructions of a transaction: a call of a program with an interface description, the
  creation of an account of a program (\<open>program.account.name.createInstruction(signer)\<close>), and the
  instructions of the system, token and associated token programs the SDK uses.
\<close>

datatype TxInstruction =
    Invoke PublicKey Instruction
  | CreateProgramAccount PublicKey string PublicKey
  | SystemCreateAccount PublicKey PublicKey int int PublicKey
  | InitMint PublicKey PublicKey int PublicKey "PublicKey option"
  | CreateAssociatedTokenAccount PublicKey PublicKey PublicKey PublicKey PublicKey PublicKey

text \<open>\<open>wrapInTx\<close> of \<open>tx/utils.ts\<close>.\<close>

definition wrapInTx :: "TxInstruction \<Rightarrow> TxInstruction list" where
  "wrapInTx ix = [ix]"

text \<open>
  \<open>tx/types.ts\<close>, \<open>tx/defaultTxSender.ts\<close>: the default sender hands a transaction to a provider, which
  signs with its wallet; a custom sender is one the configuration brings.
\<close>

datatype TxSender = DefaultTxSender PublicKey | CustomTxSender nat

datatype Channel = ViaProvider PublicKey | ViaCustom nat

fun channelOf :: "TxSender \<Rightarrow> Channel" where
  "channelOf (DefaultTxSender w) = ViaProvider w"
| "channelOf (CustomTxSender n) = ViaCustom n"

type_synonym ConfirmOptions = string

record Submission =
  sub_channel :: Channel
  sub_tx :: "TxInstruction list"
  sub_signers :: "PublicKey list"
  sub_opts :: "ConfirmOptions option"

subsection \<open>Answers of the node\<close>

text \<open>
  \<open>accountExists\<close> is whether \<open>getParsedAccountInfo\<close> finds an account; the fetches decode an account or
  throw; \<open>submit\<close> is the signature of a transaction that went through, or an error.
\<close>

record FaucetState =
  faucet_mint :: PublicKey
  faucet_mintAuthority :: PublicKey

record Rpc =
  accountExists :: "PublicKey \<Rightarrow> bool result"
  fetchUser :: "PublicKey \<Rightarrow> UserAccount result"
  fetchUserPositions :: "PublicKey \<Rightarrow> UserPositionsAccount result"
  fetchFaucetState :: "PublicKey \<Rightarrow> FaucetState result"
  minBalanceForMint :: "int result"
  submit :: "Submission \<Rightarrow> string result"

subsection \<open>Signatures a transaction needs\<close>

text \<open>
  A program's instruction needs the signatures its description asks for; creating an account
  needs the new account's signature and the payer's.
\<close>

fun instructionSigners :: "(PublicKey \<Rightarrow> Idl) \<Rightarrow> PublicKey \<Rightarrow> TxInstruction \<Rightarrow> PublicKey list" where
  "instructionSigners idlOf payer (Invoke pid ix) = requiredSigners (idlOf pid) ix"
| "instructionSigners idlOf payer (CreateProgramAccount pid name newKey) = [payer, newKey]"
| "instructionSigners idlOf payer (SystemCreateAccount from newKey lamports space pid) = [from, newKey]"
| "instructionSigners idlOf payer (InitMint pid mint decimals auth freeze) = []"
| "instructionSigners idlOf payer (CreateAssociatedTokenAccount ap tp mint ata owner funder) = [funder]"

definition fullySigned :: "(PublicKey \<Rightarrow> Idl) \<Rightarrow> PublicKey \<Rightarrow> Submission \<Rightarrow> bool" where
  "fullySigned idlOf wallet sub =
     list_all (\<lambda>ix. list_all (\<lambda>k. k = wallet \<or> k \<in> set (sub_signers sub))
                      (instructionSigners idlOf wallet ix)) (sub_tx sub)"

text \<open>Every program instruction of a transaction conforms to the description of its program.\<close>

fun instructionConforms :: "(PublicKey \<Rightarrow> Idl) \<Rightarrow> TxInstruction \<Rightarrow> bool" where
  "instructionConforms idlOf (Invoke pid ix) = conforms (idlOf pid) ix"
| "instructionConforms idlOf _ = True"

definition wellFormed :: "(PublicKey \<Rightarrow> Idl) \<Rightarrow> PublicKey \<Rightarrow> Submission \<Rightarrow> bool" where
  "wellFormed idlOf wallet sub \<longleftrightarrow>
     list_all (instructionConforms idlOf) (sub_tx sub) \<and> fullySigned idlOf wallet sub"

lemma wellFormed_Nil [simp]:
  "wellFormed idlOf w \<lparr>sub_channel = c, sub_tx = [], sub_signers = ss, sub_opts = q\<rparr>"
  by (simp add: wellFormed_def fullySigned_def)

lemma wellFormed_Cons [simp]:
  "wellFormed idlOf w \<lparr>sub_channel = c, sub_tx = ix # tx, sub_signers = ss, sub_opts = q\<rparr> \<longleftrightarrow>
     instructionConforms idlOf ix \<and>
     list_all (\<lambda>k. k = w \<or> k \<in> set ss) (instructionSigners idlOf w ix) \<and>
     wellFormed idlOf w \<lparr>sub_channel = c, sub_tx = tx, sub_signers = ss, sub_opts = q\<rparr>"
  by (auto simp: wellFormed_def fullySigned_def)

end
