(* ===== verification/Faucet.thy ===== *)
theory Faucet
  imports Chain
begin

section \<open>MockUSDCFaucet\<close>

text \<open>
  \<open>sdk/src/mockUSDCFaucet.ts\<close>: the client of the test faucet. Its object keeps the wallet, the
  program identifier and the cached address of the faucet's state; \<open>faucet_sent\<close> records what is
  handed to the network.
\<close>

record Faucet =
  faucet_wallet :: PublicKey
  faucet_programId :: PublicKey
  faucet_opts :: "ConfirmOptions option"
  faucet_cachedState :: "PublicKey option"
  faucet_sent :: "Submission list"

definition newFaucet :: "ConfirmOptions \<Rightarrow> PublicKey \<Rightarrow> PublicKey \<Rightarrow> ConfirmOptions option \<Rightarrow> Faucet" where
  "newFaucet defaultOptions wallet programId opts = \<lparr>
     faucet_wallet = wallet, faucet_programId = programId,
     faucet_opts = Some (case opts of None \<Rightarrow> defaultOptions | Some q \<Rightarrow> q),
     faucet_cachedState = None, faucet_sent = []\<rparr>"

text \<open>The provider of the faucet's program is built from the faucet's wallet.\<close>

definition faucetSend ::
  "Rpc \<Rightarrow> TxInstruction list \<Rightarrow> PublicKey list \<Rightarrow> ConfirmOptions option \<Rightarrow> (Faucet, string) eff" where
  "faucetSend rpc tx signers q =
     bindS (getS (\<lambda>f. \<lparr>sub_channel = ViaProvider (faucet_wallet f), sub_tx = tx,
                       sub_signers = signers, sub_opts = q\<rparr>)) (\<lambda>sub.
     bindS (modifyS (\<lambda>f. f\<lparr>faucet_sent := faucet_sent f @ [sub]\<rparr>)) (\<lambda>_.
     liftS (submit rpc sub)))"

definition getMockUSDCFaucetStatePublicKeyAndNonce :: "Solana \<Rightarrow> Faucet \<Rightarrow> PublicKey \<times> int" where
  "getMockUSDCFaucetStatePublicKeyAndNonce sol f =
     findProgramAddress sol [Utf8 ''mock_usdc_faucet''] (faucet_programId f)"

definition getMockUSDCFaucetStatePublicKey :: "Solana \<Rightarrow> (Faucet, PublicKey) eff" where
  "getMockUSDCFaucetStatePublicKey sol =
     bindS (getS faucet_cachedState) (\<lambda>cached.
       case cached of
         Some k \<Rightarrow> returnS k
       | None \<Rightarrow>
           bindS (getS (\<lambda>f. fst (getMockUSDCFaucetStatePublicKeyAndNonce sol f))) (\<lambda>k.
           bindS (modifyS (faucet_cachedState_update (\<lambda>_. Some k))) (\<lambda>_. returnS k)))"

text \<open>\<open>fresh\<close> is the new key pair's public key, \<open>mintSpan\<close> the size of a mint account (\<open>MintLayout.span\<close>).\<close>

definition faucetInitialize ::
  "Solana \<Rightarrow> Rpc \<Rightarrow> int \<Rightarrow> PublicKey \<Rightarrow> (Faucet, string) eff" where
  "faucetInitialize sol rpc mintSpan fresh =
     bindS (getMockUSDCFaucetStatePublicKey sol) (\<lambda>stateKey.
     bindS (liftS (accountExists rpc stateKey)) (\<lambda>found.
     if found then throwS (Error ''Faucet already initialized'')
     else
       bindS (getS id) (\<lambda>f.
       bindS (liftS (minBalanceForMint rpc)) (\<lambda>lamports.
       let createUSDCMintAccountIx =
             SystemCreateAccount (faucet_wallet f) fresh lamports mintSpan (TOKEN_PROGRAM_ID sol);
           mintAuthority = fst (findProgramAddress sol [KeyBytes fresh] (faucet_programId f));
           initUSDCMintIx = InitMint (TOKEN_PROGRAM_ID sol) fresh 6 mintAuthority None;
           (stateKey', nonce) = getMockUSDCFaucetStatePublicKeyAndNonce sol f
       in faucetSend rpc
            [createUSDCMintAccountIx, initUSDCMintIx,
             Invoke (faucet_programId f)
               (instruction ''initialize'' [ANum nonce]
                  [(''mockUsdcFaucetState'', stateKey'), (''admin'', faucet_wallet f),
                   (''mintAccount'', fresh), (''rent'', SYSVAR_RENT_PUBKEY sol),
                   (''systemProgram'', SystemProgramId sol)] [])]
            [fresh] None))))"

definition fetchState :: "Solana \<Rightarrow> Rpc \<Rightarrow> (Faucet, FaucetState) eff" where
  "fetchState sol rpc =
     bindS (getMockUSDCFaucetStatePublicKey sol) (\<lambda>k. liftS (fetchFaucetState rpc k))"

text \<open>The call of the program's \<open>mintToUser\<close> that two methods share.\<close>

definition mintToUserIx ::
  "Solana \<Rightarrow> FaucetState \<Rightarrow> PublicKey \<Rightarrow> BN \<Rightarrow> (Faucet, TxInstruction) eff" where
  "mintToUserIx sol state userTokenAccount amount =
     bindS (getMockUSDCFaucetStatePublicKey sol) (\<lambda>stateKey.
     getS (\<lambda>f. Invoke (faucet_programId f)
       (instruction ''mintToUser'' [ABN amount]
          [(''mockUsdcFaucetState'', stateKey), (''mintAccount'', faucet_mint state),
           (''userTokenAccount'', userTokenAccount), (''mintAuthority'', faucet_mintAuthority state),
           (''tokenProgram'', TOKEN_PROGRAM_ID sol)] [])))"

definition mintToUser :: "Solana \<Rightarrow> Rpc \<Rightarrow> PublicKey \<Rightarrow> BN \<Rightarrow> (Faucet, string) eff" where
  "mintToUser sol rpc userTokenAccount amount =
     bindS (fetchState sol rpc) (\<lambda>state.
     bindS (mintToUserIx sol state userTokenAccount amount) (\<lambda>ix. faucetSend rpc [ix] [] None))"

definition getAssosciatedMockUSDMintAddress :: "Solana \<Rightarrow> Rpc \<Rightarrow> PublicKey \<Rightarrow> (Faucet, PublicKey) eff" where
  "getAssosciatedMockUSDMintAddress sol rpc userPubKey =
     bindS (fetchState sol rpc) (\<lambda>state.
     returnS (getAssociatedTokenAddress sol (ASSOCIATED_TOKEN_PROGRAM_ID sol) (TOKEN_PROGRAM_ID sol)
                (faucet_mint state) userPubKey))"

definition createAssociatedTokenAccountAndMintToInstructions ::
  "Solana \<Rightarrow> Rpc \<Rightarrow> PublicKey \<Rightarrow> BN \<Rightarrow> (Faucet, PublicKey \<times> TxInstruction \<times> TxInstruction) eff" where
  "createAssociatedTokenAccountAndMintToInstructions sol rpc userPublicKey amount =
     bindS (fetchState sol rpc) (\<lambda>state.
     bindS (getAssosciatedMockUSDMintAddress sol rpc userPublicKey) (\<lambda>ata.
     bindS (getS faucet_wallet) (\<lambda>wallet.
     bindS (mintToUserIx sol state ata amount) (\<lambda>mintToIx.
     returnS (ata,
       CreateAssociatedTokenAccount (ASSOCIATED_TOKEN_PROGRAM_ID sol) (TOKEN_PROGRAM_ID sol)
         (faucet_mint state) ata userPublicKey wallet,
       mintToIx)))))"

definition createAssociatedTokenAccountAndMintTo ::
  "Solana \<Rightarrow> Rpc \<Rightarrow> PublicKey \<Rightarrow> BN \<Rightarrow> (Faucet, PublicKey \<times> string) eff" where
  "createAssociatedTokenAccountAndMintTo sol rpc userPublicKey amount =
     bindS (createAssociatedTokenAccountAndMintToInstructions sol rpc userPublicKey amount)
       (\<lambda>(ata, createIx, mintToTx).
     bindS (getS faucet_opts) (\<lambda>q.
     bindS (faucetSend rpc [createIx, mintToTx] [] q) (\<lambda>sig. returnS (ata, sig))))"

text \<open>
  \<open>getTokenAccountInfo\<close> and \<open>subscribeToTokenAccount\<close>: \<open>readToken\<close> is \<open>Token.getAccountInfo\<close>. The
  callback gets the token account at once; the result says whether the subscription was made, and
  for which account the connection then listens.
\<close>

definition getTokenAccountInfo ::
  "Solana \<Rightarrow> Rpc \<Rightarrow> (PublicKey \<Rightarrow> PublicKey \<Rightarrow> 'a result) \<Rightarrow> PublicKey \<Rightarrow> (Faucet, 'a) eff" where
  "getTokenAccountInfo sol rpc readToken userPubKey =
     bindS (getAssosciatedMockUSDMintAddress sol rpc userPubKey) (\<lambda>key.
     bindS (fetchState sol rpc) (\<lambda>state. liftS (readToken (faucet_mint state) key)))"

definition subscribeToTokenAccount ::
  "Solana \<Rightarrow> Rpc \<Rightarrow> (PublicKey \<Rightarrow> PublicKey \<Rightarrow> 'a result) \<Rightarrow> ('a \<Rightarrow> unit result) \<Rightarrow> PublicKey \<Rightarrow>
     Faucet \<Rightarrow> bool \<times> PublicKey option \<times> Faucet" where
  "subscribeToTokenAccount sol rpc readToken callback userPubKey f =
     (case bindS (getAssosciatedMockUSDMintAddress sol rpc userPubKey) (\<lambda>key.
             bindS (getTokenAccountInfo sol rpc readToken userPubKey) (\<lambda>info.
             bindS (liftS (callback info)) (\<lambda>_. returnS key))) f of
        (Inl e, f') \<Rightarrow> (False, None, f')
      | (Inr key, f') \<Rightarrow> (True, Some key, f'))"

subsection \<open>What the faucet sends\<close>

text \<open>
  The faucet keeps its wallet and program, its cached address is the derived one, and what it
  sent after the first \<open>n\<close> transactions conforms to its description and is fully signed.
\<close>

definition faucetOk :: "Solana \<Rightarrow> PublicKey \<Rightarrow> PublicKey \<Rightarrow> nat \<Rightarrow> Faucet \<Rightarrow> bool" where
  "faucetOk sol pid w n f \<longleftrightarrow>
     faucet_wallet f = w \<and> faucet_programId f = pid \<and>
     (\<forall>k. faucet_cachedState f = Some k \<longrightarrow> k = fst (findProgramAddress sol [Utf8 ''mock_usdc_faucet''] pid)) \<and>
     n \<le> length (faucet_sent f) \<and>
     list_all (wellFormed (\<lambda>_. mockUSDCFaucetIDL) w) (drop n (faucet_sent f))"

lemma faucetOkD:
  assumes "faucetOk sol pid w n f"
  shows "faucet_wallet f = w" "faucet_programId f = pid"
  using assms by (simp_all add: faucetOk_def)

lemma ok_faucetSend [keeps_rules]:
  "(\<And>c. wellFormed (\<lambda>_. mockUSDCFaucetIDL) w
      \<lparr>sub_channel = c, sub_tx = tx, sub_signers = ss, sub_opts = q\<rparr>) \<Longrightarrow>
     keeps (faucetOk sol pid w n) (faucetSend rpc tx ss q) (\<lambda>_. True)"
  unfolding faucetSend_def by (intro keeps_rules) (auto simp: faucetOk_def)

lemma ok_faucetState:
  "keeps (faucetOk sol pid w n) (getMockUSDCFaucetStatePublicKey sol) (\<lambda>_. True)"
  unfolding getMockUSDCFaucetStatePublicKey_def getMockUSDCFaucetStatePublicKeyAndNonce_def
  by (intro keeps_rules) (auto simp: faucetOk_def)

lemmas bind_faucetState [keeps_rules] = keeps_bind [OF ok_faucetState]

lemma ok_fetchState: "keeps (faucetOk sol pid w n) (fetchState sol rpc) (\<lambda>_. True)"
  unfolding fetchState_def by (intro keeps_rules) simp

lemmas bind_fetchState [keeps_rules] = keeps_bind [OF ok_fetchState]

lemma ok_tokenAddress: "keeps (faucetOk sol pid w n) (getAssosciatedMockUSDMintAddress sol rpc k) (\<lambda>_. True)"
  unfolding getAssosciatedMockUSDMintAddress_def by (intro keeps_rules) simp

lemmas bind_tokenAddress [keeps_rules] = keeps_bind [OF ok_tokenAddress]

lemmas faucet_conform_simps = conforms_def argsConform_def accountsGiven_def requiredSigners_def
  List.map_filter_simps faucet_initialize_def faucet_mintToUser_def

text \<open>A call of the faucet's \<open>mintToUser\<close> that conforms and needs no signature.\<close>

definition mintCall :: "PublicKey \<Rightarrow> TxInstruction \<Rightarrow> bool" where
  "mintCall pid ix \<longleftrightarrow>
     (\<exists>i. ix = Invoke pid i \<and> conforms mockUSDCFaucetIDL i \<and> requiredSigners mockUSDCFaucetIDL i = [])"

lemma ok_mintToUserIx:
  "keeps (faucetOk sol pid w n) (mintToUserIx sol state k a) (mintCall pid)"
  unfolding mintToUserIx_def
  by (intro keeps_rules) (simp add: faucetOkD mintCall_def faucet_conform_simps)

lemmas bind_mintToUserIx [keeps_rules] = keeps_bind [OF ok_mintToUserIx]

lemma ok_createInstructions:
  "keeps (faucetOk sol pid w n) (createAssociatedTokenAccountAndMintToInstructions sol rpc k a)
     (\<lambda>(ata, createIx, mintIx). mintCall pid mintIx \<and>
        (\<exists>ap tp m t owner. createIx = CreateAssociatedTokenAccount ap tp m t owner w))"
  unfolding createAssociatedTokenAccountAndMintToInstructions_def
  by (intro keeps_rules) (auto simp: faucetOkD)

lemma ok_faucetInitialize: "keeps (faucetOk sol pid w n) (faucetInitialize sol rpc span fresh) (\<lambda>_. True)"
  unfolding faucetInitialize_def Let_def
  by (intro keeps_rules) (auto simp: faucetOkD faucet_conform_simps)

lemma ok_mintToUser: "keeps (faucetOk sol pid w n) (mintToUser sol rpc k a) (\<lambda>_. True)"
  unfolding mintToUser_def
  by (intro keeps_rules) (auto simp: mintCall_def)

lemma ok_createAndMintTo:
  "keeps (faucetOk sol pid w n) (createAssociatedTokenAccountAndMintTo sol rpc k a) (\<lambda>_. True)"
  unfolding createAssociatedTokenAccountAndMintTo_def
  by (rule keeps_bind [OF ok_createInstructions])
    (intro keeps_rules keeps_bind [OF ok_faucetSend], auto simp: mintCall_def)

text \<open>
  Every transaction of the faucet, whatever the node answers, conforms to the description of the
  faucet's program and carries the signatures it needs: the wallet's, and the new mint account's
  when the faucet is initialised.
\<close>

theorem faucet_transactions_good:
  assumes "faucetOk sol pid w 0 f"
    and "f' \<in> {snd (faucetInitialize sol rpc span fresh f), snd (mintToUser sol rpc k a f),
               snd (createAssociatedTokenAccountAndMintTo sol rpc k a f)}"
  shows "faucetOk sol pid w 0 f' \<and> list_all (wellFormed (\<lambda>_. mockUSDCFaucetIDL) w) (faucet_sent f')"
proof -
  have "faucetOk sol pid w 0 f'"
    using assms keepsD(1) [OF ok_faucetInitialize assms(1) surjective_pairing]
      keepsD(1) [OF ok_mintToUser assms(1) surjective_pairing]
      keepsD(1) [OF ok_createAndMintTo assms(1) surjective_pairing] by auto
  then show ?thesis by (simp add: faucetOk_def)
qed

end
