(* ===== verification/ClearingHouse.thy ===== *)
theory ClearingHouse
  imports Faucet
begin

section \<open>ClearingHouse: the client and its instructions\<close>

text \<open>
  \<open>sdk/src/clearingHouse.ts\<close>. The record \<open>Client\<close> holds the fields of a \<open>ClearingHouse\<close> object: the
  wallet, the program with the wallet of its provider, the sender of transactions, the options,
  and the caches of three lookups (the address of the state account, the address of the user's
  account, and the user's account itself). \<open>sub_state\<close> and \<open>sub_markets\<close> are what the getters of the
  account subscriber return (they throw while it is not subscribed); \<open>outbox\<close> records the
  transactions handed to the network. Every method is an effect on the record; \<open>Solana\<close> and \<open>Rpc\<close>
  are arguments.
\<close>

record Client =
  wallet :: PublicKey
  programId :: PublicKey
  programWallet :: PublicKey
  provider :: "PublicKey option"
  opts :: "ConfirmOptions option"
  txSender :: TxSender
  cachedStateKey :: "PublicKey option"
  cachedUserKey :: "PublicKey option"
  cachedUser :: "UserAccount option"
  sub_state :: "StateAccount result"
  sub_markets :: "MarketsAccount result"
  outbox :: "Submission list"

text \<open>The constructor; the subscriber has not been started.\<close>

definition newClient ::
  "PublicKey \<Rightarrow> PublicKey \<Rightarrow> PublicKey \<Rightarrow> TxSender \<Rightarrow> ConfirmOptions option \<Rightarrow>
     StateAccount result \<Rightarrow> MarketsAccount result \<Rightarrow> Client" where
  "newClient w pid programW sender q st ms = \<lparr>
     wallet = w, programId = pid, programWallet = programW, provider = None, opts = q,
     txSender = sender, cachedStateKey = None, cachedUserKey = None, cachedUser = None,
     sub_state = st, sub_markets = ms, outbox = []\<rparr>"

subsection \<open>Sending\<close>

definition submitVia ::
  "Rpc \<Rightarrow> Submission \<Rightarrow> (Client, string) eff" where
  "submitVia rpc sub =
     bindS (modifyS (\<lambda>c. c\<lparr>outbox := outbox c @ [sub]\<rparr>)) (\<lambda>_. liftS (submit rpc sub))"

text \<open>\<open>this.txSender.send(tx, signers, opts)\<close>.\<close>

definition txSenderSend ::
  "Rpc \<Rightarrow> TxInstruction list \<Rightarrow> PublicKey list \<Rightarrow> ConfirmOptions option \<Rightarrow> (Client, string) eff" where
  "txSenderSend rpc tx signers q =
     bindS (getS (\<lambda>c. channelOf (txSender c))) (\<lambda>ch.
     submitVia rpc \<lparr>sub_channel = ch, sub_tx = tx, sub_signers = signers, sub_opts = q\<rparr>)"

text \<open>\<open>this.program.provider.send(tx, signers)\<close>, which \<open>program.rpc\<close> uses too.\<close>

definition providerSend ::
  "Rpc \<Rightarrow> TxInstruction list \<Rightarrow> PublicKey list \<Rightarrow> (Client, string) eff" where
  "providerSend rpc tx signers =
     bindS (getS programWallet) (\<lambda>w.
     submitVia rpc \<lparr>sub_channel = ViaProvider w, sub_tx = tx, sub_signers = signers, sub_opts = None\<rparr>)"

text \<open>\<open>this.program.instruction.name(...)\<close>.\<close>

definition programIx :: "Instruction \<Rightarrow> (Client, TxInstruction) eff" where
  "programIx ix = getS (\<lambda>c. Invoke (programId c) ix)"

subsection \<open>Lookups and their caches\<close>

definition getStatePublicKey :: "Solana \<Rightarrow> (Client, PublicKey) eff" where
  "getStatePublicKey sol =
     bindS (getS cachedStateKey) (\<lambda>cached.
       case cached of
         Some k \<Rightarrow> returnS k
       | None \<Rightarrow>
           bindS (getS (\<lambda>c. getClearingHouseStateAccountPublicKey sol (programId c))) (\<lambda>k.
           bindS (modifyS (cachedStateKey_update (\<lambda>_. Some k))) (\<lambda>_. returnS k)))"

definition getUserAccountPublicKeyOf :: "Solana \<Rightarrow> (Client, PublicKey) eff" where
  "getUserAccountPublicKeyOf sol =
     bindS (getS cachedUserKey) (\<lambda>cached.
       case cached of
         Some k \<Rightarrow> returnS k
       | None \<Rightarrow>
           bindS (getS (\<lambda>c. getUserAccountPublicKey sol (programId c) (wallet c))) (\<lambda>k.
           bindS (modifyS (cachedUserKey_update (\<lambda>_. Some k))) (\<lambda>_. returnS k)))"

definition getUserAccountOf :: "Solana \<Rightarrow> Rpc \<Rightarrow> (Client, UserAccount) eff" where
  "getUserAccountOf sol rpc =
     bindS (getS cachedUser) (\<lambda>cached.
       case cached of
         Some u \<Rightarrow> returnS u
       | None \<Rightarrow>
           bindS (getUserAccountPublicKeyOf sol) (\<lambda>k.
           bindS (liftS (fetchUser rpc k)) (\<lambda>u.
           bindS (modifyS (cachedUser_update (\<lambda>_. Some u))) (\<lambda>_. returnS u))))"

text \<open>
  \<open>updateWallet\<close> builds a provider, a program and a default sender for the new wallet and forgets
  the user's account.
\<close>

definition updateWallet :: "PublicKey \<Rightarrow> Client \<Rightarrow> Client" where
  "updateWallet newWallet c = c\<lparr>
     wallet := newWallet, provider := Some newWallet, programWallet := newWallet,
     txSender := DefaultTxSender newWallet, cachedUserKey := None, cachedUser := None\<rparr>"

text \<open>\<open>this.getMarketsAccount().markets[i.toNumber()]\<close>, \<open>undefined\<close> out of range.\<close>

definition marketAt :: "BN \<Rightarrow> Client \<Rightarrow> Market option result" where
  "marketAt mi c =
     bindE (sub_markets c) (\<lambda>ma. bindE (bn_toNumber mi) (\<lambda>i. Inr (js_index (MarketsAccount.markets ma) i)))"

text \<open>\<open>this.getMarketsAccount().markets[i.toNumber()].amm.oracle\<close>.\<close>

definition oracleOf :: "BN \<Rightarrow> Client \<Rightarrow> PublicKey result" where
  "oracleOf mi c = bindE (marketAt mi c) (\<lambda>m. bindE (deref m) (\<lambda>market. Inr (amm_oracle (amm market))))"

subsection \<open>Creating a user\<close>

text \<open>
  The whitelist mint of the state is a public key, an object, and objects count as true: the
  condition \<open>if (state.whitelistMint)\<close> always holds. \<open>fresh\<close> is the new key pair's public key.
\<close>

definition getInitializeUserInstructions ::
  "Solana \<Rightarrow> PublicKey \<Rightarrow> (Client, PublicKey \<times> PublicKey \<times> TxInstruction) eff" where
  "getInitializeUserInstructions sol fresh =
     bindS (getS (\<lambda>c. getUserAccountPublicKeyAndNonce sol (programId c) (wallet c))) (\<lambda>(userKey, nonce).
     bindS (readS sub_state) (\<lambda>state.
     bindS (getS wallet) (\<lambda>w.
     let whitelistAccount =
           getAssociatedTokenAddress sol (ASSOCIATED_TOKEN_PROGRAM_ID sol) (TOKEN_PROGRAM_ID sol)
             (whitelistMint state) w
     in
     bindS (getStatePublicKey sol) (\<lambda>stateKey.
     bindS (programIx (instruction ''initializeUser''
              [ANum nonce, AStruct [(''whitelistToken'', ABool True)]]
              [(''user'', userKey), (''authority'', w), (''rent'', SYSVAR_RENT_PUBKEY sol),
               (''systemProgram'', SystemProgramId sol), (''userPositions'', fresh),
               (''state'', stateKey)]
              [\<lparr>pubkey = whitelistAccount, isWritable = False, isSigner = False\<rparr>])) (\<lambda>ix.
     returnS (fresh, userKey, ix))))))"

definition initializeUserAccount ::
  "Solana \<Rightarrow> Rpc \<Rightarrow> PublicKey \<Rightarrow> (Client, string \<times> PublicKey) eff" where
  "initializeUserAccount sol rpc fresh =
     bindS (getInitializeUserInstructions sol fresh) (\<lambda>(userPositionsKey, userKey, ix).
     bindS (getS opts) (\<lambda>q.
     bindS (txSenderSend rpc [ix] [userPositionsKey] q) (\<lambda>txSig. returnS (txSig, userKey))))"

subsection \<open>Collateral\<close>

definition getDepositCollateralInstruction ::
  "Solana \<Rightarrow> Rpc \<Rightarrow> BN \<Rightarrow> PublicKey \<Rightarrow> PublicKey option \<Rightarrow> (Client, TxInstruction) eff" where
  "getDepositCollateralInstruction sol rpc amount collateralKey positionsKey =
     bindS (getUserAccountPublicKeyOf sol) (\<lambda>userKey.
     bindS (case positionsKey of
              Some k \<Rightarrow> returnS k
            | None \<Rightarrow> bindS (getUserAccountOf sol rpc) (\<lambda>u. returnS (UserAccount.positions u))) (\<lambda>posKey.
     bindS (readS sub_state) (\<lambda>state.
     bindS (getStatePublicKey sol) (\<lambda>stateKey.
     bindS (getS wallet) (\<lambda>w.
     programIx (instruction ''depositCollateral'' [ABN amount]
       [(''state'', stateKey), (''user'', userKey), (''collateralVault'', collateralVault state),
        (''userCollateralAccount'', collateralKey), (''authority'', w),
        (''tokenProgram'', TOKEN_PROGRAM_ID sol), (''markets'', StateAccount.markets state),
        (''fundingPaymentHistory'', fundingPaymentHistory state),
        (''depositHistory'', depositHistory state), (''userPositions'', posKey)] []))))))"

definition depositCollateral ::
  "Solana \<Rightarrow> Rpc \<Rightarrow> BN \<Rightarrow> PublicKey \<Rightarrow> PublicKey option \<Rightarrow> (Client, string) eff" where
  "depositCollateral sol rpc amount collateralKey positionsKey =
     bindS (getDepositCollateralInstruction sol rpc amount collateralKey positionsKey) (\<lambda>ix.
     txSenderSend rpc [ix] [] None)"

definition initializeUserAccountAndDepositCollateral ::
  "Solana \<Rightarrow> Rpc \<Rightarrow> PublicKey \<Rightarrow> BN \<Rightarrow> PublicKey \<Rightarrow> (Client, string \<times> PublicKey) eff" where
  "initializeUserAccountAndDepositCollateral sol rpc fresh amount collateralKey =
     bindS (getInitializeUserInstructions sol fresh) (\<lambda>(posKey, userKey, initIx).
     bindS (getDepositCollateralInstruction sol rpc amount collateralKey (Some posKey)) (\<lambda>depositIx.
     bindS (providerSend rpc [initIx, depositIx] [posKey]) (\<lambda>txSig. returnS (txSig, userKey))))"

text \<open>The method works on two objects, the faucet that is passed to it and the client.\<close>

definition initializeUserAccountForDevnet ::
  "Solana \<Rightarrow> Rpc \<Rightarrow> PublicKey \<Rightarrow> BN \<Rightarrow> (Faucet \<times> Client, string \<times> PublicKey) eff" where
  "initializeUserAccountForDevnet sol rpc fresh amount =
     bindS (onSnd (getS wallet)) (\<lambda>w.
     bindS (onFst (createAssociatedTokenAccountAndMintToInstructions sol rpc w amount))
       (\<lambda>(ata, createIx, mintToIx).
     bindS (onSnd (getInitializeUserInstructions sol fresh)) (\<lambda>(posKey, userKey, initIx).
     bindS (onSnd (getDepositCollateralInstruction sol rpc amount ata (Some posKey))) (\<lambda>depositIx.
     bindS (onSnd (providerSend rpc [createIx, mintToIx, initIx, depositIx] [posKey])) (\<lambda>txSig.
     returnS (txSig, userKey))))))"

definition deleteUser :: "Solana \<Rightarrow> Rpc \<Rightarrow> (Client, string) eff" where
  "deleteUser sol rpc =
     bindS (getUserAccountPublicKeyOf sol) (\<lambda>userKey.
     bindS (liftS (fetchUser rpc userKey)) (\<lambda>u.
     bindS (getS wallet) (\<lambda>w.
     bindS (programIx (instruction ''deleteUser'' []
              [(''user'', userKey), (''userPositions'', UserAccount.positions u), (''authority'', w)] [])) (\<lambda>ix.
     bindS (getS opts) (\<lambda>q. txSenderSend rpc [ix] [] q)))))"

definition getWithdrawCollateralIx ::
  "Solana \<Rightarrow> Rpc \<Rightarrow> BN \<Rightarrow> PublicKey \<Rightarrow> (Client, TxInstruction) eff" where
  "getWithdrawCollateralIx sol rpc amount collateralKey =
     bindS (getUserAccountPublicKeyOf sol) (\<lambda>userKey.
     bindS (liftS (fetchUser rpc userKey)) (\<lambda>u.
     bindS (readS sub_state) (\<lambda>state.
     bindS (getStatePublicKey sol) (\<lambda>stateKey.
     bindS (getS wallet) (\<lambda>w.
     programIx (instruction ''withdrawCollateral'' [ABN amount]
       [(''state'', stateKey), (''user'', userKey), (''collateralVault'', collateralVault state),
        (''collateralVaultAuthority'', collateralVaultAuthority state),
        (''insuranceVault'', insuranceVault state),
        (''insuranceVaultAuthority'', insuranceVaultAuthority state),
        (''userCollateralAccount'', collateralKey), (''authority'', w),
        (''tokenProgram'', TOKEN_PROGRAM_ID sol), (''markets'', StateAccount.markets state),
        (''userPositions'', UserAccount.positions u),
        (''fundingPaymentHistory'', fundingPaymentHistory state),
        (''depositHistory'', depositHistory state)] []))))))"

text \<open>The public methods send the instruction, wrapped in a transaction, with the client's options.\<close>

definition sendIx :: "Rpc \<Rightarrow> (Client, TxInstruction) eff \<Rightarrow> (Client, string) eff" where
  "sendIx rpc build =
     bindS build (\<lambda>ix. bindS (getS opts) (\<lambda>q. txSenderSend rpc (wrapInTx ix) [] q))"

definition withdrawCollateral :: "Solana \<Rightarrow> Rpc \<Rightarrow> BN \<Rightarrow> PublicKey \<Rightarrow> (Client, string) eff" where
  "withdrawCollateral sol rpc amount collateralKey =
     sendIx rpc (getWithdrawCollateralIx sol rpc amount collateralKey)"

subsection \<open>Positions\<close>

text \<open>The optional accounts of \<open>openPosition\<close> and \<open>closePosition\<close>: the flags and \<open>remainingAccounts\<close>.\<close>

definition optionalFlags :: "PublicKey option \<Rightarrow> PublicKey option \<Rightarrow> Arg" where
  "optionalFlags discountToken referrer =
     AStruct [(''discountToken'', ABool (discountToken \<noteq> None)), (''referrer'', ABool (referrer \<noteq> None))]"

definition optionalAccounts :: "PublicKey option \<Rightarrow> PublicKey option \<Rightarrow> AccountMeta list" where
  "optionalAccounts discountToken referrer =
     (case discountToken of None \<Rightarrow> [] | Some k \<Rightarrow> [\<lparr>pubkey = k, isWritable = False, isSigner = False\<rparr>]) @
     (case referrer of None \<Rightarrow> [] | Some k \<Rightarrow> [\<lparr>pubkey = k, isWritable = True, isSigner = False\<rparr>])"

text \<open>\<open>{ long: {} }\<close> and \<open>{ short: {} }\<close>.\<close>

fun directionArg :: "PositionDirection \<Rightarrow> Arg" where
  "directionArg LONG = AEnum ''long''"
| "directionArg SHORT = AEnum ''short''"

text \<open>The accounts object that opening and closing share.\<close>

definition positionAccounts ::
  "PublicKey \<Rightarrow> PublicKey \<Rightarrow> PublicKey \<Rightarrow> StateAccount \<Rightarrow> UserAccount \<Rightarrow> PublicKey \<Rightarrow>
     (string \<times> PublicKey) list" where
  "positionAccounts stateKey userKey w state u priceOracle =
     [(''state'', stateKey), (''user'', userKey), (''authority'', w),
      (''markets'', StateAccount.markets state), (''userPositions'', UserAccount.positions u),
      (''tradeHistory'', tradeHistory state),
      (''fundingPaymentHistory'', fundingPaymentHistory state),
      (''fundingRateHistory'', fundingRateHistory state), (''oracle'', priceOracle)]"

definition getOpenPositionIx ::
  "Solana \<Rightarrow> Rpc \<Rightarrow> PositionDirection \<Rightarrow> BN \<Rightarrow> BN \<Rightarrow> BN option \<Rightarrow> PublicKey option \<Rightarrow>
     PublicKey option \<Rightarrow> (Client, TxInstruction) eff" where
  "getOpenPositionIx sol rpc direction amount mi limitPrice discountToken referrer =
     bindS (getUserAccountPublicKeyOf sol) (\<lambda>userKey.
     bindS (getUserAccountOf sol rpc) (\<lambda>u.
     let limit = (case limitPrice of None \<Rightarrow> 0 | Some l \<Rightarrow> l) in
     bindS (readS (oracleOf mi)) (\<lambda>priceOracle.
     bindS (readS sub_state) (\<lambda>state.
     bindS (getStatePublicKey sol) (\<lambda>stateKey.
     bindS (getS wallet) (\<lambda>w.
     programIx (instruction ''openPosition''
       [directionArg direction, ABN amount, ABN mi, ABN limit, optionalFlags discountToken referrer]
       (positionAccounts stateKey userKey w state u priceOracle)
       (optionalAccounts discountToken referrer))))))))"

definition openPosition ::
  "Solana \<Rightarrow> Rpc \<Rightarrow> PositionDirection \<Rightarrow> BN \<Rightarrow> BN \<Rightarrow> BN option \<Rightarrow> PublicKey option \<Rightarrow>
     PublicKey option \<Rightarrow> (Client, string) eff" where
  "openPosition sol rpc direction amount mi limitPrice discountToken referrer =
     sendIx rpc (getOpenPositionIx sol rpc direction amount mi limitPrice discountToken referrer)"

definition getClosePositionIx ::
  "Solana \<Rightarrow> Rpc \<Rightarrow> BN \<Rightarrow> PublicKey option \<Rightarrow> PublicKey option \<Rightarrow> (Client, TxInstruction) eff" where
  "getClosePositionIx sol rpc mi discountToken referrer =
     bindS (getUserAccountPublicKeyOf sol) (\<lambda>userKey.
     bindS (getUserAccountOf sol rpc) (\<lambda>u.
     bindS (readS (oracleOf mi)) (\<lambda>priceOracle.
     bindS (readS sub_state) (\<lambda>state.
     bindS (getStatePublicKey sol) (\<lambda>stateKey.
     bindS (getS wallet) (\<lambda>w.
     programIx (instruction ''closePosition''
       [ABN mi, optionalFlags discountToken referrer]
       (positionAccounts stateKey userKey w state u priceOracle)
       (optionalAccounts discountToken referrer))))))))"

definition closePosition ::
  "Solana \<Rightarrow> Rpc \<Rightarrow> BN \<Rightarrow> PublicKey option \<Rightarrow> PublicKey option \<Rightarrow> (Client, string) eff" where
  "closePosition sol rpc mi discountToken referrer =
     sendIx rpc (getClosePositionIx sol rpc mi discountToken referrer)"

subsection \<open>Liquidation\<close>

text \<open>The loop over the positions: the oracle of the market of every position that is not empty.\<close>

fun liquidationOracles :: "Market list \<Rightarrow> UserPosition list \<Rightarrow> AccountMeta list result" where
  "liquidationOracles ms [] = Inr []"
| "liquidationOracles ms (p # ps) =
     (if UserPosition.baseAssetAmount p \<noteq> 0 then
        bindE (bn_toNumber (UserPosition.marketIndex p)) (\<lambda>i.
        bindE (deref (js_index ms i)) (\<lambda>market.
        bindE (liquidationOracles ms ps) (\<lambda>rest.
        Inr (\<lparr>pubkey = amm_oracle (amm market), isWritable = False, isSigner = False\<rparr> # rest))))
      else liquidationOracles ms ps)"

definition getLiquidateIx :: "Solana \<Rightarrow> Rpc \<Rightarrow> PublicKey \<Rightarrow> (Client, TxInstruction) eff" where
  "getLiquidateIx sol rpc liquidateeKey =
     bindS (getUserAccountPublicKeyOf sol) (\<lambda>userKey.
     bindS (liftS (fetchUser rpc liquidateeKey)) (\<lambda>liquidatee.
     bindS (liftS (fetchUserPositions rpc (UserAccount.positions liquidatee))) (\<lambda>posAccount.
     bindS (readS sub_markets) (\<lambda>ma.
     bindS (liftS (liquidationOracles (MarketsAccount.markets ma)
                     (UserPositionsAccount.positions posAccount))) (\<lambda>remaining.
     bindS (readS sub_state) (\<lambda>state.
     bindS (getStatePublicKey sol) (\<lambda>stateKey.
     bindS (getS wallet) (\<lambda>w.
     programIx (instruction ''liquidate'' []
       [(''state'', stateKey), (''authority'', w), (''user'', liquidateeKey),
        (''liquidator'', userKey), (''collateralVault'', collateralVault state),
        (''collateralVaultAuthority'', collateralVaultAuthority state),
        (''insuranceVault'', insuranceVault state),
        (''insuranceVaultAuthority'', insuranceVaultAuthority state),
        (''tokenProgram'', TOKEN_PROGRAM_ID sol), (''markets'', StateAccount.markets state),
        (''userPositions'', UserAccount.positions liquidatee),
        (''tradeHistory'', tradeHistory state), (''liquidationHistory'', liquidationHistory state),
        (''fundingPaymentHistory'', fundingPaymentHistory state)] remaining)))))))))"

definition liquidate :: "Solana \<Rightarrow> Rpc \<Rightarrow> PublicKey \<Rightarrow> (Client, string) eff" where
  "liquidate sol rpc liquidateeKey = sendIx rpc (getLiquidateIx sol rpc liquidateeKey)"

subsection \<open>Funding\<close>

definition getUpdateFundingRateIx :: "Solana \<Rightarrow> PublicKey \<Rightarrow> BN \<Rightarrow> (Client, TxInstruction) eff" where
  "getUpdateFundingRateIx sol oracle mi =
     bindS (readS sub_state) (\<lambda>state.
     bindS (getStatePublicKey sol) (\<lambda>stateKey.
     programIx (instruction ''updateFundingRate'' [ABN mi]
       [(''state'', stateKey), (''markets'', StateAccount.markets state), (''oracle'', oracle),
        (''fundingRateHistory'', fundingRateHistory state)] [])))"

definition updateFundingRate :: "Solana \<Rightarrow> Rpc \<Rightarrow> PublicKey \<Rightarrow> BN \<Rightarrow> (Client, string) eff" where
  "updateFundingRate sol rpc oracle mi = sendIx rpc (getUpdateFundingRateIx sol oracle mi)"

definition getSettleFundingPaymentIx ::
  "Solana \<Rightarrow> PublicKey \<Rightarrow> PublicKey \<Rightarrow> (Client, TxInstruction) eff" where
  "getSettleFundingPaymentIx sol userKey positionsKey =
     bindS (readS sub_state) (\<lambda>state.
     bindS (getStatePublicKey sol) (\<lambda>stateKey.
     programIx (instruction ''settleFundingPayment'' []
       [(''state'', stateKey), (''markets'', StateAccount.markets state), (''user'', userKey),
        (''userPositions'', positionsKey),
        (''fundingPaymentHistory'', fundingPaymentHistory state)] [])))"

definition settleFundingPayment ::
  "Solana \<Rightarrow> Rpc \<Rightarrow> PublicKey \<Rightarrow> PublicKey \<Rightarrow> (Client, string) eff" where
  "settleFundingPayment sol rpc userKey positionsKey =
     sendIx rpc (getSettleFundingPaymentIx sol userKey positionsKey)"

end
