(* ===== verification/Admin.thy ===== *)
theory Admin
  imports ClearingHouse Trade
begin

section \<open>Admin: the administrative instructions\<close>

text \<open>
  \<open>sdk/src/admin.ts\<close>: the subclass of \<open>ClearingHouse\<close> with the instructions of the administrator. They
  are effects on the same \<open>Client\<close> record. Most of them are sent with \<open>program.rpc\<close>, that is by the
  provider of the program; \<open>initialize\<close> and \<open>initializeMarket\<close> go through the client's sender.
\<close>

subsection \<open>Sending and shared account lists\<close>

text \<open>
  \<open>program.rpc.name(...args, { accounts, instructions, signers })\<close>: the extra instructions run before
  the call itself.
\<close>

definition rpcCall ::
  "Rpc \<Rightarrow> Instruction \<Rightarrow> TxInstruction list \<Rightarrow> PublicKey list \<Rightarrow> (Client, string) eff" where
  "rpcCall rpc ix before signers =
     bindS (programIx ix) (\<lambda>call. providerSend rpc (before @ [call]) signers)"

text \<open>The accounts of the instructions that only change the state account.\<close>

definition updateState :: "Solana \<Rightarrow> Rpc \<Rightarrow> string \<Rightarrow> Arg list \<Rightarrow> (Client, string) eff" where
  "updateState sol rpc name args =
     bindS (getS wallet) (\<lambda>w.
     bindS (getStatePublicKey sol) (\<lambda>stateKey.
     rpcCall rpc (instruction name args [(''admin'', w), (''state'', stateKey)] []) [] []))"

text \<open>The accounts of the instructions that change a market.\<close>

definition updateMarkets :: "Solana \<Rightarrow> Rpc \<Rightarrow> string \<Rightarrow> Arg list \<Rightarrow> (Client, string) eff" where
  "updateMarkets sol rpc name args =
     bindS (readS sub_state) (\<lambda>state.
     bindS (getStatePublicKey sol) (\<lambda>stateKey.
     bindS (getS wallet) (\<lambda>w.
     rpcCall rpc (instruction name args
       [(''state'', stateKey), (''admin'', w), (''markets'', StateAccount.markets state)] []) [] [])))"

text \<open>The accounts of the instructions that adjust the curve of a market, with its oracle.\<close>

definition adjustCurve :: "Solana \<Rightarrow> Rpc \<Rightarrow> string \<Rightarrow> Arg list \<Rightarrow> BN \<Rightarrow> (Client, string) eff" where
  "adjustCurve sol rpc name args mi =
     bindS (readS sub_state) (\<lambda>state.
     bindS (readS (oracleOf mi)) (\<lambda>oracle.
     bindS (getStatePublicKey sol) (\<lambda>stateKey.
     bindS (getS wallet) (\<lambda>w.
     rpcCall rpc (instruction name args
       [(''state'', stateKey), (''admin'', w), (''oracle'', oracle),
        (''markets'', StateAccount.markets state),
        (''curveHistory'', extendedCurveHistory state)] []) [] []))))"

subsection \<open>Initialising the exchange\<close>

text \<open>
  The two transactions of \<open>initialize\<close>. \<open>fresh\<close> gives the public keys of the seven new key pairs, in
  the order in which they are generated: markets, deposit history, funding rate history, funding
  payment history, trade history, liquidation history, curve history.
\<close>

definition initializeTx ::
  "Solana \<Rightarrow> PublicKey \<Rightarrow> Arg \<Rightarrow> (nat \<Rightarrow> PublicKey) \<Rightarrow> Client \<Rightarrow> TxInstruction list" where
  "initializeTx sol usdcMint controlsPrices fresh c =
     (let pid = programId c;
          (vault, vaultNonce) = findProgramAddress sol [Utf8 ''collateral_vault''] pid;
          vaultAuthority = fst (findProgramAddress sol [KeyBytes vault] pid);
          (insurance, insuranceNonce) = findProgramAddress sol [Utf8 ''insurance_vault''] pid;
          insuranceAuthority = fst (findProgramAddress sol [KeyBytes insurance] pid);
          (stateKey, nonce) = getClearingHouseStateAccountPublicKeyAndNonce sol pid
      in [CreateProgramAccount pid ''markets'' (fresh 0),
          Invoke pid (instruction ''initialize''
            [ANum nonce, ANum vaultNonce, ANum insuranceNonce, controlsPrices]
            [(''admin'', wallet c), (''state'', stateKey), (''collateralMint'', usdcMint),
             (''collateralVault'', vault), (''collateralVaultAuthority'', vaultAuthority),
             (''insuranceVault'', insurance), (''insuranceVaultAuthority'', insuranceAuthority),
             (''markets'', fresh 0), (''rent'', SYSVAR_RENT_PUBKEY sol),
             (''systemProgram'', SystemProgramId sol), (''tokenProgram'', TOKEN_PROGRAM_ID sol)] [])])"

definition initializeHistoryTx ::
  "Solana \<Rightarrow> (nat \<Rightarrow> PublicKey) \<Rightarrow> Client \<Rightarrow> TxInstruction list" where
  "initializeHistoryTx sol fresh c =
     (let pid = programId c;
          stateKey = fst (getClearingHouseStateAccountPublicKeyAndNonce sol pid)
      in [CreateProgramAccount pid ''fundingRateHistory'' (fresh 2),
          CreateProgramAccount pid ''fundingPaymentHistory'' (fresh 3),
          CreateProgramAccount pid ''tradeHistory'' (fresh 4),
          CreateProgramAccount pid ''liquidationHistory'' (fresh 5),
          CreateProgramAccount pid ''depositHistory'' (fresh 1),
          CreateProgramAccount pid ''extendedCurveHistory'' (fresh 6),
          Invoke pid (instruction ''initializeHistory'' []
            [(''admin'', wallet c), (''state'', stateKey), (''depositHistory'', fresh 1),
             (''fundingRateHistory'', fresh 2), (''fundingPaymentHistory'', fresh 3),
             (''tradeHistory'', fresh 4), (''liquidationHistory'', fresh 5),
             (''curveHistory'', fresh 6), (''rent'', SYSVAR_RENT_PUBKEY sol),
             (''systemProgram'', SystemProgramId sol)] [])])"

text \<open>
  The body of \<open>initialize\<close>, for any value that is passed as \<open>adminControlsPrices\<close>; its declared type
  is boolean.
\<close>

definition initializeWith ::
  "Solana \<Rightarrow> Rpc \<Rightarrow> PublicKey \<Rightarrow> Arg \<Rightarrow> (nat \<Rightarrow> PublicKey) \<Rightarrow> (Client, string \<times> string) eff" where
  "initializeWith sol rpc usdcMint controlsPrices fresh =
     bindS (getStatePublicKey sol) (\<lambda>stateKey.
     bindS (liftS (accountExists rpc stateKey)) (\<lambda>found.
     if found then throwS (Error ''Clearing house already initialized'')
     else
       bindS (getS (initializeTx sol usdcMint controlsPrices fresh)) (\<lambda>tx1.
       bindS (getS opts) (\<lambda>q.
       bindS (txSenderSend rpc tx1 [fresh 0] q) (\<lambda>sig1.
       bindS (getS (initializeHistoryTx sol fresh)) (\<lambda>tx2.
       bindS (txSenderSend rpc tx2 [fresh 1, fresh 3, fresh 4, fresh 5, fresh 2, fresh 6] q) (\<lambda>sig2.
       returnS (sig1, sig2))))))))"

definition initialize ::
  "Solana \<Rightarrow> Rpc \<Rightarrow> PublicKey \<Rightarrow> bool \<Rightarrow> (nat \<Rightarrow> PublicKey) \<Rightarrow> (Client, string \<times> string) eff" where
  "initialize sol rpc usdcMint controlsPrices fresh =
     initializeWith sol rpc usdcMint (ABool controlsPrices) fresh"

definition initializeMarket ::
  "Solana \<Rightarrow> Rpc \<Rightarrow> BN \<Rightarrow> PublicKey \<Rightarrow> BN \<Rightarrow> BN \<Rightarrow> BN \<Rightarrow> BN option \<Rightarrow> (Client, string) eff" where
  "initializeMarket sol rpc mi priceOracle baseReserve quoteReserve periodicity peg =
     bindS (readS (marketAt mi)) (\<lambda>m.
     bindS (liftS (deref m)) (\<lambda>market.
     if initialized market
     then throwS (Error (''MarketIndex '' @ bn_toString mi @ '' already initialized''))
     else
       bindS (getStatePublicKey sol) (\<lambda>stateKey.
       bindS (getS wallet) (\<lambda>w.
       bindS (readS sub_state) (\<lambda>state.
       bindS (programIx (instruction ''initializeMarket''
         [ABN mi, ABN baseReserve, ABN quoteReserve, ABN periodicity,
          ABN (case peg of None \<Rightarrow> PEG_PRECISION | Some p \<Rightarrow> p)]
         [(''state'', stateKey), (''admin'', w), (''oracle'', priceOracle),
          (''markets'', StateAccount.markets state)] [])) (\<lambda>ix.
       bindS (getS opts) (\<lambda>q. txSenderSend rpc [ix] [] q)))))))"

subsection \<open>The curve\<close>

definition moveAmmPrice :: "Solana \<Rightarrow> Rpc \<Rightarrow> BN \<Rightarrow> BN \<Rightarrow> BN \<Rightarrow> (Client, string) eff" where
  "moveAmmPrice sol rpc baseReserve quoteReserve mi =
     updateMarkets sol rpc ''moveAmmPrice'' [ABN baseReserve, ABN quoteReserve, ABN mi]"

definition updateK :: "Solana \<Rightarrow> Rpc \<Rightarrow> BN \<Rightarrow> BN \<Rightarrow> (Client, string) eff" where
  "updateK sol rpc newSqrtK mi = adjustCurve sol rpc ''updateK'' [ABN newSqrtK, ABN mi] mi"

definition updateCurveHistory :: "Solana \<Rightarrow> Rpc \<Rightarrow> PublicKey \<Rightarrow> (Client, string) eff" where
  "updateCurveHistory sol rpc fresh =
     bindS (readS sub_state) (\<lambda>state.
     bindS (getStatePublicKey sol) (\<lambda>stateKey.
     bindS (getS id) (\<lambda>c.
     rpcCall rpc (instruction ''updateCurveHistory'' []
       [(''state'', stateKey), (''admin'', wallet c), (''curveHistory'', curveHistory state),
        (''extendedCurveHistory'', fresh)] [])
       [CreateProgramAccount (programId c) ''extendedCurveHistory'' fresh] [fresh])))"

text \<open>
  \<open>moveAmmToPrice\<close>: the market (\<open>getMarket\<close> converts the index before it reads the accounts), the
  trade that reaches the target price, and the reserves after that trade.
\<close>

definition moveReserves :: "Market \<Rightarrow> BN \<Rightarrow> (BN \<times> BN) result" where
  "moveReserves market targetPrice =
     bindE (calculateTargetPriceTrade market targetPrice MAXPCT Quote) (\<lambda>(direction, tradeSize, _, _).
     calculateAmmReservesAfterSwap (amm market) Quote tradeSize (getSwapDirection Quote direction))"

definition marketOf :: "BN \<Rightarrow> Client \<Rightarrow> Market option result" where
  "marketOf mi c =
     bindE (bn_toNumber mi) (\<lambda>i. bindE (sub_markets c) (\<lambda>ma. Inr (js_index (MarketsAccount.markets ma) i)))"

definition moveAmmToPrice :: "Solana \<Rightarrow> Rpc \<Rightarrow> BN \<Rightarrow> BN \<Rightarrow> (Client, string) eff" where
  "moveAmmToPrice sol rpc mi targetPrice =
     bindS (readS (marketOf mi)) (\<lambda>m.
     bindS (liftS (deref m)) (\<lambda>market.
     bindS (liftS (moveReserves market targetPrice)) (\<lambda>(newQuote, newBase).
     updateMarkets sol rpc ''moveAmmPrice'' [ABN newBase, ABN newQuote, ABN mi])))"

definition repegAmmCurve :: "Solana \<Rightarrow> Rpc \<Rightarrow> BN \<Rightarrow> BN \<Rightarrow> (Client, string) eff" where
  "repegAmmCurve sol rpc newPeg mi = adjustCurve sol rpc ''repegAmmCurve'' [ABN newPeg, ABN mi] mi"

definition updateAmmOracleTwap :: "Solana \<Rightarrow> Rpc \<Rightarrow> BN \<Rightarrow> (Client, string) eff" where
  "updateAmmOracleTwap sol rpc mi = adjustCurve sol rpc ''updateAmmOracleTwap'' [ABN mi] mi"

definition resetAmmOracleTwap :: "Solana \<Rightarrow> Rpc \<Rightarrow> BN \<Rightarrow> (Client, string) eff" where
  "resetAmmOracleTwap sol rpc mi = adjustCurve sol rpc ''resetAmmOracleTwap'' [ABN mi] mi"

subsection \<open>Vaults\<close>

definition withdrawFromInsuranceVault :: "Solana \<Rightarrow> Rpc \<Rightarrow> BN \<Rightarrow> PublicKey \<Rightarrow> (Client, string) eff" where
  "withdrawFromInsuranceVault sol rpc amount recipient =
     bindS (readS sub_state) (\<lambda>state.
     bindS (getS wallet) (\<lambda>w.
     bindS (getStatePublicKey sol) (\<lambda>stateKey.
     rpcCall rpc (instruction ''withdrawFromInsuranceVault'' [ABN amount]
       [(''admin'', w), (''state'', stateKey), (''insuranceVault'', insuranceVault state),
        (''insuranceVaultAuthority'', insuranceVaultAuthority state), (''recipient'', recipient),
        (''tokenProgram'', TOKEN_PROGRAM_ID sol)] []) [] [])))"

definition withdrawFees :: "Solana \<Rightarrow> Rpc \<Rightarrow> BN \<Rightarrow> BN \<Rightarrow> PublicKey \<Rightarrow> (Client, string) eff" where
  "withdrawFees sol rpc mi amount recipient =
     bindS (readS sub_state) (\<lambda>state.
     bindS (getS wallet) (\<lambda>w.
     bindS (getStatePublicKey sol) (\<lambda>stateKey.
     rpcCall rpc (instruction ''withdrawFees'' [ABN mi, ABN amount]
       [(''admin'', w), (''state'', stateKey), (''markets'', StateAccount.markets state),
        (''collateralVault'', collateralVault state),
        (''collateralVaultAuthority'', collateralVaultAuthority state), (''recipient'', recipient),
        (''tokenProgram'', TOKEN_PROGRAM_ID sol)] []) [] [])))"

definition withdrawFromInsuranceVaultToMarket :: "Solana \<Rightarrow> Rpc \<Rightarrow> BN \<Rightarrow> BN \<Rightarrow> (Client, string) eff" where
  "withdrawFromInsuranceVaultToMarket sol rpc mi amount =
     bindS (readS sub_state) (\<lambda>state.
     bindS (getS wallet) (\<lambda>w.
     bindS (getStatePublicKey sol) (\<lambda>stateKey.
     rpcCall rpc (instruction ''withdrawFromInsuranceVaultToMarket'' [ABN mi, ABN amount]
       [(''admin'', w), (''state'', stateKey), (''markets'', StateAccount.markets state),
        (''insuranceVault'', insuranceVault state),
        (''insuranceVaultAuthority'', insuranceVaultAuthority state),
        (''collateralVault'', collateralVault state), (''tokenProgram'', TOKEN_PROGRAM_ID sol)] []) [] [])))"

subsection \<open>Parameters of the exchange\<close>

text \<open>The fee structure and the guard rails as the objects they are.\<close>

definition tierArg :: "DiscountTier \<Rightarrow> Arg" where
  "tierArg t = AStruct
     [(''minimumBalance'', ABN (minimumBalance t)), (''discountNumerator'', ABN (discountNumerator t)),
      (''discountDenominator'', ABN (discountDenominator t))]"

definition feesArg :: "FeeStructure \<Rightarrow> Arg" where
  "feesArg fees =
     (let tiers = discountTokenTiers fees; ref = referralDiscount fees in
      AStruct
        [(''feeNumerator'', ABN (feeNumerator fees)), (''feeDenominator'', ABN (feeDenominator fees)),
         (''discountTokenTiers'', AStruct
            [(''firstTier'', tierArg (firstTier tiers)), (''secondTier'', tierArg (secondTier tiers)),
             (''thirdTier'', tierArg (thirdTier tiers)), (''fourthTier'', tierArg (fourthTier tiers))]),
         (''referralDiscount'', AStruct
            [(''referrerRewardNumerator'', ABN (referrerRewardNumerator ref)),
             (''referrerRewardDenominator'', ABN (referrerRewardDenominator ref)),
             (''refereeDiscountNumerator'', ABN (refereeDiscountNumerator ref)),
             (''refereeDiscountDenominator'', ABN (refereeDiscountDenominator ref))])])"

definition guardRailsArg :: "OracleGuardRails \<Rightarrow> Arg" where
  "guardRailsArg g = AStruct
     [(''priceDivergence'', AStruct
         [(''markOracleDivergenceNumerator'', ABN (markOracleDivergenceNumerator (priceDivergence g))),
          (''markOracleDivergenceDenominator'', ABN (markOracleDivergenceDenominator (priceDivergence g)))]),
      (''validity'', AStruct
         [(''slotsBeforeStale'', ABN (slotsBeforeStale (validity g))),
          (''confidenceIntervalMaxSize'', ABN (confidenceIntervalMaxSize (validity g))),
          (''tooVolatileRatio'', ABN (tooVolatileRatio (validity g)))]),
      (''useForLiquidations'', ABool (useForLiquidations g))]"

fun oracleSourceArg :: "OracleSource \<Rightarrow> Arg" where
  "oracleSourceArg PYTH = AEnum ''pyth''"
| "oracleSourceArg SWITCHBOARD = AEnum ''switchboard''"

definition updateAdmin ::
  "Solana \<Rightarrow> Rpc \<Rightarrow> PublicKey \<Rightarrow> (Client, string) eff" where
  "updateAdmin sol rpc newAdmin = updateState sol rpc ''updateAdmin'' [AKey newAdmin]"

definition updateMarginRatio ::
  "Solana \<Rightarrow> Rpc \<Rightarrow> BN \<Rightarrow> BN \<Rightarrow> BN \<Rightarrow> (Client, string) eff" where
  "updateMarginRatio sol rpc ratioInitial ratioPartial ratioMaintenance =
     updateState sol rpc ''updateMarginRatio''
       [ABN ratioInitial, ABN ratioPartial, ABN ratioMaintenance]"

definition updatePartialLiquidationClosePercentage ::
  "Solana \<Rightarrow> Rpc \<Rightarrow> BN \<Rightarrow> BN \<Rightarrow> (Client, string) eff" where
  "updatePartialLiquidationClosePercentage sol rpc numerator denominator =
     updateState sol rpc ''updatePartialLiquidationClosePercentage'' [ABN numerator, ABN denominator]"

definition updatePartialLiquidationPenaltyPercentage ::
  "Solana \<Rightarrow> Rpc \<Rightarrow> BN \<Rightarrow> BN \<Rightarrow> (Client, string) eff" where
  "updatePartialLiquidationPenaltyPercentage sol rpc numerator denominator =
     updateState sol rpc ''updatePartialLiquidationPenaltyPercentage'' [ABN numerator, ABN denominator]"

definition updateFullLiquidationPenaltyPercentage ::
  "Solana \<Rightarrow> Rpc \<Rightarrow> BN \<Rightarrow> BN \<Rightarrow> (Client, string) eff" where
  "updateFullLiquidationPenaltyPercentage sol rpc numerator denominator =
     updateState sol rpc ''updateFullLiquidationPenaltyPercentage'' [ABN numerator, ABN denominator]"

definition updatePartialLiquidationShareDenominator ::
  "Solana \<Rightarrow> Rpc \<Rightarrow> BN \<Rightarrow> (Client, string) eff" where
  "updatePartialLiquidationShareDenominator sol rpc denominator =
     updateState sol rpc ''updatePartialLiquidationLiquidatorShareDenominator'' [ABN denominator]"

definition updateFullLiquidationShareDenominator ::
  "Solana \<Rightarrow> Rpc \<Rightarrow> BN \<Rightarrow> (Client, string) eff" where
  "updateFullLiquidationShareDenominator sol rpc denominator =
     updateState sol rpc ''updateFullLiquidationLiquidatorShareDenominator'' [ABN denominator]"

definition updateFee ::
  "Solana \<Rightarrow> Rpc \<Rightarrow> FeeStructure \<Rightarrow> (Client, string) eff" where
  "updateFee sol rpc fees = updateState sol rpc ''updateFee'' [feesArg fees]"

definition updateOracleGuardRails ::
  "Solana \<Rightarrow> Rpc \<Rightarrow> OracleGuardRails \<Rightarrow> (Client, string) eff" where
  "updateOracleGuardRails sol rpc guardRails =
     updateState sol rpc ''updateOracleGuardRails'' [guardRailsArg guardRails]"

definition updateMarketOracle ::
  "Solana \<Rightarrow> Rpc \<Rightarrow> BN \<Rightarrow> PublicKey \<Rightarrow> OracleSource \<Rightarrow> (Client, string) eff" where
  "updateMarketOracle sol rpc mi oracle source =
     updateMarkets sol rpc ''updateMarketOracle'' [ABN mi, AKey oracle, oracleSourceArg source]"

definition updateMarketMinimumTradeSize ::
  "Solana \<Rightarrow> Rpc \<Rightarrow> BN \<Rightarrow> BN \<Rightarrow> (Client, string) eff" where
  "updateMarketMinimumTradeSize sol rpc mi tradeSize =
     updateMarkets sol rpc ''updateMarketMinimumTradeSize'' [ABN mi, ABN tradeSize]"

definition updateWhitelistMint ::
  "Solana \<Rightarrow> Rpc \<Rightarrow> PublicKey option \<Rightarrow> (Client, string) eff" where
  "updateWhitelistMint sol rpc mint =
     updateState sol rpc ''updateWhitelistMint''
       [case mint of None \<Rightarrow> AUndefined | Some k \<Rightarrow> AKey k]"

definition updateDiscountMint ::
  "Solana \<Rightarrow> Rpc \<Rightarrow> PublicKey \<Rightarrow> (Client, string) eff" where
  "updateDiscountMint sol rpc mint = updateState sol rpc ''updateDiscountMint'' [AKey mint]"

definition updateMaxDeposit ::
  "Solana \<Rightarrow> Rpc \<Rightarrow> BN \<Rightarrow> (Client, string) eff" where
  "updateMaxDeposit sol rpc newMax = updateState sol rpc ''updateMaxDeposit'' [ABN newMax]"

definition updateFundingPaused ::
  "Solana \<Rightarrow> Rpc \<Rightarrow> bool \<Rightarrow> (Client, string) eff" where
  "updateFundingPaused sol rpc paused = updateState sol rpc ''updateFundingPaused'' [ABool paused]"

definition updateExchangePaused ::
  "Solana \<Rightarrow> Rpc \<Rightarrow> bool \<Rightarrow> (Client, string) eff" where
  "updateExchangePaused sol rpc paused =
     updateState sol rpc ''updateExchangePaused'' [ABool paused]"

definition disableAdminControlsPrices ::
  "Solana \<Rightarrow> Rpc \<Rightarrow> (Client, string) eff" where
  "disableAdminControlsPrices sol rpc = updateState sol rpc ''disableAdminControlsPrices'' []"

end
