(* ===== verification/ClientSystem.thy ===== *)
theory ClientSystem
  imports Admin
begin

section \<open>All transactions of a client\<close>

text \<open>
  The invariant of a client and the shape of every transaction it hands to the network. A
  transaction is \<open>well formed\<close> when each of its program instructions conforms to the interface
  description and every signature it needs is the wallet's or one of the signers passed with it;
  it is \<open>addressed\<close> when it calls the client's program on the program's state account in the name
  of the client's wallet.
\<close>

subsection \<open>Good instructions\<close>

definition idls :: "PublicKey \<Rightarrow> PublicKey \<Rightarrow> Idl" where
  "idls pid k = (if k = pid then clearingHouseIDL else mockUSDCFaucetIDL)"

lemma idls_simps [simp]: "idls pid pid = clearingHouseIDL" "k \<noteq> pid \<Longrightarrow> idls pid k = mockUSDCFaucetIDL"
  by (simp_all add: idls_def)

text \<open>
  An instruction to the client's program names the state account of the program and the wallet as
  authority or administrator, wherever it has such accounts.
\<close>

fun addressed :: "Solana \<Rightarrow> PublicKey \<Rightarrow> PublicKey \<Rightarrow> TxInstruction \<Rightarrow> bool" where
  "addressed sol pid w (Invoke p ix) \<longleftrightarrow> p = pid \<longrightarrow>
     list_all (\<lambda>(n, k). (n = ''state'' \<longrightarrow> k = getClearingHouseStateAccountPublicKey sol pid) \<and>
                        (n = ''authority'' \<or> n = ''admin'' \<longrightarrow> k = w)) (ix_accounts ix)"
| "addressed sol pid w _ \<longleftrightarrow> True"

definition goodIx :: "Solana \<Rightarrow> PublicKey \<Rightarrow> PublicKey \<Rightarrow> PublicKey list \<Rightarrow> TxInstruction \<Rightarrow> bool" where
  "goodIx sol pid w signers ix \<longleftrightarrow>
     instructionConforms (idls pid) ix \<and> addressed sol pid w ix \<and>
     list_all (\<lambda>k. k = w \<or> k \<in> set signers) (instructionSigners (idls pid) w ix)"

definition goodSubmission :: "Solana \<Rightarrow> PublicKey \<Rightarrow> PublicKey \<Rightarrow> Submission \<Rightarrow> bool" where
  "goodSubmission sol pid w sub \<longleftrightarrow> list_all (goodIx sol pid w (sub_signers sub)) (sub_tx sub)"

lemma goodSubmission_wellFormed:
  "goodSubmission sol pid w sub \<Longrightarrow> wellFormed (idls pid) w sub \<and> list_all (addressed sol pid w) (sub_tx sub)"
  by (auto simp: goodSubmission_def goodIx_def wellFormed_def fullySigned_def list_all_iff)

lemmas conform_simps = goodIx_def conforms_def argsConform_def accountsGiven_def requiredSigners_def
  List.map_filter_simps

lemma idl_types_eq [simp]: "idl_types clearingHouseIDL = clearingHouseTypes"
  by (simp add: clearingHouseIDL_def)

text \<open>The arguments that are objects or enumeration values fit their types.\<close>

lemma find_types [simp]:
  "entry clearingHouseTypes ''ManagePositionOptionalAccounts'' =
     Some (StructDef [(''discountToken'', BoolT), (''referrer'', BoolT)])"
  "entry clearingHouseTypes ''InitializeUserOptionalAccounts'' =
     Some (StructDef [(''whitelistToken'', BoolT)])"
  "entry clearingHouseTypes ''PositionDirection'' = Some (EnumDef [''Long'', ''Short''])"
  "entry clearingHouseTypes ''OracleSource'' = Some (EnumDef [''Pyth'', ''Switchboard''])"
  by (simp_all add: clearingHouseTypes_def)

lemma variant_names [simp]:
  "lowerFirst ''Long'' = ''long''" "lowerFirst ''Short'' = ''short''"
  "lowerFirst ''Pyth'' = ''pyth''" "lowerFirst ''Switchboard'' = ''switchboard''"
  by code_simp+

lemma flags_fit [simp]:
  "fitsType clearingHouseTypes (optionalFlags d r) (Defined ''ManagePositionOptionalAccounts'')"
  by (simp add: optionalFlags_def)

lemma direction_fits [simp]:
  "fitsType clearingHouseTypes (directionArg dir) (Defined ''PositionDirection'')"
  by (cases dir) simp_all

lemma source_fits [simp]: "fitsType clearingHouseTypes (oracleSourceArg src) (Defined ''OracleSource'')"
  by (cases src) simp_all

lemma fees_fit [simp]: "fitsType clearingHouseTypes (feesArg fees) (Defined ''FeeStructure'')"
  by (simp add: feesArg_def tierArg_def clearingHouseTypes_def Let_def)

lemma guard_rails_fit [simp]:
  "fitsType clearingHouseTypes (guardRailsArg g) (Defined ''OracleGuardRails'')"
  by (simp add: guardRailsArg_def clearingHouseTypes_def)

subsection \<open>The invariant of the client\<close>

text \<open>
  \<open>clientOk sol pid w n c\<close>: the client uses the program \<open>pid\<close> and the wallet \<open>w\<close>, which is also the
  wallet of the program's provider; the cached addresses are the ones their derivation gives; and
  every transaction after the first \<open>n\<close> ones is good for this wallet.
\<close>

definition coherent :: "Solana \<Rightarrow> Client \<Rightarrow> bool" where
  "coherent sol c \<longleftrightarrow>
     programWallet c = wallet c \<and>
     (\<forall>k. cachedStateKey c = Some k \<longrightarrow> k = getClearingHouseStateAccountPublicKey sol (programId c)) \<and>
     (\<forall>k. cachedUserKey c = Some k \<longrightarrow> k = getUserAccountPublicKey sol (programId c) (wallet c))"

definition clientOk :: "Solana \<Rightarrow> PublicKey \<Rightarrow> PublicKey \<Rightarrow> nat \<Rightarrow> Client \<Rightarrow> bool" where
  "clientOk sol pid w n c \<longleftrightarrow>
     coherent sol c \<and> programId c = pid \<and> wallet c = w \<and> n \<le> length (outbox c) \<and>
     list_all (goodSubmission sol pid w) (drop n (outbox c))"

lemma clientOkD:
  assumes "clientOk sol pid w n c"
  shows "programId c = pid" "wallet c = w" "programWallet c = w"
  using assms by (simp_all add: clientOk_def coherent_def)

lemma ok_getStatePublicKey:
  "keeps (clientOk sol pid w n) (getStatePublicKey sol) (\<lambda>k. k = getClearingHouseStateAccountPublicKey sol pid)"
  unfolding getStatePublicKey_def
  by (intro keeps_rules) (auto simp: clientOk_def coherent_def)

lemma ok_getUserAccountPublicKeyOf:
  "keeps (clientOk sol pid w n) (getUserAccountPublicKeyOf sol) (\<lambda>k. k = getUserAccountPublicKey sol pid w)"
  unfolding getUserAccountPublicKeyOf_def
  by (intro keeps_rules) (auto simp: clientOk_def coherent_def)

lemmas bind_state_key [keeps_rules] = keeps_bind [OF ok_getStatePublicKey]
lemmas bind_user_key [keeps_rules] = keeps_bind [OF ok_getUserAccountPublicKeyOf]

lemma ok_getUserAccountOf: "keeps (clientOk sol pid w n) (getUserAccountOf sol rpc) (\<lambda>u. True)"
  unfolding getUserAccountOf_def
  by (intro keeps_rules) (auto simp: clientOk_def coherent_def)

lemmas bind_user [keeps_rules] = keeps_bind [OF ok_getUserAccountOf]

lemma ok_programIx [keeps_rules]:
  "goodIx sol pid w ss (Invoke pid ix) \<Longrightarrow> keeps (clientOk sol pid w n) (programIx ix) (goodIx sol pid w ss)"
  unfolding programIx_def by (intro keeps_rules) (simp add: clientOkD)

lemma ok_bind_programIx [keeps_rules]:
  "keeps (clientOk sol pid w n) (f (Invoke pid ix)) R \<Longrightarrow>
     keeps (clientOk sol pid w n) (bindS (programIx ix) f) R"
  unfolding programIx_def by (intro keeps_rules) (auto simp: clientOkD)

lemma ok_submitVia [keeps_rules]:
  "goodSubmission sol pid w sub \<Longrightarrow> keeps (clientOk sol pid w n) (submitVia rpc sub) (\<lambda>_. True)"
  unfolding submitVia_def
  by (intro keeps_rules) (auto simp: clientOk_def coherent_def)

lemma ok_txSenderSend [keeps_rules]:
  "list_all (goodIx sol pid w signers) tx \<Longrightarrow>
     keeps (clientOk sol pid w n) (txSenderSend rpc tx signers q) (\<lambda>_. True)"
  unfolding txSenderSend_def by (intro keeps_rules) (simp add: goodSubmission_def)

lemma ok_providerSend [keeps_rules]:
  "list_all (goodIx sol pid w signers) tx \<Longrightarrow>
     keeps (clientOk sol pid w n) (providerSend rpc tx signers) (\<lambda>_. True)"
  unfolding providerSend_def by (intro keeps_rules) (simp add: goodSubmission_def)

lemmas bind_txSenderSend [keeps_rules] = keeps_bind [OF ok_txSenderSend]
lemmas bind_providerSend [keeps_rules] = keeps_bind [OF ok_providerSend]

lemma ok_sendIx [keeps_rules]:
  "keeps (clientOk sol pid w n) build (goodIx sol pid w []) \<Longrightarrow>
     keeps (clientOk sol pid w n) (sendIx rpc build) (\<lambda>_. True)"
  unfolding sendIx_def wrapInTx_def
  by (rule keeps_bind, assumption) (intro keeps_rules, simp)

subsection \<open>The instructions of the clearing house\<close>

text \<open>The check of one instruction against its description.\<close>

lemma good_openPosition [simp]:
  "goodIx sol pid w ss (Invoke pid (instruction ''openPosition''
     [directionArg d, ABN a, ABN b, ABN l, optionalFlags t r]
     (positionAccounts (getClearingHouseStateAccountPublicKey sol pid) userKey w state u oracle)
     (optionalAccounts t r)))"
  by (auto simp: conform_simps idl_openPosition_def positionAccounts_def optionalAccounts_def
      split: option.split)

lemma ok_getOpenPositionIx [keeps_rules]:
  "keeps (clientOk sol pid w n) (getOpenPositionIx sol rpc d a mi l t r) (goodIx sol pid w ss)"
  unfolding getOpenPositionIx_def Let_def by (intro keeps_rules) (auto simp: clientOkD)

lemma ok_openPosition [keeps_rules]:
  "keeps (clientOk sol pid w n) (openPosition sol rpc d a mi l t r) (\<lambda>_. True)"
  unfolding openPosition_def by (intro keeps_rules)

lemma ok_getClosePositionIx [keeps_rules]:
  "keeps (clientOk sol pid w n) (getClosePositionIx sol rpc mi t r) (goodIx sol pid w ss)"
  unfolding getClosePositionIx_def
  by (intro keeps_rules) (auto simp: clientOkD conform_simps idl_closePosition_def
      positionAccounts_def optionalAccounts_def split: option.split)

lemma ok_closePosition [keeps_rules]:
  "keeps (clientOk sol pid w n) (closePosition sol rpc mi t r) (\<lambda>_. True)"
  unfolding closePosition_def by (intro keeps_rules)

lemma ok_getDepositCollateralInstruction [keeps_rules]:
  "keeps (clientOk sol pid w n) (getDepositCollateralInstruction sol rpc a k p) (goodIx sol pid w ss)"
proof -
  have good: "goodIx sol pid w ss (Invoke pid (instruction ''depositCollateral'' [ABN a]
       [(''state'', getClearingHouseStateAccountPublicKey sol pid), (''user'', userKey),
        (''collateralVault'', x1), (''userCollateralAccount'', k), (''authority'', w),
        (''tokenProgram'', x2), (''markets'', x3), (''fundingPaymentHistory'', x4),
        (''depositHistory'', x5), (''userPositions'', x6)] []))" for userKey x1 x2 x3 x4 x5 x6
    by (simp add: conform_simps idl_depositCollateral_def)
  have positions: "keeps (clientOk sol pid w n) (case p of Some k \<Rightarrow> returnS k
      | None \<Rightarrow> bindS (getUserAccountOf sol rpc) (\<lambda>u. returnS (UserAccount.positions u))) (\<lambda>_. True)"
    by (intro keeps_rules) simp_all
  show ?thesis
    unfolding getDepositCollateralInstruction_def
    by (intro keeps_rules keeps_bind [OF positions]) (auto simp: clientOkD good)
qed

lemma ok_depositCollateral [keeps_rules]:
  "keeps (clientOk sol pid w n) (depositCollateral sol rpc a k p) (\<lambda>_. True)"
  unfolding depositCollateral_def
  by (rule keeps_bind [OF ok_getDepositCollateralInstruction [where ss = "[]"]]) (intro keeps_rules, simp)

lemma ok_getInitializeUserInstructions:
  "keeps (clientOk sol pid w n) (getInitializeUserInstructions sol fresh)
     (\<lambda>(posKey, userKey, ix). posKey = fresh \<and> userKey = getUserAccountPublicKey sol pid w \<and>
        goodIx sol pid w [fresh] ix)"
  unfolding getInitializeUserInstructions_def Let_def
  by (intro keeps_rules) (auto simp: clientOkD conform_simps idl_initializeUser_def
      getUserAccountPublicKey_def, metis fst_conv)

lemma ok_initializeUserAccount [keeps_rules]:
  "keeps (clientOk sol pid w n) (initializeUserAccount sol rpc fresh)
     (\<lambda>(sig, k). k = getUserAccountPublicKey sol pid w)"
  unfolding initializeUserAccount_def
  by (rule keeps_bind [OF ok_getInitializeUserInstructions]) (intro keeps_rules, auto)

lemma ok_initializeUserAccountAndDepositCollateral [keeps_rules]:
  "keeps (clientOk sol pid w n) (initializeUserAccountAndDepositCollateral sol rpc fresh a k)
     (\<lambda>(sig, k). k = getUserAccountPublicKey sol pid w)"
  unfolding initializeUserAccountAndDepositCollateral_def
  by (rule keeps_bind [OF ok_getInitializeUserInstructions])
    (intro keeps_rules keeps_bind [OF ok_getDepositCollateralInstruction [where ss = "[fresh]"]], auto)

lemma ok_deleteUser [keeps_rules]: "keeps (clientOk sol pid w n) (deleteUser sol rpc) (\<lambda>_. True)"
  unfolding deleteUser_def
  by (intro keeps_rules) (auto simp: clientOkD conform_simps idl_deleteUser_def)

lemma ok_withdrawCollateral [keeps_rules]:
  "keeps (clientOk sol pid w n) (withdrawCollateral sol rpc a k) (\<lambda>_. True)"
  unfolding withdrawCollateral_def getWithdrawCollateralIx_def
  by (intro keeps_rules) (auto simp: clientOkD conform_simps idl_withdrawCollateral_def)

text \<open>The extra accounts of a liquidation are oracles, which do not sign.\<close>

lemma liquidationOracles_plain:
  "liquidationOracles ms ps = Inr rs \<Longrightarrow> filter isSigner rs = []"
  by (induction ms ps arbitrary: rs rule: liquidationOracles.induct) (auto simp: bn_simps split: if_splits)

lemma ok_liquidate [keeps_rules]: "keeps (clientOk sol pid w n) (liquidate sol rpc k) (\<lambda>_. True)"
  unfolding liquidate_def getLiquidateIx_def
  by (intro keeps_rules)
    (auto simp: clientOkD conform_simps idl_liquidate_def dest: liquidationOracles_plain)

lemma ok_updateFundingRate [keeps_rules]:
  "keeps (clientOk sol pid w n) (updateFundingRate sol rpc k mi) (\<lambda>_. True)"
  unfolding updateFundingRate_def getUpdateFundingRateIx_def
  by (intro keeps_rules) (auto simp: clientOkD conform_simps idl_updateFundingRate_def)

lemma ok_settleFundingPayment [keeps_rules]:
  "keeps (clientOk sol pid w n) (settleFundingPayment sol rpc k p) (\<lambda>_. True)"
  unfolding settleFundingPayment_def getSettleFundingPaymentIx_def
  by (intro keeps_rules) (auto simp: clientOkD conform_simps idl_settleFundingPayment_def)

subsection \<open>The instructions of the administrator\<close>

lemma ok_rpcCall [keeps_rules]:
  "list_all (goodIx sol pid w signers) before \<Longrightarrow> goodIx sol pid w signers (Invoke pid ix) \<Longrightarrow>
     keeps (clientOk sol pid w n) (rpcCall rpc ix before signers) (\<lambda>_. True)"
  unfolding rpcCall_def by (intro keeps_rules) simp

lemma ok_updateState:
  assumes "goodIx sol pid w [] (Invoke pid (instruction name args
      [(''admin'', w), (''state'', getClearingHouseStateAccountPublicKey sol pid)] []))"
  shows "keeps (clientOk sol pid w n) (updateState sol rpc name args) (\<lambda>_. True)"
  unfolding updateState_def using assms by (intro keeps_rules) (auto simp: clientOkD)

lemma ok_updateMarkets:
  assumes "\<And>m. goodIx sol pid w [] (Invoke pid (instruction name args
      [(''state'', getClearingHouseStateAccountPublicKey sol pid), (''admin'', w), (''markets'', m)] []))"
  shows "keeps (clientOk sol pid w n) (updateMarkets sol rpc name args) (\<lambda>_. True)"
  unfolding updateMarkets_def using assms by (intro keeps_rules) (auto simp: clientOkD)

lemma ok_adjustCurve:
  assumes "\<And>r m h. goodIx sol pid w [] (Invoke pid (instruction name args
      [(''state'', getClearingHouseStateAccountPublicKey sol pid), (''admin'', w), (''oracle'', r),
       (''markets'', m), (''curveHistory'', h)] []))"
  shows "keeps (clientOk sol pid w n) (adjustCurve sol rpc name args mi) (\<lambda>_. True)"
  unfolding adjustCurve_def using assms by (intro keeps_rules) (auto simp: clientOkD)

lemma ok_initialize [keeps_rules]:
  "keeps (clientOk sol pid w n) (initialize sol rpc mint b fresh) (\<lambda>_. True)"
proof -
  have tx1: "list_all (goodIx sol pid w [fresh 0]) (initializeTx sol mint (ABool b) fresh c)"
    if "clientOk sol pid w n c" for c
    using that by (auto simp: initializeTx_def clientOkD conform_simps idl_initialize_def
        getClearingHouseStateAccountPublicKey_def Let_def split: prod.split)
  have tx2: "list_all (goodIx sol pid w [fresh 1, fresh 3, fresh 4, fresh 5, fresh 2, fresh 6])
      (initializeHistoryTx sol fresh c)" if "clientOk sol pid w n c" for c
    using that by (auto simp: initializeHistoryTx_def clientOkD conform_simps
        idl_initializeHistory_def getClearingHouseStateAccountPublicKey_def Let_def)
  show ?thesis
    unfolding initialize_def initializeWith_def by (intro keeps_rules) (auto dest: tx1 tx2)
qed

lemma ok_initializeMarket [keeps_rules]:
  "keeps (clientOk sol pid w n) (initializeMarket sol rpc mi k a b c p) (\<lambda>_. True)"
  unfolding initializeMarket_def
  by (intro keeps_rules) (auto simp: clientOkD conform_simps idl_initializeMarket_def)

lemma ok_moveAmmPrice [keeps_rules]:
  "keeps (clientOk sol pid w n) (updateMarkets sol rpc ''moveAmmPrice'' [ABN a, ABN b, ABN c]) (\<lambda>_. True)"
  by (rule ok_updateMarkets) (simp add: conform_simps idl_moveAmmPrice_def)

lemma ok_moveAmmToPrice [keeps_rules]:
  "keeps (clientOk sol pid w n) (moveAmmToPrice sol rpc mi t) (\<lambda>_. True)"
  unfolding moveAmmToPrice_def by (intro keeps_rules)

lemma ok_updateCurveHistory [keeps_rules]:
  "keeps (clientOk sol pid w n) (updateCurveHistory sol rpc fresh) (\<lambda>_. True)"
  unfolding updateCurveHistory_def
  by (intro keeps_rules) (auto simp: clientOkD conform_simps idl_updateCurveHistory_def)

lemma ok_vaults [keeps_rules]:
  "keeps (clientOk sol pid w n) (withdrawFromInsuranceVault sol rpc a k) (\<lambda>_. True)"
  "keeps (clientOk sol pid w n) (withdrawFees sol rpc mi a k) (\<lambda>_. True)"
  "keeps (clientOk sol pid w n) (withdrawFromInsuranceVaultToMarket sol rpc mi a) (\<lambda>_. True)"
  unfolding withdrawFromInsuranceVault_def withdrawFees_def withdrawFromInsuranceVaultToMarket_def
  by (intro keeps_rules; auto simp: clientOkD conform_simps idl_withdrawFromInsuranceVault_def
      idl_withdrawFees_def idl_withdrawFromInsuranceVaultToMarket_def)+

lemma ok_updateK [keeps_rules]:
  "keeps (clientOk sol pid w n) (updateK sol rpc a mi) (\<lambda>_. True)"
  unfolding updateK_def by (rule ok_adjustCurve) (simp add: conform_simps idl_updateK_def)

lemma ok_repegAmmCurve [keeps_rules]:
  "keeps (clientOk sol pid w n) (repegAmmCurve sol rpc a mi) (\<lambda>_. True)"
  unfolding repegAmmCurve_def by (rule ok_adjustCurve) (simp add: conform_simps idl_repegAmmCurve_def)

lemma ok_updateAmmOracleTwap [keeps_rules]:
  "keeps (clientOk sol pid w n) (updateAmmOracleTwap sol rpc mi) (\<lambda>_. True)"
  unfolding updateAmmOracleTwap_def by (rule ok_adjustCurve) (simp add: conform_simps idl_updateAmmOracleTwap_def)

lemma ok_resetAmmOracleTwap [keeps_rules]:
  "keeps (clientOk sol pid w n) (resetAmmOracleTwap sol rpc mi) (\<lambda>_. True)"
  unfolding resetAmmOracleTwap_def by (rule ok_adjustCurve) (simp add: conform_simps idl_resetAmmOracleTwap_def)

lemma ok_updateAdmin [keeps_rules]:
  "keeps (clientOk sol pid w n) (updateAdmin sol rpc k) (\<lambda>_. True)"
  unfolding updateAdmin_def by (rule ok_updateState) (simp add: conform_simps idl_updateAdmin_def)

lemma ok_updateMarginRatio [keeps_rules]:
  "keeps (clientOk sol pid w n) (updateMarginRatio sol rpc a b c) (\<lambda>_. True)"
  unfolding updateMarginRatio_def by (rule ok_updateState) (simp add: conform_simps idl_updateMarginRatio_def)

lemma ok_updatePartialLiquidationClosePercentage [keeps_rules]:
  "keeps (clientOk sol pid w n) (updatePartialLiquidationClosePercentage sol rpc a b) (\<lambda>_. True)"
  unfolding updatePartialLiquidationClosePercentage_def by (rule ok_updateState) (simp add: conform_simps idl_updatePartialLiquidationClosePercentage_def)

lemma ok_updatePartialLiquidationPenaltyPercentage [keeps_rules]:
  "keeps (clientOk sol pid w n) (updatePartialLiquidationPenaltyPercentage sol rpc a b) (\<lambda>_. True)"
  unfolding updatePartialLiquidationPenaltyPercentage_def by (rule ok_updateState) (simp add: conform_simps idl_updatePartialLiquidationPenaltyPercentage_def)

lemma ok_updateFullLiquidationPenaltyPercentage [keeps_rules]:
  "keeps (clientOk sol pid w n) (updateFullLiquidationPenaltyPercentage sol rpc a b) (\<lambda>_. True)"
  unfolding updateFullLiquidationPenaltyPercentage_def by (rule ok_updateState) (simp add: conform_simps idl_updateFullLiquidationPenaltyPercentage_def)

lemma ok_updatePartialLiquidationShareDenominator [keeps_rules]:
  "keeps (clientOk sol pid w n) (updatePartialLiquidationShareDenominator sol rpc a) (\<lambda>_. True)"
  unfolding updatePartialLiquidationShareDenominator_def by (rule ok_updateState) (simp add: conform_simps idl_updatePartialLiquidationLiquidatorShareDenominator_def)

lemma ok_updateFullLiquidationShareDenominator [keeps_rules]:
  "keeps (clientOk sol pid w n) (updateFullLiquidationShareDenominator sol rpc a) (\<lambda>_. True)"
  unfolding updateFullLiquidationShareDenominator_def by (rule ok_updateState) (simp add: conform_simps idl_updateFullLiquidationLiquidatorShareDenominator_def)

lemma ok_updateFee [keeps_rules]:
  "keeps (clientOk sol pid w n) (updateFee sol rpc fees) (\<lambda>_. True)"
  unfolding updateFee_def by (rule ok_updateState) (simp add: conform_simps idl_updateFee_def)

lemma ok_updateOracleGuardRails [keeps_rules]:
  "keeps (clientOk sol pid w n) (updateOracleGuardRails sol rpc g) (\<lambda>_. True)"
  unfolding updateOracleGuardRails_def by (rule ok_updateState) (simp add: conform_simps idl_updateOracleGuardRails_def)

lemma ok_updateMarketOracle [keeps_rules]:
  "keeps (clientOk sol pid w n) (updateMarketOracle sol rpc mi k src) (\<lambda>_. True)"
  unfolding updateMarketOracle_def by (rule ok_updateMarkets) (simp add: conform_simps idl_updateMarketOracle_def)

lemma ok_updateMarketMinimumTradeSize [keeps_rules]:
  "keeps (clientOk sol pid w n) (updateMarketMinimumTradeSize sol rpc mi a) (\<lambda>_. True)"
  unfolding updateMarketMinimumTradeSize_def by (rule ok_updateMarkets) (simp add: conform_simps idl_updateMarketMinimumTradeSize_def)

lemma ok_updateWhitelistMint [keeps_rules]:
  "keeps (clientOk sol pid w n) (updateWhitelistMint sol rpc (Some k)) (\<lambda>_. True)"
  unfolding updateWhitelistMint_def by (rule ok_updateState) (simp add: conform_simps idl_updateWhitelistMint_def)

lemma ok_updateDiscountMint [keeps_rules]:
  "keeps (clientOk sol pid w n) (updateDiscountMint sol rpc k) (\<lambda>_. True)"
  unfolding updateDiscountMint_def by (rule ok_updateState) (simp add: conform_simps idl_updateDiscountMint_def)

lemma ok_updateMaxDeposit [keeps_rules]:
  "keeps (clientOk sol pid w n) (updateMaxDeposit sol rpc a) (\<lambda>_. True)"
  unfolding updateMaxDeposit_def by (rule ok_updateState) (simp add: conform_simps idl_updateMaxDeposit_def)

lemma ok_updateFundingPaused [keeps_rules]:
  "keeps (clientOk sol pid w n) (updateFundingPaused sol rpc b) (\<lambda>_. True)"
  unfolding updateFundingPaused_def by (rule ok_updateState) (simp add: conform_simps idl_updateFundingPaused_def)

lemma ok_updateExchangePaused [keeps_rules]:
  "keeps (clientOk sol pid w n) (updateExchangePaused sol rpc b) (\<lambda>_. True)"
  unfolding updateExchangePaused_def by (rule ok_updateState) (simp add: conform_simps idl_updateExchangePaused_def)

lemma ok_disableAdminControlsPrices [keeps_rules]:
  "keeps (clientOk sol pid w n) (disableAdminControlsPrices sol rpc) (\<lambda>_. True)"
  unfolding disableAdminControlsPrices_def by (rule ok_updateState) (simp add: conform_simps idl_disableAdminControlsPrices_def)

end
