(* ===== verification/ClientCalls.thy ===== *)
theory ClientCalls
  imports ClientSystem
begin

section \<open>Histories of calls\<close>

text \<open>
  The public methods of \<open>ClearingHouse\<close> and \<open>Admin\<close> that change the client or send something, as
  data types of calls, and the clients that any history of calls can lead to. Between calls the
  accounts that the subscriber holds may change at will, and so may the answers of the node.
\<close>

text \<open>The methods of \<open>ClearingHouse\<close> for users.\<close>

datatype UserCall =
    InitializeUserAccount PublicKey
  | DepositCollateral BN PublicKey "PublicKey option"
  | InitializeUserAccountAndDepositCollateral PublicKey BN PublicKey
  | InitializeUserAccountForDevnet Faucet PublicKey BN
  | DeleteUser
  | WithdrawCollateral BN PublicKey
  | OpenPosition PositionDirection BN BN "BN option" "PublicKey option" "PublicKey option"
  | ClosePosition BN "PublicKey option" "PublicKey option"
  | Liquidate PublicKey
  | UpdateFundingRate PublicKey BN
  | SettleFundingPayment PublicKey PublicKey

text \<open>The methods of \<open>Admin\<close> for the exchange, the curves and the vaults.\<close>

datatype AdminCall =
    Initialize PublicKey bool "nat \<Rightarrow> PublicKey"
  | InitializeMarket BN PublicKey BN BN BN "BN option"
  | MoveAmmPrice BN BN BN
  | UpdateK BN BN
  | UpdateCurveHistory PublicKey
  | MoveAmmToPrice BN BN
  | RepegAmmCurve BN BN
  | UpdateAmmOracleTwap BN
  | ResetAmmOracleTwap BN
  | WithdrawFromInsuranceVault BN PublicKey
  | WithdrawFees BN BN PublicKey
  | WithdrawFromInsuranceVaultToMarket BN BN

text \<open>The methods of \<open>Admin\<close> for the parameters of the exchange.\<close>

datatype ParameterCall =
    UpdateAdmin PublicKey
  | UpdateMarginRatio BN BN BN
  | UpdatePartialLiquidationClosePercentage BN BN
  | UpdatePartialLiquidationPenaltyPercentage BN BN
  | UpdateFullLiquidationPenaltyPercentage BN BN
  | UpdatePartialLiquidationShareDenominator BN
  | UpdateFullLiquidationShareDenominator BN
  | UpdateFee FeeStructure
  | UpdateOracleGuardRails OracleGuardRails
  | UpdateMarketOracle BN PublicKey OracleSource
  | UpdateMarketMinimumTradeSize BN BN
  | UpdateWhitelistMint "PublicKey option"
  | UpdateDiscountMint PublicKey
  | UpdateMaxDeposit BN
  | UpdateFundingPaused bool
  | UpdateExchangePaused bool
  | DisableAdminControlsPrices

datatype ClientCall = UpdateWallet PublicKey | ByUser UserCall | ByAdmin AdminCall | SetParameter ParameterCall

text \<open>The client after a call; the result of the call is not needed here.\<close>

fun runUserCall :: "Solana \<Rightarrow> Rpc \<Rightarrow> UserCall \<Rightarrow> Client \<Rightarrow> Client" where
  "runUserCall sol rpc (InitializeUserAccount a) c = snd (initializeUserAccount sol rpc a c)"
| "runUserCall sol rpc (DepositCollateral a b x) c = snd (depositCollateral sol rpc a b x c)"
| "runUserCall sol rpc (InitializeUserAccountAndDepositCollateral a b x) c =
     snd (initializeUserAccountAndDepositCollateral sol rpc a b x c)"
| "runUserCall sol rpc (InitializeUserAccountForDevnet a b x) c =
     snd (snd (initializeUserAccountForDevnet sol rpc b x (a, c)))"
| "runUserCall sol rpc DeleteUser c = snd (deleteUser sol rpc c)"
| "runUserCall sol rpc (WithdrawCollateral a b) c = snd (withdrawCollateral sol rpc a b c)"
| "runUserCall sol rpc (OpenPosition a b x d e g) c = snd (openPosition sol rpc a b x d e g c)"
| "runUserCall sol rpc (ClosePosition a b x) c = snd (closePosition sol rpc a b x c)"
| "runUserCall sol rpc (Liquidate a) c = snd (liquidate sol rpc a c)"
| "runUserCall sol rpc (UpdateFundingRate a b) c = snd (updateFundingRate sol rpc a b c)"
| "runUserCall sol rpc (SettleFundingPayment a b) c = snd (settleFundingPayment sol rpc a b c)"

fun runAdminCall :: "Solana \<Rightarrow> Rpc \<Rightarrow> AdminCall \<Rightarrow> Client \<Rightarrow> Client" where
  "runAdminCall sol rpc (Initialize a b x) c = snd (initialize sol rpc a b x c)"
| "runAdminCall sol rpc (InitializeMarket a b x d e g) c =
     snd (initializeMarket sol rpc a b x d e g c)"
| "runAdminCall sol rpc (MoveAmmPrice a b x) c = snd (moveAmmPrice sol rpc a b x c)"
| "runAdminCall sol rpc (UpdateK a b) c = snd (updateK sol rpc a b c)"
| "runAdminCall sol rpc (UpdateCurveHistory a) c = snd (updateCurveHistory sol rpc a c)"
| "runAdminCall sol rpc (MoveAmmToPrice a b) c = snd (moveAmmToPrice sol rpc a b c)"
| "runAdminCall sol rpc (RepegAmmCurve a b) c = snd (repegAmmCurve sol rpc a b c)"
| "runAdminCall sol rpc (UpdateAmmOracleTwap a) c = snd (updateAmmOracleTwap sol rpc a c)"
| "runAdminCall sol rpc (ResetAmmOracleTwap a) c = snd (resetAmmOracleTwap sol rpc a c)"
| "runAdminCall sol rpc (WithdrawFromInsuranceVault a b) c =
     snd (withdrawFromInsuranceVault sol rpc a b c)"
| "runAdminCall sol rpc (WithdrawFees a b x) c = snd (withdrawFees sol rpc a b x c)"
| "runAdminCall sol rpc (WithdrawFromInsuranceVaultToMarket a b) c =
     snd (withdrawFromInsuranceVaultToMarket sol rpc a b c)"

fun runParameterCall :: "Solana \<Rightarrow> Rpc \<Rightarrow> ParameterCall \<Rightarrow> Client \<Rightarrow> Client" where
  "runParameterCall sol rpc (UpdateAdmin a) c = snd (updateAdmin sol rpc a c)"
| "runParameterCall sol rpc (UpdateMarginRatio a b x) c = snd (updateMarginRatio sol rpc a b x c)"
| "runParameterCall sol rpc (UpdatePartialLiquidationClosePercentage a b) c =
     snd (updatePartialLiquidationClosePercentage sol rpc a b c)"
| "runParameterCall sol rpc (UpdatePartialLiquidationPenaltyPercentage a b) c =
     snd (updatePartialLiquidationPenaltyPercentage sol rpc a b c)"
| "runParameterCall sol rpc (UpdateFullLiquidationPenaltyPercentage a b) c =
     snd (updateFullLiquidationPenaltyPercentage sol rpc a b c)"
| "runParameterCall sol rpc (UpdatePartialLiquidationShareDenominator a) c =
     snd (updatePartialLiquidationShareDenominator sol rpc a c)"
| "runParameterCall sol rpc (UpdateFullLiquidationShareDenominator a) c =
     snd (updateFullLiquidationShareDenominator sol rpc a c)"
| "runParameterCall sol rpc (UpdateFee a) c = snd (updateFee sol rpc a c)"
| "runParameterCall sol rpc (UpdateOracleGuardRails a) c = snd (updateOracleGuardRails sol rpc a c)"
| "runParameterCall sol rpc (UpdateMarketOracle a b x) c = snd (updateMarketOracle sol rpc a b x c)"
| "runParameterCall sol rpc (UpdateMarketMinimumTradeSize a b) c =
     snd (updateMarketMinimumTradeSize sol rpc a b c)"
| "runParameterCall sol rpc (UpdateWhitelistMint a) c = snd (updateWhitelistMint sol rpc a c)"
| "runParameterCall sol rpc (UpdateDiscountMint a) c = snd (updateDiscountMint sol rpc a c)"
| "runParameterCall sol rpc (UpdateMaxDeposit a) c = snd (updateMaxDeposit sol rpc a c)"
| "runParameterCall sol rpc (UpdateFundingPaused a) c = snd (updateFundingPaused sol rpc a c)"
| "runParameterCall sol rpc (UpdateExchangePaused a) c = snd (updateExchangePaused sol rpc a c)"
| "runParameterCall sol rpc DisableAdminControlsPrices c =
     snd (disableAdminControlsPrices sol rpc c)"

fun runCall :: "Solana \<Rightarrow> Rpc \<Rightarrow> ClientCall \<Rightarrow> Client \<Rightarrow> Client" where
  "runCall sol rpc (UpdateWallet w) c = updateWallet w c"
| "runCall sol rpc (ByUser x) c = runUserCall sol rpc x c"
| "runCall sol rpc (ByAdmin x) c = runAdminCall sol rpc x c"
| "runCall sol rpc (SetParameter x) c = runParameterCall sol rpc x c"

text \<open>
  The calls whose transactions are claimed to be good: \<open>updateWhitelistMint\<close> needs its (optional)
  argument, and the faucet of \<open>initializeUserAccountForDevnet\<close> belongs to the same wallet and to a
  program of its own.
\<close>

definition soundCall :: "Solana \<Rightarrow> Client \<Rightarrow> ClientCall \<Rightarrow> bool" where
  "soundCall sol c x \<longleftrightarrow>
     x \<noteq> SetParameter (UpdateWhitelistMint None) \<and>
     (case x of
        ByUser (InitializeUserAccountForDevnet f k a) \<Rightarrow>
          faucetOk sol (faucet_programId f) (wallet c) (length (faucet_sent f)) f \<and>
          faucet_programId f \<noteq> programId c
      | _ \<Rightarrow> True)"

inductive reachable_client :: "Solana \<Rightarrow> Client \<Rightarrow> bool" for sol where
  start: "reachable_client sol (newClient w pid w sender q st ms)"
| accounts: "reachable_client sol c \<Longrightarrow> reachable_client sol (c\<lparr>sub_state := st, sub_markets := ms\<rparr>)"
| call: "reachable_client sol c \<Longrightarrow> soundCall sol c x \<Longrightarrow> reachable_client sol (runCall sol rpc x c)"

inductive_cases reachable_clientE: "reachable_client sol c"

subsection \<open>Calls keep the client coherent\<close>

lemma keeps_run: "keeps P m Q \<Longrightarrow> P s \<Longrightarrow> P (snd (m s))"
  using keepsD(1) [of P m Q s "fst (m s)" "snd (m s)"] by simp

lemma ok_initializeUserAccountForDevnet:
  assumes "fpid \<noteq> pid"
  shows "keeps (\<lambda>(f, c). faucetOk sol fpid w k f \<and> clientOk sol pid w n c)
     (initializeUserAccountForDevnet sol rpc fresh a) (\<lambda>_. True)"
proof -
  have w: "keeps (clientOk sol pid w n) (getS wallet) (\<lambda>x. x = w)"
    by (intro keeps_rules) (simp add: clientOkD)
  have good: "goodIx sol pid w ss (CreateAssociatedTokenAccount ap tp m t ow w)" for ss ap tp m t ow
    by (simp add: goodIx_def)
  have mint: "mintCall fpid ix \<Longrightarrow> goodIx sol pid w ss ix" for ss ix
    using assms by (auto simp: mintCall_def goodIx_def)
  show ?thesis
    unfolding initializeUserAccountForDevnet_def
    by (intro keeps_prod keeps_return keeps_bind [OF keeps_onSnd [OF w]]
        keeps_bind [OF keeps_onFst [OF ok_createInstructions]]
        keeps_bind [OF keeps_onSnd [OF ok_getInitializeUserInstructions]]
        keeps_bind [OF keeps_onSnd [OF ok_getDepositCollateralInstruction [where ss = "[fresh]"]]]
        keeps_bind [OF keeps_onSnd [OF ok_providerSend]])
      (auto intro: good mint)
qed

lemma ok_runUserCall:
  assumes "soundCall sol c (ByUser x)" "clientOk sol pid w n c"
  shows "clientOk sol pid w n (runUserCall sol rpc x c)"
proof (cases "\<exists>f k a. x = InitializeUserAccountForDevnet f k a")
  case True
  then obtain f k a where x: "x = InitializeUserAccountForDevnet f k a" by blast
  with assms have "faucetOk sol (faucet_programId f) w (length (faucet_sent f)) f" "faucet_programId f \<noteq> pid"
    by (simp_all add: soundCall_def clientOkD)
  with keeps_run [OF ok_initializeUserAccountForDevnet, of "faucet_programId f" pid sol w
      "length (faucet_sent f)" n "(f, c)"] assms(2) x
  show ?thesis by (simp add: case_prod_beta)
next
  case False
  with assms(2) show ?thesis
    by (cases x) (auto intro!: keeps_run [where P = "clientOk sol pid w n"] intro: keeps_rules)
qed

lemma ok_runAdminCall:
  "clientOk sol pid w n c \<Longrightarrow> clientOk sol pid w n (runAdminCall sol rpc x c)"
  by (cases x) (auto simp: moveAmmPrice_def intro!: keeps_run [where P = "clientOk sol pid w n"]
      intro: keeps_rules)

lemma ok_runParameterCall:
  assumes "x \<noteq> UpdateWhitelistMint None" "clientOk sol pid w n c"
  shows "clientOk sol pid w n (runParameterCall sol rpc x c)"
  using assms by (cases x)
    (auto intro!: keeps_run [where P = "clientOk sol pid w n"] intro: keeps_rules)

lemma ok_runCall:
  assumes "soundCall sol c x" "coherent sol c"
  shows "coherent sol (runCall sol rpc x c) \<and>
     list_all (goodSubmission sol (programId c) (wallet c)) (drop (length (outbox c)) (outbox (runCall sol rpc x c)))"
proof -
  have start: "clientOk sol (programId c) (wallet c) (length (outbox c)) c"
    using assms(2) by (simp add: clientOk_def)
  show ?thesis
  proof (cases x)
    case (UpdateWallet w)
    with assms(2) show ?thesis by (simp add: updateWallet_def coherent_def)
  next
    case (ByUser y)
    with ok_runUserCall [of sol c y, OF _ start] assms(1) show ?thesis by (simp add: clientOk_def)
  next
    case (ByAdmin y)
    with ok_runAdminCall [OF start] show ?thesis by (simp add: clientOk_def)
  next
    case (SetParameter y)
    with ok_runParameterCall [OF _ start, of y] assms(1) show ?thesis
      by (simp add: clientOk_def soundCall_def)
  qed
qed

lemma reachable_coherent: "reachable_client sol c \<Longrightarrow> coherent sol c"
proof (induction rule: reachable_client.induct)
  case (call c x rpc)
  then show ?case by (simp add: ok_runCall)
qed (simp_all add: coherent_def newClient_def)

subsection \<open>Sample clients\<close>

text \<open>A stand-in for the address derivation and for the node, with the sample accounts.\<close>

fun seedText :: "Seed \<Rightarrow> string" where
  "seedText (Utf8 s) = s"
| "seedText (KeyBytes k) = k"

definition sample_solana :: Solana where
  "sample_solana = \<lparr>
     findProgramAddress = (\<lambda>seeds pid. (concat (map seedText seeds) @ ''@'' @ pid, 255)),
     getAssociatedTokenAddress = (\<lambda>a t mint owner. mint @ ''/'' @ owner),
     TOKEN_PROGRAM_ID = ''Token'', ASSOCIATED_TOKEN_PROGRAM_ID = ''AToken'',
     SYSVAR_RENT_PUBKEY = ''Rent'', SystemProgramId = ''System''\<rparr>"

definition sample_rpc :: "UserAccount \<Rightarrow> Rpc" where
  "sample_rpc u = \<lparr>
     accountExists = (\<lambda>k. Inr True), fetchUser = (\<lambda>k. Inr u),
     fetchUserPositions = (\<lambda>k. Inr \<lparr>UserPositionsAccount.positions = [sample_position], user = ''user''\<rparr>),
     fetchFaucetState = (\<lambda>k. Inr \<lparr>faucet_mint = ''mint'', faucet_mintAuthority = ''mintAuthority''\<rparr>),
     minBalanceForMint = Inr 1461600, submit = (\<lambda>s. Inr ''signature'')\<rparr>"

definition sample_client :: Client where
  "sample_client = newClient ''alice'' ''program'' ''alice'' (DefaultTxSender ''alice'') None
     (Inr sample_state) (Inr sample_markets)"

lemma sample_client_reachable [simp]: "reachable_client sol sample_client"
  unfolding sample_client_def by (rule reachable_client.start)

lemma sample_client_simps [simp]:
  "wallet sample_client = ''alice''" "programId sample_client = ''program''"
  "outbox sample_client = []" "cachedUser sample_client = None"
  by (simp_all add: sample_client_def newClient_def)

subsection \<open>Properties\<close>



text \<open>
  The cached address of the user's account is never that of an earlier wallet: after any
  history of calls, with changes of the wallet among them, a client answers with the address
  derived from its current wallet and program, and the same holds for the state account.
\<close>

theorem cached_keys_current:
  assumes "reachable_client sol c"
  shows "fst (getUserAccountPublicKeyOf sol c) = Inr (getUserAccountPublicKey sol (programId c) (wallet c)) \<and>
         fst (getStatePublicKey sol c) = Inr (getClearingHouseStateAccountPublicKey sol (programId c))"
proof -
  have "clientOk sol (programId c) (wallet c) (length (outbox c)) c"
    using reachable_coherent [OF assms] by (simp add: clientOk_def)
  then show ?thesis
    by (auto simp: clientOk_def coherent_def getUserAccountPublicKeyOf_def getStatePublicKey_def
        eff_simps split: option.split)
qed

theorem cached_keys_current_witness:
  "fst (getUserAccountPublicKeyOf sample_solana
     (runCall sample_solana (sample_rpc sample_user) (UpdateWallet ''bob'')
       (runCall sample_solana (sample_rpc sample_user) (ByUser DeleteUser) sample_client))) =
   Inr ''userbob@program''"
proof -
  let ?r = "sample_rpc sample_user"
  let ?c1 = "runCall sample_solana ?r (ByUser DeleteUser) sample_client"
  let ?c2 = "runCall sample_solana ?r (UpdateWallet ''bob'') ?c1"
  have "reachable_client sample_solana ?c1"
    by (rule reachable_client.call) (simp_all add: soundCall_def)
  then have "reachable_client sample_solana ?c2"
    by (rule reachable_client.call) (simp add: soundCall_def)
  moreover have "programId ?c2 = ''program''" "wallet ?c2 = ''bob''"
    by (simp_all add: updateWallet_def deleteUser_def getUserAccountPublicKeyOf_def programIx_def
        txSenderSend_def submitVia_def sample_client_def newClient_def sample_rpc_def eff_simps)
  ultimately show ?thesis
    using cached_keys_current [of sample_solana ?c2]
    by (simp add: getUserAccountPublicKey_def getUserAccountPublicKeyAndNonce_def sample_solana_def)
qed

end
