(* ===== verification/Rust.thy ===== *)
theory Rust
  imports Prelude "HOL-Library.Word"
begin

section \<open>Machine integers and errors of the on-chain programs\<close>

text \<open>
  What the Rust sources under \<open>programs/clearing_house/src\<close> share:
  \<^item> \<open>ErrorCode\<close> of \<open>error.rs\<close>; a handler either returns, returns an error code, or panics
    (\<open>unwrap\<close> of an error, an index out of range, \<open>assert!\<close>, division by zero), which aborts the
    transaction as well;
  \<^item> the integer types. A value of a Rust integer type is the integer it denotes, and every
    operation carries the type it works at: the checked operations give \<open>None\<close> when the exact result
    does not fit the type, the plain ones (\<open>+\<close>, unary minus, \<open>abs\<close>, \<open>pow\<close>, and \<open>checked_shl\<close>, which
    checks the shift distance only) wrap around, since the release profile of \<open>Cargo.toml\<close> does not
    switch overflow checks on;
  \<^item> the casts of \<open>math/casting.rs\<close> and the conversions of the wide integers of \<open>math/bn.rs\<close>.
  The locale \<open>machine_int\<close> ties this reading to machine words; it is interpreted on unsigned and on
  signed words of every width. The collection \<open>rust_simps\<close> has the evaluation rules.
\<close>

named_theorems rust_simps "evaluation rules of checked machine arithmetic"

subsection \<open>Errors\<close>

datatype ErrorCode =
    InvalidCollateralAccountAuthority
  | InvalidInsuranceAccountAuthority
  | InsufficientDeposit
  | InsufficientCollateral
  | SufficientCollateral
  | MaxNumberOfPositions
  | AdminControlsPricesDisabled
  | MarketIndexNotInitialized
  | MarketIndexAlreadyInitialized
  | UserAccountAndUserPositionsAccountMismatch
  | UserHasNoPositionInMarket
  | InvalidInitialPeg
  | InvalidRepegRedundant
  | InvalidRepegDirection
  | InvalidRepegProfitability
  | SlippageOutsideLimit
  | TradeSizeTooSmall
  | InvalidUpdateK
  | AdminWithdrawTooLarge
  | MathError
  | BnConversionError
  | ClockUnavailable
  | UnableToLoadOracle
  | OracleMarkSpreadLimit
  | HistoryAlreadyInitialized
  | ExchangePaused
  | InvalidWhitelistToken
  | WhitelistTokenNotFound
  | InvalidDiscountToken
  | DiscountTokenNotFound
  | InvalidReferrer
  | ReferrerNotFound
  | InvalidOracle
  | OracleNotFound
  | LiquidationsBlockedByOracle
  | UserMaxDeposit
  | CantDeleteUserWithCollateral
  | InvalidFundingProfitability
  | CastingFailure

text \<open>
  A panic aborts the transaction without an error code of the program; \<open>External\<close> is the error of
  another program that an instruction calls.
\<close>

datatype chain_error = Err ErrorCode | Panic | External nat

type_synonym 'a chain_result = "chain_error + 'a"

text \<open>\<open>opt.ok_or_else(math_error!())?\<close>, \<open>opt.ok_or(e)?\<close> and \<open>res.unwrap()\<close>.\<close>

definition math_error :: "'a option \<Rightarrow> 'a chain_result" where
  "math_error x = (case x of None \<Rightarrow> Inl (Err MathError) | Some a \<Rightarrow> Inr a)"

definition ok_or :: "ErrorCode \<Rightarrow> 'a option \<Rightarrow> 'a chain_result" where
  "ok_or e x = (case x of None \<Rightarrow> Inl (Err e) | Some a \<Rightarrow> Inr a)"

definition unwrap :: "'a chain_result \<Rightarrow> 'a chain_result" where
  "unwrap x = (case x of Inl _ \<Rightarrow> Inl Panic | Inr a \<Rightarrow> Inr a)"

text \<open>A guard: \<open>if bad { return Err(e) }\<close>.\<close>

definition guardE :: "bool \<Rightarrow> ErrorCode \<Rightarrow> unit chain_result" where
  "guardE bad e = (if bad then Inl (Err e) else Inr ())"

text \<open>The error of a function that has error codes only.\<close>

definition lift_err :: "ErrorCode + 'a \<Rightarrow> 'a chain_result" where
  "lift_err x = (case x of Inl e \<Rightarrow> Inl (Err e) | Inr a \<Rightarrow> Inr a)"

text \<open>
  Partial correctness: \<open>returns m P\<close> says that \<open>P\<close> holds of the value of \<open>m\<close> when \<open>m\<close> does not fail. The
  rules \<open>returns_rules\<close> take a handler apart into its steps.
\<close>

definition returns :: "'e + 'a \<Rightarrow> ('a \<Rightarrow> bool) \<Rightarrow> bool" where
  "returns m P \<longleftrightarrow> (\<forall>a. m = Inr a \<longrightarrow> P a)"

named_theorems returns_rules "the rules of partial correctness"

lemma returns_bind [returns_rules]: "(\<And>a. m = Inr a \<Longrightarrow> returns (f a) P) \<Longrightarrow> returns (bindE m f) P"
  by (cases m) (auto simp: returns_def)

lemma returns_Inr [returns_rules]: "P a \<Longrightarrow> returns (Inr a) P"
  by (simp add: returns_def)

lemma returns_Inl [returns_rules]: "returns (Inl e) P"
  by (simp add: returns_def)

lemma returns_prod [returns_rules]:
  "(\<And>a b. x = (a, b) \<Longrightarrow> returns (f a b) P) \<Longrightarrow> returns (case x of (a, b) \<Rightarrow> f a b) P"
  by (cases x) auto

lemma returns_if [returns_rules]:
  "(c \<Longrightarrow> returns m P) \<Longrightarrow> (\<not> c \<Longrightarrow> returns n P) \<Longrightarrow> returns (if c then m else n) P"
  by simp

lemma returns_mono: "returns m P \<Longrightarrow> (\<And>a. P a \<Longrightarrow> Q a) \<Longrightarrow> returns m Q"
  by (auto simp: returns_def)

lemma returnsD: "returns m P \<Longrightarrow> m = Inr a \<Longrightarrow> P a"
  by (simp add: returns_def)

lemma returnsI: "(\<And>a. m = Inr a \<Longrightarrow> P a) \<Longrightarrow> returns m P"
  by (simp add: returns_def)

subsection \<open>Integer types\<close>

datatype int_type = Unsigned nat | Signed nat

abbreviation u64 :: int_type where "u64 \<equiv> Unsigned 64"
abbreviation u128 :: int_type where "u128 \<equiv> Unsigned 128"
abbreviation U192 :: int_type where "U192 \<equiv> Unsigned 192"
abbreviation U256 :: int_type where "U256 \<equiv> Unsigned 256"
abbreviation i64 :: int_type where "i64 \<equiv> Signed 64"
abbreviation i128 :: int_type where "i128 \<equiv> Signed 128"

fun fits :: "int_type \<Rightarrow> int \<Rightarrow> bool" where
  "fits (Unsigned w) x \<longleftrightarrow> 0 \<le> x \<and> x < 2 ^ w"
| "fits (Signed w) x \<longleftrightarrow> - (2 ^ (w - 1)) \<le> x \<and> x < 2 ^ (w - 1)"

text \<open>The value of a plain operation whose exact result is \<open>x\<close>.\<close>

fun wrap :: "int_type \<Rightarrow> int \<Rightarrow> int" where
  "wrap (Unsigned w) x = take_bit w x"
| "wrap (Signed w) x = signed_take_bit (w - 1) x"

fun width :: "int_type \<Rightarrow> nat" where
  "width (Unsigned w) = w"
| "width (Signed w) = w"

definition checked :: "int_type \<Rightarrow> int \<Rightarrow> int option" where
  "checked t x = (if fits t x then Some x else None)"

definition checked_add :: "int_type \<Rightarrow> int \<Rightarrow> int \<Rightarrow> int option" where
  "checked_add t a b = checked t (a + b)"

definition checked_sub :: "int_type \<Rightarrow> int \<Rightarrow> int \<Rightarrow> int option" where
  "checked_sub t a b = checked t (a - b)"

definition checked_mul :: "int_type \<Rightarrow> int \<Rightarrow> int \<Rightarrow> int option" where
  "checked_mul t a b = checked t (a * b)"

text \<open>Division truncates; besides a zero divisor, \<open>MIN / -1\<close> does not fit.\<close>

definition checked_div :: "int_type \<Rightarrow> int \<Rightarrow> int \<Rightarrow> int option" where
  "checked_div t a b = (if b = 0 then None else checked t (a sdiv b))"

text \<open>\<open>checked_shl\<close> fails only on a shift distance of the width or more; bits shifted out are lost.\<close>

definition checked_shl :: "int_type \<Rightarrow> int \<Rightarrow> nat \<Rightarrow> int option" where
  "checked_shl t a n = (if n < width t then Some (wrap t (a * 2 ^ n)) else None)"

text \<open>The checked operations with their \<open>ok_or_else(math_error!())?\<close>.\<close>

definition add_m :: "int_type \<Rightarrow> int \<Rightarrow> int \<Rightarrow> int chain_result" where
  "add_m t a b = math_error (checked_add t a b)"

definition sub_m :: "int_type \<Rightarrow> int \<Rightarrow> int \<Rightarrow> int chain_result" where
  "sub_m t a b = math_error (checked_sub t a b)"

definition mul_m :: "int_type \<Rightarrow> int \<Rightarrow> int \<Rightarrow> int chain_result" where
  "mul_m t a b = math_error (checked_mul t a b)"

definition div_m :: "int_type \<Rightarrow> int \<Rightarrow> int \<Rightarrow> int chain_result" where
  "div_m t a b = math_error (checked_div t a b)"

text \<open>The plain division \<open>a / b\<close> of unsigned numbers panics on zero.\<close>

definition div_p :: "int \<Rightarrow> int \<Rightarrow> int chain_result" where
  "div_p a b = (if b = 0 then Inl Panic else Inr (a sdiv b))"

subsection \<open>Casts\<close>

definition cast :: "int_type \<Rightarrow> int \<Rightarrow> int chain_result" where
  "cast t x = (if fits t x then Inr x else Inl (Err CastingFailure))"

definition cast_to_i128 :: "int \<Rightarrow> int chain_result" where
  "cast_to_i128 x = cast i128 x"

definition cast_to_u128 :: "int \<Rightarrow> int chain_result" where
  "cast_to_u128 x = cast u128 x"

definition cast_to_i64 :: "int \<Rightarrow> int chain_result" where
  "cast_to_i64 x = cast i64 x"

definition try_to_u128 :: "int \<Rightarrow> int chain_result" where
  "try_to_u128 x = (if fits u128 x then Inr x else Inl (Err BnConversionError))"

definition try_to_u64 :: "int \<Rightarrow> int chain_result" where
  "try_to_u64 x = (if fits u64 x then Inr x else Inl (Err BnConversionError))"

subsection \<open>Evaluation\<close>

lemma math_error_simps [simp]:
  "math_error None = Inl (Err MathError)" "math_error (Some a) = Inr a"
  by (simp_all add: math_error_def)

lemma ok_or_simps [simp]: "ok_or e None = Inl (Err e)" "ok_or e (Some a) = Inr a"
  by (simp_all add: ok_or_def)

lemma unwrap_simps [simp]: "unwrap (Inl e) = Inl Panic" "unwrap (Inr a) = Inr a"
  by (simp_all add: unwrap_def)

lemma lift_err_simps [simp]: "lift_err (Inl e) = Inl (Err e)" "lift_err (Inr a) = Inr a"
  by (simp_all add: lift_err_def)

lemma unwrap_Inr_iff [rust_simps]: "unwrap x = Inr a \<longleftrightarrow> x = Inr a"
  by (cases x) auto

lemma lift_err_Inr_iff [rust_simps]: "lift_err x = Inr a \<longleftrightarrow> x = Inr a"
  by (cases x) auto

lemma ok_or_Inr_iff [rust_simps]: "ok_or e x = Inr a \<longleftrightarrow> x = Some a"
  by (cases x) auto

lemma guardE_simps [simp]: "guardE False e = Inr ()" "guardE True e = Inl (Err e)"
  by (simp_all add: guardE_def)

lemma guardE_Inr_iff [rust_simps]: "guardE bad e = Inr u \<longleftrightarrow> \<not> bad"
  by (simp add: guardE_def)

lemma checked_ops:
  "add_m t a b = (if fits t (a + b) then Inr (a + b) else Inl (Err MathError))"
  "sub_m t a b = (if fits t (a - b) then Inr (a - b) else Inl (Err MathError))"
  "mul_m t a b = (if fits t (a * b) then Inr (a * b) else Inl (Err MathError))"
  "div_m t a b = (if b \<noteq> 0 \<and> fits t (a sdiv b) then Inr (a sdiv b) else Inl (Err MathError))"
  by (simp_all add: add_m_def sub_m_def mul_m_def div_m_def checked_add_def checked_sub_def
      checked_mul_def checked_div_def checked_def)

lemma checked_ops_Inr [rust_simps]:
  "add_m t a b = Inr c \<longleftrightarrow> c = a + b \<and> fits t (a + b)"
  "sub_m t a b = Inr c \<longleftrightarrow> c = a - b \<and> fits t (a - b)"
  "mul_m t a b = Inr c \<longleftrightarrow> c = a * b \<and> fits t (a * b)"
  "div_m t a b = Inr c \<longleftrightarrow> b \<noteq> 0 \<and> c = a sdiv b \<and> fits t (a sdiv b)"
  by (auto simp: checked_ops)

lemma checked_ops_ok:
  "fits t (a + b) \<Longrightarrow> add_m t a b = Inr (a + b)"
  "fits t (a - b) \<Longrightarrow> sub_m t a b = Inr (a - b)"
  "fits t (a * b) \<Longrightarrow> mul_m t a b = Inr (a * b)"
  "b \<noteq> 0 \<Longrightarrow> fits t (a sdiv b) \<Longrightarrow> div_m t a b = Inr (a sdiv b)"
  by (simp_all add: checked_ops)

lemma div_p_Inr [rust_simps]: "div_p a b = Inr c \<longleftrightarrow> b \<noteq> 0 \<and> c = a sdiv b"
  by (auto simp: div_p_def)

lemma casts:
  "cast_to_i128 x = cast i128 x" "cast_to_u128 x = cast u128 x" "cast_to_i64 x = cast i64 x"
  by (simp_all add: cast_to_i128_def cast_to_u128_def cast_to_i64_def)

lemma casts_Inr [rust_simps]:
  "cast t x = Inr y \<longleftrightarrow> y = x \<and> fits t x"
  "cast_to_i128 x = Inr y \<longleftrightarrow> y = x \<and> fits i128 x"
  "cast_to_u128 x = Inr y \<longleftrightarrow> y = x \<and> fits u128 x"
  "cast_to_i64 x = Inr y \<longleftrightarrow> y = x \<and> fits i64 x"
  "try_to_u128 x = Inr y \<longleftrightarrow> y = x \<and> fits u128 x"
  "try_to_u64 x = Inr y \<longleftrightarrow> y = x \<and> fits u64 x"
  by (auto simp: casts cast_def try_to_u128_def try_to_u64_def)

text \<open>The unfolding that evaluates on numbers.\<close>

lemmas rust_eval = checked_ops casts cast_def try_to_u128_def try_to_u64_def div_p_def

lemma fits_wrap: "0 < width t \<Longrightarrow> fits t (wrap t x)"
  by (cases t) (auto simp: signed_take_bit_int_greater_eq_minus_exp signed_take_bit_int_less_exp)

lemma wrap_fits: "fits t x \<Longrightarrow> 0 < width t \<Longrightarrow> wrap t x = x"
  by (cases t) (auto simp: take_bit_int_eq_self signed_take_bit_int_eq_self)

text \<open>A quotient of a value that fits fits, unless it is \<open>MIN / -1\<close>.\<close>

lemma sdiv_fits_unsigned: "fits (Unsigned w) a \<Longrightarrow> 0 < b \<Longrightarrow> fits (Unsigned w) (a sdiv b)"
  using sdiv_le_self [of a b] by auto

lemma sdiv_fits_signed:
  assumes "fits (Signed w) a" "0 < b"
  shows "fits (Signed w) (a sdiv b)"
proof -
  have "\<bar>a sdiv b\<bar> \<le> \<bar>a\<bar>" using sdiv_le_self [of "\<bar>a\<bar>" b] assms by (simp add: abs_sdiv)
  moreover have "0 \<le> a \<longrightarrow> 0 \<le> a sdiv b" "a \<le> 0 \<longrightarrow> a sdiv b \<le> 0"
    using assms sdiv_nonpos by auto
  moreover have "(0 :: int) < 2 ^ (w - 1)" by simp
  ultimately show ?thesis using assms unfolding fits.simps by linarith
qed

lemma fits_u128_U192: "fits u128 x \<Longrightarrow> fits U192 x"
  by simp

lemma fits_product_U256: "fits u128 x \<Longrightarrow> fits u128 y \<Longrightarrow> fits U256 (x * y)"
proof -
  assume x: "fits u128 x" and y: "fits u128 y"
  then have "x * y \<le> (2 ^ 128 - 1) * (2 ^ 128 - 1)" by (intro mult_mono) auto
  moreover have "0 \<le> x * y" using x y by simp
  ultimately show ?thesis by simp
qed

subsection \<open>Machine words\<close>

text \<open>
  What ties the arithmetic above to the machine: words of type \<open>'w\<close> denote the integers of a type
  \<open>t\<close>, and the word operations wrap around. Then a checked operation is the word operation, when
  the exact result fits.
\<close>

locale machine_int =
  fixes t :: int_type
    and rep :: "'w \<Rightarrow> int"
    and plus_w minus_w times_w :: "'w \<Rightarrow> 'w \<Rightarrow> 'w"
  assumes rep_fits: "fits t (rep a)"
    and width_pos: "0 < width t"
    and rep_plus: "rep (plus_w a b) = wrap t (rep a + rep b)"
    and rep_minus: "rep (minus_w a b) = wrap t (rep a - rep b)"
    and rep_times: "rep (times_w a b) = wrap t (rep a * rep b)"
begin

lemma add_is_word_op:
  "checked_add t (rep a) (rep b) = (if fits t (rep a + rep b) then Some (rep (plus_w a b)) else None)"
  by (simp add: checked_add_def checked_def rep_plus wrap_fits width_pos)

lemma sub_is_word_op:
  "checked_sub t (rep a) (rep b) = (if fits t (rep a - rep b) then Some (rep (minus_w a b)) else None)"
  by (simp add: checked_sub_def checked_def rep_minus wrap_fits width_pos)

lemma mul_is_word_op:
  "checked_mul t (rep a) (rep b) = (if fits t (rep a * rep b) then Some (rep (times_w a b)) else None)"
  by (simp add: checked_mul_def checked_def rep_times wrap_fits width_pos)

end

interpretation unsigned_words: machine_int "Unsigned LENGTH('a::len)" "uint :: 'a word \<Rightarrow> int" "(+)" "(-)" "(*)"
proof unfold_locales
  fix a b :: "'a word"
  show "fits (Unsigned LENGTH('a)) (uint a)" by (simp add: uint_lt2p)
qed (simp_all add: uint_word_ariths take_bit_eq_mod)

interpretation signed_words: machine_int "Signed LENGTH('a::len)" "sint :: 'a word \<Rightarrow> int" "(+)" "(-)" "(*)"
proof unfold_locales
  fix a b :: "'a word"
  show "fits (Signed LENGTH('a)) (sint a)"
    using sint_ge [of a] sint_lt [of a] by simp
qed (simp_all add: sint_word_ariths)

end
