(* ===== verification/OptionalAccounts.thy ===== *)
theory OptionalAccounts
  imports Rust Types
begin

section \<open>The optional accounts of an instruction\<close>

text \<open>
  The readers of \<open>programs/clearing_house/src/optional_accounts.rs\<close>, \<open>user_initialization.rs\<close> and of
  \<open>liquidate\<close> in \<open>lib.rs\<close>: how the program finds the accounts that the interface description does not
  name, by position or by key.

  \<open>unpack\<close> stands for \<open>TokenAccount::unpack_unchecked\<close>, \<open>tryUser\<close> for the check that an account is a
  user account of the program; \<open>spl_token\<close> is the identifier of the token program.
\<close>

record TokenAccount =
  token_mint :: PublicKey
  token_owner :: PublicKey
  token_amount :: nat
  token_initialized :: bool

record AccountInfo =
  info_key :: PublicKey
  info_owner :: PublicKey
  info_data :: "nat list"

subsection \<open>The readers\<close>

definition get_whitelist_token ::
  "(nat list \<Rightarrow> TokenAccount option) \<Rightarrow> PublicKey \<Rightarrow> bool \<Rightarrow> AccountInfo list \<Rightarrow> PublicKey \<Rightarrow>
     ErrorCode + TokenAccount option" where
  "get_whitelist_token unpack spl_token flag accounts whitelist_mint =
     (if \<not> flag then Inr None
      else if length accounts \<noteq> 1 then Inl WhitelistTokenNotFound
      else
        let info = accounts ! 0 in
        if info_owner info \<noteq> spl_token then Inl InvalidWhitelistToken
        else
          case unpack (info_data info) of
            None \<Rightarrow> Inl InvalidWhitelistToken
          | Some t \<Rightarrow>
              if \<not> token_initialized t then Inl InvalidWhitelistToken
              else if token_mint t \<noteq> whitelist_mint then Inl InvalidWhitelistToken
              else Inr (Some t))"

text \<open>The check at the start of \<open>user_initialization::initialize\<close>; \<open>default_key\<close> is \<open>Pubkey::default()\<close>.\<close>

definition check_whitelist ::
  "(nat list \<Rightarrow> TokenAccount option) \<Rightarrow> PublicKey \<Rightarrow> PublicKey \<Rightarrow> PublicKey \<Rightarrow> PublicKey \<Rightarrow> bool \<Rightarrow>
     AccountInfo list \<Rightarrow> ErrorCode + unit" where
  "check_whitelist unpack spl_token default_key whitelist_mint auth flag accounts =
     (if whitelist_mint = default_key then Inr ()
      else
        bindE (get_whitelist_token unpack spl_token flag accounts whitelist_mint) (\<lambda>tok.
          case tok of
            None \<Rightarrow> Inl WhitelistTokenNotFound
          | Some t \<Rightarrow>
              if token_owner t \<noteq> auth then Inl InvalidWhitelistToken
              else if token_amount t = 0 then Inl WhitelistTokenNotFound
              else Inr ()))"

text \<open>The body of the discount branch, on the account the iterator yields.\<close>

definition read_discount ::
  "(nat list \<Rightarrow> TokenAccount option) \<Rightarrow> PublicKey \<Rightarrow> PublicKey \<Rightarrow> PublicKey \<Rightarrow> AccountInfo \<Rightarrow>
     ErrorCode + TokenAccount" where
  "read_discount unpack spl_token discount_mint auth info =
     (if info_owner info \<noteq> spl_token then Inl InvalidDiscountToken
      else
        case unpack (info_data info) of
          None \<Rightarrow> Inl InvalidDiscountToken
        | Some t \<Rightarrow>
            if \<not> token_initialized t then Inl InvalidDiscountToken
            else if token_mint t \<noteq> discount_mint then Inl InvalidDiscountToken
            else if token_owner t \<noteq> auth then Inl InvalidDiscountToken
            else Inr t)"

definition read_referrer ::
  "(AccountInfo \<Rightarrow> 'u option) \<Rightarrow> PublicKey \<Rightarrow> AccountInfo \<Rightarrow> ErrorCode + 'u option" where
  "read_referrer tryUser user_key info =
     (if info_key info = user_key then Inr None
      else case tryUser info of None \<Rightarrow> Inl InvalidReferrer | Some u \<Rightarrow> Inr (Some u))"

definition get_discount_token_and_referrer ::
  "(nat list \<Rightarrow> TokenAccount option) \<Rightarrow> (AccountInfo \<Rightarrow> 'u option) \<Rightarrow> PublicKey \<Rightarrow> bool \<Rightarrow> bool \<Rightarrow>
     AccountInfo list \<Rightarrow> PublicKey \<Rightarrow> PublicKey \<Rightarrow> PublicKey \<Rightarrow>
     ErrorCode + TokenAccount option \<times> 'u option" where
  "get_discount_token_and_referrer unpack tryUser spl_token discount_flag referrer_flag accounts
     discount_mint user_key auth =
     bindE (if discount_flag then
              case accounts of
                [] \<Rightarrow> Inl DiscountTokenNotFound
              | info # rest \<Rightarrow>
                  bindE (read_discount unpack spl_token discount_mint auth info) (\<lambda>t. Inr (Some t, rest))
            else Inr (None, accounts)) (\<lambda>(discount, accounts').
     bindE (if referrer_flag then
              case accounts' of
                [] \<Rightarrow> Inl ReferrerNotFound
              | info # rest \<Rightarrow> read_referrer tryUser user_key info
            else Inr None) (\<lambda>referrer.
     Inr (discount, referrer)))"

text \<open>The search of \<open>liquidate\<close> for the oracle of a market.\<close>

definition find_oracle :: "AccountInfo list \<Rightarrow> Market \<Rightarrow> ErrorCode + AccountInfo" where
  "find_oracle accounts market =
     (case find (\<lambda>info. info_key info = amm_oracle (amm market)) accounts of
        None \<Rightarrow> Inl OracleNotFound
      | Some info \<Rightarrow> Inr info)"

end
