(* ===== verification/OnChain.thy ===== *)
theory OnChain
  imports ClientCalls OptionalAccounts
begin

section \<open>How the on-chain program reads the extra accounts\<close>

text \<open>
  Three instructions pass accounts that the interface description does not name:
  \<open>openPosition\<close> and \<open>closePosition\<close> (discount token and referrer, announced by two flags),
  \<open>initializeUser\<close> (whitelist token) and \<open>liquidate\<close> (oracles). This theory has an abstract
  specification of what the caller means, and the proofs that the accounts the SDK builds are read
  back as meant by the readers of \<open>OptionalAccounts\<close>.
\<close>

subsection \<open>What the caller means\<close>

text \<open>
  The abstract specification of the optional accounts: each of the two is either absent or the
  account the caller names, and is checked on its own.
\<close>

definition meant ::
  "(nat list \<Rightarrow> TokenAccount option) \<Rightarrow> (AccountInfo \<Rightarrow> 'u option) \<Rightarrow> PublicKey \<Rightarrow>
     AccountInfo option \<Rightarrow> AccountInfo option \<Rightarrow> PublicKey \<Rightarrow> PublicKey \<Rightarrow> PublicKey \<Rightarrow>
     ErrorCode + TokenAccount option \<times> 'u option" where
  "meant unpack tryUser spl_token discountInfo referrerInfo discount_mint user_key auth =
     bindE (case discountInfo of
              None \<Rightarrow> Inr None
            | Some info \<Rightarrow> mapE Some (read_discount unpack spl_token discount_mint auth info)) (\<lambda>discount.
     bindE (case referrerInfo of
              None \<Rightarrow> Inr None
            | Some info \<Rightarrow> read_referrer tryUser user_key info) (\<lambda>referrer.
     Inr (discount, referrer)))"

text \<open>A flag of the argument object \<open>optionalAccounts\<close>.\<close>

definition flag :: "Instruction \<Rightarrow> string \<Rightarrow> bool" where
  "flag ix name =
     (case last (ix_args ix) of AStruct fs \<Rightarrow> entry fs name = Some (ABool True) | _ \<Rightarrow> False)"

text \<open>The accounts of the instruction as the program gets them; \<open>chain\<close> is the content of the chain.\<close>

definition received :: "(PublicKey \<Rightarrow> AccountInfo) \<Rightarrow> Instruction \<Rightarrow> AccountInfo list" where
  "received chain ix = map (\<lambda>m. chain (pubkey m)) (ix_remaining ix)"

lemma read_optional:
  "get_discount_token_and_referrer unpack tryUser spl (d \<noteq> None) (r \<noteq> None)
     (map (\<lambda>m. chain (pubkey m)) (optionalAccounts d r)) mint userKey auth =
   meant unpack tryUser spl (map_option chain d) (map_option chain r) mint userKey auth"
  by (cases d; cases r)
    (auto simp: get_discount_token_and_referrer_def meant_def optionalAccounts_def mapE_def bindE_assoc)

lemma flags_optional [simp]:
  "ix_args ix = xs @ [optionalFlags d r] \<Longrightarrow> flag ix ''discountToken'' \<longleftrightarrow> d \<noteq> None"
  "ix_args ix = xs @ [optionalFlags d r] \<Longrightarrow> flag ix ''referrer'' \<longleftrightarrow> r \<noteq> None"
  by (simp_all add: flag_def optionalFlags_def)

lemma open_ix_optional:
  assumes "getOpenPositionIx sol rpc dir a mi l d r c = (Inr (Invoke p ix), c')"
  shows "\<exists>xs. ix_args ix = xs @ [optionalFlags d r]" "ix_remaining ix = optionalAccounts d r"
  using assms
  by (auto simp: getOpenPositionIx_def programIx_def eff_simps Let_def split: prod.splits sum.splits)

lemma close_ix_optional:
  assumes "getClosePositionIx sol rpc mi d r c = (Inr (Invoke p ix), c')"
  shows "\<exists>xs. ix_args ix = xs @ [optionalFlags d r]" "ix_remaining ix = optionalAccounts d r"
  using assms
  by (auto simp: getClosePositionIx_def programIx_def eff_simps split: prod.splits sum.splits)

text \<open>A chain on which every account belongs to the token program.\<close>

definition sample_chain :: "PublicKey \<Rightarrow> AccountInfo" where
  "sample_chain k = \<lparr>info_key = k, info_owner = ''Token'', info_data = []\<rparr>"

subsection \<open>Properties\<close>

text \<open>
  C22: the optional accounts of \<open>openPosition\<close> and \<open>closePosition\<close> arrive as meant: from the flags and
  the extra accounts the SDK puts into the instruction, the program reads exactly the discount
  token and the referrer the caller named, each checked on its own, for all four combinations,
  and with the same errors.
\<close>

theorem optional_accounts_refine:
  assumes "getOpenPositionIx sol rpc dir a mi l d r c = (Inr (Invoke p ix), c') \<or>
           getClosePositionIx sol rpc mi d r c = (Inr (Invoke p ix), c')"
  shows "get_discount_token_and_referrer unpack tryUser spl (flag ix ''discountToken'') (flag ix ''referrer'')
           (received chain ix) mint userKey auth =
         meant unpack tryUser spl (map_option chain d) (map_option chain r) mint userKey auth"
proof -
  obtain xs where "ix_args ix = xs @ [optionalFlags d r]" and "ix_remaining ix = optionalAccounts d r"
    using assms open_ix_optional close_ix_optional by metis
  then show ?thesis by (simp only: flags_optional read_optional received_def)
qed

theorem optional_accounts_refine_witness:
  "\<exists>ix c'. getOpenPositionIx sample_solana (sample_rpc sample_user) LONG 5000 0 None None (Some ''bob'')
       sample_client = (Inr (Invoke ''program'' ix), c') \<and>
     get_discount_token_and_referrer (\<lambda>_. None) (\<lambda>info. Some (info_key info)) ''Token''
       (flag ix ''discountToken'') (flag ix ''referrer'') (received sample_chain ix) ''mint'' ''u'' ''alice'' =
     Inr (None, Some ''bob'')"
proof -
  let ?run = "getOpenPositionIx sample_solana (sample_rpc sample_user) LONG 5000 0 None None (Some ''bob'')
      sample_client"
  have "\<exists>ix c'. ?run = (Inr (Invoke ''program'' ix), c')"
    by (simp add: getOpenPositionIx_def getUserAccountPublicKeyOf_def getUserAccountOf_def
        getStatePublicKey_def programIx_def oracleOf_def marketAt_def sample_client_def newClient_def
        sample_rpc_def eff_simps bn_toNumber_def js_index_def)
  then obtain ix c' where run: "?run = (Inr (Invoke ''program'' ix), c')" by blast
  from optional_accounts_refine [OF disjI1 [OF run],
      of "\<lambda>_. None" "\<lambda>info. Some (info_key info)" "''Token''" sample_chain "''mint''" "''u''" "''alice''"]
  show ?thesis using run by (simp add: meant_def read_referrer_def sample_chain_def)
qed

text \<open>
  C26: a liquidation brings every oracle it needs: for each position of the liquidated user that is
  not empty, the program finds the oracle of the position's market among the extra accounts, when
  the oracles of the markets on the chain are those of the client's copy.
\<close>

theorem liquidation_oracles_found:
  assumes "liquidationOracles ms ps = Inr rs" "p \<in> set ps" "UserPosition.baseAssetAmount p \<noteq> 0"
    and "\<forall>k. info_key (chain k) = k"
  shows "\<exists>m info. js_index ms (UserPosition.marketIndex p) = Some m \<and>
           find_oracle (map (\<lambda>a. chain (pubkey a)) rs) m = Inr info \<and> info_key info = amm_oracle (amm m)"
proof -
  have "\<exists>m. js_index ms (UserPosition.marketIndex p) = Some m \<and> amm_oracle (amm m) \<in> set (map pubkey rs)"
    using assms(1-3)
  proof (induction ms ps arbitrary: rs rule: liquidationOracles.induct)
    case (2 ms q ps)
    show ?case
    proof (cases "UserPosition.baseAssetAmount q = 0")
      case True
      with 2 show ?thesis by auto
    next
      case False
      with "2.prems"(1) obtain m rest where m: "js_index ms (UserPosition.marketIndex q) = Some m"
          and rest: "liquidationOracles ms ps = Inr rest"
          and rs: "rs = \<lparr>pubkey = amm_oracle (amm m), isWritable = False, isSigner = False\<rparr> # rest"
        by (auto simp: bn_simps bn_toNumber_def split: if_splits)
      show ?thesis
      proof (cases "p = q")
        case True
        with m rs show ?thesis by auto
      next
        case False
        with "2.prems" \<open>UserPosition.baseAssetAmount q \<noteq> 0\<close> m "2.IH"(1) rest rs show ?thesis
          by (fastforce simp: bn_simps bn_toNumber_def split: if_splits)
      qed
    qed
  qed simp
  then obtain m where m: "js_index ms (UserPosition.marketIndex p) = Some m"
    and "amm_oracle (amm m) \<in> set (map pubkey rs)" by blast
  then obtain info where "find (\<lambda>i. info_key i = amm_oracle (amm m)) (map (\<lambda>a. chain (pubkey a)) rs) = Some info"
    using assms(4) by (cases "find (\<lambda>i. info_key i = amm_oracle (amm m)) (map (\<lambda>a. chain (pubkey a)) rs)")
      (auto simp: find_None_iff)
  moreover from this have "info_key info = amm_oracle (amm m)" by (auto simp: find_Some_iff)
  ultimately show ?thesis using m by (simp add: find_oracle_def)
qed

theorem liquidation_oracles_found_witness:
  "\<exists>rs. liquidationOracles [sample_market] [sample_position] = Inr rs \<and>
     find_oracle (map (\<lambda>a. sample_chain (pubkey a)) rs) sample_market =
       Inr (sample_chain (amm_oracle sample_amm))"
proof -
  have run: "liquidationOracles [sample_market] [sample_position] =
      Inr [\<lparr>pubkey = amm_oracle sample_amm, isWritable = False, isSigner = False\<rparr>]"
    by (simp add: bn_toNumber_def js_index_def)
  from liquidation_oracles_found [OF run, of sample_position sample_chain] run show ?thesis
    by (auto simp: sample_chain_def js_index_def find_oracle_def)
qed

text \<open>
  The whitelist check of a new user: with the extra account the SDK always adds, the program
  admits the user if and only if no whitelist is set, or the wallet's associated token account
  for the whitelist mint is a valid token account of that mint, owned by the wallet, that is not
  empty. (The SDK sends the account even when no whitelist is set, which the program ignores.)
\<close>

theorem whitelist_check_iff:
  assumes "getInitializeUserInstructions sol fresh c = (Inr (pk, uk, Invoke p ix), c')"
    and "sub_state c = Inr st"
  shows "check_whitelist unpack spl default_key (whitelistMint st) (wallet c) (flag ix ''whitelistToken'')
           (received chain ix) = Inr () \<longleftrightarrow>
         whitelistMint st = default_key \<or>
         (let info = chain (getAssociatedTokenAddress sol (ASSOCIATED_TOKEN_PROGRAM_ID sol)
                              (TOKEN_PROGRAM_ID sol) (whitelistMint st) (wallet c))
          in info_owner info = spl \<and>
             (\<exists>t. unpack (info_data info) = Some t \<and> token_initialized t \<and>
                  token_mint t = whitelistMint st \<and> token_owner t = wallet c \<and> token_amount t \<noteq> 0))"
proof -
  have "flag ix ''whitelistToken''"
    and "ix_remaining ix = [\<lparr>pubkey = getAssociatedTokenAddress sol (ASSOCIATED_TOKEN_PROGRAM_ID sol)
           (TOKEN_PROGRAM_ID sol) (whitelistMint st) (wallet c), isWritable = False, isSigner = False\<rparr>]"
    using assms
    by (auto simp: getInitializeUserInstructions_def programIx_def eff_simps flag_def Let_def
        split: prod.splits sum.splits)
  then show ?thesis
    by (auto simp: check_whitelist_def get_whitelist_token_def received_def Let_def bn_simps
        split: option.splits if_splits)
qed

theorem whitelist_check_iff_witness:
  "\<exists>ix c'. getInitializeUserInstructions sample_solana ''fresh'' sample_client =
       (Inr (''fresh'', ''useralice@program'', Invoke ''program'' ix), c') \<and>
     check_whitelist (\<lambda>_. Some \<lparr>token_mint = ''whitelistMint'', token_owner = ''alice'', token_amount = 1,
       token_initialized = True\<rparr>) ''Token'' ''default'' ''whitelistMint'' ''alice''
       (flag ix ''whitelistToken'') (received sample_chain ix) = Inr ()"
proof -
  let ?run = "getInitializeUserInstructions sample_solana ''fresh'' sample_client"
  have "\<exists>ix c'. ?run = (Inr (''fresh'', ''useralice@program'', Invoke ''program'' ix), c')"
    by (simp add: getInitializeUserInstructions_def getStatePublicKey_def programIx_def
        sample_client_def newClient_def sample_solana_def getUserAccountPublicKeyAndNonce_def
        eff_simps Let_def)
  then obtain ix c' where run: "?run = (Inr (''fresh'', ''useralice@program'', Invoke ''program'' ix), c')"
    by blast
  moreover have "sub_state sample_client = Inr sample_state" "whitelistMint sample_state = ''whitelistMint''"
    by (simp_all add: sample_client_def newClient_def sample_state_def)
  ultimately show ?thesis
    using whitelist_check_iff [OF run, of sample_state "\<lambda>_. Some \<lparr>token_mint = ''whitelistMint'',
        token_owner = ''alice'', token_amount = 1, token_initialized = True\<rparr>" "''Token''" "''default''"
        sample_chain]
    by (simp add: sample_chain_def Let_def)
qed

end
