(* ===== verification/AdminProps.thy ===== *)
theory AdminProps
  imports ClientCalls
begin

section \<open>Properties of the administrative calls and of the caches\<close>

text \<open>
  What the calls of \<open>Admin\<close> and the caches of \<open>ClearingHouse\<close> do beyond the shape of the transactions:
  \<open>moveAmmToPrice\<close> moves the price towards the target and stays on the curve, initialisation is
  refused the second time, an index without a market is an error, a user account that was cached
  stays cached when the account is deleted and created anew.
\<close>

subsection \<open>Moving the price\<close>

lemma target_quote_rise:
  assumes "calculateTargetPriceTrade m target MAXPCT Quote = Inr (dir, sz, e, t)"
    and "calculateMarkPrice m < target"
  shows "dir = LONG" and "\<exists>b. b \<noteq> 0 \<and>
    sz = (((curve_k (amm m) sdiv b - quoteAssetReserve (amm m)) * pegMultiplier (amm m)) sdiv PEG_PRECISION)
           sdiv AMM_TO_QUOTE_PRECISION_RATIO \<and>
    calculatePrice b (curve_k (amm m) sdiv b) (pegMultiplier (amm m)) < target + 100000"
  using assms
  by (auto simp: calculateTargetPriceTrade_def Let_def bindE_Inr_iff assert_Inr_iff bn_div_Inr_iff
      curve_k_def dest!: finishTargetTrade_InrD split: if_splits)

lemma target_quote_fall:
  assumes "calculateTargetPriceTrade m target MAXPCT Quote = Inr (dir, sz, e, t)"
    and "target < calculateMarkPrice m"
  shows "dir = SHORT"
  using assms
  by (auto simp: calculateTargetPriceTrade_def Let_def bindE_Inr_iff assert_Inr_iff bn_div_Inr_iff
      dest!: finishTargetTrade_InrD split: if_splits)

lemma target_quote_same:
  assumes "calculateTargetPriceTrade m target MAXPCT Quote = Inr (dir, sz, e, t)"
    and "target = calculateMarkPrice m"
  shows "dir = LONG" "sz = 0"
  using assms
  by (auto simp: calculateTargetPriceTrade_def Let_def bindE_Inr_iff assert_Inr_iff ZERO_def)

text \<open>The quote amount of a rising trade moves the quote reserve, if at all, at most to its target.\<close>

lemma rising_quote_reserve:
  assumes c: "curve_ok a" and "b \<noteq> 0" and "0 \<le> sz"
    and sz: "sz = (((curve_k a sdiv b - quoteAssetReserve a) * pegMultiplier a) sdiv PEG_PRECISION)
                    sdiv AMM_TO_QUOTE_PRECISION_RATIO"
    and s: "s = (sz * AMM_TIMES_PEG_TO_QUOTE_PRECISION_RATIO) sdiv pegMultiplier a"
  shows "s = 0 \<or> 0 < s \<and> 0 < b \<and> quoteAssetReserve a + s \<le> curve_k a sdiv b"
proof (cases "curve_k a sdiv b \<le> quoteAssetReserve a")
  case True
  then have "(curve_k a sdiv b - quoteAssetReserve a) * pegMultiplier a \<le> 0"
    using curve_okD [OF c] by (simp add: mult_nonpos_nonneg)
  then have "sz \<le> 0" unfolding sz by (intro sdiv_nonpos) (auto simp: constant_values)
  with \<open>0 \<le> sz\<close> s show ?thesis by simp
next
  case False
  let ?x = "(curve_k a sdiv b - quoteAssetReserve a) * pegMultiplier a"
  have k: "0 \<le> curve_k a" and peg: "0 < pegMultiplier a" and q: "0 < quoteAssetReserve a"
    using curve_okD [OF c] by auto
  have b: "0 < b"
  proof (rule ccontr)
    assume "\<not> 0 < b"
    with \<open>b \<noteq> 0\<close> k have "curve_k a sdiv b \<le> 0"
      using sdiv_nonneg [of "curve_k a" "- b"] by (simp add: sdiv_minus_right)
    with False q show False by simp
  qed
  have x: "0 \<le> ?x" using False peg by simp
  have "1000 * (10000000 * sz) \<le> 1000 * (?x sdiv PEG_PRECISION)"
    unfolding sz using x sdiv_mult_le [of "?x sdiv PEG_PRECISION" AMM_TO_QUOTE_PRECISION_RATIO]
    by (simp add: constant_values)
  also have "\<dots> \<le> ?x" using x sdiv_mult_le [of ?x PEG_PRECISION] by (simp add: constant_values)
  finally have "s \<le> ?x sdiv pegMultiplier a"
    unfolding s using peg by (intro sdiv_mono) (simp_all add: constant_values)
  then have "s \<le> curve_k a sdiv b - quoteAssetReserve a" using peg by simp
  moreover have "0 \<le> s" unfolding s using \<open>0 \<le> sz\<close> peg by (simp add: constant_values)
  ultimately show ?thesis using b by auto
qed

lemma moved_price_rise:
  assumes c: "curve_ok (amm m)" and r: "moveReserves m target = Inr (q, b)"
    and up: "calculateMarkPrice m < target"
  shows "calculatePrice b q (pegMultiplier (amm m)) < target + 100000 \<and>
         (q \<noteq> quoteAssetReserve (amm m) \<longrightarrow> calculateMarkPrice m \<le> calculatePrice b q (pegMultiplier (amm m)))"
proof -
  let ?a = "amm m"
  note cd = curve_okD [OF c]
  obtain dir sz e t where trade: "calculateTargetPriceTrade m target MAXPCT Quote = Inr (dir, sz, e, t)"
    and swap: "calculateAmmReservesAfterSwap ?a Quote sz (getSwapDirection Quote dir) = Inr (q, b)"
    using r by (auto simp: moveReserves_def bindE_Inr_iff)
  obtain b0 where b0: "b0 \<noteq> 0"
      "sz = (((curve_k ?a sdiv b0 - quoteAssetReserve ?a) * pegMultiplier ?a) sdiv PEG_PRECISION)
              sdiv AMM_TO_QUOTE_PRECISION_RATIO"
      "calculatePrice b0 (curve_k ?a sdiv b0) (pegMultiplier ?a) < target + 100000"
    and dir: "dir = LONG"
    using target_quote_rise [OF trade up] by blast
  have sz: "0 \<le> sz" using swap swap_negative [of sz ?a Quote "getSwapDirection Quote dir"] by (cases "0 \<le> sz") auto
  define s where "s = (sz * AMM_TIMES_PEG_TO_QUOTE_PRECISION_RATIO) sdiv pegMultiplier ?a"
  have q: "q = quoteAssetReserve ?a + s" and b: "b = curve_k ?a sdiv q"
    using swap sz dir cd(3) by (auto simp: quote_swap_eval s_def curve_k_def Let_def split: if_splits)
  from rising_quote_reserve [OF c b0(1) sz b0(2) s_def] show ?thesis
  proof
    assume "s = 0"
    then have "baseAssetReserve ?a \<le> b" using cd b q by (simp add: sdiv_le_iff)
    then have "calculatePrice b q (pegMultiplier ?a) \<le> calculateMarkPrice m"
      unfolding calculateMarkPrice_def using cd q \<open>s = 0\<close> by (intro calculatePrice_mono) auto
    with up q \<open>s = 0\<close> show ?thesis by simp
  next
    assume s: "0 < s \<and> 0 < b0 \<and> quoteAssetReserve ?a + s \<le> curve_k ?a sdiv b0"
    have "b0 * q \<le> b0 * (curve_k ?a sdiv b0)" using s q by (intro mult_left_mono) auto
    also have "\<dots> \<le> curve_k ?a" using s cd by (intro sdiv_mult_le) auto
    finally have "b0 \<le> b" using b q s cd by (simp add: sdiv_le_iff)
    then have "calculatePrice b q (pegMultiplier ?a) \<le> calculatePrice b0 (curve_k ?a sdiv b0) (pegMultiplier ?a)"
      using s q cd by (intro calculatePrice_mono) auto
    moreover have "b \<le> baseAssetReserve ?a" using quote_add_base_le [OF c, of s] s b q by simp
    then have "calculateMarkPrice m \<le> calculatePrice b q (pegMultiplier ?a)"
      unfolding calculateMarkPrice_def using s cd q \<open>b0 \<le> b\<close> by (intro calculatePrice_mono) auto
    ultimately show ?thesis using b0(3) by simp
  qed
qed

lemma moved_price_fall:
  assumes c: "curve_ok (amm m)" and r: "moveReserves m target = Inr (q, b)" "0 < q"
    and down: "target < calculateMarkPrice m"
  shows "calculatePrice b q (pegMultiplier (amm m)) \<le> calculateMarkPrice m"
proof -
  let ?a = "amm m"
  note cd = curve_okD [OF c]
  obtain dir sz e t where trade: "calculateTargetPriceTrade m target MAXPCT Quote = Inr (dir, sz, e, t)"
    and swap: "calculateAmmReservesAfterSwap ?a Quote sz (getSwapDirection Quote dir) = Inr (q, b)"
    using r by (auto simp: moveReserves_def bindE_Inr_iff)
  have sz: "0 \<le> sz" using swap swap_negative [of sz ?a Quote "getSwapDirection Quote dir"] by (cases "0 \<le> sz") auto
  then have q: "q \<le> quoteAssetReserve ?a" and b: "b = curve_k ?a sdiv q"
    using swap cd(3) target_quote_fall [OF trade down]
    by (auto simp: quote_swap_eval curve_k_def Let_def constant_values split: if_splits)
  have "baseAssetReserve ?a * q \<le> baseAssetReserve ?a * quoteAssetReserve ?a"
    using q cd by (intro mult_left_mono) auto
  also have "\<dots> \<le> curve_k ?a" by (rule cd)
  finally have "baseAssetReserve ?a \<le> b" unfolding b using r(2) cd by (simp add: sdiv_le_iff)
  then show ?thesis
    unfolding calculateMarkPrice_def using cd q r(2) by (intro calculatePrice_mono) auto
qed

subsection \<open>Properties\<close>


lemma sample_move: "moveReserves sample_market 510000000000 = Inr (10099504938200000, 9901475429925643)"
  unfolding moveReserves_def sample_target_trade
  by (simp add: quote_swap_eval Let_def constant_values)


text \<open>
  The user account that \<open>getUserAccount\<close> cached survives the deletion of the account: after
  \<open>deleteUser\<close> and \<open>initializeUserAccount\<close> with a new positions account, the instruction that opens a
  position still names the positions account of the deleted user, whatever the node now answers.
  (Only \<open>updateWallet\<close> clears the cache; \<open>withdrawCollateral\<close> reads the account anew.)
\<close>

theorem stale_positions_account:
  assumes "cachedUser c = Some u"
    and "c1 = snd (deleteUser sol rpc1 c)" "c2 = snd (initializeUserAccount sol rpc2 fresh c1)"
    and "getOpenPositionIx sol rpc3 dir a mi l d r c2 = (Inr (Invoke p ix), c3)"
  shows "entry (ix_accounts ix) ''userPositions'' = Some (UserAccount.positions u)"
proof -
  have cached: "keeps (\<lambda>c. cachedUser c = Some u) (getStatePublicKey sol) (\<lambda>_. True)"
    "keeps (\<lambda>c. cachedUser c = Some u) (getUserAccountPublicKeyOf sol) (\<lambda>_. True)"
    "keeps (\<lambda>c. cachedUser c = Some u) (submitVia rpc sub) (\<lambda>_. True)" for rpc sub
    unfolding getStatePublicKey_def getUserAccountPublicKeyOf_def submitVia_def
    by (intro keeps_rules; simp)+
  have send: "keeps (\<lambda>c. cachedUser c = Some u) (txSenderSend rpc tx ss q) (\<lambda>_. True)" for rpc tx ss q
    unfolding txSenderSend_def by (intro keeps_rules cached)
  note bind = keeps_bind [OF cached(1)] keeps_bind [OF cached(2)] keeps_bind [OF send]
  have "keeps (\<lambda>c. cachedUser c = Some u) (deleteUser sol rpc1) (\<lambda>_. True)"
    unfolding deleteUser_def programIx_def by (intro keeps_rules bind send)
  from keeps_run [OF this assms(1)] have "cachedUser c1 = Some u" by (simp add: assms(2))
  have "keeps (\<lambda>c. cachedUser c = Some u) (initializeUserAccount sol rpc2 fresh) (\<lambda>_. True)"
    unfolding initializeUserAccount_def getInitializeUserInstructions_def programIx_def Let_def bindS_assoc
      case_prod_beta
    by (intro keeps_rules bind) simp
  from keeps_run [OF this \<open>cachedUser c1 = Some u\<close>] have c2: "cachedUser c2 = Some u"
    by (simp add: assms(3))
  have "cachedUser (snd (getUserAccountPublicKeyOf sol c2)) = Some u"
    using keeps_run [OF cached(2), of c2] c2 by simp
  with assms(4) c2 show ?thesis
    by (auto simp: getOpenPositionIx_def getUserAccountOf_def programIx_def positionAccounts_def
        eff_simps Let_def split: prod.splits sum.splits)
qed

theorem stale_positions_account_witness:
  "let c = sample_client\<lparr>cachedUser := Some sample_user\<rparr>;
       c1 = snd (deleteUser sample_solana (sample_rpc sample_user) c);
       c2 = snd (initializeUserAccount sample_solana (sample_rpc sample_user) ''newPositions'' c1);
       rpc3 = sample_rpc (sample_user\<lparr>UserAccount.positions := ''newPositions''\<rparr>)
   in \<exists>ix c3. getOpenPositionIx sample_solana rpc3 LONG 5000 0 None None None c2 = (Inr (Invoke ''program'' ix), c3) \<and>
      entry (ix_accounts ix) ''userPositions'' = Some ''positions''"
proof -
  let ?c = "sample_client\<lparr>cachedUser := Some sample_user\<rparr>"
  let ?r = "sample_rpc sample_user"
  let ?r3 = "sample_rpc (sample_user\<lparr>UserAccount.positions := ''newPositions''\<rparr>)"
  define c1 where "c1 = snd (deleteUser sample_solana ?r ?c)"
  define c2 where "c2 = snd (initializeUserAccount sample_solana ?r ''newPositions'' c1)"
  have "\<exists>ix c3. getOpenPositionIx sample_solana ?r3 LONG 5000 0 None None None c2 = (Inr (Invoke ''program'' ix), c3)"
    by (simp add: c1_def c2_def deleteUser_def initializeUserAccount_def getInitializeUserInstructions_def
        getOpenPositionIx_def getUserAccountPublicKeyOf_def getUserAccountOf_def getStatePublicKey_def
        programIx_def txSenderSend_def submitVia_def oracleOf_def marketAt_def sample_client_def
        newClient_def sample_rpc_def eff_simps bn_toNumber_def js_index_def Let_def
        getUserAccountPublicKeyAndNonce_def sample_solana_def)
  then obtain ix c3 where ix: "getOpenPositionIx sample_solana ?r3 LONG 5000 0 None None None c2 =
      (Inr (Invoke ''program'' ix), c3)" by blast
  have "entry (ix_accounts ix) ''userPositions'' = Some (UserAccount.positions sample_user)"
    by (rule stale_positions_account [OF _ c1_def c2_def ix]) simp
  then have "entry (ix_accounts ix) ''userPositions'' = Some ''positions''" by (simp add: sample_user_def)
  with ix show ?thesis unfolding c2_def c1_def Let_def by blast
qed

text \<open>
  Initialisation is guarded: when the state account exists \<open>initialize\<close> throws and sends nothing,
  and \<open>initializeMarket\<close> throws and sends nothing for a market that is initialised already and for
  an index without a market; otherwise the market's initialisation is sent.
\<close>

theorem initialization_guarded:
  assumes "reachable_client sol c"
  shows "(accountExists rpc (getClearingHouseStateAccountPublicKey sol (programId c)) = Inr True \<longrightarrow>
            fst (initialize sol rpc mint b fresh c) = Inl (Error ''Clearing house already initialized'') \<and>
            outbox (snd (initialize sol rpc mint b fresh c)) = outbox c) \<and>
         (marketAt mi c = Inr m \<longrightarrow> sub_state c = Inr st \<longrightarrow>
            (case m of
               None \<Rightarrow> initializeMarket sol rpc mi k x y z peg c = (Inl TypeError, c)
             | Some market \<Rightarrow>
                 if initialized market
                 then initializeMarket sol rpc mi k x y z peg c =
                        (Inl (Error (''MarketIndex '' @ bn_toString mi @ '' already initialized'')), c)
                 else length (outbox (snd (initializeMarket sol rpc mi k x y z peg c))) = Suc (length (outbox c))))"
proof (intro conjI impI)
  assume found: "accountExists rpc (getClearingHouseStateAccountPublicKey sol (programId c)) = Inr True"
  obtain c' where "getStatePublicKey sol c = (Inr (getClearingHouseStateAccountPublicKey sol (programId c)), c')"
      "outbox c' = outbox c"
    using reachable_coherent [OF assms]
    by (cases "cachedStateKey c") (auto simp: getStatePublicKey_def coherent_def eff_simps)
  with found show "fst (initialize sol rpc mint b fresh c) = Inl (Error ''Clearing house already initialized'')"
    "outbox (snd (initialize sol rpc mint b fresh c)) = outbox c"
    by (simp_all add: initialize_def initializeWith_def eff_simps)
next
  assume m: "marketAt mi c = Inr m" and st: "sub_state c = Inr st"
  show "case m of
      None \<Rightarrow> initializeMarket sol rpc mi k x y z peg c = (Inl TypeError, c)
    | Some market \<Rightarrow>
        if initialized market
        then initializeMarket sol rpc mi k x y z peg c =
               (Inl (Error (''MarketIndex '' @ bn_toString mi @ '' already initialized'')), c)
        else length (outbox (snd (initializeMarket sol rpc mi k x y z peg c))) = Suc (length (outbox c))"
    using m st
    by (auto simp: initializeMarket_def getStatePublicKey_def programIx_def txSenderSend_def
        submitVia_def eff_simps split: option.splits)
qed

theorem initialization_guarded_witness:
  "fst (initialize sample_solana (sample_rpc sample_user) ''usdc'' True (\<lambda>n. ''k'') sample_client) =
     Inl (Error ''Clearing house already initialized'') \<and>
   initializeMarket sample_solana (sample_rpc sample_user) 1 ''oracle'' 1 1 3600 None sample_client =
     (Inl TypeError, sample_client)"
proof -
  have "marketAt 1 sample_client = Inr None" "sub_state sample_client = Inr sample_state"
    "accountExists (sample_rpc sample_user) key = Inr True" for key
    by (simp_all add: marketAt_def sample_client_def newClient_def bn_toNumber_def js_index_def sample_rpc_def)
  with initialization_guarded [OF sample_client_reachable, of "sample_rpc sample_user" sample_solana
      "''usdc''" True "\<lambda>n. ''k''" 1 None sample_state "''oracle''" 1 1 3600 None]
  show ?thesis by simp
qed

text \<open>
  A custom sender of transactions is lost with the wallet: after \<open>updateWallet\<close> every
  transaction is handed to the provider of the new wallet, and never again to the sender the
  client was configured with.
\<close>

theorem update_wallet_drops_sender:
  "txSender (updateWallet w c) = DefaultTxSender w \<and>
   sub_channel (last (outbox (snd (txSenderSend rpc tx ss q (updateWallet w c))))) = ViaProvider w"
  by (simp add: updateWallet_def txSenderSend_def submitVia_def eff_simps)

text \<open>
  \<open>updateWhitelistMint\<close> declares its argument optional, but a call without it builds an
  instruction that no description accepts: the whitelist cannot be cleared this way.
\<close>

theorem whitelist_mint_required:
  "(\<exists>sub ix. outbox (snd (updateWhitelistMint sol rpc mint c)) = outbox c @ [sub] \<and>
      sub_tx sub = [Invoke (programId c) ix] \<and> (conforms clearingHouseIDL ix \<longleftrightarrow> mint \<noteq> None))"
  by (auto simp: updateWhitelistMint_def updateState_def rpcCall_def programIx_def providerSend_def
      submitVia_def getStatePublicKey_def eff_simps conforms_def argsConform_def accountsGiven_def
      idl_updateWhitelistMint_def split: option.splits)

end
