(* ===== verification/Pyth.thy ===== *)
theory Pyth
  imports Types "HOL-Library.AList"
begin

section \<open>Reading Pyth price accounts\<close>

text \<open>
  The parsers of \<open>stress/mockPythUtils.ts\<close>: two readers of 64 bit integers, the price account with
  its list of publishers, and the product account with its list of key and value texts. A buffer
  is a list of bytes; a byte out of range is \<open>undefined\<close>, \<open>slice\<close> clamps to the buffer, and the
  methods of \<open>Buffer\<close> throw a \<open>RangeError\<close>. \<open>scale c e\<close> stands for the floating point product
  \<open>Number(c) * 10 ** e\<close>, \<open>publicKey\<close> for the constructor of a public key, \<open>utf8\<close> for \<open>toString\<close>.
\<close>

type_synonym Bytes = "nat list"

definition isBytes :: "Bytes \<Rightarrow> bool" where
  "isBytes bs \<longleftrightarrow> list_all (\<lambda>b. b < 256) bs"

definition slice :: "Bytes \<Rightarrow> nat \<Rightarrow> nat \<Rightarrow> Bytes" where
  "slice bs i j = take (j - i) (drop i bs)"

subsection \<open>Integers\<close>

text \<open>The shift \<open>x << 24\<close> of JavaScript works on 32 bit signed integers.\<close>

definition toInt32 :: "int \<Rightarrow> int" where
  "toInt32 x = (x + 2 ^ 31) mod 2 ^ 32 - 2 ^ 31"

definition boundsError :: "nat \<Rightarrow> int \<Rightarrow> js_error" where
  "boundsError offset len =
     (if len < 0 then Error ''Attempt to access memory outside buffer bounds''
      else Error (''The value of \"offset is out of range. It must be >= 0 and <= '' @ bn_toString len @
                  ''. Received '' @ bn_toString (int offset)))"

text \<open>The bytes between the first and the last are defined when the last one is.\<close>

definition readBigInt64LE :: "Bytes \<Rightarrow> nat \<Rightarrow> int result" where
  "readBigInt64LE buffer offset =
     (case (js_index buffer (int offset), js_index buffer (int offset + 7)) of
        (Some first, Some lastByte) \<Rightarrow>
          let val = int (buffer ! (offset + 4)) + int (buffer ! (offset + 5)) * 2 ^ 8 +
                    int (buffer ! (offset + 6)) * 2 ^ 16 + toInt32 (int lastByte * 2 ^ 24)
          in Inr (val * 2 ^ 32 +
                  (int first + int (buffer ! (offset + 1)) * 2 ^ 8 +
                   int (buffer ! (offset + 2)) * 2 ^ 16 + int (buffer ! (offset + 3)) * 2 ^ 24))
      | _ \<Rightarrow> Inl (boundsError offset (int (length buffer) - 8)))"

definition readBigUInt64LE :: "Bytes \<Rightarrow> nat \<Rightarrow> int result" where
  "readBigUInt64LE buffer offset =
     (case (js_index buffer (int offset), js_index buffer (int offset + 7)) of
        (Some first, Some lastByte) \<Rightarrow>
          let lo = int first + int (buffer ! (offset + 1)) * 2 ^ 8 +
                   int (buffer ! (offset + 2)) * 2 ^ 16 + int (buffer ! (offset + 3)) * 2 ^ 24;
              hi = int (buffer ! (offset + 4)) + int (buffer ! (offset + 5)) * 2 ^ 8 +
                   int (buffer ! (offset + 6)) * 2 ^ 16 + int lastByte * 2 ^ 24
          in Inr (lo + hi * 2 ^ 32)
      | _ \<Rightarrow> Inl (boundsError offset (int (length buffer) - 8)))"

text \<open>The methods of \<open>Buffer\<close>: little endian integers of \<open>n\<close> bytes.\<close>

fun le :: "Bytes \<Rightarrow> int" where
  "le [] = 0"
| "le (b # bs) = int b + 256 * le bs"

definition readUIntLE :: "nat \<Rightarrow> Bytes \<Rightarrow> nat \<Rightarrow> int result" where
  "readUIntLE n bs offset =
     (if offset + n \<le> length bs then Inr (le (slice bs offset (offset + n))) else Inl RangeError)"

definition readInt32LE :: "Bytes \<Rightarrow> nat \<Rightarrow> int result" where
  "readInt32LE bs offset = mapE toInt32 (readUIntLE 4 bs offset)"

subsection \<open>The price account\<close>

definition PKorNull :: "(Bytes \<Rightarrow> PublicKey) \<Rightarrow> Bytes \<Rightarrow> PublicKey option" where
  "PKorNull publicKey bs = (if bs = replicate 32 0 then None else Some (publicKey bs))"

record 'f PriceInfo =
  priceComponent :: int
  price :: 'f
  confidenceComponent :: int
  confidence :: 'f
  status :: int
  corporateAction :: int
  publishSlot :: int

definition parsePriceInfo :: "(int \<Rightarrow> int \<Rightarrow> 'f) \<Rightarrow> Bytes \<Rightarrow> int \<Rightarrow> 'f PriceInfo result" where
  "parsePriceInfo scale bs exponent =
     bindE (readUIntLE 8 bs 0) (\<lambda>p.
     bindE (readUIntLE 8 bs 8) (\<lambda>c.
     bindE (readUIntLE 4 bs 16) (\<lambda>st.
     bindE (readUIntLE 4 bs 20) (\<lambda>ca.
     bindE (readUIntLE 8 bs 24) (\<lambda>slot.
     Inr \<lparr>priceComponent = p, price = scale p exponent, confidenceComponent = c,
          confidence = scale c exponent, status = st, corporateAction = ca, publishSlot = slot\<rparr>)))))"

record 'f PriceComponent =
  publisher :: PublicKey
  aggregate :: "'f PriceInfo"
  latest :: "'f PriceInfo"

text \<open>The loop over the publishers: it ends at the end of the data or at an empty publisher.\<close>

function parseComponents ::
  "(Bytes \<Rightarrow> PublicKey) \<Rightarrow> (int \<Rightarrow> int \<Rightarrow> 'f) \<Rightarrow> Bytes \<Rightarrow> int \<Rightarrow> nat \<Rightarrow> 'f PriceComponent list result" where
  "parseComponents publicKey scale bs exponent offset =
     (if offset < length bs then
        case PKorNull publicKey (slice bs offset (offset + 32)) of
          None \<Rightarrow> Inr []
        | Some pub \<Rightarrow>
            bindE (parsePriceInfo scale (slice bs (offset + 32) (offset + 64)) exponent) (\<lambda>agg.
            bindE (parsePriceInfo scale (slice bs (offset + 64) (offset + 96)) exponent) (\<lambda>lat.
            bindE (parseComponents publicKey scale bs exponent (offset + 96)) (\<lambda>rest.
            Inr (\<lparr>publisher = pub, aggregate = agg, latest = lat\<rparr> # rest))))
      else Inr [])"
  by auto

termination
  by (relation "measure (\<lambda>(publicKey, scale, bs, exponent, offset). length bs - offset)") auto

declare parseComponents.simps [simp del]

record 'f PythPriceData =
  pd_magic :: int
  pd_version :: int
  pd_type :: int
  pd_size :: int
  priceType :: int
  exponent :: int
  numComponentPrices :: int
  currentSlot :: int
  validSlot :: int
  twapComponent :: int
  twap :: 'f
  avolComponent :: int
  avol :: 'f
  drvComponents :: "int list"
  drvs :: "'f list"
  productAccountKey :: PublicKey
  nextPriceAccountKey :: "PublicKey option"
  aggregatePriceUpdaterAccountKey :: PublicKey
  aggregatePriceInfo :: "'f PriceInfo"
  priceComponents :: "'f PriceComponent list"

text \<open>The six derived values \<open>drv0\<close> to \<open>drv5\<close> at offsets 64 to 104, in order.\<close>

fun readDrvs :: "Bytes \<Rightarrow> nat list \<Rightarrow> int list result" where
  "readDrvs bs [] = Inr []"
| "readDrvs bs (i # is) =
     bindE (readBigInt64LE bs i) (\<lambda>v. bindE (readDrvs bs is) (\<lambda>vs. Inr (v # vs)))"

definition parsePriceData ::
  "(Bytes \<Rightarrow> PublicKey) \<Rightarrow> (int \<Rightarrow> int \<Rightarrow> 'f) \<Rightarrow> Bytes \<Rightarrow> 'f PythPriceData result" where
  "parsePriceData publicKey scale bs =
     bindE (readUIntLE 4 bs 0) (\<lambda>magic.
     bindE (readUIntLE 4 bs 4) (\<lambda>version.
     bindE (readUIntLE 4 bs 8) (\<lambda>type.
     bindE (readUIntLE 4 bs 12) (\<lambda>siz.
     bindE (readUIntLE 4 bs 16) (\<lambda>ptype.
     bindE (readInt32LE bs 20) (\<lambda>expo.
     bindE (readUIntLE 4 bs 24) (\<lambda>num.
     bindE (readBigUInt64LE bs 32) (\<lambda>current.
     bindE (readBigUInt64LE bs 40) (\<lambda>valid.
     bindE (readBigInt64LE bs 48) (\<lambda>tw.
     bindE (readBigUInt64LE bs 56) (\<lambda>av.
     bindE (readDrvs bs [64, 72, 80, 88, 96, 104]) (\<lambda>ds.
     bindE (parsePriceInfo scale (slice bs 208 240) expo) (\<lambda>agg.
     bindE (parseComponents publicKey scale bs expo 240) (\<lambda>comps.
     Inr \<lparr>pd_magic = magic, pd_version = version, pd_type = type, pd_size = siz, priceType = ptype,
          exponent = expo, numComponentPrices = num, currentSlot = current, validSlot = valid,
          twapComponent = tw, twap = scale tw expo, avolComponent = av, avol = scale av expo,
          drvComponents = ds, drvs = map (\<lambda>d. scale d expo) ds,
          productAccountKey = publicKey (slice bs 112 144),
          nextPriceAccountKey = PKorNull publicKey (slice bs 144 176),
          aggregatePriceUpdaterAccountKey = publicKey (slice bs 176 208),
          aggregatePriceInfo = agg, priceComponents = comps\<rparr>))))))))))))))"

subsection \<open>The product account\<close>

text \<open>
  The product is an object; the model lists its entries in the order in which they were set, and
  setting \<open>__proto__\<close> to a text has no effect. In the loop over the texts a length byte of zero is
  skipped. When the length byte of a value is missing, the value is the empty text and the index
  becomes \<open>NaN\<close>, which ends the loop.
\<close>

definition setField :: "string \<Rightarrow> 'v \<Rightarrow> (string \<times> 'v) list \<Rightarrow> (string \<times> 'v) list" where
  "setField key val obj = (if key = ''__proto__'' then obj else AList.update key val obj)"

function parseTexts ::
  "(Bytes \<Rightarrow> string) \<Rightarrow> Bytes \<Rightarrow> nat \<Rightarrow> (string \<times> string) list \<Rightarrow> (string \<times> string) list" where
  "parseTexts utf8 bs idx product =
     (if idx < length bs then
        let keyLength = bs ! idx in
        if keyLength \<noteq> 0 then
          let key = utf8 (slice bs (idx + 1) (idx + 1 + keyLength));
              i = idx + 1 + keyLength
          in if i < length bs then
               let valueLength = bs ! i;
                   val = utf8 (slice bs (i + 1) (i + 1 + valueLength))
               in parseTexts utf8 bs (i + 1 + valueLength) (setField key val product)
             else setField key (utf8 []) product
        else parseTexts utf8 bs (idx + 1) product
      else product)"
  by auto

termination
  by (relation "measure (\<lambda>(utf8, bs, idx, product). length bs - idx)") auto

declare parseTexts.simps [simp del]

record ProductData =
  prod_magic :: int
  prod_version :: int
  prod_type :: int
  prod_size :: int
  priceAccountKey :: PublicKey
  product_texts :: "(string \<times> string) list"

definition parseProductData ::
  "(Bytes \<Rightarrow> PublicKey) \<Rightarrow> (Bytes \<Rightarrow> string) \<Rightarrow> Bytes \<Rightarrow> ProductData result" where
  "parseProductData publicKey utf8 bs =
     bindE (readUIntLE 4 bs 0) (\<lambda>magic.
     bindE (readUIntLE 4 bs 4) (\<lambda>version.
     bindE (readUIntLE 4 bs 8) (\<lambda>type.
     bindE (readUIntLE 4 bs 12) (\<lambda>siz.
     Inr \<lparr>prod_magic = magic, prod_version = version, prod_type = type, prod_size = siz,
          priceAccountKey = publicKey (slice bs 16 48), product_texts = parseTexts utf8 bs 48 []\<rparr>))))"

subsection \<open>Slices\<close>

lemma slice_append: "slice (xs @ ys) (length xs + i) (length xs + j) = slice ys i j"
  by (simp add: slice_def)

lemma slice_8:
  assumes "i + 8 \<le> length bs"
  shows "slice bs i (i + 8) = [bs ! i, bs ! (i + 1), bs ! (i + 2), bs ! (i + 3), bs ! (i + 4),
    bs ! (i + 5), bs ! (i + 6), bs ! (i + 7)]"
proof -
  have "slice bs i (i + 8) = map (\<lambda>j. bs ! (i + j)) [0..<8]"
    using assms by (intro nth_equalityI) (auto simp: slice_def)
  also have "[0..<8] = [0, 1, 2, 3, 4, 5, 6, 7 :: nat]" by (simp add: upt_rec)
  finally show ?thesis by simp
qed

lemma readUIntLE_prefix:
  "i + n \<le> length xs \<Longrightarrow> readUIntLE n (xs @ ys) i = readUIntLE n xs i"
  by (simp add: readUIntLE_def slice_def)

lemma js_index_nat: "js_index bs (int i) = (if i < length bs then Some (bs ! i) else None)"
  "js_index bs (int i + 7) = (if i + 7 < length bs then Some (bs ! (i + 7)) else None)"
  by (auto simp: js_index_def nat_add_distrib)

lemma le_bounds: "isBytes bs \<Longrightarrow> 0 \<le> le bs \<and> le bs < 256 ^ length bs"
  by (induction bs) (auto simp: isBytes_def)

lemma toInt32_byte:
  "b < 256 \<Longrightarrow> toInt32 (int b * 2 ^ 24) = int b * 2 ^ 24 - (if b < 128 then 0 else 2 ^ 32)"
proof -
  assume b: "b < 256"
  show ?thesis
  proof (cases "b < 128")
    case True
    then have "(int b * 2 ^ 24 + 2 ^ 31) mod 2 ^ 32 = int b * 2 ^ 24 + 2 ^ 31"
      by (intro mod_pos_pos_trivial) auto
    with True show ?thesis by (simp add: toInt32_def)
  next
    case False
    have "(int b * 2 ^ 24 + 2 ^ 31) mod 2 ^ 32 = (int b * 2 ^ 24 - 2 ^ 31 + 2 ^ 32) mod 2 ^ 32"
      by (simp add: add.commute)
    also have "\<dots> = (int b * 2 ^ 24 - 2 ^ 31) mod 2 ^ 32" by (rule mod_add_self2)
    also have "\<dots> = int b * 2 ^ 24 - 2 ^ 31" using b False by (intro mod_pos_pos_trivial) auto
    finally show ?thesis using False by (simp add: toInt32_def)
  qed
qed

lemma wrap_64:
  assumes "0 \<le> x" "x < 2 ^ 64" "p \<longleftrightarrow> x < 2 ^ 63"
  shows "(x + 2 ^ 63) mod 2 ^ 64 = x + 2 ^ 63 - (if p then 0 else 2 ^ 64 :: int)"
proof (cases p)
  case True
  with assms show ?thesis by (simp add: mod_pos_pos_trivial)
next
  case False
  have "(x + 2 ^ 63) mod 2 ^ 64 = (x - 2 ^ 63 + 2 ^ 64) mod 2 ^ 64" by (simp add: add.commute)
  also have "\<dots> = (x - 2 ^ 63) mod 2 ^ 64" by (rule mod_add_self2)
  also have "\<dots> = x - 2 ^ 63" using assms False by (intro mod_pos_pos_trivial) auto
  finally show ?thesis using False by simp
qed

subsection \<open>Properties\<close>

text \<open>
  The two readers of 64 bit integers agree with the little endian reference: the unsigned one
  is the value of the eight bytes, the signed one the two's complement of it; both fail exactly
  when the eight bytes are not all in the buffer.
\<close>

theorem read_64_correct:
  assumes "isBytes bs"
  shows "(i + 8 \<le> length bs \<longrightarrow>
            readBigUInt64LE bs i = Inr (le (slice bs i (i + 8))) \<and>
            readBigInt64LE bs i = Inr ((le (slice bs i (i + 8)) + 2 ^ 63) mod 2 ^ 64 - 2 ^ 63)) \<and>
         (length bs < i + 8 \<longrightarrow>
            readBigUInt64LE bs i = Inl (boundsError i (int (length bs) - 8)) \<and>
            readBigInt64LE bs i = Inl (boundsError i (int (length bs) - 8)))"
proof (cases "i + 8 \<le> length bs")
  case i: True
  let ?x = "le (slice bs i (i + 8))"
  have byte: "bs ! j < 256" if "j < length bs" for j
    using assms that by (auto simp: isBytes_def list_all_length)
  have u: "readBigUInt64LE bs i = Inr ?x"
    using i by (simp add: readBigUInt64LE_def js_index_nat slice_8 Let_def)
  have signed: "readBigInt64LE bs i = Inr (?x - (if bs ! (i + 7) < 128 then 0 else 2 ^ 64))"
    using i byte [of "i + 7"] by (simp add: readBigInt64LE_def js_index_nat slice_8 toInt32_byte [simplified] Let_def)
  have "(?x + 2 ^ 63) mod 2 ^ 64 = ?x + 2 ^ 63 - (if bs ! (i + 7) < 128 then 0 else 2 ^ 64)"
  proof (rule wrap_64)
    show "0 \<le> ?x" "?x < 2 ^ 64"
      using le_bounds [of "slice bs i (i + 8)"] i assms
      by (auto simp: slice_def isBytes_def list_all_iff dest: in_set_takeD in_set_dropD)
    show "bs ! (i + 7) < 128 \<longleftrightarrow> ?x < 2 ^ 63"
      using i byte [of i] byte [of "i + 1"] byte [of "i + 2"] byte [of "i + 3"] byte [of "i + 4"]
        byte [of "i + 5"] byte [of "i + 6"] by (auto simp: slice_8)
  qed
  with u signed i show ?thesis by simp
next
  case False
  then show ?thesis by (auto simp: readBigUInt64LE_def readBigInt64LE_def js_index_nat)
qed

theorem read_64_correct_witness:
  "readBigInt64LE [254, 255, 255, 255, 255, 255, 255, 255] 0 = Inr (-2)"
  using read_64_correct [of "[254, 255, 255, 255, 255, 255, 255, 255]" 0]
  by (simp add: isBytes_def slice_def)

subsubsection \<open>Round trips\<close>

text \<open>The layout of the texts of a product account, and of the publishers of a price account.\<close>

fun encodeTexts :: "(Bytes \<times> Bytes) list \<Rightarrow> Bytes" where
  "encodeTexts [] = []"
| "encodeTexts ((k, v) # kvs) = length k # k @ length v # v @ encodeTexts kvs"

lemma parseTexts_encode:
  "\<forall>(k, v) \<in> set kvs. k \<noteq> [] \<Longrightarrow>
     parseTexts utf8 (pre @ encodeTexts kvs) (length pre) acc =
     fold (\<lambda>(k, v). setField (utf8 k) (utf8 v)) kvs acc"
proof (induction kvs arbitrary: pre acc)
  case Nil
  then show ?case by (simp add: parseTexts.simps)
next
  case (Cons kv kvs)
  obtain k v where kv: "kv = (k, v)" by fastforce
  with Cons.prems have k: "k \<noteq> []" by simp
  let ?bs = "pre @ encodeTexts (kv # kvs)"
  let ?pre = "pre @ length k # k @ length v # v"
  have key: "slice ?bs (length pre + 1) (length pre + 1 + length k) = k"
    using slice_append [of pre _ 1 "1 + length k"] by (simp add: kv slice_def)
  have val: "slice ?bs (length pre + 1 + length k + 1) (length pre + 1 + length k + 1 + length v) = v"
    by (simp add: kv slice_def)
  have len: "?bs ! (length pre + 1 + length k) = length v" by (simp add: kv nth_append)
  have "parseTexts utf8 ?bs (length pre) acc =
      parseTexts utf8 ?bs (length pre + 1 + length k + 1 + length v) (setField (utf8 k) (utf8 v) acc)"
    using k len key val by (subst parseTexts.simps) (simp add: kv Let_def)
  also have "\<dots> = parseTexts utf8 (?pre @ encodeTexts kvs) (length ?pre) (setField (utf8 k) (utf8 v) acc)"
    by (simp add: kv add.assoc)
  also have "\<dots> = fold (\<lambda>(k, v). setField (utf8 k) (utf8 v)) kvs (setField (utf8 k) (utf8 v) acc)"
    using Cons.prems by (intro Cons.IH) simp
  finally show ?case by (simp add: kv)
qed

lemma setField_fresh:
  "k \<notin> fst ` set obj \<Longrightarrow> k \<noteq> ''__proto__'' \<Longrightarrow> setField k v obj = obj @ [(k, v)]"
proof (induction obj)
  case (Cons kv obj)
  then show ?case by (cases kv) (auto simp: setField_def)
qed (simp add: setField_def)

lemma fold_setField_distinct:
  assumes "distinct (map (f \<circ> fst) kvs)"
    and "\<forall>(k, v) \<in> set kvs. f k \<noteq> ''__proto__'' \<and> f k \<notin> fst ` set acc"
  shows "fold (\<lambda>(k, v). setField (f k) (g v)) kvs acc = acc @ map (\<lambda>(k, v). (f k, g v)) kvs"
  using assms
proof (induction kvs arbitrary: acc)
  case (Cons kv kvs)
  obtain k v where kv: "kv = (k, v)" by fastforce
  have "fold (\<lambda>(k, v). setField (f k) (g v)) kvs (acc @ [(f k, g v)]) =
      (acc @ [(f k, g v)]) @ map (\<lambda>(k, v). (f k, g v)) kvs"
    using Cons.prems by (intro Cons.IH) (force simp: kv)+
  with Cons.prems show ?case by (simp add: kv setField_fresh)
qed simp

text \<open>
  A product account is read back as it was written: from a header of 48 bytes and any list of
  key and value texts, each with its length in front, the parser returns exactly this list, when
  no key is empty or \<open>__proto__\<close> and no two keys are the same text.
\<close>

theorem product_roundtrip:
  assumes "length header = 48" "distinct (map (utf8 \<circ> fst) kvs)"
    and "\<forall>(k, v) \<in> set kvs. k \<noteq> [] \<and> utf8 k \<noteq> ''__proto__''"
  shows "\<exists>p. parseProductData publicKey utf8 (header @ encodeTexts kvs) = Inr p \<and>
           product_texts p = map (\<lambda>(k, v). (utf8 k, utf8 v)) kvs \<and>
           priceAccountKey p = publicKey (slice header 16 48)"
proof -
  have "parseTexts utf8 (header @ encodeTexts kvs) 48 [] = map (\<lambda>(k, v). (utf8 k, utf8 v)) kvs"
    using parseTexts_encode [of kvs utf8 header "[]"] fold_setField_distinct [of utf8 kvs "[]" utf8] assms
    by fastforce
  moreover have "slice (header @ encodeTexts kvs) 16 48 = slice header 16 48"
    using assms(1) by (simp add: slice_def)
  ultimately show ?thesis
    using assms(1) by (simp add: parseProductData_def readUIntLE_prefix readUIntLE_def)
qed

theorem product_roundtrip_witness:
  "\<exists>p. parseProductData (\<lambda>b. ''key'') (map char_of)
         (replicate 48 1 @ encodeTexts [([65], [66, 67]), ([68], [])]) = Inr p \<and>
       product_texts p = [(''A'', ''BC''), (''D'', [])]"
proof -
  have c: "map char_of [65 :: nat] = ''A''" "map char_of [66 :: nat, 67] = ''BC''" "map char_of [68 :: nat] = ''D''"
    by code_simp+
  have d: "distinct (map (map char_of \<circ> fst) [([65 :: nat], [66, 67 :: nat]), ([68], [])])"
    by code_simp
  have m: "map (\<lambda>(k, v). (map char_of k, map char_of v)) [([65 :: nat], [66, 67 :: nat]), ([68], [])] =
      [(''A'', ''BC''), (''D'', [])]" by code_simp
  show ?thesis
    using product_roundtrip [OF _ d, of "replicate 48 1" "\<lambda>b. ''key''"] unfolding m by (auto simp: c)
qed

lemma parsePriceInfo_32: "length bs = 32 \<Longrightarrow> \<exists>info. parsePriceInfo scale bs e = Inr info"
  by (simp add: parsePriceInfo_def readUIntLE_def)

definition theInfo :: "(int \<Rightarrow> int \<Rightarrow> 'f) \<Rightarrow> int \<Rightarrow> Bytes \<Rightarrow> 'f PriceInfo" where
  "theInfo scale e bs = projr (parsePriceInfo scale bs e)"

lemma theInfo: "length bs = 32 \<Longrightarrow> parsePriceInfo scale bs e = Inr (theInfo scale e bs)"
  using parsePriceInfo_32 [of bs scale e] by (auto simp: theInfo_def)

fun encodeComponents :: "(Bytes \<times> Bytes \<times> Bytes) list \<Rightarrow> Bytes" where
  "encodeComponents [] = []"
| "encodeComponents ((p, a, l) # cs) = p @ a @ l @ encodeComponents cs"

text \<open>
  The publishers of a price account are read back as they were written: the loop returns the
  components in order, each with its key and its two prices, and stops at the first empty
  publisher or at the end of the data, whatever follows.
\<close>

theorem components_roundtrip:
  assumes "\<forall>(p, a, l) \<in> set cs. length p = 32 \<and> length a = 32 \<and> length l = 32 \<and> p \<noteq> replicate 32 0"
    and "rest = [] \<or> take 32 rest = replicate 32 0"
  shows "parseComponents publicKey scale (pre @ encodeComponents cs @ rest) e (length pre) =
         Inr (map (\<lambda>(p, a, l). \<lparr>publisher = publicKey p, aggregate = theInfo scale e a,
                                latest = theInfo scale e l\<rparr>) cs)"
  using assms(1)
proof (induction cs arbitrary: pre)
  case Nil
  then show ?case
    using assms(2) by (subst parseComponents.simps) (auto simp: PKorNull_def slice_def)
next
  case (Cons c cs)
  obtain p a l where c: "c = (p, a, l)" by (cases c) auto
  with Cons.prems have len: "length p = 32" "length a = 32" "length l = 32" and p: "p \<noteq> replicate 32 0"
    by auto
  let ?bs = "pre @ encodeComponents (c # cs) @ rest"
  have "slice ?bs (length pre) (length pre + 32) = p"
    "slice ?bs (length pre + 32) (length pre + 64) = a"
    "slice ?bs (length pre + 64) (length pre + 96) = l"
    using len by (simp_all add: c slice_def)
  moreover have "parseComponents publicKey scale ?bs e (length pre + 96) =
      Inr (map (\<lambda>(p, a, l). \<lparr>publisher = publicKey p, aggregate = theInfo scale e a,
                             latest = theInfo scale e l\<rparr>) cs)"
    using Cons.IH [of "pre @ p @ a @ l"] Cons.prems len by (simp add: c)
  ultimately show ?case
    using len p theInfo [OF len(2), of scale e] theInfo [OF len(3), of scale e]
    by (subst parseComponents.simps) (simp add: c PKorNull_def)
qed

theorem components_roundtrip_witness:
  "parseComponents (\<lambda>b. ''key'') (\<lambda>c e. c) (replicate 240 7 @
     encodeComponents [(replicate 32 1, replicate 32 2, replicate 32 3)] @ replicate 32 0) (-8) 240 =
   Inr [\<lparr>publisher = ''key'', aggregate = theInfo (\<lambda>c e. c) (-8) (replicate 32 2),
         latest = theInfo (\<lambda>c e. c) (-8) (replicate 32 3)\<rparr>]"
  using components_roundtrip [of "[(replicate 32 1, replicate 32 2, replicate 32 3)]" "replicate 32 0"
      "\<lambda>b. ''key''" "\<lambda>c e. c" "replicate 240 7" "-8"]
  by simp

end
