(* ===== verification/Utilities.thy ===== *)
theory Utilities
  imports Complex_Main Pyth "HOL-Library.Sublist"
begin

section \<open>Token accounts, prices and transaction logs\<close>

text \<open>
  \<open>sdk/src/token/index.ts\<close>, \<open>sdk/src/pythClient.ts\<close>, \<open>sdk/src/util/computeUnits.ts\<close> and
  \<open>sdk/src/util/tps.ts\<close>. The layout of a token account is decoded by a library (the record
  \<open>RawToken\<close> is what \<open>AccountLayout.decode\<close> returns); \<open>publicKey\<close> and \<open>fromBuffer\<close> stand for the
  constructors of a public key and of a 64 bit integer.
\<close>

subsection \<open>Token accounts\<close>

record RawToken =
  raw_mint :: Bytes
  raw_owner :: Bytes
  raw_amount :: Bytes
  raw_delegateOption :: nat
  raw_delegate :: Bytes
  raw_state :: nat
  raw_isNativeOption :: nat
  raw_isNative :: Bytes
  raw_delegatedAmount :: Bytes
  raw_closeAuthorityOption :: nat
  raw_closeAuthority :: Bytes

record TokenInfo =
  info_mint :: PublicKey
  info_tokenOwner :: PublicKey
  info_amount :: int
  info_delegate :: "PublicKey option"
  info_delegatedAmount :: int
  info_isInitialized :: bool
  info_isFrozen :: bool
  info_rentExemptReserve :: "int option"
  info_isNative :: bool
  info_closeAuthority :: "PublicKey option"

definition parseTokenAccount ::
  "(Bytes \<Rightarrow> RawToken result) \<Rightarrow> (Bytes \<Rightarrow> PublicKey) \<Rightarrow> (Bytes \<Rightarrow> int) \<Rightarrow> Bytes \<Rightarrow> TokenInfo result" where
  "parseTokenAccount layout publicKey fromBuffer bs =
     bindE (layout bs) (\<lambda>raw.
     Inr \<lparr>info_mint = publicKey (raw_mint raw),
          info_tokenOwner = publicKey (raw_owner raw),
          info_amount = fromBuffer (raw_amount raw),
          info_delegate = (if raw_delegateOption raw = 0 then None else Some (publicKey (raw_delegate raw))),
          info_delegatedAmount = (if raw_delegateOption raw = 0 then 0 else fromBuffer (raw_delegatedAmount raw)),
          info_isInitialized = (raw_state raw \<noteq> 0),
          info_isFrozen = (raw_state raw = 2),
          info_rentExemptReserve =
            (if raw_isNativeOption raw = 1 then Some (fromBuffer (raw_isNative raw)) else None),
          info_isNative = (raw_isNativeOption raw = 1),
          info_closeAuthority =
            (if raw_closeAuthorityOption raw = 0 then None else Some (publicKey (raw_closeAuthority raw)))\<rparr>)"

lemma parseTokenAccount_consistent:
  assumes "parseTokenAccount layout publicKey fromBuffer bs = Inr info"
  shows "(info_isFrozen info \<longrightarrow> info_isInitialized info) \<and>
    (info_delegate info = None \<longrightarrow> info_delegatedAmount info = 0) \<and>
    (info_isNative info \<longleftrightarrow> info_rentExemptReserve info \<noteq> None)"
  using assms by (auto simp: parseTokenAccount_def bindE_Inr_iff split: if_splits)

subsection \<open>Prices\<close>

text \<open>\<open>PythClient.getPriceData\<close>, with the account the node returned and the parser of the package.\<close>

definition getPriceData :: "(Bytes \<Rightarrow> 'p result) \<Rightarrow> Bytes option \<Rightarrow> 'p result" where
  "getPriceData parse account = bindE (deref account) parse"

subsection \<open>Compute units in the log of a transaction\<close>

definition isDigit :: "char \<Rightarrow> bool" where
  "isDigit c \<longleftrightarrow> c \<in> set ''0123456789''"

definition unitsPrefix :: "PublicKey \<Rightarrow> string" where
  "unitsPrefix pid = ''Program '' @ pid @ '' consumed ''"

definition unitsSuffix :: string where
  "unitsSuffix = '' of 200000 compute units''"

text \<open>
  The regular expression at one place of a line. The group of digits is followed by a space, so a
  match takes all digits there are.
\<close>

definition matchUnitsAt :: "PublicKey \<Rightarrow> string \<Rightarrow> string option" where
  "matchUnitsAt pid line =
     (let rest = drop (length (unitsPrefix pid)) line; digits = takeWhile isDigit rest in
      if prefix (unitsPrefix pid) line \<and> length digits \<le> 6 \<and> prefix unitsSuffix (drop (length digits) rest)
      then Some digits else None)"

fun matchUnits :: "PublicKey \<Rightarrow> string \<Rightarrow> string option" where
  "matchUnits pid [] = matchUnitsAt pid []"
| "matchUnits pid (c # cs) =
     (case matchUnitsAt pid (c # cs) of Some digits \<Rightarrow> Some digits | None \<Rightarrow> matchUnits pid cs)"

text \<open>The log is \<open>None\<close> when the node does not know the transaction; the result is a list of texts.\<close>

definition findComputeUnitConsumption :: "PublicKey \<Rightarrow> string list option \<Rightarrow> string list result" where
  "findComputeUnitConsumption pid logMessages =
     bindE (deref logMessages) (\<lambda>messages.
     Inr (concat (map (\<lambda>message. case matchUnits pid message of
                                   Some (d # ds) \<Rightarrow> [d # ds]
                                 | _ \<Rightarrow> []) messages)))"

text \<open>A line the runtime writes for an invocation of a program.\<close>

definition unitsLine :: "PublicKey \<Rightarrow> string \<Rightarrow> string" where
  "unitsLine pid digits = unitsPrefix pid @ digits @ unitsSuffix"

lemma matchUnits_first: "matchUnitsAt pid s = Some ds \<Longrightarrow> matchUnits pid s = Some ds"
  by (cases s) simp_all

lemma matchUnits_line:
  assumes "list_all isDigit digits" "length digits \<le> 6"
  shows "matchUnits pid (unitsLine pid digits) = Some digits"
proof -
  have "takeWhile isDigit (digits @ unitsSuffix) = digits"
    using assms(1) by (auto simp: takeWhile_append unitsSuffix_def isDigit_def list_all_iff)
  then show ?thesis
    using assms(2) by (intro matchUnits_first) (simp add: matchUnitsAt_def unitsLine_def)
qed

text \<open>
  The consumption of a program is read back from a log: with the program's own lines (between
  one and six digits each) mixed with any lines the expression does not match, the result is the
  list of the programs' figures in order.
\<close>

theorem compute_units_roundtrip:
  assumes "\<forall>x \<in> set entries. case x of
      Inl digits \<Rightarrow> digits \<noteq> [] \<and> length digits \<le> 6 \<and> list_all isDigit digits
    | Inr line \<Rightarrow> matchUnits pid line = None"
  shows "findComputeUnitConsumption pid
      (Some (map (\<lambda>x. case x of Inl digits \<Rightarrow> unitsLine pid digits | Inr line \<Rightarrow> line) entries)) =
    Inr (concat (map (\<lambda>x. case x of Inl digits \<Rightarrow> [digits] | Inr line \<Rightarrow> []) entries))"
  using assms
proof (induction entries)
  case (Cons x entries)
  then have "(case matchUnits pid (case x of Inl digits \<Rightarrow> unitsLine pid digits | Inr line \<Rightarrow> line) of
      Some (d # ds) \<Rightarrow> [d # ds] | _ \<Rightarrow> []) = (case x of Inl digits \<Rightarrow> [digits] | Inr line \<Rightarrow> [])"
    by (cases x) (auto simp: matchUnits_line neq_Nil_conv)
  with Cons show ?case by (simp add: findComputeUnitConsumption_def)
qed (simp add: findComputeUnitConsumption_def)

theorem compute_units_roundtrip_witness:
  "findComputeUnitConsumption ''P'' (Some [unitsLine ''P'' ''1234'', ''Program log: hi'', unitsLine ''P'' ''99'']) =
     Inr [''1234'', ''99'']"
proof -
  have "matchUnits ''P'' ''Program log: hi'' = None" by code_simp
  with compute_units_roundtrip [of "[Inl ''1234'', Inr ''Program log: hi'', Inl ''99'']" "''P''"]
  show ?thesis by (simp add: isDigit_def)
qed

subsection \<open>Transactions per second\<close>

record SignatureInfo =
  sig_failed :: bool
  blockTime :: int

text \<open>The quotient by zero, when all block times are the same, is infinite: \<open>None\<close>.\<close>

definition estimateTps :: "(real \<Rightarrow> real) \<Rightarrow> bool \<Rightarrow> SignatureInfo list \<Rightarrow> real option" where
  "estimateTps fl failed signatures =
     (let sigs = (if failed then filter sig_failed signatures else signatures) in
      if sigs = [] then Some 0
      else
        let span = blockTime (sigs ! 0) - blockTime (sigs ! (length sigs - 1)) in
        if span = 0 then None else Some (fl (real (length sigs) / of_int span)))"

lemma estimateTps_nonneg:
  assumes "sorted (rev (map blockTime signatures))" "\<And>x. 0 \<le> x \<Longrightarrow> 0 \<le> fl x"
    and "estimateTps fl failed signatures = Some t"
  shows "0 \<le> t"
proof -
  define sigs where "sigs = (if failed then filter sig_failed signatures else signatures)"
  have sorted: "sorted_wrt (\<lambda>a b. blockTime b \<le> blockTime a) sigs"
    using assms(1) by (simp add: sigs_def sorted_wrt_filter sorted_wrt_rev sorted_wrt_map)
  have "blockTime (sigs ! (length sigs - 1)) \<le> blockTime (sigs ! 0)" if "sigs \<noteq> []"
  proof (cases "length sigs = 1")
    case False
    with that have "0 < length sigs - 1" "length sigs - 1 < length sigs" by (cases sigs; auto)+
    with sorted show ?thesis by (rule sorted_wrt_nth_less)
  qed simp
  with assms(2,3) show ?thesis
    by (auto simp: estimateTps_def sigs_def [symmetric] Let_def split: if_splits)
qed

end
