(* ===== verification/Lifecycle.thy ===== *)
theory Lifecycle
  imports WebSocketClearingHouse PollingUser Chain
begin

section \<open>The life cycle of the clients\<close>

text \<open>
  A \<open>ClearingHouse\<close> and a \<open>ClearingHouseUser\<close> (\<open>sdk/src/clearingHouse.ts\<close>,
  \<open>sdk/src/clearingHouseUser.ts\<close>) delegate to an account subscriber and keep a flag of their own.
  The records \<open>ChSubscriber\<close> and \<open>UserSubscriber\<close> are the interfaces
  \<open>ClearingHouseAccountSubscriber\<close> and \<open>UserAccountSubscriber\<close> of \<open>accounts/types.ts\<close>: the methods of
  an object whose own state is of type \<open>'c\<close> and which may share a bulk loader. The web socket and
  the polling subscribers fill them. What the subscribers promise are the laws of the locales
  \<open>ch_subscriber\<close> and \<open>user_subscriber\<close>.
\<close>

subsection \<open>Interfaces\<close>

datatype ConfigType = WebsocketType | PollingType | CustomType

record ('c, 'a) ChSubscriber =
  ch_type :: "'c \<Rightarrow> ConfigType"
  ch_isSubscribed :: "'c \<Rightarrow> bool"
  ch_subscribe ::
    "ClearingHouseAccountTypes list option \<Rightarrow> 'c \<Rightarrow> Loader \<Rightarrow> 'c \<times> Loader \<times> SubscribeOutcome"
  ch_fetch :: "'c \<Rightarrow> Loader \<Rightarrow> 'c \<times> Loader \<times> js_error option"
  ch_unsubscribe :: "'c \<Rightarrow> Loader \<Rightarrow> 'c \<times> Loader"
  ch_getStateAccount :: "'c \<Rightarrow> 'a option result"
  ch_getMarketsAccount :: "'c \<Rightarrow> 'a option result"
  ch_getHistoryAccount :: "ClearingHouseAccountTypes \<Rightarrow> 'c \<Rightarrow> 'a option result"

record ('u, 'a) UserSubscriber =
  us_type :: "'u \<Rightarrow> ConfigType"
  us_isSubscribed :: "'u \<Rightarrow> bool"
  us_subscribe :: "'u \<Rightarrow> Loader \<Rightarrow> 'u \<times> Loader \<times> bool result"
  us_fetch :: "'u \<Rightarrow> Loader \<Rightarrow> 'u \<times> Loader \<times> js_error option"
  us_unsubscribe :: "'u \<Rightarrow> Loader \<Rightarrow> 'u \<times> Loader"
  us_getUserAccount :: "'u \<Rightarrow> 'a option result"
  us_getUserPositionsAccount :: "'u \<Rightarrow> 'a option result"

subsection \<open>ClearingHouse\<close>

text \<open>The fields \<open>accountSubscriber\<close> and \<open>_isSubscribed\<close>.\<close>

record 'c LiveClient =
  ch_sub :: 'c
  ch_flag :: bool

definition newLiveClient :: "'c \<Rightarrow> 'c LiveClient" where
  "newLiveClient sub = \<lparr>ch_sub = sub, ch_flag = False\<rparr>"

definition clientIsSubscribed :: "('c, 'a) ChSubscriber \<Rightarrow> 'c LiveClient \<Rightarrow> bool" where
  "clientIsSubscribed ops c \<longleftrightarrow> ch_flag c \<and> ch_isSubscribed ops (ch_sub c)"

definition clientSubscribe ::
  "('c, 'a) ChSubscriber \<Rightarrow> ClearingHouseAccountTypes list option \<Rightarrow> 'c LiveClient \<Rightarrow> Loader \<Rightarrow>
     'c LiveClient \<times> Loader \<times> SubscribeOutcome" where
  "clientSubscribe ops optionalSubscriptions c l =
     (case ch_subscribe ops optionalSubscriptions (ch_sub c) l of (s, l1, r) \<Rightarrow>
        (case r of
           Subscribed b \<Rightarrow>
             let c1 = c\<lparr>ch_sub := s, ch_flag := b\<rparr>
             in (c1, l1, Subscribed (clientIsSubscribed ops c1))
         | AwaitsPromise \<Rightarrow> (c\<lparr>ch_sub := s\<rparr>, l1, AwaitsPromise)
         | Throws e \<Rightarrow> (c\<lparr>ch_sub := s\<rparr>, l1, Throws e)))"

definition clientSubscribeToAll ::
  "('c, 'a) ChSubscriber \<Rightarrow> 'c LiveClient \<Rightarrow> Loader \<Rightarrow> 'c LiveClient \<times> Loader \<times> SubscribeOutcome" where
  "clientSubscribeToAll ops = clientSubscribe ops (Some
     [CurveHistoryAccount, DepositHistoryAccount, FundingPaymentHistoryAccount,
      FundingRateHistoryAccount, LiquidationHistoryAccount, TradeHistoryAccount])"

definition clientFetchAccounts ::
  "('c, 'a) ChSubscriber \<Rightarrow> 'c LiveClient \<Rightarrow> Loader \<Rightarrow> 'c LiveClient \<times> Loader \<times> js_error option" where
  "clientFetchAccounts ops c l =
     (case ch_fetch ops (ch_sub c) l of (s, l1, r) \<Rightarrow> (c\<lparr>ch_sub := s\<rparr>, l1, r))"

definition clientUnsubscribe ::
  "('c, 'a) ChSubscriber \<Rightarrow> 'c LiveClient \<Rightarrow> Loader \<Rightarrow> 'c LiveClient \<times> Loader" where
  "clientUnsubscribe ops c l =
     (case ch_unsubscribe ops (ch_sub c) l of (s, l1) \<Rightarrow> (c\<lparr>ch_sub := s, ch_flag := False\<rparr>, l1))"

text \<open>The getters of the accounts delegate; the six of the histories are \<open>clientGetHistoryAccount\<close>.\<close>

definition clientGetStateAccount :: "('c, 'a) ChSubscriber \<Rightarrow> 'c LiveClient \<Rightarrow> 'a option result" where
  "clientGetStateAccount ops c = ch_getStateAccount ops (ch_sub c)"

definition clientGetMarketsAccount :: "('c, 'a) ChSubscriber \<Rightarrow> 'c LiveClient \<Rightarrow> 'a option result" where
  "clientGetMarketsAccount ops c = ch_getMarketsAccount ops (ch_sub c)"

definition clientGetHistoryAccount ::
  "('c, 'a) ChSubscriber \<Rightarrow> ClearingHouseAccountTypes \<Rightarrow> 'c LiveClient \<Rightarrow> 'a option result" where
  "clientGetHistoryAccount ops t c = ch_getHistoryAccount ops t (ch_sub c)"

subsection \<open>ClearingHouseUser\<close>

text \<open>
  The clearing house of a user is an object of its own, which several users share; the methods
  that use it take it as an argument and return it.
\<close>

record 'u LiveUser =
  user_authority :: PublicKey
  us_sub :: 'u
  us_flag :: bool
  us_cachedKey :: "PublicKey option"

definition newLiveUser :: "PublicKey \<Rightarrow> 'u \<Rightarrow> 'u LiveUser" where
  "newLiveUser auth sub = \<lparr>user_authority = auth, us_sub = sub, us_flag = False, us_cachedKey = None\<rparr>"

definition userIsSubscribed :: "('u, 'a) UserSubscriber \<Rightarrow> 'u LiveUser \<Rightarrow> bool" where
  "userIsSubscribed ops u \<longleftrightarrow> us_flag u \<and> us_isSubscribed ops (us_sub u)"

definition liveUserSubscribe ::
  "('c, 'b) ChSubscriber \<Rightarrow> ('u, 'a) UserSubscriber \<Rightarrow> 'c LiveClient \<Rightarrow> 'u LiveUser \<Rightarrow> Loader \<Rightarrow>
     'c LiveClient \<times> 'u LiveUser \<times> Loader \<times> SubscribeOutcome" where
  "liveUserSubscribe chOps ops c u l =
     (case clientSubscribe chOps None c l of (c1, l1, r) \<Rightarrow>
        (case r of
           Subscribed _ \<Rightarrow>
             (case us_subscribe ops (us_sub u) l1 of
                (s, l2, Inl e) \<Rightarrow> (c1, u\<lparr>us_sub := s\<rparr>, l2, Throws e)
              | (s, l2, Inr b) \<Rightarrow>
                  let u1 = u\<lparr>us_sub := s, us_flag := b\<rparr>
                  in (c1, u1, l2, Subscribed (userIsSubscribed ops u1)))
         | AwaitsPromise \<Rightarrow> (c1, u, l1, AwaitsPromise)
         | Throws e \<Rightarrow> (c1, u, l1, Throws e)))"

definition liveUserFetchAccounts ::
  "('u, 'a) UserSubscriber \<Rightarrow> 'u LiveUser \<Rightarrow> Loader \<Rightarrow> 'u LiveUser \<times> Loader \<times> js_error option" where
  "liveUserFetchAccounts ops u l =
     (case us_fetch ops (us_sub u) l of (s, l1, r) \<Rightarrow> (u\<lparr>us_sub := s\<rparr>, l1, r))"

definition liveUserUnsubscribe ::
  "('u, 'a) UserSubscriber \<Rightarrow> 'u LiveUser \<Rightarrow> Loader \<Rightarrow> 'u LiveUser \<times> Loader" where
  "liveUserUnsubscribe ops u l =
     (case us_unsubscribe ops (us_sub u) l of (s, l1) \<Rightarrow> (u\<lparr>us_sub := s, us_flag := False\<rparr>, l1))"

definition liveGetUserAccount :: "('u, 'a) UserSubscriber \<Rightarrow> 'u LiveUser \<Rightarrow> 'a option result" where
  "liveGetUserAccount ops u = us_getUserAccount ops (us_sub u)"

definition liveGetUserPositionsAccount ::
  "('u, 'a) UserSubscriber \<Rightarrow> 'u LiveUser \<Rightarrow> 'a option result" where
  "liveGetUserPositionsAccount ops u = us_getUserPositionsAccount ops (us_sub u)"

text \<open>The cached address of the user's account, and whether the account exists.\<close>

definition userKeyOf :: "Solana \<Rightarrow> PublicKey \<Rightarrow> ('u LiveUser, PublicKey) eff" where
  "userKeyOf sol programId =
     bindS (getS us_cachedKey) (\<lambda>cached.
       case cached of
         Some k \<Rightarrow> returnS k
       | None \<Rightarrow>
           bindS (getS (\<lambda>u. getUserAccountPublicKey sol programId (user_authority u))) (\<lambda>k.
           bindS (modifyS (us_cachedKey_update (\<lambda>_. Some k))) (\<lambda>_. returnS k)))"

definition userExists :: "Solana \<Rightarrow> Rpc \<Rightarrow> PublicKey \<Rightarrow> ('u LiveUser, bool) eff" where
  "userExists sol rpc programId =
     bindS (userKeyOf sol programId) (\<lambda>k. liftS (accountExists rpc k))"

subsection \<open>The two subscribers\<close>

text \<open>
  What a polling subscriber needs for one call: the coder, its callbacks, new identifiers, the
  state account of the chain, and \<open>poll_loading\<close>, what a load that is awaited does to the decoded
  accounts, the events and the loader. (Other calls on the same object wait.)
\<close>

record ('s, 'a) PollEnv =
  poll_decode :: "'a Decoder"
  poll_callbackOf :: "string \<Rightarrow> Callback"
  poll_errorCallback :: Callback
  poll_uuids :: "nat \<Rightarrow> string"
  poll_loading :: "'s \<Rightarrow> Loader \<Rightarrow> (string \<times> 'a) list \<times> string list \<times> Loader"

definition chLoading ::
  "('a PollingCH, 'a) PollEnv \<Rightarrow> 'a PollingCH \<times> Loader \<Rightarrow> 'a PollingCH \<times> Loader" where
  "chLoading env = (\<lambda>(s, l). case poll_loading env s l of (vals, es, l1) \<Rightarrow>
     (s\<lparr>accounts := vals, emitted := es\<rparr>, l1))"

definition userLoading ::
  "('a PollingUserSub, 'a) PollEnv \<Rightarrow> 'a PollingUserSub \<times> Loader \<Rightarrow> 'a PollingUserSub \<times> Loader" where
  "userLoading env = (\<lambda>(s, l). case poll_loading env s l of (vals, es, l1) \<Rightarrow>
     (s\<lparr>user_accounts := vals, user_emitted := es\<rparr>, l1))"

fun pollHistory :: "ClearingHouseAccountTypes \<Rightarrow> 'a PollingCH \<Rightarrow> 'a option result" where
  "pollHistory TradeHistoryAccount = getTradeHistoryAccount"
| "pollHistory DepositHistoryAccount = getDepositHistoryAccount"
| "pollHistory FundingPaymentHistoryAccount = getFundingPaymentHistoryAccount"
| "pollHistory FundingRateHistoryAccount = getFundingRateHistoryAccount"
| "pollHistory CurveHistoryAccount = getCurveHistoryAccount"
| "pollHistory LiquidationHistoryAccount = getLiquidationHistoryAccount"

definition pollingCH ::
  "('a PollingCH, 'a) PollEnv \<Rightarrow> PublicKey \<Rightarrow> StateAccount result \<Rightarrow> ('a PollingCH, 'a) ChSubscriber" where
  "pollingCH env stateKey fetched = \<lparr>
     ch_type = (\<lambda>_. PollingType),
     ch_isSubscribed = isSubscribed,
     ch_subscribe = subscribe (poll_decode env) (poll_callbackOf env) (poll_errorCallback env)
       (poll_uuids env) (chLoading env) stateKey fetched,
     ch_fetch = fetchPolling (poll_decode env) (chLoading env),
     ch_unsubscribe = unsubscribe,
     ch_getStateAccount = getStateAccount,
     ch_getMarketsAccount = getMarketsAccount,
     ch_getHistoryAccount = pollHistory\<rparr>"

definition pollingUser ::
  "('a PollingUserSub, 'a) PollEnv \<Rightarrow> PublicKey \<Rightarrow> UserAccount result \<Rightarrow>
     ('a PollingUserSub, 'a) UserSubscriber" where
  "pollingUser env userKey fetched = \<lparr>
     us_type = (\<lambda>_. PollingType),
     us_isSubscribed = user_isSubscribed,
     us_subscribe = userSubscribe (poll_decode env) (poll_callbackOf env) (poll_errorCallback env)
       (poll_uuids env) (userLoading env) userKey fetched,
     us_fetch = userFetch (poll_decode env) (userLoading env),
     us_unsubscribe = userUnsubscribe,
     us_getUserAccount = getUserAccount,
     us_getUserPositionsAccount = getUserPositionsAccount\<rparr>"

text \<open>The web socket subscribers do not use the loader.\<close>

definition webSocketCH ::
  "'a Decoder \<Rightarrow> ('a \<Rightarrow> StateAccount) \<Rightarrow> (PublicKey \<Rightarrow> (nat \<times> Buffer option) result) \<Rightarrow> (string \<Rightarrow> nat) \<Rightarrow>
     PublicKey result \<Rightarrow> ('a WsSubscribers, 'a) ChSubscriber" where
  "webSocketCH decode asState rpc ids stateKey = \<lparr>
     ch_type = (\<lambda>_. WebsocketType),
     ch_isSubscribed = ws_isSubscribed,
     ch_subscribe = (\<lambda>opts s l. case wsSubscribe decode asState rpc ids stateKey opts s of (s', r) \<Rightarrow> (s', l, r)),
     ch_fetch = (\<lambda>s l. case wsFetch decode rpc s of (s', r) \<Rightarrow> (s', l, r)),
     ch_unsubscribe = (\<lambda>s l. (wsUnsubscribe s, l)),
     ch_getStateAccount = wsGetStateAccount,
     ch_getMarketsAccount = wsGetMarketsAccount,
     ch_getHistoryAccount = wsGetHistoryAccount\<rparr>"

definition webSocketUser ::
  "'a Decoder \<Rightarrow> ('a \<Rightarrow> UserAccount) \<Rightarrow> (PublicKey \<Rightarrow> (nat \<times> Buffer option) result) \<Rightarrow> (string \<Rightarrow> nat) \<Rightarrow>
     PublicKey result \<Rightarrow> ('a WsSubscribers, 'a) UserSubscriber" where
  "webSocketUser decode asUser rpc ids userKey = \<lparr>
     us_type = (\<lambda>_. WebsocketType),
     us_isSubscribed = ws_isSubscribed,
     us_subscribe = (\<lambda>s l. case wsUserSubscribe decode asUser rpc ids userKey s of (s', r) \<Rightarrow> (s', l, r)),
     us_fetch = (\<lambda>s l. case wsUserFetch decode rpc s of (s', r) \<Rightarrow> (s', l, r)),
     us_unsubscribe = (\<lambda>s l. (wsUserUnsubscribe s, l)),
     us_getUserAccount = wsGetUserAccount,
     us_getUserPositionsAccount = wsGetUserPositionsAccount\<rparr>"

subsection \<open>What a subscriber promises\<close>

locale ch_subscriber =
  fixes on :: "'c \<Rightarrow> bool" and ops :: "('c, 'a) ChSubscriber"
  assumes on_def: "ch_isSubscribed ops s = on s"
    and subscribe_returns: "ch_subscribe ops opts s l = (s1, l1, Subscribed b) \<Longrightarrow> b \<and> on s1"
    and subscribe_fails: "ch_subscribe ops opts s l = (s1, l1, r) \<Longrightarrow> (\<forall>b. r \<noteq> Subscribed b) \<Longrightarrow> on s1 = on s"
    and subscribe_again: "on s \<Longrightarrow> ch_subscribe ops opts s l = (s, l, Subscribed True)"
    and fetch_on: "ch_fetch ops s l = (s1, l1, e) \<Longrightarrow> on s1 = on s"
    and unsubscribe_off: "ch_unsubscribe ops s l = (s1, l1) \<Longrightarrow> \<not> on s1"
    and state_guarded: "ch_getStateAccount ops s = Inl notSubscribed \<longleftrightarrow> \<not> on s"
    and markets_guarded: "ch_getMarketsAccount ops s = Inl notSubscribed \<longleftrightarrow> \<not> on s"
    and history_guarded: "\<not> on s \<Longrightarrow> ch_getHistoryAccount ops t s = Inl notSubscribed"
begin

text \<open>The flag of the client is the state of its subscriber, so the getter of both is either.\<close>

lemma subscribe_exact:
  assumes "ch_flag c = on (ch_sub c)" "clientSubscribe ops opts c l = (c1, l1, r)"
  shows "ch_flag c1 = on (ch_sub c1)"
    and "r = Subscribed b \<Longrightarrow> b \<and> on (ch_sub c1)"
    and "(\<forall>b. r \<noteq> Subscribed b) \<Longrightarrow> ch_flag c1 = ch_flag c"
proof -
  obtain s l' r' where sub: "ch_subscribe ops opts (ch_sub c) l = (s, l', r')"
    using prod_cases3 by blast
  show "ch_flag c1 = on (ch_sub c1)" "r = Subscribed b \<Longrightarrow> b \<and> on (ch_sub c1)"
    "(\<forall>b. r \<noteq> Subscribed b) \<Longrightarrow> ch_flag c1 = ch_flag c"
    using assms sub subscribe_returns [of opts "ch_sub c" l s l'] subscribe_fails [OF sub]
    by (auto simp: clientSubscribe_def clientIsSubscribed_def on_def Let_def split: SubscribeOutcome.splits)
qed

lemma subscribe_noop:
  assumes "ch_flag c" "on (ch_sub c)"
  shows "clientSubscribe ops opts c l = (c, l, Subscribed True)"
  using assms subscribe_again [of "ch_sub c" opts l]
  by (simp add: clientSubscribe_def clientIsSubscribed_def on_def)

lemma fetch_exact:
  assumes "ch_flag c = on (ch_sub c)" "clientFetchAccounts ops c l = (c1, l1, e)"
  shows "ch_flag c1 = on (ch_sub c1)" and "ch_flag c1 = ch_flag c"
  using assms fetch_on [of "ch_sub c" l] by (auto simp: clientFetchAccounts_def split: prod.splits)

lemma unsubscribe_exact:
  assumes "clientUnsubscribe ops c l = (c1, l1)"
  shows "ch_flag c1 = on (ch_sub c1)" and "\<not> ch_flag c1"
  using assms unsubscribe_off [of "ch_sub c" l] by (auto simp: clientUnsubscribe_def split: prod.splits)

end

locale user_subscriber =
  fixes on :: "'u \<Rightarrow> bool" and ops :: "('u, 'a) UserSubscriber"
  assumes on_def: "us_isSubscribed ops s = on s"
    and subscribe_returns: "us_subscribe ops s l = (s1, l1, Inr b) \<Longrightarrow> b \<and> on s1"
    and subscribe_fails: "us_subscribe ops s l = (s1, l1, Inl e) \<Longrightarrow> on s1 = on s"
    and fetch_on: "us_fetch ops s l = (s1, l1, e') \<Longrightarrow> on s1 = on s"
    and unsubscribe_off: "us_unsubscribe ops s l = (s1, l1) \<Longrightarrow> \<not> on s1"
    and user_guarded: "us_getUserAccount ops s = Inl notSubscribed \<longleftrightarrow> \<not> on s"
    and positions_guarded: "us_getUserPositionsAccount ops s = Inl notSubscribed \<longleftrightarrow> \<not> on s"

subsection \<open>The subscribers keep the promise\<close>

lemma loading_flags:
  "isSubscribed (fst (chLoading env x)) = isSubscribed (fst x)"
  "user_isSubscribed (fst (userLoading env' y)) = user_isSubscribed (fst y)"
  by (simp_all add: chLoading_def userLoading_def case_prod_beta)

lemma fetchPolling_on:
  "fetchPolling decode (chLoading env) s l = (s1, l1, e) \<Longrightarrow> isSubscribed s1 = isSubscribed s"
  using loading_flags(1) [of env "(s, l)"] by (auto simp: fetchPolling_def Let_def split: prod.splits)

lemma userFetch_on:
  "userFetch decode (userLoading env) s l = (s1, l1, e) \<Longrightarrow> user_isSubscribed s1 = user_isSubscribed s"
  using loading_flags(2) [of env "(s, l)"] by (auto simp: userFetch_def Let_def split: prod.splits)

lemma updateAccountsToPoll_on:
  "updateAccountsToPoll k fetched s = (s1, r) \<Longrightarrow> isSubscribed s1 = isSubscribed s"
  by (auto simp: updateAccountsToPoll_def Let_def split: if_splits sum.splits)

lemma addToAccountLoader_on:
  "addToAccountLoader cb ecb ids s l = (s1, l1) \<Longrightarrow> isSubscribed s1 = isSubscribed s"
  by (auto simp: addToAccountLoader_def Let_def split: prod.splits)

lemma polling_subscribe_on:
  assumes "subscribe decode cb ecb ids (chLoading env) k fetched opts s l = (s1, l1, r)"
  shows "if \<exists>b. r = Subscribed b then r = Subscribed True \<and> isSubscribed s1 else isSubscribed s1 = isSubscribed s"
  using assms
  by (auto simp: subscribe_def Let_def split: if_splits prod.splits option.splits
      dest!: updateAccountsToPoll_on addToAccountLoader_on fetchPolling_on)

lemma user_subscribe_on:
  assumes "userSubscribe decode cb ecb ids (userLoading env) k fetched s l = (s1, l1, r)"
  shows "case r of Inr b \<Rightarrow> b \<and> user_isSubscribed s1 | Inl e \<Rightarrow> user_isSubscribed s1 = user_isSubscribed s"
proof -
  have add: "user_isSubscribed s' = user_isSubscribed s"
    if "userAddToAccountLoader cb ecb ids k fetched s l = (s', l', e)" for s' l' e
    using that by (auto simp: userAddToAccountLoader_def Let_def split: if_splits sum.splits prod.splits)
  have fetch: "user_isSubscribed s2 = user_isSubscribed s'"
    if "fetchIfUnloaded decode (userLoading env) s' l' = (s2, l2, e)" for s' l' s2 l2 e
    using that userFetch_on [of decode env s' l'] by (auto simp: fetchIfUnloaded_def Let_def split: if_splits)
  from assms show ?thesis
    by (auto simp: userSubscribe_def split: if_splits prod.splits option.splits dest!: add fetch)
qed

interpretation polling_ch: ch_subscriber isSubscribed "pollingCH env stateKey fetched"
  for env :: "('a PollingCH, 'a) PollEnv" and stateKey fetched
proof (unfold_locales, goal_cases)
  case (2 opts s l s1 l1 b)
  then show ?case using polling_subscribe_on [of _ _ _ _ env] by (fastforce simp: pollingCH_def)
next
  case (3 opts s l s1 l1 r)
  then show ?case using polling_subscribe_on [of _ _ _ _ env] by (fastforce simp: pollingCH_def)
next
  case (9 s t)
  then show ?case
    by (cases t) (simp_all add: pollingCH_def getOptional_def assertIsSubscribed_def getTradeHistoryAccount_def
        getDepositHistoryAccount_def getFundingPaymentHistoryAccount_def getFundingRateHistoryAccount_def
        getCurveHistoryAccount_def getLiquidationHistoryAccount_def)
qed (auto simp: pollingCH_def subscribe_def unsubscribe_def getStateAccount_def getMarketsAccount_def
    assertIsSubscribed_def Let_def fetchPolling_on split: if_splits option.splits)

interpretation polling_user: user_subscriber user_isSubscribed "pollingUser env userKey fetched"
  for env :: "('a PollingUserSub, 'a) PollEnv" and userKey fetched
proof (unfold_locales, goal_cases)
  case (2 s l s1 l1 b)
  then show ?case using user_subscribe_on [of _ _ _ _ env] by (fastforce simp: pollingUser_def)
next
  case (3 s l s1 l1 e)
  then show ?case using user_subscribe_on [of _ _ _ _ env] by (fastforce simp: pollingUser_def)
qed (auto simp: pollingUser_def userUnsubscribe_def getUserAccount_def getUserPositionsAccount_def
    userAssertIsSubscribed_def notSubscribed_def Let_def userFetch_on split: if_splits option.splits)

lemma field_on:
  "ws_isSubscribed (createSubscriber name accName pk s) = ws_isSubscribed s"
  "subscribeField decode rpc ids x s = (s1, r) \<Longrightarrow> ws_isSubscribed s1 = ws_isSubscribed s"
  "fetchField decode rpc name s = (s1, r) \<Longrightarrow> ws_isSubscribed s1 = ws_isSubscribed s"
  by (auto simp: createSubscriber_def subscribeField_def fetchField_def split: prod.splits option.splits)

lemma allOf_on:
  assumes "\<And>x s s1 r. f x s = (s1, r) \<Longrightarrow> p s1 = p s" "allOf f xs s = (s1, r)"
  shows "p s1 = p s"
  using assms(2)
proof (induction xs arbitrary: s r)
  case (Cons x xs)
  from Cons.prems obtain t r1 r2 where "f x s = (t, r1)" "allOf f xs t = (s1, r2)"
    by (auto split: prod.splits)
  with Cons.IH assms(1) show ?case by metis
qed simp

lemma allOf_field_on:
  "allOf (subscribeField decode rpc ids) xs s = (s1, r) \<Longrightarrow> ws_isSubscribed s1 = ws_isSubscribed s"
  "allOf (fetchField decode rpc) names s = (s1, r) \<Longrightarrow> ws_isSubscribed s1 = ws_isSubscribed s"
  by (erule allOf_on [rotated], erule field_on)+

lemma ws_subscribe_on:
  assumes "wsSubscribe decode asState rpc ids k opts s = (s1, r)"
  shows "if \<exists>b. r = Subscribed b then r = Subscribed True \<and> ws_isSubscribed s1 else ws_isSubscribed s1 = ws_isSubscribed s"
  using assms
  by (auto simp: wsSubscribe_def Let_def createHistorySubscribers_def field_on(1)
      split: if_splits sum.splits prod.splits option.splits
      dest!: field_on(2) allOf_field_on(1))

lemma ws_user_subscribe_on:
  assumes "wsUserSubscribe decode asUser rpc ids k s = (s1, r)"
  shows "case r of Inr b \<Rightarrow> b \<and> ws_isSubscribed s1 | Inl e \<Rightarrow> ws_isSubscribed s1 = ws_isSubscribed s"
  using assms
  by (auto simp: wsUserSubscribe_def Let_def field_on(1)
      split: if_splits sum.splits prod.splits option.splits dest!: field_on(2))

lemma fieldData_not_notSubscribed [simp]: "fieldData name s \<noteq> Inl notSubscribed"
  by (cases "map_of (subscribers s) name") (simp_all add: fieldData_def notSubscribed_def)

interpretation web_socket_ch: ch_subscriber ws_isSubscribed "webSocketCH decode asState rpc ids stateKey"
  for decode asState rpc ids stateKey
proof (unfold_locales, goal_cases)
  case (2 opts s l s1 l1 b)
  then show ?case using ws_subscribe_on by (fastforce simp: webSocketCH_def split: prod.splits)
next
  case (3 opts s l s1 l1 r)
  then show ?case using ws_subscribe_on by (fastforce simp: webSocketCH_def split: prod.splits)
next
  case (5 s l s1 l1 e)
  then show ?case
    by (auto simp: webSocketCH_def wsFetch_def split: prod.splits if_splits dest!: allOf_field_on(2))
qed (auto simp: webSocketCH_def wsSubscribe_def wsUnsubscribe_def wsGetStateAccount_def
    wsGetMarketsAccount_def wsGetHistoryAccount_def wsAssertIsSubscribed_def)

interpretation web_socket_user: user_subscriber ws_isSubscribed "webSocketUser decode asUser rpc ids userKey"
  for decode asUser rpc ids userKey
proof (unfold_locales, goal_cases)
  case (2 s l s1 l1 b)
  then show ?case using ws_user_subscribe_on by (fastforce simp: webSocketUser_def split: prod.splits)
next
  case (3 s l s1 l1 e)
  then show ?case using ws_user_subscribe_on by (fastforce simp: webSocketUser_def split: prod.splits)
next
  case (4 s l s1 l1 e)
  then show ?case
    by (auto simp: webSocketUser_def wsUserFetch_def split: prod.splits dest!: field_on(3))
qed (auto simp: webSocketUser_def wsUserUnsubscribe_def wsGetUserAccount_def wsGetUserPositionsAccount_def
    wsAssertIsSubscribed_def)

subsection \<open>Sequences of calls\<close>

datatype LifeCall =
    SubscribeCall "ClearingHouseAccountTypes list option"
  | FetchCall
  | UnsubscribeCall

text \<open>A call, with the subscriber's environment at that time, and whether it succeeded.\<close>

fun lifeStep ::
  "('c, 'a) ChSubscriber \<Rightarrow> LifeCall \<Rightarrow> 'c LiveClient \<Rightarrow> Loader \<Rightarrow> 'c LiveClient \<times> Loader \<times> bool" where
  "lifeStep ops (SubscribeCall opts) c l =
     (case clientSubscribe ops opts c l of (c1, l1, r) \<Rightarrow> (c1, l1, r = Subscribed True))"
| "lifeStep ops FetchCall c l =
     (case clientFetchAccounts ops c l of (c1, l1, e) \<Rightarrow> (c1, l1, e = None))"
| "lifeStep ops UnsubscribeCall c l =
     (case clientUnsubscribe ops c l of (c1, l1) \<Rightarrow> (c1, l1, True))"

fun runLife ::
  "(('c, 'a) ChSubscriber \<times> LifeCall) list \<Rightarrow> 'c LiveClient \<Rightarrow> Loader \<Rightarrow> 'c LiveClient \<times> (LifeCall \<times> bool) list" where
  "runLife [] c l = (c, [])"
| "runLife ((ops, x) # xs) c l =
     (case lifeStep ops x c l of (c1, l1, ok) \<Rightarrow>
        (case runLife xs c1 l1 of (c2, log) \<Rightarrow> (c2, (x, ok) # log)))"

text \<open>
  The specification: a switch. A successful subscription turns it on, unsubscribing turns it off,
  nothing else moves it.
\<close>

fun switch :: "bool \<Rightarrow> LifeCall \<times> bool \<Rightarrow> bool" where
  "switch on (SubscribeCall opts, ok) \<longleftrightarrow> on \<or> ok"
| "switch on (FetchCall, ok) \<longleftrightarrow> on"
| "switch on (UnsubscribeCall, ok) \<longleftrightarrow> False"

lemma lifeStep_switch:
  assumes "ch_subscriber on ops" "ch_flag c = on (ch_sub c)" "lifeStep ops x c l = (c1, l1, ok)"
  shows "ch_flag c1 = on (ch_sub c1) \<and> ch_flag c1 = switch (ch_flag c) (x, ok)"
proof (cases x)
  case (SubscribeCall opts)
  with assms(3) obtain r where sub: "clientSubscribe ops opts c l = (c1, l1, r)" and ok: "ok = (r = Subscribed True)"
    by (auto split: prod.splits)
  note exact = ch_subscriber.subscribe_exact [OF assms(1,2) sub]
  show ?thesis
  proof (cases "\<exists>b. r = Subscribed b")
    case True
    with exact(1,2) ok SubscribeCall show ?thesis by auto
  next
    case False
    with exact(1,3) ok SubscribeCall show ?thesis by auto
  qed
next
  case FetchCall
  with assms(3) ch_subscriber.fetch_exact [OF assms(1,2)] show ?thesis by (auto split: prod.splits)
next
  case UnsubscribeCall
  with assms(3) ch_subscriber.unsubscribe_exact [OF assms(1)] show ?thesis
    by (force split: prod.splits)
qed

lemma runLife_switch:
  assumes "\<forall>(ops, x) \<in> set xs. ch_subscriber on ops" "ch_flag c = on (ch_sub c)"
    and "runLife xs c l = (c', log)"
  shows "ch_flag c' = on (ch_sub c') \<and> ch_flag c' = foldl switch (ch_flag c) log"
  using assms
proof (induction xs arbitrary: c l log)
  case (Cons x xs)
  obtain ops y where x: "x = (ops, y)" by (cases x)
  with Cons.prems(3) obtain c1 l1 ok log1 where step: "lifeStep ops y c l = (c1, l1, ok)"
    and run: "runLife xs c1 l1 = (c', log1)" and log: "log = (y, ok) # log1"
    by (auto split: prod.splits)
  from Cons.prems(1) x have "ch_subscriber on ops" by simp
  from lifeStep_switch [OF this Cons.prems(2) step]
  have exact: "ch_flag c1 = on (ch_sub c1)" and spec: "ch_flag c1 = switch (ch_flag c) (y, ok)" by blast+
  have "foldl switch (ch_flag c1) log1 = foldl switch (ch_flag c) log"
    by (simp add: log spec)
  moreover have "\<forall>(ops, x) \<in> set xs. ch_subscriber on ops" using Cons.prems(1) by simp
  ultimately show ?case using Cons.IH [OF _ exact run] by metis
qed simp

text \<open>The answers of a client whose flag is exact.\<close>

lemma exact_answers:
  assumes "ch_subscriber on ops" "ch_flag c = on (ch_sub c)"
  shows "clientIsSubscribed ops c = ch_flag c"
    and "clientGetStateAccount ops c = Inl notSubscribed \<longleftrightarrow> \<not> ch_flag c"
    and "clientGetMarketsAccount ops c = Inl notSubscribed \<longleftrightarrow> \<not> ch_flag c"
    and "\<not> ch_flag c \<Longrightarrow> clientGetHistoryAccount ops t c = Inl notSubscribed"
  using assms ch_subscriber.on_def [OF assms(1)] ch_subscriber.state_guarded [OF assms(1)]
    ch_subscriber.markets_guarded [OF assms(1)] ch_subscriber.history_guarded [OF assms(1)]
  by (auto simp: clientIsSubscribed_def clientGetStateAccount_def clientGetMarketsAccount_def
      clientGetHistoryAccount_def)

text \<open>
  The two clients refine the switch, whatever the calls are and however they fail.
\<close>

definition refinesSwitch :: "('c, 'a) ChSubscriber \<Rightarrow> 'c LiveClient \<times> (LifeCall \<times> bool) list \<Rightarrow> bool" where
  "refinesSwitch ops result \<longleftrightarrow>
     (case result of (c, log) \<Rightarrow>
        clientIsSubscribed ops c = foldl switch False log \<and>
        (clientGetStateAccount ops c = Inl notSubscribed) = (\<not> foldl switch False log) \<and>
        (clientGetMarketsAccount ops c = Inl notSubscribed) = (\<not> foldl switch False log))"

lemma refinesSwitchI:
  assumes "\<forall>(ops, x) \<in> set xs. ch_subscriber on ops" "\<not> on s" "ch_subscriber on ops"
  shows "refinesSwitch ops (runLife xs (newLiveClient s) l)"
proof -
  obtain c log where run: "runLife xs (newLiveClient s) l = (c, log)" by fastforce
  have off: "ch_flag (newLiveClient s) = False" by (simp add: newLiveClient_def)
  have new: "ch_flag (newLiveClient s) = on (ch_sub (newLiveClient s))"
    using assms(2) by (simp add: newLiveClient_def)
  have "ch_flag c = on (ch_sub c)" "ch_flag c = foldl switch False log"
    using runLife_switch [OF assms(1) new run] unfolding off by blast+
  with exact_answers [OF assms(3)] run show ?thesis by (simp add: refinesSwitch_def)
qed

text \<open>
  C27: After any sequence of \<open>subscribe\<close>, \<open>fetchAccounts\<close> and \<open>unsubscribe\<close> calls, with any answers of
  the node and whichever of them throw, a new client of either kind is subscribed exactly when
  the switch says so: after the last successful \<open>subscribe\<close>, until an \<open>unsubscribe\<close>; and exactly
  then its getters of the state and the markets do not throw \<open>NotSubscribedError\<close>.
\<close>

theorem subscription_refines_switch:
  "refinesSwitch (pollingCH env key fetched)
     (runLife (map (\<lambda>(env, key, fetched, x). (pollingCH env key fetched, x)) xs) (newLiveClient newPollingCH) l) \<and>
   refinesSwitch (webSocketCH decode asState rpc ids stateKey)
     (runLife (map (\<lambda>(rpc, ids, stateKey, x). (webSocketCH decode asState rpc ids stateKey, x)) ys)
       (newLiveClient newWsSubscribers) l)"
  by (intro conjI refinesSwitchI [where on = isSubscribed] refinesSwitchI [where on = ws_isSubscribed])
    (auto simp: newPollingCH_def newWsSubscribers_def
      intro: polling_ch.ch_subscriber_axioms web_socket_ch.ch_subscriber_axioms)

text \<open>The users of a subscribed clearing house.\<close>

lemma user_subscribe_keeps_client:
  assumes "ch_subscriber on chOps" "ch_flag c" "on (ch_sub c)"
    and "liveUserSubscribe chOps ops c u l = (c1, u1, l1, r)"
  shows "c1 = c \<and> user_authority u1 = user_authority u"
  using assms(4) ch_subscriber.subscribe_noop [OF assms(1-3), of None l]
  by (auto simp: liveUserSubscribe_def Let_def split: prod.splits sum.splits)

end
