(* ===== verification/BulkUsers.thy ===== *)
theory BulkUsers
  imports Lifecycle
begin

section \<open>Subscribing many users at once\<close>

text \<open>
  \<open>sdk/src/accounts/bulkUserSubscription.ts\<close>: \<open>bulkPollingUserSubscribe\<close> registers the accounts of all
  users with the loader, loads once, and subscribes the users. The users share the loader and
  their clearing house. The calls that \<open>Promise.all\<close> starts run one after the other in the model;
  all of them run, and the first error is the result. \<open>loading\<close> is what the awaited \<open>load\<close> does to
  the subscribers (through their callbacks) and to the loader.
\<close>

record 'a BulkUser =
  bulk_user :: "'a PollingUserSub LiveUser"
  bulk_env :: "('a PollingUserSub, 'a) PollEnv"
  bulk_key :: PublicKey
  bulk_fetched :: "UserAccount result"

abbreviation bulk_sub :: "'a BulkUser \<Rightarrow> 'a PollingUserSub" where
  "bulk_sub b \<equiv> us_sub (bulk_user b)"

definition setSub :: "'a BulkUser \<Rightarrow> 'a PollingUserSub \<Rightarrow> 'a BulkUser" where
  "setSub b s = b\<lparr>bulk_user := (bulk_user b)\<lparr>us_sub := s\<rparr>\<rparr>"

definition bulkOps :: "'a BulkUser \<Rightarrow> ('a PollingUserSub, 'a) UserSubscriber" where
  "bulkOps b = pollingUser (bulk_env b) (bulk_key b) (bulk_fetched b)"

fun addAll :: "'a BulkUser list \<Rightarrow> Loader \<Rightarrow> 'a BulkUser list \<times> Loader \<times> js_error option" where
  "addAll [] l = ([], l, None)"
| "addAll (b # bs) l =
     (case userAddToAccountLoader (poll_callbackOf (bulk_env b)) (poll_errorCallback (bulk_env b))
             (poll_uuids (bulk_env b)) (bulk_key b) (bulk_fetched b) (bulk_sub b) l of (s, l1, e) \<Rightarrow>
        (case addAll bs l1 of (bs', l2, e') \<Rightarrow>
           (setSub b s # bs', l2, case e of None \<Rightarrow> e' | Some _ \<Rightarrow> e)))"

fun subscribeAll ::
  "('c, 'b) ChSubscriber \<Rightarrow> 'c LiveClient \<Rightarrow> 'a BulkUser list \<Rightarrow> Loader \<Rightarrow>
     'c LiveClient \<times> 'a BulkUser list \<times> Loader \<times> SubscribeOutcome" where
  "subscribeAll chOps c [] l = (c, [], l, Subscribed True)"
| "subscribeAll chOps c (b # bs) l =
     (case liveUserSubscribe chOps (bulkOps b) c (bulk_user b) l of (c1, u, l1, r) \<Rightarrow>
        (case subscribeAll chOps c1 bs l1 of (c2, bs', l2, r') \<Rightarrow>
           (c2, b\<lparr>bulk_user := u\<rparr> # bs', l2, case r of Subscribed _ \<Rightarrow> r' | _ \<Rightarrow> r)))"

definition bulkPollingUserSubscribe ::
  "('c, 'b) ChSubscriber \<Rightarrow> ('a PollingUserSub list \<Rightarrow> Loader \<Rightarrow> 'a PollingUserSub list \<times> Loader) \<Rightarrow>
     'c LiveClient \<Rightarrow> 'a BulkUser list \<Rightarrow> Loader \<Rightarrow>
     'c LiveClient \<times> 'a BulkUser list \<times> Loader \<times> SubscribeOutcome" where
  "bulkPollingUserSubscribe chOps loading c users accountLoader =
     (case addAll users accountLoader of
        (us1, l1, Some e) \<Rightarrow> (c, us1, l1, Throws e)
      | (us1, l1, None) \<Rightarrow>
          (case loading (map bulk_sub us1) l1 of (subs, l2) \<Rightarrow>
             subscribeAll chOps c (map2 setSub us1 subs) l2))"

subsection \<open>One load for all\<close>

text \<open>A load that has reached every account of a subscriber and left its registrations alone.\<close>

definition loadedFrom :: "'a PollingUserSub \<Rightarrow> 'a PollingUserSub \<Rightarrow> bool" where
  "loadedFrom s s' \<longleftrightarrow>
     user_accountsToPoll s' = user_accountsToPoll s \<and> user_isSubscribed s' = user_isSubscribed s \<and>
     list_all (\<lambda>(k, a). map_of (user_accounts s') (pollKey a) \<noteq> None) (user_accountsToPoll s)"

lemma registerAccounts_Nil: "fst (registerAccounts cb ids n m l) = [] \<longleftrightarrow> m = []"
  by (cases m) (auto simp: Let_def split: prod.splits)

lemma update_not_Nil [simp]: "AList.update k v m \<noteq> []"
  by (cases m) auto

lemma userAddToAccountLoader_registers:
  assumes "userAddToAccountLoader cb ecb ids k fetched s l = (s', l', None)"
  shows "user_accountsToPoll s' \<noteq> []"
  using assms registerAccounts_Nil [of cb ids 0]
  by (fastforce simp: userAddToAccountLoader_def Let_def split: if_splits sum.splits prod.splits)

lemma addAll_registers:
  assumes "addAll bs l = (bs', l', None)"
  shows "\<forall>b \<in> set bs'. user_accountsToPoll (bulk_sub b) \<noteq> []"
  using assms
proof (induction bs arbitrary: l bs')
  case (Cons a bs)
  from Cons.prems obtain s l1 bs1 where
    add: "userAddToAccountLoader (poll_callbackOf (bulk_env a)) (poll_errorCallback (bulk_env a))
      (poll_uuids (bulk_env a)) (bulk_key a) (bulk_fetched a) (bulk_sub a) l = (s, l1, None)"
    and rest: "addAll bs l1 = (bs1, l', None)" and bs': "bs' = setSub a s # bs1"
    by (auto split: prod.splits option.splits)
  with Cons.IH [OF rest] userAddToAccountLoader_registers [OF add] show ?case by (simp add: setSub_def)
qed simp

text \<open>A user whose accounts are registered and loaded subscribes without another request.\<close>

lemma subscribe_loaded:
  assumes "user_accountsToPoll s \<noteq> []"
    and "list_all (\<lambda>(k, a). map_of (user_accounts s) (pollKey a) \<noteq> None) (user_accountsToPoll s)"
  shows "\<exists>s'. us_subscribe (pollingUser env key fetched) s l = (s', l, Inr True) \<and> user_isSubscribed s'"
proof -
  have "\<not> list_ex (\<lambda>(k, a). map_of (user_accounts s) (pollKey a) = None) (user_accountsToPoll s)"
    using assms(2) by (auto simp: list_all_iff list_ex_iff)
  with assms(1) show ?thesis
    by (simp add: pollingUser_def userSubscribe_def userAddToAccountLoader_def fetchIfUnloaded_def)
qed

lemma live_subscribe_loaded:
  assumes "ch_subscriber on chOps" "ch_flag c" "on (ch_sub c)"
    and "user_accountsToPoll (bulk_sub b) \<noteq> []"
    and "list_all (\<lambda>(k, a). map_of (user_accounts (bulk_sub b)) (pollKey a) \<noteq> None)
           (user_accountsToPoll (bulk_sub b))"
  shows "\<exists>u. liveUserSubscribe chOps (bulkOps b) c (bulk_user b) l = (c, u, l, Subscribed True) \<and>
           userIsSubscribed (bulkOps b) u"
  using ch_subscriber.subscribe_noop [OF assms(1-3), of None l]
    subscribe_loaded [OF assms(4,5), of "bulk_env b" "bulk_key b" "bulk_fetched b" l]
    polling_user.on_def [of "bulk_env b" "bulk_key b" "bulk_fetched b"]
  by (auto simp: liveUserSubscribe_def bulkOps_def userIsSubscribed_def Let_def)

lemma subscribeAll_loaded:
  assumes "ch_subscriber on chOps" "ch_flag c" "on (ch_sub c)"
    and "\<forall>b \<in> set bs. user_accountsToPoll (bulk_sub b) \<noteq> [] \<and>
           list_all (\<lambda>(k, a). map_of (user_accounts (bulk_sub b)) (pollKey a) \<noteq> None)
             (user_accountsToPoll (bulk_sub b))"
  shows "\<exists>bs'. subscribeAll chOps c bs l = (c, bs', l, Subscribed True) \<and>
           length bs' = length bs \<and> (\<forall>b \<in> set bs'. userIsSubscribed (bulkOps b) (bulk_user b))"
  using assms(4)
proof (induction bs)
  case (Cons b bs)
  then obtain bs' where "subscribeAll chOps c bs l = (c, bs', l, Subscribed True)"
    "length bs' = length bs" "\<forall>b \<in> set bs'. userIsSubscribed (bulkOps b) (bulk_user b)" by auto
  moreover obtain u where "liveUserSubscribe chOps (bulkOps b) c (bulk_user b) l = (c, u, l, Subscribed True)"
    "userIsSubscribed (bulkOps b) u"
    using live_subscribe_loaded [OF assms(1-3), of b l] Cons.prems by auto
  ultimately show ?case by (simp add: bulkOps_def)
qed simp

lemma loaded_users:
  assumes "list_all2 (\<lambda>b s. loadedFrom (bulk_sub b) s) us subs"
    and "\<forall>b \<in> set us. user_accountsToPoll (bulk_sub b) \<noteq> []"
  shows "\<forall>b \<in> set (map2 setSub us subs). user_accountsToPoll (bulk_sub b) \<noteq> [] \<and>
           list_all (\<lambda>(k, a). map_of (user_accounts (bulk_sub b)) (pollKey a) \<noteq> None)
             (user_accountsToPoll (bulk_sub b))"
  using assms by (induction rule: list_all2_induct) (auto simp: loadedFrom_def setSub_def)

text \<open>
  Subscribing many users costs one load: when the clearing house is subscribed, every user
  account can be fetched and the load reaches every registered account, all users end up
  subscribed and the loader is exactly as the load left it, so no user registered or loaded again.
\<close>

theorem bulk_subscribe_loads_once:
  assumes "ch_flag c" "isSubscribed (ch_sub c)"
    and "addAll users l = (us1, l1, None)" "loading (map bulk_sub us1) l1 = (subs, l2)"
    and "list_all2 (\<lambda>b s. loadedFrom (bulk_sub b) s) us1 subs"
  shows "\<exists>us2. bulkPollingUserSubscribe (pollingCH env key fetched) loading c users l = (c, us2, l2, Subscribed True) \<and>
           length us2 = length us1 \<and> (\<forall>b \<in> set us2. userIsSubscribed (bulkOps b) (bulk_user b))"
proof -
  have "\<forall>b \<in> set (map2 setSub us1 subs). user_accountsToPoll (bulk_sub b) \<noteq> [] \<and>
      list_all (\<lambda>(k, a). map_of (user_accounts (bulk_sub b)) (pollKey a) \<noteq> None)
        (user_accountsToPoll (bulk_sub b))"
    by (rule loaded_users [OF assms(5) addAll_registers [OF assms(3)]])
  from subscribeAll_loaded [OF polling_ch.ch_subscriber_axioms assms(1,2) this, of env key fetched l2]
  show ?thesis
    using assms(3,4) list_all2_lengthD [OF assms(5)] by (auto simp: bulkPollingUserSubscribe_def)
qed

text \<open>Two users whose accounts are loaded.\<close>

definition sample_env :: "string \<Rightarrow> ('s, nat) PollEnv" where
  "sample_env prefix = \<lparr>poll_decode = lengthDecoder, poll_callbackOf = (\<lambda>_. 1), poll_errorCallback = 2,
     poll_uuids = (\<lambda>n. prefix @ nat_toString n), poll_loading = (\<lambda>s l. ([], [], l))\<rparr>"

definition sample_bulk_user :: "string \<Rightarrow> nat BulkUser" where
  "sample_bulk_user name = \<lparr>bulk_user = newLiveUser name newPollingUser, bulk_env = sample_env name,
     bulk_key = name, bulk_fetched = Inr sample_user\<rparr>"

definition sample_loading :: "nat PollingUserSub list \<Rightarrow> Loader \<Rightarrow> nat PollingUserSub list \<times> Loader" where
  "sample_loading subs l =
     (map (\<lambda>s. s\<lparr>user_accounts := [(''user'', 0), (''userPositions'', 1)]\<rparr>) subs, l)"

theorem bulk_subscribe_loads_once_witness:
  "\<exists>us2 l2. bulkPollingUserSubscribe (pollingCH (sample_env ''c'') ''stateKey'' (Inr sample_state)) sample_loading
       \<lparr>ch_sub = (newPollingCH :: nat PollingCH)\<lparr>isSubscribed := True\<rparr>, ch_flag = True\<rparr>
       [sample_bulk_user ''a'', sample_bulk_user ''b''] newLoader =
     (\<lparr>ch_sub = newPollingCH\<lparr>isSubscribed := True\<rparr>, ch_flag = True\<rparr>, us2, l2, Subscribed True) \<and>
     length us2 = 2"
proof -
  let ?us = "[sample_bulk_user ''a'', sample_bulk_user ''b'']"
  obtain us1 l1 e where add: "addAll ?us newLoader = (us1, l1, e)" using prod_cases3 by blast
  then have e: "e = None" and len: "length us1 = 2"
    and keys: "\<forall>b \<in> set us1. \<forall>(k, a) \<in> set (user_accountsToPoll (bulk_sub b)). pollKey a \<in> {''user'', ''userPositions''}"
    by (auto simp: sample_bulk_user_def newLiveUser_def newPollingUser_def userAddToAccountLoader_def
        setSub_def sample_user_def Let_def split: prod.splits if_splits)
  obtain subs l2 where load: "sample_loading (map bulk_sub us1) l1 = (subs, l2)" by fastforce
  have "list_all2 (\<lambda>b s. loadedFrom (bulk_sub b) s) us1 subs"
    using load keys by (fastforce simp: sample_loading_def list_all2_map2 list_all2_same loadedFrom_def
        list_all_iff)
  from bulk_subscribe_loads_once [where c = "\<lparr>ch_sub = (newPollingCH :: nat PollingCH)\<lparr>isSubscribed := True\<rparr>, ch_flag = True\<rparr>"
      and loading = sample_loading, OF _ _ add [unfolded e] load this] len
  show ?thesis by fastforce
qed

end
