(* ===== verification/Factory.thy ===== *)
theory Factory
  imports ClientCalls Lifecycle
begin

section \<open>Building clients from a configuration\<close>

text \<open>
  \<open>sdk/src/factory/clearingHouse.ts\<close> and \<open>sdk/src/factory/clearingHouseUser.ts\<close>, with the static
  methods \<open>from\<close> of the three classes. The connection and the loader are objects the client only
  passes on; \<open>defaultOptions\<close> is \<open>Provider.defaultOptions()\<close>. A client is its \<open>Client\<close> record together
  with its life cycle; what the getters of its subscriber return is read off the life cycle.
\<close>

subsection \<open>Configurations\<close>

record ClearingHouseConfig =
  cfg_type :: ConfigType
  cfg_wallet :: PublicKey
  cfg_programID :: PublicKey
  cfg_opts :: "ConfirmOptions option"
  cfg_txSender :: "TxSender option"

definition getWebSocketClearingHouseConfig ::
  "ConfirmOptions \<Rightarrow> PublicKey \<Rightarrow> PublicKey \<Rightarrow> ConfirmOptions option \<Rightarrow> TxSender option \<Rightarrow> ClearingHouseConfig" where
  "getWebSocketClearingHouseConfig defaultOptions w pid q sender = \<lparr>
     cfg_type = WebsocketType, cfg_wallet = w, cfg_programID = pid,
     cfg_opts = Some (case q of None \<Rightarrow> defaultOptions | Some o' \<Rightarrow> o'), cfg_txSender = sender\<rparr>"

definition getPollingClearingHouseConfig ::
  "ConfirmOptions \<Rightarrow> PublicKey \<Rightarrow> PublicKey \<Rightarrow> ConfirmOptions option \<Rightarrow> TxSender option \<Rightarrow> ClearingHouseConfig" where
  "getPollingClearingHouseConfig defaultOptions w pid q sender = \<lparr>
     cfg_type = PollingType, cfg_wallet = w, cfg_programID = pid,
     cfg_opts = Some (case q of None \<Rightarrow> defaultOptions | Some o' \<Rightarrow> o'), cfg_txSender = sender\<rparr>"

subsection \<open>The clearing house\<close>

datatype 'a AnyChSubscriber = WebSocketSub "'a WsSubscribers" | PollingSub "'a PollingCH"

text \<open>A configuration of type \<open>custom\<close> leaves the variable \<open>accountSubscriber\<close> undefined.\<close>

fun newChSubscriber :: "ConfigType \<Rightarrow> 'a AnyChSubscriber option" where
  "newChSubscriber WebsocketType = Some (WebSocketSub newWsSubscribers)"
| "newChSubscriber PollingType = Some (PollingSub newPollingCH)"
| "newChSubscriber CustomType = None"

fun anyIsSubscribed :: "'a AnyChSubscriber \<Rightarrow> bool" where
  "anyIsSubscribed (WebSocketSub s) = ws_isSubscribed s"
| "anyIsSubscribed (PollingSub s) = isSubscribed s"

fun anyType :: "'a AnyChSubscriber \<Rightarrow> ConfigType" where
  "anyType (WebSocketSub s) = WebsocketType"
| "anyType (PollingSub s) = PollingType"

fun anyStateAccount :: "'a AnyChSubscriber \<Rightarrow> 'a option result" where
  "anyStateAccount (WebSocketSub s) = wsGetStateAccount s"
| "anyStateAccount (PollingSub s) = getStateAccount s"

fun anyMarketsAccount :: "'a AnyChSubscriber \<Rightarrow> 'a option result" where
  "anyMarketsAccount (WebSocketSub s) = wsGetMarketsAccount s"
| "anyMarketsAccount (PollingSub s) = getMarketsAccount s"

text \<open>The methods of a subscriber of either kind, as its class defines them.\<close>

definition anyCH ::
  "('a WsSubscribers, 'a) ChSubscriber \<Rightarrow> ('a PollingCH, 'a) ChSubscriber \<Rightarrow>
     ('a AnyChSubscriber, 'a) ChSubscriber" where
  "anyCH w p = \<lparr>
     ch_type = anyType,
     ch_isSubscribed = anyIsSubscribed,
     ch_subscribe = (\<lambda>opts sub l. case sub of
        WebSocketSub s \<Rightarrow> (case ch_subscribe w opts s l of (s', l', r) \<Rightarrow> (WebSocketSub s', l', r))
      | PollingSub s \<Rightarrow> (case ch_subscribe p opts s l of (s', l', r) \<Rightarrow> (PollingSub s', l', r))),
     ch_fetch = (\<lambda>sub l. case sub of
        WebSocketSub s \<Rightarrow> (case ch_fetch w s l of (s', l', r) \<Rightarrow> (WebSocketSub s', l', r))
      | PollingSub s \<Rightarrow> (case ch_fetch p s l of (s', l', r) \<Rightarrow> (PollingSub s', l', r))),
     ch_unsubscribe = (\<lambda>sub l. case sub of
        WebSocketSub s \<Rightarrow> (case ch_unsubscribe w s l of (s', l') \<Rightarrow> (WebSocketSub s', l'))
      | PollingSub s \<Rightarrow> (case ch_unsubscribe p s l of (s', l') \<Rightarrow> (PollingSub s', l'))),
     ch_getStateAccount = anyStateAccount,
     ch_getMarketsAccount = anyMarketsAccount,
     ch_getHistoryAccount = (\<lambda>t sub. case sub of
        WebSocketSub s \<Rightarrow> wsGetHistoryAccount t s | PollingSub s \<Rightarrow> pollHistory t s)\<rparr>"

text \<open>What the client reads through the getters: the decoded account, viewed as its type.\<close>

definition viewed :: "('a \<Rightarrow> 'b) \<Rightarrow> 'a option result \<Rightarrow> 'b result" where
  "viewed view got = bindE got (\<lambda>x. mapE view (deref x))"

definition refreshed ::
  "('a \<Rightarrow> StateAccount) \<Rightarrow> ('a \<Rightarrow> MarketsAccount) \<Rightarrow> 'a AnyChSubscriber \<Rightarrow> Client \<Rightarrow> Client" where
  "refreshed asState asMarkets sub c =
     c\<lparr>sub_state := viewed asState (anyStateAccount sub), sub_markets := viewed asMarkets (anyMarketsAccount sub)\<rparr>"

definition getClearingHouse ::
  "('a \<Rightarrow> StateAccount) \<Rightarrow> ('a \<Rightarrow> MarketsAccount) \<Rightarrow> ClearingHouseConfig \<Rightarrow>
     (Client \<times> 'a AnyChSubscriber LiveClient) result" where
  "getClearingHouse asState asMarkets config =
     (let sender = (case cfg_txSender config of
                      None \<Rightarrow> DefaultTxSender (cfg_wallet config) | Some t \<Rightarrow> t) in
      bindE (deref (newChSubscriber (cfg_type config))) (\<lambda>sub.
      Inr (newClient (cfg_wallet config) (cfg_programID config) (cfg_wallet config) sender (cfg_opts config)
             (viewed asState (anyStateAccount sub)) (viewed asMarkets (anyMarketsAccount sub)),
           newLiveClient sub)))"

text \<open>\<open>getAdmin\<close> repeats the body for the subclass, whose objects have the same fields.\<close>

definition getAdmin ::
  "('a \<Rightarrow> StateAccount) \<Rightarrow> ('a \<Rightarrow> MarketsAccount) \<Rightarrow> ClearingHouseConfig \<Rightarrow>
     (Client \<times> 'a AnyChSubscriber LiveClient) result" where
  "getAdmin asState asMarkets config =
     (let sender = (case cfg_txSender config of
                      None \<Rightarrow> DefaultTxSender (cfg_wallet config) | Some t \<Rightarrow> t) in
      bindE (deref (newChSubscriber (cfg_type config))) (\<lambda>sub.
      Inr (newClient (cfg_wallet config) (cfg_programID config) (cfg_wallet config) sender (cfg_opts config)
             (viewed asState (anyStateAccount sub)) (viewed asMarkets (anyMarketsAccount sub)),
           newLiveClient sub)))"

definition clearingHouseFrom ::
  "ConfirmOptions \<Rightarrow> ('a \<Rightarrow> StateAccount) \<Rightarrow> ('a \<Rightarrow> MarketsAccount) \<Rightarrow> PublicKey \<Rightarrow> PublicKey \<Rightarrow>
     ConfirmOptions option \<Rightarrow> (Client \<times> 'a AnyChSubscriber LiveClient) result" where
  "clearingHouseFrom defaultOptions asState asMarkets w pid q =
     getClearingHouse asState asMarkets
       (getWebSocketClearingHouseConfig defaultOptions w pid
          (Some (case q of None \<Rightarrow> defaultOptions | Some o' \<Rightarrow> o')) None)"

definition adminFrom ::
  "ConfirmOptions \<Rightarrow> ('a \<Rightarrow> StateAccount) \<Rightarrow> ('a \<Rightarrow> MarketsAccount) \<Rightarrow> PublicKey \<Rightarrow> PublicKey \<Rightarrow>
     ConfirmOptions option \<Rightarrow> (Client \<times> 'a AnyChSubscriber LiveClient) result" where
  "adminFrom defaultOptions asState asMarkets w pid q =
     getAdmin asState asMarkets
       (getWebSocketClearingHouseConfig defaultOptions w pid
          (Some (case q of None \<Rightarrow> defaultOptions | Some o' \<Rightarrow> o')) None)"

subsection \<open>The user\<close>

record UserConfig =
  ucfg_type :: ConfigType
  ucfg_authority :: PublicKey

definition getWebSocketClearingHouseUserConfig :: "PublicKey \<Rightarrow> UserConfig" where
  "getWebSocketClearingHouseUserConfig auth = \<lparr>ucfg_type = WebsocketType, ucfg_authority = auth\<rparr>"

definition getPollingClearingHouseUserConfig :: "PublicKey \<Rightarrow> UserConfig" where
  "getPollingClearingHouseUserConfig auth = \<lparr>ucfg_type = PollingType, ucfg_authority = auth\<rparr>"

datatype 'a AnyUserSubscriber = WebSocketUserSub "'a WsSubscribers" | PollingUserSubscriber "'a PollingUserSub"

fun newUserSubscriber :: "ConfigType \<Rightarrow> 'a AnyUserSubscriber option" where
  "newUserSubscriber WebsocketType = Some (WebSocketUserSub newWsSubscribers)"
| "newUserSubscriber PollingType = Some (PollingUserSubscriber newPollingUser)"
| "newUserSubscriber CustomType = None"

definition getClearingHouseUser :: "UserConfig \<Rightarrow> 'a AnyUserSubscriber LiveUser result" where
  "getClearingHouseUser config =
     bindE (deref (newUserSubscriber (ucfg_type config))) (\<lambda>sub.
     Inr (newLiveUser (ucfg_authority config) sub))"

text \<open>\<open>ClearingHouseUser.from\<close> throws a text unless the clearing house uses web sockets.\<close>

definition userFrom ::
  "'c AnyChSubscriber LiveClient \<Rightarrow> PublicKey \<Rightarrow> 'a AnyUserSubscriber LiveUser result" where
  "userFrom clearingHouse auth =
     (if anyType (ch_sub clearingHouse) \<noteq> WebsocketType
      then Inl (Thrown ''This method only works for clearing houses with a websocket account listener. Try using the getClearingHouseUser factory method to initialize a ClearingHouseUser instead'')
      else getClearingHouseUser (getWebSocketClearingHouseUserConfig auth))"

subsection \<open>Properties\<close>

lemma newChSubscriber_off:
  "newChSubscriber t = Some sub \<Longrightarrow> \<not> anyIsSubscribed sub \<and> anyStateAccount sub = Inl notSubscribed \<and>
     anyMarketsAccount sub = Inl notSubscribed \<and> anyType sub = t"
  by (cases t) (auto simp: newWsSubscribers_def newPollingCH_def wsGetStateAccount_def wsGetMarketsAccount_def
      wsAssertIsSubscribed_def getStateAccount_def getMarketsAccount_def assertIsSubscribed_def)

lemma any_ch_subscriber:
  assumes "ch_subscriber ws_isSubscribed (webSocketCH decode asState rpc ids stateKey)"
    and "ch_subscriber isSubscribed (pollingCH env key fetched)"
  shows "ch_subscriber anyIsSubscribed
     (anyCH (webSocketCH decode asState rpc ids stateKey) (pollingCH env key fetched))"
proof -
  let ?w = "webSocketCH decode asState rpc ids stateKey" and ?p = "pollingCH env key fetched"
  have get: "ch_getStateAccount ?w = wsGetStateAccount" "ch_getMarketsAccount ?w = wsGetMarketsAccount"
    "ch_getHistoryAccount ?w = wsGetHistoryAccount" "ch_getStateAccount ?p = getStateAccount"
    "ch_getMarketsAccount ?p = getMarketsAccount" "ch_getHistoryAccount ?p = pollHistory"
    by (simp_all add: webSocketCH_def pollingCH_def)
  note laws = ch_subscriber.subscribe_returns ch_subscriber.subscribe_fails ch_subscriber.fetch_on
    ch_subscriber.unsubscribe_off
  show ?thesis
  proof (unfold_locales, goal_cases)
    case (2 opts s l s1 l1 b)
    then show ?case
      by (cases s) (auto simp: anyCH_def split: prod.splits
          dest: laws(1) [OF assms(1)] laws(1) [OF assms(2)])
  next
    case (3 opts s l s1 l1 r)
    then show ?case
      using laws(2) [OF assms(1)] laws(2) [OF assms(2)]
      by (cases s) (auto simp: anyCH_def split: prod.splits)
  next
    case (4 s opts l)
    then show ?case
      using ch_subscriber.subscribe_again [OF assms(1)] ch_subscriber.subscribe_again [OF assms(2)]
      by (cases s) (auto simp: anyCH_def)
  next
    case (5 s l s1 l1 e)
    then show ?case
      using laws(3) [OF assms(1)] laws(3) [OF assms(2)]
      by (cases s) (auto simp: anyCH_def split: prod.splits)
  next
    case (6 s l s1 l1)
    then show ?case
      using laws(4) [OF assms(1)] laws(4) [OF assms(2)]
      by (cases s) (auto simp: anyCH_def split: prod.splits)
  next
    case (7 s)
    then show ?case
      using ch_subscriber.state_guarded [OF assms(1)] ch_subscriber.state_guarded [OF assms(2)]
      by (cases s) (simp_all add: anyCH_def get)
  next
    case (8 s)
    then show ?case
      using ch_subscriber.markets_guarded [OF assms(1)] ch_subscriber.markets_guarded [OF assms(2)]
      by (cases s) (simp_all add: anyCH_def get)
  next
    case (9 s t)
    then show ?case
      using ch_subscriber.history_guarded [OF assms(1)] ch_subscriber.history_guarded [OF assms(2)]
      by (cases s) (simp_all add: anyCH_def get)
  qed (simp add: anyCH_def)
qed

interpretation any_ch: ch_subscriber anyIsSubscribed
    "anyCH (webSocketCH decode asState rpc ids stateKey) (pollingCH env key fetched)"
  for decode asState rpc ids stateKey env key fetched
  by (rule any_ch_subscriber) (rule web_socket_ch.ch_subscriber_axioms polling_ch.ch_subscriber_axioms)+

text \<open>
  The factory throws exactly for the type \<open>custom\<close>; otherwise the client it builds is one of
  those whose transactions all conform (it is a start of \<open>reachable_client\<close>), it sends through the
  configured sender or a provider of the configured wallet, its subscriber is of the configured
  type and off, and reading the state before subscribing throws \<open>NotSubscribedError\<close>.
\<close>

theorem factory_builds:
  "case getClearingHouse asState asMarkets config of
     Inl e \<Rightarrow> cfg_type config = CustomType \<and> e = TypeError
   | Inr (c, live) \<Rightarrow>
       cfg_type config \<noteq> CustomType \<and> reachable_client sol c \<and> wallet c = cfg_wallet config \<and>
       channelOf (txSender c) = (case cfg_txSender config of
         None \<Rightarrow> ViaProvider (cfg_wallet config) | Some t \<Rightarrow> channelOf t) \<and>
       anyType (ch_sub live) = cfg_type config \<and> \<not> anyIsSubscribed (ch_sub live) \<and> \<not> ch_flag live \<and>
       sub_state c = Inl notSubscribed \<and> sub_markets c = Inl notSubscribed"
proof (cases "newChSubscriber (cfg_type config) :: 'a AnyChSubscriber option")
  case None
  then have "cfg_type config = CustomType" by (cases "cfg_type config") simp_all
  with None show ?thesis by (simp add: getClearingHouse_def Let_def)
next
  case (Some sub)
  then have "cfg_type config \<noteq> CustomType" by auto
  with Some newChSubscriber_off [OF Some] show ?thesis
    by (auto simp: getClearingHouse_def newLiveClient_def viewed_def newClient_def Let_def
        intro: reachable_client.start [unfolded newClient_def] split: option.split)
qed

text \<open>The clearing house and the user that \<open>from\<close> builds exist, and the user's needs web sockets.\<close>

lemma from_builds:
  "\<exists>c live. clearingHouseFrom defaultOptions asState asMarkets w pid q = Inr (c, live) \<and>
     (\<exists>u. userFrom live auth = Inr u \<and> user_authority u = auth)"
  by (simp add: clearingHouseFrom_def getClearingHouse_def getWebSocketClearingHouseConfig_def userFrom_def
      newLiveClient_def getClearingHouseUser_def getWebSocketClearingHouseUserConfig_def newLiveUser_def Let_def)

lemma from_polling_throws:
  "cfg_type config = PollingType \<Longrightarrow> getClearingHouse asState asMarkets config = Inr (c, live) \<Longrightarrow>
     \<exists>m. userFrom live auth = Inl (Thrown m)"
  by (auto simp: getClearingHouse_def newLiveClient_def userFrom_def Let_def)

end
