(* ===== verification/Config.thy ===== *)
theory Config
  imports Types
begin

section \<open>Configuration and the table of markets\<close>

text \<open>
  \<open>sdk/src/config.ts\<close> (the presets of the two environments, and the module's current configuration)
  and \<open>sdk/src/constants/markets.ts\<close>. A setting that an object does not have is \<open>None\<close>.
\<close>

subsection \<open>Presets\<close>

record DriftConfig =
  ENV :: "string option"
  PYTH_ORACLE_MAPPING_ADDRESS :: "string option"
  CLEARING_HOUSE_PROGRAM_ID :: "string option"
  USDC_MINT_ADDRESS :: "string option"

definition devnetConfig :: DriftConfig where
  "devnetConfig = \<lparr>
     ENV = Some ''devnet'',
     PYTH_ORACLE_MAPPING_ADDRESS = Some ''BmA9Z6FjioHJPpjT39QazZyhDRUdZy2ezwx4GiDdE2u2'',
     CLEARING_HOUSE_PROGRAM_ID = Some ''AsW7LnXB9UA1uec9wi9MctYTgTz7YH9snhxd16GsFaGX'',
     USDC_MINT_ADDRESS = Some ''8zGuJQqwhZafTah7Uc7Z4tXRnguqkn5KLFAP8oV6PHe2''\<rparr>"

definition mainnetConfig :: DriftConfig where
  "mainnetConfig = \<lparr>
     ENV = Some ''mainnet-beta'',
     PYTH_ORACLE_MAPPING_ADDRESS = Some ''AHtgzX45WTKfkPG53L6WYhGEXwQkN1BVknET3sVsLL8J'',
     CLEARING_HOUSE_PROGRAM_ID = Some ''dammHkt7jmytvbS3nHTxQNEcP59aE57nxwV21YdqEDN'',
     USDC_MINT_ADDRESS = Some ''EPjFWdd5AufqSSqeM2qN1xzybapC8G4wEGGkZwyTDt1v''\<rparr>"

definition noSettings :: DriftConfig where
  "noSettings = \<lparr>ENV = None, PYTH_ORACLE_MAPPING_ADDRESS = None, CLEARING_HOUSE_PROGRAM_ID = None,
     USDC_MINT_ADDRESS = None\<rparr>"

text \<open>\<open>configs[env]\<close>: spreading what an unknown name gives adds no settings.\<close>

definition configs :: "string \<Rightarrow> DriftConfig" where
  "configs env =
     (if env = ''devnet'' then devnetConfig else if env = ''mainnet-beta'' then mainnetConfig else noSettings)"

text \<open>\<open>{ ...a, ...b }\<close>.\<close>

definition orElse :: "'a option \<Rightarrow> 'a option \<Rightarrow> 'a option" where
  "orElse b a = (case b of None \<Rightarrow> a | Some x \<Rightarrow> Some x)"

definition spread :: "DriftConfig \<Rightarrow> DriftConfig \<Rightarrow> DriftConfig" where
  "spread a b = \<lparr>
     ENV = orElse (ENV b) (ENV a),
     PYTH_ORACLE_MAPPING_ADDRESS = orElse (PYTH_ORACLE_MAPPING_ADDRESS b) (PYTH_ORACLE_MAPPING_ADDRESS a),
     CLEARING_HOUSE_PROGRAM_ID = orElse (CLEARING_HOUSE_PROGRAM_ID b) (CLEARING_HOUSE_PROGRAM_ID a),
     USDC_MINT_ADDRESS = orElse (USDC_MINT_ADDRESS b) (USDC_MINT_ADDRESS a)\<rparr>"

text \<open>
  \<open>initialize({ env, overrideEnv })\<close>: what it returns and the module's new current configuration,
  which \<open>getConfig\<close> returns and which is the one of \<open>devnet\<close> at first.
\<close>

definition initializeSdk ::
  "string \<Rightarrow> DriftConfig option \<Rightarrow> DriftConfig \<Rightarrow> DriftConfig \<times> DriftConfig" where
  "initializeSdk env overrideEnv current =
     (let override = (case overrideEnv of None \<Rightarrow> noSettings | Some c \<Rightarrow> c) in
      if env = ''master'' then (spread (configs ''devnet'') override, current)
      else let c = spread (configs env) override in (c, c))"

lemma spread_noSettings [simp]: "spread a noSettings = a"
  by (simp add: spread_def noSettings_def orElse_def)

lemma spread_assoc: "spread (spread a b) c = spread a (spread b c)"
  by (simp add: spread_def orElse_def split: option.split)

text \<open>
  \<open>initialize\<close> takes every override over the preset and the preset otherwise, and the current
  configuration is what it returned, so that a later \<open>getConfig\<close> agrees with it; the one exception
  is the name \<open>master\<close>, for which the returned configuration is not stored.
\<close>

theorem initialize_sdk_stores:
  "case initializeSdk env override current of (c, current') \<Rightarrow>
     (env \<noteq> ''master'' \<longrightarrow> current' = c) \<and> (env = ''master'' \<longrightarrow> current' = current) \<and>
     (\<forall>v. Option.bind override CLEARING_HOUSE_PROGRAM_ID = Some v \<longrightarrow> CLEARING_HOUSE_PROGRAM_ID c = Some v) \<and>
     (Option.bind override CLEARING_HOUSE_PROGRAM_ID = None \<longrightarrow>
        CLEARING_HOUSE_PROGRAM_ID c =
          CLEARING_HOUSE_PROGRAM_ID (configs (if env = ''master'' then ''devnet'' else env)))"
  by (auto simp: initializeSdk_def Let_def spread_def orElse_def noSettings_def split: option.splits)

theorem initialize_sdk_stores_witness:
  "case initializeSdk ''devnet'' (Some (noSettings\<lparr>CLEARING_HOUSE_PROGRAM_ID := Some ''mine''\<rparr>)) mainnetConfig of
     (c, current') \<Rightarrow> current' = c \<and> CLEARING_HOUSE_PROGRAM_ID c = Some ''mine''"
  using initialize_sdk_stores [where env = "''devnet''" and current = mainnetConfig
      and override = "Some (noSettings\<lparr>CLEARING_HOUSE_PROGRAM_ID := Some ''mine''\<rparr>)"]
  by (simp split: prod.splits)

subsection \<open>The markets\<close>

record MarketEntry =
  symbol :: string
  baseAssetSymbol :: string
  table_marketIndex :: BN
  devnetPythOracle :: string
  mainnetPythOracle :: string
  launchTs :: int

definition Markets :: "MarketEntry list" where
  "Markets = [
     \<lparr>symbol = ''SOL-PERP'', baseAssetSymbol = ''SOL'', table_marketIndex = 0,
        devnetPythOracle = ''J83w4HKfqxwcq3BEMMkPFSppX3gqekLyLJBexebFVkix'',
        mainnetPythOracle = ''H6ARHf6YXhGYeQfUzQNGk6rDNnLBQKrenN712K4AQJEG'', launchTs = 1635209696886\<rparr>,
     \<lparr>symbol = ''BTC-PERP'', baseAssetSymbol = ''BTC'', table_marketIndex = 1,
        devnetPythOracle = ''HovQMDrbAgAYPCmHVSrezcSmkMtXSSUsLDFANExrZh2J'',
        mainnetPythOracle = ''GVXRSBjFk6e6J3NbVPXohDJetcTjaeeuykUpbQF8UoMU'', launchTs = 1637691088868\<rparr>,
     \<lparr>symbol = ''ETH-PERP'', baseAssetSymbol = ''ETH'', table_marketIndex = 2,
        devnetPythOracle = ''EdVCmQ9FSPcVe5YySXDPCRmc8aDQLKJ9xvYBMZPie1Vw'',
        mainnetPythOracle = ''JBu1AL4obBcCMqKBBxhpWCNUt136ijcuMZLFvTP7iWdB'', launchTs = 1637691133472\<rparr>,
     \<lparr>symbol = ''LUNA-PERP'', baseAssetSymbol = ''LUNA'', table_marketIndex = 3,
        devnetPythOracle = ''8PugCXTAHLM9kfLSQWe2njE5pzAgUdpPk3Nx5zSm7BD3'',
        mainnetPythOracle = ''5bmWuR1dgP4avtGYMNKLuxumZTVKGgoN2BCMXWDNL9nY'', launchTs = 1638821738525\<rparr>,
     \<lparr>symbol = ''AVAX-PERP'', baseAssetSymbol = ''AVAX'', table_marketIndex = 4,
        devnetPythOracle = ''FVb5h1VmHPfVb1RfqZckchq18GxRv4iKt8T4eVTQAqdz'',
        mainnetPythOracle = ''Ax9ujW5B9oqcv59N8m6f1BpTBq2rGeGaBcpKjC5UYsXU'', launchTs = 1639092501080\<rparr>,
     \<lparr>symbol = ''BNB-PERP'', baseAssetSymbol = ''BNB'', table_marketIndex = 5,
        devnetPythOracle = ''GwzBgrXb4PG59zjce24SF2b9JXbLEjJJTBkmytuEZj1b'',
        mainnetPythOracle = ''4CkQJBxhU8EZ2UjhigbtdaPbpTe6mqf811fipYBFbSYN'', launchTs = 1639523193012\<rparr>,
     \<lparr>symbol = ''MATIC-PERP'', baseAssetSymbol = ''MATIC'', table_marketIndex = 6,
        devnetPythOracle = ''FBirwuDFuRAu4iSGc7RGxN5koHB7EJM1wbCmyPuQoGur'',
        mainnetPythOracle = ''7KVswB9vkCgeM3SHP7aGDijvdRAHK8P5wi9JXViCrtYh'', launchTs = 1641488603564\<rparr>,
     \<lparr>symbol = ''ATOM-PERP'', baseAssetSymbol = ''ATOM'', table_marketIndex = 7,
        devnetPythOracle = ''7YAze8qFUMkBnyLVdKT4TFUUFui99EwS5gfRArMcrvFk'',
        mainnetPythOracle = ''CrCpTerNqtZvqLcKqz1k13oVeXV9WkMD2zA9hBKXrsbN'', launchTs = 1641920238195\<rparr>,
     \<lparr>symbol = ''DOT-PERP'', baseAssetSymbol = ''DOT'', table_marketIndex = 8,
        devnetPythOracle = ''4dqq5VBpN4EwYb7wyywjjfknvMKu7m78j9mKZRXTj462'',
        mainnetPythOracle = ''EcV1X1gY2yb4KXxjVQtTHTbioum2gvmPnFk4zYAt7zne'', launchTs = 1642629253786\<rparr>,
     \<lparr>symbol = ''ADA-PERP'', baseAssetSymbol = ''ADA'', table_marketIndex = 9,
        devnetPythOracle = ''8oGTURNmSQkrBS1AQ5NjB2p8qY34UVmMA9ojrw8vnHus'',
        mainnetPythOracle = ''3pyn4svBbxJ9Wnn3RVeafyLWfzie6yC5eTig2S62v9SC'', launchTs = 1643084413000\<rparr>,
     \<lparr>symbol = ''ALGO-PERP'', baseAssetSymbol = ''ALGO'', table_marketIndex = 10,
        devnetPythOracle = ''c1A946dY5NHuVda77C8XXtXytyR3wK1SCP3eA9VRfC3'',
        mainnetPythOracle = ''HqFyq1wh1xKvL7KDqqT7NJeSPdAqsDqnmBisUC2XdXAX'', launchTs = 1643686767000\<rparr>,
     \<lparr>symbol = ''FTT-PERP'', baseAssetSymbol = ''FTT'', table_marketIndex = 11,
        devnetPythOracle = ''6vivTRs5ZPeeXbjo7dfburfaYDWoXjBtdtuYgQRuGfu'',
        mainnetPythOracle = ''8JPJJkmDScpcNmBRKGZuPuG2GYAveQgP3t5gFuMymwvF'', launchTs = 1644382122000\<rparr>]"

lemma Markets_indices: "map table_marketIndex Markets = map int [0..<length Markets]"
  by (simp add: Markets_def upt_rec)

lemma Markets_symbols: "distinct (map baseAssetSymbol Markets)" "distinct (map symbol Markets)"
  by (simp_all add: Markets_def)

lemma Markets_oracles: "distinct (map devnetPythOracle Markets @ map mainnetPythOracle Markets)"
  by (simp add: Markets_def)

end
