(* ===== verification/Cli.thy ===== *)
theory Cli
  imports Complex_Main Factory Config
begin

section \<open>The command line of the administrator\<close>

text \<open>
  \<open>cli/cli.ts\<close>. Each command builds an administrator's client from its options and the
  configuration file, subscribes, runs its action and unsubscribes. The arguments of a command
  are texts. \<open>CliLib\<close> stands for the constructors of the libraries and for the file that holds the
  key pair; \<open>fl\<close> rounds to the next floating point number. The answer of the person at the prompt
  is an argument. What is written to the log is not part of the model, nor is the module
  \<open>commander\<close>, which splits the command line.
\<close>

subsection \<open>The configuration file\<close>

record ConfigFile =
  file_env :: "string option"
  file_url :: "string option"
  file_keypair :: "string option"

type_synonym FileSystem = "string \<Rightarrow> ConfigFile option"

definition getConfigFileDir :: "string \<Rightarrow> string" where
  "getConfigFileDir home = home @ ''/.config/drift-v1''"

definition getConfigFilePath :: "string \<Rightarrow> string" where
  "getConfigFilePath home = getConfigFileDir home @ ''/config.json''"

definition getConfig :: "string \<Rightarrow> FileSystem \<Rightarrow> ConfigFile option" where
  "getConfig home files = files (getConfigFilePath home)"

text \<open>\<open>config init\<close> and \<open>config set\<close>; the latter reads the file before it writes.\<close>

definition configInit :: "string \<Rightarrow> FileSystem \<Rightarrow> FileSystem" where
  "configInit home files = files(getConfigFilePath home \<mapsto>
     \<lparr>file_env = Some ''devnet'', file_url = Some ''https://api.devnet.solana.com'',
      file_keypair = Some (home @ ''/.config/solana/id.json'')\<rparr>)"

definition configSet :: "string \<Rightarrow> string \<Rightarrow> string \<Rightarrow> (FileSystem, unit) eff" where
  "configSet home key val =
     (if key \<noteq> ''env'' \<and> key \<noteq> ''url'' \<and> key \<noteq> ''keypair'' then returnS ()
      else
        bindS (readS (\<lambda>files. case files (getConfigFilePath home) of
                 None \<Rightarrow> Inl (Error ''ENOENT'') | Some c \<Rightarrow> Inr c)) (\<lambda>c.
        modifyS (\<lambda>files. files(getConfigFilePath home \<mapsto>
          (if key = ''env'' then c\<lparr>file_env := Some val\<rparr>
           else if key = ''url'' then c\<lparr>file_url := Some val\<rparr>
           else c\<lparr>file_keypair := Some val\<rparr>)))))"

subsection \<open>The client of a command\<close>

record CliLib =
  newBN :: "string \<Rightarrow> BN result"
  newPublicKey :: "string \<Rightarrow> PublicKey result"
  newConnection :: "string option \<Rightarrow> unit result"
  readKeypair :: "string \<Rightarrow> PublicKey result"
  cli_fl :: "real \<Rightarrow> real"

record Options =
  opt_env :: "string option"
  opt_keypair :: "string option"
  opt_url :: "string option"
  opt_force :: bool

definition loadKeypair :: "CliLib \<Rightarrow> string option \<Rightarrow> PublicKey result" where
  "loadKeypair lib path =
     (case path of
        None \<Rightarrow> Inl (Error ''Keypair is required!'')
      | Some p \<Rightarrow> if p = [] then Inl (Error ''Keypair is required!'') else readKeypair lib p)"

text \<open>An option that is missing or empty is taken from the file, which may not exist.\<close>

definition setting :: "string option \<Rightarrow> (ConfigFile \<Rightarrow> string option) \<Rightarrow> ConfigFile option \<Rightarrow> string option result" where
  "setting given field file =
     (case given of
        Some (c # cs) \<Rightarrow> Inr given
      | _ \<Rightarrow> mapE field (deref file))"

text \<open>
  \<open>adminFromOptions\<close>, on the current configuration of the SDK. A missing environment is the name
  \<open>undefined\<close>.
\<close>

definition adminFromOptions ::
  "CliLib \<Rightarrow> ConfirmOptions \<Rightarrow> ('a \<Rightarrow> StateAccount) \<Rightarrow> ('a \<Rightarrow> MarketsAccount) \<Rightarrow> ConfigFile option \<Rightarrow> Options \<Rightarrow>
     (DriftConfig, Client \<times> 'a AnyChSubscriber LiveClient) eff" where
  "adminFromOptions lib defaultOptions asState asMarkets file options =
     bindS (liftS (setting (opt_env options) file_env file)) (\<lambda>env.
     bindS (\<lambda>current. case initializeSdk (case env of None \<Rightarrow> ''undefined'' | Some e \<Rightarrow> e) None current of
              (c, current') \<Rightarrow> (Inr c, current')) (\<lambda>sdkConfig.
     bindS (liftS (setting (opt_url options) file_url file)) (\<lambda>url.
     bindS (liftS (newConnection lib url)) (\<lambda>_.
     bindS (liftS (setting (opt_keypair options) file_keypair file)) (\<lambda>keypair.
     bindS (liftS (loadKeypair lib keypair)) (\<lambda>w.
     bindS (liftS (bindE (deref (CLEARING_HOUSE_PROGRAM_ID sdkConfig)) (newPublicKey lib))) (\<lambda>pid.
     liftS (adminFrom defaultOptions asState asMarkets w pid None))))))))"

text \<open>
  What a command leaves: how the subscription went, the error of the action that was caught, the
  client with the transactions it sent, and its life cycle.
\<close>

record 'a CliRun =
  run_outcome :: SubscribeOutcome
  run_caught :: "js_error option"
  run_client :: Client
  run_live :: "'a AnyChSubscriber LiveClient"

definition caught :: "'b result \<Rightarrow> js_error option" where
  "caught r = (case r of Inl e \<Rightarrow> Some e | Inr _ \<Rightarrow> None)"

definition wrapActionInAdminSubscribeUnsubscribe ::
  "('a AnyChSubscriber, 'a) ChSubscriber \<Rightarrow> ('a \<Rightarrow> StateAccount) \<Rightarrow> ('a \<Rightarrow> MarketsAccount) \<Rightarrow>
     (Client, unit) eff \<Rightarrow> Client \<Rightarrow> 'a AnyChSubscriber LiveClient \<Rightarrow> Loader \<Rightarrow> 'a CliRun" where
  "wrapActionInAdminSubscribeUnsubscribe ops asState asMarkets action adm live l =
     (case clientSubscribe ops None live l of (live1, l1, r) \<Rightarrow>
        (case r of
           Subscribed _ \<Rightarrow>
             (case action (refreshed asState asMarkets (ch_sub live1) adm) of (ar, adm1) \<Rightarrow>
                \<lparr>run_outcome = r, run_caught = caught ar, run_client = adm1,
                 run_live = fst (clientUnsubscribe ops live1 l1)\<rparr>)
         | _ \<Rightarrow> \<lparr>run_outcome = r, run_caught = None, run_client = adm, run_live = live1\<rparr>))"

definition wrapActionInUserSubscribeUnsubscribe ::
  "('a AnyChSubscriber, 'a) ChSubscriber \<Rightarrow> ('a AnyUserSubscriber, 'a) UserSubscriber \<Rightarrow>
     ('a \<Rightarrow> StateAccount) \<Rightarrow> ('a \<Rightarrow> MarketsAccount) \<Rightarrow> (PublicKey \<Rightarrow> (Client, unit) eff) \<Rightarrow> Client \<Rightarrow>
     'a AnyChSubscriber LiveClient \<Rightarrow> Loader \<Rightarrow> 'a CliRun" where
  "wrapActionInUserSubscribeUnsubscribe ops uops asState asMarkets action adm live l =
     (case clientSubscribe ops None live l of (live1, l1, r) \<Rightarrow>
        (case r of
           Subscribed _ \<Rightarrow>
             (case userFrom live1 (wallet adm) of
                Inl e \<Rightarrow> \<lparr>run_outcome = Throws e, run_caught = None, run_client = adm, run_live = live1\<rparr>
              | Inr usr \<Rightarrow>
                  (case liveUserSubscribe ops uops live1 usr l1 of (live2, usr1, l2, r2) \<Rightarrow>
                     (case r2 of
                        Subscribed _ \<Rightarrow>
                          (case action (user_authority usr1)
                                  (refreshed asState asMarkets (ch_sub live2) adm) of (ar, adm1) \<Rightarrow>
                             \<lparr>run_outcome = r2, run_caught = caught ar, run_client = adm1,
                              run_live = fst (clientUnsubscribe ops live2
                                (snd (liveUserUnsubscribe uops usr1 l2)))\<rparr>)
                      | _ \<Rightarrow> \<lparr>run_outcome = r2, run_caught = None, run_client = adm, run_live = live2\<rparr>)))
         | _ \<Rightarrow> \<lparr>run_outcome = r, run_caught = None, run_client = adm, run_live = live1\<rparr>))"

subsection \<open>The actions\<close>

definition marketIndexFromSymbol :: "string \<Rightarrow> BN result" where
  "marketIndexFromSymbol name =
     (case filter (\<lambda>market. baseAssetSymbol market = name) Markets of
        [] \<Rightarrow> Inl (Error (''Could not find market index for '' @ name))
      | market # _ \<Rightarrow> Inr (table_marketIndex market))"

definition ignoring :: "('s, 'a) eff \<Rightarrow> ('s, unit) eff" where
  "ignoring m = bindS m (\<lambda>_. returnS ())"

text \<open>The last argument of \<open>initialize\<close> is passed on as the text it is.\<close>

definition cliInitialize ::
  "CliLib \<Rightarrow> Solana \<Rightarrow> Rpc \<Rightarrow> (nat \<Rightarrow> PublicKey) \<Rightarrow> string \<Rightarrow> string \<Rightarrow> (Client, unit) eff" where
  "cliInitialize lib sol rpc fresh mint controlsPrices =
     bindS (liftS (newPublicKey lib mint)) (\<lambda>k.
     ignoring (initializeWith sol rpc k (AText controlsPrices) fresh))"

definition cliInitializeMarket ::
  "CliLib \<Rightarrow> Solana \<Rightarrow> Rpc \<Rightarrow> string \<Rightarrow> string \<Rightarrow> string \<Rightarrow> string \<Rightarrow> string \<Rightarrow> string \<Rightarrow> (Client, unit) eff" where
  "cliInitializeMarket lib sol rpc mi oracle base quote periodicity peg =
     bindS (liftS (newBN lib mi)) (\<lambda>i.
     bindS (liftS (newPublicKey lib oracle)) (\<lambda>k.
     bindS (liftS (newBN lib base)) (\<lambda>b.
     bindS (liftS (newBN lib quote)) (\<lambda>q.
     bindS (liftS (newBN lib periodicity)) (\<lambda>p.
     bindS (liftS (newBN lib peg)) (\<lambda>m.
     ignoring (initializeMarket sol rpc i k b q p (Some m))))))))"

definition cliUpdateDiscountMint :: "CliLib \<Rightarrow> Solana \<Rightarrow> Rpc \<Rightarrow> string \<Rightarrow> (Client, unit) eff" where
  "cliUpdateDiscountMint lib sol rpc mint =
     bindS (liftS (newPublicKey lib mint)) (\<lambda>k. ignoring (updateDiscountMint sol rpc k))"

text \<open>
  The size of a change in percent, \<open>Math.abs((n / d) * 100 - 100)\<close>, and whether it is above a bound:
  the quotient by zero is infinite, but \<open>0 / 0\<close> is not a number and above nothing.
\<close>

definition percentChange :: "(real \<Rightarrow> real) \<Rightarrow> int \<Rightarrow> int \<Rightarrow> real" where
  "percentChange fl n d = \<bar>fl (fl (fl (of_int n / of_int d) * 100) - 100)\<bar>"

definition percentAbove :: "(real \<Rightarrow> real) \<Rightarrow> real \<Rightarrow> BN \<Rightarrow> BN \<Rightarrow> bool result" where
  "percentAbove fl bound numerator denominator =
     bindE (bn_toNumber numerator) (\<lambda>n.
     bindE (bn_toNumber denominator) (\<lambda>d.
     Inr (if d = 0 then n \<noteq> 0 else bound < percentChange fl n d)))"

text \<open>The end of \<open>increase-k\<close> and \<open>decrease-k\<close>: the new value from the market's, and the update.\<close>

definition scaleK :: "Solana \<Rightarrow> Rpc \<Rightarrow> BN \<Rightarrow> BN \<Rightarrow> BN \<Rightarrow> (Client, unit) eff" where
  "scaleK sol rpc mi n d =
     bindS (readS (marketAt mi)) (\<lambda>m.
     bindS (liftS (deref m)) (\<lambda>market.
     bindS (liftS (bn_div (sqrtK (amm market) * n) d)) (\<lambda>newSqrtK.
     ignoring (updateK sol rpc newSqrtK mi))))"

definition cliIncreaseK ::
  "CliLib \<Rightarrow> Solana \<Rightarrow> Rpc \<Rightarrow> string \<Rightarrow> bool \<Rightarrow> string \<Rightarrow> string \<Rightarrow> string \<Rightarrow> (Client, unit) eff" where
  "cliIncreaseK lib sol rpc answer force market numerator denominator =
     bindS (liftS (marketIndexFromSymbol market)) (\<lambda>mi.
     bindS (liftS (newBN lib numerator)) (\<lambda>n.
     bindS (liftS (newBN lib denominator)) (\<lambda>d.
     if n < d then returnS ()
     else
       bindS (liftS (percentAbove (cli_fl lib) 10 n d)) (\<lambda>tooLarge.
       if tooLarge \<and> \<not> force then returnS ()
       else if answer \<noteq> ''y'' then returnS ()
       else scaleK sol rpc mi n d))))"

definition cliDecreaseK ::
  "CliLib \<Rightarrow> Solana \<Rightarrow> Rpc \<Rightarrow> string \<Rightarrow> bool \<Rightarrow> string \<Rightarrow> string \<Rightarrow> string \<Rightarrow> (Client, unit) eff" where
  "cliDecreaseK lib sol rpc answer force market numerator denominator =
     bindS (liftS (marketIndexFromSymbol market)) (\<lambda>mi.
     bindS (liftS (newBN lib numerator)) (\<lambda>n.
     bindS (liftS (newBN lib denominator)) (\<lambda>d.
     if d < n then returnS ()
     else
       bindS (liftS (percentAbove (cli_fl lib) 2 n d)) (\<lambda>tooLarge.
       if tooLarge then returnS ()
       else if answer \<noteq> ''y'' \<and> \<not> force then returnS ()
       else scaleK sol rpc mi n d))))"

definition cliRepeg :: "CliLib \<Rightarrow> Solana \<Rightarrow> Rpc \<Rightarrow> string \<Rightarrow> string \<Rightarrow> (Client, unit) eff" where
  "cliRepeg lib sol rpc market peg =
     bindS (liftS (marketIndexFromSymbol market)) (\<lambda>mi.
     bindS (liftS (newBN lib peg)) (\<lambda>p.
     bindS (readS (marketAt mi)) (\<lambda>m.
     bindS (liftS (deref m)) (\<lambda>_.
     ignoring (repegAmmCurve sol rpc p mi)))))"

text \<open>The four commands that ask before they pause or unpause.\<close>

definition ifConfirmed :: "string \<Rightarrow> (Client, string) eff \<Rightarrow> (Client, unit) eff" where
  "ifConfirmed answer m = (if answer \<noteq> ''y'' then returnS () else ignoring m)"

definition cliPauseExchange :: "Solana \<Rightarrow> Rpc \<Rightarrow> string \<Rightarrow> (Client, unit) eff" where
  "cliPauseExchange sol rpc answer = ifConfirmed answer (updateExchangePaused sol rpc True)"

definition cliUnpauseExchange :: "Solana \<Rightarrow> Rpc \<Rightarrow> string \<Rightarrow> (Client, unit) eff" where
  "cliUnpauseExchange sol rpc answer = ifConfirmed answer (updateExchangePaused sol rpc False)"

definition cliPauseFunding :: "Solana \<Rightarrow> Rpc \<Rightarrow> string \<Rightarrow> (Client, unit) eff" where
  "cliPauseFunding sol rpc answer = ifConfirmed answer (updateFundingPaused sol rpc True)"

definition cliUnpauseFunding :: "Solana \<Rightarrow> Rpc \<Rightarrow> string \<Rightarrow> (Client, unit) eff" where
  "cliUnpauseFunding sol rpc answer = ifConfirmed answer (updateFundingPaused sol rpc False)"

definition cliUpdateOracleTwap :: "Solana \<Rightarrow> Rpc \<Rightarrow> string \<Rightarrow> (Client, unit) eff" where
  "cliUpdateOracleTwap sol rpc market =
     bindS (liftS (marketIndexFromSymbol market)) (\<lambda>mi. ignoring (updateAmmOracleTwap sol rpc mi))"

definition cliResetOracleTwap :: "Solana \<Rightarrow> Rpc \<Rightarrow> string \<Rightarrow> (Client, unit) eff" where
  "cliResetOracleTwap sol rpc market =
     bindS (liftS (marketIndexFromSymbol market)) (\<lambda>mi. ignoring (resetAmmOracleTwap sol rpc mi))"

text \<open>\<open>deposit\<close> runs on the client of a user, whose authority is the wallet.\<close>

definition cliDeposit :: "CliLib \<Rightarrow> Solana \<Rightarrow> Rpc \<Rightarrow> string \<Rightarrow> PublicKey \<Rightarrow> (Client, unit) eff" where
  "cliDeposit lib sol rpc amount auth =
     bindS (liftS (newBN lib amount)) (\<lambda>a.
     bindS (readS sub_state) (\<lambda>state.
     ignoring (depositCollateral sol rpc a
       (getAssociatedTokenAddress sol (ASSOCIATED_TOKEN_PROGRAM_ID sol) (TOKEN_PROGRAM_ID sol)
          (collateralMint state) auth) None)))"

datatype Command =
    CInitialize string string
  | CInitializeMarket string string string string string string
  | CUpdateDiscountMint string
  | CIncreaseK string string string
  | CDecreaseK string string string
  | CRepeg string string
  | CPauseExchange
  | CUnpauseExchange
  | CPauseFunding
  | CUnpauseFunding
  | CUpdateOracleTwap string
  | CResetOracleTwap string

fun commandAction ::
  "CliLib \<Rightarrow> Solana \<Rightarrow> Rpc \<Rightarrow> (nat \<Rightarrow> PublicKey) \<Rightarrow> string \<Rightarrow> bool \<Rightarrow> Command \<Rightarrow> (Client, unit) eff" where
  "commandAction lib sol rpc fresh answer force (CInitialize m c) = cliInitialize lib sol rpc fresh m c"
| "commandAction lib sol rpc fresh answer force (CInitializeMarket i k b q p m) =
     cliInitializeMarket lib sol rpc i k b q p m"
| "commandAction lib sol rpc fresh answer force (CUpdateDiscountMint m) = cliUpdateDiscountMint lib sol rpc m"
| "commandAction lib sol rpc fresh answer force (CIncreaseK m n d) = cliIncreaseK lib sol rpc answer force m n d"
| "commandAction lib sol rpc fresh answer force (CDecreaseK m n d) = cliDecreaseK lib sol rpc answer force m n d"
| "commandAction lib sol rpc fresh answer force (CRepeg m p) = cliRepeg lib sol rpc m p"
| "commandAction lib sol rpc fresh answer force CPauseExchange = cliPauseExchange sol rpc answer"
| "commandAction lib sol rpc fresh answer force CUnpauseExchange = cliUnpauseExchange sol rpc answer"
| "commandAction lib sol rpc fresh answer force CPauseFunding = cliPauseFunding sol rpc answer"
| "commandAction lib sol rpc fresh answer force CUnpauseFunding = cliUnpauseFunding sol rpc answer"
| "commandAction lib sol rpc fresh answer force (CUpdateOracleTwap m) = cliUpdateOracleTwap sol rpc m"
| "commandAction lib sol rpc fresh answer force (CResetOracleTwap m) = cliResetOracleTwap sol rpc m"

end
