(* ===== verification/CliProps.thy ===== *)
theory CliProps
  imports Cli
begin

section \<open>Properties of the command line\<close>

subsection \<open>Names of markets\<close>

lemma filter_key: "distinct (map f xs) \<Longrightarrow> x \<in> set xs \<Longrightarrow> filter (\<lambda>y. f y = f x) xs = [x]"
proof (induction xs)
  case (Cons a xs)
  show ?case
  proof (cases "x = a")
    case True
    with Cons.prems have "filter (\<lambda>y. f y = f x) xs = []" by (auto simp: filter_empty_conv image_iff)
    with True show ?thesis by simp
  next
    case False
    with Cons show ?thesis by (auto simp: image_iff)
  qed
qed simp

text \<open>
  A command finds exactly the markets of the table by the symbol of their base asset: the
  symbol of the \<open>i\<close>-th entry gives the index \<open>i\<close>, at which the market is on the chain, and every
  other text is an error that names it.
\<close>

theorem market_index_of_symbol:
  "(\<forall>i < length Markets. marketIndexFromSymbol (baseAssetSymbol (Markets ! i)) = Inr (int i)) \<and>
   (\<forall>name. name \<notin> baseAssetSymbol ` set Markets \<longrightarrow>
      marketIndexFromSymbol name = Inl (Error (''Could not find market index for '' @ name)))"
proof (intro conjI allI impI)
  fix i
  assume i: "i < length Markets"
  let ?m = "Markets ! i"
  have "filter (\<lambda>m. baseAssetSymbol m = baseAssetSymbol ?m) Markets = [?m]"
    using Markets_symbols i by (intro filter_key) simp_all
  moreover have "table_marketIndex ?m = int i"
    using Markets_indices i by (metis (no_types, lifting) add_0 length_map nth_map nth_upt)
  ultimately show "marketIndexFromSymbol (baseAssetSymbol ?m) = Inr (int i)"
    by (simp add: marketIndexFromSymbol_def)
next
  fix name
  assume "name \<notin> baseAssetSymbol ` set Markets"
  then have "filter (\<lambda>m. baseAssetSymbol m = name) Markets = []" by (auto simp: filter_empty_conv)
  then show "marketIndexFromSymbol name = Inl (Error (''Could not find market index for '' @ name))"
    by (simp add: marketIndexFromSymbol_def)
qed

theorem market_index_of_symbol_witness:
  "marketIndexFromSymbol ''ETH'' = Inr 2 \<and>
   marketIndexFromSymbol ''DOGE'' = Inl (Error ''Could not find market index for DOGE'')"
proof -
  have "2 < length Markets" "baseAssetSymbol (Markets ! 2) = ''ETH''"
    "''DOGE'' \<notin> baseAssetSymbol ` set Markets" by (simp_all add: Markets_def)
  with market_index_of_symbol show ?thesis by fastforce
qed

subsection \<open>The configuration file\<close>

text \<open>
  \<open>config set\<close> changes the one setting it names and keeps the others, and the commands see the
  new value unless an option overrides it; an unknown key and a missing file leave everything.
\<close>

theorem config_set_get:
  assumes "getConfig home files = Some c"
  shows "fst (configSet home key val files) = Inr () \<and>
         (\<exists>c'. getConfig home (snd (configSet home key val files)) = Some c' \<and>
           file_env c' = (if key = ''env'' then Some val else file_env c) \<and>
           file_url c' = (if key = ''url'' then Some val else file_url c) \<and>
           file_keypair c' = (if key = ''keypair'' then Some val else file_keypair c) \<and>
           setting None file_env (Some c') = Inr (file_env c'))"
  using assms by (auto simp: configSet_def getConfig_def setting_def eff_simps)

theorem config_set_get_witness:
  "\<exists>c'. getConfig ''/home'' (snd (configSet ''/home'' ''url'' ''http'' (configInit ''/home'' (\<lambda>_. None)))) = Some c' \<and>
     file_url c' = Some ''http'' \<and> file_env c' = Some ''devnet''"
proof -
  have "\<exists>c. getConfig ''/home'' (configInit ''/home'' (\<lambda>_. None)) = Some c \<and> file_env c = Some ''devnet''"
    by (simp add: getConfig_def configInit_def)
  then obtain c where "getConfig ''/home'' (configInit ''/home'' (\<lambda>_. None)) = Some c" "file_env c = Some ''devnet''"
    by blast
  from config_set_get [OF this(1), of "''url''" "''http''"] this(2) show ?thesis by auto
qed

subsection \<open>Confirmation\<close>

text \<open>
  Nothing is sent without the confirmation: the commands that change \<open>k\<close> or pause a part of
  the exchange leave the client as it is unless the answer is exactly \<open>y\<close>; only \<open>decrease-k --force\<close>
  does without it.
\<close>

theorem commands_ask_first:
  assumes "answer \<noteq> ''y''"
    and "x \<in> {CIncreaseK m n d, CPauseExchange, CUnpauseExchange, CPauseFunding, CUnpauseFunding} \<or>
         x = CDecreaseK m n d \<and> \<not> force"
  shows "snd (commandAction lib sol rpc fresh answer force x c) = c"
  using assms
  by (auto simp: cliIncreaseK_def cliDecreaseK_def cliPauseExchange_def cliUnpauseExchange_def
      cliPauseFunding_def cliUnpauseFunding_def ifConfirmed_def eff_simps split: sum.split)

definition sample_lib :: CliLib where
  "sample_lib = \<lparr>newBN = (\<lambda>s. Inr (int (length s))), newPublicKey = Inr, newConnection = (\<lambda>u. Inr ()),
     readKeypair = Inr, cli_fl = (\<lambda>x. x)\<rparr>"

lemma commands_force:
  "length (outbox (snd (cliDecreaseK sample_lib sample_solana (sample_rpc sample_user) ''n'' True
     ''SOL'' ''1'' ''1'' sample_client))) = 1"
proof -
  have "marketIndexFromSymbol ''SOL'' = Inr 0" by (simp add: marketIndexFromSymbol_def Markets_def)
  then show ?thesis
    by (simp add: cliDecreaseK_def sample_lib_def percentAbove_def percentChange_def scaleK_def ignoring_def
        updateK_def adjustCurve_def rpcCall_def programIx_def providerSend_def submitVia_def getStatePublicKey_def
        oracleOf_def marketAt_def sample_client_def newClient_def sample_rpc_def bn_toNumber_def js_index_def
        sample_market_def sample_amm_def eff_simps)
qed

theorem commands_ask_first_witness:
  "snd (commandAction sample_lib sample_solana (sample_rpc sample_user) (\<lambda>n. ''k'') ''n'' False
     (CDecreaseK ''SOL'' ''1'' ''1'') sample_client) = sample_client \<and>
   length (outbox (snd (commandAction sample_lib sample_solana (sample_rpc sample_user) (\<lambda>n. ''k'') ''n'' True
     (CDecreaseK ''SOL'' ''1'' ''1'') sample_client))) = 1"
proof
  show "snd (commandAction sample_lib sample_solana (sample_rpc sample_user) (\<lambda>n. ''k'') ''n'' False
     (CDecreaseK ''SOL'' ''1'' ''1'') sample_client) = sample_client"
    by (rule commands_ask_first [where m = "''SOL''" and n = "''1''" and d = "''1''"]) simp_all
  show "length (outbox (snd (commandAction sample_lib sample_solana (sample_rpc sample_user) (\<lambda>n. ''k'') ''n'' True
     (CDecreaseK ''SOL'' ''1'' ''1'') sample_client))) = 1"
    using commands_force by simp
qed

subsection \<open>Bounded changes of the curve\<close>

text \<open>Rounding with a relative error of at most \<open>2 ^ -52\<close>.\<close>

definition rounds :: "(real \<Rightarrow> real) \<Rightarrow> bool" where
  "rounds f \<longleftrightarrow> (\<forall>x. \<bar>f x - x\<bar> \<le> \<bar>x\<bar> / 2 ^ 52)"

lemma rounds_le:
  assumes "rounds f" "\<bar>f x\<bar> \<le> b"
  shows "\<bar>x\<bar> \<le> b + b / 2 ^ 51" and "\<bar>f x - x\<bar> \<le> (b + b / 2 ^ 51) / 2 ^ 52"
proof -
  have r: "\<bar>f x - x\<bar> \<le> \<bar>x\<bar> / 2 ^ 52" using assms(1) by (simp add: rounds_def)
  have "0 \<le> b" using assms(2) by linarith
  moreover have "\<bar>x\<bar> \<le> \<bar>f x\<bar> + \<bar>f x - x\<bar>" by linarith
  ultimately show b: "\<bar>x\<bar> \<le> b + b / 2 ^ 51" using r assms(2) by simp
  then show "\<bar>f x - x\<bar> \<le> (b + b / 2 ^ 51) / 2 ^ 52" using r by simp
qed

lemma percent_bound:
  assumes f: "rounds f" and b: "0 \<le> b" "b \<le> 10" and le: "\<bar>f (f (f q * 100) - 100)\<bar> \<le> b"
  shows "\<bar>q - 1\<bar> \<le> b / 100 + 1 / 10 ^ 9"
proof -
  let ?z = "f q * 100"
  have p: "\<bar>f ?z - 100\<bar> \<le> b + 1 / 1000000000000" using rounds_le(1) [OF f le] b by simp
  then have "\<bar>f ?z\<bar> \<le> 111" using b by simp
  from rounds_le [OF f this] have z: "\<bar>f ?z - ?z\<bar> \<le> 1 / 1000000000000" "\<bar>?z\<bar> \<le> 112" by simp_all
  then have "\<bar>f q\<bar> \<le> 2" by simp
  from rounds_le(2) [OF f this] have "\<bar>f q - q\<bar> \<le> 1 / 1000000000000" by simp
  moreover have "\<bar>?z - 100\<bar> \<le> b + 2 / 1000000000000" using p z(1) by linarith
  ultimately have "\<bar>q - 1\<bar> \<le> b / 100 + 1 / 1000000000" by linarith
  then show ?thesis by simp
qed

lemma sdiv_real_close: "b \<noteq> 0 \<Longrightarrow> \<bar>of_int (a sdiv b) - of_int a / of_int b\<bar> < (1 :: real)"
proof -
  have pos: "\<bar>of_int (a sdiv b) - of_int a / of_int b\<bar> < (1 :: real)" if "0 \<le> a" "0 < b" for a b :: int
  proof -
    have "a sdiv b = \<lfloor>of_int a / of_int b :: real\<rfloor>"
      using that by (simp add: sdiv_nonneg_eq floor_divide_of_int_eq)
    then show ?thesis by linarith
  qed
  assume "b \<noteq> 0"
  then consider "0 \<le> a" "0 < b" | "a < 0" "0 < b" | "0 \<le> a" "b < 0" | "a < 0" "b < 0" by linarith
  then show ?thesis
  proof cases
    case 1
    then show ?thesis by (rule pos)
  next
    case 2
    with pos [of "- a" b] show ?thesis by (simp add: sdiv_minus_left)
  next
    case 3
    with pos [of a "- b"] show ?thesis by (simp add: sdiv_minus_right)
  next
    case 4
    with pos [of "- a" "- b"] show ?thesis by (simp add: sdiv_minus_left sdiv_minus_right)
  qed
qed

text \<open>A new value within a share \<open>r\<close> of the old one, up to the rounding of the division.\<close>

definition nearK :: "real \<Rightarrow> BN \<Rightarrow> BN \<Rightarrow> bool" where
  "nearK r old new \<longleftrightarrow> \<bar>real_of_int new - real_of_int old\<bar> \<le> (r + 1 / 10 ^ 9) * real_of_int old + 1"

lemma scaled_near:
  assumes "rounds f" "0 \<le> b" "b \<le> 10" "0 \<le> k" "d \<noteq> 0" "\<not> b < percentChange f n d"
  shows "nearK (b / 100) k ((k * n) sdiv d)"
proof -
  let ?q = "of_int n / of_int d :: real"
  have "\<bar>?q - 1\<bar> \<le> b / 100 + 1 / 10 ^ 9"
    using assms by (intro percent_bound) (simp_all add: percentChange_def not_less)
  then have "\<bar>?q - 1\<bar> * of_int k \<le> (b / 100 + 1 / 10 ^ 9) * of_int k"
    using assms(4) by (intro mult_right_mono) simp_all
  moreover have "of_int (k * n) / of_int d - of_int k = (?q - 1) * real_of_int k"
    by (simp add: algebra_simps)
  then have "\<bar>of_int (k * n) / of_int d - of_int k\<bar> = \<bar>?q - 1\<bar> * real_of_int k"
    using assms(4) by (simp add: abs_mult)
  moreover have "\<bar>of_int ((k * n) sdiv d) - of_int (k * n) / of_int d\<bar> < (1 :: real)"
    using assms(5) by (rule sdiv_real_close)
  moreover have "\<bar>x - y\<bar> \<le> s + 1" if "\<bar>z - y\<bar> \<le> s" "\<bar>x - z\<bar> < 1" for x y z s :: real
    using that by linarith
  ultimately show ?thesis unfolding nearK_def by metis
qed

text \<open>What \<open>updateK\<close> sends, if anything.\<close>

definition sentUpdateK :: "Client \<Rightarrow> Client \<Rightarrow> BN \<Rightarrow> BN \<Rightarrow> bool" where
  "sentUpdateK c c' newK mi \<longleftrightarrow>
     (\<exists>sub accs. outbox c' = outbox c @ [sub] \<and>
        sub_tx sub = [Invoke (programId c) (instruction ''updateK'' [ABN newK, ABN mi] accs [])])"

lemma updateK_sends:
  "outbox (snd (updateK sol rpc k mi c)) = outbox c \<or> sentUpdateK c (snd (updateK sol rpc k mi c)) k mi"
  by (auto simp: sentUpdateK_def updateK_def adjustCurve_def rpcCall_def programIx_def providerSend_def
      submitVia_def getStatePublicKey_def eff_simps split: sum.split option.split)

lemma scaleK_sends:
  assumes "outbox (snd (scaleK sol rpc mi n d c)) \<noteq> outbox c" "marketAt mi c = Inr (Some market)"
  shows "d \<noteq> 0 \<and> sentUpdateK c (snd (scaleK sol rpc mi n d c)) ((sqrtK (amm market) * n) sdiv d) mi"
proof -
  have "snd (ignoring m c) = snd (m c)" for m :: "(Client, string) eff"
    by (simp add: ignoring_def eff_simps split: prod.split sum.split)
  with assms updateK_sends [of sol rpc "(sqrtK (amm market) * n) sdiv d" mi c] show ?thesis
    by (auto simp: scaleK_def eff_simps bn_div_def split: if_splits)
qed



subsection \<open>Around an action\<close>

definition cleanRun ::
  "('a AnyChSubscriber, 'a) ChSubscriber \<Rightarrow> ('a \<Rightarrow> StateAccount) \<Rightarrow> ('a \<Rightarrow> MarketsAccount) \<Rightarrow>
     (Client, unit) eff \<Rightarrow> Client \<Rightarrow> 'a CliRun \<Rightarrow> bool" where
  "cleanRun ops asState asMarkets action adm run \<longleftrightarrow>
     (case run_outcome run of
        Subscribed b \<Rightarrow>
          \<not> clientIsSubscribed ops (run_live run) \<and> \<not> anyIsSubscribed (ch_sub (run_live run)) \<and>
          (\<exists>sub. anyIsSubscribed sub \<and>
             action (refreshed asState asMarkets sub adm) = (case run_caught run of
               None \<Rightarrow> Inr () | Some e \<Rightarrow> Inl e, run_client run))
      | _ \<Rightarrow> run_client run = adm \<and> run_caught run = None)"

lemma caught_result: "(case caught r of None \<Rightarrow> Inr () | Some e \<Rightarrow> Inl e) = (r :: unit result)"
  by (cases r) (simp_all add: caught_def)

text \<open>
  A command cleans up: once it is subscribed, the client ends up unsubscribed whatever the
  action does, an error of the action is caught, and the action runs on the accounts of a
  subscriber that is on; when the subscription fails, the action does not run and nothing is sent.
\<close>

theorem command_unsubscribes:
  "cleanRun (anyCH (webSocketCH decode asState rpc ids stateKey) (pollingCH env key fetched))
     asState asMarkets action adm
     (wrapActionInAdminSubscribeUnsubscribe
        (anyCH (webSocketCH decode asState rpc ids stateKey) (pollingCH env key fetched))
        asState asMarkets action adm live l)"
proof -
  let ?ops = "anyCH (webSocketCH decode asState rpc ids stateKey) (pollingCH env key fetched)"
  obtain s l1 r where sub: "ch_subscribe ?ops None (ch_sub live) l = (s, l1, r)" using prod_cases3 by blast
  show ?thesis
  proof (cases r)
    case (Subscribed b)
    let ?c = "refreshed asState asMarkets s adm"
    obtain ar adm1 where act: "action ?c = (ar, adm1)" by fastforce
    obtain s2 l2 where un: "ch_unsubscribe ?ops s l1 = (s2, l2)" by fastforce
    have "anyIsSubscribed s" using any_ch.subscribe_returns sub Subscribed by blast
    moreover have "\<not> anyIsSubscribed s2" by (rule any_ch.unsubscribe_off [OF un])
    ultimately show ?thesis
      using sub Subscribed act un
      by (auto simp: wrapActionInAdminSubscribeUnsubscribe_def clientSubscribe_def clientUnsubscribe_def
          cleanRun_def clientIsSubscribed_def caught_result Let_def)
  qed (use sub in \<open>simp_all add: wrapActionInAdminSubscribeUnsubscribe_def clientSubscribe_def cleanRun_def\<close>)
qed

text \<open>
  A user's command leaves the clearing house subscribed when the user's own subscription throws.
\<close>

lemma user_command_leaves_subscription:
  assumes "clientSubscribe ops None live l = (live1, l1, Subscribed True)" "userFrom live1 (wallet adm) = Inr usr"
    and "liveUserSubscribe ops uops live1 usr l1 = (live2, usr1, l2, Throws e)"
  shows "run_live (wrapActionInUserSubscribeUnsubscribe ops uops asState asMarkets action adm live l) = live2"
  using assms by (simp add: wrapActionInUserSubscribeUnsubscribe_def)

text \<open>The text that \<open>initialize\<close> passes on does not fit the type of the argument.\<close>

lemma cli_initialize_text:
  "\<not> list_all (instructionConforms (idls (programId c))) (initializeTx sol mint (AText t) fresh c)"
  by (auto simp: initializeTx_def conform_simps idl_initialize_def Let_def split: prod.split)

end
