(* ===== verification/ChainState.thy ===== *)
theory ChainState
  imports Rust Types
begin

section \<open>The accounts of the on-chain program\<close>

text \<open>
  The structs of \<open>programs/clearing_house/src/state\<close>: markets with their automated market makers,
  users and positions, without the padding fields. A number is the integer its machine type holds;
  \<open>amm_typed\<close>, \<open>market_typed\<close>, \<open>position_typed\<close> and \<open>user_typed\<close> say that every field fits its type.
  The state account, the fee structure and the guard rails have the same fields as the SDK's copy,
  the records of \<open>Types\<close>, which are used for them; \<open>SwapDirection\<close> and \<open>PositionDirection\<close> are
  those of \<open>Types\<close> as well.

  \<open>mirrors_amm\<close>, \<open>mirrors_market\<close> and \<open>mirrors_position\<close> relate an account to the copy the SDK
  decodes from it.
\<close>

subsection \<open>Markets and users\<close>

record ChainAMM =
  oracle_key :: PublicKey
  oracle_source :: OracleSource
  base_asset_reserve :: int
  quote_asset_reserve :: int
  cumulative_repeg_rebate_long :: int
  cumulative_repeg_rebate_short :: int
  cumulative_funding_rate_long :: int
  cumulative_funding_rate_short :: int
  last_funding_rate :: int
  last_funding_rate_ts :: int
  funding_period :: int
  last_oracle_price_twap :: int
  last_mark_price_twap :: int
  last_mark_price_twap_ts :: int
  sqrt_k :: int
  peg_multiplier :: int
  total_fee :: int
  total_fee_minus_distributions :: int
  total_fee_withdrawn :: int
  minimum_trade_size :: int
  last_oracle_price_twap_ts :: int
  last_oracle_price :: int

record ChainMarket =
  initialized :: bool
  base_asset_amount_long :: int
  base_asset_amount_short :: int
  base_asset_amount :: int
  open_interest :: int
  amm :: ChainAMM

record ChainPosition =
  market_index :: int
  base_asset_amount :: int
  quote_asset_amount :: int
  last_cumulative_funding_rate :: int
  last_cumulative_repeg_rebate :: int
  last_funding_rate_ts :: int
  stop_loss_price :: int
  stop_loss_amount :: int
  stop_profit_price :: int
  stop_profit_amount :: int
  transfer_to :: PublicKey

record ChainUser =
  authority :: PublicKey
  collateral :: int
  cumulative_deposits :: int
  total_fee_paid :: int
  total_token_discount :: int
  total_referral_reward :: int
  total_referee_discount :: int
  positions :: PublicKey

record ChainUserPositions =
  user :: PublicKey
  positions :: "ChainPosition list"

definition is_open_position :: "ChainPosition \<Rightarrow> bool" where
  "is_open_position p \<longleftrightarrow> ChainPosition.base_asset_amount p \<noteq> 0"

definition is_for :: "ChainPosition \<Rightarrow> int \<Rightarrow> bool" where
  "is_for p index \<longleftrightarrow> market_index p = index \<and> is_open_position p"

text \<open>\<open>markets.markets[Markets::index_from_u64(i)]\<close>: an index out of range panics.\<close>

definition market_at :: "ChainMarket list \<Rightarrow> int \<Rightarrow> ChainMarket chain_result" where
  "market_at ms i = (if 0 \<le> i \<and> nat i < length ms then Inr (ms ! nat i) else Inl Panic)"

lemma market_at_Inr [rust_simps]:
  "market_at ms i = Inr m \<longleftrightarrow> 0 \<le> i \<and> nat i < length ms \<and> m = ms ! nat i"
  by (auto simp: market_at_def)

subsection \<open>Well-typed accounts\<close>

definition amm_typed :: "ChainAMM \<Rightarrow> bool" where
  "amm_typed a \<longleftrightarrow>
     fits u128 (base_asset_reserve a) \<and> fits u128 (quote_asset_reserve a) \<and>
     fits u128 (cumulative_repeg_rebate_long a) \<and> fits u128 (cumulative_repeg_rebate_short a) \<and>
     fits i128 (cumulative_funding_rate_long a) \<and> fits i128 (cumulative_funding_rate_short a) \<and>
     fits i128 (last_funding_rate a) \<and> fits i64 (ChainAMM.last_funding_rate_ts a) \<and>
     fits i64 (funding_period a) \<and> fits i128 (last_oracle_price_twap a) \<and>
     fits u128 (last_mark_price_twap a) \<and> fits i64 (last_mark_price_twap_ts a) \<and>
     fits u128 (sqrt_k a) \<and> fits u128 (peg_multiplier a) \<and> fits u128 (total_fee a) \<and>
     fits u128 (total_fee_minus_distributions a) \<and> fits u128 (total_fee_withdrawn a) \<and>
     fits u128 (minimum_trade_size a) \<and> fits i64 (last_oracle_price_twap_ts a) \<and>
     fits i128 (last_oracle_price a)"

definition market_typed :: "ChainMarket \<Rightarrow> bool" where
  "market_typed m \<longleftrightarrow>
     fits i128 (base_asset_amount_long m) \<and> fits i128 (base_asset_amount_short m) \<and>
     fits i128 (ChainMarket.base_asset_amount m) \<and> fits u128 (open_interest m) \<and> amm_typed (amm m)"

definition position_typed :: "ChainPosition \<Rightarrow> bool" where
  "position_typed p \<longleftrightarrow>
     fits u64 (market_index p) \<and> fits i128 (ChainPosition.base_asset_amount p) \<and>
     fits u128 (quote_asset_amount p) \<and> fits i128 (last_cumulative_funding_rate p) \<and>
     fits u128 (last_cumulative_repeg_rebate p) \<and> fits i64 (ChainPosition.last_funding_rate_ts p)"

definition user_typed :: "ChainUser \<Rightarrow> bool" where
  "user_typed u \<longleftrightarrow>
     fits u128 (collateral u) \<and> fits i128 (cumulative_deposits u) \<and> fits u128 (total_fee_paid u) \<and>
     fits u128 (total_token_discount u) \<and> fits u128 (total_referral_reward u) \<and>
     fits u128 (total_referee_discount u)"

lemma amm_typedD:
  assumes "amm_typed a"
  shows "fits u128 (base_asset_reserve a)" "fits u128 (quote_asset_reserve a)" "fits u128 (sqrt_k a)"
    and "fits u128 (peg_multiplier a)"
  using assms by (simp_all only: amm_typed_def)

subsection \<open>The SDK's copies\<close>

definition mirrors_amm :: "AMM \<Rightarrow> ChainAMM \<Rightarrow> bool" where
  "mirrors_amm s a \<longleftrightarrow>
     amm_oracle s = oracle_key a \<and> oracleSource s = oracle_source a \<and>
     baseAssetReserve s = base_asset_reserve a \<and> quoteAssetReserve s = quote_asset_reserve a \<and>
     cumulativeRepegRebateLong s = cumulative_repeg_rebate_long a \<and>
     cumulativeRepegRebateShort s = cumulative_repeg_rebate_short a \<and>
     cumulativeFundingRateLong s = cumulative_funding_rate_long a \<and>
     cumulativeFundingRateShort s = cumulative_funding_rate_short a \<and>
     lastFundingRate s = last_funding_rate a \<and> lastFundingRateTs s = ChainAMM.last_funding_rate_ts a \<and>
     fundingPeriod s = funding_period a \<and> lastOraclePriceTwap s = last_oracle_price_twap a \<and>
     lastMarkPriceTwap s = last_mark_price_twap a \<and> lastMarkPriceTwapTs s = last_mark_price_twap_ts a \<and>
     sqrtK s = sqrt_k a \<and> pegMultiplier s = peg_multiplier a \<and> AMM.totalFee s = total_fee a \<and>
     totalFeeMinusDistributions s = total_fee_minus_distributions a \<and>
     AMM.totalFeeWithdrawn s = total_fee_withdrawn a \<and> minimumTradeSize s = minimum_trade_size a \<and>
     lastOraclePriceTwapTs s = last_oracle_price_twap_ts a \<and> lastOraclePrice s = last_oracle_price a"

definition mirrors_market :: "Market \<Rightarrow> ChainMarket \<Rightarrow> bool" where
  "mirrors_market s m \<longleftrightarrow>
     Market.initialized s = ChainMarket.initialized m \<and> baseAssetAmountLong s = base_asset_amount_long m \<and>
     baseAssetAmountShort s = base_asset_amount_short m \<and>
     Market.baseAssetAmount s = ChainMarket.base_asset_amount m \<and>
     openInterest s = open_interest m \<and> mirrors_amm (Market.amm s) (amm m)"

definition mirrors_position :: "UserPosition \<Rightarrow> ChainPosition \<Rightarrow> bool" where
  "mirrors_position s p \<longleftrightarrow>
     UserPosition.baseAssetAmount s = ChainPosition.base_asset_amount p \<and>
     lastCumulativeFundingRate s = last_cumulative_funding_rate p \<and>
     UserPosition.marketIndex s = market_index p \<and>
     UserPosition.quoteAssetAmount s = quote_asset_amount p"

lemma mirrors_amm_simps:
  assumes "mirrors_amm s a"
  shows "baseAssetReserve s = base_asset_reserve a" "quoteAssetReserve s = quote_asset_reserve a"
    and "sqrtK s = sqrt_k a" "pegMultiplier s = peg_multiplier a"
    and "cumulativeFundingRateLong s = cumulative_funding_rate_long a"
    and "cumulativeFundingRateShort s = cumulative_funding_rate_short a"
    and "lastMarkPriceTwap s = last_mark_price_twap a" "lastMarkPriceTwapTs s = last_mark_price_twap_ts a"
    and "minimumTradeSize s = minimum_trade_size a"
  using assms by (simp_all add: mirrors_amm_def)

lemma mirrors_market_amm: "mirrors_market s m \<Longrightarrow> mirrors_amm (Market.amm s) (amm m)"
  by (simp add: mirrors_market_def)

lemma mirrors_position_simps:
  assumes "mirrors_position s p"
  shows "UserPosition.baseAssetAmount s = ChainPosition.base_asset_amount p"
    and "lastCumulativeFundingRate s = last_cumulative_funding_rate p"
    and "UserPosition.marketIndex s = market_index p"
    and "UserPosition.quoteAssetAmount s = quote_asset_amount p"
  using assms by (simp_all add: mirrors_position_def)

text \<open>The accounts behind the sample market and position of the SDK.\<close>

definition chain_amm :: ChainAMM where
  "chain_amm = \<lparr>
     oracle_key = ''H6ARHf6YXhGYeQfUzQNGk6rDNnLBQKrenN712K4AQJEG'', oracle_source = PYTH,
     base_asset_reserve = 10000000000000000, quote_asset_reserve = 10000000000000000,
     cumulative_repeg_rebate_long = 0, cumulative_repeg_rebate_short = 0,
     cumulative_funding_rate_long = 700000000, cumulative_funding_rate_short = 600000000,
     last_funding_rate = 0, ChainAMM.last_funding_rate_ts = 1640995200, funding_period = 3600,
     last_oracle_price_twap = 490000000000, last_mark_price_twap = 500000000000,
     last_mark_price_twap_ts = 1640995200, sqrt_k = 10000000000000000, peg_multiplier = 50000,
     total_fee = 4000000, total_fee_minus_distributions = 3000000, total_fee_withdrawn = 0,
     minimum_trade_size = 10000000, last_oracle_price_twap_ts = 1640995200,
     last_oracle_price = 490000000000\<rparr>"

definition chain_market :: ChainMarket where
  "chain_market = \<lparr>
     ChainMarket.initialized = True, base_asset_amount_long = 20000000000000,
     base_asset_amount_short = -10000000000000, ChainMarket.base_asset_amount = 10000000000000,
     open_interest = 2, amm = chain_amm\<rparr>"

definition chain_position :: ChainPosition where
  "chain_position = \<lparr>
     market_index = 0, ChainPosition.base_asset_amount = 10000000000000, quote_asset_amount = 49000000,
     last_cumulative_funding_rate = 500000000, last_cumulative_repeg_rebate = 0,
     ChainPosition.last_funding_rate_ts = 1640995200, stop_loss_price = 0, stop_loss_amount = 0,
     stop_profit_price = 0, stop_profit_amount = 0, transfer_to = ''default''\<rparr>"

definition chain_user :: ChainUser where
  "chain_user = \<lparr>
     authority = ''alice'', collateral = 10000000, cumulative_deposits = 10000000, total_fee_paid = 0,
     total_token_discount = 0, total_referral_reward = 0, total_referee_discount = 0,
     ChainUser.positions = ''positions''\<rparr>"

lemmas chain_samples = chain_amm_def chain_market_def chain_position_def chain_user_def

lemma chain_samples_typed [simp]:
  "amm_typed chain_amm" "market_typed chain_market" "position_typed chain_position" "user_typed chain_user"
  by (simp_all add: amm_typed_def market_typed_def position_typed_def user_typed_def chain_samples)

lemma chain_samples_mirrored [simp]:
  "mirrors_amm sample_amm chain_amm" "mirrors_market sample_market chain_market"
  "mirrors_position sample_position chain_position"
  by (simp_all add: mirrors_amm_def mirrors_market_def mirrors_position_def chain_samples)

end
