(* ===== verification/ChainMath.thy ===== *)
theory ChainMath
  imports ChainState
begin

section \<open>The mathematics of the on-chain program\<close>

text \<open>
  \<open>programs/clearing_house/src/math\<close>: prices, swaps and time weighted averages (\<open>amm.rs\<close>), quote
  amounts (\<open>quote_asset.rs\<close>), profits (\<open>pnl.rs\<close>), position values (\<open>position.rs\<close>), collateral
  (\<open>collateral.rs\<close>), the margin ratio (\<open>margin.rs\<close>), fees (\<open>fees.rs\<close>), withdrawals
  (\<open>withdrawal.rs\<close>) and the costs of changing \<open>k\<close> and the peg (\<open>amm.rs\<close>, \<open>repeg.rs\<close>). Every
  operation is written at its machine type; the constants that the SDK has too are those of
  \<open>Constants\<close>.
\<close>

subsection \<open>Constants\<close>

definition PRICE_TO_PEG_PRECISION_RATIO :: int where
  "PRICE_TO_PEG_PRECISION_RATIO = MARK_PRICE_PRECISION sdiv PEG_PRECISION"

definition MARGIN_PRECISION :: int where
  "MARGIN_PRECISION = 10000"

definition SHARE_OF_FEES_NUMERATOR :: int where
  "SHARE_OF_FEES_NUMERATOR = 1"

definition SHARE_OF_FEES_DENOMINATOR :: int where
  "SHARE_OF_FEES_DENOMINATOR = 2"

definition UPDATE_K_ALLOWED_PRICE_CHANGE :: int where
  "UPDATE_K_ALLOWED_PRICE_CHANGE = MARK_PRICE_PRECISION sdiv 10"

definition QUOTE_TO_BASE_AMT_FUNDING_PRECISION :: int where
  "QUOTE_TO_BASE_AMT_FUNDING_PRECISION =
     (AMM_RESERVE_PRECISION * MARK_PRICE_PRECISION * FUNDING_PAYMENT_PRECISION) sdiv QUOTE_PRECISION"

definition ONE_HOUR :: int where
  "ONE_HOUR = 3600"

definition u128_MAX :: int where
  "u128_MAX = 2 ^ 128 - 1"

lemma chain_constants [rust_simps]:
  "PRICE_TO_PEG_PRECISION_RATIO = 10000000" "MARGIN_PRECISION = 10000"
  "SHARE_OF_FEES_NUMERATOR = 1" "SHARE_OF_FEES_DENOMINATOR = 2"
  "UPDATE_K_ALLOWED_PRICE_CHANGE = 1000000000"
  "QUOTE_TO_BASE_AMT_FUNDING_PRECISION = 1000000000000000000000" "ONE_HOUR = 3600"
  by (simp_all add: PRICE_TO_PEG_PRECISION_RATIO_def MARGIN_PRECISION_def SHARE_OF_FEES_NUMERATOR_def
      SHARE_OF_FEES_DENOMINATOR_def UPDATE_K_ALLOWED_PRICE_CHANGE_def ONE_HOUR_def
      QUOTE_TO_BASE_AMT_FUNDING_PRECISION_def constant_values sdiv_nonneg_eq)

subsection \<open>Prices and swaps\<close>

definition calculate_price :: "int \<Rightarrow> int \<Rightarrow> int \<Rightarrow> int chain_result" where
  "calculate_price quote_reserve base_reserve peg =
     bindE (mul_m u128 quote_reserve peg) (\<lambda>peg_quote_asset_amount.
     bindE (mul_m U192 peg_quote_asset_amount PRICE_TO_PEG_PRECISION_RATIO) (\<lambda>n.
     bindE (div_m U192 n base_reserve) try_to_u128))"

definition mark_price :: "ChainAMM \<Rightarrow> int chain_result" where
  "mark_price a = calculate_price (quote_asset_reserve a) (base_asset_reserve a) (peg_multiplier a)"

definition calculate_swap_output ::
  "int \<Rightarrow> int \<Rightarrow> SwapDirection \<Rightarrow> int \<Rightarrow> (int \<times> int) chain_result" where
  "calculate_swap_output swap_amount input_asset_amount direction invariant_sqrt =
     bindE (mul_m U192 invariant_sqrt invariant_sqrt) (\<lambda>invariant.
     bindE (if direction = ADD then add_m u128 input_asset_amount swap_amount
            else sub_m u128 input_asset_amount swap_amount) (\<lambda>new_input_amount.
     bindE (div_m U192 invariant new_input_amount) (\<lambda>n.
     bindE (try_to_u128 n) (\<lambda>new_output_amount.
     Inr (new_output_amount, new_input_amount)))))"

definition calculate_terminal_price :: "ChainMarket \<Rightarrow> int chain_result" where
  "calculate_terminal_price market =
     (let swap_direction = (if ChainMarket.base_asset_amount market > 0 then ADD else REMOVE) in
      bindE (calculate_swap_output \<bar>ChainMarket.base_asset_amount market\<bar>
               (base_asset_reserve (amm market)) swap_direction (sqrt_k (amm market)))
        (\<lambda>(new_quote_asset_amount, new_base_asset_amount).
           calculate_price new_quote_asset_amount new_base_asset_amount (peg_multiplier (amm market))))"

text \<open>\<open>quote_asset.rs\<close>: the plain division panics on a peg of zero.\<close>

definition reserve_to_asset_amount :: "int \<Rightarrow> int \<Rightarrow> int chain_result" where
  "reserve_to_asset_amount quote_reserve peg =
     bindE (mul_m u128 quote_reserve peg) (\<lambda>n. div_p n AMM_TIMES_PEG_TO_QUOTE_PRECISION_RATIO)"

definition asset_to_reserve_amount :: "int \<Rightarrow> int \<Rightarrow> int chain_result" where
  "asset_to_reserve_amount quote_amount peg =
     bindE (mul_m u128 quote_amount AMM_TIMES_PEG_TO_QUOTE_PRECISION_RATIO) (\<lambda>n. div_p n peg)"

definition calculate_quote_asset_amount_swapped ::
  "int \<Rightarrow> int \<Rightarrow> SwapDirection \<Rightarrow> int \<Rightarrow> int chain_result" where
  "calculate_quote_asset_amount_swapped before after swap_direction peg =
     bindE (case swap_direction of
              ADD \<Rightarrow> sub_m u128 before after
            | REMOVE \<Rightarrow> sub_m u128 after before) (\<lambda>quote_asset_reserve_change.
     reserve_to_asset_amount quote_asset_reserve_change peg)"

subsection \<open>Positions, collateral and margin\<close>

definition calculate_pnl :: "int \<Rightarrow> int \<Rightarrow> SwapDirection \<Rightarrow> int chain_result" where
  "calculate_pnl exit_value entry_value swap_direction_to_close =
     (case swap_direction_to_close of
        ADD \<Rightarrow>
          bindE (cast_to_i128 exit_value) (\<lambda>x. bindE (cast i128 entry_value) (\<lambda>y. sub_m i128 x y))
      | REMOVE \<Rightarrow>
          bindE (cast_to_i128 entry_value) (\<lambda>x. bindE (cast i128 exit_value) (\<lambda>y.
          bindE (sub_m i128 x y) (\<lambda>d. sub_m i128 d 1))))"

definition direction_to_close_position :: "int \<Rightarrow> PositionDirection" where
  "direction_to_close_position base = (if base > 0 then SHORT else LONG)"

definition swap_direction_to_close_position :: "int \<Rightarrow> SwapDirection" where
  "swap_direction_to_close_position base = (if base \<ge> 0 then ADD else REMOVE)"

text \<open>\<open>_calculate_base_asset_value_and_pnl\<close>.\<close>

definition base_asset_value_and_pnl :: "int \<Rightarrow> int \<Rightarrow> ChainAMM \<Rightarrow> (int \<times> int) chain_result" where
  "base_asset_value_and_pnl base quote a =
     (if base = 0 then Inr (0, 0)
      else
        let swap_direction = swap_direction_to_close_position base in
        bindE (calculate_swap_output \<bar>base\<bar> (base_asset_reserve a) swap_direction (sqrt_k a))
          (\<lambda>(new_quote_asset_reserve, _).
        bindE (calculate_quote_asset_amount_swapped (quote_asset_reserve a) new_quote_asset_reserve
                 swap_direction (peg_multiplier a)) (\<lambda>base_asset_value.
        bindE (calculate_pnl base_asset_value quote swap_direction) (\<lambda>pnl.
        Inr (base_asset_value, pnl)))))"

definition calculate_base_asset_value_and_pnl ::
  "ChainPosition \<Rightarrow> ChainAMM \<Rightarrow> (int \<times> int) chain_result" where
  "calculate_base_asset_value_and_pnl p a =
     base_asset_value_and_pnl (ChainPosition.base_asset_amount p) (quote_asset_amount p) a"

definition calculate_updated_collateral :: "int \<Rightarrow> int \<Rightarrow> int chain_result" where
  "calculate_updated_collateral collat pnl =
     (if pnl < 0 \<and> \<bar>pnl\<bar> > collat then Inr 0
      else if pnl > 0 then add_m u128 collat \<bar>pnl\<bar>
      else sub_m u128 collat \<bar>pnl\<bar>)"

text \<open>
  The result is the total collateral, the unrealised profit, the base asset value and the margin
  ratio.
\<close>

definition calculate_margin_ratio ::
  "ChainUser \<Rightarrow> ChainPosition list \<Rightarrow> ChainMarket list \<Rightarrow> (int \<times> int \<times> int \<times> int) chain_result" where
  "calculate_margin_ratio usr ps ms =
     bindE (foldE (\<lambda>(base_asset_value, unrealized_pnl) market_position.
              if ChainPosition.base_asset_amount market_position = 0
              then Inr (base_asset_value, unrealized_pnl)
              else
                bindE (market_at ms (market_index market_position)) (\<lambda>market.
                bindE (calculate_base_asset_value_and_pnl market_position (amm market))
                  (\<lambda>(position_base_asset_value, position_unrealized_pnl).
                bindE (add_m u128 base_asset_value position_base_asset_value) (\<lambda>v.
                bindE (add_m i128 unrealized_pnl position_unrealized_pnl) (\<lambda>p.
                Inr (v, p)))))) (0, 0) ps)
       (\<lambda>(base_asset_value, unrealized_pnl).
          if base_asset_value = 0 then Inr (u128_MAX, unrealized_pnl, base_asset_value, u128_MAX)
          else
            bindE (calculate_updated_collateral (collateral usr) unrealized_pnl) (\<lambda>total_collateral.
            bindE (mul_m u128 total_collateral MARGIN_PRECISION) (\<lambda>n.
            bindE (div_m u128 n base_asset_value) (\<lambda>margin_ratio.
            Inr (total_collateral, unrealized_pnl, base_asset_value, margin_ratio)))))"

subsection \<open>Time weighted averages\<close>

definition calculate_twap :: "int \<Rightarrow> int \<Rightarrow> int \<Rightarrow> int \<Rightarrow> int chain_result" where
  "calculate_twap new_data old_data new_weight old_weight =
     bindE (add_m i128 new_weight old_weight) (\<lambda>denominator.
     bindE (mul_m i128 old_data old_weight) (\<lambda>prev_twap_99.
     bindE (mul_m i128 new_data new_weight) (\<lambda>latest_price_01.
     bindE (add_m i128 prev_twap_99 latest_price_01) (\<lambda>n. div_m i128 n denominator))))"

text \<open>The weights of an update at \<open>now\<close>: the time since the last one, and the rest of the period.\<close>

definition twap_weights :: "int \<Rightarrow> int \<Rightarrow> int \<Rightarrow> (int \<times> int) chain_result" where
  "twap_weights now last_ts period =
     bindE (sub_m i64 now last_ts) (\<lambda>d.
     bindE (cast_to_i128 (max 1 d)) (\<lambda>since_last.
     bindE (cast_to_i128 period) (\<lambda>p.
     bindE (sub_m i128 p since_last) (\<lambda>r. Inr (since_last, max 1 r)))))"

definition calculate_new_mark_twap :: "ChainAMM \<Rightarrow> int \<Rightarrow> int option \<Rightarrow> int chain_result" where
  "calculate_new_mark_twap a now precomputed_mark_price =
     bindE (twap_weights now (last_mark_price_twap_ts a) (funding_period a)) (\<lambda>(since_last, from_start).
     bindE (case precomputed_mark_price of Some p \<Rightarrow> Inr p | None \<Rightarrow> mark_price a) (\<lambda>current_price.
     bindE (cast i128 current_price) (\<lambda>new_data.
     bindE (cast i128 (last_mark_price_twap a)) (\<lambda>old_data.
     bindE (calculate_twap new_data old_data since_last from_start) (\<lambda>t. cast u128 t)))))"

definition update_mark_twap :: "ChainAMM \<Rightarrow> int \<Rightarrow> int option \<Rightarrow> (ChainAMM \<times> int) chain_result" where
  "update_mark_twap a now precomputed_mark_price =
     bindE (calculate_new_mark_twap a now precomputed_mark_price) (\<lambda>mark_twap.
     Inr (a\<lparr>last_mark_price_twap := mark_twap, last_mark_price_twap_ts := now\<rparr>, mark_twap))"

definition calculate_new_oracle_price_twap :: "ChainAMM \<Rightarrow> int \<Rightarrow> int \<Rightarrow> int chain_result" where
  "calculate_new_oracle_price_twap a now oracle_price =
     bindE (twap_weights now (last_oracle_price_twap_ts a) (funding_period a)) (\<lambda>(since_last, from_start).
     let capped = (if last_oracle_price a > 0 then last_oracle_price a else oracle_price) in
     bindE (div_m i128 capped 1000) (\<lambda>capped_10bp.
     bindE (add_m i128 capped capped_10bp) (\<lambda>top.
     bindE (sub_m i128 capped capped_10bp) (\<lambda>bottom.
     calculate_twap (min top (max bottom oracle_price)) (last_oracle_price_twap a) since_last from_start))))"

definition update_oracle_price_twap :: "ChainAMM \<Rightarrow> int \<Rightarrow> int \<Rightarrow> (ChainAMM \<times> int) chain_result" where
  "update_oracle_price_twap a now oracle_price =
     bindE (sub_m i128 oracle_price (last_oracle_price_twap a)) (\<lambda>new_oracle_price_spread.
     bindE (div_m i128 oracle_price 3) (\<lambda>oracle_price_33pct.
     bindE (if \<bar>new_oracle_price_spread\<bar> > \<bar>oracle_price_33pct\<bar> then
              if oracle_price > last_oracle_price_twap a
              then add_m i128 (last_oracle_price_twap a) oracle_price_33pct
              else sub_m i128 (last_oracle_price_twap a) oracle_price_33pct
            else Inr oracle_price) (\<lambda>capped_oracle_update_price.
     if capped_oracle_update_price > 0 \<and> oracle_price > 0 then
       bindE (calculate_new_oracle_price_twap a now capped_oracle_update_price) (\<lambda>oracle_price_twap.
       Inr (a\<lparr>last_oracle_price := capped_oracle_update_price, last_oracle_price_twap := oracle_price_twap,
              last_oracle_price_twap_ts := now\<rparr>, oracle_price_twap))
     else Inr (a, last_oracle_price_twap a))))"

subsection \<open>Fees and withdrawals\<close>

text \<open>\<open>discount_token\<close> is the balance of the discount token account, \<open>referrer\<close> whether there is one.\<close>

definition calculate_token_discount_for_tier :: "int \<Rightarrow> DiscountTier \<Rightarrow> int \<Rightarrow> int option" where
  "calculate_token_discount_for_tier fee tier discount_token =
     (if discount_token \<ge> minimumBalance tier then
        case checked_mul u128 fee (discountNumerator tier) of
          None \<Rightarrow> None
        | Some n \<Rightarrow> checked_div u128 n (discountDenominator tier)
      else None)"

definition calculate_token_discount :: "int \<Rightarrow> FeeStructure \<Rightarrow> int option \<Rightarrow> int" where
  "calculate_token_discount fee fee_structure discount_token =
     (case discount_token of
        None \<Rightarrow> 0
      | Some balance \<Rightarrow>
          let tiers = discountTokenTiers fee_structure;
              discount = (\<lambda>tier. calculate_token_discount_for_tier fee tier balance)
          in case discount (firstTier tiers) of Some d \<Rightarrow> d | None \<Rightarrow>
             (case discount (secondTier tiers) of Some d \<Rightarrow> d | None \<Rightarrow>
             (case discount (thirdTier tiers) of Some d \<Rightarrow> d | None \<Rightarrow>
             (case discount (fourthTier tiers) of Some d \<Rightarrow> d | None \<Rightarrow> 0))))"

definition calculate_referral_reward_and_referee_discount ::
  "int \<Rightarrow> FeeStructure \<Rightarrow> bool \<Rightarrow> (int \<times> int) chain_result" where
  "calculate_referral_reward_and_referee_discount fee fee_structure referrer =
     (if \<not> referrer then Inr (0, 0)
      else
        let r = referralDiscount fee_structure in
        bindE (mul_m u128 fee (referrerRewardNumerator r)) (\<lambda>n.
        bindE (div_m u128 n (referrerRewardDenominator r)) (\<lambda>referrer_reward.
        bindE (mul_m u128 fee (refereeDiscountNumerator r)) (\<lambda>n'.
        bindE (div_m u128 n' (refereeDiscountDenominator r)) (\<lambda>referee_discount.
        Inr (referrer_reward, referee_discount))))))"

text \<open>
  The result is the fee of the user, the fee to the market, the token discount, the reward of the
  referrer and the discount of the referee.
\<close>

definition calculate_fees ::
  "int \<Rightarrow> FeeStructure \<Rightarrow> int option \<Rightarrow> bool \<Rightarrow> (int \<times> int \<times> int \<times> int \<times> int) chain_result" where
  "calculate_fees quote fee_structure discount_token referrer =
     bindE (mul_m u128 quote (feeNumerator fee_structure)) (\<lambda>n.
     bindE (div_m u128 n (feeDenominator fee_structure)) (\<lambda>fee.
     let token_discount = calculate_token_discount fee fee_structure discount_token in
     bindE (calculate_referral_reward_and_referee_discount fee fee_structure referrer)
       (\<lambda>(referrer_reward, referee_discount).
     bindE (sub_m u128 fee token_discount) (\<lambda>f.
     bindE (sub_m u128 f referee_discount) (\<lambda>user_fee.
     bindE (sub_m u128 user_fee referrer_reward) (\<lambda>fee_to_market.
     Inr (user_fee, fee_to_market, token_discount, referrer_reward, referee_discount)))))))"

text \<open>The balances of the two vaults; the result is what each of them pays.\<close>

definition calculate_withdrawal_amounts :: "int \<Rightarrow> int \<Rightarrow> int \<Rightarrow> (int \<times> int) chain_result" where
  "calculate_withdrawal_amounts amount collateral_balance insurance_balance =
     (if collateral_balance \<ge> amount then Inr (amount, 0)
      else
        bindE (sub_m u64 amount collateral_balance) (\<lambda>rest.
        if insurance_balance > rest
        then bindE (sub_m u64 amount collateral_balance) (\<lambda>rest'. Inr (collateral_balance, rest'))
        else Inr (collateral_balance, insurance_balance)))"

subsection \<open>Costs of changing the curve\<close>

text \<open>
  A change returns the changed market and its cost, the profit of the net position measured
  against its value before. \<open>unwrap\<close> panics where the source unwraps a conversion.
\<close>

definition adjust_peg_cost :: "ChainMarket \<Rightarrow> int \<Rightarrow> (ChainMarket \<times> int) chain_result" where
  "adjust_peg_cost market new_peg =
     bindE (base_asset_value_and_pnl (ChainMarket.base_asset_amount market) 0 (amm market))
       (\<lambda>(current_net_market_value, _).
     let market' = market\<lparr>amm := (amm market)\<lparr>peg_multiplier := new_peg\<rparr>\<rparr> in
     bindE (base_asset_value_and_pnl (ChainMarket.base_asset_amount market) current_net_market_value
              (amm market')) (\<lambda>(_, cost).
     Inr (market', cost)))"

definition scale_reserve :: "int \<Rightarrow> int \<Rightarrow> int chain_result" where
  "scale_reserve reserve sqrt_k_ratio =
     bindE (mul_m U256 reserve sqrt_k_ratio) (\<lambda>n.
     bindE (div_m U256 n MARK_PRICE_PRECISION) (\<lambda>r. unwrap (try_to_u128 r)))"

definition adjust_k_cost :: "ChainMarket \<Rightarrow> int \<Rightarrow> (ChainMarket \<times> int) chain_result" where
  "adjust_k_cost market new_sqrt_k =
     bindE (base_asset_value_and_pnl (ChainMarket.base_asset_amount market) 0 (amm market))
       (\<lambda>(current_net_market_value, _).
     bindE (mul_m U256 new_sqrt_k MARK_PRICE_PRECISION) (\<lambda>n.
     bindE (div_m U256 n (sqrt_k (amm market))) (\<lambda>sqrt_k_ratio.
     bindE (mul_m U256 MARK_PRICE_PRECISION 975) (\<lambda>l.
     bindE (div_m U256 l 1000) (\<lambda>lowest.
     bindE (guardE (sqrt_k_ratio < lowest) InvalidUpdateK) (\<lambda>_.
     bindE (unwrap (try_to_u128 new_sqrt_k)) (\<lambda>k.
     bindE (scale_reserve (base_asset_reserve (amm market)) sqrt_k_ratio) (\<lambda>base.
     bindE (scale_reserve (quote_asset_reserve (amm market)) sqrt_k_ratio) (\<lambda>quote.
     let market' = market\<lparr>amm := (amm market)\<lparr>sqrt_k := k, base_asset_reserve := base,
                                                quote_asset_reserve := quote\<rparr>\<rparr> in
     bindE (base_asset_value_and_pnl (ChainMarket.base_asset_amount market) current_net_market_value
              (amm market')) (\<lambda>(_, cost).
     Inr (market', cost)))))))))))"

definition should_round_trade :: "ChainAMM \<Rightarrow> int \<Rightarrow> int \<Rightarrow> bool chain_result" where
  "should_round_trade a quote base_value =
     bindE (if quote > base_value then sub_m u128 quote base_value else sub_m u128 base_value quote)
       (\<lambda>difference.
     bindE (asset_to_reserve_amount difference (peg_multiplier a)) (\<lambda>quote_asset_reserve_amount.
     Inr (quote_asset_reserve_amount < minimum_trade_size a)))"

subsection \<open>What the fee calculation returns\<close>

lemma calculate_fees_Inr:
  assumes "calculate_fees quote fs discount_token referrer =
    Inr (user_fee, fee_to_market, token_discount, referrer_reward, referee_discount)"
  shows "feeDenominator fs \<noteq> 0 \<and> (\<exists>fee. fee = (quote * feeNumerator fs) sdiv feeDenominator fs \<and>
    token_discount = calculate_token_discount fee fs discount_token \<and>
    calculate_referral_reward_and_referee_discount fee fs referrer = Inr (referrer_reward, referee_discount) \<and>
    user_fee = fee - token_discount - referee_discount \<and>
    fee_to_market = user_fee - referrer_reward \<and> 0 \<le> fee_to_market)"
  using assms unfolding calculate_fees_def Let_def bindE_Inr_iff checked_ops_Inr
  apply (elim exE conjE)
  apply clarify
  apply (simp only: bindE_Inr_iff checked_ops_Inr split: prod.splits)
  apply (elim exE conjE)
  apply simp
  done

end
