(* ===== verification/ChainOracle.thy ===== *)
theory ChainOracle
  imports ChainMath
begin

section \<open>Oracle prices and the guard rails of the on-chain program\<close>

text \<open>
  \<open>AMM::get_oracle_price\<close> of \<open>state/market.rs\<close>, the oracle part of \<open>math/amm.rs\<close> and
  \<open>math/oracle.rs\<close>. An oracle account is its key and, when its data can be borrowed, the price that
  the Pyth client reads from it (\<open>pyth_client::cast\<close>); the client itself is third-party code.
\<close>

record PythPrice =
  agg_price :: int
  agg_conf :: int
  twap_val :: int
  twac_val :: int
  expo :: int
  valid_slot :: int

record OracleInfo =
  oracle_info_key :: PublicKey
  oracle_data :: "PythPrice option"

text \<open>
  A price with the decimals of the feed becomes one of ten decimals. \<open>10_u128.pow\<close> wraps around.
\<close>

definition scale_signed :: "int \<Rightarrow> int \<Rightarrow> int \<Rightarrow> int chain_result" where
  "scale_signed x mult scale_div =
     bindE (cast i128 mult) (\<lambda>m. bindE (mul_m i128 x m) (\<lambda>n.
     bindE (cast i128 scale_div) (\<lambda>d. div_m i128 n d)))"

definition scale_unsigned :: "int \<Rightarrow> int \<Rightarrow> int \<Rightarrow> int chain_result" where
  "scale_unsigned x mult scale_div = bindE (mul_m u128 x mult) (\<lambda>n. div_m u128 n scale_div)"

text \<open>The result is the price, its average, the confidence, its average, and the age in slots.\<close>

definition get_pyth_price :: "OracleInfo \<Rightarrow> int \<Rightarrow> (int \<times> int \<times> int \<times> int \<times> int) chain_result" where
  "get_pyth_price price_oracle clock_slot =
     bindE (ok_or UnableToLoadOracle (oracle_data price_oracle)) (\<lambda>price_data.
     bindE (cast_to_i128 (agg_price price_data)) (\<lambda>oracle_price.
     bindE (cast_to_u128 (agg_conf price_data)) (\<lambda>oracle_conf.
     bindE (cast_to_i128 (twap_val price_data)) (\<lambda>oracle_twap.
     bindE (cast_to_u128 (twac_val price_data)) (\<lambda>oracle_twac.
     let oracle_precision = wrap u128 (10 ^ nat \<bar>expo price_data\<bar>) in
     bindE (if oracle_precision > MARK_PRICE_PRECISION
            then bindE (div_m u128 oracle_precision MARK_PRICE_PRECISION) (\<lambda>d. Inr (1, d))
            else bindE (div_m u128 MARK_PRICE_PRECISION oracle_precision) (\<lambda>m. Inr (m, 1)))
       (\<lambda>(oracle_scale_mult, oracle_scale_div).
     bindE (scale_signed oracle_price oracle_scale_mult oracle_scale_div) (\<lambda>oracle_price_scaled.
     bindE (scale_signed oracle_twap oracle_scale_mult oracle_scale_div) (\<lambda>oracle_twap_scaled.
     bindE (scale_unsigned oracle_conf oracle_scale_mult oracle_scale_div) (\<lambda>oracle_conf_scaled.
     bindE (scale_unsigned oracle_twac oracle_scale_mult oracle_scale_div) (\<lambda>oracle_twac_scaled.
     bindE (cast_to_i64 clock_slot) (\<lambda>now_slot.
     bindE (cast i64 (valid_slot price_data)) (\<lambda>last_slot.
     bindE (sub_m i64 now_slot last_slot) (\<lambda>oracle_delay.
     Inr (oracle_price_scaled, oracle_twap_scaled, oracle_conf_scaled, oracle_twac_scaled,
          oracle_delay))))))))))))))"

definition get_oracle_price ::
  "ChainAMM \<Rightarrow> OracleInfo \<Rightarrow> int \<Rightarrow> (int \<times> int \<times> int \<times> int \<times> int) chain_result" where
  "get_oracle_price a price_oracle clock_slot =
     (case oracle_source a of
        PYTH \<Rightarrow> get_pyth_price price_oracle clock_slot
      | SWITCHBOARD \<Rightarrow> Inr (0, 0, 0, 0, 0))"

text \<open>
  The price moved towards the mark price, by at most the confidence interval and not past one basis
  point of the mark price.
\<close>

definition normalise_oracle :: "int \<Rightarrow> int \<Rightarrow> int \<Rightarrow> int \<Rightarrow> int chain_result" where
  "normalise_oracle mark mark_1bp price conf_int =
     (if mark > price then
        bindE (sub_m i128 mark mark_1bp) (\<lambda>m.
        bindE (add_m i128 price conf_int) (\<lambda>c. Inr (min (max m price) c)))
      else
        bindE (add_m i128 mark mark_1bp) (\<lambda>m.
        bindE (sub_m i128 price conf_int) (\<lambda>c. Inr (max (min m price) c))))"

definition calculate_oracle_mark_spread ::
  "ChainAMM \<Rightarrow> OracleInfo \<Rightarrow> int \<Rightarrow> int \<Rightarrow> int option \<Rightarrow> bool \<Rightarrow> (int \<times> int) chain_result" where
  "calculate_oracle_mark_spread a price_oracle window clock_slot precomputed_mark_price normalise =
     bindE (get_oracle_price a price_oracle clock_slot)
       (\<lambda>(oracle_price, oracle_twap, oracle_conf, oracle_twac, _).
     if window > 0 then
       bindE (cast_to_i128 (last_mark_price_twap a)) (\<lambda>mark.
       bindE (div_m i128 mark 10000) (\<lambda>mark_price_1bp.
       bindE (cast_to_i128 oracle_twac) (\<lambda>conf_int.
       bindE (if normalise then normalise_oracle mark mark_price_1bp oracle_twap conf_int
              else Inr oracle_twap) (\<lambda>oracle_processed.
       bindE (sub_m i128 mark oracle_twap) (\<lambda>price_spread.
       Inr (oracle_processed, price_spread))))))
     else
       bindE (case precomputed_mark_price of
                Some p \<Rightarrow> cast_to_i128 p
              | None \<Rightarrow> bindE (mark_price a) cast_to_i128) (\<lambda>mark.
       bindE (if normalise then
                bindE (div_m i128 mark 10000) (\<lambda>mark_price_1bp.
                bindE (cast_to_i128 oracle_conf) (\<lambda>conf_int.
                normalise_oracle mark mark_price_1bp oracle_price conf_int))
              else Inr oracle_price) (\<lambda>oracle_processed.
       bindE (sub_m i128 mark oracle_price) (\<lambda>price_spread.
       if oracle_processed > 0 then Inr (oracle_processed, price_spread) else Inl Panic))))"

definition calculate_oracle_mark_spread_pct ::
  "ChainAMM \<Rightarrow> OracleInfo \<Rightarrow> int \<Rightarrow> int \<Rightarrow> int option \<Rightarrow> (int \<times> int \<times> int) chain_result" where
  "calculate_oracle_mark_spread_pct a price_oracle window clock_slot precomputed_mark_price =
     bindE (calculate_oracle_mark_spread a price_oracle window clock_slot precomputed_mark_price True)
       (\<lambda>(oracle_price, price_spread).
     bindE (math_error (checked_shl i128 price_spread 10)) (\<lambda>n.
     bindE (div_m i128 n oracle_price) (\<lambda>price_spread_pct.
     Inr (oracle_price, price_spread, price_spread_pct))))"

definition is_oracle_mark_too_divergent :: "int \<Rightarrow> PriceDivergenceGuardRails \<Rightarrow> bool chain_result" where
  "is_oracle_mark_too_divergent price_spread_pct rails =
     bindE (math_error (checked_shl u128 (markOracleDivergenceNumerator rails) 10)) (\<lambda>n.
     bindE (div_m u128 n (markOracleDivergenceDenominator rails)) (\<lambda>max_divergence.
     Inr (\<bar>price_spread_pct\<bar> > max_divergence)))"

definition is_oracle_valid :: "ChainAMM \<Rightarrow> OracleInfo \<Rightarrow> int \<Rightarrow> ValidityGuardRails \<Rightarrow> bool chain_result" where
  "is_oracle_valid a price_oracle clock_slot rails =
     bindE (get_oracle_price a price_oracle clock_slot)
       (\<lambda>(oracle_price, oracle_twap, oracle_conf, oracle_twap_conf, oracle_delay).
     let is_oracle_price_nonpositive = (oracle_twap \<le> 0 \<or> oracle_price \<le> 0) in
     bindE (div_m i128 oracle_price (max 1 oracle_twap)) (\<lambda>up.
     bindE (if up > tooVolatileRatio rails then Inr True
            else bindE (div_m i128 oracle_twap (max 1 oracle_price)) (\<lambda>down.
                 Inr (down > tooVolatileRatio rails))) (\<lambda>is_oracle_price_too_volatile.
     bindE (cast_to_u128 oracle_price) (\<lambda>p.
     bindE (div_m u128 p (max 1 oracle_conf)) (\<lambda>conf_denom_of_price.
     bindE (cast_to_u128 oracle_twap) (\<lambda>t.
     bindE (div_m u128 t (max 1 oracle_twap_conf)) (\<lambda>conf_denom_of_twap_price.
     let is_conf_too_large = (conf_denom_of_price < confidenceIntervalMaxSize rails \<or>
                              conf_denom_of_twap_price < confidenceIntervalMaxSize rails);
         is_stale = (oracle_delay > slotsBeforeStale rails)
     in Inr (\<not> (is_stale \<or> is_conf_too_large \<or> is_oracle_price_nonpositive \<or>
                 is_oracle_price_too_volatile)))))))))"

definition block_operation ::
  "ChainAMM \<Rightarrow> OracleInfo \<Rightarrow> int \<Rightarrow> OracleGuardRails \<Rightarrow> int option \<Rightarrow> (bool \<times> int) chain_result" where
  "block_operation a oracle_account_info clock_slot guard_rails precomputed_mark_price =
     bindE (is_oracle_valid a oracle_account_info clock_slot (validity guard_rails)) (\<lambda>oracle_is_valid.
     bindE (calculate_oracle_mark_spread_pct a oracle_account_info 0 clock_slot precomputed_mark_price)
       (\<lambda>(oracle_price, _, oracle_mark_spread_pct).
     bindE (is_oracle_mark_too_divergent oracle_mark_spread_pct (priceDivergence guard_rails))
       (\<lambda>is_oracle_mark_too_divergent.
     Inr (\<not> oracle_is_valid \<or> is_oracle_mark_too_divergent, oracle_price))))"

subsection \<open>Facts about valid oracles\<close>

text \<open>A feed of eight decimals at a price of 49, and the sample guard rails.\<close>

definition sample_oracle :: OracleInfo where
  "sample_oracle = \<lparr>oracle_info_key = ''H6ARHf6YXhGYeQfUzQNGk6rDNnLBQKrenN712K4AQJEG'',
     oracle_data = Some \<lparr>agg_price = 4900000000, agg_conf = 1000000, twap_val = 4890000000,
       twac_val = 1000000, expo = -8, valid_slot = 100000\<rparr>\<rparr>"

definition negative_oracle :: OracleInfo where
  "negative_oracle = \<lparr>oracle_info_key = ''H6ARHf6YXhGYeQfUzQNGk6rDNnLBQKrenN712K4AQJEG'',
     oracle_data = Some \<lparr>agg_price = -4900000000, agg_conf = 1000000, twap_val = 4890000000,
       twac_val = 1000000, expo = -8, valid_slot = 100000\<rparr>\<rparr>"

lemma sample_oracle_price:
  "get_pyth_price sample_oracle 100001 = Inr (490000000000, 489000000000, 100000000, 100000000, 1)"
  "get_pyth_price negative_oracle 100001 = Inr (-490000000000, 489000000000, 100000000, 100000000, 1)"
  by (simp_all add: get_pyth_price_def sample_oracle_def negative_oracle_def rust_eval constant_values
      scale_signed_def scale_unsigned_def sdiv_nonneg_eq take_bit_int_eq_self signed_divide_int_def)

text \<open>What the validity check answers, when it answers: the four conditions on the price.\<close>

lemma is_oracle_valid_Inr:
  assumes "is_oracle_valid a info slot rails = Inr True"
  obtains p t c tc d where "get_oracle_price a info slot = Inr (p, t, c, tc, d)" "0 < p" "0 < t"
    and "d \<le> slotsBeforeStale rails" "p sdiv max 1 t \<le> tooVolatileRatio rails"
    and "t sdiv max 1 p \<le> tooVolatileRatio rails"
    and "confidenceIntervalMaxSize rails \<le> p sdiv max 1 c"
    and "confidenceIntervalMaxSize rails \<le> t sdiv max 1 tc"
  using assms
  by (auto simp: is_oracle_valid_def bn_simps rust_simps Let_def not_less not_le
      split: prod.splits if_splits)

text \<open>A negative price does not make the oracle invalid: the check itself fails.\<close>

lemma is_oracle_valid_negative:
  assumes "get_oracle_price a info slot = Inr (p, t, c, tc, d)" "p < 0"
  shows "\<exists>e. is_oracle_valid a info slot rails = Inl e"
proof -
  have "\<not> fits u128 p" using assms(2) by simp
  then have "is_oracle_valid a info slot rails \<noteq> Inr b" for b
    using assms by (auto simp: is_oracle_valid_def bn_simps rust_simps Let_def)
  then show ?thesis by (metis sum.exhaust)
qed

end
