(* ===== verification/ChainPositions.thy ===== *)
theory ChainPositions
  imports ChainOracle
begin

section \<open>The controllers of pools and positions\<close>

text \<open>
  \<open>controller/amm.rs\<close>, \<open>controller/position.rs\<close> and \<open>controller/repeg.rs\<close> of the on-chain program.
  An operation takes the accounts it changes and returns them changed, before its result; an
  error returns no account, since the runtime discards every change of a failed transaction.

  \<open>integer_sqrt\<close> is the method of the wide integers of the crate \<open>uint\<close>, an argument here.
\<close>

subsection \<open>Swaps\<close>

definition swap_quote_asset ::
  "ChainAMM \<Rightarrow> int \<Rightarrow> SwapDirection \<Rightarrow> int \<Rightarrow> int option \<Rightarrow> (ChainAMM \<times> int) chain_result" where
  "swap_quote_asset a quote direction now precomputed_mark_price =
     bindE (update_mark_twap a now precomputed_mark_price) (\<lambda>(a1, _).
     bindE (asset_to_reserve_amount quote (peg_multiplier a1)) (\<lambda>quote_asset_reserve_amount.
     bindE (guardE (quote_asset_reserve_amount < minimum_trade_size a1) TradeSizeTooSmall) (\<lambda>_.
     let initial_base_asset_reserve = base_asset_reserve a1 in
     bindE (calculate_swap_output quote_asset_reserve_amount (quote_asset_reserve a1) direction (sqrt_k a1))
       (\<lambda>(new_base_asset_reserve, new_quote_asset_reserve).
     let a2 = a1\<lparr>base_asset_reserve := new_base_asset_reserve,
                 quote_asset_reserve := new_quote_asset_reserve\<rparr> in
     bindE (cast_to_i128 initial_base_asset_reserve) (\<lambda>x.
     bindE (cast i128 new_base_asset_reserve) (\<lambda>y.
     bindE (sub_m i128 x y) (\<lambda>base. Inr (a2, base))))))))"

definition swap_base_asset ::
  "ChainAMM \<Rightarrow> int \<Rightarrow> SwapDirection \<Rightarrow> int \<Rightarrow> (ChainAMM \<times> int) chain_result" where
  "swap_base_asset a base_asset_swap_amount direction now =
     bindE (update_mark_twap a now None) (\<lambda>(a1, _).
     let initial_quote_asset_reserve = quote_asset_reserve a1 in
     bindE (calculate_swap_output base_asset_swap_amount (base_asset_reserve a1) direction (sqrt_k a1))
       (\<lambda>(new_quote_asset_reserve, new_base_asset_reserve).
     let a2 = a1\<lparr>base_asset_reserve := new_base_asset_reserve,
                 quote_asset_reserve := new_quote_asset_reserve\<rparr> in
     bindE (calculate_quote_asset_amount_swapped initial_quote_asset_reserve new_quote_asset_reserve
              direction (peg_multiplier a2)) (\<lambda>quote. Inr (a2, quote))))"

definition move_price :: "(int \<Rightarrow> int) \<Rightarrow> ChainAMM \<Rightarrow> int \<Rightarrow> int \<Rightarrow> ChainAMM chain_result" where
  "move_price integer_sqrt a base_reserve quote_reserve =
     bindE (mul_m U256 base_reserve quote_reserve) (\<lambda>k.
     bindE (try_to_u128 (integer_sqrt k)) (\<lambda>s.
     Inr (a\<lparr>base_asset_reserve := base_reserve, quote_asset_reserve := quote_reserve, sqrt_k := s\<rparr>)))"

definition move_to_price :: "(int \<Rightarrow> int) \<Rightarrow> ChainAMM \<Rightarrow> int \<Rightarrow> ChainAMM chain_result" where
  "move_to_price integer_sqrt a target_price =
     bindE (mul_m U256 (sqrt_k a) (sqrt_k a)) (\<lambda>k.
     bindE (mul_m U256 k (peg_multiplier a)) (\<lambda>n.
     bindE (mul_m U256 n PRICE_TO_PEG_PRECISION_RATIO) (\<lambda>n'.
     bindE (div_m U256 n' target_price) (\<lambda>new_base_asset_amount_squared.
     let new_base_asset_amount = integer_sqrt new_base_asset_amount_squared in
     bindE (div_m U256 k new_base_asset_amount) (\<lambda>new_quote_asset_amount.
     bindE (try_to_u128 new_base_asset_amount) (\<lambda>b.
     bindE (try_to_u128 new_quote_asset_amount) (\<lambda>q.
     Inr (a\<lparr>base_asset_reserve := b, quote_asset_reserve := q\<rparr>))))))))"

subsection \<open>Positions\<close>

definition swap_direction_of :: "PositionDirection \<Rightarrow> SwapDirection" where
  "swap_direction_of direction = (case direction of LONG \<Rightarrow> ADD | SHORT \<Rightarrow> REMOVE)"

text \<open>Moving the market's totals by the base asset that a position of size \<open>base\<close> (after the trade) took.\<close>

definition count_base :: "int \<Rightarrow> int \<Rightarrow> ChainMarket \<Rightarrow> ChainMarket chain_result" where
  "count_base base change market =
     (if base > 0
      then bindE (add_m i128 (base_asset_amount_long market) change) (\<lambda>l.
             Inr (market\<lparr>base_asset_amount_long := l\<rparr>))
      else bindE (add_m i128 (base_asset_amount_short market) change) (\<lambda>s.
             Inr (market\<lparr>base_asset_amount_short := s\<rparr>)))"

definition increase ::
  "PositionDirection \<Rightarrow> int \<Rightarrow> ChainMarket \<Rightarrow> ChainPosition \<Rightarrow> int \<Rightarrow>
     (ChainMarket \<times> ChainPosition \<times> int) chain_result" where
  "increase direction new_quote market market_position now =
     (if new_quote = 0 then Inr (market, market_position, 0)
      else
        bindE (if ChainPosition.base_asset_amount market_position = 0 then
                 bindE (add_m u128 (open_interest market) 1) (\<lambda>oi.
                 Inr (market\<lparr>open_interest := oi\<rparr>,
                      market_position\<lparr>last_cumulative_funding_rate :=
                        (case direction of
                           LONG \<Rightarrow> cumulative_funding_rate_long (amm market)
                         | SHORT \<Rightarrow> cumulative_funding_rate_short (amm market))\<rparr>))
               else Inr (market, market_position)) (\<lambda>(m1, p1).
        bindE (add_m u128 (quote_asset_amount p1) new_quote) (\<lambda>q.
        bindE (swap_quote_asset (amm m1) new_quote (swap_direction_of direction) now None)
          (\<lambda>(a, base_asset_acquired).
        bindE (add_m i128 (ChainPosition.base_asset_amount p1) base_asset_acquired) (\<lambda>b.
        bindE (add_m i128 (ChainMarket.base_asset_amount m1) base_asset_acquired) (\<lambda>mb.
        bindE (count_base b base_asset_acquired
                 (m1\<lparr>amm := a, ChainMarket.base_asset_amount := mb\<rparr>)) (\<lambda>m2.
        Inr (m2, p1\<lparr>quote_asset_amount := q, ChainPosition.base_asset_amount := b\<rparr>,
             base_asset_acquired))))))))"

text \<open>The profit of the closed part, for the side of the position that remains.\<close>

definition reduce_pnl :: "int \<Rightarrow> int \<Rightarrow> int \<Rightarrow> int chain_result" where
  "reduce_pnl base quote_asset_swap_amount initial_quote_asset_amount_closed =
     (if base > 0 then
        bindE (cast_to_i128 quote_asset_swap_amount) (\<lambda>x.
        bindE (cast i128 initial_quote_asset_amount_closed) (\<lambda>y. sub_m i128 x y))
      else
        bindE (cast_to_i128 initial_quote_asset_amount_closed) (\<lambda>x.
        bindE (cast i128 quote_asset_swap_amount) (\<lambda>y. sub_m i128 x y)))"

definition reduce ::
  "PositionDirection \<Rightarrow> int \<Rightarrow> ChainUser \<Rightarrow> ChainMarket \<Rightarrow> ChainPosition \<Rightarrow> int \<Rightarrow> int option \<Rightarrow>
     (ChainUser \<times> ChainMarket \<times> ChainPosition \<times> int) chain_result" where
  "reduce direction quote_asset_swap_amount usr market market_position now precomputed_mark_price =
     bindE (swap_quote_asset (amm market) quote_asset_swap_amount (swap_direction_of direction) now
              precomputed_mark_price) (\<lambda>(a, base_asset_swapped).
     let base_asset_amount_before = ChainPosition.base_asset_amount market_position in
     bindE (add_m i128 base_asset_amount_before base_asset_swapped) (\<lambda>b.
     bindE (sub_m u128 (open_interest market) (of_bool (b = 0))) (\<lambda>oi.
     bindE (add_m i128 (ChainMarket.base_asset_amount market) base_asset_swapped) (\<lambda>mb.
     bindE (count_base b base_asset_swapped
              (market\<lparr>amm := a, open_interest := oi, ChainMarket.base_asset_amount := mb\<rparr>)) (\<lambda>m1.
     bindE (sub_m i128 base_asset_amount_before b) (\<lambda>c.
     let base_asset_amount_change = wrap i128 \<bar>c\<bar> in
     bindE (mul_m u128 (quote_asset_amount market_position) \<bar>base_asset_amount_change\<bar>) (\<lambda>n.
     bindE (div_m u128 n \<bar>base_asset_amount_before\<bar>) (\<lambda>initial_quote_asset_amount_closed.
     bindE (sub_m u128 (quote_asset_amount market_position) initial_quote_asset_amount_closed) (\<lambda>q.
     bindE (reduce_pnl b quote_asset_swap_amount initial_quote_asset_amount_closed) (\<lambda>pnl.
     bindE (calculate_updated_collateral (collateral usr) pnl) (\<lambda>coll.
     Inr (usr\<lparr>collateral := coll\<rparr>, m1,
          market_position\<lparr>ChainPosition.base_asset_amount := b, quote_asset_amount := q\<rparr>,
          base_asset_swapped))))))))))))"

text \<open>The result is the quote value of the closed position and its base amount.\<close>

definition close_out ::
  "ChainUser \<Rightarrow> ChainMarket \<Rightarrow> ChainPosition \<Rightarrow> int \<Rightarrow>
     (ChainUser \<times> ChainMarket \<times> ChainPosition \<times> int \<times> int) chain_result" where
  "close_out usr market market_position now =
     (let base = ChainPosition.base_asset_amount market_position in
      if base = 0 then Inr (usr, market, market_position, 0, 0)
      else
        let swap_direction = (if base > 0 then ADD else REMOVE) in
        bindE (swap_base_asset (amm market) \<bar>base\<bar> swap_direction now) (\<lambda>(a, base_asset_value).
        bindE (calculate_pnl base_asset_value (quote_asset_amount market_position) swap_direction) (\<lambda>pnl.
        bindE (calculate_updated_collateral (collateral usr) pnl) (\<lambda>coll.
        bindE (sub_m u128 (open_interest market) 1) (\<lambda>oi.
        bindE (sub_m i128 (ChainMarket.base_asset_amount market) base) (\<lambda>mb.
        let m1 = market\<lparr>amm := a, open_interest := oi, ChainMarket.base_asset_amount := mb\<rparr> in
        bindE (if base > 0
               then bindE (sub_m i128 (base_asset_amount_long m1) base) (\<lambda>l.
                      Inr (m1\<lparr>base_asset_amount_long := l\<rparr>))
               else bindE (sub_m i128 (base_asset_amount_short m1) base) (\<lambda>s.
                      Inr (m1\<lparr>base_asset_amount_short := s\<rparr>))) (\<lambda>m2.
        Inr (usr\<lparr>collateral := coll\<rparr>, m2,
             market_position\<lparr>last_cumulative_funding_rate := 0, ChainPosition.last_funding_rate_ts := 0,
                             quote_asset_amount := 0, ChainPosition.base_asset_amount := 0\<rparr>,
             base_asset_value, base))))))))"

subsection \<open>Repegs\<close>

text \<open>The lower bound of the fees that the protocol keeps.\<close>

definition fee_lower_bound :: "ChainAMM \<Rightarrow> int chain_result" where
  "fee_lower_bound a =
     bindE (mul_m u128 (total_fee a) SHARE_OF_FEES_NUMERATOR) (\<lambda>n. div_m u128 n SHARE_OF_FEES_DENOMINATOR)"

text \<open>The checks of a repeg against a valid oracle, on the terminal prices before and after it.\<close>

definition check_repeg :: "int \<Rightarrow> int \<Rightarrow> int \<Rightarrow> int \<Rightarrow> int \<Rightarrow> unit chain_result" where
  "check_repeg oracle_price oracle_conf terminal_price_before terminal_price_after mark_price_after =
     bindE (cast_to_u128 oracle_price) (\<lambda>p.
     bindE (add_m u128 p oracle_conf) (\<lambda>oracle_conf_band_top.
     bindE (sub_m u128 p oracle_conf) (\<lambda>oracle_conf_band_bottom.
     bindE (if p > terminal_price_after then
              bindE (guardE (terminal_price_after < terminal_price_before) InvalidRepegDirection) (\<lambda>_.
              bindE (guardE (oracle_conf_band_bottom < terminal_price_after) InvalidRepegProfitability) (\<lambda>_.
              guardE (mark_price_after > oracle_conf_band_top) InvalidRepegProfitability))
            else Inr ()) (\<lambda>_.
     if p < terminal_price_after then
       bindE (guardE (terminal_price_after > terminal_price_before) InvalidRepegDirection) (\<lambda>_.
       bindE (guardE (oracle_conf_band_top > terminal_price_after) InvalidRepegProfitability) (\<lambda>_.
       guardE (mark_price_after < oracle_conf_band_bottom) InvalidRepegProfitability))
     else Inr ()))))"

definition repeg ::
  "ChainMarket \<Rightarrow> OracleInfo \<Rightarrow> int \<Rightarrow> int \<Rightarrow> OracleGuardRails \<Rightarrow> (ChainMarket \<times> int) chain_result" where
  "repeg market price_oracle new_peg_candidate clock_slot oracle_guard_rails =
     bindE (guardE (new_peg_candidate = peg_multiplier (amm market)) InvalidRepegRedundant) (\<lambda>_.
     bindE (calculate_terminal_price market) (\<lambda>terminal_price_before.
     bindE (adjust_peg_cost market new_peg_candidate) (\<lambda>(m1, adjustment_cost).
     bindE (get_oracle_price (amm m1) price_oracle clock_slot) (\<lambda>(oracle_price, _, oracle_conf, _, _).
     bindE (is_oracle_valid (amm m1) price_oracle clock_slot (validity oracle_guard_rails)) (\<lambda>oracle_is_valid.
     bindE (if oracle_is_valid then
              bindE (calculate_terminal_price m1) (\<lambda>terminal_price_after.
              bindE (calculate_price (quote_asset_reserve (amm m1)) (base_asset_reserve (amm m1))
                       (peg_multiplier (amm m1))) (\<lambda>mark_price_after.
              check_repeg oracle_price oracle_conf terminal_price_before terminal_price_after
                mark_price_after))
            else Inr ()) (\<lambda>_.
     if adjustment_cost > 0 then
       let fees = (case checked_sub u128 (total_fee_minus_distributions (amm m1)) \<bar>adjustment_cost\<bar> of
                     None \<Rightarrow> 0
                   | Some f \<Rightarrow> f) in
       bindE (fee_lower_bound (amm m1)) (\<lambda>lower_bound.
       bindE (guardE (fees < lower_bound) InvalidRepegProfitability) (\<lambda>_.
       Inr (m1\<lparr>amm := (amm m1)\<lparr>total_fee_minus_distributions := fees\<rparr>\<rparr>, adjustment_cost)))
     else
       bindE (add_m u128 (total_fee_minus_distributions (amm m1)) \<bar>adjustment_cost\<bar>) (\<lambda>fees.
       Inr (m1\<lparr>amm := (amm m1)\<lparr>total_fee_minus_distributions := fees\<rparr>\<rparr>, adjustment_cost))))))))"

end
