(* ===== verification/ChainAgree.thy ===== *)
theory ChainAgree
  imports ChainPositions Trade
begin

section \<open>The SDK and the program compute the same numbers\<close>

text \<open>
  The SDK repeats the mathematics of the on-chain program on unbounded integers, the program works
  on machine integers and fails when a number does not fit. This theory proves that the two agree:
  on an account and the SDK's copy of it (\<open>mirrors_market\<close>, \<open>mirrors_position\<close>), whatever the program
  answers the SDK answers too, and within stated sizes the program does answer.
\<close>

subsection \<open>Prices and swaps\<close>

lemma calculatePrice_ratio:
  "0 < b \<Longrightarrow> 0 \<le> q \<Longrightarrow> 0 \<le> peg \<Longrightarrow>
     calculatePrice b q peg = (q * peg * PRICE_TO_PEG_PRECISION_RATIO) sdiv b"
proof -
  assume b: "0 < b" and "0 \<le> q" "0 \<le> peg"
  have "q * MARK_PRICE_PRECISION * peg = (q * peg * PRICE_TO_PEG_PRECISION_RATIO) * PEG_PRECISION"
    by (simp add: constant_values chain_constants)
  then have "(q * MARK_PRICE_PRECISION * peg) sdiv PEG_PRECISION = q * peg * PRICE_TO_PEG_PRECISION_RATIO"
    by (simp only: sdiv_mult_cancel constants_pos)
  with b show ?thesis by (simp only: calculatePrice_pos_base)
qed

text \<open>
  The price of the program is the price of the SDK, for all reserves and pegs of the machine
  type: it fails with \<open>MathError\<close> exactly when the base reserve is zero or the pegged quote reserve
  does not fit 128 bits, with \<open>BnConversionError\<close> exactly when the price itself does not, and
  otherwise returns the number that the SDK computes.
\<close>

theorem price_agrees:
  assumes "fits u128 q" "fits u128 b" "fits u128 peg"
  shows "calculate_price q b peg =
           (if b = 0 \<or> 2 ^ 128 \<le> q * peg then Inl (Err MathError)
            else if 2 ^ 128 \<le> calculatePrice b q peg then Inl (Err BnConversionError)
            else Inr (calculatePrice b q peg))"
proof -
  have nn: "0 \<le> q" "0 \<le> b" "0 \<le> peg" using assms by auto
  then have qp: "0 \<le> q * peg" by simp
  show ?thesis
  proof (cases "b = 0 \<or> 2 ^ 128 \<le> q * peg")
    case True
    with qp show ?thesis by (auto simp: calculate_price_def checked_ops)
  next
    case False
    with nn have b: "0 < b" by auto
    let ?n = "q * peg * PRICE_TO_PEG_PRECISION_RATIO"
    have "fits U192 (x * 10000000)" if "0 \<le> x" "x < 2 ^ 128" for x :: int using that by simp
    from this [OF qp] False have n: "fits U192 ?n" unfolding chain_constants by (meson not_le)
    then have d: "fits U192 (?n sdiv b)" using b by (rule sdiv_fits_unsigned)
    have "calculate_price q b peg = try_to_u128 (?n sdiv b)"
      unfolding calculate_price_def using False qp n d b by (simp add: checked_ops_ok del: fits.simps)
        (simp add: checked_ops_ok)
    moreover have "0 \<le> calculatePrice b q peg" using calculatePrice_nonneg [OF b] nn by simp
    ultimately show ?thesis
      using False calculatePrice_ratio [OF b nn(1) nn(3)] by (auto simp: try_to_u128_def)
  qed
qed

theorem price_agrees_witness:
  "calculate_price 10000000000000000 10000000000000000 50000 = Inr 500000000000 \<and>
   calculate_price (2 ^ 127) 1 2 = Inl (Err MathError) \<and>
   calculate_price (2 ^ 127) 1 1 = Inl (Err BnConversionError)"
  using price_agrees [of 10000000000000000 10000000000000000 50000] price_agrees [of "2 ^ 127" 1 2]
    price_agrees [of "2 ^ 127" 1 1]
  by (simp add: calculatePrice_def constant_values sdiv_nonneg_eq)

lemma swap_output_Inr:
  assumes "calculate_swap_output n inp d s = Inr (out, inp')"
  shows "inp' = (if d = ADD then inp + n else inp - n)" "inp' \<noteq> 0" "out = (s * s) sdiv inp'"
    and "0 < inp'" "0 \<le> out" "fits u128 inp'" "fits u128 out"
  using assms by (auto simp: calculate_swap_output_def bn_simps rust_simps split: if_splits)

lemma swap_output_ok:
  assumes "inp' = (if d = ADD then inp + n else inp - n)" "0 < inp'" "fits u128 inp'"
    and "fits u128 s" "s < 2 ^ 96" "(s * s) sdiv inp' < 2 ^ 128"
  shows "calculate_swap_output n inp d s = Inr ((s * s) sdiv inp', inp')"
proof -
  have s: "0 \<le> s" "s \<le> 2 ^ 96 - 1" using assms(4,5) by auto
  then have "s * s \<le> (2 ^ 96 - 1) * (2 ^ 96 - 1)" by (intro mult_mono) auto
  then have k: "fits U192 (s * s)" using s by simp
  then have "fits U192 ((s * s) sdiv inp')" using assms(2) by (rule sdiv_fits_unsigned)
  moreover have "fits u128 ((s * s) sdiv inp')" using s assms(2,6) by simp
  moreover have "(if d = ADD then add_m u128 inp n else sub_m u128 inp n) = Inr inp'"
    using assms(1,3) by (auto simp only: checked_ops_ok split: if_splits)
  ultimately show ?thesis
    using k assms(2) by (simp only: calculate_swap_output_def checked_ops_ok try_to_u128_def bindE.simps
        less_imp_neq [symmetric] not_False_eq_True if_True)
qed

text \<open>The SDK's swap of base asset and of quote asset on a copy of the pool.\<close>

lemma sdk_base_swap:
  assumes "mirrors_amm s a" "0 \<le> n" "calculate_swap_output n (base_asset_reserve a) d (sqrt_k a) = Inr (q, b)"
  shows "calculateAmmReservesAfterSwap s Base n d = Inr (q, b)"
  using swap_output_Inr [OF assms(3)] assms(1,2)
  by (auto simp: base_swap_eval Let_def mirrors_amm_simps split: if_splits)

lemma sdk_quote_swap:
  assumes "mirrors_amm s a" "0 \<le> n" "asset_to_reserve_amount n (peg_multiplier a) = Inr r"
    and "calculate_swap_output r (quote_asset_reserve a) d (sqrt_k a) = Inr (b, q)"
  shows "calculateAmmReservesAfterSwap s Quote n d = Inr (q, b)"
proof -
  have r: "r = (n * AMM_TIMES_PEG_TO_QUOTE_PRECISION_RATIO) sdiv peg_multiplier a" "peg_multiplier a \<noteq> 0"
    using assms(3) by (auto simp: asset_to_reserve_amount_def bn_simps rust_simps)
  then show ?thesis
    using swap_output_Inr [OF assms(4)] assms(1,2)
    by (auto simp: quote_swap_eval Let_def mirrors_amm_simps split: if_splits)
qed

subsection \<open>Trades\<close>

lemma swap_quote_asset_Inr:
  assumes "swap_quote_asset a n d now pre = Inr (a', base)"
  obtains t r b q where "asset_to_reserve_amount n (peg_multiplier a) = Inr r"
    and "calculate_swap_output r (quote_asset_reserve a) d (sqrt_k a) = Inr (b, q)"
    and "minimum_trade_size a \<le> r" "base = base_asset_reserve a - b" "fits i128 base"
    and "fits i128 (base_asset_reserve a)" "fits i128 b"
    and "a' = a\<lparr>last_mark_price_twap := t, last_mark_price_twap_ts := now,
               base_asset_reserve := b, quote_asset_reserve := q\<rparr>"
  using assms
  by (auto simp: swap_quote_asset_def update_mark_twap_def bn_simps rust_simps Let_def not_less
      simp del: fits.simps split: prod.splits)

lemma swap_base_asset_Inr:
  assumes "swap_base_asset a n d now = Inr (a', quote)"
  obtains t b q where "calculate_swap_output n (base_asset_reserve a) d (sqrt_k a) = Inr (q, b)"
    and "calculate_quote_asset_amount_swapped (quote_asset_reserve a) q d (peg_multiplier a) = Inr quote"
    and "a' = a\<lparr>last_mark_price_twap := t, last_mark_price_twap_ts := now,
               base_asset_reserve := b, quote_asset_reserve := q\<rparr>"
  using assms
  by (auto simp: swap_base_asset_def update_mark_twap_def bn_simps rust_simps Let_def
      simp del: fits.simps split: prod.splits)

lemma swap_direction_of_quote: "swap_direction_of d = getSwapDirection Quote d"
  by (cases d) (simp_all add: swap_direction_of_def)

text \<open>
  C7: a trade has the effect that the SDK predicts: when the program swaps a quote amount different
  from zero, the base asset it moves is the one \<open>calculateTradeAcquiredAmounts\<close> computes on the
  SDK's copy of the market, and the reserves afterwards are those of \<open>calculateAmmReservesAfterSwap\<close>.
\<close>

theorem trade_as_predicted:
  assumes "mirrors_market s m" "0 < n"
    and "swap_quote_asset (ChainMarket.amm m) n (swap_direction_of d) now pre = Inr (a', base)"
  shows "calculateTradeAcquiredAmounts d n s Quote =
           Inr (base, quote_asset_reserve (ChainMarket.amm m) - quote_asset_reserve a') \<and>
         calculateAmmReservesAfterSwap (Market.amm s) Quote n (getSwapDirection Quote d) =
           Inr (quote_asset_reserve a', base_asset_reserve a')"
proof -
  have mir: "mirrors_amm (Market.amm s) (ChainMarket.amm m)" using assms(1) by (rule mirrors_market_amm)
  obtain t r b q where swap: "asset_to_reserve_amount n (peg_multiplier (ChainMarket.amm m)) = Inr r"
      "calculate_swap_output r (quote_asset_reserve (ChainMarket.amm m)) (swap_direction_of d)
         (sqrt_k (ChainMarket.amm m)) = Inr (b, q)"
    and base: "base = base_asset_reserve (ChainMarket.amm m) - b"
    and a': "a' = (ChainMarket.amm m)\<lparr>last_mark_price_twap := t, last_mark_price_twap_ts := now,
               base_asset_reserve := b, quote_asset_reserve := q\<rparr>"
    using assms(3) by (rule swap_quote_asset_Inr)
  from sdk_quote_swap [OF mir _ swap] assms(2)
  have sdk: "calculateAmmReservesAfterSwap (Market.amm s) Quote n (getSwapDirection Quote d) = Inr (q, b)"
    by (simp add: swap_direction_of_quote)
  then show ?thesis
    using assms(2) by (simp add: calculateTradeAcquiredAmounts_def base a' ZERO_def
        mirrors_amm_simps [OF mir])
qed

theorem trade_as_predicted_witness:
  "\<exists>a'. swap_quote_asset chain_amm 5000000 (swap_direction_of LONG) 1640998800 None = Inr (a', 999900010000) \<and>
     calculateTradeAcquiredAmounts LONG 5000000 sample_market Quote =
       Inr (999900010000, quote_asset_reserve chain_amm - quote_asset_reserve a')"
proof -
  have "\<exists>a'. swap_quote_asset (ChainMarket.amm chain_market) 5000000 (swap_direction_of LONG) 1640998800 None =
      Inr (a', 999900010000)"
    by (simp add: swap_quote_asset_def update_mark_twap_def calculate_new_mark_twap_def twap_weights_def
        mark_price_def calculate_price_def calculate_twap_def asset_to_reserve_amount_def
        calculate_swap_output_def swap_direction_of_def rust_eval chain_samples constant_values
        chain_constants sdiv_nonneg_eq)
  then obtain a' where run: "swap_quote_asset (ChainMarket.amm chain_market) 5000000 (swap_direction_of LONG)
      1640998800 None = Inr (a', 999900010000)" by blast
  from trade_as_predicted [OF chain_samples_mirrored(2) _ run] run show ?thesis
    by (auto simp: chain_market_def)
qed

subsection \<open>Position values and profits\<close>

lemma swap_direction_to_close:
  "base \<noteq> 0 \<Longrightarrow> swap_direction_to_close_position base = getSwapDirection Base (directionToClose base)"
  by (simp add: swap_direction_to_close_position_def directionToClose_def ZERO_def)

lemma quote_swapped_Inr:
  assumes "calculate_quote_asset_amount_swapped before after d peg = Inr v"
  shows "v = ((if d = ADD then before - after else after - before) * peg)
               sdiv AMM_TIMES_PEG_TO_QUOTE_PRECISION_RATIO"
  using assms by (cases d) (auto simp: calculate_quote_asset_amount_swapped_def reserve_to_asset_amount_def
      bn_simps rust_simps simp del: fits.simps)

lemma calculate_pnl_Inr:
  assumes "calculate_pnl v e d = Inr pnl"
  shows "pnl = (if d = ADD then v - e else e - v - 1)"
  using assms by (cases d) (auto simp: calculate_pnl_def bn_simps rust_simps simp del: fits.simps)

text \<open>Whatever the program answers for a position the SDK answers too.\<close>

lemma chain_value_sound:
  assumes "mirrors_market s m" "mirrors_position sp p"
    and "calculate_base_asset_value_and_pnl p (ChainMarket.amm m) = Inr (v, pnl)"
  shows "calculateBaseAssetValue s sp = Inr v" "calculatePositionPNL s sp False = Inr pnl"
proof -
  let ?a = "ChainMarket.amm m" and ?b = "ChainPosition.base_asset_amount p"
  have mir: "mirrors_amm (Market.amm s) ?a" using assms(1) by (rule mirrors_market_amm)
  note sp = mirrors_position_simps [OF assms(2)] and sa = mirrors_amm_simps [OF mir]
  have "calculateBaseAssetValue s sp = Inr v \<and> calculatePositionPNL s sp False = Inr pnl"
  proof (cases "?b = 0")
    case True
    then show ?thesis using assms(3)
      by (simp add: calculate_base_asset_value_and_pnl_def base_asset_value_and_pnl_def sp
          calculatePositionPNL_def ZERO_def)
  next
    case False
    let ?d = "swap_direction_to_close_position ?b"
    obtain q b where swap: "calculate_swap_output \<bar>?b\<bar> (base_asset_reserve ?a) ?d (sqrt_k ?a) = Inr (q, b)"
      and v: "calculate_quote_asset_amount_swapped (quote_asset_reserve ?a) q ?d (peg_multiplier ?a) = Inr v"
      and pnl: "calculate_pnl v (quote_asset_amount p) ?d = Inr pnl"
      using assms(3) False
      by (auto simp: calculate_base_asset_value_and_pnl_def base_asset_value_and_pnl_def Let_def bn_simps
          split: prod.splits)
    have reserves: "calculateAmmReservesAfterSwap (Market.amm s) Base \<bar>?b\<bar>
        (getSwapDirection Base (directionToClose ?b)) = Inr (q, b)"
      using sdk_base_swap [OF mir _ swap] swap_direction_to_close [OF False] by simp
    have d: "?d = (if ?b > 0 then ADD else REMOVE)"
      using False by (simp add: swap_direction_to_close_position_def)
    have "calculateBaseAssetValue s sp = Inr v"
      using quote_swapped_Inr [OF v] reserves False d
      by (simp add: calculateBaseAssetValue_def sp sa ZERO_def Let_def directionToClose_def
          split: if_splits)
    then show ?thesis
      using calculate_pnl_Inr [OF pnl] False d
      by (simp add: calculatePositionPNL_def sp ZERO_def ONE_def split: if_splits)
  qed
  then show "calculateBaseAssetValue s sp = Inr v" "calculatePositionPNL s sp False = Inr pnl" by auto
qed

text \<open>
  The sizes in which the program values every position the pool can close: \<open>sqrt_k\<close> below \<open>2 ^ 96\<close>
  (its square must fit 192 bits), reserves and positions below \<open>2 ^ 126\<close>.
\<close>

definition pool_sized :: "ChainAMM \<Rightarrow> bool" where
  "pool_sized a \<longleftrightarrow> sqrt_k a < 2 ^ 96 \<and> base_asset_reserve a < 2 ^ 126 \<and> quote_asset_reserve a < 2 ^ 126"

definition position_sized :: "ChainPosition \<Rightarrow> bool" where
  "position_sized p \<longleftrightarrow> \<bar>ChainPosition.base_asset_amount p\<bar> < 2 ^ 126 \<and>
     0 \<le> quote_asset_amount p \<and> quote_asset_amount p < 2 ^ 126"

lemma scaled_value_fits:
  assumes "(d * peg) sdiv AMM_TIMES_PEG_TO_QUOTE_PRECISION_RATIO < 2 ^ 92" "0 \<le> d" "0 < peg"
  shows "0 \<le> d * peg" "d * peg < 2 ^ 126" "d < 2 ^ 126"
proof -
  show *: "0 \<le> d * peg" using assms by simp
  then have "d * peg < 2 ^ 92 * AMM_TIMES_PEG_TO_QUOTE_PRECISION_RATIO"
    using assms(1) sdiv_less_iff [of "d * peg" AMM_TIMES_PEG_TO_QUOTE_PRECISION_RATIO "2 ^ 92"] by simp
  then show "d * peg < 2 ^ 126" by (simp add: constant_values)
  moreover have "d * 1 \<le> d * peg" using assms by (intro mult_left_mono) auto
  ultimately show "d < 2 ^ 126" by simp
qed

lemma quote_swapped_ok:
  assumes "d = (if dir = ADD then before - after else after - before)" "0 \<le> d" "0 < peg"
    and "(d * peg) sdiv AMM_TIMES_PEG_TO_QUOTE_PRECISION_RATIO < 2 ^ 92"
  shows "calculate_quote_asset_amount_swapped before after dir peg =
           Inr ((d * peg) sdiv AMM_TIMES_PEG_TO_QUOTE_PRECISION_RATIO)"
  using scaled_value_fits [OF assms(4,2,3)] assms(1,2)
  by (cases dir) (auto simp: calculate_quote_asset_amount_swapped_def reserve_to_asset_amount_def
      checked_ops div_p_def)

lemma calculate_pnl_ok:
  assumes "0 \<le> v" "v < 2 ^ 92" "0 \<le> e" "e < 2 ^ 126"
  shows "calculate_pnl v e d = Inr (if d = ADD then v - e else e - v - 1)"
  using assms by (cases d) (auto simp: calculate_pnl_def checked_ops casts cast_def)

text \<open>The swap that closes a position, on both sides of it, within the sizes.\<close>

lemma closing_swap_ok:
  assumes mir: "mirrors_amm sa a" and ok: "curve_ok sa" and typed: "amm_typed a" and sized: "pool_sized a"
    and b: "base \<noteq> 0" "\<bar>base\<bar> < 2 ^ 126" "- base < base_asset_reserve a"
    and v: "scaled sa (if base > 0 then quote_out sa base else quote_in sa (- base)) < 2 ^ 92"
  shows "\<exists>q b. calculate_swap_output \<bar>base\<bar> (base_asset_reserve a)
                 (if base > 0 then ADD else REMOVE) (sqrt_k a) = Inr (q, b) \<and>
               q = (if base > 0 then quote_asset_reserve a - quote_out sa base
                    else quote_asset_reserve a + quote_in sa (- base))"
proof -
  note sa = mirrors_amm_simps [OF mir] and c = curve_okD [OF ok] and t = amm_typedD [OF typed]
  let ?d = "if base > 0 then ADD else REMOVE"
  let ?in = "if ?d = ADD then base_asset_reserve a + \<bar>base\<bar> else base_asset_reserve a - \<bar>base\<bar>"
  have k: "curve_k sa = sqrt_k a * sqrt_k a" by (simp add: curve_k_def sa)
  have pos: "0 < ?in" using b c sa by auto
  have small: "fits u128 ?in" using pos b sized t by (auto simp: pool_sized_def)
  have out: "(sqrt_k a * sqrt_k a) sdiv ?in =
      (if base > 0 then quote_asset_reserve a - quote_out sa base
       else quote_asset_reserve a + quote_in sa (- base))"
    using b by (simp add: quote_out_def quote_in_def k [symmetric] sa)
  have "(sqrt_k a * sqrt_k a) sdiv ?in < 2 ^ 128"
  proof (cases "base > 0")
    case True
    then have "0 \<le> quote_out sa base" using base_pool.out_add_range [OF ok, of base] by simp
    with True out sized show ?thesis by (simp add: pool_sized_def)
  next
    case False
    then have n: "0 < - base" "- base < baseAssetReserve sa" using b sa by auto
    from base_pool.out_remove_nonneg [OF ok n] have "0 \<le> quote_in sa (- base)" .
    moreover from v False have "(quote_in sa (- base) * pegMultiplier sa)
        sdiv AMM_TIMES_PEG_TO_QUOTE_PRECISION_RATIO < 2 ^ 92" by (simp add: scaled_def)
    ultimately have "quote_in sa (- base) < 2 ^ 126" using c by (intro scaled_value_fits)
    with False out sized show ?thesis by (simp add: pool_sized_def)
  qed
  then have "calculate_swap_output \<bar>base\<bar> (base_asset_reserve a) ?d (sqrt_k a) =
      Inr ((sqrt_k a * sqrt_k a) sdiv ?in, ?in)"
    using pos small t sized by (intro swap_output_ok) (simp_all only: pool_sized_def)
  with out show ?thesis by blast
qed

text \<open>
  C15: the program and the SDK value a position alike. On a well-formed pool that can close the
  position, within the sizes of \<open>pool_sized\<close> and \<open>position_sized\<close> and for values below \<open>2 ^ 92\<close>, the
  program does not fail and its value and profit are the ones the SDK computes.
\<close>

theorem values_agree:
  assumes "mirrors_market s m" "mirrors_position sp p" "closable s sp"
    and "amm_typed (ChainMarket.amm m)" "pool_sized (ChainMarket.amm m)" "position_sized p"
    and "calculateBaseAssetValue s sp = Inr v" "v < 2 ^ 92"
  shows "\<exists>pnl. calculate_base_asset_value_and_pnl p (ChainMarket.amm m) = Inr (v, pnl) \<and>
               calculatePositionPNL s sp False = Inr pnl"
proof -
  let ?a = "ChainMarket.amm m" and ?b = "ChainPosition.base_asset_amount p" and ?sa = "Market.amm s"
  have mir: "mirrors_amm ?sa ?a" using assms(1) by (rule mirrors_market_amm)
  note sp = mirrors_position_simps [OF assms(2)] and sa = mirrors_amm_simps [OF mir]
  have ok: "curve_ok ?sa" and close: "- ?b < base_asset_reserve ?a"
    using assms(3) by (simp_all add: closable_def sp sa)
  note c = curve_okD [OF ok]
  have "\<exists>pnl. calculate_base_asset_value_and_pnl p ?a = Inr (v, pnl)"
  proof (cases "?b = 0")
    case True
    then show ?thesis using assms(7)
      by (simp add: calculate_base_asset_value_and_pnl_def base_asset_value_and_pnl_def sp)
  next
    case False
    let ?d = "if ?b > 0 then ADD else REMOVE"
    let ?q = "if ?b > 0 then quote_out ?sa ?b else quote_in ?sa (- ?b)"
    have v: "v = scaled ?sa ?q"
      using assms(7) False ok close value_long [of s sp] value_short [of s sp] by (auto simp: sp sa)
    have q: "0 \<le> ?q" using False base_pool.out_add_range [OF ok, of ?b]
        base_pool.out_remove_nonneg [OF ok, of "- ?b"] close sa by auto
    have "\<bar>?b\<bar> < 2 ^ 126" "0 \<le> quote_asset_amount p" "quote_asset_amount p < 2 ^ 126"
      using assms(6) by (simp_all add: position_sized_def)
    note size = this
    from closing_swap_ok [OF mir ok assms(4,5) False size(1) close] v assms(8) obtain nq nb
      where swap: "calculate_swap_output \<bar>?b\<bar> (base_asset_reserve ?a) ?d (sqrt_k ?a) = Inr (nq, nb)"
        and nq: "?q = (if ?d = ADD then quote_asset_reserve ?a - nq else nq - quote_asset_reserve ?a)"
      by (metis (no_types, opaque_lifting) SwapDirection.distinct(1) add_diff_cancel_left' diff_diff_eq2)
    have "calculate_quote_asset_amount_swapped (quote_asset_reserve ?a) nq ?d (peg_multiplier ?a) = Inr v"
      using quote_swapped_ok [OF nq q, of "peg_multiplier ?a"] v assms(8) c sa by (simp add: scaled_def)
    moreover have "0 \<le> v" using assms(3,7) by (auto elim: closable_value)
    then have "calculate_pnl v (quote_asset_amount p) ?d =
        Inr (if ?d = ADD then v - quote_asset_amount p else quote_asset_amount p - v - 1)"
      using assms(8) size by (intro calculate_pnl_ok)
    moreover have "swap_direction_to_close_position ?b = ?d"
      using False by (simp add: swap_direction_to_close_position_def)
    ultimately show ?thesis using False swap
      by (simp add: calculate_base_asset_value_and_pnl_def base_asset_value_and_pnl_def Let_def)
  qed
  then obtain pnl where "calculate_base_asset_value_and_pnl p ?a = Inr (v, pnl)" by blast
  with chain_value_sound(2) [OF assms(1,2)] show ?thesis by blast
qed

theorem values_agree_witness:
  "\<exists>pnl. calculate_base_asset_value_and_pnl chain_position chain_amm = Inr (49950049, pnl) \<and>
         calculatePositionPNL sample_market sample_position False = Inr pnl"
proof -
  have "calculateBaseAssetValue sample_market sample_position = Inr 49950049"
    by (simp add: value_long scaled_def quote_out_def curve_k_def constant_values)
  moreover have "closable sample_market sample_position" by (simp add: closable_def)
  moreover have "pool_sized (ChainMarket.amm chain_market)" "position_sized chain_position"
    "amm_typed (ChainMarket.amm chain_market)"
    using chain_samples_typed(1) by (simp_all add: pool_sized_def position_sized_def chain_samples)
  ultimately show ?thesis
    using values_agree [OF chain_samples_mirrored(2,3)] by (simp add: chain_market_def)
qed

end
