(* ===== verification/ChainLedger.thy ===== *)
theory ChainLedger
  imports ChainAgree
begin

section \<open>The ledger of a market\<close>

text \<open>
  A market keeps totals of the positions in it: the net base asset, its long and its short part,
  and the open interest. The step relation \<open>ledger_step\<close> has the position operations of the
  controller as the handlers call them, and any change of the pool in between (funding, repegs,
  price moves, changes of \<open>k\<close>); the invariant \<open>ledger_ok\<close> relates the totals to the positions of all
  users. \<open>sides_ok\<close> is the finer statement about the two sides, which needs a pool on its curve.
\<close>

subsection \<open>Totals\<close>

definition base_total :: "ChainPosition list \<Rightarrow> int" where
  "base_total ps = (\<Sum>p\<leftarrow>ps. ChainPosition.base_asset_amount p)"

definition long_total :: "ChainPosition list \<Rightarrow> int" where
  "long_total ps = (\<Sum>p\<leftarrow>ps. max 0 (ChainPosition.base_asset_amount p))"

definition short_total :: "ChainPosition list \<Rightarrow> int" where
  "short_total ps = (\<Sum>p\<leftarrow>ps. min 0 (ChainPosition.base_asset_amount p))"

definition open_count :: "ChainPosition list \<Rightarrow> int" where
  "open_count ps = (\<Sum>p\<leftarrow>ps. of_bool (is_open_position p))"

definition ledger_ok :: "ChainMarket \<times> ChainPosition list \<Rightarrow> bool" where
  "ledger_ok s \<longleftrightarrow> (case s of (m, ps) \<Rightarrow>
     ChainMarket.base_asset_amount m = base_total ps \<and>
     base_asset_amount_long m + base_asset_amount_short m = base_total ps \<and>
     open_count ps \<le> open_interest m)"

definition sides_ok :: "ChainMarket \<Rightarrow> ChainPosition list \<Rightarrow> bool" where
  "sides_ok m ps \<longleftrightarrow> base_asset_amount_long m = long_total ps \<and> base_asset_amount_short m = short_total ps"

lemma sum_list_update:
  "i < length ps \<Longrightarrow> (\<Sum>p\<leftarrow>ps[i := q]. f p) = (\<Sum>p\<leftarrow>ps. f p) - f (ps ! i) + (f q :: int)"
  by (induction ps arbitrary: i) (auto split: nat.splits simp: nth_Cons)

lemma totals_update:
  assumes "i < length ps"
  shows "base_total (ps[i := q]) =
      base_total ps - ChainPosition.base_asset_amount (ps ! i) + ChainPosition.base_asset_amount q"
    and "long_total (ps[i := q]) =
      long_total ps - max 0 (ChainPosition.base_asset_amount (ps ! i)) + max 0 (ChainPosition.base_asset_amount q)"
    and "short_total (ps[i := q]) =
      short_total ps - min 0 (ChainPosition.base_asset_amount (ps ! i)) + min 0 (ChainPosition.base_asset_amount q)"
    and "open_count (ps[i := q]) =
      open_count ps - of_bool (is_open_position (ps ! i)) + of_bool (is_open_position q)"
  using assms
  by (simp_all add: base_total_def long_total_def short_total_def open_count_def sum_list_update)

subsection \<open>What the operations do to the totals\<close>

lemma count_base_Inr:
  assumes "count_base b c m = Inr m'"
  shows "m' = (if b > 0 then m\<lparr>base_asset_amount_long := base_asset_amount_long m + c\<rparr>
               else m\<lparr>base_asset_amount_short := base_asset_amount_short m + c\<rparr>)"
  using assms by (auto simp: count_base_def bn_simps rust_simps simp del: fits.simps split: if_splits)

text \<open>A trade that changes a position by \<open>c\<close> moves the totals and the side of the new position by \<open>c\<close>.\<close>

definition moved_by :: "int \<Rightarrow> ChainMarket \<Rightarrow> ChainPosition \<Rightarrow> ChainMarket \<Rightarrow> ChainPosition \<Rightarrow> bool" where
  "moved_by c m p m' p' \<longleftrightarrow>
     ChainPosition.base_asset_amount p' = ChainPosition.base_asset_amount p + c \<and>
     ChainMarket.base_asset_amount m' = ChainMarket.base_asset_amount m + c \<and>
     base_asset_amount_long m' =
       base_asset_amount_long m + (if ChainPosition.base_asset_amount p' > 0 then c else 0) \<and>
     base_asset_amount_short m' =
       base_asset_amount_short m + (if ChainPosition.base_asset_amount p' > 0 then 0 else c)"

lemma increase_Inr:
  assumes "increase d q m p now = Inr (m', p', c)"
  shows "moved_by c m p m' p'"
    and "open_interest m' = open_interest m + of_bool (q \<noteq> 0 \<and> \<not> is_open_position p)"
    and "q = 0 \<Longrightarrow> m' = m \<and> p' = p \<and> c = 0"
    and "q \<noteq> 0 \<Longrightarrow> swap_quote_asset (ChainMarket.amm m) q (swap_direction_of d) now None = Inr (ChainMarket.amm m', c)"
proof -
  have "moved_by c m p m' p' \<and>
    open_interest m' = open_interest m + of_bool (q \<noteq> 0 \<and> \<not> is_open_position p) \<and>
    (q = 0 \<longrightarrow> m' = m \<and> p' = p \<and> c = 0) \<and>
    (q \<noteq> 0 \<longrightarrow> swap_quote_asset (ChainMarket.amm m) q (swap_direction_of d) now None = Inr (ChainMarket.amm m', c))"
  proof (cases "q = 0")
    case True
    with assms show ?thesis by (simp add: increase_def moved_by_def)
  next
    case False
    with assms show ?thesis
      by (auto simp: increase_def moved_by_def is_open_position_def bn_simps checked_ops_Inr
          simp del: fits.simps split: if_splits dest!: count_base_Inr)
  qed
  then show "moved_by c m p m' p'"
    and "open_interest m' = open_interest m + of_bool (q \<noteq> 0 \<and> \<not> is_open_position p)"
    and "q = 0 \<Longrightarrow> m' = m \<and> p' = p \<and> c = 0"
    and "q \<noteq> 0 \<Longrightarrow> swap_quote_asset (ChainMarket.amm m) q (swap_direction_of d) now None = Inr (ChainMarket.amm m', c)"
    by auto
qed

lemma reduce_Inr:
  assumes "reduce d q usr m p now pre = Inr (usr', m', p', c)"
  shows "moved_by c m p m' p' \<and> is_open_position p \<and>
    open_interest m' = open_interest m - of_bool (\<not> is_open_position p') \<and>
    swap_quote_asset (ChainMarket.amm m) q (swap_direction_of d) now pre = Inr (ChainMarket.amm m', c)"
proof (cases "swap_quote_asset (ChainMarket.amm m) q (swap_direction_of d) now pre")
  case (Inr r)
  then obtain a s where swap: "swap_quote_asset (ChainMarket.amm m) q (swap_direction_of d) now pre = Inr (a, s)"
    by (cases r) auto
  let ?b = "ChainPosition.base_asset_amount p + s"
  obtain m1 where count: "count_base ?b s (m\<lparr>ChainMarket.amm := a, open_interest := open_interest m - of_bool (?b = 0),
        ChainMarket.base_asset_amount := ChainMarket.base_asset_amount m + s\<rparr>) = Inr m1"
    and res: "m' = m1" "c = s" "ChainPosition.base_asset_amount p' = ?b" "ChainPosition.base_asset_amount p \<noteq> 0"
    using assms swap
    by (auto simp: reduce_def Let_def bindE_Inr_iff checked_ops_Inr simp del: fits.simps wrap.simps)
  from count_base_Inr [OF count] res swap show ?thesis
    by (auto simp: moved_by_def is_open_position_def)
qed (use assms in \<open>simp add: reduce_def\<close>)

lemma close_Inr:
  assumes "close_out usr m p now = Inr (usr', m', p', v, b)"
  shows "b = ChainPosition.base_asset_amount p \<and> \<not> is_open_position p' \<and>
    ChainMarket.base_asset_amount m' = ChainMarket.base_asset_amount m - b \<and>
    base_asset_amount_long m' = base_asset_amount_long m - (if b > 0 then b else 0) \<and>
    base_asset_amount_short m' = base_asset_amount_short m - (if b > 0 then 0 else b) \<and>
    open_interest m' = open_interest m - of_bool (b \<noteq> 0) \<and>
    (b \<noteq> 0 \<longrightarrow> swap_base_asset (ChainMarket.amm m) \<bar>b\<bar> (if b > 0 then ADD else REMOVE) now =
       Inr (ChainMarket.amm m', v))"
  using assms
  by (auto simp: close_out_def is_open_position_def Let_def bn_simps checked_ops_Inr
      simp del: fits.simps split: if_splits)

subsection \<open>The invariant\<close>

inductive ledger_step :: "ChainMarket \<times> ChainPosition list \<Rightarrow> ChainMarket \<times> ChainPosition list \<Rightarrow> bool" where
  Increase: "i < length ps \<Longrightarrow> increase d q m (ps ! i) now = Inr (m', p', c) \<Longrightarrow>
    ledger_step (m, ps) (m', ps[i := p'])"
| Reduce: "i < length ps \<Longrightarrow> reduce d q usr m (ps ! i) now pre = Inr (usr', m', p', c) \<Longrightarrow>
    ledger_step (m, ps) (m', ps[i := p'])"
| Close: "i < length ps \<Longrightarrow> close_out usr m (ps ! i) now = Inr (usr', m', p', v, b) \<Longrightarrow>
    ledger_step (m, ps) (m', ps[i := p'])"
| NewSlot: "\<not> is_open_position p \<Longrightarrow> ledger_step (m, ps) (m, ps @ [p])"
| Pool: "ledger_step (m, ps) (m\<lparr>ChainMarket.amm := a\<rparr>, ps)"

inductive_cases ledger_stepE: "ledger_step s s'"

lemma moved_ledger:
  assumes "moved_by c m (ps ! i) m' p'" "i < length ps"
    and "ChainMarket.base_asset_amount m = base_total ps"
    and "base_asset_amount_long m + base_asset_amount_short m = base_total ps"
  shows "ChainMarket.base_asset_amount m' = base_total (ps[i := p'])"
    and "base_asset_amount_long m' + base_asset_amount_short m' = base_total (ps[i := p'])"
  using assms by (auto simp: moved_by_def totals_update)

lemma ledger_step_ok:
  assumes "ledger_step s s'" "ledger_ok s"
  shows "ledger_ok s'"
  using assms
proof (induction rule: ledger_step.induct)
  case (Increase i ps d q m now m' p' c)
  note inc = increase_Inr [OF Increase.hyps(2)]
  from moved_ledger [OF inc(1) Increase.hyps(1)] inc(2,3) Increase show ?case
    by (auto simp: ledger_ok_def totals_update)
next
  case (Reduce i ps d q usr m now pre usr' m' p' c)
  note red = reduce_Inr [OF Reduce.hyps(2)]
  from moved_ledger [OF conjunct1 [OF red] Reduce.hyps(1)] red Reduce show ?case
    by (auto simp: ledger_ok_def totals_update)
next
  case (Close i ps usr m now usr' m' p' v b)
  with close_Inr [OF Close.hyps(2)] show ?case
    by (auto simp: ledger_ok_def totals_update is_open_position_def)
next
  case (NewSlot p m ps)
  then show ?case by (simp add: ledger_ok_def base_total_def open_count_def is_open_position_def)
next
  case (Pool m ps a)
  then show ?case by (simp add: ledger_ok_def)
qed

text \<open>A market as \<open>initialize_market\<close> leaves it: nothing is open.\<close>

definition fresh_market :: "ChainAMM \<Rightarrow> ChainMarket" where
  "fresh_market a = \<lparr>ChainMarket.initialized = True, base_asset_amount_long = 0, base_asset_amount_short = 0,
     ChainMarket.base_asset_amount = 0, open_interest = 0, amm = a\<rparr>"

text \<open>
  C10: the totals of a market are right at all times. In every state that any sequence of trades,
  reductions, closings and changes of the pool reaches from a freshly initialised market, the net
  base asset of the market is the sum of all positions in it, the long and the short part add up
  to it, and the open interest is at least the number of open positions, so that closing one never
  fails for lack of open interest.
\<close>

theorem market_totals_invariant:
  assumes "ledger_step\<^sup>*\<^sup>* (fresh_market a, []) (m, ps)"
  shows "ChainMarket.base_asset_amount m = base_total ps \<and>
         base_asset_amount_long m + base_asset_amount_short m = base_total ps \<and>
         open_count ps \<le> open_interest m"
proof -
  have "ledger_ok (fresh_market a, [])"
    by (simp add: ledger_ok_def fresh_market_def base_total_def open_count_def)
  with assms have "ledger_ok (m, ps)"
    by (induction rule: rtranclp_induct) (auto intro: ledger_step_ok)
  then show ?thesis by (simp add: ledger_ok_def)
qed

definition empty_position :: ChainPosition where
  "empty_position = \<lparr>market_index = 0, ChainPosition.base_asset_amount = 0, quote_asset_amount = 0,
     last_cumulative_funding_rate = 0, last_cumulative_repeg_rebate = 0,
     ChainPosition.last_funding_rate_ts = 0, stop_loss_price = 0, stop_loss_amount = 0,
     stop_profit_price = 0, stop_profit_amount = 0, transfer_to = ''default''\<rparr>"

lemmas trade_eval = swap_quote_asset_def update_mark_twap_def calculate_new_mark_twap_def twap_weights_def
  mark_price_def calculate_price_def calculate_twap_def asset_to_reserve_amount_def
  calculate_swap_output_def swap_direction_of_def rust_eval constant_values chain_constants sdiv_nonneg_eq

lemma sample_increase:
  "\<exists>m' p'. increase LONG 5000000 (fresh_market chain_amm) empty_position 1640998800 = Inr (m', p', 999900010000)"
  by (simp add: increase_def fresh_market_def empty_position_def chain_amm_def count_base_def trade_eval)

theorem market_totals_invariant_witness:
  "\<exists>m p. ledger_step\<^sup>*\<^sup>* (fresh_market chain_amm, []) (m, [p]) \<and>
     ChainMarket.base_asset_amount m = 999900010000 \<and> 1 \<le> open_interest m"
proof -
  obtain m p where run: "increase LONG 5000000 (fresh_market chain_amm) empty_position 1640998800 =
      Inr (m, p, 999900010000)" using sample_increase by blast
  let ?e = "fresh_market chain_amm"
  have "ledger_step (?e, []) (?e, [] @ [empty_position])"
    by (rule NewSlot) (simp add: is_open_position_def empty_position_def)
  moreover have "ledger_step (?e, [empty_position]) (m, [empty_position][0 := p])"
    by (rule Increase) (use run in auto)
  ultimately have steps: "ledger_step\<^sup>*\<^sup>* (?e, []) (m, [p])" by simp
  have p: "ChainPosition.base_asset_amount p = 999900010000"
    using increase_Inr(1) [OF run] by (simp add: moved_by_def empty_position_def)
  from market_totals_invariant [OF steps] p steps show ?thesis
    by (auto simp: base_total_def open_count_def is_open_position_def)
qed

subsection \<open>The two sides\<close>

text \<open>A copy of a pool for the SDK, to use what is proved about its curve.\<close>

definition sdk_copy :: "ChainAMM \<Rightarrow> AMM" where
  "sdk_copy a = \<lparr>
     baseAssetReserve = base_asset_reserve a, sqrtK = sqrt_k a, cumulativeFundingRate = 0,
     lastFundingRate = last_funding_rate a, lastFundingRateTs = ChainAMM.last_funding_rate_ts a,
     lastMarkPriceTwap = last_mark_price_twap a, lastMarkPriceTwapTs = last_mark_price_twap_ts a,
     lastOraclePriceTwap = last_oracle_price_twap a, lastOraclePriceTwapTs = last_oracle_price_twap_ts a,
     amm_oracle = oracle_key a, oracleSource = oracle_source a, fundingPeriod = funding_period a,
     quoteAssetReserve = quote_asset_reserve a, pegMultiplier = peg_multiplier a,
     cumulativeFundingRateLong = cumulative_funding_rate_long a,
     cumulativeFundingRateShort = cumulative_funding_rate_short a,
     cumulativeRepegRebateLong = cumulative_repeg_rebate_long a,
     cumulativeRepegRebateShort = cumulative_repeg_rebate_short a,
     totalFeeMinusDistributions = total_fee_minus_distributions a,
     AMM.totalFeeWithdrawn = total_fee_withdrawn a, AMM.totalFee = total_fee a,
     minimumTradeSize = minimum_trade_size a, lastOraclePrice = last_oracle_price a\<rparr>"

lemma mirrors_sdk_copy [simp]: "mirrors_amm (sdk_copy a) a"
  by (simp add: mirrors_amm_def sdk_copy_def)

definition on_curve :: "ChainAMM \<Rightarrow> bool" where
  "on_curve a \<longleftrightarrow> curve_ok (sdk_copy a)"

lemma on_curve_iff:
  "on_curve a \<longleftrightarrow> 0 < base_asset_reserve a \<and> 0 < quote_asset_reserve a \<and> 0 < peg_multiplier a \<and>
     base_asset_reserve a * quote_asset_reserve a \<le> sqrt_k a * sqrt_k a \<and>
     sqrt_k a * sqrt_k a < (base_asset_reserve a + 1) * (quote_asset_reserve a + 1)"
  by (simp add: on_curve_def curve_ok_def curve_k_def mirrors_amm_simps [OF mirrors_sdk_copy])

text \<open>The base reserve after a swap of \<open>r > 0\<close> quote reserve units.\<close>

lemma quote_added_base_le:
  assumes "on_curve a" "0 < r"
  shows "(sqrt_k a * sqrt_k a) sdiv (quote_asset_reserve a + r) \<le> base_asset_reserve a"
proof -
  note c = assms(1) [unfolded on_curve_iff]
  have "sqrt_k a * sqrt_k a < (base_asset_reserve a + 1) * (quote_asset_reserve a + 1)" using c by blast
  also have "\<dots> \<le> (base_asset_reserve a + 1) * (quote_asset_reserve a + r)"
    using c assms(2) by (intro mult_left_mono) auto
  finally show ?thesis using c assms(2) by (subst le_sdiv_iff) auto
qed

lemma quote_removed_base_ge:
  assumes "on_curve a" "0 \<le> r" "r < quote_asset_reserve a"
  shows "base_asset_reserve a \<le> (sqrt_k a * sqrt_k a) sdiv (quote_asset_reserve a - r)"
proof -
  note c = assms(1) [unfolded on_curve_iff]
  have "base_asset_reserve a * (quote_asset_reserve a - r) \<le> base_asset_reserve a * quote_asset_reserve a"
    using c assms by (intro mult_left_mono) auto
  also have "\<dots> \<le> sqrt_k a * sqrt_k a" using c by blast
  finally show ?thesis using assms by (subst sdiv_le_iff) auto
qed

text \<open>On its curve, a pool gives base asset for quote asset and takes it for quote asset paid out.\<close>

lemma quote_swap_sign:
  assumes "swap_quote_asset a q d now pre = Inr (a', c)" "on_curve a" "0 < minimum_trade_size a"
  shows "d = ADD \<Longrightarrow> 0 \<le> c" "d = REMOVE \<Longrightarrow> c \<le> 0"
proof -
  obtain r b nq where r: "minimum_trade_size a \<le> r"
    and swap: "calculate_swap_output r (quote_asset_reserve a) d (sqrt_k a) = Inr (b, nq)"
    and c: "c = base_asset_reserve a - b"
    using assms(1) by (rule swap_quote_asset_Inr)
  note out = swap_output_Inr [OF swap]
  show "0 \<le> c" if "d = ADD"
    using out that quote_added_base_le [OF assms(2), of r] r assms(3) c by simp
  show "c \<le> 0" if "d = REMOVE"
    using out that quote_removed_base_ge [OF assms(2), of r] r assms(3) c by simp
qed

lemma value_Inr:
  assumes "calculate_base_asset_value_and_pnl p a = Inr (v, pnl)" "ChainPosition.base_asset_amount p \<noteq> 0"
  obtains nq nb where
    "calculate_swap_output \<bar>ChainPosition.base_asset_amount p\<bar> (base_asset_reserve a)
       (swap_direction_to_close_position (ChainPosition.base_asset_amount p)) (sqrt_k a) = Inr (nq, nb)"
    and "v = ((if ChainPosition.base_asset_amount p > 0 then quote_asset_reserve a - nq
               else nq - quote_asset_reserve a) * peg_multiplier a)
             sdiv AMM_TIMES_PEG_TO_QUOTE_PRECISION_RATIO"
    and "0 \<le> (if ChainPosition.base_asset_amount p > 0 then quote_asset_reserve a - nq
              else nq - quote_asset_reserve a) * peg_multiplier a"
proof -
  let ?b = "ChainPosition.base_asset_amount p"
  let ?d = "swap_direction_to_close_position ?b"
  obtain nq nb where swap: "calculate_swap_output \<bar>?b\<bar> (base_asset_reserve a) ?d (sqrt_k a) = Inr (nq, nb)"
    and v: "calculate_quote_asset_amount_swapped (quote_asset_reserve a) nq ?d (peg_multiplier a) = Inr v"
    using assms by (auto simp: calculate_base_asset_value_and_pnl_def base_asset_value_and_pnl_def Let_def
        bindE_Inr_iff)
  have d: "?d = (if ?b > 0 then ADD else REMOVE)"
    using assms(2) by (simp add: swap_direction_to_close_position_def)
  have "0 \<le> (if ?d = ADD then quote_asset_reserve a - nq else nq - quote_asset_reserve a) * peg_multiplier a"
    using v by (cases ?d) (auto simp: calculate_quote_asset_amount_swapped_def reserve_to_asset_amount_def
        bindE_Inr_iff checked_ops_Inr)
  then show ?thesis
    using that [OF swap] quote_swapped_Inr [OF v] d by (cases "?b > 0") simp_all
qed

text \<open>A quote amount below the value of a position is, in reserve units, below the swap that closes it.\<close>

lemma reserve_below:
  assumes "asset_to_reserve_amount q peg = Inr r" "0 \<le> q" "0 < peg" "0 \<le> d * peg"
    and "q < (d * peg) sdiv AMM_TIMES_PEG_TO_QUOTE_PRECISION_RATIO"
  shows "0 \<le> r" "r < d"
proof -
  let ?R = AMM_TIMES_PEG_TO_QUOTE_PRECISION_RATIO
  have r: "r = (q * ?R) sdiv peg"
    using assms(1) by (auto simp: asset_to_reserve_amount_def bn_simps rust_simps simp del: fits.simps)
  have qR: "0 \<le> q * ?R" using assms(2) by (simp add: constant_values)
  then show "0 \<le> r" using r assms(3) by simp
  have "peg * r \<le> q * ?R" using sdiv_mult_le [OF qR assms(3)] r by simp
  also have "\<dots> < (q + 1) * ?R" by (simp add: constant_values)
  also have "\<dots> \<le> d * peg" using assms(4,5) sdiv_le_iff [of "d * peg" ?R "q + 1"] by simp
  finally have "peg * r < peg * d" by (simp add: mult.commute)
  with assms(3) show "r < d" by simp
qed

lemma reduce_long_stays:
  assumes "k sdiv (b + n) = nq" "r < Q - nq" "0 \<le> k" "0 < b + n"
  shows "k sdiv (Q - r) < (b + n :: int)"
proof -
  have pos: "0 < Q - r" using assms sdiv_nonneg [of k "b + n"] by linarith
  have "k < (b + n) * (nq + 1)" using less_sdiv_mult [OF assms(3,4)] assms(1) by simp
  also have "\<dots> \<le> (b + n) * (Q - r)" using assms by (intro mult_left_mono) auto
  finally show ?thesis using pos assms(3) by (simp add: sdiv_less_iff mult.commute)
qed

lemma reduce_short_stays:
  assumes "k sdiv (b - n) = nq" "r < nq - Q" "0 \<le> k" "0 < b - n" "0 < Q + r"
  shows "b - n \<le> k sdiv (Q + r :: int)"
proof -
  have "(b - n) * (Q + r) \<le> (b - n) * nq" using assms by (intro mult_left_mono) auto
  also have "\<dots> \<le> k" using sdiv_mult_le [OF assms(3,4)] assms(1) by simp
  finally show ?thesis using assms by (simp add: sdiv_le_iff)
qed

text \<open>The side of a position that is reduced by less than its value.\<close>

lemma reduce_side:
  assumes "calculate_base_asset_value_and_pnl p (ChainMarket.amm m) = Inr (v, pnl)"
    and "0 \<le> q" "q < v" "0 < peg_multiplier (ChainMarket.amm m)"
    and "reduce (direction_to_close_position (ChainPosition.base_asset_amount p)) q usr m p now pre =
           Inr (usr', m', p', c)"
  shows "(0 < ChainPosition.base_asset_amount p \<longrightarrow> 0 < ChainPosition.base_asset_amount p') \<and>
         (ChainPosition.base_asset_amount p < 0 \<longrightarrow> ChainPosition.base_asset_amount p' \<le> 0)"
proof -
  let ?a = "ChainMarket.amm m" and ?n = "ChainPosition.base_asset_amount p"
  let ?d = "direction_to_close_position ?n"
  have red: "moved_by c m p m' p'" "?n \<noteq> 0"
      "swap_quote_asset ?a q (swap_direction_of ?d) now pre = Inr (ChainMarket.amm m', c)"
    using reduce_Inr [OF assms(5)] by (auto simp: is_open_position_def)
  obtain r nb nq' where r: "asset_to_reserve_amount q (peg_multiplier ?a) = Inr r"
    and swap: "calculate_swap_output r (quote_asset_reserve ?a) (swap_direction_of ?d) (sqrt_k ?a) = Inr (nb, nq')"
    and c: "c = base_asset_reserve ?a - nb"
    using red(3) by (rule swap_quote_asset_Inr)
  obtain nq b' where close: "calculate_swap_output \<bar>?n\<bar> (base_asset_reserve ?a)
        (swap_direction_to_close_position ?n) (sqrt_k ?a) = Inr (nq, b')"
    and v: "v = ((if ?n > 0 then quote_asset_reserve ?a - nq else nq - quote_asset_reserve ?a) * peg_multiplier ?a)
               sdiv AMM_TIMES_PEG_TO_QUOTE_PRECISION_RATIO"
    and vn: "0 \<le> (if ?n > 0 then quote_asset_reserve ?a - nq else nq - quote_asset_reserve ?a) * peg_multiplier ?a"
    using assms(1) red(2) by (rule value_Inr)
  note out = swap_output_Inr [OF swap] and cl = swap_output_Inr [OF close]
  note below = reserve_below [OF r assms(2,4) vn assms(3) [unfolded v]]
  have p': "ChainPosition.base_asset_amount p' = ?n + (base_asset_reserve ?a - nb)"
    using red(1) c by (simp add: moved_by_def)
  show ?thesis
  proof (cases "?n > 0")
    case True
    with cl out below reduce_long_stays [of "sqrt_k ?a * sqrt_k ?a" "base_asset_reserve ?a" ?n nq r
        "quote_asset_reserve ?a"] p'
    show ?thesis
      by (simp add: swap_direction_to_close_position_def direction_to_close_position_def swap_direction_of_def)
  next
    case False
    with red(2) cl out below reduce_short_stays [of "sqrt_k ?a * sqrt_k ?a" "base_asset_reserve ?a" "- ?n" nq r
        "quote_asset_reserve ?a"] p'
    show ?thesis
      by (simp add: swap_direction_to_close_position_def direction_to_close_position_def swap_direction_of_def)
  qed
qed

text \<open>
  Reducing a position never turns it over. When a position is reduced by a quote amount below
  its value, the branch of \<open>open_position\<close> and of partial liquidations, a long position stays long
  and a short one stays short or becomes empty, whatever the rounding of the two swaps does.
\<close>

theorem reduce_keeps_side:
  assumes "calculate_base_asset_value_and_pnl p (ChainMarket.amm m) = Inr (v, pnl)"
    and "0 \<le> q" "q < v" "0 < peg_multiplier (ChainMarket.amm m)"
    and "reduce (direction_to_close_position (ChainPosition.base_asset_amount p)) q usr m p now pre =
           Inr (usr', m', p', c)"
  shows "(0 < ChainPosition.base_asset_amount p \<longrightarrow> 0 < ChainPosition.base_asset_amount p') \<and>
         (ChainPosition.base_asset_amount p < 0 \<longrightarrow> ChainPosition.base_asset_amount p' \<le> 0)"
  using assms by (rule reduce_side)

lemma sample_reduce:
  "\<exists>usr' m' p' c. reduce SHORT 20000000 chain_user chain_market chain_position 1640998800 None = Inr (usr', m', p', c)"
  by (simp add: reduce_def chain_samples count_base_def reduce_pnl_def calculate_updated_collateral_def Let_def
      trade_eval signed_take_bit_int_eq_self)

lemma sample_chain_value:
  "calculate_base_asset_value_and_pnl chain_position (ChainMarket.amm chain_market) = Inr (49950049, 950049)"
  by (simp add: calculate_base_asset_value_and_pnl_def base_asset_value_and_pnl_def chain_samples
      swap_direction_to_close_position_def calculate_quote_asset_amount_swapped_def reserve_to_asset_amount_def
      calculate_pnl_def trade_eval)

theorem reduce_keeps_side_witness:
  "\<exists>usr' m' p' c. reduce SHORT 20000000 chain_user chain_market chain_position 1640998800 None =
       Inr (usr', m', p', c) \<and> 0 < ChainPosition.base_asset_amount p'"
proof -
  obtain usr' m' p' c where run: "reduce SHORT 20000000 chain_user chain_market chain_position 1640998800 None =
      Inr (usr', m', p', c)" using sample_reduce by blast
  have d: "direction_to_close_position (ChainPosition.base_asset_amount chain_position) = SHORT"
    "0 < ChainPosition.base_asset_amount chain_position" "0 < peg_multiplier (ChainMarket.amm chain_market)"
    by (simp_all add: direction_to_close_position_def chain_samples)
  from reduce_keeps_side [OF sample_chain_value _ _ d(3), of 20000000] run d show ?thesis by auto
qed

text \<open>
  The trades of the handlers, with the conditions under which they call the controller: a trade that
  increases a position has its side, one that reduces it is worth less than the position.
\<close>

inductive trade_step :: "ChainMarket \<times> ChainPosition list \<Rightarrow> ChainMarket \<times> ChainPosition list \<Rightarrow> bool" where
  TradeMore: "i < length ps \<Longrightarrow>
    ChainPosition.base_asset_amount (ps ! i) = 0 \<or>
    ChainPosition.base_asset_amount (ps ! i) > 0 \<and> d = LONG \<or>
    ChainPosition.base_asset_amount (ps ! i) < 0 \<and> d = SHORT \<Longrightarrow>
    increase d q m (ps ! i) now = Inr (m', p', c) \<Longrightarrow> trade_step (m, ps) (m', ps[i := p'])"
| TradeLess: "i < length ps \<Longrightarrow>
    calculate_base_asset_value_and_pnl (ps ! i) (ChainMarket.amm m) = Inr (v, pnl) \<Longrightarrow> 0 \<le> q \<Longrightarrow> q < v \<Longrightarrow>
    reduce (direction_to_close_position (ChainPosition.base_asset_amount (ps ! i))) q usr m (ps ! i) now pre =
      Inr (usr', m', p', c) \<Longrightarrow> trade_step (m, ps) (m', ps[i := p'])"
| TradeOut: "i < length ps \<Longrightarrow> close_out usr m (ps ! i) now = Inr (usr', m', p', v, b) \<Longrightarrow>
    trade_step (m, ps) (m', ps[i := p'])"

lemma moved_sides:
  assumes "moved_by c m (ps ! i) m' p'" "i < length ps" "sides_ok m ps"
    and "0 \<le> ChainPosition.base_asset_amount (ps ! i) \<and> 0 < ChainPosition.base_asset_amount p' \<or>
         ChainPosition.base_asset_amount (ps ! i) \<le> 0 \<and> ChainPosition.base_asset_amount p' \<le> 0"
  shows "sides_ok m' (ps[i := p'])"
  using assms by (auto simp: moved_by_def sides_ok_def totals_update)



subsection \<open>The curve\<close>

text \<open>
  C32: swaps stay on the curve: a swap of quote asset or of base asset on a pool next to its curve
  leaves the pool next to the same curve, unless it empties a reserve.
\<close>

theorem swaps_keep_curve:
  assumes "on_curve a"
    and "swap_quote_asset a n d now pre = Inr (a', c) \<or> swap_base_asset a n d now = Inr (a', c)"
    and "0 \<le> n" "0 < base_asset_reserve a'" "0 < quote_asset_reserve a'"
  shows "on_curve a' \<and> sqrt_k a' = sqrt_k a \<and> peg_multiplier a' = peg_multiplier a"
proof -
  have "\<exists>ty t q b. calculateAmmReservesAfterSwap (sdk_copy a) ty n d = Inr (q, b) \<and>
      a' = a\<lparr>last_mark_price_twap := t, last_mark_price_twap_ts := now,
             base_asset_reserve := b, quote_asset_reserve := q\<rparr>"
    using assms(2)
  proof
    assume "swap_quote_asset a n d now pre = Inr (a', c)"
    then show ?thesis
      by (rule swap_quote_asset_Inr) (metis assms(3) mirrors_sdk_copy sdk_quote_swap)
  next
    assume "swap_base_asset a n d now = Inr (a', c)"
    then show ?thesis
      by (rule swap_base_asset_Inr) (metis assms(3) mirrors_sdk_copy sdk_base_swap)
  qed
  then obtain ty t q b where swap: "calculateAmmReservesAfterSwap (sdk_copy a) ty n d = Inr (q, b)"
    and a': "a' = a\<lparr>last_mark_price_twap := t, last_mark_price_twap_ts := now,
               base_asset_reserve := b, quote_asset_reserve := q\<rparr>" by blast
  have "curve_ok (with_reserves (sdk_copy a) (q, b))"
    using swap_on_curve [OF assms(1) [unfolded on_curve_def] swap] assms(4,5) a' by simp
  then show ?thesis
    by (simp add: on_curve_iff curve_ok_def curve_k_def a' mirrors_amm_simps [OF mirrors_sdk_copy])
qed

theorem swaps_keep_curve_witness:
  "\<exists>a'. swap_quote_asset chain_amm 5000000 ADD 1640998800 None = Inr (a', 999900010000) \<and> on_curve a'"
proof -
  have "\<exists>a'. swap_quote_asset chain_amm 5000000 ADD 1640998800 None = Inr (a', 999900010000) \<and>
      0 < base_asset_reserve a' \<and> 0 < quote_asset_reserve a'"
    by (simp add: chain_amm_def trade_eval)
  moreover have "on_curve chain_amm" by (simp add: on_curve_iff chain_amm_def)
  ultimately show ?thesis using swaps_keep_curve [of chain_amm 5000000 ADD 1640998800 None] by fastforce
qed

text \<open>
  A pool of a hundred thousand units of base asset without open positions, and a change of \<open>k\<close> of
  less than one part in \<open>10 ^ 10\<close>.
\<close>

definition wide_market :: ChainMarket where
  "wide_market = fresh_market (chain_amm\<lparr>base_asset_reserve := 10 ^ 18, quote_asset_reserve := 10 ^ 18,
     sqrt_k := 10 ^ 18\<rparr>)"


end
