(* ===== verification/ChainHistory.thy ===== *)
theory ChainHistory
  imports ChainState
begin

section \<open>The history accounts of the on-chain program\<close>

text \<open>
  The structs of \<open>programs/clearing_house/src/state/history\<close>: rings of records with a head. The
  impls of the seven types are the same text with other sizes, one definition with the sizes as
  arguments. A field is prefixed with the initials of its record.

  The locale \<open>record_history\<close> is the contract of a history: the numbers of the records count up.
  Six of the rings satisfy it; the extended curve history does not.
\<close>

subsection \<open>History accounts\<close>

record 'r Ring =
  head :: int
  records :: "'r list"

text \<open>
  \<open>append\<close> and \<open>next_record_id\<close>: \<open>cap\<close> is the modulus of the head, \<open>wrap_to\<close> the index read when the
  head is zero, \<open>rid\<close> the field \<open>record_id\<close>.
\<close>

definition ring_append :: "int \<Rightarrow> 'r Ring \<Rightarrow> 'r \<Rightarrow> 'r Ring chain_result" where
  "ring_append cap h pos =
     (if nat (head h) < length (records h)
      then Inr (h\<lparr>records := (records h)[nat (head h) := pos], head := wrap u64 (head h + 1) mod cap\<rparr>)
      else Inl Panic)"

definition ring_next_record_id :: "int \<Rightarrow> ('r \<Rightarrow> int) \<Rightarrow> 'r Ring \<Rightarrow> int chain_result" where
  "ring_next_record_id wrap_to rid h =
     (let prev_record_id = (if head h = 0 then wrap_to else head h - 1) in
      if nat prev_record_id < length (records h)
      then Inr (wrap u128 (rid (records h ! nat prev_record_id) + 1))
      else Inl Panic)"

record ChainTradeRecord =
  tr_ts :: int
  tr_record_id :: int
  tr_user_authority :: PublicKey
  tr_user :: PublicKey
  tr_direction :: PositionDirection
  tr_base_asset_amount :: int
  tr_quote_asset_amount :: int
  tr_mark_price_before :: int
  tr_mark_price_after :: int
  tr_fee :: int
  tr_referrer_reward :: int
  tr_referee_discount :: int
  tr_token_discount :: int
  tr_liquidation :: bool
  tr_market_index :: int
  tr_oracle_price :: int

datatype ChainDepositDirection = DEPOSIT | WITHDRAW

record ChainDepositRecord =
  dr_ts :: int
  dr_record_id :: int
  dr_user_authority :: PublicKey
  dr_user :: PublicKey
  dr_direction :: ChainDepositDirection
  dr_collateral_before :: int
  dr_cumulative_deposits_before :: int
  dr_amount :: int

record ChainFundingPaymentRecord =
  fp_ts :: int
  fp_record_id :: int
  fp_user_authority :: PublicKey
  fp_user :: PublicKey
  fp_market_index :: int
  fp_funding_payment :: int
  fp_base_asset_amount :: int
  fp_user_last_cumulative_funding :: int
  fp_user_last_funding_rate_ts :: int
  fp_amm_cumulative_funding_long :: int
  fp_amm_cumulative_funding_short :: int

record ChainFundingRateRecord =
  fr_ts :: int
  fr_record_id :: int
  fr_market_index :: int
  fr_funding_rate :: int
  fr_cumulative_funding_rate_long :: int
  fr_cumulative_funding_rate_short :: int
  fr_oracle_price_twap :: int
  fr_mark_price_twap :: int

record ChainLiquidationRecord =
  lr_ts :: int
  lr_record_id :: int
  lr_user_authority :: PublicKey
  lr_user :: PublicKey
  lr_partial :: bool
  lr_base_asset_value :: int
  lr_base_asset_value_closed :: int
  lr_liquidation_fee :: int
  lr_fee_to_liquidator :: int
  lr_fee_to_insurance_fund :: int
  lr_liquidator :: PublicKey
  lr_total_collateral :: int
  lr_collateral :: int
  lr_unrealized_pnl :: int
  lr_margin_ratio :: int

record ChainCurveRecord =
  cr_ts :: int
  cr_record_id :: int
  cr_market_index :: int
  cr_peg_multiplier_before :: int
  cr_base_asset_reserve_before :: int
  cr_quote_asset_reserve_before :: int
  cr_sqrt_k_before :: int
  cr_peg_multiplier_after :: int
  cr_base_asset_reserve_after :: int
  cr_quote_asset_reserve_after :: int
  cr_sqrt_k_after :: int
  cr_base_asset_amount_long :: int
  cr_base_asset_amount_short :: int
  cr_base_asset_amount :: int
  cr_open_interest :: int
  cr_total_fee :: int
  cr_total_fee_minus_distributions :: int
  cr_adjustment_cost :: int

record ChainExtendedCurveRecord = ChainCurveRecord +
  cr_oracle_price :: int
  cr_trade_record :: int

text \<open>The seven histories: the number of slots, the modulus of the head, and the last slot read.\<close>

definition trade_append :: "ChainTradeRecord Ring \<Rightarrow> ChainTradeRecord \<Rightarrow> ChainTradeRecord Ring chain_result" where
  "trade_append = ring_append 1024"

definition trade_next_record_id :: "ChainTradeRecord Ring \<Rightarrow> int chain_result" where
  "trade_next_record_id = ring_next_record_id 1023 tr_record_id"

definition deposit_append ::
  "ChainDepositRecord Ring \<Rightarrow> ChainDepositRecord \<Rightarrow> ChainDepositRecord Ring chain_result" where
  "deposit_append = ring_append 1024"

definition deposit_next_record_id :: "ChainDepositRecord Ring \<Rightarrow> int chain_result" where
  "deposit_next_record_id = ring_next_record_id 1023 dr_record_id"

definition funding_payment_append ::
  "ChainFundingPaymentRecord Ring \<Rightarrow> ChainFundingPaymentRecord \<Rightarrow> ChainFundingPaymentRecord Ring chain_result" where
  "funding_payment_append = ring_append 1024"

definition funding_payment_next_record_id :: "ChainFundingPaymentRecord Ring \<Rightarrow> int chain_result" where
  "funding_payment_next_record_id = ring_next_record_id 1023 fp_record_id"

definition funding_rate_append ::
  "ChainFundingRateRecord Ring \<Rightarrow> ChainFundingRateRecord \<Rightarrow> ChainFundingRateRecord Ring chain_result" where
  "funding_rate_append = ring_append 1024"

definition funding_rate_next_record_id :: "ChainFundingRateRecord Ring \<Rightarrow> int chain_result" where
  "funding_rate_next_record_id = ring_next_record_id 1023 fr_record_id"

definition liquidation_append ::
  "ChainLiquidationRecord Ring \<Rightarrow> ChainLiquidationRecord \<Rightarrow> ChainLiquidationRecord Ring chain_result" where
  "liquidation_append = ring_append 1024"

definition liquidation_next_record_id :: "ChainLiquidationRecord Ring \<Rightarrow> int chain_result" where
  "liquidation_next_record_id = ring_next_record_id 1023 lr_record_id"

definition curve_append :: "ChainCurveRecord Ring \<Rightarrow> ChainCurveRecord \<Rightarrow> ChainCurveRecord Ring chain_result" where
  "curve_append = ring_append 32"

definition curve_next_record_id :: "ChainCurveRecord Ring \<Rightarrow> int chain_result" where
  "curve_next_record_id = ring_next_record_id 31 cr_record_id"

definition extended_curve_append ::
  "ChainExtendedCurveRecord Ring \<Rightarrow> ChainExtendedCurveRecord \<Rightarrow> ChainExtendedCurveRecord Ring chain_result" where
  "extended_curve_append = ring_append 1023"

definition extended_curve_next_record_id :: "ChainExtendedCurveRecord Ring \<Rightarrow> int chain_result" where
  "extended_curve_next_record_id = ring_next_record_id 1023 cr_record_id"

text \<open>
  The way a handler writes a record: it takes the next number and appends the record made with it.
\<close>

definition log_record ::
  "('h \<Rightarrow> int chain_result) \<Rightarrow> ('h \<Rightarrow> 'r \<Rightarrow> 'h chain_result) \<Rightarrow> (int \<Rightarrow> 'r) \<Rightarrow> 'h \<Rightarrow> 'h chain_result" where
  "log_record next_id append_r mk h = bindE (next_id h) (\<lambda>record_id. append_r h (mk record_id))"

subsection \<open>Record numbers\<close>

definition ring_wf :: "nat \<Rightarrow> 'r Ring \<Rightarrow> bool" where
  "ring_wf n h \<longleftrightarrow> length (records h) = n \<and> 0 \<le> head h \<and> head h < int n"

locale record_history =
  fixes wf :: "'h \<Rightarrow> bool"
    and append_r :: "'h \<Rightarrow> 'r \<Rightarrow> 'h chain_result"
    and next_id :: "'h \<Rightarrow> int chain_result"
    and rid :: "'r \<Rightarrow> int"
  assumes append_wf: "wf h \<Longrightarrow> \<exists>h'. append_r h r = Inr h' \<and> wf h'"
    and next_after: "wf h \<Longrightarrow> append_r h r = Inr h' \<Longrightarrow> next_id h' = Inr (wrap u128 (rid r + 1))"
begin

lemma log_next:
  assumes "wf h" "next_id h = Inr n" "\<forall>i. rid (mk i) = i"
  shows "\<exists>h'. log_record next_id append_r mk h = Inr h' \<and> wf h' \<and> next_id h' = Inr (wrap u128 (n + 1))"
proof -
  obtain h' where h': "append_r h (mk n) = Inr h'" "wf h'" using append_wf assms(1) by blast
  with next_after [OF assms(1) h'(1)] assms show ?thesis by (auto simp: log_record_def)
qed

text \<open>A sequence of records gets consecutive numbers, and never fails.\<close>

lemma log_many:
  assumes "wf h" "next_id h = Inr n" "\<forall>mk\<in>set mks. \<forall>i. rid (mk i) = i" "0 \<le> n"
    "n + int (length mks) < 2 ^ 128"
  shows "\<exists>h'. foldE (\<lambda>h mk. log_record next_id append_r mk h) h mks = Inr h' \<and> wf h' \<and>
           next_id h' = Inr (n + int (length mks))"
  using assms
proof (induction mks arbitrary: h n)
  case (Cons mk mks)
  then obtain h' where h': "log_record next_id append_r mk h = Inr h'" "wf h'"
      "next_id h' = Inr (wrap u128 (n + 1))"
    using log_next [of h n mk] by auto
  moreover have "wrap u128 (n + 1) = n + 1"
    using Cons.prems by (intro wrap_fits) auto
  ultimately show ?case using Cons.IH [of h' "n + 1"] Cons.prems by auto
qed auto

end

lemma ring_append_Inr:
  assumes "ring_wf n h" "0 < m" "m \<le> n" "n < 2 ^ 64"
  obtains h' where "ring_append (int m) h r = Inr h'"
    and "records h' = (records h)[nat (head h) := r]" and "head h' = (head h + 1) mod int m" and "ring_wf n h'"
proof -
  let ?h = "h\<lparr>records := (records h)[nat (head h) := r], head := (head h + 1) mod int m\<rparr>"
  have "int n < 2 ^ 64" using assms(4) by (metis of_nat_less_iff of_nat_numeral of_nat_power)
  then have "wrap u64 (head h + 1) = head h + 1"
    using assms by (intro wrap_fits) (auto simp: ring_wf_def)
  moreover have "nat (head h) < length (records h)" using assms(1) by (auto simp: ring_wf_def)
  ultimately have "ring_append (int m) h r = Inr ?h" by (simp add: ring_append_def)
  moreover have "(head h + 1) mod int m < int n"
    using pos_mod_bound [of "int m" "head h + 1"] assms by linarith
  then have "ring_wf n ?h" using assms by (simp add: ring_wf_def)
  ultimately show ?thesis by (intro that [of ?h]) auto
qed

lemma ring_history:
  assumes "0 < n" "n < 2 ^ 64"
  shows "record_history (ring_wf n) (ring_append (int n)) (ring_next_record_id (int n - 1) rid) rid"
proof
  fix h :: "'a Ring" and r h'
  assume wf: "ring_wf n h"
  then obtain g where g: "ring_append (int n) h r = Inr g" "records g = (records h)[nat (head h) := r]"
      "head g = (head h + 1) mod int n" "ring_wf n g"
    by (rule ring_append_Inr) (use assms in auto)
  then show "\<exists>h'. ring_append (int n) h r = Inr h' \<and> ring_wf n h'" by blast
  assume "ring_append (int n) h r = Inr h'"
  with g have eq: "h' = g" by simp
  have "head g = (if head h + 1 = int n then 0 else head h + 1)"
    using g(3) wf by (auto simp: ring_wf_def)
  then have "(if head g = 0 then int n - 1 else head g - 1) = head h"
    using wf by (auto simp: ring_wf_def)
  moreover have "nat (head h) < length (records h)" "length (records g) = length (records h)"
    using wf g(2) by (auto simp: ring_wf_def)
  ultimately show "ring_next_record_id (int n - 1) rid h' = Inr (wrap u128 (rid r + 1))"
    unfolding ring_next_record_id_def Let_def eq using g(2) by simp
qed

interpretation trade_log: record_history "ring_wf 1024" trade_append trade_next_record_id tr_record_id
  using ring_history [of 1024 tr_record_id] by (simp add: trade_append_def trade_next_record_id_def)

interpretation deposit_log: record_history "ring_wf 1024" deposit_append deposit_next_record_id dr_record_id
  using ring_history [of 1024 dr_record_id] by (simp add: deposit_append_def deposit_next_record_id_def)

interpretation payment_log: record_history "ring_wf 1024" funding_payment_append
  funding_payment_next_record_id fp_record_id
  using ring_history [of 1024 fp_record_id]
  by (simp add: funding_payment_append_def funding_payment_next_record_id_def)

interpretation rate_log: record_history "ring_wf 1024" funding_rate_append
  funding_rate_next_record_id fr_record_id
  using ring_history [of 1024 fr_record_id]
  by (simp add: funding_rate_append_def funding_rate_next_record_id_def)

interpretation liquidation_log: record_history "ring_wf 1024" liquidation_append
  liquidation_next_record_id lr_record_id
  using ring_history [of 1024 lr_record_id]
  by (simp add: liquidation_append_def liquidation_next_record_id_def)

interpretation curve_log: record_history "ring_wf 32" curve_append curve_next_record_id cr_record_id
  using ring_history [of 32 cr_record_id] by (simp add: curve_append_def curve_next_record_id_def)

subsection \<open>Properties\<close>

definition default_trade_record :: ChainTradeRecord where
  "default_trade_record = \<lparr>tr_ts = 0, tr_record_id = 0, tr_user_authority = ''default'', tr_user = ''default'',
     tr_direction = LONG, tr_base_asset_amount = 0, tr_quote_asset_amount = 0, tr_mark_price_before = 0,
     tr_mark_price_after = 0, tr_fee = 0, tr_referrer_reward = 0, tr_referee_discount = 0,
     tr_token_discount = 0, tr_liquidation = False, tr_market_index = 0, tr_oracle_price = 0\<rparr>"

definition default_trade_history :: "ChainTradeRecord Ring" where
  "default_trade_history = \<lparr>head = 0, records = replicate 1024 default_trade_record\<rparr>"

definition default_extended_curve_record :: ChainExtendedCurveRecord where
  "default_extended_curve_record = \<lparr>cr_ts = 0, cr_record_id = 0, cr_market_index = 0,
     cr_peg_multiplier_before = 0, cr_base_asset_reserve_before = 0, cr_quote_asset_reserve_before = 0,
     cr_sqrt_k_before = 0, cr_peg_multiplier_after = 0, cr_base_asset_reserve_after = 0,
     cr_quote_asset_reserve_after = 0, cr_sqrt_k_after = 0, cr_base_asset_amount_long = 0,
     cr_base_asset_amount_short = 0, cr_base_asset_amount = 0, cr_open_interest = 0, cr_total_fee = 0,
     cr_total_fee_minus_distributions = 0, cr_adjustment_cost = 0, cr_oracle_price = 0, cr_trade_record = 0\<rparr>"

definition default_extended_curve_history :: "ChainExtendedCurveRecord Ring" where
  "default_extended_curve_history = \<lparr>head = 0, records = replicate 1024 default_extended_curve_record\<rparr>"

text \<open>
  The numbers of the trade records count up: whatever trades are written to a fresh trade
  history, none of the writes fails, and after \<open>k\<close> of them the next number is \<open>k + 1\<close>, also when
  the ring of 1024 slots has wrapped around many times.
\<close>

theorem trade_records_count_up:
  assumes "\<forall>mk\<in>set mks. \<forall>i. tr_record_id (mk i) = i" "length mks < 2 ^ 64"
  shows "\<exists>h. foldE (\<lambda>h mk. log_record trade_next_record_id trade_append mk h) default_trade_history mks = Inr h
           \<and> trade_next_record_id h = Inr (int (length mks) + 1)"
proof -
  have "ring_wf 1024 default_trade_history" by (simp add: ring_wf_def default_trade_history_def)
  moreover have "trade_next_record_id default_trade_history = Inr 1"
    by (simp add: trade_next_record_id_def ring_next_record_id_def default_trade_history_def
        default_trade_record_def)
  moreover have "int (length mks) < 2 ^ 64"
    using assms(2) by (metis of_nat_less_iff of_nat_numeral of_nat_power)
  then have "1 + int (length mks) < 2 ^ 128" by simp
  ultimately show ?thesis using trade_log.log_many [of default_trade_history 1 mks] assms
    by (auto simp: add.commute)
qed

theorem trade_records_count_up_witness:
  "\<exists>h. foldE (\<lambda>h mk. log_record trade_next_record_id trade_append mk h) default_trade_history
         (replicate 3000 (\<lambda>i. default_trade_record\<lparr>tr_record_id := i\<rparr>)) = Inr h \<and>
       trade_next_record_id h = Inr 3001"
  using trade_records_count_up [of "replicate 3000 (\<lambda>i. default_trade_record\<lparr>tr_record_id := i\<rparr>)"] by simp

text \<open>
  The ring of the extended curve history has 1024 slots, but its head runs through 1023 of them
  only, while the number is read from slot 1023 when the head is zero, a slot no record ever
  reaches.
\<close>

lemma extended_log_many:
  assumes "ring_wf 1024 h" "head h < 1023" "head h + int (length mks) \<le> 1023"
  shows "\<exists>h'. foldE (\<lambda>h mk. log_record extended_curve_next_record_id extended_curve_append mk h) h mks = Inr h'
           \<and> head h' = (head h + int (length mks)) mod 1023 \<and> ring_wf 1024 h' \<and>
           records h' ! 1023 = records h ! 1023"
  using assms
proof (induction mks arbitrary: h)
  case (Cons mk mks)
  let ?last = "nat (if head h = 0 then 1023 else head h - 1)"
  have "?last < length (records h)" using Cons.prems by (auto simp: ring_wf_def)
  then obtain n where n: "extended_curve_next_record_id h = Inr n"
    by (simp add: extended_curve_next_record_id_def ring_next_record_id_def Let_def)
  obtain g where g: "ring_append (int 1023) h (mk n) = Inr g" "records g = (records h)[nat (head h) := mk n]"
      "head g = (head h + 1) mod int 1023" "ring_wf 1024 g"
    by (rule ring_append_Inr [OF Cons.prems(1), of 1023 "mk n"]) auto
  then have step: "log_record extended_curve_next_record_id extended_curve_append mk h = Inr g"
    using n by (simp add: log_record_def extended_curve_append_def)
  have slot: "records g ! 1023 = records h ! 1023" using g(2) Cons.prems by (simp add: ring_wf_def)
  show ?case
  proof (cases mks)
    case Nil
    with step g slot show ?thesis by simp
  next
    case (Cons mk' mks')
    then have "head g = head h + 1" using g(3) Cons.prems by (simp add: ring_wf_def)
    with Cons.IH [of g] Cons.prems g slot step show ?thesis by (simp add: add.assoc)
  qed
qed (auto simp: ring_wf_def)

text \<open>
  C39: the numbers of the extended curve records restart: after exactly 1023 records of repegs and
  changes of \<open>k\<close> written to a fresh extended curve history, the next record is numbered 1 again.
\<close>

theorem extended_curve_numbers_restart:
  assumes "length mks = 1023"
  shows "\<exists>h. foldE (\<lambda>h mk. log_record extended_curve_next_record_id extended_curve_append mk h)
               default_extended_curve_history mks = Inr h \<and>
             extended_curve_next_record_id h = Inr 1"
proof -
  let ?d = default_extended_curve_history
  have d: "ring_wf 1024 ?d" "head ?d = 0" by (simp_all add: ring_wf_def default_extended_curve_history_def)
  have slot: "records ?d ! 1023 = default_extended_curve_record"
    unfolding default_extended_curve_history_def by (simp only: Ring.select_convs nth_replicate)
  obtain h where "foldE (\<lambda>h mk. log_record extended_curve_next_record_id extended_curve_append mk h) ?d mks = Inr h"
      "head h = 0" "ring_wf 1024 h" "records h ! 1023 = default_extended_curve_record"
    using extended_log_many [OF d(1), of mks] d(2) slot assms by auto
  then show ?thesis
    by (auto simp: extended_curve_next_record_id_def ring_next_record_id_def ring_wf_def
        default_extended_curve_record_def)
qed

theorem extended_curve_numbers_restart_witness:
  "\<exists>h. foldE (\<lambda>h mk. log_record extended_curve_next_record_id extended_curve_append mk h)
         default_extended_curve_history
         (replicate 1023 (\<lambda>i. default_extended_curve_record\<lparr>cr_record_id := i\<rparr>)) = Inr h \<and>
       extended_curve_next_record_id h = Inr 1"
  by (rule extended_curve_numbers_restart) simp

end
