(* ===== verification/ChainFunding.thy ===== *)
theory ChainFunding
  imports ChainPositions ChainHistory
begin

section \<open>Funding on chain\<close>

text \<open>
  \<open>math/funding.rs\<close> and \<open>controller/funding.rs\<close>: the payment of a position since its last
  settlement, the rates for long and short positions (asymmetric when the protocol would have to
  pay more than its fee pool allows), the settlement of a user's payments, and the hourly update of
  a market's rate. Unary minus and \<open>abs\<close> wrap around at the smallest number.
\<close>

subsection \<open>Payments\<close>

text \<open>\<open>_calculate_funding_payment\<close>: longs pay shorts when the rate went up.\<close>

definition funding_payment_of :: "int \<Rightarrow> int \<Rightarrow> int chain_result" where
  "funding_payment_of funding_rate_delta base =
     (let funding_rate_delta_sign = (if funding_rate_delta > 0 then 1 else -1) in
      bindE (mul_m U192 \<bar>funding_rate_delta\<bar> \<bar>base\<bar>) (\<lambda>n.
      bindE (div_m U192 n MARK_PRICE_PRECISION) (\<lambda>n1.
      bindE (div_m U192 n1 FUNDING_PAYMENT_PRECISION) (\<lambda>n2.
      bindE (try_to_u128 n2) (\<lambda>n3.
      bindE (cast_to_i128 n3) (\<lambda>funding_rate_payment_magnitude.
      let funding_rate_payment_sign = (if base > 0 then -1 else 1) in
      bindE (mul_m i128 funding_rate_payment_magnitude funding_rate_payment_sign) (\<lambda>p.
      mul_m i128 p funding_rate_delta_sign)))))))"

definition calculate_funding_payment :: "int \<Rightarrow> ChainPosition \<Rightarrow> int chain_result" where
  "calculate_funding_payment amm_cumulative_funding_rate p =
     bindE (sub_m i128 amm_cumulative_funding_rate (last_cumulative_funding_rate p)) (\<lambda>funding_rate_delta.
     funding_payment_of funding_rate_delta (ChainPosition.base_asset_amount p))"

definition calculate_funding_payment_in_quote_precision :: "int \<Rightarrow> int \<Rightarrow> int chain_result" where
  "calculate_funding_payment_in_quote_precision funding_rate_delta base =
     bindE (funding_payment_of funding_rate_delta base) (\<lambda>funding_payment.
     bindE (cast_to_i128 AMM_TO_QUOTE_PRECISION_RATIO) (\<lambda>ratio.
     div_m i128 funding_payment ratio))"

definition calculate_funding_rate_from_pnl_limit :: "int \<Rightarrow> int \<Rightarrow> int chain_result" where
  "calculate_funding_rate_from_pnl_limit pnl_limit base =
     (if base = 0 then Inr 0
      else
        bindE (if pnl_limit < 0 then add_m i128 pnl_limit 1 else Inr pnl_limit) (\<lambda>pnl_limit_biased.
        bindE (mul_m i128 pnl_limit_biased QUOTE_TO_BASE_AMT_FUNDING_PRECISION) (\<lambda>n.
        div_m i128 n base)))"

subsection \<open>Rates\<close>

text \<open>The result is the capped rate and the capped profit of the protocol.\<close>

definition calculate_capped_funding_rate :: "ChainMarket \<Rightarrow> int \<Rightarrow> int \<Rightarrow> (int \<times> int) chain_result" where
  "calculate_capped_funding_rate market uncapped_funding_pnl funding_rate =
     bindE (fee_lower_bound (amm market)) (\<lambda>lower_bound.
     bindE (if total_fee_minus_distributions (amm market) > lower_bound then
              bindE (sub_m u128 (total_fee_minus_distributions (amm market)) lower_bound) (\<lambda>n.
              bindE (mul_m u128 n 2) (\<lambda>n1.
              bindE (div_m u128 n1 3) (\<lambda>n2.
              bindE (cast_to_i128 n2) (\<lambda>n3. Inr (wrap i128 (- n3))))))
            else Inr 0) (\<lambda>funding_rate_pnl_limit.
     let capped_funding_pnl = max uncapped_funding_pnl funding_rate_pnl_limit in
     bindE (if uncapped_funding_pnl < funding_rate_pnl_limit then
              bindE (if funding_rate > 0
                     then calculate_funding_payment_in_quote_precision funding_rate
                            (base_asset_amount_long market)
                     else calculate_funding_payment_in_quote_precision funding_rate
                            (base_asset_amount_short market)) (\<lambda>funding_payment_from_users.
              bindE (sub_m i128 funding_rate_pnl_limit (wrap i128 \<bar>funding_payment_from_users\<bar>))
                (\<lambda>funding_rate_pnl_limit'.
              if funding_rate < 0
              then calculate_funding_rate_from_pnl_limit funding_rate_pnl_limit'
                     (base_asset_amount_long market)
              else calculate_funding_rate_from_pnl_limit funding_rate_pnl_limit'
                     (base_asset_amount_short market)))
            else Inr funding_rate) (\<lambda>capped_funding_rate.
     Inr (capped_funding_rate, capped_funding_pnl))))"

text \<open>The result is the changed market, the rate for long and the rate for short positions.\<close>

definition calculate_funding_rate_long_short ::
  "ChainMarket \<Rightarrow> int \<Rightarrow> (ChainMarket \<times> int \<times> int) chain_result" where
  "calculate_funding_rate_long_short market funding_rate =
     bindE (calculate_funding_payment_in_quote_precision funding_rate
              (ChainMarket.base_asset_amount market)) (\<lambda>net_market_position_funding_payment.
     let uncapped_funding_pnl = wrap i128 (- net_market_position_funding_payment) in
     if uncapped_funding_pnl \<ge> 0 then
       bindE (add_m u128 (total_fee_minus_distributions (amm market)) \<bar>uncapped_funding_pnl\<bar>) (\<lambda>fees.
       Inr (market\<lparr>amm := (amm market)\<lparr>total_fee_minus_distributions := fees\<rparr>\<rparr>, funding_rate, funding_rate))
     else
       bindE (calculate_capped_funding_rate market uncapped_funding_pnl funding_rate)
         (\<lambda>(capped_funding_rate, capped_funding_pnl).
       bindE (sub_m u128 (total_fee_minus_distributions (amm market)) \<bar>capped_funding_pnl\<bar>) (\<lambda>fees.
       bindE (if capped_funding_pnl \<noteq> 0 then
                bindE (fee_lower_bound (amm market)) (\<lambda>lower_bound.
                guardE (fees < lower_bound) InvalidFundingProfitability)
              else Inr ()) (\<lambda>_.
       Inr (market\<lparr>amm := (amm market)\<lparr>total_fee_minus_distributions := fees\<rparr>\<rparr>,
            if funding_rate < 0 then capped_funding_rate else funding_rate,
            if funding_rate > 0 then capped_funding_rate else funding_rate)))))"

subsection \<open>Settlement\<close>

text \<open>
  One position of the loop; the accumulator holds the payment so far, the history of payments and
  the positions already visited.
\<close>

definition settle_position ::
  "ChainUser \<Rightarrow> PublicKey \<Rightarrow> ChainMarket list \<Rightarrow> int \<Rightarrow>
     int \<times> ChainFundingPaymentRecord Ring \<times> ChainPosition list \<Rightarrow> ChainPosition \<Rightarrow>
     (int \<times> ChainFundingPaymentRecord Ring \<times> ChainPosition list) chain_result" where
  "settle_position usr user_key ms now acc p =
     (case acc of (funding_payment, history, visited) \<Rightarrow>
      if ChainPosition.base_asset_amount p = 0 then Inr (funding_payment, history, visited @ [p])
      else
        bindE (market_at ms (market_index p)) (\<lambda>market.
        let a = amm market;
            amm_cumulative_funding_rate =
              (if ChainPosition.base_asset_amount p > 0 then cumulative_funding_rate_long a
               else cumulative_funding_rate_short a)
        in if amm_cumulative_funding_rate \<noteq> last_cumulative_funding_rate p then
             bindE (calculate_funding_payment amm_cumulative_funding_rate p) (\<lambda>market_funding_rate_payment.
             bindE (log_record funding_payment_next_record_id funding_payment_append
                      (\<lambda>record_id. \<lparr>
                         fp_ts = now, fp_record_id = record_id, fp_user_authority = authority usr,
                         fp_user = user_key, fp_market_index = market_index p,
                         fp_funding_payment = market_funding_rate_payment,
                         fp_base_asset_amount = ChainPosition.base_asset_amount p,
                         fp_user_last_cumulative_funding = last_cumulative_funding_rate p,
                         fp_user_last_funding_rate_ts = ChainPosition.last_funding_rate_ts p,
                         fp_amm_cumulative_funding_long = cumulative_funding_rate_long a,
                         fp_amm_cumulative_funding_short = cumulative_funding_rate_short a\<rparr>)
                      history) (\<lambda>history'.
             bindE (add_m i128 funding_payment market_funding_rate_payment) (\<lambda>funding_payment'.
             Inr (funding_payment', history',
                  visited @ [p\<lparr>last_cumulative_funding_rate := amm_cumulative_funding_rate,
                               ChainPosition.last_funding_rate_ts := ChainAMM.last_funding_rate_ts a\<rparr>]))))
           else Inr (funding_payment, history, visited @ [p])))"

definition settle_funding_payment ::
  "ChainUser \<Rightarrow> ChainUserPositions \<Rightarrow> ChainMarket list \<Rightarrow> ChainFundingPaymentRecord Ring \<Rightarrow> int \<Rightarrow>
     (ChainUser \<times> ChainUserPositions \<times> ChainFundingPaymentRecord Ring) chain_result" where
  "settle_funding_payment usr user_positions ms history now =
     bindE (foldE (settle_position usr (ChainUserPositions.user user_positions) ms now) (0, history, [])
              (ChainUserPositions.positions user_positions))
       (\<lambda>(funding_payment, history', ps).
     bindE (div_m i128 funding_payment AMM_TO_QUOTE_PRECISION_RATIO) (\<lambda>funding_payment_collateral.
     bindE (calculate_updated_collateral (collateral usr) funding_payment_collateral) (\<lambda>coll.
     Inr (usr\<lparr>collateral := coll\<rparr>, user_positions\<lparr>ChainUserPositions.positions := ps\<rparr>, history'))))"

subsection \<open>The hourly update\<close>

text \<open>How long after the last update the next one is due: on the hour, unless the last was late.\<close>

definition next_update_wait :: "ChainAMM \<Rightarrow> int chain_result" where
  "next_update_wait a =
     (if funding_period a > 1 then
        let last_update_delay = ChainAMM.last_funding_rate_ts a mod funding_period a in
        if last_update_delay \<noteq> 0 then
          bindE (div_m i64 (funding_period a) 3) (\<lambda>max_delay_for_next_period.
          if last_update_delay > max_delay_for_next_period then
            bindE (mul_m i64 (funding_period a) 2) (\<lambda>n. sub_m i64 n last_update_delay)
          else sub_m i64 (funding_period a) last_update_delay)
        else Inr (funding_period a)
      else Inr (funding_period a))"

text \<open>The rate from the spread of the averages, clamped to three percent, per funding period of a day.\<close>

definition funding_rate_of :: "int \<Rightarrow> int \<Rightarrow> int \<Rightarrow> int chain_result" where
  "funding_rate_of mark_twap oracle_twap period =
     bindE (cast_to_i64 ONE_HOUR) (\<lambda>one_hour_i64.
     bindE (mul_m i64 24 one_hour_i64) (\<lambda>n.
     bindE (div_m i64 n (max one_hour_i64 period)) (\<lambda>period_adjustment.
     bindE (cast_to_i128 mark_twap) (\<lambda>m.
     bindE (sub_m i128 m oracle_twap) (\<lambda>price_spread.
     bindE (div_m i128 oracle_twap 33) (\<lambda>max_price_spread.
     let clamped_price_spread =
           max (wrap i128 (- max_price_spread)) (min price_spread max_price_spread) in
     bindE (cast i128 FUNDING_PAYMENT_PRECISION) (\<lambda>f.
     bindE (mul_m i128 clamped_price_spread f) (\<lambda>r.
     bindE (cast i128 period_adjustment) (\<lambda>d. div_m i128 r d)))))))))"

definition update_funding_rate ::
  "int \<Rightarrow> ChainMarket \<Rightarrow> OracleInfo \<Rightarrow> int \<Rightarrow> int \<Rightarrow> ChainFundingRateRecord Ring \<Rightarrow> OracleGuardRails \<Rightarrow>
     bool \<Rightarrow> (ChainMarket \<times> ChainFundingRateRecord Ring) chain_result" where
  "update_funding_rate index market price_oracle now clock_slot history guard_rails funding_paused =
     bindE (sub_m i64 now (ChainAMM.last_funding_rate_ts (amm market))) (\<lambda>time_since_last_update.
     bindE (block_operation (amm market) price_oracle clock_slot guard_rails None)
       (\<lambda>(block_funding_rate_update, oracle_price).
     bindE (next_update_wait (amm market)) (\<lambda>wait.
     if \<not> funding_paused \<and> \<not> block_funding_rate_update \<and> time_since_last_update \<ge> wait then
       bindE (update_oracle_price_twap (amm market) now oracle_price) (\<lambda>(a1, oracle_price_twap).
       bindE (update_mark_twap a1 now None) (\<lambda>(a2, mark_price_twap).
       bindE (funding_rate_of mark_price_twap oracle_price_twap (funding_period a2)) (\<lambda>funding_rate.
       bindE (calculate_funding_rate_long_short (market\<lparr>amm := a2\<rparr>) funding_rate)
         (\<lambda>(m1, funding_rate_long, funding_rate_short).
       bindE (add_m i128 (cumulative_funding_rate_long (amm m1)) funding_rate_long) (\<lambda>long_rate.
       bindE (add_m i128 (cumulative_funding_rate_short (amm m1)) funding_rate_short) (\<lambda>short_rate.
       let a3 = (amm m1)\<lparr>cumulative_funding_rate_long := long_rate,
                         cumulative_funding_rate_short := short_rate,
                         last_funding_rate := funding_rate, ChainAMM.last_funding_rate_ts := now\<rparr> in
       bindE (log_record funding_rate_next_record_id funding_rate_append
                (\<lambda>record_id. \<lparr>
                   fr_ts = now, fr_record_id = record_id, fr_market_index = index,
                   fr_funding_rate = funding_rate,
                   fr_cumulative_funding_rate_long = long_rate,
                   fr_cumulative_funding_rate_short = short_rate,
                   fr_oracle_price_twap = oracle_price_twap, fr_mark_price_twap = mark_price_twap\<rparr>)
                history) (\<lambda>history'.
       Inr (m1\<lparr>amm := a3\<rparr>, history'))))))))
     else Inr (market, history))))"

end
