(* ===== verification/ChainAccounts.thy ===== *)
theory ChainAccounts
  imports ChainFunding OptionalAccounts
begin

section \<open>Instructions on collateral\<close>

text \<open>
  The handlers of \<open>lib.rs\<close> that move collateral: deposits, withdrawals, the settlement of funding,
  the deletion of a user and the withdrawals of the admin, with the access controls they share. The
  record \<open>Accounts\<close> has the accounts an instruction gets, after the constraints of \<open>context.rs\<close> have
  been checked by Anchor: the state, the markets, the user with its positions, the histories, the
  balances of the two vaults and of the caller's token account.

  \<open>transfer\<close> is the transfer of the token program (\<open>anchor_spl::token::transfer\<close>), an argument: it maps
  the balances of the two accounts and the amount to the new balances. What the properties rely on
  is that a transfer that succeeds moves the amount and never overdraws (\<open>sound_transfer\<close>).
\<close>

subsection \<open>Accounts\<close>

record Accounts =
  acc_state :: StateAccount
  acc_markets :: "ChainMarket list"
  acc_user :: ChainUser
  acc_user_key :: PublicKey
  acc_positions :: ChainUserPositions
  acc_authority :: PublicKey
  acc_collateral_vault :: int
  acc_insurance_vault :: int
  acc_wallet :: int
  acc_deposits :: "ChainDepositRecord Ring"
  acc_payments :: "ChainFundingPaymentRecord Ring"
  acc_rates :: "ChainFundingRateRecord Ring"
  acc_trades :: "ChainTradeRecord Ring"
  acc_liquidations :: "ChainLiquidationRecord Ring"
  acc_curves :: "ChainExtendedCurveRecord Ring"
  acc_liquidator :: ChainUser
  acc_liquidator_key :: PublicKey
  acc_referrer :: "ChainUser option"

type_synonym token_transfer = "int \<Rightarrow> int \<Rightarrow> int \<Rightarrow> (int \<times> int) chain_result"

definition sound_transfer :: "token_transfer \<Rightarrow> bool" where
  "sound_transfer transfer \<longleftrightarrow>
     (\<forall>src dst n src' dst'. transfer src dst n = Inr (src', dst') \<longrightarrow>
        src' = src - n \<and> dst' = dst + n \<and> 0 \<le> n \<and> n \<le> src)"

text \<open>A transfer of the documented kind, for the examples.\<close>

definition simple_transfer :: token_transfer where
  "simple_transfer src dst n = (if 0 \<le> n \<and> n \<le> src then Inr (src - n, dst + n) else Inl (External 1))"

lemma simple_transfer_sound [simp]: "sound_transfer simple_transfer"
  by (auto simp: sound_transfer_def simple_transfer_def split: if_splits)

subsection \<open>Access control\<close>

definition market_initialized :: "Accounts \<Rightarrow> int \<Rightarrow> unit chain_result" where
  "market_initialized acc index =
     bindE (market_at (acc_markets acc) index) (\<lambda>m.
     guardE (\<not> ChainMarket.initialized m) MarketIndexNotInitialized)"

definition valid_oracle_for_market :: "OracleInfo \<Rightarrow> Accounts \<Rightarrow> int \<Rightarrow> unit chain_result" where
  "valid_oracle_for_market info acc index =
     bindE (market_at (acc_markets acc) index) (\<lambda>m.
     guardE (oracle_key (ChainMarket.amm m) \<noteq> oracle_info_key info) InvalidOracle)"

definition exchange_not_paused :: "Accounts \<Rightarrow> unit chain_result" where
  "exchange_not_paused acc = guardE (exchangePaused (acc_state acc)) ExchangePaused"

definition admin_controls_prices :: "Accounts \<Rightarrow> unit chain_result" where
  "admin_controls_prices acc = guardE (\<not> adminControlsPrices (acc_state acc)) AdminControlsPricesDisabled"

definition with_market :: "int \<Rightarrow> ChainMarket \<Rightarrow> Accounts \<Rightarrow> Accounts" where
  "with_market index m acc = acc\<lparr>acc_markets := (acc_markets acc)[nat index := m]\<rparr>"

subsection \<open>Deposits and withdrawals\<close>

definition settle_user :: "Accounts \<Rightarrow> int \<Rightarrow> Accounts chain_result" where
  "settle_user acc now =
     bindE (settle_funding_payment (acc_user acc) (acc_positions acc) (acc_markets acc) (acc_payments acc) now)
       (\<lambda>(usr, up, h). Inr (acc\<lparr>acc_user := usr, acc_positions := up, acc_payments := h\<rparr>))"

definition log_deposit ::
  "Accounts \<Rightarrow> int \<Rightarrow> ChainDepositDirection \<Rightarrow> int \<Rightarrow> int \<Rightarrow> int \<Rightarrow> Accounts chain_result" where
  "log_deposit acc now direction collateral_before cumulative_deposits_before amount =
     bindE (log_record deposit_next_record_id deposit_append
              (\<lambda>record_id. \<lparr>
                 dr_ts = now, dr_record_id = record_id, dr_user_authority = ChainUser.authority (acc_user acc),
                 dr_user = acc_user_key acc, dr_direction = direction,
                 dr_collateral_before = collateral_before,
                 dr_cumulative_deposits_before = cumulative_deposits_before, dr_amount = amount\<rparr>)
              (acc_deposits acc)) (\<lambda>h. Inr (acc\<lparr>acc_deposits := h\<rparr>))"

definition deposit_collateral :: "token_transfer \<Rightarrow> Accounts \<Rightarrow> int \<Rightarrow> int \<Rightarrow> Accounts chain_result" where
  "deposit_collateral transfer acc now amount =
     bindE (guardE (amount = 0) InsufficientDeposit) (\<lambda>_.
     let usr = acc_user acc;
         collateral_before = ChainUser.collateral usr;
         cumulative_deposits_before = cumulative_deposits usr in
     bindE (cast u128 amount) (\<lambda>n.
     bindE (add_m u128 (ChainUser.collateral usr) n) (\<lambda>coll.
     bindE (cast i128 amount) (\<lambda>n'.
     bindE (add_m i128 (cumulative_deposits usr) n') (\<lambda>deps.
     bindE (settle_user (acc\<lparr>acc_user := usr\<lparr>ChainUser.collateral := coll, cumulative_deposits := deps\<rparr>\<rparr>) now)
       (\<lambda>acc1.
     bindE (transfer (acc_wallet acc1) (acc_collateral_vault acc1) amount) (\<lambda>(w, v).
     bindE (log_deposit (acc1\<lparr>acc_wallet := w, acc_collateral_vault := v\<rparr>) now DEPOSIT collateral_before
              cumulative_deposits_before amount) (\<lambda>acc2.
     bindE (if maxDeposit (acc_state acc2) > 0 then
              bindE (cast i128 (maxDeposit (acc_state acc2))) (\<lambda>limit.
              guardE (cumulative_deposits (acc_user acc2) > limit) UserMaxDeposit)
            else Inr ()) (\<lambda>_.
     Inr acc2)))))))))"

definition withdraw_collateral :: "token_transfer \<Rightarrow> Accounts \<Rightarrow> int \<Rightarrow> int \<Rightarrow> Accounts chain_result" where
  "withdraw_collateral transfer acc now amount =
     bindE (exchange_not_paused acc) (\<lambda>_.
     let collateral_before = ChainUser.collateral (acc_user acc);
         cumulative_deposits_before = cumulative_deposits (acc_user acc) in
     bindE (settle_user acc now) (\<lambda>acc1.
     let usr = acc_user acc1 in
     bindE (cast_to_u128 amount) (\<lambda>n.
     bindE (guardE (n > ChainUser.collateral usr) InsufficientCollateral) (\<lambda>_.
     bindE (calculate_withdrawal_amounts amount (acc_collateral_vault acc1) (acc_insurance_vault acc1))
       (\<lambda>(collateral_account_withdrawal, insurance_account_withdrawal).
     bindE (add_m u64 collateral_account_withdrawal insurance_account_withdrawal) (\<lambda>amount_withdraw.
     bindE (cast i128 amount_withdraw) (\<lambda>aw.
     bindE (sub_m i128 (cumulative_deposits usr) aw) (\<lambda>deps.
     bindE (cast u128 collateral_account_withdrawal) (\<lambda>cw.
     bindE (sub_m u128 (ChainUser.collateral usr) cw) (\<lambda>c1.
     bindE (cast u128 insurance_account_withdrawal) (\<lambda>iw.
     bindE (sub_m u128 c1 iw) (\<lambda>coll.
     let usr' = usr\<lparr>cumulative_deposits := deps, ChainUser.collateral := coll\<rparr> in
     bindE (calculate_margin_ratio usr' (ChainUserPositions.positions (acc_positions acc1)) (acc_markets acc1))
       (\<lambda>(_, _, _, margin_ratio).
     bindE (guardE (margin_ratio < marginRatioInitial (acc_state acc1)) InsufficientCollateral) (\<lambda>_.
     bindE (transfer (acc_collateral_vault acc1) (acc_wallet acc1) collateral_account_withdrawal)
       (\<lambda>(v, w).
     bindE (if insurance_account_withdrawal > 0
            then transfer (acc_insurance_vault acc1) w insurance_account_withdrawal
            else Inr (acc_insurance_vault acc1, w)) (\<lambda>(i, w').
     log_deposit (acc1\<lparr>acc_user := usr', acc_collateral_vault := v, acc_insurance_vault := i, acc_wallet := w'\<rparr>)
       now WITHDRAW collateral_before cumulative_deposits_before amount_withdraw))))))))))))))))"

definition settle_funding_payment_ix :: "Accounts \<Rightarrow> int \<Rightarrow> Accounts chain_result" where
  "settle_funding_payment_ix acc now = bindE (exchange_not_paused acc) (\<lambda>_. settle_user acc now)"

definition delete_user :: "Accounts \<Rightarrow> unit chain_result" where
  "delete_user acc = guardE (ChainUser.collateral (acc_user acc) > 0) CantDeleteUserWithCollateral"

subsection \<open>Withdrawals of the admin\<close>

text \<open>\<open>acc_wallet\<close> is the token account of the recipient.\<close>

definition withdraw_fees :: "token_transfer \<Rightarrow> Accounts \<Rightarrow> int \<Rightarrow> int \<Rightarrow> Accounts chain_result" where
  "withdraw_fees transfer acc index amount =
     bindE (market_initialized acc index) (\<lambda>_.
     bindE (market_at (acc_markets acc) index) (\<lambda>market.
     bindE (fee_lower_bound (ChainMarket.amm market)) (\<lambda>share.
     bindE (sub_m u128 share (total_fee_withdrawn (ChainMarket.amm market))) (\<lambda>max_withdraw.
     bindE (cast_to_u128 amount) (\<lambda>n.
     bindE (guardE (n > max_withdraw) AdminWithdrawTooLarge) (\<lambda>_.
     bindE (transfer (acc_collateral_vault acc) (acc_wallet acc) amount) (\<lambda>(v, w).
     bindE (cast u128 amount) (\<lambda>n'.
     bindE (add_m u128 (total_fee_withdrawn (ChainMarket.amm market)) n') (\<lambda>withdrawn.
     Inr (with_market index (market\<lparr>amm := (ChainMarket.amm market)\<lparr>total_fee_withdrawn := withdrawn\<rparr>\<rparr>)
            (acc\<lparr>acc_collateral_vault := v, acc_wallet := w\<rparr>)))))))))))"

definition withdraw_from_insurance_vault :: "token_transfer \<Rightarrow> Accounts \<Rightarrow> int \<Rightarrow> Accounts chain_result" where
  "withdraw_from_insurance_vault transfer acc amount =
     bindE (transfer (acc_insurance_vault acc) (acc_wallet acc) amount) (\<lambda>(i, w).
     Inr (acc\<lparr>acc_insurance_vault := i, acc_wallet := w\<rparr>))"

definition withdraw_from_insurance_vault_to_market ::
  "token_transfer \<Rightarrow> Accounts \<Rightarrow> int \<Rightarrow> int \<Rightarrow> Accounts chain_result" where
  "withdraw_from_insurance_vault_to_market transfer acc index amount =
     bindE (market_initialized acc index) (\<lambda>_.
     bindE (market_at (acc_markets acc) index) (\<lambda>market.
     bindE (cast u128 amount) (\<lambda>n.
     bindE (add_m u128 (total_fee_minus_distributions (ChainMarket.amm market)) n) (\<lambda>fees.
     bindE (transfer (acc_insurance_vault acc) (acc_collateral_vault acc) amount) (\<lambda>(i, v).
     Inr (with_market index
            (market\<lparr>amm := (ChainMarket.amm market)\<lparr>total_fee_minus_distributions := fees\<rparr>\<rparr>)
            (acc\<lparr>acc_insurance_vault := i, acc_collateral_vault := v\<rparr>)))))))"

end
