(* ===== verification/ChainTrading.thy ===== *)
theory ChainTrading
  imports ChainAccounts
begin

section \<open>Trading\<close>

text \<open>
  \<open>open_position\<close>, \<open>close_position\<close> and \<open>update_funding_rate\<close> of \<open>lib.rs\<close>. The parts that
  the source writes out in several handlers (the fee of a trade, the last steps of a trade) are one
  definition each. The extra accounts are read by \<open>OptionalAccounts\<close>; \<open>oracle_of\<close> is the oracle data in
  an extra account, \<open>tryUser\<close> and \<open>unpack\<close> are as there.
\<close>

record Readers =
  unpack_token :: "nat list \<Rightarrow> TokenAccount option"
  try_user :: "AccountInfo \<Rightarrow> ChainUser option"
  spl_token_id :: PublicKey
  oracle_of :: "AccountInfo \<Rightarrow> PythPrice option"

subsection \<open>Finding the slot of a position\<close>

fun first_index :: "('a \<Rightarrow> bool) \<Rightarrow> 'a list \<Rightarrow> nat option" where
  "first_index f [] = None"
| "first_index f (x # xs) = (if f x then Some 0 else map_option Suc (first_index f xs))"

definition new_market_position :: "int \<Rightarrow> PublicKey \<Rightarrow> ChainPosition" where
  "new_market_position index default_key = \<lparr>
     market_index = index, ChainPosition.base_asset_amount = 0, quote_asset_amount = 0,
     last_cumulative_funding_rate = 0, last_cumulative_repeg_rebate = 0,
     ChainPosition.last_funding_rate_ts = 0, stop_loss_price = 0, stop_loss_amount = 0,
     stop_profit_price = 0, stop_profit_amount = 0, transfer_to = default_key\<rparr>"

definition DEFAULT_KEY :: PublicKey where
  "DEFAULT_KEY = ''11111111111111111111111111111111''"

text \<open>The open position in the market, or a new one in the first free slot.\<close>

definition position_slot :: "ChainPosition list \<Rightarrow> int \<Rightarrow> (nat \<times> ChainPosition list) chain_result" where
  "position_slot ps index =
     (case first_index (\<lambda>p. is_for p index) ps of
        Some i \<Rightarrow> Inr (i, ps)
      | None \<Rightarrow>
          (case first_index (\<lambda>p. \<not> is_open_position p) ps of
             None \<Rightarrow> Inl (Err MaxNumberOfPositions)
           | Some i \<Rightarrow> Inr (i, ps[i := new_market_position index DEFAULT_KEY])))"

subsection \<open>The trade itself\<close>

text \<open>
  The three ways a trade goes: it increases the position, reduces it, or closes it and opens the rest
  on the other side. The result is the changed accounts, the quote amount (rounded to the value of
  the position when close to it), the base amount and whether the trade may increase the risk.
\<close>

definition execute_trade ::
  "PositionDirection \<Rightarrow> int \<Rightarrow> ChainUser \<Rightarrow> ChainMarket \<Rightarrow> ChainPosition \<Rightarrow> int \<Rightarrow>
     (ChainUser \<times> ChainMarket \<times> ChainPosition \<times> int \<times> int \<times> bool) chain_result" where
  "execute_trade direction quote usr market p now =
     (if ChainPosition.base_asset_amount p = 0 \<or>
         ChainPosition.base_asset_amount p > 0 \<and> direction = LONG \<or>
         ChainPosition.base_asset_amount p < 0 \<and> direction = SHORT then
        bindE (increase direction quote market p now) (\<lambda>(m1, p1, base).
        Inr (usr, m1, p1, quote, \<bar>base\<bar>, True))
      else
        bindE (calculate_base_asset_value_and_pnl p (ChainMarket.amm market)) (\<lambda>(base_asset_value, _).
        bindE (should_round_trade (ChainMarket.amm market) quote base_asset_value) (\<lambda>round.
        let q = (if round then base_asset_value else quote) in
        if base_asset_value > q then
          bindE (reduce direction q usr market p now None) (\<lambda>(u1, m1, p1, base).
          Inr (u1, m1, p1, q, \<bar>base\<bar>, False))
        else
          bindE (sub_m u128 q base_asset_value) (\<lambda>quote_asset_amount_after_close.
          let risk = \<not> quote_asset_amount_after_close < base_asset_value in
          bindE (close_out usr market p now) (\<lambda>(u1, m1, p1, _, base_asset_amount_closed).
          bindE (increase direction quote_asset_amount_after_close m1 p1 now)
            (\<lambda>(m2, p2, base_asset_amount_opened).
          bindE (add_m u128 \<bar>base_asset_amount_closed\<bar> \<bar>base_asset_amount_opened\<bar>) (\<lambda>base.
          Inr (u1, m2, p2, q, base, risk))))))))"

subsection \<open>Fees\<close>

text \<open>
  The fee of a trade: the totals of the market and of the user, the collateral (never below zero) and
  the reward of the referrer. \<open>flags\<close> says whether the discount token and the referrer are given.
\<close>

definition charge_fee ::
  "Readers \<Rightarrow> bool \<times> bool \<Rightarrow> AccountInfo list \<Rightarrow> int \<Rightarrow> int \<Rightarrow> Accounts \<Rightarrow>
     (Accounts \<times> int \<times> int \<times> int \<times> int) chain_result" where
  "charge_fee rd flags remaining index quote acc =
     bindE (lift_err (get_discount_token_and_referrer (unpack_token rd) (try_user rd) (spl_token_id rd)
              (fst flags) (snd flags) remaining (discountMint (acc_state acc)) (acc_user_key acc)
              (acc_authority acc))) (\<lambda>(discount_token, referrer).
     bindE (calculate_fees quote (feeStructure (acc_state acc))
              (map_option (\<lambda>t. int (token_amount t)) discount_token) (referrer \<noteq> None))
       (\<lambda>(user_fee, fee_to_market, token_discount, referrer_reward, referee_discount).
     bindE (market_at (acc_markets acc) index) (\<lambda>market.
     bindE (add_m u128 (total_fee (ChainMarket.amm market)) fee_to_market) (\<lambda>tf.
     bindE (add_m u128 (total_fee_minus_distributions (ChainMarket.amm market)) fee_to_market) (\<lambda>tfd.
     let usr = acc_user acc;
         coll = (case checked_sub u128 (ChainUser.collateral usr) user_fee of None \<Rightarrow> 0 | Some c \<Rightarrow> c) in
     bindE (add_m u128 (total_fee_paid usr) user_fee) (\<lambda>paid.
     bindE (add_m u128 (total_token_discount usr) token_discount) (\<lambda>td.
     bindE (add_m u128 (total_referee_discount usr) referee_discount) (\<lambda>rdisc.
     bindE (case referrer of
              None \<Rightarrow> Inr None
            | Some r \<Rightarrow>
                bindE (add_m u128 (total_referral_reward r) referrer_reward) (\<lambda>reward.
                Inr (Some (r\<lparr>total_referral_reward := reward\<rparr>)))) (\<lambda>referrer'.
     Inr (with_market index
            (market\<lparr>amm := (ChainMarket.amm market)\<lparr>total_fee := tf, total_fee_minus_distributions := tfd\<rparr>\<rparr>)
            (acc\<lparr>acc_user := usr\<lparr>ChainUser.collateral := coll, total_fee_paid := paid,
                                 total_token_discount := td, total_referee_discount := rdisc\<rparr>,
                 acc_referrer := referrer'\<rparr>),
          user_fee, token_discount, referrer_reward, referee_discount))))))))))"

definition log_trade ::
  "Accounts \<Rightarrow> (int \<Rightarrow> ChainTradeRecord) \<Rightarrow> Accounts chain_result" where
  "log_trade acc mk =
     bindE (log_record trade_next_record_id trade_append mk (acc_trades acc)) (\<lambda>h. Inr (acc\<lparr>acc_trades := h\<rparr>))"

definition refresh_funding_rate :: "OracleInfo \<Rightarrow> int \<Rightarrow> int \<Rightarrow> int \<Rightarrow> Accounts \<Rightarrow> Accounts chain_result" where
  "refresh_funding_rate info now slot index acc =
     bindE (market_at (acc_markets acc) index) (\<lambda>market.
     bindE (update_funding_rate index market info now slot (acc_rates acc)
              (oracleGuardRails (acc_state acc)) (fundingPaused (acc_state acc))) (\<lambda>(m, h).
     Inr (with_market index m (acc\<lparr>acc_rates := h\<rparr>))))"

text \<open>The check of the limit price: the average price of the whole trade.\<close>

definition check_limit :: "PositionDirection \<Rightarrow> int \<Rightarrow> int \<Rightarrow> int \<Rightarrow> int \<Rightarrow> unit chain_result" where
  "check_limit direction limit_price quote base peg =
     (if limit_price \<noteq> 0 then
        bindE (asset_to_reserve_amount quote peg) (\<lambda>quote_asset_reserve_amount.
        bindE (calculate_price quote_asset_reserve_amount base peg) (\<lambda>entry_price.
        case direction of
          LONG \<Rightarrow> guardE (entry_price > limit_price) SlippageOutsideLimit
        | SHORT \<Rightarrow> guardE (entry_price < limit_price) SlippageOutsideLimit))
      else Inr ())"

subsection \<open>\<open>open_position\<close>\<close>

text \<open>Before the trade: the mark price, the spread to the oracle, and the oracle's average if it is valid.\<close>

definition before_trade ::
  "ChainMarket \<Rightarrow> OracleInfo \<Rightarrow> int \<Rightarrow> int \<Rightarrow> OracleGuardRails \<Rightarrow> (ChainMarket \<times> int \<times> int \<times> bool) chain_result" where
  "before_trade market info now slot rails =
     bindE (mark_price (ChainMarket.amm market)) (\<lambda>mark_price_before.
     bindE (calculate_oracle_mark_spread_pct (ChainMarket.amm market) info 0 slot None)
       (\<lambda>(oracle_price, _, spread_pct_before).
     bindE (is_oracle_valid (ChainMarket.amm market) info slot (validity rails)) (\<lambda>is_valid.
     bindE (if is_valid then update_oracle_price_twap (ChainMarket.amm market) now oracle_price
            else Inr (ChainMarket.amm market, 0)) (\<lambda>(a, _).
     Inr (market\<lparr>amm := a\<rparr>, mark_price_before, spread_pct_before, is_valid)))))"

definition open_position ::
  "Readers \<Rightarrow> Accounts \<Rightarrow> OracleInfo \<Rightarrow> int \<Rightarrow> int \<Rightarrow> PositionDirection \<Rightarrow> int \<Rightarrow> int \<Rightarrow> int \<Rightarrow> bool \<times> bool \<Rightarrow>
     AccountInfo list \<Rightarrow> Accounts chain_result" where
  "open_position rd acc info now slot direction quote index limit_price flags remaining =
     bindE (market_initialized acc index) (\<lambda>_.
     bindE (exchange_not_paused acc) (\<lambda>_.
     bindE (valid_oracle_for_market info acc index) (\<lambda>_.
     bindE (settle_user acc now) (\<lambda>acc1.
     bindE (position_slot (ChainUserPositions.positions (acc_positions acc1)) index) (\<lambda>(i, ps).
     bindE (market_at (acc_markets acc1) index) (\<lambda>market.
     bindE (before_trade market info now slot (oracleGuardRails (acc_state acc1)))
       (\<lambda>(m0, mark_price_before, spread_before, is_oracle_valid).
     bindE (execute_trade direction quote (acc_user acc1) m0 (ps ! i) now)
       (\<lambda>(usr, m1, p, q, base, potentially_risk_increasing).
     let ps' = ps[i := p];
         acc2 = with_market index m1
           (acc1\<lparr>acc_user := usr, acc_positions := (acc_positions acc1)\<lparr>ChainUserPositions.positions := ps'\<rparr>\<rparr>) in
     bindE (mark_price (ChainMarket.amm m1)) (\<lambda>mark_price_after.
     bindE (calculate_oracle_mark_spread_pct (ChainMarket.amm m1) info 0 slot (Some mark_price_after))
       (\<lambda>(oracle_price_after, _, spread_after).
     bindE (calculate_margin_ratio usr ps' (acc_markets acc2)) (\<lambda>(_, _, _, margin_ratio_after).
     bindE (guardE (margin_ratio_after < marginRatioInitial (acc_state acc2) \<and> potentially_risk_increasing)
              InsufficientCollateral) (\<lambda>_.
     bindE (charge_fee rd flags remaining index q acc2)
       (\<lambda>(acc3, user_fee, token_discount, referrer_reward, referee_discount).
     bindE (is_oracle_mark_too_divergent spread_before (priceDivergence (oracleGuardRails (acc_state acc3))))
       (\<lambda>divergent_before.
     bindE (is_oracle_mark_too_divergent spread_after (priceDivergence (oracleGuardRails (acc_state acc3))))
       (\<lambda>divergent_after.
     bindE (guardE (divergent_after \<and> \<not> divergent_before \<and> is_oracle_valid) OracleMarkSpreadLimit) (\<lambda>_.
     bindE (guardE (divergent_after \<and> \<bar>spread_after\<bar> \<ge> \<bar>spread_before\<bar> \<and> is_oracle_valid \<and>
                    potentially_risk_increasing) OracleMarkSpreadLimit) (\<lambda>_.
     bindE (log_trade acc3 (\<lambda>record_id. \<lparr>
              tr_ts = now, tr_record_id = record_id, tr_user_authority = acc_authority acc3,
              tr_user = acc_user_key acc3, tr_direction = direction, tr_base_asset_amount = base,
              tr_quote_asset_amount = q, tr_mark_price_before = mark_price_before,
              tr_mark_price_after = mark_price_after, tr_fee = user_fee,
              tr_referrer_reward = referrer_reward, tr_referee_discount = referee_discount,
              tr_token_discount = token_discount, tr_liquidation = False, tr_market_index = index,
              tr_oracle_price = oracle_price_after\<rparr>)) (\<lambda>acc4.
     bindE (check_limit direction limit_price q base (peg_multiplier (ChainMarket.amm m1))) (\<lambda>_.
     refresh_funding_rate info now slot index acc4)))))))))))))))))))"

subsection \<open>\<open>close_position\<close>\<close>

definition close_position ::
  "Readers \<Rightarrow> Accounts \<Rightarrow> OracleInfo \<Rightarrow> int \<Rightarrow> int \<Rightarrow> int \<Rightarrow> bool \<times> bool \<Rightarrow> AccountInfo list \<Rightarrow>
     Accounts chain_result" where
  "close_position rd acc info now slot index flags remaining =
     bindE (market_initialized acc index) (\<lambda>_.
     bindE (exchange_not_paused acc) (\<lambda>_.
     bindE (valid_oracle_for_market info acc index) (\<lambda>_.
     bindE (settle_user acc now) (\<lambda>acc1.
     let ps = ChainUserPositions.positions (acc_positions acc1) in
     bindE (ok_or UserHasNoPositionInMarket (first_index (\<lambda>p. is_for p index) ps)) (\<lambda>i.
     bindE (market_at (acc_markets acc1) index) (\<lambda>market.
     bindE (mark_price (ChainMarket.amm market)) (\<lambda>mark_price_before.
     bindE (calculate_oracle_mark_spread_pct (ChainMarket.amm market) info 0 slot (Some mark_price_before))
       (\<lambda>(_, _, spread_before).
     let direction_to_close = direction_to_close_position (ChainPosition.base_asset_amount (ps ! i)) in
     bindE (close_out (acc_user acc1) market (ps ! i) now) (\<lambda>(usr, m1, p, quote, b).
     let acc2 = with_market index m1
           (acc1\<lparr>acc_user := usr,
                 acc_positions := (acc_positions acc1)\<lparr>ChainUserPositions.positions := ps[i := p]\<rparr>\<rparr>) in
     bindE (charge_fee rd flags remaining index quote acc2)
       (\<lambda>(acc3, user_fee, token_discount, referrer_reward, referee_discount).
     bindE (market_at (acc_markets acc3) index) (\<lambda>m2.
     bindE (mark_price (ChainMarket.amm m2)) (\<lambda>mark_price_after.
     bindE (calculate_oracle_mark_spread_pct (ChainMarket.amm m2) info 0 slot (Some mark_price_after))
       (\<lambda>(oracle_price_after, _, spread_after).
     bindE (is_oracle_valid (ChainMarket.amm m2) info slot (validity (oracleGuardRails (acc_state acc3))))
       (\<lambda>is_oracle_valid.
     bindE (if is_oracle_valid then update_oracle_price_twap (ChainMarket.amm m2) now oracle_price_after
            else Inr (ChainMarket.amm m2, 0)) (\<lambda>(a, _).
     let acc4 = with_market index (m2\<lparr>amm := a\<rparr>) acc3 in
     bindE (is_oracle_mark_too_divergent spread_before (priceDivergence (oracleGuardRails (acc_state acc4))))
       (\<lambda>divergent_before.
     bindE (is_oracle_mark_too_divergent spread_after (priceDivergence (oracleGuardRails (acc_state acc4))))
       (\<lambda>divergent_after.
     bindE (guardE (divergent_after \<and> \<not> divergent_before \<and> is_oracle_valid) OracleMarkSpreadLimit) (\<lambda>_.
     bindE (log_trade acc4 (\<lambda>record_id. \<lparr>
              tr_ts = now, tr_record_id = record_id, tr_user_authority = acc_authority acc4,
              tr_user = acc_user_key acc4, tr_direction = direction_to_close, tr_base_asset_amount = \<bar>b\<bar>,
              tr_quote_asset_amount = quote, tr_mark_price_before = mark_price_before,
              tr_mark_price_after = mark_price_after, tr_fee = user_fee,
              tr_referrer_reward = referrer_reward, tr_referee_discount = referee_discount,
              tr_token_discount = token_discount, tr_liquidation = False, tr_market_index = index,
              tr_oracle_price = oracle_price_after\<rparr>)) (\<lambda>acc5.
     refresh_funding_rate info now slot index acc5)))))))))))))))))))"

definition update_funding_rate_ix :: "Accounts \<Rightarrow> OracleInfo \<Rightarrow> int \<Rightarrow> int \<Rightarrow> int \<Rightarrow> Accounts chain_result" where
  "update_funding_rate_ix acc info now slot index =
     bindE (market_initialized acc index) (\<lambda>_.
     bindE (exchange_not_paused acc) (\<lambda>_.
     bindE (valid_oracle_for_market info acc index) (\<lambda>_.
     refresh_funding_rate info now slot index acc)))"

end
