(* ===== verification/ChainLiquidation.thy ===== *)
theory ChainLiquidation
  imports ChainTrading
begin

section \<open>Liquidation\<close>

text \<open>
  \<open>liquidate\<close> of \<open>lib.rs\<close>: below the maintenance margin ratio every position is closed, below the
  partial one every position is reduced; a penalty on the collateral is split between the
  liquidator and the insurance vault.
\<close>

text \<open>The oracle of a market among the extra accounts.\<close>

definition oracle_account :: "Readers \<Rightarrow> AccountInfo list \<Rightarrow> ChainAMM \<Rightarrow> OracleInfo chain_result" where
  "oracle_account rd remaining a =
     mapE (\<lambda>info. \<lparr>oracle_info_key = info_key info, oracle_data = oracle_of rd info\<rparr>)
       (ok_or OracleNotFound (find (\<lambda>info. info_key info = oracle_key a) remaining))"

definition liquidation_record ::
  "Accounts \<Rightarrow> ChainUser \<Rightarrow> int \<Rightarrow> PositionDirection \<Rightarrow> int \<Rightarrow> int \<Rightarrow> int \<Rightarrow> int \<Rightarrow> int \<Rightarrow> int \<Rightarrow> int \<Rightarrow> ChainTradeRecord" where
  "liquidation_record acc usr now direction base quote mark_price_before mark_price_after index oracle_price
     record_id = \<lparr>
       tr_ts = now, tr_record_id = record_id, tr_user_authority = ChainUser.authority usr,
       tr_user = acc_user_key acc, tr_direction = direction, tr_base_asset_amount = base,
       tr_quote_asset_amount = quote, tr_mark_price_before = mark_price_before,
       tr_mark_price_after = mark_price_after, tr_fee = 0, tr_referrer_reward = 0,
       tr_referee_discount = 0, tr_token_discount = 0, tr_liquidation = True, tr_market_index = index,
       tr_oracle_price = oracle_price\<rparr>"

text \<open>What the two loops carry: the user, the markets, the trade history, the value closed, and the positions visited.\<close>

record LiquidationRun =
  run_user :: ChainUser
  run_markets :: "ChainMarket list"
  run_trades :: "ChainTradeRecord Ring"
  run_closed :: int
  run_visited :: "ChainPosition list"

definition liquidate_fully ::
  "Readers \<Rightarrow> Accounts \<Rightarrow> AccountInfo list \<Rightarrow> int \<Rightarrow> int \<Rightarrow> LiquidationRun \<Rightarrow> ChainPosition \<Rightarrow>
     LiquidationRun chain_result" where
  "liquidate_fully rd acc remaining now slot run p =
     (if ChainPosition.base_asset_amount p = 0 then Inr (run\<lparr>run_visited := run_visited run @ [p]\<rparr>)
      else
        bindE (market_at (run_markets run) (ChainPosition.market_index p)) (\<lambda>market.
        bindE (oracle_account rd remaining (ChainMarket.amm market)) (\<lambda>info.
        bindE (block_operation (ChainMarket.amm market) info slot (oracleGuardRails (acc_state acc)) None)
          (\<lambda>(liquidations_blocked, oracle_price).
        bindE (guardE liquidations_blocked LiquidationsBlockedByOracle) (\<lambda>_.
        let direction_to_close = direction_to_close_position (ChainPosition.base_asset_amount p) in
        bindE (mark_price (ChainMarket.amm market)) (\<lambda>mark_price_before.
        bindE (close_out (run_user run) market p now) (\<lambda>(usr, m, p', base_asset_value, b).
        bindE (add_m u128 (run_closed run) base_asset_value) (\<lambda>closed.
        bindE (mark_price (ChainMarket.amm m)) (\<lambda>mark_price_after.
        bindE (log_record trade_next_record_id trade_append
                 (liquidation_record acc usr now direction_to_close \<bar>b\<bar> base_asset_value mark_price_before
                    mark_price_after (ChainPosition.market_index p) oracle_price) (run_trades run)) (\<lambda>h.
        Inr \<lparr>run_user = usr, run_markets = (run_markets run)[nat (ChainPosition.market_index p) := m],
             run_trades = h, run_closed = closed, run_visited = run_visited run @ [p']\<rparr>))))))))))"

definition liquidate_partly ::
  "Readers \<Rightarrow> Accounts \<Rightarrow> AccountInfo list \<Rightarrow> int \<Rightarrow> int \<Rightarrow> LiquidationRun \<Rightarrow> ChainPosition \<Rightarrow>
     LiquidationRun chain_result" where
  "liquidate_partly rd acc remaining now slot run p =
     (if ChainPosition.base_asset_amount p = 0 then Inr (run\<lparr>run_visited := run_visited run @ [p]\<rparr>)
      else
        bindE (market_at (run_markets run) (ChainPosition.market_index p)) (\<lambda>market.
        bindE (mark_price (ChainMarket.amm market)) (\<lambda>mark_price_before.
        bindE (oracle_account rd remaining (ChainMarket.amm market)) (\<lambda>info.
        bindE (block_operation (ChainMarket.amm market) info slot (oracleGuardRails (acc_state acc))
                 (Some mark_price_before)) (\<lambda>(liquidations_blocked, oracle_price).
        bindE (guardE liquidations_blocked LiquidationsBlockedByOracle) (\<lambda>_.
        bindE (calculate_base_asset_value_and_pnl p (ChainMarket.amm market)) (\<lambda>(base_asset_value, _).
        bindE (mul_m u128 base_asset_value
                 (partialLiquidationClosePercentageNumerator (acc_state acc))) (\<lambda>n.
        bindE (div_m u128 n (partialLiquidationClosePercentageDenominator (acc_state acc)))
          (\<lambda>base_asset_value_to_close.
        bindE (add_m u128 (run_closed run) base_asset_value_to_close) (\<lambda>closed.
        let direction_to_reduce = direction_to_close_position (ChainPosition.base_asset_amount p) in
        bindE (reduce direction_to_reduce base_asset_value_to_close (run_user run) market p now
                 (Some mark_price_before)) (\<lambda>(usr, m, p', b).
        bindE (mark_price (ChainMarket.amm m)) (\<lambda>mark_price_after.
        bindE (log_record trade_next_record_id trade_append
                 (liquidation_record acc usr now direction_to_reduce \<bar>b\<bar> base_asset_value_to_close
                    mark_price_before mark_price_after (ChainPosition.market_index p) oracle_price)
                 (run_trades run)) (\<lambda>h.
        Inr \<lparr>run_user = usr, run_markets = (run_markets run)[nat (ChainPosition.market_index p) := m],
             run_trades = h, run_closed = closed, run_visited = run_visited run @ [p']\<rparr>)))))))))))))"

text \<open>The penalty on the collateral of a full, on the total collateral of a partial liquidation.\<close>

definition liquidation_penalty :: "bool \<Rightarrow> StateAccount \<Rightarrow> int \<Rightarrow> int \<Rightarrow> int chain_result" where
  "liquidation_penalty is_full st collateral_after total_collateral =
     (if is_full then
        bindE (mul_m u128 collateral_after (fullLiquidationPenaltyPercentageNumerator st)) (\<lambda>n.
        div_m u128 n (fullLiquidationPenaltyPercentageDenominator st))
      else
        bindE (mul_m u128 total_collateral (partialLiquidationPenaltyPercentageNumerator st)) (\<lambda>n.
        div_m u128 n (partialLiquidationPenaltyPercentageDenominator st)))"

text \<open>
  Charging the penalty: the fees to the liquidator and to the insurance vault come out of what the
  collateral vault can pay. The liquidator gets collateral, the insurance vault gets tokens.
\<close>

definition charge_penalty ::
  "token_transfer \<Rightarrow> bool \<Rightarrow> int \<Rightarrow> Accounts \<Rightarrow> (Accounts \<times> int \<times> int) chain_result" where
  "charge_penalty transfer is_full liquidation_fee acc =
     bindE (cast u64 liquidation_fee) (\<lambda>n.
     bindE (calculate_withdrawal_amounts n (acc_collateral_vault acc) (acc_insurance_vault acc))
       (\<lambda>(withdrawal_amount, _).
     bindE (sub_m u128 (ChainUser.collateral (acc_user acc)) liquidation_fee) (\<lambda>coll.
     bindE (if is_full
            then div_m u64 withdrawal_amount (fullLiquidationLiquidatorShareDenominator (acc_state acc))
            else div_m u64 withdrawal_amount (partialLiquidationLiquidatorShareDenominator (acc_state acc)))
       (\<lambda>fee_to_liquidator.
     bindE (sub_m u64 withdrawal_amount fee_to_liquidator) (\<lambda>fee_to_insurance_fund.
     bindE (if fee_to_liquidator > 0 then
              bindE (cast u128 fee_to_liquidator) (\<lambda>f.
              bindE (add_m u128 (ChainUser.collateral (acc_liquidator acc)) f) (\<lambda>c.
              Inr ((acc_liquidator acc)\<lparr>ChainUser.collateral := c\<rparr>)))
            else Inr (acc_liquidator acc)) (\<lambda>liq.
     bindE (if fee_to_insurance_fund > 0
            then transfer (acc_collateral_vault acc) (acc_insurance_vault acc) fee_to_insurance_fund
            else Inr (acc_collateral_vault acc, acc_insurance_vault acc)) (\<lambda>(v, i).
     Inr (acc\<lparr>acc_user := (acc_user acc)\<lparr>ChainUser.collateral := coll\<rparr>, acc_liquidator := liq,
              acc_collateral_vault := v, acc_insurance_vault := i\<rparr>,
          fee_to_liquidator, fee_to_insurance_fund))))))))"

definition liquidate_ix ::
  "token_transfer \<Rightarrow> Readers \<Rightarrow> Accounts \<Rightarrow> AccountInfo list \<Rightarrow> int \<Rightarrow> int \<Rightarrow> Accounts chain_result" where
  "liquidate_ix transfer rd acc remaining now slot =
     bindE (exchange_not_paused acc) (\<lambda>_.
     bindE (settle_user acc now) (\<lambda>acc1.
     let st = acc_state acc1;
         ps = ChainUserPositions.positions (acc_positions acc1) in
     bindE (calculate_margin_ratio (acc_user acc1) ps (acc_markets acc1))
       (\<lambda>(total_collateral, unrealized_pnl, base_asset_value, margin_ratio).
     bindE (guardE (margin_ratio > marginRatioPartial st) SufficientCollateral) (\<lambda>_.
     let is_full_liquidation = (margin_ratio \<le> marginRatioMaintenance st);
         start = \<lparr>run_user = acc_user acc1, run_markets = acc_markets acc1, run_trades = acc_trades acc1,
                  run_closed = 0, run_visited = []\<rparr> in
     bindE (foldE (if is_full_liquidation then liquidate_fully rd acc1 remaining now slot
                   else liquidate_partly rd acc1 remaining now slot) start ps) (\<lambda>run.
     let acc2 = acc1\<lparr>acc_user := run_user run, acc_markets := run_markets run, acc_trades := run_trades run,
                     acc_positions := (acc_positions acc1)\<lparr>ChainUserPositions.positions := run_visited run\<rparr>\<rparr> in
     bindE (liquidation_penalty is_full_liquidation st (ChainUser.collateral (acc_user acc2)) total_collateral)
       (\<lambda>liquidation_fee.
     bindE (charge_penalty transfer is_full_liquidation liquidation_fee acc2)
       (\<lambda>(acc3, fee_to_liquidator, fee_to_insurance_fund).
     bindE (log_record liquidation_next_record_id liquidation_append (\<lambda>record_id. \<lparr>
              lr_ts = now, lr_record_id = record_id, lr_user_authority = ChainUser.authority (acc_user acc3),
              lr_user = acc_user_key acc3, lr_partial = (\<not> is_full_liquidation),
              lr_base_asset_value = base_asset_value, lr_base_asset_value_closed = run_closed run,
              lr_liquidation_fee = liquidation_fee, lr_fee_to_liquidator = fee_to_liquidator,
              lr_fee_to_insurance_fund = fee_to_insurance_fund, lr_liquidator = acc_liquidator_key acc3,
              lr_total_collateral = total_collateral,
              lr_collateral = ChainUser.collateral (acc_user acc1),
              lr_unrealized_pnl = unrealized_pnl, lr_margin_ratio = margin_ratio\<rparr>)
              (acc_liquidations acc3)) (\<lambda>h.
     Inr (acc3\<lparr>acc_liquidations := h\<rparr>)))))))))"

end
