(* ===== verification/ChainAdmin.thy ===== *)
theory ChainAdmin
  imports ChainLiquidation
begin

section \<open>Instructions of the admin\<close>

text \<open>
  The rest of the handlers of \<open>lib.rs\<close>: the set-up of the exchange, its histories and its markets,
  new users, moves of the price, repegs and changes of \<open>k\<close>, the oracle averages, and the parameters.

  Arguments: \<open>find_program_address\<close> is the derivation of the Solana SDK (an address and a nonce),
  \<open>integer_sqrt\<close> the square root of the wide integers. Fields of the SDK's copy of the state that the
  program's struct does not have are left alone.
\<close>

subsection \<open>Set-up\<close>

definition default_fee_structure :: FeeStructure where
  "default_fee_structure = \<lparr>
     feeNumerator = 10, feeDenominator = 10000,
     discountTokenTiers = \<lparr>
       firstTier = \<lparr>minimumBalance = 1000000000000, discountNumerator = 20, discountDenominator = 100\<rparr>,
       secondTier = \<lparr>minimumBalance = 100000000000, discountNumerator = 15, discountDenominator = 100\<rparr>,
       thirdTier = \<lparr>minimumBalance = 10000000000, discountNumerator = 10, discountDenominator = 100\<rparr>,
       fourthTier = \<lparr>minimumBalance = 1000000000, discountNumerator = 5, discountDenominator = 100\<rparr>\<rparr>,
     referralDiscount = \<lparr>
       referrerRewardNumerator = 5, referrerRewardDenominator = 100,
       refereeDiscountNumerator = 5, refereeDiscountDenominator = 100\<rparr>\<rparr>"

definition default_guard_rails :: OracleGuardRails where
  "default_guard_rails = \<lparr>
     priceDivergence = \<lparr>markOracleDivergenceNumerator = 1, markOracleDivergenceDenominator = 10\<rparr>,
     validity = \<lparr>slotsBeforeStale = 1000, confidenceIntervalMaxSize = 4, tooVolatileRatio = 5\<rparr>,
     useForLiquidations = True\<rparr>"

text \<open>The two vaults are given by their key and their owner.\<close>

definition initialize_ix ::
  "(PublicKey \<Rightarrow> PublicKey \<times> nat) \<Rightarrow> StateAccount \<Rightarrow> PublicKey \<Rightarrow> PublicKey \<Rightarrow> PublicKey \<times> PublicKey \<Rightarrow>
     PublicKey \<times> PublicKey \<Rightarrow> PublicKey \<Rightarrow> bool \<Rightarrow> StateAccount chain_result" where
  "initialize_ix find_program_address st admin_key mint vault insurance markets_key controls_prices =
     (let (vault_authority, vault_nonce) = find_program_address (fst vault) in
      bindE (guardE (snd vault \<noteq> vault_authority) InvalidCollateralAccountAuthority) (\<lambda>_.
      let (insurance_authority, insurance_nonce) = find_program_address (fst insurance) in
      bindE (guardE (snd insurance \<noteq> insurance_authority) InvalidInsuranceAccountAuthority) (\<lambda>_.
      Inr (st\<lparr>
        StateAccount.admin := admin_key, fundingPaused := False, exchangePaused := False,
        adminControlsPrices := controls_prices, collateralMint := mint,
        collateralVault := fst vault, collateralVaultAuthority := vault_authority,
        collateralVaultNonce := vault_nonce, depositHistory := DEFAULT_KEY, tradeHistory := DEFAULT_KEY,
        fundingRateHistory := DEFAULT_KEY, fundingPaymentHistory := DEFAULT_KEY,
        liquidationHistory := DEFAULT_KEY, curveHistory := DEFAULT_KEY,
        insuranceVault := fst insurance, insuranceVaultAuthority := insurance_authority,
        insuranceVaultNonce := insurance_nonce, StateAccount.markets := markets_key,
        marginRatioInitial := 2000, marginRatioPartial := 625, marginRatioMaintenance := 500,
        partialLiquidationClosePercentageNumerator := 25,
        partialLiquidationClosePercentageDenominator := 100,
        partialLiquidationPenaltyPercentageNumerator := 25,
        partialLiquidationPenaltyPercentageDenominator := 1000,
        fullLiquidationPenaltyPercentageNumerator := 1,
        fullLiquidationPenaltyPercentageDenominator := 1,
        partialLiquidationLiquidatorShareDenominator := 2,
        fullLiquidationLiquidatorShareDenominator := 20,
        feeStructure := default_fee_structure, whitelistMint := DEFAULT_KEY, discountMint := DEFAULT_KEY,
        maxDeposit := 0, oracleGuardRails := default_guard_rails, extendedCurveHistory := DEFAULT_KEY\<rparr>))))"

text \<open>The keys of the six history accounts of the instruction.\<close>

record HistoryKeys =
  key_deposit :: PublicKey
  key_trade :: PublicKey
  key_funding_payment :: PublicKey
  key_funding_rate :: PublicKey
  key_liquidation :: PublicKey
  key_curve :: PublicKey

definition initialize_history :: "StateAccount \<Rightarrow> HistoryKeys \<Rightarrow> StateAccount chain_result" where
  "initialize_history st keys =
     bindE (guardE (depositHistory st \<noteq> DEFAULT_KEY \<and> tradeHistory st \<noteq> DEFAULT_KEY \<and>
                    liquidationHistory st \<noteq> DEFAULT_KEY \<and> fundingPaymentHistory st \<noteq> DEFAULT_KEY \<and>
                    fundingRateHistory st \<noteq> DEFAULT_KEY \<and> curveHistory st \<noteq> DEFAULT_KEY)
              HistoryAlreadyInitialized) (\<lambda>_.
     Inr (st\<lparr>depositHistory := key_deposit keys, tradeHistory := key_trade keys,
             fundingRateHistory := key_funding_rate keys,
             fundingPaymentHistory := key_funding_payment keys,
             liquidationHistory := key_liquidation keys, extendedCurveHistory := key_curve keys\<rparr>))"

definition initialize_market ::
  "Accounts \<Rightarrow> OracleInfo \<Rightarrow> int \<Rightarrow> int \<Rightarrow> int \<Rightarrow> int \<Rightarrow> int \<Rightarrow> int \<Rightarrow> int \<Rightarrow> Accounts chain_result" where
  "initialize_market acc info now slot index base_reserve quote_reserve periodicity peg =
     bindE (market_at (acc_markets acc) index) (\<lambda>market.
     bindE (guardE (ChainMarket.initialized market) MarketIndexAlreadyInitialized) (\<lambda>_.
     bindE (guardE (base_reserve \<noteq> quote_reserve) InvalidInitialPeg) (\<lambda>_.
     bindE (calculate_price quote_reserve base_reserve peg) (\<lambda>init_mark_price.
     bindE (mul_m U192 base_reserve quote_reserve) (\<lambda>_.
     bindE (unwrap (get_oracle_price (ChainMarket.amm market) info slot))
       (\<lambda>(oracle_price, oracle_price_twap, _, _, _).
     Inr (with_market index \<lparr>
       ChainMarket.initialized = True, base_asset_amount_long = 0, base_asset_amount_short = 0,
       ChainMarket.base_asset_amount = 0, open_interest = 0,
       amm = \<lparr>
         oracle_key = oracle_info_key info, oracle_source = PYTH, base_asset_reserve = base_reserve,
         quote_asset_reserve = quote_reserve, cumulative_repeg_rebate_long = 0,
         cumulative_repeg_rebate_short = 0, cumulative_funding_rate_long = 0,
         cumulative_funding_rate_short = 0, last_funding_rate = 0, ChainAMM.last_funding_rate_ts = now,
         funding_period = periodicity, last_oracle_price_twap = oracle_price_twap,
         last_mark_price_twap = init_mark_price, last_mark_price_twap_ts = now, sqrt_k = base_reserve,
         peg_multiplier = peg, total_fee = 0, total_fee_minus_distributions = 0,
         total_fee_withdrawn = 0, minimum_trade_size = 10000000, last_oracle_price_twap_ts = now,
         last_oracle_price = oracle_price\<rparr>\<rparr> acc)))))))"

text \<open>\<open>user_initialization::initialize\<close>, after its check of the whitelist (\<open>check_whitelist\<close>).\<close>

definition initialize_user ::
  "Readers \<Rightarrow> StateAccount \<Rightarrow> ChainUser \<Rightarrow> ChainUserPositions \<Rightarrow> PublicKey \<Rightarrow> PublicKey \<Rightarrow> PublicKey \<Rightarrow> bool \<Rightarrow>
     AccountInfo list \<Rightarrow> (ChainUser \<times> ChainUserPositions) chain_result" where
  "initialize_user rd st usr up user_key positions_key auth flag remaining =
     bindE (lift_err (check_whitelist (unpack_token rd) (spl_token_id rd) DEFAULT_KEY (whitelistMint st) auth
              flag remaining)) (\<lambda>_.
     Inr (usr\<lparr>ChainUser.authority := auth, ChainUser.collateral := 0, cumulative_deposits := 0,
              ChainUser.positions := positions_key\<rparr>,
          up\<lparr>ChainUserPositions.user := user_key\<rparr>))"

subsection \<open>The curve\<close>

definition move_amm_price :: "(int \<Rightarrow> int) \<Rightarrow> Accounts \<Rightarrow> int \<Rightarrow> int \<Rightarrow> int \<Rightarrow> Accounts chain_result" where
  "move_amm_price integer_sqrt acc base_reserve quote_reserve index =
     bindE (market_initialized acc index) (\<lambda>_.
     bindE (exchange_not_paused acc) (\<lambda>_.
     bindE (admin_controls_prices acc) (\<lambda>_.
     bindE (market_at (acc_markets acc) index) (\<lambda>market.
     bindE (move_price integer_sqrt (ChainMarket.amm market) base_reserve quote_reserve) (\<lambda>a.
     Inr (with_market index (market\<lparr>amm := a\<rparr>) acc))))))"

text \<open>The record of a change of the curve, from the market before and after it.\<close>

definition curve_record ::
  "int \<Rightarrow> int \<Rightarrow> ChainMarket \<Rightarrow> ChainMarket \<Rightarrow> int \<Rightarrow> int \<Rightarrow> int \<Rightarrow> ChainExtendedCurveRecord" where
  "curve_record now index m m' cost oracle_price record_id = \<lparr>
     cr_ts = now, cr_record_id = record_id, cr_market_index = index,
     cr_peg_multiplier_before = peg_multiplier (ChainMarket.amm m),
     cr_base_asset_reserve_before = base_asset_reserve (ChainMarket.amm m),
     cr_quote_asset_reserve_before = quote_asset_reserve (ChainMarket.amm m),
     cr_sqrt_k_before = sqrt_k (ChainMarket.amm m),
     cr_peg_multiplier_after = peg_multiplier (ChainMarket.amm m'),
     cr_base_asset_reserve_after = base_asset_reserve (ChainMarket.amm m'),
     cr_quote_asset_reserve_after = quote_asset_reserve (ChainMarket.amm m'),
     cr_sqrt_k_after = sqrt_k (ChainMarket.amm m'),
     cr_base_asset_amount_long = \<bar>base_asset_amount_long m'\<bar>,
     cr_base_asset_amount_short = \<bar>base_asset_amount_short m'\<bar>,
     cr_base_asset_amount = ChainMarket.base_asset_amount m', cr_open_interest = open_interest m',
     cr_total_fee = total_fee (ChainMarket.amm m'),
     cr_total_fee_minus_distributions = total_fee_minus_distributions (ChainMarket.amm m'),
     cr_adjustment_cost = cost, cr_oracle_price = oracle_price, cr_trade_record = 0\<rparr>"

definition log_curve :: "Accounts \<Rightarrow> (int \<Rightarrow> ChainExtendedCurveRecord) \<Rightarrow> Accounts chain_result" where
  "log_curve acc mk =
     bindE (log_record extended_curve_next_record_id extended_curve_append mk (acc_curves acc)) (\<lambda>h.
     Inr (acc\<lparr>acc_curves := h\<rparr>))"

definition repeg_amm_curve ::
  "Accounts \<Rightarrow> OracleInfo \<Rightarrow> int \<Rightarrow> int \<Rightarrow> int \<Rightarrow> int \<Rightarrow> Accounts chain_result" where
  "repeg_amm_curve acc info now slot new_peg_candidate index =
     bindE (market_initialized acc index) (\<lambda>_.
     bindE (exchange_not_paused acc) (\<lambda>_.
     bindE (valid_oracle_for_market info acc index) (\<lambda>_.
     bindE (market_at (acc_markets acc) index) (\<lambda>market.
     bindE (get_oracle_price (ChainMarket.amm market) info 0) (\<lambda>(oracle_price, _, _, _, _).
     bindE (repeg market info new_peg_candidate slot (oracleGuardRails (acc_state acc))) (\<lambda>(m', cost).
     log_curve (with_market index m' acc) (curve_record now index market m' cost oracle_price)))))))"

text \<open>What a change of \<open>k\<close> does to the fee pool, and the check of the price.\<close>

definition charge_k :: "ChainMarket \<Rightarrow> int \<Rightarrow> ChainMarket chain_result" where
  "charge_k market adjustment_cost =
     (let a = ChainMarket.amm market in
      bindE (if adjustment_cost > 0 then
               bindE (sub_m u128 (total_fee_minus_distributions a) (total_fee_withdrawn a)) (\<lambda>max_cost.
               bindE (guardE (\<bar>adjustment_cost\<bar> > max_cost) InvalidUpdateK) (\<lambda>_.
               sub_m u128 (total_fee_minus_distributions a) \<bar>adjustment_cost\<bar>))
             else add_m u128 (total_fee_minus_distributions a) \<bar>adjustment_cost\<bar>) (\<lambda>fees.
      Inr (market\<lparr>amm := a\<lparr>total_fee_minus_distributions := fees\<rparr>\<rparr>)))"

definition update_k ::
  "Accounts \<Rightarrow> OracleInfo \<Rightarrow> int \<Rightarrow> int \<Rightarrow> int \<Rightarrow> Accounts chain_result" where
  "update_k acc info now new_sqrt_k index =
     bindE (market_initialized acc index) (\<lambda>_.
     bindE (valid_oracle_for_market info acc index) (\<lambda>_.
     bindE (exchange_not_paused acc) (\<lambda>_.
     bindE (market_at (acc_markets acc) index) (\<lambda>market.
     bindE (mark_price (ChainMarket.amm market)) (\<lambda>price_before.
     bindE (adjust_k_cost market new_sqrt_k) (\<lambda>(m1, cost).
     bindE (charge_k m1 cost) (\<lambda>m2.
     bindE (mark_price (ChainMarket.amm m2)) (\<lambda>price_after.
     bindE (cast_to_i128 price_before) (\<lambda>x.
     bindE (cast_to_i128 price_after) (\<lambda>y.
     bindE (sub_m i128 x y) (\<lambda>change.
     bindE (guardE (\<bar>change\<bar> > UPDATE_K_ALLOWED_PRICE_CHANGE) InvalidUpdateK) (\<lambda>_.
     bindE (get_oracle_price (ChainMarket.amm m2) info 0) (\<lambda>(oracle_price, _, _, _, _).
     log_curve (with_market index m2 acc) (curve_record now index market m2 cost oracle_price))))))))))))))"

text \<open>The records of the old curve history, copied into the extended one.\<close>

definition update_curve_history ::
  "ChainCurveRecord Ring \<Rightarrow> ChainExtendedCurveRecord Ring \<Rightarrow> PublicKey \<Rightarrow> StateAccount \<Rightarrow>
     (ChainExtendedCurveRecord Ring \<times> StateAccount) chain_result" where
  "update_curve_history old extended extended_key st =
     bindE (foldE (\<lambda>h r.
              if cr_record_id r \<noteq> 0
              then extended_curve_append h (ChainCurveRecord.extend r
                     (ChainExtendedCurveRecord.fields 0 0))
              else Inr h) extended (records old)) (\<lambda>h.
     Inr (h, st\<lparr>extendedCurveHistory := extended_key\<rparr>))"

subsection \<open>Oracle averages\<close>

definition update_amm_oracle_twap :: "Accounts \<Rightarrow> OracleInfo \<Rightarrow> int \<Rightarrow> int \<Rightarrow> int \<Rightarrow> Accounts chain_result" where
  "update_amm_oracle_twap acc info now slot index =
     bindE (market_initialized acc index) (\<lambda>_.
     bindE (valid_oracle_for_market info acc index) (\<lambda>_.
     bindE (market_at (acc_markets acc) index) (\<lambda>market.
     let a = ChainMarket.amm market in
     bindE (get_oracle_price a info slot) (\<lambda>(_, oracle_twap, _, _, _).
     bindE (is_oracle_valid a info slot (validity (oracleGuardRails (acc_state acc)))) (\<lambda>is_valid.
     if is_valid then
       bindE (cast_to_i128 (last_mark_price_twap a)) (\<lambda>mark.
       bindE (sub_m i128 mark (last_oracle_price_twap a)) (\<lambda>gap_before.
       bindE (sub_m i128 mark oracle_twap) (\<lambda>gap_after.
       if gap_after > 0 \<and> gap_before < 0 \<or> gap_after < 0 \<and> gap_before > 0 then
         Inr (with_market index
                (market\<lparr>amm := a\<lparr>last_oracle_price_twap := mark, last_oracle_price_twap_ts := now\<rparr>\<rparr>) acc)
       else if \<bar>gap_after\<bar> \<le> \<bar>gap_before\<bar> then
         Inr (with_market index
                (market\<lparr>amm := a\<lparr>last_oracle_price_twap := oracle_twap, last_oracle_price_twap_ts := now\<rparr>\<rparr>) acc)
       else Inl (Err OracleMarkSpreadLimit))))
     else Inl (Err InvalidOracle))))))"

definition reset_amm_oracle_twap :: "Accounts \<Rightarrow> OracleInfo \<Rightarrow> int \<Rightarrow> int \<Rightarrow> int \<Rightarrow> Accounts chain_result" where
  "reset_amm_oracle_twap acc info now slot index =
     bindE (market_initialized acc index) (\<lambda>_.
     bindE (valid_oracle_for_market info acc index) (\<lambda>_.
     bindE (market_at (acc_markets acc) index) (\<lambda>market.
     let a = ChainMarket.amm market in
     bindE (get_oracle_price a info slot) (\<lambda>_.
     bindE (is_oracle_valid a info slot (validity (oracleGuardRails (acc_state acc)))) (\<lambda>is_valid.
     if \<not> is_valid then
       bindE (cast_to_i128 (last_mark_price_twap a)) (\<lambda>mark.
       Inr (with_market index
              (market\<lparr>amm := a\<lparr>last_oracle_price_twap := mark, last_oracle_price_twap_ts := now\<rparr>\<rparr>) acc))
     else Inr acc)))))"

subsection \<open>Parameters\<close>

text \<open>The handlers that set one parameter; a change of the state account.\<close>

datatype StateUpdate =
    MarginRatio int int int
  | PartialLiquidationClosePercentage int int
  | PartialLiquidationPenaltyPercentage int int
  | FullLiquidationPenaltyPercentage int int
  | PartialLiquidationLiquidatorShareDenominator int
  | FullLiquidationLiquidatorShareDenominator int
  | Fee FeeStructure
  | OracleGuardRailsTo OracleGuardRails
  | AdminTo PublicKey
  | WhitelistMint PublicKey
  | DiscountMint PublicKey
  | MaxDeposit int
  | ExchangePausedTo bool
  | DisableAdminControlsPrices
  | FundingPausedTo bool

fun update_state :: "StateUpdate \<Rightarrow> StateAccount \<Rightarrow> StateAccount" where
  "update_state (MarginRatio i p m) st =
     st\<lparr>marginRatioInitial := i, marginRatioPartial := p, marginRatioMaintenance := m\<rparr>"
| "update_state (PartialLiquidationClosePercentage n d) st =
     st\<lparr>partialLiquidationClosePercentageNumerator := n, partialLiquidationClosePercentageDenominator := d\<rparr>"
| "update_state (PartialLiquidationPenaltyPercentage n d) st =
     st\<lparr>partialLiquidationPenaltyPercentageNumerator := n, partialLiquidationPenaltyPercentageDenominator := d\<rparr>"
| "update_state (FullLiquidationPenaltyPercentage n d) st =
     st\<lparr>fullLiquidationPenaltyPercentageNumerator := n, fullLiquidationPenaltyPercentageDenominator := d\<rparr>"
| "update_state (PartialLiquidationLiquidatorShareDenominator d) st =
     st\<lparr>partialLiquidationLiquidatorShareDenominator := d\<rparr>"
| "update_state (FullLiquidationLiquidatorShareDenominator d) st =
     st\<lparr>fullLiquidationLiquidatorShareDenominator := d\<rparr>"
| "update_state (Fee f) st = st\<lparr>feeStructure := f\<rparr>"
| "update_state (OracleGuardRailsTo r) st = st\<lparr>oracleGuardRails := r\<rparr>"
| "update_state (AdminTo k) st = st\<lparr>StateAccount.admin := k\<rparr>"
| "update_state (WhitelistMint k) st = st\<lparr>whitelistMint := k\<rparr>"
| "update_state (DiscountMint k) st = st\<lparr>discountMint := k\<rparr>"
| "update_state (MaxDeposit n) st = st\<lparr>maxDeposit := n\<rparr>"
| "update_state (ExchangePausedTo b) st = st\<lparr>exchangePaused := b\<rparr>"
| "update_state DisableAdminControlsPrices st = st\<lparr>adminControlsPrices := False\<rparr>"
| "update_state (FundingPausedTo b) st = st\<lparr>fundingPaused := b\<rparr>"

definition update_market_oracle ::
  "Accounts \<Rightarrow> int \<Rightarrow> PublicKey \<Rightarrow> OracleSource \<Rightarrow> Accounts chain_result" where
  "update_market_oracle acc index key src =
     bindE (market_initialized acc index) (\<lambda>_.
     bindE (market_at (acc_markets acc) index) (\<lambda>market.
     Inr (with_market index
            (market\<lparr>amm := (ChainMarket.amm market)\<lparr>oracle_key := key, oracle_source := src\<rparr>\<rparr>) acc)))"

definition update_market_minimum_trade_size :: "Accounts \<Rightarrow> int \<Rightarrow> int \<Rightarrow> Accounts chain_result" where
  "update_market_minimum_trade_size acc index size_min =
     bindE (market_initialized acc index) (\<lambda>_.
     bindE (market_at (acc_markets acc) index) (\<lambda>market.
     Inr (with_market index
            (market\<lparr>amm := (ChainMarket.amm market)\<lparr>minimum_trade_size := size_min\<rparr>\<rparr>) acc)))"

end
