(* ===== verification/ChainMargin.thy ===== *)
theory ChainMargin
  imports ChainAgree ChainFunding Margin
begin

section \<open>Margin, liquidation, funding and fees on chain and in the SDK\<close>

text \<open>
  The program's margin ratio, funding settlement and fees against the SDK's: who can be
  liquidated, what a settlement pays, and what a trade costs.
\<close>

subsection \<open>Margin and liquidation\<close>

text \<open>
  The SDK's view of a user agrees with the accounts of the chain: the collateral, the positions and
  the markets are copies, and the market indices are safe numbers.
\<close>

definition view_of ::
  "UserView \<Rightarrow> StateAccount \<Rightarrow> ChainUser \<Rightarrow> ChainPosition list \<Rightarrow> ChainMarket list \<Rightarrow> bool" where
  "view_of u st cu cps cms \<longleftrightarrow>
     (\<exists>ua ps ms. sees u ua ps st ms \<and> UserAccount.collateral ua = ChainUser.collateral cu \<and>
        list_all2 mirrors_position ps cps \<and> list_all2 mirrors_market ms cms \<and> list_all indexOk ps)"

text \<open>The funding of every open position is settled, as the program does before it looks at margins.\<close>

definition funding_settled :: "ChainMarket list \<Rightarrow> ChainPosition list \<Rightarrow> bool" where
  "funding_settled cms cps \<longleftrightarrow>
     list_all (\<lambda>p. ChainPosition.base_asset_amount p \<noteq> 0 \<longrightarrow>
       (\<forall>m. market_at cms (ChainPosition.market_index p) = Inr m \<longrightarrow>
          last_cumulative_funding_rate p =
            (if ChainPosition.base_asset_amount p > 0 then cumulative_funding_rate_long (ChainMarket.amm m)
             else cumulative_funding_rate_short (ChainMarket.amm m)))) cps"

lemma mirrored_market:
  assumes "list_all2 mirrors_market ms cms" "market_at cms i = Inr m"
  obtains s where "js_index ms i = Some s" "mirrors_market s m"
proof -
  have i: "0 \<le> i" "nat i < length cms" "m = cms ! nat i" using assms(2) by (auto simp: rust_simps)
  with assms(1) have "nat i < length ms" "mirrors_market (ms ! nat i) m"
    by (simp_all add: list_all2_conv_all_nth)
  then show ?thesis using i by (intro that [of "ms ! nat i"]) (auto simp: js_index_Some_iff)
qed

lemma settled_pnl:
  assumes "mirrors_market s m" "mirrors_position sp p" "ChainPosition.base_asset_amount p \<noteq> 0"
    and "last_cumulative_funding_rate p =
      (if ChainPosition.base_asset_amount p > 0 then cumulative_funding_rate_long (ChainMarket.amm m)
       else cumulative_funding_rate_short (ChainMarket.amm m))"
  shows "calculatePositionPNL s sp True = calculatePositionPNL s sp False"
proof -
  note sp = mirrors_position_simps [OF assms(2)]
    and sa = mirrors_amm_simps [OF mirrors_market_amm [OF assms(1)]]
  have "calculatePositionFundingPNL s sp = 0"
    using assms(3,4) by (simp add: calculatePositionFundingPNL_def ZERO_def Let_def sp sa)
  then show ?thesis by (simp add: calculatePositionPNL_def Let_def)
qed

text \<open>One step of the loop of \<open>calculate_margin_ratio\<close> and of the two sums of the SDK.\<close>

abbreviation margin_step :: "ChainMarket list \<Rightarrow> int \<times> int \<Rightarrow> ChainPosition \<Rightarrow> (int \<times> int) chain_result" where
  "margin_step cms \<equiv> \<lambda>(base_asset_value, unrealized_pnl) market_position.
     if ChainPosition.base_asset_amount market_position = 0 then Inr (base_asset_value, unrealized_pnl)
     else
       bindE (market_at cms (ChainPosition.market_index market_position)) (\<lambda>market.
       bindE (calculate_base_asset_value_and_pnl market_position (ChainMarket.amm market))
         (\<lambda>(position_base_asset_value, position_unrealized_pnl).
       bindE (add_m u128 base_asset_value position_base_asset_value) (\<lambda>v.
       bindE (add_m i128 unrealized_pnl position_unrealized_pnl) (\<lambda>p. Inr (v, p)))))"

lemma margin_step_agrees:
  assumes "sees u ua ps st ms" "list_all2 mirrors_market ms cms" "mirrors_position sp p" "indexOk sp"
    and "funding_settled cms [p]" "margin_step cms (v0, p0) p = Inr (v1, p1)"
  shows "\<exists>v. bindE (getMarket u (UserPosition.marketIndex sp)) (\<lambda>m. baseAssetValueIn m sp) = Inr v \<and> v1 = v0 + v"
    and "\<exists>q. bindE (getMarket u (UserPosition.marketIndex sp)) (\<lambda>m. positionPNLIn True m sp) = Inr q \<and> p1 = p0 + q"
proof -
  note sp = mirrors_position_simps [OF assms(3)]
  have get: "getMarket u (UserPosition.marketIndex sp) = Inr (js_index ms (UserPosition.marketIndex sp))"
    using assms(1,4) by (simp add: getMarket_eq [OF seesD(4)] indexOk_def)
  have "(\<exists>v. baseAssetValueIn (js_index ms (UserPosition.marketIndex sp)) sp = Inr v \<and> v1 = v0 + v) \<and>
        (\<exists>q. positionPNLIn True (js_index ms (UserPosition.marketIndex sp)) sp = Inr q \<and> p1 = p0 + q)"
  proof (cases "ChainPosition.base_asset_amount p = 0")
    case True
    with assms(6) show ?thesis by (simp add: value_total.flat pnl_total.flat sp)
  next
    case False
    with assms(6) obtain m v q where m: "market_at cms (ChainPosition.market_index p) = Inr m"
      and vq: "calculate_base_asset_value_and_pnl p (ChainMarket.amm m) = Inr (v, q)" "v1 = v0 + v" "p1 = p0 + q"
      by (auto simp: bn_simps rust_simps simp del: fits.simps)
    obtain s where s: "js_index ms (ChainPosition.market_index p) = Some s" "mirrors_market s m"
      using mirrored_market [OF assms(2) m] by blast
    have "calculatePositionPNL s sp True = Inr q"
      using chain_value_sound(2) [OF s(2) assms(3) vq(1)] settled_pnl [OF s(2) assms(3) False] assms(5) m False
      by (simp add: funding_settled_def)
    with chain_value_sound(1) [OF s(2) assms(3) vq(1)] s(1) vq(2,3) False show ?thesis
      by (simp add: sp baseAssetValueIn_def positionPNLIn_def ZERO_def)
  qed
  then show "\<exists>v. bindE (getMarket u (UserPosition.marketIndex sp)) (\<lambda>m. baseAssetValueIn m sp) = Inr v \<and> v1 = v0 + v"
    and "\<exists>q. bindE (getMarket u (UserPosition.marketIndex sp)) (\<lambda>m. positionPNLIn True m sp) = Inr q \<and> p1 = p0 + q"
    by (simp_all add: get)
qed

lemma margin_fold_agrees:
  assumes "sees u ua ps st ms" "list_all2 mirrors_market ms cms"
    and "list_all2 mirrors_position qs cqs" "list_all indexOk qs" "funding_settled cms cqs"
    and "foldE (margin_step cms) (v0, p0) cqs = Inr (v, p)"
  shows "foldE (\<lambda>acc q. bindE (bindE (getMarket u (UserPosition.marketIndex q)) (\<lambda>m. baseAssetValueIn m q))
           (\<lambda>v. Inr (acc + v))) v0 qs = Inr v"
    and "foldE (\<lambda>acc q. bindE (bindE (getMarket u (UserPosition.marketIndex q)) (\<lambda>m. positionPNLIn True m q))
           (\<lambda>v. Inr (acc + v))) p0 qs = Inr p"
  using assms(3-6)
proof (induction qs cqs arbitrary: v0 p0 rule: list_all2_induct)
  case (Cons q qs cq cqs)
  {
    case 1
    then obtain v1 p1 where step: "margin_step cms (v0, p0) cq = Inr (v1, p1)"
        and rest: "foldE (margin_step cms) (v1, p1) cqs = Inr (v, p)"
      by (auto simp: bn_simps simp del: split_conv)
    from margin_step_agrees(1) [OF assms(1,2) Cons.hyps(1) _ _ step] 1 obtain w
      where "bindE (getMarket u (UserPosition.marketIndex q)) (\<lambda>m. baseAssetValueIn m q) = Inr w" "v1 = v0 + w"
      by (auto simp: funding_settled_def)
    with Cons.IH(1) [OF _ _ rest] 1 show ?case by (simp add: funding_settled_def)
  next
    case 2
    then obtain v1 p1 where step: "margin_step cms (v0, p0) cq = Inr (v1, p1)"
        and rest: "foldE (margin_step cms) (v1, p1) cqs = Inr (v, p)"
      by (auto simp: bn_simps simp del: split_conv)
    from margin_step_agrees(2) [OF assms(1,2) Cons.hyps(1) _ _ step] 2 obtain w
      where "bindE (getMarket u (UserPosition.marketIndex q)) (\<lambda>m. positionPNLIn True m q) = Inr w" "p1 = p0 + w"
      by (auto simp: funding_settled_def)
    with Cons.IH(2) [OF _ _ rest] 2 show ?case by (simp add: funding_settled_def)
  }
qed simp_all

lemma margin_ratio_Inr:
  assumes "calculate_margin_ratio cu cps cms = Inr (tc, pnl, v, mr)"
  shows "foldE (margin_step cms) (0, 0) cps = Inr (v, pnl)"
    and "v = 0 \<Longrightarrow> mr = u128_MAX"
    and "v \<noteq> 0 \<Longrightarrow> calculate_updated_collateral (ChainUser.collateral cu) pnl = Inr tc"
    and "v \<noteq> 0 \<Longrightarrow> mr = (tc * MARGIN_PRECISION) sdiv v"
  using assms
  by (auto simp: calculate_margin_ratio_def bn_simps rust_simps simp del: fits.simps split: if_splits prod.splits)

lemma updated_collateral_Inr:
  assumes "calculate_updated_collateral c pnl = Inr tc" "0 \<le> c"
  shows "tc = max 0 (c + pnl)"
  using assms by (auto simp: calculate_updated_collateral_def rust_simps simp del: fits.simps split: if_splits)

lemma margin_value_nonneg:
  assumes "foldE (margin_step cms) (v0, p0) cps = Inr (v, p)" "0 \<le> v0"
  shows "0 \<le> v"
  using assms
proof (induction cps arbitrary: v0 p0)
  case (Cons q cps)
  then obtain v1 p1 where step: "margin_step cms (v0, p0) q = Inr (v1, p1)"
      and rest: "foldE (margin_step cms) (v1, p1) cps = Inr (v, p)"
    by (auto simp: bn_simps simp del: split_conv)
  have "0 \<le> v1" using step Cons.prems(2) by (auto simp: bn_simps rust_simps split: if_splits)
  with rest show ?case by (rule Cons.IH)
qed simp

lemma sdk_totals:
  assumes "view_of u st cu cps cms" "funding_settled cms cps"
    and "calculate_margin_ratio cu cps cms = Inr (tc, pnl, v, mr)"
  shows "getTotalPositionValue u = Inr v" "getTotalCollateral u = Inr (ChainUser.collateral cu + pnl)"
proof -
  obtain ua ps ms where sees: "sees u ua ps st ms" and coll: "UserAccount.collateral ua = ChainUser.collateral cu"
    and ps: "list_all2 mirrors_position ps cps" "list_all indexOk ps" and ms: "list_all2 mirrors_market ms cms"
    using assms(1) by (auto simp: view_of_def)
  note fold = margin_fold_agrees [OF sees ms ps assms(2) margin_ratio_Inr(1) [OF assms(3)]]
  show "getTotalPositionValue u = Inr v" "getTotalCollateral u = Inr (ChainUser.collateral cu + pnl)"
    using fold sees coll
    by (simp_all add: getTotalPositionValue_def getTotalCollateral_def getUnrealizedPNL_def sumPositions_def
        seesD ZERO_def)
qed


text \<open>The sample position with its funding settled, and the SDK's view of it.\<close>

definition settled_position :: ChainPosition where
  "settled_position = chain_position\<lparr>last_cumulative_funding_rate := 700000000\<rparr>"

definition settled_view :: UserView where
  "settled_view = view_with [sample_position\<lparr>lastCumulativeFundingRate := 700000000\<rparr>]"

lemma settled_view_of:
  assumes "UserAccount.collateral sample_user = ChainUser.collateral chain_user"
  shows "view_of settled_view sample_state chain_user [settled_position] [chain_market]"
  unfolding view_of_def settled_view_def
  using view_with_sees [of "[sample_position\<lparr>lastCumulativeFundingRate := 700000000\<rparr>]"] assms
  by (intro exI conjI) (auto simp: mirrors_position_def settled_position_def chain_position_def indexOk_def)


subsection \<open>Funding payments\<close>

lemma sgn_magnitude:
  fixes x y :: int
  shows "- (x * y) sdiv b = (\<bar>x\<bar> * \<bar>y\<bar>) sdiv b * (if y > 0 then - 1 else 1) * (if x > 0 then 1 else - 1)"
  by (cases "x > 0"; cases "y > 0") (auto simp: abs_if not_less order_le_less sdiv_minus_left)

text \<open>The payment of a position, with its sign: what a long position pays when the rate went up.\<close>

lemma funding_payment_of_Inr:
  assumes "funding_payment_of delta base = Inr p"
  shows "p = - (delta * base) sdiv (MARK_PRICE_PRECISION * FUNDING_PAYMENT_PRECISION)"
proof -
  have "p = ((\<bar>delta\<bar> * \<bar>base\<bar>) sdiv MARK_PRICE_PRECISION) sdiv FUNDING_PAYMENT_PRECISION
      * (if base > 0 then - 1 else 1) * (if delta > 0 then 1 else - 1)"
    using assms by (auto simp: funding_payment_of_def Let_def bn_simps rust_simps simp del: fits.simps
        constant_values)
  then show ?thesis by (simp only: sdiv_sdiv constants_pos sgn_magnitude)
qed

text \<open>
  C24: a settlement pays what the SDK shows: for one open position, the funding payment of the
  program in quote precision is \<open>calculatePositionFundingPNL\<close> of the SDK in quote precision, although
  the two round at different places.
\<close>

theorem funding_payment_agrees:
  assumes "mirrors_market s m" "mirrors_position sp p" "ChainPosition.base_asset_amount p \<noteq> 0"
    and "calculate_funding_payment
           (if ChainPosition.base_asset_amount p > 0 then cumulative_funding_rate_long (ChainMarket.amm m)
            else cumulative_funding_rate_short (ChainMarket.amm m)) p = Inr pay"
  shows "pay sdiv AMM_TO_QUOTE_PRECISION_RATIO =
         calculatePositionFundingPNL s sp sdiv PRICE_TO_QUOTE_PRECISION"
proof -
  note sp = mirrors_position_simps [OF assms(2)]
    and sa = mirrors_amm_simps [OF mirrors_market_amm [OF assms(1)]]
  let ?r = "(if ChainPosition.base_asset_amount p > 0 then cumulative_funding_rate_long (ChainMarket.amm m)
             else cumulative_funding_rate_short (ChainMarket.amm m))"
  let ?x = "(?r - last_cumulative_funding_rate p) * ChainPosition.base_asset_amount p"
  have "pay = - ?x sdiv (MARK_PRICE_PRECISION * FUNDING_PAYMENT_PRECISION)"
    using assms(4) funding_payment_of_Inr
    by (auto simp: calculate_funding_payment_def bn_simps rust_simps simp del: fits.simps constant_values)
  then have "pay sdiv AMM_TO_QUOTE_PRECISION_RATIO = - ?x sdiv 1000000000000000000000"
    by (simp add: sdiv_sdiv constant_values)
  moreover have "calculatePositionFundingPNL s sp = - ?x sdiv (AMM_RESERVE_PRECISION * FUNDING_PAYMENT_PRECISION)"
    using assms(3) by (simp add: calculatePositionFundingPNL_def ZERO_def Let_def sp sa sdiv_sdiv sdiv_minus_left)
  then have "calculatePositionFundingPNL s sp sdiv PRICE_TO_QUOTE_PRECISION = - ?x sdiv 1000000000000000000000"
    by (simp add: sdiv_sdiv constant_values)
  ultimately show ?thesis by simp
qed

theorem funding_payment_agrees_witness:
  "calculate_funding_payment 700000000 chain_position = Inr (-20000000) \<and>
   calculatePositionFundingPNL sample_market sample_position sdiv PRICE_TO_QUOTE_PRECISION = - 2"
proof -
  have "calculate_funding_payment 700000000 chain_position = Inr (-20000000)"
    by (simp add: calculate_funding_payment_def funding_payment_of_def rust_eval chain_samples
        constant_values sdiv_nonneg_eq)
  then show ?thesis
    using funding_payment_agrees [OF chain_samples_mirrored(2,3), of "- 20000000"]
    by (simp add: chain_samples constant_values signed_divide_int_def)
qed

subsection \<open>Settling an account\<close>

text \<open>The rate a position is settled to, the settled position, and its payment.\<close>

definition side_rate :: "ChainMarket \<Rightarrow> ChainPosition \<Rightarrow> int" where
  "side_rate m p =
     (if ChainPosition.base_asset_amount p > 0 then cumulative_funding_rate_long (ChainMarket.amm m)
      else cumulative_funding_rate_short (ChainMarket.amm m))"

definition owes_funding :: "ChainMarket list \<Rightarrow> ChainPosition \<Rightarrow> bool" where
  "owes_funding ms p \<longleftrightarrow> ChainPosition.base_asset_amount p \<noteq> 0 \<and>
     (case market_at ms (ChainPosition.market_index p) of
        Inl _ \<Rightarrow> False
      | Inr m \<Rightarrow> side_rate m p \<noteq> last_cumulative_funding_rate p)"

definition settled_form :: "ChainMarket list \<Rightarrow> ChainPosition \<Rightarrow> ChainPosition" where
  "settled_form ms p =
     (case market_at ms (ChainPosition.market_index p) of
        Inl _ \<Rightarrow> p
      | Inr m \<Rightarrow>
          if owes_funding ms p
          then p\<lparr>last_cumulative_funding_rate := side_rate m p,
                 ChainPosition.last_funding_rate_ts := ChainAMM.last_funding_rate_ts (ChainMarket.amm m)\<rparr>
          else p)"

definition funding_owed :: "ChainMarket list \<Rightarrow> ChainPosition \<Rightarrow> int" where
  "funding_owed ms p =
     (if owes_funding ms p then
        case bindE (market_at ms (ChainPosition.market_index p))
               (\<lambda>m. calculate_funding_payment (side_rate m p) p) of
          Inl _ \<Rightarrow> 0
        | Inr pay \<Rightarrow> pay
      else 0)"

lemma settle_position_Inr:
  assumes "settle_position usr uk ms now (f, h, vis) p = Inr (f', h', vis')"
  shows "vis' = vis @ [settled_form ms p] \<and> f' = f + funding_owed ms p \<and>
    (ChainPosition.base_asset_amount p \<noteq> 0 \<longrightarrow> (\<exists>m. market_at ms (ChainPosition.market_index p) = Inr m))"
proof (cases "ChainPosition.base_asset_amount p = 0")
  case True
  with assms show ?thesis
    by (auto simp: settle_position_def settled_form_def funding_owed_def owes_funding_def split: sum.splits)
next
  case False
  with assms obtain m where "market_at ms (ChainPosition.market_index p) = Inr m"
    by (auto simp: settle_position_def bindE_Inr_iff)
  with False assms show ?thesis
    by (auto simp: settle_position_def settled_form_def funding_owed_def owes_funding_def side_rate_def Let_def
        bn_simps checked_ops_Inr simp del: fits.simps split: if_splits)
qed

lemma settle_fold_Inr:
  assumes "foldE (settle_position usr uk ms now) (f, h, vis) ps = Inr (f', h', vis')"
  shows "vis' = vis @ map (settled_form ms) ps" "f' = f + (\<Sum>p\<leftarrow>ps. funding_owed ms p)"
    and "\<forall>p\<in>set ps. ChainPosition.base_asset_amount p \<noteq> 0 \<longrightarrow>
           (\<exists>m. market_at ms (ChainPosition.market_index p) = Inr m)"
proof -
  have "vis' = vis @ map (settled_form ms) ps \<and> f' = f + (\<Sum>p\<leftarrow>ps. funding_owed ms p) \<and>
    (\<forall>p\<in>set ps. ChainPosition.base_asset_amount p \<noteq> 0 \<longrightarrow>
       (\<exists>m. market_at ms (ChainPosition.market_index p) = Inr m))"
    using assms
  proof (induction ps arbitrary: f h vis)
    case (Cons p ps)
    then obtain g i ws where step: "settle_position usr uk ms now (f, h, vis) p = Inr (g, i, ws)"
        and rest: "foldE (settle_position usr uk ms now) (g, i, ws) ps = Inr (f', h', vis')"
      by (auto simp: bn_simps)
    note s = settle_position_Inr [OF step]
    from Cons.IH [OF rest] s show ?case by auto
  qed simp
  then show "vis' = vis @ map (settled_form ms) ps" "f' = f + (\<Sum>p\<leftarrow>ps. funding_owed ms p)"
    and "\<forall>p\<in>set ps. ChainPosition.base_asset_amount p \<noteq> 0 \<longrightarrow>
           (\<exists>m. market_at ms (ChainPosition.market_index p) = Inr m)" by auto
qed

lemma settled_form_simps [simp]:
  "ChainPosition.base_asset_amount (settled_form ms p) = ChainPosition.base_asset_amount p"
  "quote_asset_amount (settled_form ms p) = quote_asset_amount p"
  "ChainPosition.market_index (settled_form ms p) = ChainPosition.market_index p"
  by (auto simp: settled_form_def split: sum.splits)

lemma settled_form_settled: "\<not> owes_funding ms (settled_form ms p)"
  by (auto simp: settled_form_def owes_funding_def side_rate_def split: sum.splits)

lemma settled_iff: "funding_settled ms ps \<longleftrightarrow> list_all (\<lambda>p. \<not> owes_funding ms p) ps"
  by (auto simp: funding_settled_def owes_funding_def side_rate_def list_all_iff split: sum.splits)

lemma settle_position_settled:
  assumes "\<not> owes_funding ms p"
    and "ChainPosition.base_asset_amount p \<noteq> 0 \<longrightarrow> (\<exists>m. market_at ms (ChainPosition.market_index p) = Inr m)"
  shows "settle_position usr uk ms now (f, h, vis) p = Inr (f, h, vis @ [p])"
  using assms by (auto simp: settle_position_def owes_funding_def side_rate_def Let_def)

lemma settle_fold_settled:
  assumes "\<forall>p\<in>set ps. \<not> owes_funding ms p \<and>
    (ChainPosition.base_asset_amount p \<noteq> 0 \<longrightarrow> (\<exists>m. market_at ms (ChainPosition.market_index p) = Inr m))"
  shows "foldE (settle_position usr uk ms now) (f, h, vis) ps = Inr (f, h, vis @ ps)"
  using assms by (induction ps arbitrary: f h vis) (auto simp: settle_position_settled)

lemma updated_collateral_zero: "fits u128 c \<Longrightarrow> calculate_updated_collateral c 0 = Inr c"
  by (simp add: calculate_updated_collateral_def checked_ops)

text \<open>
  C23: a settlement settles, and does so once. After \<open>settle_funding_payment\<close> no position owes
  funding, sizes and quote amounts are unchanged, the collateral has moved by the sum of the
  payments (and stays at zero when they exceed it), and a second settlement at any time before
  the rates change is a no-op: it changes neither the account nor the positions nor the history.
\<close>

theorem settle_funding_settles:
  assumes "settle_funding_payment usr up ms h now = Inr (usr', up', h')" "user_typed usr"
  shows "funding_settled ms (ChainUserPositions.positions up') \<and>
         map ChainPosition.base_asset_amount (ChainUserPositions.positions up') =
           map ChainPosition.base_asset_amount (ChainUserPositions.positions up) \<and>
         map quote_asset_amount (ChainUserPositions.positions up') =
           map quote_asset_amount (ChainUserPositions.positions up) \<and>
         ChainUser.collateral usr' = max 0 (ChainUser.collateral usr +
           (\<Sum>p\<leftarrow>ChainUserPositions.positions up. funding_owed ms p) sdiv AMM_TO_QUOTE_PRECISION_RATIO) \<and>
         settle_funding_payment usr' up' ms h' now' = Inr (usr', up', h')"
proof -
  let ?ps = "ChainUserPositions.positions up"
  let ?f = "\<Sum>p\<leftarrow>?ps. funding_owed ms p"
  have typed: "fits u128 (ChainUser.collateral usr)" using assms(2) by (simp only: user_typed_def)
  obtain f ps c where fold: "foldE (settle_position usr (ChainUserPositions.user up) ms now) (0, h, []) ?ps =
        Inr (f, h', ps)"
    and c: "calculate_updated_collateral (ChainUser.collateral usr) (f sdiv AMM_TO_QUOTE_PRECISION_RATIO) = Inr c"
    and res: "usr' = usr\<lparr>ChainUser.collateral := c\<rparr>" "up' = up\<lparr>ChainUserPositions.positions := ps\<rparr>"
    using assms(1) by (auto simp: settle_funding_payment_def bn_simps rust_simps simp del: fits.simps)
  note s = settle_fold_Inr [OF fold]
  have settled: "\<forall>p\<in>set ps. \<not> owes_funding ms p \<and>
      (ChainPosition.base_asset_amount p \<noteq> 0 \<longrightarrow> (\<exists>m. market_at ms (ChainPosition.market_index p) = Inr m))"
    using s by (auto simp: settled_form_settled)
  have "0 \<le> ChainUser.collateral usr" using typed by simp
  with c have coll: "c = max 0 (ChainUser.collateral usr + f sdiv AMM_TO_QUOTE_PRECISION_RATIO)"
    by (rule updated_collateral_Inr)
  have "fits u128 c" using c
    by (auto simp: calculate_updated_collateral_def rust_simps simp del: fits.simps split: if_splits) simp
  then have "calculate_updated_collateral c 0 = Inr c" by (rule updated_collateral_zero)
  then have "settle_funding_payment usr' up' ms h' now' = Inr (usr', up', h')"
    using settle_fold_settled [OF settled] by (simp add: settle_funding_payment_def res checked_ops)
  moreover have "funding_settled ms ps" using settled by (simp add: settled_iff list_all_iff)
  ultimately show ?thesis using s coll by (simp add: res)
qed

definition default_payment_record :: ChainFundingPaymentRecord where
  "default_payment_record = \<lparr>fp_ts = 0, fp_record_id = 0, fp_user_authority = ''default'',
     fp_user = ''default'', fp_market_index = 0, fp_funding_payment = 0, fp_base_asset_amount = 0,
     fp_user_last_cumulative_funding = 0, fp_user_last_funding_rate_ts = 0,
     fp_amm_cumulative_funding_long = 0, fp_amm_cumulative_funding_short = 0\<rparr>"

definition default_payment_history :: "ChainFundingPaymentRecord Ring" where
  "default_payment_history = \<lparr>head = 0, records = replicate 1024 default_payment_record\<rparr>"

definition chain_positions :: ChainUserPositions where
  "chain_positions = \<lparr>ChainUserPositions.user = ''user'', ChainUserPositions.positions = [chain_position]\<rparr>"

lemma payment_log_default:
  "\<exists>h'. log_record funding_payment_next_record_id funding_payment_append mk default_payment_history = Inr h'"
  by (simp add: log_record_def funding_payment_next_record_id_def ring_next_record_id_def
      funding_payment_append_def ring_append_def default_payment_history_def)

lemma settle_sample:
  "\<exists>usr' up' h'. settle_funding_payment chain_user chain_positions [chain_market] default_payment_history 1640998800 =
     Inr (usr', up', h') \<and> ChainUser.collateral usr' = 9999998"
proof -
  have pay: "calculate_funding_payment 700000000 chain_position = Inr (-20000000)"
    by (simp add: calculate_funding_payment_def funding_payment_of_def rust_eval chain_samples
        constant_values sdiv_nonneg_eq)
  have "\<exists>h ps. settle_position chain_user ''user'' [chain_market] 1640998800 (0, default_payment_history, [])
      chain_position = Inr (- 20000000, h, ps)"
    using pay payment_log_default
    by (simp add: settle_position_def market_at_def chain_samples Let_def checked_ops bindE_Inr_iff)
  then show ?thesis
    by (auto simp: settle_funding_payment_def chain_positions_def checked_ops constant_values
        calculate_updated_collateral_def chain_user_def signed_divide_int_def)
qed

theorem settle_funding_settles_witness:
  "\<exists>usr' up' h'. settle_funding_payment chain_user chain_positions [chain_market] default_payment_history 1640998800 =
       Inr (usr', up', h') \<and> ChainUser.collateral usr' = 9999998 \<and>
     funding_settled [chain_market] (ChainUserPositions.positions up') \<and>
     settle_funding_payment usr' up' [chain_market] h' 1640998900 = Inr (usr', up', h')"
proof -
  obtain usr' up' h' where run: "settle_funding_payment chain_user chain_positions [chain_market]
      default_payment_history 1640998800 = Inr (usr', up', h')" "ChainUser.collateral usr' = 9999998"
    using settle_sample by blast
  from settle_funding_settles [OF run(1) chain_samples_typed(4)] run show ?thesis by blast
qed

subsection \<open>Fees\<close>

text \<open>
  The fee of a trade. Without a discount token and a referrer the program charges the fee that
  \<open>calculateFeeForQuoteAmount\<close> of the SDK shows; in general the fee of the user plus the two
  discounts is that amount, and the fee of the user is split exactly between the market and the
  referrer.
\<close>

theorem fees_split:
  assumes "stateAccount u = Inr st"
    and "calculate_fees quote (feeStructure st) discount_token referrer =
           Inr (user_fee, fee_to_market, token_discount, referrer_reward, referee_discount)"
  shows "calculateFeeForQuoteAmount u quote = Inr (user_fee + token_discount + referee_discount) \<and>
         user_fee = fee_to_market + referrer_reward \<and> 0 \<le> fee_to_market \<and>
         (discount_token = None \<and> \<not> referrer \<longrightarrow>
            token_discount = 0 \<and> referee_discount = 0 \<and> fee_to_market = user_fee)"
proof -
  obtain fee where fee: "feeDenominator (feeStructure st) \<noteq> 0"
      "fee = (quote * feeNumerator (feeStructure st)) sdiv feeDenominator (feeStructure st)"
    and td: "token_discount = calculate_token_discount fee (feeStructure st) discount_token"
    and rd: "calculate_referral_reward_and_referee_discount fee (feeStructure st) referrer =
           Inr (referrer_reward, referee_discount)"
    and split: "user_fee = fee - token_discount - referee_discount" "fee_to_market = user_fee - referrer_reward"
      "0 \<le> fee_to_market"
    using calculate_fees_Inr [OF assms(2)] by blast
  have "calculateFeeForQuoteAmount u quote = Inr fee"
    using assms(1) fee by (simp add: calculateFeeForQuoteAmount_def)
  moreover have "discount_token = None \<and> \<not> referrer \<Longrightarrow> token_discount = 0 \<and> referee_discount = 0 \<and> referrer_reward = 0"
    using td rd by (simp add: calculate_token_discount_def calculate_referral_reward_and_referee_discount_def)
  ultimately show ?thesis using split by simp
qed

theorem fees_split_witness:
  "calculate_fees 49950049 (feeStructure sample_state) None True = Inr (47453, 44956, 0, 2497, 2497) \<and>
   calculateFeeForQuoteAmount sample_view 49950049 = Inr 49950"
proof -
  have run: "calculate_fees 49950049 (feeStructure sample_state) None True = Inr (47453, 44956, 0, 2497, 2497)"
    by (simp add: calculate_fees_def calculate_referral_reward_and_referee_discount_def
        calculate_token_discount_def sample_state_def sample_fees_def rust_eval sdiv_nonneg_eq)
  have "calculateFeeForQuoteAmount sample_view 49950049 = Inr (47453 + 0 + 2497)"
    using fees_split [OF seesD(3) [OF sample_sees] run] by blast
  with run show ?thesis by simp
qed

end
