(* ===== verification/ChainSamples.thy ===== *)
theory ChainSamples
  imports ChainAdmin ChainMargin
begin

section \<open>Sample accounts of the program\<close>

text \<open>
  The accounts on which the properties of the instructions are applied: the sample market of the SDK,
  a user with one long position that has no funding to settle, and empty histories.
\<close>

text \<open>The accounts of the samples, with empty histories.\<close>

definition empty_ring :: "'r \<Rightarrow> 'r Ring" where
  "empty_ring r = \<lparr>head = 0, records = replicate 1024 r\<rparr>"

definition default_deposit_record :: ChainDepositRecord where
  "default_deposit_record = \<lparr>dr_ts = 0, dr_record_id = 0, dr_user_authority = '''', dr_user = '''',
     dr_direction = DEPOSIT, dr_collateral_before = 0, dr_cumulative_deposits_before = 0, dr_amount = 0\<rparr>"

definition default_rate_record :: ChainFundingRateRecord where
  "default_rate_record = \<lparr>fr_ts = 0, fr_record_id = 0, fr_market_index = 0, fr_funding_rate = 0,
     fr_cumulative_funding_rate_long = 0, fr_cumulative_funding_rate_short = 0, fr_oracle_price_twap = 0,
     fr_mark_price_twap = 0\<rparr>"

definition default_liquidation_record :: ChainLiquidationRecord where
  "default_liquidation_record = \<lparr>lr_ts = 0, lr_record_id = 0, lr_user_authority = '''', lr_user = '''',
     lr_partial = False, lr_base_asset_value = 0, lr_base_asset_value_closed = 0, lr_liquidation_fee = 0,
     lr_fee_to_liquidator = 0, lr_fee_to_insurance_fund = 0, lr_liquidator = '''', lr_total_collateral = 0,
     lr_collateral = 0, lr_unrealized_pnl = 0, lr_margin_ratio = 0\<rparr>"

definition chain_accounts :: Accounts where
  "chain_accounts = \<lparr>
     acc_state = sample_state\<lparr>maxDeposit := 0\<rparr>, acc_markets = [chain_market], acc_user = chain_user, acc_user_key = ''user'',
     acc_positions = \<lparr>ChainUserPositions.user = ''user'', ChainUserPositions.positions = [settled_position]\<rparr>,
     acc_authority = ''alice'', acc_collateral_vault = 50000, acc_insurance_vault = 5000000,
     acc_wallet = 1000000, acc_deposits = empty_ring default_deposit_record,
     acc_payments = default_payment_history, acc_rates = empty_ring default_rate_record,
     acc_trades = default_trade_history, acc_liquidations = empty_ring default_liquidation_record,
     acc_curves = default_extended_curve_history, acc_liquidator = chain_user,
     acc_liquidator_key = ''liquidator'', acc_referrer = None\<rparr>"

definition chain_readers :: Readers where
  "chain_readers = \<lparr>unpack_token = (\<lambda>_. None), try_user = (\<lambda>_. None), spl_token_id = ''token'',
     oracle_of = (\<lambda>_. oracle_data sample_oracle)\<rparr>"

lemma chain_accounts_settled:
  "settle_user (chain_accounts\<lparr>acc_user := usr\<rparr>) now = Inr (chain_accounts\<lparr>acc_user := usr\<rparr>)"
  if "0 \<le> ChainUser.collateral usr" "fits u128 (ChainUser.collateral usr)"
  using that
  by (simp add: settle_user_def settle_funding_payment_def settle_position_def chain_accounts_def
      settled_position_def chain_samples market_at_def Let_def rust_eval constant_values
      calculate_updated_collateral_def)

lemma chain_margin:
  "calculate_margin_ratio (chain_user\<lparr>ChainUser.collateral := 9900000, cumulative_deposits := n\<rparr>) [settled_position] [chain_market] =
     Inr (10850049, 950049, 49950049, 2172)"
  "calculate_margin_ratio (chain_user\<lparr>ChainUser.collateral := 1000000\<rparr>) [settled_position] [chain_market] =
     Inr (1950049, 950049, 49950049, 390)"
  by (simp_all add: calculate_margin_ratio_def market_at_def settled_position_def
        calculate_base_asset_value_and_pnl_def base_asset_value_and_pnl_def
        swap_direction_to_close_position_def calculate_swap_output_def
        calculate_quote_asset_amount_swapped_def reserve_to_asset_amount_def calculate_pnl_def
        calculate_updated_collateral_def rust_eval chain_samples constant_values chain_constants
        sdiv_nonneg_eq)

lemma chain_accounts_solvent_parts [simp]:
  "acc_collateral_vault chain_accounts = 50000" "acc_insurance_vault chain_accounts = 5000000"
  "acc_wallet chain_accounts = 1000000" "acc_state chain_accounts = sample_state\<lparr>maxDeposit := 0\<rparr>"
  "acc_markets chain_accounts = [chain_market]" "acc_user chain_accounts = chain_user"
  by (simp_all add: chain_accounts_def)

lemma log_deposit_sample:
  "\<exists>h. log_deposit (acc\<lparr>acc_deposits := empty_ring default_deposit_record\<rparr>) now d c e n = Inr (acc\<lparr>acc_deposits := h\<rparr>)"
  by (simp add: log_deposit_def log_record_def deposit_next_record_id_def ring_next_record_id_def
      deposit_append_def ring_append_def empty_ring_def) blast

lemma deposit_sample:
  "\<exists>acc'. deposit_collateral simple_transfer chain_accounts now 500000 = Inr acc' \<and> acc_wallet acc' = 500000 \<and>
     acc_collateral_vault acc' = 550000"
proof -
  let ?u = "chain_user\<lparr>ChainUser.collateral := 10500000, cumulative_deposits := 10500000\<rparr>"
  let ?acc = "chain_accounts\<lparr>acc_user := ?u, acc_wallet := 500000, acc_collateral_vault := 550000\<rparr>"
  have "?acc = ?acc\<lparr>acc_deposits := empty_ring default_deposit_record\<rparr>" by (simp add: chain_accounts_def)
  then obtain h where "log_deposit ?acc now DEPOSIT 10000000 10000000 500000 = Inr (?acc\<lparr>acc_deposits := h\<rparr>)"
    using log_deposit_sample [of ?acc] by metis
  moreover have "settle_user (chain_accounts\<lparr>acc_user := ?u\<rparr>) now = Inr (chain_accounts\<lparr>acc_user := ?u\<rparr>)"
    by (rule chain_accounts_settled) simp_all
  ultimately show ?thesis
    by (simp add: deposit_collateral_def rust_eval simple_transfer_def chain_user_def sample_state_def)
qed

lemma withdraw_sample:
  "\<exists>acc'. withdraw_collateral simple_transfer chain_accounts now 100000 = Inr acc' \<and> acc_wallet acc' = 1100000 \<and>
     acc_collateral_vault acc' = 0 \<and> acc_insurance_vault acc' = 4950000"
proof -
  let ?u = "chain_user\<lparr>ChainUser.collateral := 9900000, cumulative_deposits := 9900000\<rparr>"
  let ?acc = "chain_accounts\<lparr>acc_user := ?u, acc_collateral_vault := 0, acc_insurance_vault := 4950000,
     acc_wallet := 1100000\<rparr>"
  have "?acc = ?acc\<lparr>acc_deposits := empty_ring default_deposit_record\<rparr>" by (simp add: chain_accounts_def)
  then obtain h where "log_deposit ?acc now WITHDRAW 10000000 10000000 100000 = Inr (?acc\<lparr>acc_deposits := h\<rparr>)"
    using log_deposit_sample [of ?acc] by metis
  moreover have "settle_user chain_accounts now = Inr chain_accounts"
    using chain_accounts_settled [of chain_user] by (simp add: chain_user_def chain_accounts_def)
  moreover have "ChainUserPositions.positions (acc_positions chain_accounts) = [settled_position]"
    by (simp add: chain_accounts_def)
  moreover have "calculate_margin_ratio ?u [settled_position] [chain_market] = Inr (10850049, 950049, 49950049, 2172)"
    by (rule chain_margin)
  ultimately show ?thesis
    by (simp add: withdraw_collateral_def exchange_not_paused_def rust_eval simple_transfer_def chain_user_def
        sample_state_def calculate_withdrawal_amounts_def)
qed

text \<open>The same user with too little collateral is liquidated in full.\<close>

definition poor_accounts :: Accounts where
  "poor_accounts = chain_accounts\<lparr>acc_user := chain_user\<lparr>ChainUser.collateral := 1000000\<rparr>\<rparr>"

definition oracle_infos :: "AccountInfo list" where
  "oracle_infos = [\<lparr>info_key = ''H6ARHf6YXhGYeQfUzQNGk6rDNnLBQKrenN712K4AQJEG'', info_owner = ''pyth'', info_data = []\<rparr>]"

lemma oracle_account_sample: "oracle_account chain_readers oracle_infos chain_amm = Inr sample_oracle"
  by (simp add: oracle_account_def oracle_infos_def chain_amm_def chain_readers_def sample_oracle_def)

lemma block_sample:
  "block_operation chain_amm sample_oracle 100001 sample_guard_rails None = Inr (False, 490100000000)"
  using sample_oracle_price(1)
  by (simp add: block_operation_def is_oracle_valid_def calculate_oracle_mark_spread_pct_def
      calculate_oracle_mark_spread_def get_oracle_price_def is_oracle_mark_too_divergent_def
      normalise_oracle_def chain_amm_def sample_guard_rails_def mark_price_def calculate_price_def rust_eval checked_shl_def
      sdiv_nonneg_eq chain_constants constant_values)

lemma close_sample:
  "\<exists>m p. close_out (chain_user\<lparr>ChainUser.collateral := 1000000\<rparr>) chain_market settled_position 1640998800 =
     Inr (chain_user\<lparr>ChainUser.collateral := 1950049\<rparr>, m, p, 49950049, 10000000000000) \<and>
     (\<exists>price. mark_price (ChainMarket.amm m) = Inr price)"
  by (simp add: close_out_def swap_base_asset_def update_mark_twap_def calculate_new_mark_twap_def
      twap_weights_def mark_price_def calculate_price_def calculate_twap_def settled_position_def
      calculate_swap_output_def calculate_quote_asset_amount_swapped_def reserve_to_asset_amount_def
      calculate_pnl_def calculate_updated_collateral_def rust_eval chain_samples constant_values chain_constants
      sdiv_nonneg_eq)

definition ring_with :: "'r \<Rightarrow> 'r \<Rightarrow> 'r Ring" where
  "ring_with r x = \<lparr>head = 1, records = (replicate 1024 r)[0 := x]\<rparr>"

lemma log_samples:
  "log_record trade_next_record_id trade_append mk default_trade_history = Inr (ring_with default_trade_record (mk 1))"
  "log_record liquidation_next_record_id liquidation_append mk' (empty_ring default_liquidation_record) =
     Inr (ring_with default_liquidation_record (mk' 1))"
  by (simp_all add: log_record_def trade_next_record_id_def liquidation_next_record_id_def ring_next_record_id_def
      trade_append_def liquidation_append_def ring_append_def default_trade_history_def empty_ring_def ring_with_def
      default_trade_record_def default_liquidation_record_def)

lemma liquidate_step_sample:
  "\<exists>run. liquidate_fully chain_readers poor_accounts oracle_infos 1640998800 100001
     \<lparr>run_user = chain_user\<lparr>ChainUser.collateral := 1000000\<rparr>, run_markets = [chain_market],
      run_trades = default_trade_history, run_closed = 0, run_visited = []\<rparr> settled_position = Inr run \<and>
     run_user run = chain_user\<lparr>ChainUser.collateral := 1950049\<rparr>"
proof -
  have m: "ChainMarket.amm chain_market = chain_amm" "oracleGuardRails sample_state = sample_guard_rails"
    "market_at [chain_market] (ChainPosition.market_index settled_position) = Inr chain_market"
    "ChainPosition.base_asset_amount settled_position \<noteq> 0"
    by (simp_all add: chain_market_def sample_state_def market_at_def settled_position_def chain_position_def)
  have p: "mark_price chain_amm = Inr 500000000000"
    by (simp add: mark_price_def calculate_price_def chain_amm_def rust_eval constant_values chain_constants sdiv_nonneg_eq)
  obtain m' p' price where "close_out (chain_user\<lparr>ChainUser.collateral := 1000000\<rparr>) chain_market settled_position 1640998800 =
     Inr (chain_user\<lparr>ChainUser.collateral := 1950049\<rparr>, m', p', 49950049, 10000000000000)"
     "mark_price (ChainMarket.amm m') = Inr price" using close_sample by blast
  then show ?thesis
    by (simp add: liquidate_fully_def poor_accounts_def rust_eval m p log_samples oracle_account_sample block_sample)
qed

lemma liquidate_sample:
  "\<exists>acc'. liquidate_ix simple_transfer chain_readers poor_accounts oracle_infos 1640998800 100001 = Inr acc'"
proof -
  obtain run where run: "liquidate_fully chain_readers poor_accounts oracle_infos 1640998800 100001
     \<lparr>run_user = chain_user\<lparr>ChainUser.collateral := 1000000\<rparr>, run_markets = [chain_market],
      run_trades = default_trade_history, run_closed = 0, run_visited = []\<rparr> settled_position = Inr run"
     "run_user run = chain_user\<lparr>ChainUser.collateral := 1950049\<rparr>"
    using liquidate_step_sample by blast
  have "settle_user poor_accounts 1640998800 = Inr poor_accounts"
    unfolding poor_accounts_def by (rule chain_accounts_settled) simp_all
  moreover have "ChainUserPositions.positions (acc_positions poor_accounts) = [settled_position]"
    "acc_markets poor_accounts = [chain_market]" "acc_user poor_accounts = chain_user\<lparr>ChainUser.collateral := 1000000\<rparr>"
    "acc_trades poor_accounts = default_trade_history" "acc_collateral_vault poor_accounts = 50000"
    "acc_insurance_vault poor_accounts = 5000000" "acc_liquidator poor_accounts = chain_user"
    "acc_liquidations poor_accounts = empty_ring default_liquidation_record"
    "acc_state poor_accounts = sample_state\<lparr>maxDeposit := 0\<rparr>"
    by (simp_all add: poor_accounts_def chain_accounts_def)
  ultimately show ?thesis using run chain_margin(2) log_samples(2)
    by (simp add: liquidate_ix_def exchange_not_paused_def liquidation_penalty_def charge_penalty_def
        calculate_withdrawal_amounts_def rust_eval sample_state_def sdiv_nonneg_eq chain_user_def)
qed

end
