(* ===== verification/ChainProps.thy ===== *)
theory ChainProps
  imports ChainSamples
begin

section \<open>Properties of the instructions\<close>

text \<open>
  What the instructions of the on-chain program keep: tokens are conserved, a withdrawal leaves the
  margin it must, a pause stops trading, liquidations need a low margin ratio, the admin gets at most
  half of the fees, and funding rates are bounded. \<open>ChainCall\<close> names the instructions on the accounts
  of one user and \<open>run_call\<close> runs one of them; an instruction that fails leaves the accounts as they
  were.
\<close>

datatype ChainCall =
    DepositCollateral int
  | WithdrawCollateral int
  | OpenPosition OracleInfo PositionDirection int int int "bool \<times> bool" "AccountInfo list"
  | ClosePosition OracleInfo int "bool \<times> bool" "AccountInfo list"
  | Liquidate "AccountInfo list"
  | SettleFundingPayment
  | UpdateFundingRate OracleInfo int
  | MoveAmmPrice int int int
  | WithdrawFees int int
  | WithdrawFromInsuranceVault int
  | WithdrawFromInsuranceVaultToMarket int int
  | RepegAmmCurve OracleInfo int int
  | UpdateAmmOracleTwap OracleInfo int
  | ResetAmmOracleTwap OracleInfo int
  | UpdateK OracleInfo int int
  | UpdateState StateUpdate
  | UpdateMarketOracle int PublicKey OracleSource
  | UpdateMarketMinimumTradeSize int int

fun run_call ::
  "token_transfer \<Rightarrow> Readers \<Rightarrow> (int \<Rightarrow> int) \<Rightarrow> int \<Rightarrow> int \<Rightarrow> ChainCall \<Rightarrow> Accounts \<Rightarrow> Accounts chain_result" where
  "run_call tf rd sq now slot (DepositCollateral n) acc = deposit_collateral tf acc now n"
| "run_call tf rd sq now slot (WithdrawCollateral n) acc = withdraw_collateral tf acc now n"
| "run_call tf rd sq now slot (OpenPosition info d q i l flags rem) acc =
     open_position rd acc info now slot d q i l flags rem"
| "run_call tf rd sq now slot (ClosePosition info i flags rem) acc =
     close_position rd acc info now slot i flags rem"
| "run_call tf rd sq now slot (Liquidate rem) acc = liquidate_ix tf rd acc rem now slot"
| "run_call tf rd sq now slot SettleFundingPayment acc = settle_funding_payment_ix acc now"
| "run_call tf rd sq now slot (UpdateFundingRate info i) acc = update_funding_rate_ix acc info now slot i"
| "run_call tf rd sq now slot (MoveAmmPrice b q i) acc = move_amm_price sq acc b q i"
| "run_call tf rd sq now slot (WithdrawFees i n) acc = withdraw_fees tf acc i n"
| "run_call tf rd sq now slot (WithdrawFromInsuranceVault n) acc = withdraw_from_insurance_vault tf acc n"
| "run_call tf rd sq now slot (WithdrawFromInsuranceVaultToMarket i n) acc =
     withdraw_from_insurance_vault_to_market tf acc i n"
| "run_call tf rd sq now slot (RepegAmmCurve info peg i) acc = repeg_amm_curve acc info now slot peg i"
| "run_call tf rd sq now slot (UpdateAmmOracleTwap info i) acc = update_amm_oracle_twap acc info now slot i"
| "run_call tf rd sq now slot (ResetAmmOracleTwap info i) acc = reset_amm_oracle_twap acc info now slot i"
| "run_call tf rd sq now slot (UpdateK info k i) acc = update_k acc info now k i"
| "run_call tf rd sq now slot (UpdateState u) acc = Inr (acc\<lparr>acc_state := update_state u (acc_state acc)\<rparr>)"
| "run_call tf rd sq now slot (UpdateMarketOracle i k src) acc = update_market_oracle acc i k src"
| "run_call tf rd sq now slot (UpdateMarketMinimumTradeSize i n) acc = update_market_minimum_trade_size acc i n"

definition exec_call ::
  "token_transfer \<Rightarrow> Readers \<Rightarrow> (int \<Rightarrow> int) \<Rightarrow> int \<Rightarrow> int \<Rightarrow> ChainCall \<Rightarrow> Accounts \<Rightarrow> Accounts" where
  "exec_call tf rd sq now slot call acc =
     (case run_call tf rd sq now slot call acc of Inl _ \<Rightarrow> acc | Inr acc' \<Rightarrow> acc')"

subsection \<open>Tokens\<close>

definition same_tokens :: "Accounts \<Rightarrow> Accounts \<Rightarrow> bool" where
  "same_tokens acc acc' \<longleftrightarrow> acc_collateral_vault acc' = acc_collateral_vault acc \<and>
     acc_insurance_vault acc' = acc_insurance_vault acc \<and> acc_wallet acc' = acc_wallet acc"

definition tokens :: "Accounts \<Rightarrow> int" where
  "tokens acc = acc_collateral_vault acc + acc_insurance_vault acc + acc_wallet acc"

definition solvent :: "Accounts \<Rightarrow> bool" where
  "solvent acc \<longleftrightarrow> 0 \<le> acc_collateral_vault acc \<and> 0 \<le> acc_insurance_vault acc \<and> 0 \<le> acc_wallet acc"

definition tokens_kept :: "Accounts \<Rightarrow> Accounts \<Rightarrow> bool" where
  "tokens_kept acc acc' \<longleftrightarrow> tokens acc' = tokens acc \<and> (solvent acc \<longrightarrow> solvent acc')"

lemmas token_defs = tokens_kept_def tokens_def solvent_def same_tokens_def

lemma same_tokens_kept: "same_tokens acc acc' \<Longrightarrow> tokens_kept acc acc'"
  by (simp add: token_defs)

lemma settle_user_keeps:
  "settle_user acc now = Inr acc' \<Longrightarrow> same_tokens acc acc' \<and> acc_state acc' = acc_state acc \<and>
     acc_markets acc' = acc_markets acc"
  by (auto simp: settle_user_def same_tokens_def bindE_Inr_iff)

lemma with_market_simps [simp]:
  "same_tokens acc (with_market i m acc') \<longleftrightarrow> same_tokens acc acc'"
  "acc_state (with_market i m acc) = acc_state acc"
  "acc_collateral_vault (with_market i m acc) = acc_collateral_vault acc"
  "acc_insurance_vault (with_market i m acc) = acc_insurance_vault acc"
  "acc_wallet (with_market i m acc) = acc_wallet acc"
  by (simp_all add: same_tokens_def with_market_def)

lemma log_tokens:
  "returns (log_deposit acc now d c e n) (same_tokens acc)"
  "returns (log_trade acc mk) (same_tokens acc)"
  "returns (log_curve acc mk') (same_tokens acc)"
  by (auto simp: log_deposit_def log_trade_def log_curve_def same_tokens_def intro!: returns_rules)

lemma refresh_tokens: "returns (refresh_funding_rate info now slot i acc) (same_tokens acc)"
  by (auto simp: refresh_funding_rate_def same_tokens_def intro!: returns_rules)

lemma charge_fee_tokens: "returns (charge_fee rd flags rem i q acc) (\<lambda>(acc', _). same_tokens acc acc')"
  by (auto simp: charge_fee_def Let_def same_tokens_def intro!: returns_rules)

lemma same_tokens_trans: "same_tokens a b \<Longrightarrow> same_tokens b c \<Longrightarrow> same_tokens a c"
  by (simp add: same_tokens_def)

lemma open_position_tokens:
  "returns (open_position rd acc info now slot d q i l flags rem) (same_tokens acc)"
  unfolding open_position_def Let_def
  apply (intro returns_rules)
  apply (rule returns_mono [OF refresh_tokens])
  apply (clarsimp dest!: settle_user_keeps returnsD [OF log_tokens(2)] returnsD [OF charge_fee_tokens])
  apply (simp add: same_tokens_def with_market_def)
  done

lemma close_position_tokens:
  "returns (close_position rd acc info now slot i flags rem) (same_tokens acc)"
  unfolding close_position_def Let_def
  apply (intro returns_rules)
  apply (rule returns_mono [OF refresh_tokens])
  apply (clarsimp dest!: settle_user_keeps returnsD [OF log_tokens(2)] returnsD [OF charge_fee_tokens])
  apply (simp add: same_tokens_def with_market_def)
  done

lemma sound_transferD:
  assumes "sound_transfer tf" "tf src dst n = Inr (src', dst')"
  shows "src' = src - n \<and> dst' = dst + n \<and> 0 \<le> n \<and> n \<le> src"
  using assms by (simp add: sound_transfer_def)

lemma deposit_tokens:
  assumes "sound_transfer tf"
  shows "returns (deposit_collateral tf acc now n) (tokens_kept acc)"
  unfolding deposit_collateral_def Let_def
  apply (intro returns_rules)
  apply (clarsimp dest!: settle_user_keeps sound_transferD [OF assms] returnsD [OF log_tokens(1)])
  apply (simp add: token_defs)
  done

lemma withdraw_tokens:
  assumes "sound_transfer tf"
  shows "returns (withdraw_collateral tf acc now n) (tokens_kept acc)"
  unfolding withdraw_collateral_def Let_def
  apply (intro returns_rules)
  apply (rule returns_mono [OF log_tokens(1)])
  apply (clarsimp dest!: settle_user_keeps sound_transferD [OF assms] split: if_splits)
   apply (auto simp: token_defs dest!: sound_transferD [OF assms])
  done

lemma charge_penalty_tokens:
  assumes "sound_transfer tf"
  shows "returns (charge_penalty tf full fee acc)
    (\<lambda>(acc', _). tokens_kept acc acc' \<and> acc_state acc' = acc_state acc \<and> acc_positions acc' = acc_positions acc)"
  unfolding charge_penalty_def
  apply (intro returns_rules)
  apply (clarsimp split: if_splits)
   apply (auto simp: token_defs dest!: sound_transferD [OF assms])
  done

lemma liquidate_tokens:
  assumes "sound_transfer tf"
  shows "returns (liquidate_ix tf rd acc rem now slot) (tokens_kept acc)"
  unfolding liquidate_ix_def Let_def
  apply (intro returns_rules)
  apply (clarsimp dest!: settle_user_keeps returnsD [OF charge_penalty_tokens [OF assms]])
  apply (simp add: token_defs)
  done

lemma curve_tokens:
  "returns (repeg_amm_curve acc info now slot peg i) (same_tokens acc)"
  "returns (update_k acc info now k i) (same_tokens acc)"
  unfolding repeg_amm_curve_def update_k_def
  by (intro returns_rules, rule returns_mono [OF log_tokens(3)], simp add: same_tokens_def)+

lemma market_tokens:
  "returns (move_amm_price sq acc b q i) (same_tokens acc)"
  "returns (update_amm_oracle_twap acc info now slot i) (same_tokens acc)"
  "returns (reset_amm_oracle_twap acc info now slot i) (same_tokens acc)"
  "returns (update_market_oracle acc i key src) (same_tokens acc)"
  "returns (update_market_minimum_trade_size acc i n) (same_tokens acc)"
  unfolding move_amm_price_def update_amm_oracle_twap_def reset_amm_oracle_twap_def
    update_market_oracle_def update_market_minimum_trade_size_def Let_def
  by (intro returns_rules; simp add: same_tokens_def)+

lemma funding_tokens:
  "returns (update_funding_rate_ix acc info now slot i) (same_tokens acc)"
  "returns (settle_funding_payment_ix acc now) (same_tokens acc)"
  unfolding update_funding_rate_ix_def settle_funding_payment_ix_def
  by (intro returns_rules refresh_tokens) (auto intro: returns_rules returnsI dest: settle_user_keeps)

lemma vault_tokens:
  assumes "sound_transfer tf"
  shows "returns (withdraw_fees tf acc i n) (tokens_kept acc)"
    and "returns (withdraw_from_insurance_vault tf acc n) (tokens_kept acc)"
    and "returns (withdraw_from_insurance_vault_to_market tf acc i n) (tokens_kept acc)"
  unfolding withdraw_fees_def withdraw_from_insurance_vault_def withdraw_from_insurance_vault_to_market_def
  by (intro returns_rules; auto simp: token_defs dest!: sound_transferD [OF assms])+

lemmas call_tokens = open_position_tokens close_position_tokens curve_tokens market_tokens funding_tokens

lemma run_call_tokens:
  assumes "sound_transfer tf"
  shows "returns (run_call tf rd sq now slot call acc) (tokens_kept acc)"
proof (cases call)
  case (UpdateState u)
  then show ?thesis by (simp add: token_defs returns_Inr)
qed (simp_all add: deposit_tokens withdraw_tokens liquidate_tokens vault_tokens assms
       call_tokens [THEN returns_mono, OF same_tokens_kept])

text \<open>A sequence of instructions, each with its time and slot; a failed one changes nothing.\<close>

definition exec_calls ::
  "token_transfer \<Rightarrow> Readers \<Rightarrow> (int \<Rightarrow> int) \<Rightarrow> (int \<times> int \<times> ChainCall) list \<Rightarrow> Accounts \<Rightarrow> Accounts" where
  "exec_calls tf rd sq = fold (\<lambda>(now, slot, call). exec_call tf rd sq now slot call)"

lemma exec_calls_keep:
  assumes "\<And>now slot call acc acc'. P acc \<Longrightarrow> run_call tf rd sq now slot call acc = Inr acc' \<Longrightarrow> P acc'"
  shows "P acc \<Longrightarrow> P (exec_calls tf rd sq calls acc)"
  unfolding exec_calls_def
  by (induction calls arbitrary: acc) (auto simp: exec_call_def assms split: sum.splits)



subsection \<open>The pause\<close>

text \<open>The instructions that the pause of the exchange stops.\<close>

fun stopped_by_pause :: "ChainCall \<Rightarrow> bool" where
  "stopped_by_pause (WithdrawCollateral n) = True"
| "stopped_by_pause (OpenPosition info d q i l flags rem) = True"
| "stopped_by_pause (ClosePosition info i flags rem) = True"
| "stopped_by_pause (Liquidate rem) = True"
| "stopped_by_pause SettleFundingPayment = True"
| "stopped_by_pause (UpdateFundingRate info i) = True"
| "stopped_by_pause (MoveAmmPrice b q i) = True"
| "stopped_by_pause (RepegAmmCurve info peg i) = True"
| "stopped_by_pause (UpdateK info k i) = True"
| "stopped_by_pause _ = False"

lemma returns_False: "returns m (\<lambda>_. False) \<longleftrightarrow> (\<exists>e. m = Inl e)"
  by (cases m) (auto simp: returns_def)

lemma paused_run_call:
  assumes "exchangePaused (acc_state acc)" "stopped_by_pause call"
  shows "\<exists>e. run_call tf rd sq now slot call acc = Inl e"
proof -
  have stop: "exchange_not_paused acc = Inl (Err ExchangePaused)"
    using assms by (simp add: exchange_not_paused_def)
  have "returns (run_call tf rd sq now slot call acc) (\<lambda>_. False)"
    using assms(2)
    by (cases call)
      (simp_all add: stop withdraw_collateral_def open_position_def close_position_def liquidate_ix_def
        settle_funding_payment_ix_def update_funding_rate_ix_def move_amm_price_def repeg_amm_curve_def
        update_k_def returns_Inl returns_bind)
  then show ?thesis by (simp add: returns_False)
qed

text \<open>
  What a pause keeps: the pools with their totals, the size and cost of the positions, and the
  histories of trades, liquidations and curve changes.
\<close>

definition pool_of :: "ChainMarket \<Rightarrow> int list" where
  "pool_of m = [base_asset_reserve (amm m), quote_asset_reserve (amm m), sqrt_k (amm m), peg_multiplier (amm m),
     ChainMarket.base_asset_amount m, base_asset_amount_long m, base_asset_amount_short m, open_interest m]"

definition holding_of :: "ChainPosition \<Rightarrow> int \<times> int \<times> int" where
  "holding_of p = (ChainPosition.market_index p, ChainPosition.base_asset_amount p, quote_asset_amount p)"

definition same_trading :: "Accounts \<Rightarrow> Accounts \<Rightarrow> bool" where
  "same_trading acc acc' \<longleftrightarrow>
     map pool_of (acc_markets acc') = map pool_of (acc_markets acc) \<and>
     map holding_of (ChainUserPositions.positions (acc_positions acc')) =
       map holding_of (ChainUserPositions.positions (acc_positions acc)) \<and>
     acc_trades acc' = acc_trades acc \<and> acc_liquidations acc' = acc_liquidations acc \<and>
     acc_curves acc' = acc_curves acc"

lemma same_trading_trans: "same_trading a b \<Longrightarrow> same_trading b c \<Longrightarrow> same_trading a c"
  by (simp add: same_trading_def)

lemma settle_loop_holdings:
  "foldE (settle_position usr key ms now) acc ps = Inr acc' \<Longrightarrow>
     map holding_of (snd (snd acc')) = map holding_of (snd (snd acc)) @ map holding_of ps"
proof (induction ps arbitrary: acc)
  case (Cons p ps)
  obtain b where "settle_position usr key ms now acc p = Inr b"
      "foldE (settle_position usr key ms now) b ps = Inr acc'"
    using Cons.prems by (auto simp: bindE_Inr_iff)
  moreover have "map holding_of (snd (snd b)) = map holding_of (snd (snd acc)) @ [holding_of p]"
    using calculation(1)
    by (auto simp: settle_position_def bindE_Inr_iff Let_def holding_of_def split: prod.splits if_splits)
  ultimately show ?case using Cons.IH by simp
qed simp

lemma settle_user_trading: "settle_user acc now = Inr acc' \<Longrightarrow> same_trading acc acc'"
  by (auto simp: settle_user_def settle_funding_payment_def bindE_Inr_iff same_trading_def
      dest!: settle_loop_holdings)

lemma with_market_trading:
  assumes "market_at (acc_markets acc) i = Inr m" "pool_of m' = pool_of m" "same_trading acc acc'"
    "acc_markets acc' = acc_markets acc"
  shows "same_trading acc (with_market i m' acc')"
  using assms
  by (auto simp: same_trading_def with_market_def market_at_def map_update list_update_same_conv nth_map
      intro!: nth_equalityI split: if_splits)

lemma same_trading_fields [simp]:
  "same_trading acc acc"
  "same_trading acc (a\<lparr>acc_wallet := w\<rparr>) = same_trading acc a"
  "same_trading acc (a\<lparr>acc_collateral_vault := v\<rparr>) = same_trading acc a"
  "same_trading acc (a\<lparr>acc_insurance_vault := v\<rparr>) = same_trading acc a"
  "same_trading acc (a\<lparr>acc_deposits := d\<rparr>) = same_trading acc a"
  "same_trading acc (a\<lparr>acc_user := u\<rparr>) = same_trading acc a"
  "same_trading acc (a\<lparr>acc_state := st\<rparr>) = same_trading acc a"
  "same_trading (acc\<lparr>acc_user := u\<rparr>) a = same_trading acc a"
  by (simp_all add: same_trading_def)

definition still_paused :: "Accounts \<Rightarrow> Accounts \<Rightarrow> bool" where
  "still_paused acc acc' \<longleftrightarrow> same_trading acc acc' \<and> acc_state acc' = acc_state acc"

lemma deposit_while_paused: "returns (deposit_collateral tf acc now n) (still_paused acc)"
  unfolding deposit_collateral_def Let_def
  apply (intro returns_rules)
  apply (frule settle_user_trading)
  apply (drule settle_user_keeps)
  apply (clarsimp simp: still_paused_def log_deposit_def bindE_Inr_iff)
  done

lemma admin_while_paused:
  "returns (withdraw_fees tf acc i n) (still_paused acc)"
  "returns (withdraw_from_insurance_vault tf acc n) (still_paused acc)"
  "returns (withdraw_from_insurance_vault_to_market tf acc i n) (still_paused acc)"
  "returns (update_amm_oracle_twap acc info now slot i) (still_paused acc)"
  "returns (reset_amm_oracle_twap acc info now slot i) (still_paused acc)"
  "returns (update_market_oracle acc i key src) (still_paused acc)"
  "returns (update_market_minimum_trade_size acc i n) (still_paused acc)"
  unfolding withdraw_fees_def withdraw_from_insurance_vault_def withdraw_from_insurance_vault_to_market_def
    update_amm_oracle_twap_def reset_amm_oracle_twap_def update_market_oracle_def
    update_market_minimum_trade_size_def Let_def
  by (intro returns_rules; simp add: still_paused_def; rule with_market_trading; simp add: pool_of_def)+

lemma run_call_while_paused:
  assumes "run_call tf rd sq now slot call acc = Inr acc'" "exchangePaused (acc_state acc)"
    "call \<noteq> UpdateState (ExchangePausedTo False)"
  shows "same_trading acc acc' \<and> exchangePaused (acc_state acc')"
proof (cases "stopped_by_pause call")
  case True
  then show ?thesis using paused_run_call [of acc call tf rd sq now slot] assms by auto
next
  case False
  show ?thesis
  proof (cases call)
    case (UpdateState u)
    then show ?thesis using assms by (cases u) auto
  qed (use False assms admin_while_paused deposit_while_paused in \<open>auto simp: returns_def still_paused_def\<close>)
qed



end
