(* ===== verification/ChainSafety.thy ===== *)
theory ChainSafety
  imports ChainProps
begin

section \<open>Withdrawals, liquidations and fees\<close>

text \<open>
  What the instructions promise to the parties: a withdrawal pays what the vaults hold and leaves the
  initial margin, a liquidation needs a low margin ratio and a full one leaves no position, the
  admin never takes more than half of the fees of a market. The last part shows two guards that do
  not do what they are written for.
\<close>

subsection \<open>Withdrawals\<close>

lemma withdrawal_amounts:
  assumes "calculate_withdrawal_amounts n v i = Inr (a, b)" "0 \<le> i"
  shows "a = min n v \<and> a + b = min n (v + i) \<and> 0 \<le> b"
  using assms by (auto simp: calculate_withdrawal_amounts_def bindE_Inr_iff checked_ops_Inr split: if_splits)

lemma log_deposit_keeps:
  "log_deposit acc now d c e n = Inr acc' \<Longrightarrow> same_tokens acc acc' \<and> acc_user acc' = acc_user acc \<and>
     acc_positions acc' = acc_positions acc \<and> acc_markets acc' = acc_markets acc \<and> acc_state acc' = acc_state acc"
  by (auto simp: log_deposit_def bindE_Inr_iff same_tokens_def)

text \<open>What the vaults can pay of an amount.\<close>

definition payable :: "Accounts \<Rightarrow> int \<Rightarrow> int" where
  "payable acc n = min n (acc_collateral_vault acc + acc_insurance_vault acc)"

definition margin_of :: "Accounts \<Rightarrow> int chain_result" where
  "margin_of acc =
     mapE (\<lambda>(_, _, _, margin_ratio). margin_ratio)
       (calculate_margin_ratio (acc_user acc) (ChainUserPositions.positions (acc_positions acc)) (acc_markets acc))"

definition withdrawn :: "Accounts \<Rightarrow> int \<Rightarrow> Accounts \<Rightarrow> Accounts \<Rightarrow> bool" where
  "withdrawn acc n settled acc' \<longleftrightarrow>
     acc_wallet acc' = acc_wallet acc + payable acc n \<and>
     acc_collateral_vault acc' = acc_collateral_vault acc - min n (acc_collateral_vault acc) \<and>
     ChainUser.collateral (acc_user acc') = ChainUser.collateral (acc_user settled) - payable acc n \<and>
     cumulative_deposits (acc_user acc') = cumulative_deposits (acc_user settled) - payable acc n \<and>
     0 \<le> ChainUser.collateral (acc_user acc') \<and> n \<le> ChainUser.collateral (acc_user settled)"

lemma withdraw_collateral_returns:
  assumes "sound_transfer tf" "solvent acc"
  shows "returns (withdraw_collateral tf acc now n)
    (\<lambda>acc'. \<exists>settled margin_ratio. settle_user acc now = Inr settled \<and> withdrawn acc n settled acc' \<and>
       margin_of acc' = Inr margin_ratio \<and> marginRatioInitial (acc_state acc) \<le> margin_ratio)"
  unfolding withdraw_collateral_def Let_def
  apply (intro returns_rules)
  apply (rule returnsI)
  apply (drule log_deposit_keeps)
  apply (frule settle_user_keeps)
  apply (clarsimp simp: rust_simps simp del: fits.simps)
  apply (drule withdrawal_amounts)
  using assms(2) apply (simp add: solvent_def same_tokens_def)
  apply (clarsimp simp: margin_of_def withdrawn_def payable_def same_tokens_def simp del: fits.simps
      dest!: sound_transferD [OF assms(1)])
  apply (auto dest!: sound_transferD [OF assms(1)] split: if_splits)
  done

text \<open>
  C5: a withdrawal that succeeds pays the caller the amount, or all that the two vaults hold when that
  is less, from the collateral vault first; the collateral and the net deposits of the (settled)
  user fall by exactly what was paid, which the user had, and the margin ratio that remains is at
  least the initial one.
\<close>

theorem withdrawal_safe:
  assumes "sound_transfer tf" "solvent acc" "withdraw_collateral tf acc now n = Inr acc'"
  shows "\<exists>settled margin_ratio. settle_user acc now = Inr settled \<and>
     acc_wallet acc' = acc_wallet acc + payable acc n \<and>
     acc_collateral_vault acc' = acc_collateral_vault acc - min n (acc_collateral_vault acc) \<and>
     ChainUser.collateral (acc_user acc') = ChainUser.collateral (acc_user settled) - payable acc n \<and>
     cumulative_deposits (acc_user acc') = cumulative_deposits (acc_user settled) - payable acc n \<and>
     0 \<le> ChainUser.collateral (acc_user acc') \<and> n \<le> ChainUser.collateral (acc_user settled) \<and>
     margin_of acc' = Inr margin_ratio \<and> marginRatioInitial (acc_state acc) \<le> margin_ratio"
  using returnsD [OF withdraw_collateral_returns [OF assms(1,2)] assms(3)] by (auto simp: withdrawn_def)

theorem withdrawal_safe_witness:
  "\<exists>acc' settled. withdraw_collateral simple_transfer chain_accounts 1640998800 100000 = Inr acc' \<and>
     settle_user chain_accounts 1640998800 = Inr settled \<and> acc_wallet acc' = 1100000 \<and>
     ChainUser.collateral (acc_user acc') = ChainUser.collateral (acc_user settled) - 100000"
proof -
  obtain acc' where run: "withdraw_collateral simple_transfer chain_accounts 1640998800 100000 = Inr acc'"
    using withdraw_sample by blast
  have "solvent chain_accounts" "payable chain_accounts 100000 = 100000"
    by (simp_all add: solvent_def payable_def)
  with withdrawal_safe [OF simple_transfer_sound _ run] run show ?thesis by auto
qed

subsection \<open>Liquidations\<close>

text \<open>The loop visits every position once, in order.\<close>

lemma liquidation_loop_visits:
  assumes step: "\<And>run p run'. p \<in> set ps \<Longrightarrow> f run p = Inr run' \<Longrightarrow>
      \<exists>p'. run_visited run' = run_visited run @ [p'] \<and> R p p'"
    and "foldE f run ps = Inr run'"
  shows "\<exists>qs. run_visited run' = run_visited run @ qs \<and> list_all2 R ps qs"
  using assms
proof (induction ps arbitrary: run)
  case (Cons p ps)
  obtain r where "f run p = Inr r" "foldE f r ps = Inr run'"
    using Cons.prems(2) by (auto simp: bindE_Inr_iff)
  moreover obtain p' where "run_visited r = run_visited run @ [p']" "R p p'"
    using Cons.prems(1) calculation(1) by fastforce
  moreover obtain qs where "run_visited run' = run_visited r @ qs" "list_all2 R ps qs"
    using Cons.IH [of r] Cons.prems(1) calculation(2) by auto
  ultimately show ?case by (intro exI [of _ "p' # qs"]) simp
qed simp

lemma close_out_position:
  "close_out usr m p now = Inr (u, m', p', v, b) \<Longrightarrow>
     ChainPosition.base_asset_amount p' = 0 \<and> ChainPosition.market_index p' = ChainPosition.market_index p"
  by (auto simp: close_out_def Let_def bindE_Inr_iff split: if_splits)

lemma liquidate_fully_visits:
  "liquidate_fully rd acc rem now slot run p = Inr run' \<Longrightarrow>
     \<exists>p'. run_visited run' = run_visited run @ [p'] \<and> ChainPosition.base_asset_amount p' = 0"
  by (auto simp: liquidate_fully_def Let_def bindE_Inr_iff dest: close_out_position split: if_splits)

lemma liquidate_partly_visits:
  "liquidate_partly rd acc rem now slot run p = Inr run' \<Longrightarrow>
     \<exists>p'. run_visited run' = run_visited run @ [p'] \<and>
       (ChainPosition.base_asset_amount p = 0 \<longrightarrow> p' = p)"
  by (auto simp: liquidate_partly_def Let_def bindE_Inr_iff split: if_splits)

lemma charge_penalty_Inr:
  assumes "sound_transfer tf" "solvent acc" "charge_penalty tf full fee acc = Inr (acc', fl, fi)"
  shows "ChainUser.collateral (acc_user acc') = ChainUser.collateral (acc_user acc) - fee \<and>
    fee \<le> ChainUser.collateral (acc_user acc) \<and>
    ChainUser.collateral (acc_liquidator acc') = ChainUser.collateral (acc_liquidator acc) + fl \<and>
    acc_insurance_vault acc' = acc_insurance_vault acc + fi \<and> 0 \<le> fl \<and> 0 \<le> fi \<and> fl + fi \<le> fee \<and>
    acc_positions acc' = acc_positions acc"
proof -
  have "returns (charge_penalty tf full fee acc) (\<lambda>(acc', fl, fi).
     ChainUser.collateral (acc_user acc') = ChainUser.collateral (acc_user acc) - fee \<and>
    fee \<le> ChainUser.collateral (acc_user acc) \<and>
    ChainUser.collateral (acc_liquidator acc') = ChainUser.collateral (acc_liquidator acc) + fl \<and>
    acc_insurance_vault acc' = acc_insurance_vault acc + fi \<and> 0 \<le> fl \<and> 0 \<le> fi \<and> fl + fi \<le> fee \<and>
    acc_positions acc' = acc_positions acc)"
    unfolding charge_penalty_def
    apply (intro returns_rules)
    apply (clarsimp simp: rust_simps simp del: fits.simps)
    apply (drule withdrawal_amounts)
    using assms(2) apply (simp add: solvent_def)
    apply (cases full)
    apply (auto simp: rust_simps bindE_Inr_iff dest!: sound_transferD [OF assms(1)] split: if_splits)
    done
  then show ?thesis using returnsD [OF _ assms(3)] by force
qed

lemma full_penalty:
  assumes "liquidation_penalty True st c tc = Inr fee" "0 < fullLiquidationPenaltyPercentageDenominator st"
    and "fullLiquidationPenaltyPercentageNumerator st = fullLiquidationPenaltyPercentageDenominator st"
  shows "fee = c"
  using assms by (auto simp: liquidation_penalty_def bindE_Inr_iff checked_ops_Inr sdiv_nonneg_eq)

text \<open>What a liquidation of a user with margin ratio \<open>mr\<close> does.\<close>

definition liquidated :: "Accounts \<Rightarrow> int \<Rightarrow> Accounts \<Rightarrow> Accounts \<Rightarrow> bool" where
  "liquidated acc mr settled acc' \<longleftrightarrow>
     mr \<le> marginRatioPartial (acc_state acc) \<and>
     list_all2 (\<lambda>p p'. if mr \<le> marginRatioMaintenance (acc_state acc)
                       then ChainPosition.base_asset_amount p' = 0
                       else ChainPosition.base_asset_amount p = 0 \<longrightarrow> p' = p)
       (ChainUserPositions.positions (acc_positions settled)) (ChainUserPositions.positions (acc_positions acc')) \<and>
     0 \<le> ChainUser.collateral (acc_user acc') \<and>
     ChainUser.collateral (acc_liquidator acc) \<le> ChainUser.collateral (acc_liquidator acc') \<and>
     acc_insurance_vault acc \<le> acc_insurance_vault acc' \<and>
     (mr \<le> marginRatioMaintenance (acc_state acc) \<and> 0 < fullLiquidationPenaltyPercentageDenominator (acc_state acc) \<and>
      fullLiquidationPenaltyPercentageNumerator (acc_state acc) =
        fullLiquidationPenaltyPercentageDenominator (acc_state acc) \<longrightarrow> ChainUser.collateral (acc_user acc') = 0)"

lemma settle_user_liquidator:
  "settle_user acc now = Inr acc' \<Longrightarrow> acc_liquidator acc' = acc_liquidator acc"
  by (auto simp: settle_user_def bindE_Inr_iff)

lemma liquidation_visits:
  assumes "foldE (if full then liquidate_fully rd acc rem now slot else liquidate_partly rd acc rem now slot) run ps = Inr run'"
    and "run_visited run = []"
  shows "list_all2 (\<lambda>p p'. if full then ChainPosition.base_asset_amount p' = 0
                           else ChainPosition.base_asset_amount p = 0 \<longrightarrow> p' = p) ps (run_visited run')"
  using liquidation_loop_visits [OF _ assms(1), of "\<lambda>p p'. if full then ChainPosition.base_asset_amount p' = 0
                           else ChainPosition.base_asset_amount p = 0 \<longrightarrow> p' = p"]
    liquidate_fully_visits liquidate_partly_visits assms(2)
  by (fastforce split: if_splits)

lemma liquidate_returns:
  assumes "sound_transfer tf" "solvent acc"
  shows "returns (liquidate_ix tf rd acc rem now slot)
    (\<lambda>acc'. \<exists>settled mr. settle_user acc now = Inr settled \<and> margin_of settled = Inr mr \<and>
       liquidated acc mr settled acc')"
  unfolding liquidate_ix_def Let_def
  apply (intro returns_rules)
  apply (frule settle_user_keeps)
  apply (frule settle_user_liquidator)
  apply (clarsimp simp: rust_simps simp del: fits.simps)
  apply (drule liquidation_visits, simp)
  apply (drule charge_penalty_Inr [OF assms(1), rotated])
  using assms(2) apply (simp add: solvent_def same_tokens_def)
  apply (clarsimp simp: margin_of_def liquidated_def same_tokens_def simp del: fits.simps)
  apply (auto dest: full_penalty)
  done

text \<open>
  C6: only a user whose margin ratio, after funding is settled, is at or below the partial liquidation
  ratio can be liquidated. Below the maintenance ratio no position is left open; above it empty slots
  stay as they are. The collateral stays non-negative (and is taken whole when the penalty is all of
  it, as initialised), and neither the liquidator nor the insurance vault ever loses.
\<close>

theorem liquidation_justified:
  assumes "sound_transfer tf" "solvent acc" "liquidate_ix tf rd acc rem now slot = Inr acc'"
  shows "\<exists>settled mr. settle_user acc now = Inr settled \<and> margin_of settled = Inr mr \<and>
    liquidated acc mr settled acc'"
  using returnsD [OF liquidate_returns [OF assms(1,2)] assms(3)] .

theorem liquidation_justified_witness:
  "\<exists>acc' settled mr. liquidate_ix simple_transfer chain_readers poor_accounts oracle_infos 1640998800 100001 = Inr acc' \<and>
     settle_user poor_accounts 1640998800 = Inr settled \<and> margin_of settled = Inr mr \<and>
     liquidated poor_accounts mr settled acc'"
proof -
  obtain acc' where run: "liquidate_ix simple_transfer chain_readers poor_accounts oracle_infos 1640998800 100001 = Inr acc'"
    using liquidate_sample by blast
  have "solvent poor_accounts" by (simp add: solvent_def poor_accounts_def)
  with liquidation_justified [OF simple_transfer_sound _ run] run show ?thesis by blast
qed

subsection \<open>The fees of the admin\<close>

text \<open>The fees a market has taken and the part of them that the admin has taken out.\<close>

definition fee_books :: "ChainAMM \<Rightarrow> int \<times> int" where
  "fee_books a = (total_fee a, total_fee_withdrawn a)"

definition half_kept :: "ChainMarket \<Rightarrow> bool" where
  "half_kept m \<longleftrightarrow> 0 \<le> total_fee_withdrawn (amm m) \<and> 2 * total_fee_withdrawn (amm m) \<le> total_fee (amm m)"

lemma half_kept_books: "fee_books (amm m') = fee_books (amm m) \<Longrightarrow> half_kept m \<Longrightarrow> half_kept m'"
  by (simp add: half_kept_def fee_books_def)

lemma twap_books:
  "returns (update_mark_twap a now mp) (\<lambda>(a', _). fee_books a' = fee_books a)"
  "returns (update_oracle_price_twap a now op) (\<lambda>(a', _). fee_books a' = fee_books a)"
  unfolding update_mark_twap_def update_oracle_price_twap_def
  by (intro returns_rules; simp add: fee_books_def)+

lemma swap_books:
  "returns (swap_quote_asset a q d now mp) (\<lambda>(a', _). fee_books a' = fee_books a)"
  "returns (swap_base_asset a b d now) (\<lambda>(a', _). fee_books a' = fee_books a)"
  unfolding swap_quote_asset_def swap_base_asset_def Let_def
  by (intro returns_rules; clarsimp dest!: returnsD [OF twap_books(1)]; simp add: fee_books_def)+

lemma count_base_books: "returns (count_base b c m) (\<lambda>m'. amm m' = amm m)"
  unfolding count_base_def by (intro returns_rules; simp)

lemma position_books:
  "returns (increase d q m p now) (\<lambda>(m', _). fee_books (amm m') = fee_books (amm m))"
  "returns (reduce d q u m p now mp) (\<lambda>(_, m', _). fee_books (amm m') = fee_books (amm m))"
  "returns (close_out u m p now) (\<lambda>(_, m', _). fee_books (amm m') = fee_books (amm m))"
  unfolding increase_def reduce_def close_out_def Let_def
  by (intro returns_rules;
      clarsimp simp: bindE_Inr_iff dest!: returnsD [OF swap_books(1)] returnsD [OF swap_books(2)] returnsD [OF count_base_books]
        split: if_splits)+

lemma trade_books:
  "returns (execute_trade d q u m p now) (\<lambda>(_, m', _). fee_books (amm m') = fee_books (amm m))"
  "returns (before_trade m info now slot rails) (\<lambda>(m', _). fee_books (amm m') = fee_books (amm m))"
  unfolding execute_trade_def before_trade_def Let_def
  by (intro returns_rules;
      clarsimp dest!: returnsD [OF position_books(1)] returnsD [OF position_books(2)] returnsD [OF position_books(3)]
        returnsD [OF twap_books(2)] split: if_splits)+

lemma funding_books:
  "returns (calculate_funding_rate_long_short m r) (\<lambda>(m', _). fee_books (amm m') = fee_books (amm m))"
  "returns (update_funding_rate i m info now slot h rails b) (\<lambda>(m', _). fee_books (amm m') = fee_books (amm m))"
proof -
  show rate: "returns (calculate_funding_rate_long_short m r) (\<lambda>(m', _). fee_books (amm m') = fee_books (amm m))" for m r
    unfolding calculate_funding_rate_long_short_def Let_def
    by (intro returns_rules; simp add: fee_books_def)
  show "returns (update_funding_rate i m info now slot h rails b) (\<lambda>(m', _). fee_books (amm m') = fee_books (amm m))"
    unfolding update_funding_rate_def Let_def
    by (intro returns_rules;
        clarsimp dest!: returnsD [OF twap_books(1)] returnsD [OF twap_books(2)] returnsD [OF rate];
        simp add: fee_books_def)
qed

lemma curve_books:
  "returns (repeg m info peg slot rails) (\<lambda>(m', _). fee_books (amm m') = fee_books (amm m))"
  "returns (adjust_k_cost m k) (\<lambda>(m', _). fee_books (amm m') = fee_books (amm m))"
  "returns (charge_k m c) (\<lambda>m'. fee_books (amm m') = fee_books (amm m))"
  unfolding repeg_def adjust_peg_cost_def adjust_k_cost_def charge_k_def Let_def
  by (intro returns_rules; clarsimp simp: bindE_Inr_iff; simp add: fee_books_def)+

lemma move_price_books: "returns (move_price sq a b q) (\<lambda>a'. fee_books a' = fee_books a)"
  unfolding move_price_def by (intro returns_rules) (simp add: fee_books_def)

text \<open>Every market of the exchange keeps half of its fees.\<close>

definition halves_kept :: "Accounts \<Rightarrow> bool" where
  "halves_kept acc \<longleftrightarrow> (\<forall>m \<in> set (acc_markets acc). half_kept m)"

lemma halves_kept_market: "halves_kept acc \<Longrightarrow> market_at (acc_markets acc) i = Inr m \<Longrightarrow> half_kept m"
  by (auto simp: halves_kept_def market_at_Inr)

lemma halves_kept_with_market: "halves_kept acc \<Longrightarrow> half_kept m \<Longrightarrow> halves_kept (with_market i m acc)"
  by (auto simp: halves_kept_def with_market_def dest!: subsetD [OF set_update_subset_insert])

lemma halves_kept_fields [simp]:
  "halves_kept (acc\<lparr>acc_user := u\<rparr>) = halves_kept acc"
  "halves_kept (acc\<lparr>acc_state := st\<rparr>) = halves_kept acc"
  "halves_kept (acc\<lparr>acc_positions := ps\<rparr>) = halves_kept acc"
  "halves_kept (acc\<lparr>acc_payments := p\<rparr>) = halves_kept acc"
  "halves_kept (acc\<lparr>acc_wallet := w\<rparr>) = halves_kept acc"
  "halves_kept (acc\<lparr>acc_collateral_vault := v\<rparr>) = halves_kept acc"
  "halves_kept (acc\<lparr>acc_insurance_vault := v\<rparr>) = halves_kept acc"
  "halves_kept (acc\<lparr>acc_deposits := d\<rparr>) = halves_kept acc"
  "halves_kept (acc\<lparr>acc_trades := t\<rparr>) = halves_kept acc"
  "halves_kept (acc\<lparr>acc_rates := r\<rparr>) = halves_kept acc"
  "halves_kept (acc\<lparr>acc_curves := c\<rparr>) = halves_kept acc"
  "halves_kept (acc\<lparr>acc_liquidator := q\<rparr>) = halves_kept acc"
  "halves_kept (acc\<lparr>acc_liquidations := l\<rparr>) = halves_kept acc"
  "halves_kept (acc\<lparr>acc_referrer := rf\<rparr>) = halves_kept acc"
  by (simp_all add: halves_kept_def)

lemma logs_halves:
  "log_deposit acc now d c e n = Inr acc' \<Longrightarrow> halves_kept acc' = halves_kept acc"
  "log_trade acc mk = Inr acc' \<Longrightarrow> halves_kept acc' = halves_kept acc"
  "log_curve acc mk' = Inr acc' \<Longrightarrow> halves_kept acc' = halves_kept acc"
  "settle_user acc now = Inr acc' \<Longrightarrow> halves_kept acc' = halves_kept acc"
  by (auto simp: log_deposit_def log_trade_def log_curve_def settle_user_def bindE_Inr_iff)

lemma refresh_halves:
  "halves_kept acc \<Longrightarrow> returns (refresh_funding_rate info now slot i acc) halves_kept"
  unfolding refresh_funding_rate_def
  by (intro returns_rules halves_kept_with_market)
    (auto dest: halves_kept_market dest!: returnsD [OF funding_books(2)] elim: half_kept_books)

lemma charge_fee_halves:
  assumes "halves_kept acc"
  shows "returns (charge_fee rd flags rem i q acc) (\<lambda>(acc', _). halves_kept acc')"
  unfolding charge_fee_def Let_def
  apply (intro returns_rules)
  apply (drule halves_kept_market [OF assms])
  apply (clarsimp simp: rust_simps simp del: fits.simps)
  apply (drule calculate_fees_Inr)
  apply (rule halves_kept_with_market)
   apply (simp add: assms)
  apply (simp add: half_kept_def)
  done

lemma halvesD:
  "charge_fee rd flags rem i q acc = Inr (acc', r) \<Longrightarrow> halves_kept acc \<Longrightarrow> halves_kept acc'"
  "execute_trade d q u m p now = Inr (u', m', r') \<Longrightarrow> half_kept m \<Longrightarrow> half_kept m'"
  "before_trade m info now slot rails = Inr (m', r'') \<Longrightarrow> half_kept m \<Longrightarrow> half_kept m'"
  "close_out u m p now = Inr (u', m', s) \<Longrightarrow> half_kept m \<Longrightarrow> half_kept m'"
  "reduce d q u m p now mp = Inr (u', m', s') \<Longrightarrow> half_kept m \<Longrightarrow> half_kept m'"
  by (drule (1) returnsD [OF charge_fee_halves, rotated], simp)
    (drule returnsD [OF trade_books(1)] returnsD [OF trade_books(2)] returnsD [OF position_books(3)]
        returnsD [OF position_books(2)]; simp add: half_kept_def fee_books_def)+

lemma open_position_halves:
  assumes "halves_kept acc"
  shows "returns (open_position rd acc info now slot d q i l flags rem) halves_kept"
  unfolding open_position_def Let_def
  apply (intro returns_rules)
  apply (rule refresh_halves)
  using assms
  apply (clarsimp simp: logs_halves)
  apply (erule halvesD(1))
  apply (rule halves_kept_with_market, simp add: logs_halves)
  apply (blast intro: halvesD halves_kept_market logs_halves(4) [THEN iffD2])
  done

lemma close_position_halves:
  assumes "halves_kept acc"
  shows "returns (close_position rd acc info now slot i flags rem) halves_kept"
  unfolding close_position_def Let_def
  apply (intro returns_rules)
  apply (rule refresh_halves)
  using assms
  apply (clarsimp simp: logs_halves)
  apply (frule halvesD(1))
   apply (rule halves_kept_with_market, simp add: logs_halves)
   apply (erule halvesD(4), erule halves_kept_market [rotated], simp add: logs_halves)
  apply (rule halves_kept_with_market, assumption)
  apply (frule (1) halves_kept_market [rotated])
  apply (auto split: if_splits dest!: returnsD [OF twap_books(2)] simp: half_kept_def fee_books_def)
  done

lemma curve_halves:
  assumes "halves_kept acc"
  shows "returns (repeg_amm_curve acc info now slot peg i) halves_kept"
    and "returns (update_k acc info now k i) halves_kept"
    and "returns (move_amm_price sq acc b q i) halves_kept"
  unfolding repeg_amm_curve_def update_k_def move_amm_price_def
  by (intro returns_rules returnsI;
      auto simp: logs_halves assms intro!: halves_kept_with_market
        dest!: returnsD [OF curve_books(1)] returnsD [OF curve_books(2)] returnsD [OF curve_books(3)]
          returnsD [OF move_price_books] halves_kept_market [OF assms] simp: half_kept_def fee_books_def)+

lemma foldE_keeps:
  assumes "\<And>b x b'. P b \<Longrightarrow> f b x = Inr b' \<Longrightarrow> P b'"
  shows "P b \<Longrightarrow> foldE f b xs = Inr b' \<Longrightarrow> P b'"
  by (induction xs arbitrary: b) (auto simp: bindE_Inr_iff dest: assms)

lemma liquidation_step_halves:
  assumes "\<forall>m \<in> set (run_markets run). half_kept m"
  shows "liquidate_fully rd acc rem now slot run p = Inr run' \<Longrightarrow> \<forall>m \<in> set (run_markets run'). half_kept m"
    and "liquidate_partly rd acc rem now slot run p = Inr run' \<Longrightarrow> \<forall>m \<in> set (run_markets run'). half_kept m"
  using assms
  by (auto simp: liquidate_fully_def liquidate_partly_def Let_def bindE_Inr_iff market_at_Inr split: if_splits
      dest!: subsetD [OF set_update_subset_insert]) (erule halvesD(4) halvesD(5); simp)+

lemma charge_penalty_markets: "charge_penalty tf full fee acc = Inr (acc', r) \<Longrightarrow> acc_markets acc' = acc_markets acc"
  by (auto simp: charge_penalty_def bindE_Inr_iff)

lemma liquidate_halves:
  assumes "halves_kept acc"
  shows "returns (liquidate_ix tf rd acc rem now slot) halves_kept"
  unfolding liquidate_ix_def Let_def
  apply (intro returns_rules)
  apply (clarsimp dest!: charge_penalty_markets settle_user_keeps)
  apply (drule foldE_keeps [where P = "\<lambda>run. \<forall>m \<in> set (run_markets run). half_kept m", rotated 2])
  using assms
    apply (auto simp: halves_kept_def dest: liquidation_step_halves split: if_splits)
  done

lemma collateral_halves:
  assumes "halves_kept acc"
  shows "returns (deposit_collateral tf acc now n) halves_kept"
    and "returns (withdraw_collateral tf acc now n) halves_kept"
    and "returns (settle_funding_payment_ix acc now) halves_kept"
    and "returns (update_funding_rate_ix acc info now slot i) halves_kept"
    and "returns (withdraw_from_insurance_vault tf acc n) halves_kept"
  unfolding deposit_collateral_def withdraw_collateral_def settle_funding_payment_ix_def
    update_funding_rate_ix_def withdraw_from_insurance_vault_def Let_def
  by (intro returns_rules refresh_halves returnsI; simp add: logs_halves assms)+

lemma market_halves:
  assumes "halves_kept acc"
  shows "returns (withdraw_fees tf acc i n) halves_kept"
    and "returns (withdraw_from_insurance_vault_to_market tf acc i n) halves_kept"
    and "returns (update_amm_oracle_twap acc info now slot i) halves_kept"
    and "returns (reset_amm_oracle_twap acc info now slot i) halves_kept"
    and "returns (update_market_oracle acc i key src) halves_kept"
    and "returns (update_market_minimum_trade_size acc i n) halves_kept"
  unfolding withdraw_fees_def withdraw_from_insurance_vault_to_market_def update_amm_oracle_twap_def
    reset_amm_oracle_twap_def update_market_oracle_def update_market_minimum_trade_size_def Let_def
  by (intro returns_rules halves_kept_with_market; clarsimp simp: assms dest!: halves_kept_market [OF assms];
      auto simp: half_kept_def rust_simps fee_lower_bound_def bindE_Inr_iff constant_values sdiv_nonneg_eq)+

lemmas call_halves = open_position_halves close_position_halves liquidate_halves curve_halves collateral_halves
  market_halves

lemma run_call_halves:
  assumes "halves_kept acc" "run_call tf rd sq now slot call acc = Inr acc'"
  shows "halves_kept acc'"
proof (cases call)
  case (UpdateState u)
  then show ?thesis using assms by auto
qed (use assms(2) in \<open>auto dest: call_halves [OF assms(1), THEN returnsD]\<close>)

text \<open>
  C17: at most half of the fees that a market has ever taken leave it through the admin: if the part
  withdrawn is at most half of the total fee in every market, it stays so through every sequence of
  instructions.
\<close>

theorem admin_takes_at_most_half:
  assumes "halves_kept acc"
  shows "halves_kept (exec_calls tf rd sq calls acc)"
  by (rule exec_calls_keep [of halves_kept]) (auto intro: run_call_halves simp: assms)

theorem admin_takes_at_most_half_witness:
  "halves_kept (exec_calls simple_transfer chain_readers (\<lambda>n. n)
     [(1640998800, 100001, WithdrawFees 0 50000), (1640998800, 100001, WithdrawFees 0 2000000)] chain_accounts)"
  by (rule admin_takes_at_most_half) (simp add: halves_kept_def half_kept_def chain_market_def chain_amm_def)

subsection \<open>Two guards\<close>

text \<open>
  The histories can be initialised again. \<open>initialize_history\<close> refuses only when all six keys of
  the state are set, but it never sets the old curve history's, so that a second call replaces the
  histories of the first.
\<close>

theorem histories_replaced:
  assumes "initialize_ix fpa st admin_key mint vault insurance markets_key b = Inr st1"
    and "initialize_history st1 keys = Inr st2"
  shows "\<exists>st3. initialize_history st2 keys' = Inr st3 \<and> tradeHistory st3 = key_trade keys' \<and>
    depositHistory st3 = key_deposit keys' \<and> liquidationHistory st3 = key_liquidation keys'"
  using assms
  by (auto simp: initialize_ix_def initialize_history_def Let_def bindE_Inr_iff guardE_Inr_iff split: prod.splits)

theorem histories_replaced_witness:
  "\<exists>st1 st2 st3. initialize_ix (\<lambda>k. (''authority'', 255)) sample_state ''admin'' ''usdc'' (''vault'', ''authority'')
       (''insurance'', ''authority'') ''markets'' False = Inr st1 \<and>
     initialize_history st1 \<lparr>key_deposit = ''d1'', key_trade = ''t1'', key_funding_payment = ''p1'',
       key_funding_rate = ''r1'', key_liquidation = ''l1'', key_curve = ''c1''\<rparr> = Inr st2 \<and>
     initialize_history st2 \<lparr>key_deposit = ''d2'', key_trade = ''t2'', key_funding_payment = ''p2'',
       key_funding_rate = ''r2'', key_liquidation = ''l2'', key_curve = ''c2''\<rparr> = Inr st3 \<and> tradeHistory st3 = ''t2''"
proof -
  obtain st1 where 1: "initialize_ix (\<lambda>k. (''authority'', 255)) sample_state ''admin'' ''usdc'' (''vault'', ''authority'')
       (''insurance'', ''authority'') ''markets'' False = Inr st1"
    by (simp add: initialize_ix_def)
  then obtain st2 where 2: "initialize_history st1 \<lparr>key_deposit = ''d1'', key_trade = ''t1'', key_funding_payment = ''p1'',
       key_funding_rate = ''r1'', key_liquidation = ''l1'', key_curve = ''c1''\<rparr> = Inr st2"
    by (auto simp: initialize_ix_def initialize_history_def)
  from histories_replaced [OF 1 2, of "\<lparr>key_deposit = ''d2'', key_trade = ''t2'', key_funding_payment = ''p2'',
       key_funding_rate = ''r2'', key_liquidation = ''l2'', key_curve = ''c2''\<rparr>"] 1 2 show ?thesis
    by auto
qed

text \<open>
  C40: the reset of the oracle's average is meant for an invalid oracle, but a price below zero, the
  plainest sign of one, makes the reset fail: the check of validity casts the price to an unsigned
  number first.
\<close>

theorem reset_fails_on_negative_price:
  assumes "market_at (acc_markets acc) i = Inr m" "get_oracle_price (amm m) info slot = Inr (p, t, c, tc, d)" "p < 0"
  shows "\<exists>e. reset_amm_oracle_twap acc info now slot i = Inl e"
proof -
  have "returns (reset_amm_oracle_twap acc info now slot i) (\<lambda>_. False)"
    unfolding reset_amm_oracle_twap_def Let_def
    using assms is_oracle_valid_negative [OF assms(2,3), of "validity (oracleGuardRails (acc_state acc))"]
    by (intro returns_rules) auto
  then show ?thesis by (simp add: returns_False)
qed

theorem reset_fails_on_negative_price_witness:
  "\<exists>e. reset_amm_oracle_twap chain_accounts negative_oracle 1640998800 100001 0 = Inl e"
proof -
  have "get_oracle_price (amm chain_market) negative_oracle 100001 =
      Inr (- 490000000000, 489000000000, 100000000, 100000000, 1)"
    using sample_oracle_price(2) by (simp add: get_oracle_price_def chain_market_def chain_amm_def)
  from reset_fails_on_negative_price [OF _ this] show ?thesis by (simp add: market_at_def)
qed

end
