(* ===== verification/FaucetProgram.thy ===== *)
theory FaucetProgram
  imports Faucet
begin

section \<open>The faucet program\<close>

text \<open>
  The on-chain program \<open>programs/mock_usdc_faucet\<close> behind \<open>MockUSDCFaucet\<close>. \<open>initialize\<close> records the
  mint whose authority is the address that the program derives from it; \<open>mint_to_user\<close> asks the token
  program for a mint that is signed with the seeds of the recorded mint. \<open>derive\<close> is
  \<open>find_program_address\<close> for the seed of a key. The token program mints when the given authority is
  the mint's and has signed: it is the address derived from the seeds of the signature.
\<close>

datatype FaucetError = InvalidMintAccountAuthority | FaucetPanic

record MockUSDCFaucetState =
  fs_admin :: PublicKey
  fs_mint :: PublicKey
  fs_mint_authority :: PublicKey
  fs_mint_authority_nonce :: int

definition program_initialize ::
  "(PublicKey \<Rightarrow> PublicKey \<times> int) \<Rightarrow> PublicKey \<Rightarrow> PublicKey \<Rightarrow> PublicKey option \<Rightarrow> FaucetError + MockUSDCFaucetState" where
  "program_initialize derive adm mint_account mint_authority0 =
     (case derive mint_account of (mint_authority, nonce) \<Rightarrow>
        (case mint_authority0 of
           None \<Rightarrow> Inl FaucetPanic
         | Some a \<Rightarrow>
             if a \<noteq> mint_authority then Inl InvalidMintAccountAuthority
             else Inr \<lparr>fs_admin = adm, fs_mint = mint_account, fs_mint_authority = mint_authority,
                       fs_mint_authority_nonce = nonce\<rparr>))"

text \<open>
  \<open>mint_to_user\<close>: the authority that signs is derived from the mint of the state; \<open>minter\<close> gives the
  authority of a mint. A refusal of the token program is unwrapped, a panic.
\<close>

definition program_mint_to_user ::
  "(PublicKey \<Rightarrow> PublicKey \<times> int) \<Rightarrow> (PublicKey \<Rightarrow> PublicKey option) \<Rightarrow> MockUSDCFaucetState \<Rightarrow> PublicKey \<Rightarrow>
     PublicKey \<Rightarrow> PublicKey \<Rightarrow> int \<Rightarrow> FaucetError + PublicKey \<times> PublicKey \<times> int" where
  "program_mint_to_user derive minter state mint_account user_token_account mint_authority amount =
     (if minter mint_account = Some mint_authority \<and> fst (derive (fs_mint state)) = mint_authority
      then Inr (mint_account, user_token_account, amount) else Inl FaucetPanic)"

text \<open>
  The client and the program agree. The transaction of \<open>MockUSDCFaucet.initialize\<close> creates a mint
  that the program's \<open>initialize\<close> accepts, and on the state it leaves, the accounts that the
  client's \<open>mintToUser\<close> passes (the mint and the authority of the state) make the program mint
  exactly the amount to the user's account.
\<close>

theorem faucet_agrees:
  assumes "faucetInitialize sol rpc mintSpan fresh f = (Inr sig, f')"
    and "\<And>k. derive k = findProgramAddress sol [KeyBytes k] (faucet_programId f)"
  shows "\<exists>sub auth state. faucet_sent f' = faucet_sent f @ [sub] \<and>
     InitMint (TOKEN_PROGRAM_ID sol) fresh 6 auth None \<in> set (sub_tx sub) \<and>
     program_initialize derive (faucet_wallet f) fresh (Some auth) = Inr state \<and>
     (\<forall>minter user amount. minter fresh = Some auth \<longrightarrow>
        program_mint_to_user derive minter state (fs_mint state) user (fs_mint_authority state) amount =
          Inr (fresh, user, amount))"
proof -
  let ?auth = "fst (findProgramAddress sol [KeyBytes fresh] (faucet_programId f))"
  let ?state = "\<lparr>fs_admin = faucet_wallet f, fs_mint = fresh, fs_mint_authority = ?auth,
      fs_mint_authority_nonce = snd (findProgramAddress sol [KeyBytes fresh] (faucet_programId f))\<rparr>"
  have "\<exists>sub. faucet_sent f' = faucet_sent f @ [sub] \<and> InitMint (TOKEN_PROGRAM_ID sol) fresh 6 ?auth None \<in> set (sub_tx sub)"
    using assms(1)
    by (auto simp: faucetInitialize_def getMockUSDCFaucetStatePublicKey_def faucetSend_def eff_simps Let_def
        split: prod.splits sum.splits option.splits if_splits)
  moreover have "program_initialize derive (faucet_wallet f) fresh (Some ?auth) = Inr ?state"
    by (simp add: program_initialize_def assms(2) case_prod_beta)
  moreover have "program_mint_to_user derive minter ?state (fs_mint ?state) user (fs_mint_authority ?state) amount =
      Inr (fresh, user, amount)" if "minter fresh = Some ?auth" for minter user amount
    using that by (simp add: program_mint_to_user_def assms(2))
  ultimately show ?thesis by blast
qed

end
