(* ===== verification/MockPyth.thy ===== *)
theory MockPyth
  imports Conversion Pyth Chain
begin

section \<open>Mock price feeds: the Pyth program of the tests and its client\<close>

text \<open>
  The on-chain program \<open>programs/pyth\<close> stands in for Pyth on a test validator; \<open>createPriceFeed\<close>,
  \<open>setFeedPrice\<close> and \<open>getFeedData\<close> of \<open>stress/mockPythUtils.ts\<close> are its client. The program casts
  the bytes of an account to the C layout of \<open>Price\<close> (\<open>pc.rs\<close>), in which the type is at offset 16,
  the exponent at 20, the time weighted average at 48 and the aggregate price and confidence at
  208 and 216. The state of the model is the accounts of the program, as bytes; the client parses
  them with \<open>parsePriceData\<close>. An abstract feed has an exponent, an average and a price.

  Numbers of JavaScript are rationals; \<open>round64\<close> rounds a product to the next floating point
  number and \<open>pow10 e\<close> is \<open>10 ** e\<close>. Both are arguments.
\<close>

subsection \<open>Floating point numbers\<close>

record Floats =
  round64 :: "rat \<Rightarrow> rat"
  pow10 :: "int \<Rightarrow> rat"

text \<open>The digits before the point, which \<open>new BN(x)\<close> takes.\<close>

definition truncNumber :: "rat \<Rightarrow> int" where
  "truncNumber x = (if x < 0 then - floor (- x) else floor x)"

lemma bn_of_number_trunc:
  "bn_of_number x = (if \<bar>x\<bar> < 2 ^ 53 then Inr (truncNumber x) else Inl BnAssertion)"
  by (simp add: bn_of_number_def truncNumber_def)

text \<open>\<open>Number(c) * 10 ** e\<close>.\<close>

definition scaleNumber :: "Floats \<Rightarrow> int \<Rightarrow> int \<Rightarrow> rat" where
  "scaleNumber f c e = round64 f (round64 f (of_int c) * pow10 f e)"

lemma bn_of_number_bound: "bn_of_number x = Inr c \<Longrightarrow> \<bar>c\<bar> < 2 ^ 53"
proof -
  assume "bn_of_number x = Inr c"
  then have x: "\<bar>x\<bar> < 2 ^ 53" and c: "c = truncNumber x"
    by (auto simp: bn_of_number_trunc split: if_splits)
  have "\<bar>of_int (truncNumber x) :: rat\<bar> \<le> \<bar>x\<bar>"
    using of_int_floor_le [of x] of_int_floor_le [of "- x"]
    by (cases "x < 0") (auto simp: truncNumber_def)
  with x c have "(of_int \<bar>c\<bar> :: rat) < of_int (2 ^ 53)" by simp
  then show ?thesis by (simp only: of_int_less_iff)
qed

lemma bn_of_number_int: "\<bar>c\<bar> < 2 ^ 53 \<Longrightarrow> bn_of_number (of_int c) = Inr c"
proof -
  assume c: "\<bar>c\<bar> < 2 ^ 53"
  have "\<bar>of_int c :: rat\<bar> < 2 ^ 53"
    using c of_int_less_iff [of "\<bar>c\<bar>" "2 ^ 53", where ?'a = rat] by simp
  then show ?thesis by (simp add: bn_of_number_trunc truncNumber_def)
qed

subsection \<open>Writing bytes\<close>

fun encodeLE :: "nat \<Rightarrow> int \<Rightarrow> Bytes" where
  "encodeLE 0 x = []"
| "encodeLE (Suc n) x = nat (x mod 256) # encodeLE n (x div 256)"

definition writeAt :: "nat \<Rightarrow> Bytes \<Rightarrow> Bytes \<Rightarrow> Bytes" where
  "writeAt i new bs = take i bs @ new @ drop (i + length new) bs"

lemma length_encodeLE [simp]: "length (encodeLE n x) = n"
  by (induction n arbitrary: x) auto

lemma le_encodeLE: "le (encodeLE n x) = x mod 256 ^ n"
proof (induction n arbitrary: x)
  case (Suc n)
  have "x mod 256 + 256 * (x div 256 mod 256 ^ n) = x mod (256 * 256 ^ n)"
    by (simp add: zmod_zmult2_eq)
  with Suc show ?case by simp
qed simp

lemma isBytes_encodeLE [simp]: "isBytes (encodeLE n x)"
  by (induction n arbitrary: x) (simp_all add: isBytes_def nat_less_iff)

lemma length_writeAt [simp]: "i + length new \<le> length bs \<Longrightarrow> length (writeAt i new bs) = length bs"
  by (simp add: writeAt_def)

lemma isBytes_writeAt: "isBytes new \<Longrightarrow> isBytes bs \<Longrightarrow> isBytes (writeAt i new bs)"
  by (auto simp: isBytes_def writeAt_def list_all_iff dest: in_set_takeD in_set_dropD)

lemma slice_writeAt_same:
  "i + length new \<le> length bs \<Longrightarrow> j = i \<Longrightarrow> k = i + length new \<Longrightarrow> slice (writeAt i new bs) j k = new"
  by (simp add: slice_def writeAt_def)

lemma slice_writeAt_other:
  assumes "i + length new \<le> length bs" "k \<le> i \<or> i + length new \<le> j"
  shows "slice (writeAt i new bs) j k = slice bs j k"
proof (cases "k \<le> i")
  case True
  then show ?thesis
    using assms(1) by (cases "j \<le> i") (simp_all add: slice_def writeAt_def drop_take min_def)
next
  case False
  with assms(2) have j: "i + length new \<le> j" by simp
  have "drop j (writeAt i new bs) = drop j bs"
    using assms(1) j by (simp add: writeAt_def)
  then show ?thesis by (simp add: slice_def)
qed

subsection \<open>The program\<close>

text \<open>The size of the structure; the cast panics for an account of another size.\<close>

definition priceSize :: nat where
  "priceSize = 3312"

definition loadPrice :: "Bytes \<Rightarrow> Bytes result" where
  "loadPrice bs =
     (if length bs = priceSize then Inr bs else Inl (Error ''Program failed to complete''))"

definition toInt64 :: "int \<Rightarrow> int" where
  "toInt64 x = (x + 2 ^ 63) mod 2 ^ 64 - 2 ^ 63"

definition inI64 :: "int \<Rightarrow> bool" where
  "inI64 x \<longleftrightarrow> - (2 ^ 63) \<le> x \<and> x < 2 ^ 63"

definition pythInitialize :: "int \<Rightarrow> int \<Rightarrow> Bytes \<Rightarrow> Bytes result" where
  "pythInitialize px expo data =
     bindE (loadPrice data) (\<lambda>oracle.
     Inr (writeAt 16 (encodeLE 4 1) (writeAt 20 (encodeLE 4 expo) (writeAt 48 (encodeLE 8 px)
         (writeAt 216 (encodeLE 8 0) (writeAt 208 (encodeLE 8 px) oracle))))))"

definition pythSetPrice :: "int \<Rightarrow> Bytes \<Rightarrow> Bytes result" where
  "pythSetPrice px data =
     bindE (loadPrice data) (\<lambda>oracle.
     let sum = toInt64 (le (slice oracle 48 56)) + px in
     if inI64 sum
     then Inr (writeAt 208 (encodeLE 8 px) (writeAt 48 (encodeLE 8 (sum sdiv 2)) oracle))
     else Inl (Error ''Program failed to complete''))"

subsection \<open>The client\<close>

type_synonym Feeds = "PublicKey \<Rightarrow> Bytes option"

text \<open>The two transactions; that of \<open>initialize\<close> first creates the account.\<close>

datatype PythCall =
    PythInitialize PublicKey int int BN "TxInstruction list"
  | PythSetPrice PublicKey int

record PythNet =
  pythProgramId :: PublicKey
  pythWallet :: PublicKey
  rentFor :: "nat \<Rightarrow> int result"
  refusal :: "PythCall \<Rightarrow> js_error option"
  infoFails :: "PublicKey \<Rightarrow> js_error option"
  keyOfBytes :: "Bytes \<Rightarrow> PublicKey"

fun createAccounts :: "TxInstruction list \<Rightarrow> Feeds \<Rightarrow> Feeds result" where
  "createAccounts (SystemCreateAccount from newKey lamports space owner # ixs) feeds =
     (if feeds newKey = None then createAccounts ixs (feeds(newKey \<mapsto> replicate (nat space) 0))
      else Inl (Error ''account already in use''))"
| "createAccounts (ix # ixs) feeds = createAccounts ixs feeds"
| "createAccounts [] feeds = Inr feeds"

text \<open>A transaction goes through as a whole or changes nothing.\<close>

fun runPyth :: "PythCall \<Rightarrow> Feeds \<Rightarrow> Feeds result" where
  "runPyth (PythInitialize key px expo conf ixs) feeds =
     bindE (createAccounts ixs feeds) (\<lambda>created.
     bindE (deref (created key)) (\<lambda>data.
     bindE (pythInitialize px expo data) (\<lambda>data'. Inr (created(key \<mapsto> data')))))"
| "runPyth (PythSetPrice key px) feeds =
     bindE (deref (feeds key)) (\<lambda>data.
     bindE (pythSetPrice px data) (\<lambda>data'. Inr (feeds(key \<mapsto> data'))))"

definition pythRpc :: "PythNet \<Rightarrow> PythCall \<Rightarrow> (Feeds, unit) eff" where
  "pythRpc net call = (\<lambda>feeds.
     case refusal net call of
       Some e \<Rightarrow> (Inl e, feeds)
     | None \<Rightarrow> (case runPyth call feeds of Inl e \<Rightarrow> (Inl e, feeds) | Inr feeds' \<Rightarrow> (Inr (), feeds')))"

text \<open>\<open>getAccountInfo(priceFeed)\<close>, with the data of the account; \<open>null\<close> has no \<open>data\<close>.\<close>

definition accountData :: "PythNet \<Rightarrow> PublicKey \<Rightarrow> (Feeds, Bytes) eff" where
  "accountData net key = readS (\<lambda>feeds.
     case infoFails net key of Some e \<Rightarrow> Inl e | None \<Rightarrow> deref (feeds key))"

definition createPriceFeed ::
  "Floats \<Rightarrow> PythNet \<Rightarrow> PublicKey \<Rightarrow> rat \<Rightarrow> BN option \<Rightarrow> int \<Rightarrow> (Feeds, PublicKey) eff" where
  "createPriceFeed f net collateralTokenFeed initPrice conf0 expo =
     bindS (case conf0 of
              Some c \<Rightarrow> returnS c
            | None \<Rightarrow> liftS (bn_of_number
                (round64 f (round64 f (initPrice / 10) * pow10 f (- expo))))) (\<lambda>conf.
     bindS (liftS (bn_of_number (round64 f (initPrice * pow10 f (- expo))))) (\<lambda>px.
     bindS (liftS (rentFor net 3312)) (\<lambda>lamports.
     bindS (pythRpc net (PythInitialize collateralTokenFeed px expo conf
              [SystemCreateAccount (pythWallet net) collateralTokenFeed lamports 3312
                 (pythProgramId net)])) (\<lambda>_.
     returnS collateralTokenFeed))))"

definition getFeedData :: "Floats \<Rightarrow> PythNet \<Rightarrow> PublicKey \<Rightarrow> (Feeds, rat PythPriceData) eff" where
  "getFeedData f net priceFeed =
     bindS (accountData net priceFeed) (\<lambda>data.
     liftS (parsePriceData (keyOfBytes net) (scaleNumber f) data))"

definition setFeedPrice :: "Floats \<Rightarrow> PythNet \<Rightarrow> rat \<Rightarrow> PublicKey \<Rightarrow> (Feeds, unit) eff" where
  "setFeedPrice f net newPrice priceFeed =
     bindS (accountData net priceFeed) (\<lambda>bytes.
     bindS (liftS (parsePriceData (keyOfBytes net) (scaleNumber f) bytes)) (\<lambda>data.
     bindS (liftS (bn_of_number (round64 f (newPrice * pow10 f (- exponent data))))) (\<lambda>px.
     pythRpc net (PythSetPrice priceFeed px))))"

subsection \<open>The abstract feed\<close>

record Feed =
  feed_expo :: int
  feed_twap :: int
  feed_price :: int

definition feedOf :: "Bytes \<Rightarrow> Feed" where
  "feedOf bs = \<lparr>feed_expo = toInt32 (le (slice bs 20 24)), feed_twap = toInt64 (le (slice bs 48 56)),
                feed_price = toInt64 (le (slice bs 208 216))\<rparr>"

definition absFeeds :: "Feeds \<Rightarrow> PublicKey \<Rightarrow> Feed option" where
  "absFeeds feeds = (\<lambda>k. map_option feedOf (feeds k))"

text \<open>The accounts the program works on: of the size of \<open>Price\<close>, with no publisher.\<close>

definition wfFeed :: "Bytes \<Rightarrow> bool" where
  "wfFeed bs \<longleftrightarrow> length bs = 3312 \<and> isBytes bs \<and> slice bs 240 272 = replicate 32 0"

definition wfFeeds :: "Feeds \<Rightarrow> bool" where
  "wfFeeds feeds \<longleftrightarrow> (\<forall>k bs. feeds k = Some bs \<longrightarrow> wfFeed bs)"

datatype FeedAction = CreateFeed PublicKey rat "BN option" int | SetFeed rat PublicKey

fun actionOk :: "FeedAction \<Rightarrow> bool" where
  "actionOk (CreateFeed k p conf0 e) \<longleftrightarrow> - (2 ^ 31) \<le> e \<and> e < 2 ^ 31"
| "actionOk (SetFeed p k) \<longleftrightarrow> True"

fun feedAction :: "Floats \<Rightarrow> PythNet \<Rightarrow> FeedAction \<Rightarrow> (Feeds, unit) eff" where
  "feedAction f net (CreateFeed k p conf0 e) = bindS (createPriceFeed f net k p conf0 e) (\<lambda>_. returnS ())"
| "feedAction f net (SetFeed p k) = setFeedPrice f net p k"

text \<open>What an action does to the abstract feeds, in the units of the feed.\<close>

definition feedUnits :: "Floats \<Rightarrow> rat \<Rightarrow> int \<Rightarrow> int" where
  "feedUnits f p e = truncNumber (round64 f (p * pow10 f (- e)))"

fun absAction :: "Floats \<Rightarrow> FeedAction \<Rightarrow> (PublicKey \<Rightarrow> Feed option) \<Rightarrow> PublicKey \<Rightarrow> Feed option" where
  "absAction f (CreateFeed k p conf0 e) A =
     A(k \<mapsto> \<lparr>feed_expo = e, feed_twap = feedUnits f p e, feed_price = feedUnits f p e\<rparr>)"
| "absAction f (SetFeed p k) A =
     (case A k of
        None \<Rightarrow> A
      | Some F \<Rightarrow> A(k \<mapsto> F\<lparr>feed_twap := (feed_twap F + feedUnits f p (feed_expo F)) sdiv 2,
                          feed_price := feedUnits f p (feed_expo F)\<rparr>))"

lemma toInt64_inI64: "inI64 (toInt64 x)"
proof -
  have "0 \<le> (x + 2 ^ 63) mod 2 ^ 64" "(x + 2 ^ 63) mod 2 ^ 64 < 2 ^ 64"
    by (intro pos_mod_sign pos_mod_bound; simp)+
  then show ?thesis by (simp add: toInt64_def inI64_def)
qed

lemma toInt64_mod: "inI64 x \<Longrightarrow> toInt64 (x mod 2 ^ 64) = x"
proof -
  assume x: "inI64 x"
  have "(x mod 2 ^ 64 + 2 ^ 63) mod 2 ^ 64 = (x + 2 ^ 63) mod 2 ^ 64" by (simp only: mod_add_left_eq)
  also have "\<dots> = x + 2 ^ 63" using x by (intro mod_pos_pos_trivial) (auto simp: inI64_def)
  finally show ?thesis by (simp add: toInt64_def)
qed

lemma toInt64_mod_back: "0 \<le> x \<Longrightarrow> x < 2 ^ 64 \<Longrightarrow> toInt64 x mod 2 ^ 64 = x"
proof -
  assume x: "0 \<le> x" "x < 2 ^ 64"
  have "((x + 2 ^ 63) mod 2 ^ 64 - 2 ^ 63) mod 2 ^ 64 = (x + 2 ^ 63 - 2 ^ 63) mod 2 ^ 64"
    by (simp only: mod_diff_left_eq)
  also have "\<dots> = x" using x by simp
  finally show ?thesis by (simp add: toInt64_def)
qed

lemma toInt32_mod: "- (2 ^ 31) \<le> x \<Longrightarrow> x < 2 ^ 31 \<Longrightarrow> toInt32 (x mod 2 ^ 32) = x"
proof -
  assume x: "- (2 ^ 31) \<le> x" "x < 2 ^ 31"
  have "(x mod 2 ^ 32 + 2 ^ 31) mod 2 ^ 32 = (x + 2 ^ 31) mod 2 ^ 32" by (simp only: mod_add_left_eq)
  also have "\<dots> = x + 2 ^ 31" using x by (intro mod_pos_pos_trivial) auto
  finally show ?thesis by (simp add: toInt32_def)
qed

lemma le_8: "le (encodeLE 8 x) = x mod 2 ^ 64" and le_4: "le (encodeLE 4 x) = x mod 2 ^ 32"
  using le_encodeLE [of 8 x] le_encodeLE [of 4 x] by simp_all

lemma isBytes_slice: "isBytes bs \<Longrightarrow> isBytes (slice bs i j)"
  by (auto simp: isBytes_def slice_def list_all_iff dest: in_set_takeD in_set_dropD)

lemma readDrvs_defined:
  "isBytes bs \<Longrightarrow> \<forall>i \<in> set is. i + 8 \<le> length bs \<Longrightarrow> \<exists>vs. readDrvs bs is = Inr vs"
proof (induction "is")
  case (Cons i js)
  then obtain vs where "readDrvs bs js = Inr vs" by auto
  with Cons.prems read_64_correct [of bs i] show ?case by auto
qed simp

text \<open>Parsing an account of the program gives the abstract feed; the price is read as unsigned.\<close>

lemma parse_feed:
  assumes "wfFeed bs"
  shows "\<exists>d. parsePriceData publicKey scale bs = Inr d \<and> exponent d = feed_expo (feedOf bs) \<and>
     twapComponent d = feed_twap (feedOf bs) \<and> twap d = scale (feed_twap (feedOf bs)) (feed_expo (feedOf bs)) \<and>
     priceComponent (aggregatePriceInfo d) = feed_price (feedOf bs) mod 2 ^ 64 \<and>
     price (aggregatePriceInfo d) = scale (feed_price (feedOf bs) mod 2 ^ 64) (feed_expo (feedOf bs)) \<and>
     priceComponents d = []"
proof -
  have bs: "length bs = 3312" "isBytes bs" "slice bs 240 272 = replicate 32 0"
    using assms by (simp_all add: wfFeed_def)
  obtain ds where ds: "readDrvs bs [64, 72, 80, 88, 96, 104] = Inr ds"
    using readDrvs_defined [OF bs(2), of "[64, 72, 80, 88, 96, 104]"] bs(1) by auto
  have big: "readBigUInt64LE bs i = Inr (le (slice bs i (i + 8)))"
    "readBigInt64LE bs i = Inr (toInt64 (le (slice bs i (i + 8))))" if "i + 8 \<le> 3312" for i
    using read_64_correct [OF bs(2), of i] bs(1) that by (simp_all add: toInt64_def)
  have comps: "parseComponents publicKey scale bs e 240 = Inr []" for e
    using bs by (subst parseComponents.simps) (simp add: PKorNull_def)
  let ?p = "le (slice bs 208 216)"
  have info: "length (slice bs 208 240) = 32" using bs(1) by (simp add: slice_def)
  have p: "le (slice (slice bs 208 240) 0 8) = ?p" by (simp add: slice_def)
  have "0 \<le> ?p" "?p < 2 ^ 64"
    using le_bounds [OF isBytes_slice [OF bs(2)], of 208 216] bs(1) by (simp_all add: slice_def)
  then have p64: "toInt64 ?p mod 2 ^ 64 = ?p" by (rule toInt64_mod_back)
  show ?thesis
    using bs(1) ds big [of 32] big [of 40] big [of 48] big [of 56] comps p info p64
    by (simp add: parsePriceData_def parsePriceInfo_def readUIntLE_def readInt32LE_def feedOf_def)
qed

lemma initialize_feed:
  assumes "wfFeed bs" "inI64 px" "- (2 ^ 31) \<le> e" "e < 2 ^ 31"
  shows "\<exists>bs'. pythInitialize px e bs = Inr bs' \<and> wfFeed bs' \<and>
     feedOf bs' = \<lparr>feed_expo = e, feed_twap = px, feed_price = px\<rparr>"
  using assms toInt32_mod [OF assms(3,4)] toInt64_mod [OF assms(2)]
  by (simp add: pythInitialize_def loadPrice_def priceSize_def wfFeed_def feedOf_def isBytes_writeAt
      slice_writeAt_same slice_writeAt_other le_8 le_4)

lemma set_price_feed:
  assumes "wfFeed bs" "inI64 px" "inI64 (feed_twap (feedOf bs) + px)"
  shows "\<exists>bs'. pythSetPrice px bs = Inr bs' \<and> wfFeed bs' \<and>
     feedOf bs' = (feedOf bs)\<lparr>feed_twap := (feed_twap (feedOf bs) + px) sdiv 2, feed_price := px\<rparr>"
proof -
  let ?sum = "toInt64 (le (slice bs 48 56)) + px"
  have sum: "inI64 ?sum" using assms(3) by (simp add: feedOf_def)
  have "\<bar>?sum\<bar> \<le> 2 ^ 63" using sum by (auto simp: inI64_def)
  then have "\<bar>?sum\<bar> sdiv 2 \<le> 2 ^ 63 sdiv 2" by (rule sdiv_mono) simp
  then have "\<bar>?sum sdiv 2\<bar> \<le> 2 ^ 63 div 2" by (simp add: abs_sdiv sdiv_nonneg_eq)
  then have half: "inI64 (?sum sdiv 2)" by (auto simp: inI64_def)
  show ?thesis
    using assms(1) sum toInt64_mod [OF assms(2)] toInt64_mod [OF half]
    by (simp add: pythSetPrice_def loadPrice_def priceSize_def wfFeed_def feedOf_def isBytes_writeAt
        slice_writeAt_same slice_writeAt_other le_8 Let_def)
qed

lemma set_price_overflow: "pythSetPrice px bs = Inr bs' \<Longrightarrow> inI64 (feed_twap (feedOf bs) + px)"
  by (auto simp: pythSetPrice_def feedOf_def loadPrice_def Let_def bn_simps split: if_splits)

lemma number_inI64: "bn_of_number x = Inr c \<Longrightarrow> inI64 c \<and> c = truncNumber x"
  using bn_of_number_bound [of x c] by (auto simp: inI64_def bn_of_number_trunc split: if_splits)

lemma wf_zeros: "wfFeed (replicate 3312 0)"
  by (simp add: wfFeed_def isBytes_def slice_def list_all_iff)

lemma pythRpc_cases:
  assumes "pythRpc net call feeds = (r, feeds')"
  obtains e where "r = Inl e" "feeds' = feeds" | "r = Inr ()" "runPyth call feeds = Inr feeds'"
  using assms by (auto simp: pythRpc_def split: option.splits sum.splits)

lemma set_price_failed:
  "setFeedPrice f net px k feeds = (Inl e, feeds') \<Longrightarrow> feeds' = feeds"
  by (auto simp: setFeedPrice_def accountData_def eff_simps split: sum.splits elim: pythRpc_cases)

lemma create_failed:
  "createPriceFeed f net k px c e feeds = (Inl err, feeds') \<Longrightarrow> feeds' = feeds"
  by (auto simp: createPriceFeed_def eff_simps split: option.splits sum.splits prod.splits elim: pythRpc_cases)

lemma create_done:
  assumes "wfFeeds feeds" "- (2 ^ 31) \<le> e" "e < 2 ^ 31"
    and "createPriceFeed f net k p c e feeds = (Inr key, feeds')"
  shows "key = k \<and> feeds k = None \<and> wfFeeds feeds' \<and>
     absFeeds feeds' = absAction f (CreateFeed k p c e) (absFeeds feeds)"
proof -
  from assms(4) obtain px conf lamports where
    px: "bn_of_number (round64 f (p * pow10 f (- e))) = Inr px" and key: "key = k"
    and run: "runPyth (PythInitialize k px e conf
       [SystemCreateAccount (pythWallet net) k lamports 3312 (pythProgramId net)]) feeds = Inr feeds'"
    by (auto simp: createPriceFeed_def eff_simps split: option.splits sum.splits prod.splits
        elim!: pythRpc_cases)
  note n = number_inI64 [OF px]
  obtain bs' where bs': "pythInitialize px e (replicate 3312 0) = Inr bs'" "wfFeed bs'"
    "feedOf bs' = \<lparr>feed_expo = e, feed_twap = px, feed_price = px\<rparr>"
    using initialize_feed [OF wf_zeros _ assms(2,3)] n by blast
  from run bs'(1) have "feeds k = None" "feeds' = feeds(k \<mapsto> bs')" by (auto split: if_splits)
  with bs' key n assms(1) show ?thesis
    by (auto simp: wfFeeds_def absFeeds_def feedUnits_def fun_eq_iff)
qed

lemma set_done:
  assumes "wfFeeds feeds" "setFeedPrice f net p k feeds = (Inr u, feeds')"
  shows "wfFeeds feeds' \<and> absFeeds feeds' = absAction f (SetFeed p k) (absFeeds feeds)"
proof -
  from assms(2) obtain bs d px where bs: "feeds k = Some bs"
    and d: "parsePriceData (keyOfBytes net) (scaleNumber f) bs = Inr d"
    and px: "bn_of_number (round64 f (p * pow10 f (- exponent d))) = Inr px"
    and run: "runPyth (PythSetPrice k px) feeds = Inr feeds'"
    by (auto simp: setFeedPrice_def accountData_def eff_simps bn_simps split: option.splits sum.splits
        elim!: pythRpc_cases)
  have wf: "wfFeed bs" using assms(1) bs by (auto simp: wfFeeds_def)
  have e: "exponent d = feed_expo (feedOf bs)"
    using parse_feed [OF wf, of "keyOfBytes net" "scaleNumber f"] d by auto
  note n = number_inI64 [OF px]
  from run bs obtain bs' where run': "pythSetPrice px bs = Inr bs'" and feeds': "feeds' = feeds(k \<mapsto> bs')"
    by (auto simp: bn_simps)
  with set_price_feed [OF wf _ set_price_overflow [OF run']] n bs e assms(1) show ?thesis
    by (auto simp: wfFeeds_def absFeeds_def feedUnits_def fun_eq_iff)
qed

lemma getFeedData_reads:
  assumes "wfFeeds feeds" "absFeeds feeds k = Some F" "infoFails net k = None"
  shows "\<exists>d. getFeedData f net k feeds = (Inr d, feeds) \<and> exponent d = feed_expo F \<and>
     twap d = scaleNumber f (feed_twap F) (feed_expo F) \<and>
     price (aggregatePriceInfo d) = scaleNumber f (feed_price F mod 2 ^ 64) (feed_expo F)"
proof -
  from assms(2) obtain bs where bs: "feeds k = Some bs" and F: "F = feedOf bs" by (auto simp: absFeeds_def)
  with assms(1) have "wfFeed bs" by (auto simp: wfFeeds_def)
  from parse_feed [OF this, of "keyOfBytes net" "scaleNumber f"] bs assms(3) show ?thesis
    by (auto simp: F getFeedData_def accountData_def eff_simps)
qed

subsection \<open>Properties\<close>


definition sample_floats :: Floats where
  "sample_floats = \<lparr>round64 = (\<lambda>x. x), pow10 = (\<lambda>e. if 0 \<le> e then 10 ^ nat e else 1 / 10 ^ nat (- e))\<rparr>"

definition sample_pyth :: PythNet where
  "sample_pyth = \<lparr>pythProgramId = ''Pyth'', pythWallet = ''payer'', rentFor = (\<lambda>n. Inr 23942400),
     refusal = (\<lambda>call. None), infoFails = (\<lambda>k. None), keyOfBytes = (\<lambda>b. ''key'')\<rparr>"

lemma sample_feed_created:
  "\<exists>feeds. feedAction sample_floats sample_pyth (CreateFeed ''sol'' 22 None (-6)) (\<lambda>_. None) = (Inr (), feeds)"
  by (simp add: createPriceFeed_def eff_simps pythRpc_def bn_of_number_trunc truncNumber_def sample_floats_def
      sample_pyth_def pythInitialize_def loadPrice_def priceSize_def)


end
