(* ===== verification/MockAccounts.thy ===== *)
theory MockAccounts
  imports MockPyth
begin

section \<open>Mock accounts: oracles, a collateral mint and token accounts\<close>

text \<open>
  \<open>stress/mockAccounts.ts\<close>. \<open>mockOracle\<close> creates a price feed and checks what it reads back. The
  other three functions build one transaction for the token program, sign it with the payer of
  the provider and the new account, and wait for it. The new key pairs are arguments; \<open>MockNet\<close>
  stands for the node and the sizes of the token library (\<open>MintLayout.span\<close>, \<open>AccountLayout.span\<close>).
\<close>

subsection \<open>Oracles\<close>

text \<open>The node may answer the two calls differently.\<close>

definition mockOracle ::
  "Floats \<Rightarrow> PythNet \<Rightarrow> PythNet \<Rightarrow> PublicKey \<Rightarrow> rat \<Rightarrow> int \<Rightarrow> (Feeds, PublicKey) eff" where
  "mockOracle f net net' fresh px expo =
     bindS (createPriceFeed f net fresh px None expo) (\<lambda>priceFeedAddress.
     bindS (getFeedData f net' priceFeedAddress) (\<lambda>feedData.
     if price (aggregatePriceInfo feedData) = px then returnS priceFeedAddress
     else throwS (Error ''AssertionError'')))"

text \<open>The default arguments: \<open>price = 50 * 10e7\<close> and \<open>expo = -7\<close>.\<close>

definition mockOracleDefault ::
  "Floats \<Rightarrow> PythNet \<Rightarrow> PythNet \<Rightarrow> PublicKey \<Rightarrow> (Feeds, PublicKey) eff" where
  "mockOracleDefault f net net' fresh = mockOracle f net net' fresh (50 * (10 * 10 ^ 7)) (-7)"

subsection \<open>Token transactions\<close>

datatype TokenInstruction =
    Standard TxInstruction
  | InitAccount PublicKey PublicKey PublicKey PublicKey
  | MintTo PublicKey PublicKey PublicKey PublicKey "PublicKey list" int

record MockTx =
  mock_ixs :: "TokenInstruction list"
  mock_signers :: "PublicKey list"

record MockNet =
  payer :: PublicKey
  mintSpan :: int
  accountSpan :: int
  rentForMint :: "int result"
  rentForAccount :: "int result"
  confirm :: "MockTx \<Rightarrow> string result"
  requestAirdrop :: "PublicKey \<Rightarrow> int \<Rightarrow> string result"

text \<open>What the scripts have handed to the node.\<close>

record TokenLog =
  sb_sent :: "MockTx list"
  sb_airdrops :: "(PublicKey \<times> int) list"

definition sendAndConfirmTransaction :: "MockNet \<Rightarrow> MockTx \<Rightarrow> (TokenLog, string) eff" where
  "sendAndConfirmTransaction net tx =
     bindS (modifyS (\<lambda>s. s\<lparr>sb_sent := sb_sent s @ [tx]\<rparr>)) (\<lambda>_. liftS (confirm net tx))"

definition mockUSDCMint :: "Solana \<Rightarrow> MockNet \<Rightarrow> PublicKey \<Rightarrow> (TokenLog, PublicKey) eff" where
  "mockUSDCMint sol net fakeUSDCMint =
     bindS (liftS (rentForMint net)) (\<lambda>lamports.
     let createUSDCMintAccountIx =
           SystemCreateAccount (payer net) fakeUSDCMint lamports (mintSpan net) (TOKEN_PROGRAM_ID sol);
         initCollateralMintIx = InitMint (TOKEN_PROGRAM_ID sol) fakeUSDCMint 6 (payer net) None
     in
     bindS (sendAndConfirmTransaction net
              \<lparr>mock_ixs = [Standard createUSDCMintAccountIx, Standard initCollateralMintIx],
               mock_signers = [payer net, fakeUSDCMint]\<rparr>) (\<lambda>_.
     returnS fakeUSDCMint))"

text \<open>\<open>owner\<close> is optional; the amount is converted to a number while the transaction is built.\<close>

definition mockUserUSDCAccount ::
  "Solana \<Rightarrow> MockNet \<Rightarrow> PublicKey \<Rightarrow> PublicKey \<Rightarrow> BN \<Rightarrow> PublicKey option \<Rightarrow> (TokenLog, PublicKey) eff" where
  "mockUserUSDCAccount sol net userUSDCAccount fakeUSDCMint usdcMintAmount owner0 =
     (let owner = (case owner0 of None \<Rightarrow> payer net | Some k \<Rightarrow> k) in
      bindS (liftS (rentForAccount net)) (\<lambda>lamports.
      let createUSDCTokenAccountIx =
            SystemCreateAccount (payer net) userUSDCAccount lamports (accountSpan net) (TOKEN_PROGRAM_ID sol);
          initUSDCTokenAccountIx = InitAccount (TOKEN_PROGRAM_ID sol) fakeUSDCMint userUSDCAccount owner
      in
      bindS (liftS (bn_toNumber usdcMintAmount)) (\<lambda>amount.
      bindS (sendAndConfirmTransaction net
               \<lparr>mock_ixs = [Standard createUSDCTokenAccountIx, initUSDCTokenAccountIx,
                   MintTo (TOKEN_PROGRAM_ID sol) fakeUSDCMint userUSDCAccount (payer net) [] amount],
                mock_signers = [payer net, userUSDCAccount]\<rparr>) (\<lambda>_.
      returnS userUSDCAccount))))"

definition mintToInsuranceFund ::
  "Solana \<Rightarrow> MockNet \<Rightarrow> PublicKey \<Rightarrow> PublicKey \<Rightarrow> BN \<Rightarrow> (TokenLog, unit) eff" where
  "mintToInsuranceFund sol net chInsuranceAccount fakeUSDCMint amount0 =
     bindS (liftS (bn_toNumber amount0)) (\<lambda>amount.
     bindS (sendAndConfirmTransaction net
              \<lparr>mock_ixs = [MintTo (TOKEN_PROGRAM_ID sol) fakeUSDCMint chInsuranceAccount (payer net) [] amount],
               mock_signers = [payer net]\<rparr>) (\<lambda>_. returnS ()))"

subsection \<open>Properties\<close>

text \<open>
  An oracle that \<open>mockOracle\<close> returns is new, holds the price in its units with the given exponent,
  and reads back as exactly the price that was asked for; the other feeds are as before.
\<close>

theorem mock_oracle_holds_price:
  assumes "wfFeeds feeds" "- (2 ^ 31) \<le> e" "e < 2 ^ 31"
    and "mockOracle f net net' fresh px e feeds = (Inr k, feeds')"
  shows "k = fresh \<and> feeds fresh = None \<and> wfFeeds feeds' \<and>
     absFeeds feeds' = absAction f (CreateFeed fresh px None e) (absFeeds feeds) \<and>
     scaleNumber f (feedUnits f px e mod 2 ^ 64) e = px"
proof -
  from assms(4) obtain fs d where create: "createPriceFeed f net fresh px None e feeds = (Inr k, fs)"
    and get: "getFeedData f net' k fs = (Inr d, feeds')" and px: "price (aggregatePriceInfo d) = px"
    by (auto simp: mockOracle_def eff_simps split: prod.splits sum.splits if_splits)
  note made = create_done [OF assms(1-3) create]
  from get have "infoFails net' k = None" "feeds' = fs"
    by (auto simp: getFeedData_def accountData_def eff_simps bn_simps split: option.splits sum.splits)
  with made getFeedData_reads [of fs k _ net' f] get px show ?thesis by auto
qed

text \<open>
  Without arguments \<open>mockOracle\<close> never returns: \<open>50 * 10e7\<close> is \<open>5 * 10 ^ 9\<close>, which \<open>createPriceFeed\<close>
  multiplies by \<open>10 ** 7\<close> again, and \<open>5 * 10 ^ 16\<close> is not a safe integer. (The comment means a coin
  of 50 dollars.) All that is used of floating point numbers is that these powers of ten and the
  product, which are doubles, are computed exactly.
\<close>

theorem default_oracle_throws:
  assumes "pow10 f 7 = 10 ^ 7" "round64 f (5 * 10 ^ 16) = 5 * 10 ^ 16"
  shows "mockOracleDefault f net net' fresh feeds = (Inl BnAssertion, feeds)"
proof -
  have big: "bn_of_number (round64 f (50 * (10 * 10 ^ 7) * pow10 f (- (- 7)))) = Inl BnAssertion"
    using assms by (simp add: bn_of_number_trunc)
  show ?thesis
    unfolding mockOracleDefault_def mockOracle_def createPriceFeed_def
    by (cases "bn_of_number (round64 f (round64 f (50 * (10 * 10 ^ 7) / 10) * pow10 f (- (- 7))))")
      (use big in \<open>auto simp: eff_simps bn_of_number_trunc split: if_splits\<close>)
qed

text \<open>Every transaction of the three token functions carries the signatures its instructions need.\<close>

fun tokenSigners :: "(PublicKey \<Rightarrow> Idl) \<Rightarrow> PublicKey \<Rightarrow> TokenInstruction \<Rightarrow> PublicKey list" where
  "tokenSigners idlOf payer0 (Standard ix) = instructionSigners idlOf payer0 ix"
| "tokenSigners idlOf payer0 (InitAccount prog mint acct owner) = []"
| "tokenSigners idlOf payer0 (MintTo prog mint dest auth multi amount) = [auth]"

definition tokenTxSigned :: "(PublicKey \<Rightarrow> Idl) \<Rightarrow> PublicKey \<Rightarrow> MockTx \<Rightarrow> bool" where
  "tokenTxSigned idlOf payer0 tx =
     list_all (\<lambda>ix. list_all (\<lambda>k. k \<in> set (mock_signers tx)) (tokenSigners idlOf payer0 ix)) (mock_ixs tx)"

lemma send_keeps:
  "tokenTxSigned idlOf p tx \<Longrightarrow>
     keeps (\<lambda>s. list_all (tokenTxSigned idlOf p) (sb_sent s)) (sendAndConfirmTransaction net tx) (\<lambda>_. True)"
  unfolding sendAndConfirmTransaction_def by (auto intro!: keeps_rules)

lemma mock_transactions_signed:
  "keeps (\<lambda>s. list_all (tokenTxSigned idlOf (payer net)) (sb_sent s)) (mockUSDCMint sol net m) (\<lambda>_. True)"
  "keeps (\<lambda>s. list_all (tokenTxSigned idlOf (payer net)) (sb_sent s))
     (mockUserUSDCAccount sol net u m amt owner) (\<lambda>_. True)"
  "keeps (\<lambda>s. list_all (tokenTxSigned idlOf (payer net)) (sb_sent s))
     (mintToInsuranceFund sol net v m amt) (\<lambda>_. True)"
  unfolding mockUSDCMint_def mockUserUSDCAccount_def mintToInsuranceFund_def Let_def
  by (auto intro!: keeps_rules keeps_bind [OF send_keeps] simp: tokenTxSigned_def)

end
