(* ===== verification/StressCsv.thy ===== *)
theory StressCsv
  imports Effects
begin

section \<open>The event timelines of the stress test as comma separated values\<close>

text \<open>
  \<open>readStressCSV\<close> and \<open>writeStressCSV\<close> of \<open>stress/stressUtils.ts\<close>. A row is an object, listed with the
  text of each of its values in the order of its keys (none of which is an array index). The disk
  is a map from names to contents; what the operating system refuses is an argument. The parser
  \<open>csvtojson\<close> is a parameter: on plain text it splits lines and fields and keys each field by the
  header, \<open>csvDocumented\<close>.
\<close>

type_synonym Row = "(string \<times> string) list"

record Disk =
  outputDir :: bool
  contents :: "string \<Rightarrow> string option"

record Os =
  mkdirFails :: "js_error option"
  writeFails :: "string \<Rightarrow> js_error option"

definition newline :: char where
  "newline = CHR 0x0A"

subsection \<open>Join and split\<close>

text \<open>\<open>Array.prototype.join\<close> and \<open>String.prototype.split\<close> with a separator of one character.\<close>

fun joinWith :: "'a \<Rightarrow> 'a list list \<Rightarrow> 'a list" where
  "joinWith s [] = []"
| "joinWith s [xs] = xs"
| "joinWith s (xs # ys # zss) = xs @ s # joinWith s (ys # zss)"

fun splitOn :: "'a \<Rightarrow> 'a list \<Rightarrow> 'a list list" where
  "splitOn s [] = [[]]"
| "splitOn s (x # xs) =
     (if x = s then [] # splitOn s xs else (x # hd (splitOn s xs)) # tl (splitOn s xs))"

lemma splitOn_not_Nil [simp]: "splitOn s xs \<noteq> []"
  by (induction xs) auto

lemma splitOn_append: "s \<notin> set xs \<Longrightarrow> splitOn s (xs @ s # ys) = xs # splitOn s ys"
  by (induction xs) auto

lemma splitOn_word: "s \<notin> set xs \<Longrightarrow> splitOn s xs = [xs]"
  by (induction xs) auto

lemma splitOn_join:
  "xss \<noteq> [] \<Longrightarrow> \<forall>xs \<in> set xss. s \<notin> set xs \<Longrightarrow> splitOn s (joinWith s xss) = xss"
  by (induction s xss rule: joinWith.induct) (auto simp: splitOn_append splitOn_word)

lemma join_split: "joinWith s (splitOn s xs) = xs"
proof (induction xs)
  case (Cons x xs)
  obtain y ys where "splitOn s xs = y # ys" by (cases "splitOn s xs") auto
  with Cons show ?case by (cases ys) auto
qed simp

lemma set_joinWith: "xss \<noteq> [] \<Longrightarrow> set (joinWith s xss) \<subseteq> insert s (\<Union> (set ` set xss))"
  by (induction s xss rule: joinWith.induct) auto

subsection \<open>Writing and reading\<close>

text \<open>The content is built before the \<open>try\<close>: a timeline with no event has no keys to write.\<close>

definition csvContent :: "Row list \<Rightarrow> string result" where
  "csvContent timeline =
     mapE (\<lambda>e. joinWith (CHR '','') (map fst e) @ [newline] @
               joinWith newline (map (\<lambda>e. joinWith (CHR '','') (map snd e)) timeline))
       (deref (js_index timeline 0))"

text \<open>What the file system refuses is caught and logged.\<close>

definition writeStressCSV :: "Os \<Rightarrow> Row list \<Rightarrow> string \<Rightarrow> (Disk, unit) eff" where
  "writeStressCSV os timeline output_ff =
     bindS (liftS (csvContent timeline)) (\<lambda>content.
     \<lambda>d. (Inr (),
       if outputDir d \<or> mkdirFails os = None then
         let d1 = d\<lparr>outputDir := True\<rparr> in
         (case writeFails os output_ff of
            Some e \<Rightarrow> d1
          | None \<Rightarrow> d1\<lparr>contents := (contents d1)(output_ff \<mapsto> content)\<rparr>)
       else d))"

definition readStressCSV :: "(string \<Rightarrow> Row list result) \<Rightarrow> string \<Rightarrow> (Disk, Row list) eff" where
  "readStressCSV csv ff =
     readS (\<lambda>d. case contents d ff of None \<Rightarrow> Inr [] | Some text \<Rightarrow> csv text)"

subsection \<open>What the parser promises\<close>

definition csvReference :: "string \<Rightarrow> Row list" where
  "csvReference text =
     (case map (splitOn (CHR '','')) (splitOn newline text) of
        [] \<Rightarrow> []
      | header # rows \<Rightarrow> map (zip header) rows)"

text \<open>
  Plain text: fields of letters, digits, underscores and minus signs (nothing to trim, no quotes, no
  nested keys), none of them empty, as many in each line as in the header, whose names are distinct.
\<close>

definition plainChar :: "char \<Rightarrow> bool" where
  "plainChar c \<longleftrightarrow> (let n = of_char c :: nat in
     48 \<le> n \<and> n \<le> 57 \<or> 65 \<le> n \<and> n \<le> 90 \<or> 97 \<le> n \<and> n \<le> 122 \<or> n = 95 \<or> n = 45)"

definition plainField :: "string \<Rightarrow> bool" where
  "plainField s \<longleftrightarrow> s \<noteq> [] \<and> list_all plainChar s"

definition plainCsv :: "string \<Rightarrow> bool" where
  "plainCsv text \<longleftrightarrow> (let ls = map (splitOn (CHR '','')) (splitOn newline text) in
     distinct (hd ls) \<and>
     list_all (\<lambda>l. length l = length (hd ls) \<and> list_all plainField l) ls)"

definition csvDocumented :: "(string \<Rightarrow> Row list result) \<Rightarrow> bool" where
  "csvDocumented csv \<longleftrightarrow> (\<forall>text. plainCsv text \<longrightarrow> csv text = Inr (csvReference text))"

text \<open>A row that is written as plain text under a header.\<close>

definition plainRow :: "string list \<Rightarrow> Row \<Rightarrow> bool" where
  "plainRow header r \<longleftrightarrow> map fst r = header \<and> list_all plainField (map snd r)"

lemma plain_no_separator: "plainField s \<Longrightarrow> CHR '','' \<notin> set s \<and> newline \<notin> set s"
  by (auto simp: plainField_def list_all_iff plainChar_def newline_def Let_def)

lemma join_plain:
  assumes "xs \<noteq> []" "list_all plainField xs"
  shows "splitOn (CHR '','') (joinWith (CHR '','') xs) = xs" "newline \<notin> set (joinWith (CHR '','') xs)"
proof -
  have sep: "\<forall>x \<in> set xs. CHR '','' \<notin> set x \<and> newline \<notin> set x"
    using assms(2) plain_no_separator by (auto simp: list_all_iff)
  then show "splitOn (CHR '','') (joinWith (CHR '','') xs) = xs" by (intro splitOn_join assms(1)) auto
  show "newline \<notin> set (joinWith (CHR '','') xs)"
    using sep set_joinWith [OF assms(1), of "CHR '',''"] by (auto simp: newline_def)
qed

text \<open>The lines of the content, split again.\<close>

lemma content_lines:
  assumes "rows \<noteq> []" "header \<noteq> []" "list_all plainField header" "list_all (plainRow header) rows"
    and "csvContent rows = Inr content"
  shows "map (splitOn (CHR '','')) (splitOn newline content) = header # map (map snd) rows"
proof -
  have hd: "map fst (hd rows) = header"
    using assms(1,4) by (cases rows) (auto simp: plainRow_def)
  let ?line = "\<lambda>e :: Row. joinWith (CHR '','') (map snd e)"
  have row: "map snd r \<noteq> [] \<and> list_all plainField (map snd r)" if "r \<in> set rows" for r
    using assms(2,4) that by (auto simp: plainRow_def list_all_iff)
  have content: "content = joinWith (CHR '','') header @ newline # joinWith newline (map ?line rows)"
    using assms(1,5) hd by (cases rows) (auto simp: csvContent_def js_index_def)
  have "splitOn newline content = joinWith (CHR '','') header # map ?line rows"
    unfolding content
    using join_plain(2) [OF assms(2,3)] join_plain(2) row assms(1)
    by (subst splitOn_append) (auto intro!: splitOn_join)
  then show ?thesis
    using join_plain(1) [OF assms(2,3)] join_plain(1) row by auto
qed

subsection \<open>Properties\<close>

text \<open>
  A timeline that was written is read back. For rows of plain fields with the same distinct
  keys, whatever the disk held before, writing succeeds and reading the file returns the rows, in
  order and with their keys. A timeline with no row is never written: the call throws.
\<close>

theorem csv_roundtrip:
  assumes "csvDocumented csv" "rows \<noteq> []" "header \<noteq> []" "distinct header"
    and "list_all plainField header" "list_all (plainRow header) rows"
    and "mkdirFails os = None" "writeFails os ff = None"
  shows "(\<exists>d'. writeStressCSV os rows ff d = (Inr (), d') \<and> readStressCSV csv ff d' = (Inr rows, d')) \<and>
         writeStressCSV os [] ff d = (Inl TypeError, d)"
proof -
  obtain content where c: "csvContent rows = Inr content"
    using assms(2) by (auto simp: csvContent_def js_index_def)
  note ls = content_lines [OF assms(2,3,5,6) c]
  have "\<forall>r \<in> set rows. length r = length header"
    using assms(6) by (auto simp: plainRow_def list_all_iff)
  then have "plainCsv content"
    using assms(4-6) unfolding plainCsv_def Let_def ls by (auto simp: plainRow_def list_all_iff)
  moreover have "map (zip header) (map (map snd) rows) = rows"
    using assms(6) by (auto simp: plainRow_def list_all_iff zip_map_fst_snd intro!: map_idI)
  ultimately have "csv content = Inr rows"
    using assms(1) ls by (simp add: csvDocumented_def csvReference_def)
  then show ?thesis
    using assms(7,8) c
    by (simp add: writeStressCSV_def readStressCSV_def eff_simps Let_def csvContent_def js_index_def)
qed

definition sample_rows :: "Row list" where
  "sample_rows =
     [[(''user_i'', ''0''), (''event'', ''buy''), (''amt'', ''500''), (''market_i'', ''1''), (''succeeded'', ''true'')],
      [(''user_i'', ''1''), (''event'', ''close''), (''amt'', ''0''), (''market_i'', ''0''), (''succeeded'', ''false'')]]"

definition sample_disk :: Disk where
  "sample_disk = \<lparr>outputDir = False, contents = (\<lambda>_. None)\<rparr>"

definition sample_os :: Os where
  "sample_os = \<lparr>mkdirFails = None, writeFails = (\<lambda>_. None)\<rparr>"

theorem csv_roundtrip_witness:
  "\<exists>d. writeStressCSV sample_os sample_rows ''output/a.csv'' sample_disk = (Inr (), d) \<and>
     readStressCSV (\<lambda>text. Inr (csvReference text)) ''output/a.csv'' d = (Inr sample_rows, d)"
proof -
  have plain: "list_all plainField [''user_i'', ''event'', ''amt'', ''market_i'', ''succeeded'']"
    "list_all (plainRow [''user_i'', ''event'', ''amt'', ''market_i'', ''succeeded'']) sample_rows"
    "sample_rows \<noteq> []" by code_simp+
  have "csvDocumented (\<lambda>text. Inr (csvReference text))" by (simp add: csvDocumented_def)
  from csv_roundtrip [OF this plain(3) _ _ plain(1,2), of sample_os "''output/a.csv''" sample_disk]
  show ?thesis by (simp add: sample_os_def)
qed

end
