(* ===== verification/StressEvents.thy ===== *)
theory StressEvents
  imports ClientCalls StressCsv Vaults
begin

section \<open>The events of the stress test\<close>

text \<open>
  \<open>simEvent\<close> of \<open>stress/stressUtils.ts\<close> plays one event with a client and records it;
  \<open>getEventParams\<close> of \<open>stress/stress.ts\<close> takes the parameters of an event from a recorded timeline.
  The index of a user is kept as text: indexing and printing use nothing else of it, and it is a
  text when it comes from a file. \<open>isAdmin\<close> says whether the client object is an \<open>Admin\<close>, whose
  class alone has \<open>moveAmmToPrice\<close> and \<open>repegAmmCurve\<close>.
\<close>

subsection \<open>Playing an event\<close>

record StressEvent =
  ev_user :: "string option"
  ev_kind :: "string option"
  ev_amt :: int
  ev_market :: int
  ev_succeeded :: bool

definition ignoreResult :: "('s, 'a) eff \<Rightarrow> ('s, unit) eff" where
  "ignoreResult m = bindS m (\<lambda>_. returnS ())"

text \<open>The \<open>switch\<close>: kinds without a case do nothing.\<close>

definition simSwitch ::
  "Solana \<Rightarrow> Rpc \<Rightarrow> bool \<Rightarrow> PublicKey \<Rightarrow> PublicKey \<Rightarrow> BN \<Rightarrow> string option \<Rightarrow> BN \<Rightarrow> (Client, unit) eff" where
  "simSwitch sol rpc isAdmin user_e userUSDCAccount market_i rand_e rand_amt =
     (if rand_e = Some ''noop'' then returnS ()
      else if rand_e = Some ''deposit'' then
        ignoreResult (depositCollateral sol rpc rand_amt userUSDCAccount None)
      else if rand_e = Some ''withdraw'' then
        ignoreResult (withdrawCollateral sol rpc rand_amt userUSDCAccount)
      else if rand_e = Some ''buy'' then
        ignoreResult (openPosition sol rpc LONG rand_amt market_i None None None)
      else if rand_e = Some ''sell'' then
        ignoreResult (openPosition sol rpc SHORT rand_amt market_i None None None)
      else if rand_e = Some ''move'' then
        if isAdmin then ignoreResult (moveAmmToPrice sol rpc market_i rand_amt) else throwS TypeError
      else if rand_e = Some ''repeg'' then
        if isAdmin then ignoreResult (repegAmmCurve sol rpc 0 market_i) else throwS TypeError
      else if rand_e = Some ''close'' then ignoreResult (closePosition sol rpc market_i None None)
      else if rand_e = Some ''liquidate'' then ignoreResult (liquidate sol rpc user_e)
      else returnS ())"

text \<open>The object that is recorded, after the \<open>try\<close>: its conversions may throw.\<close>

definition recordEvent ::
  "string option \<Rightarrow> BN \<Rightarrow> string option \<Rightarrow> BN \<Rightarrow> bool \<Rightarrow> StressEvent result" where
  "recordEvent user_i market_i rand_e rand_amt succeeded =
     bindE (bn_toNumber rand_amt) (\<lambda>amt.
     bindE (bn_toNumber market_i) (\<lambda>market.
     Inr \<lparr>ev_user = user_i, ev_kind = rand_e, ev_amt = amt, ev_market = market, ev_succeeded = succeeded\<rparr>))"

definition simEvent ::
  "Solana \<Rightarrow> Rpc \<Rightarrow> bool \<Rightarrow> string option \<Rightarrow> PublicKey \<Rightarrow> PublicKey \<Rightarrow> BN \<Rightarrow> string option \<Rightarrow> BN \<Rightarrow>
     (Client, StressEvent) eff" where
  "simEvent sol rpc isAdmin user_i user_e userUSDCAccount market_i rand_e rand_amt = (\<lambda>c.
     case simSwitch sol rpc isAdmin user_e userUSDCAccount market_i rand_e rand_amt c of
       (r, c') \<Rightarrow> (recordEvent user_i market_i rand_e rand_amt (case r of Inl e \<Rightarrow> False | Inr u \<Rightarrow> True), c'))"

subsection \<open>Replaying a timeline\<close>

text \<open>The row of an event; \<open>JSON.stringify\<close> leaves out what is undefined.\<close>

definition eventRow :: "StressEvent \<Rightarrow> Row" where
  "eventRow ev =
     (case ev_user ev of None \<Rightarrow> [] | Some u \<Rightarrow> [(''user_i'', u)]) @
     (case ev_kind ev of None \<Rightarrow> [] | Some k \<Rightarrow> [(''event'', k)]) @
     [(''amt'', bn_toString (ev_amt ev)), (''market_i'', bn_toString (ev_market ev)),
      (''succeeded'', if ev_succeeded ev then ''true'' else ''false'')]"

text \<open>
  The branch of \<open>getEventParams\<close> for a timeline from a file. The values of a row are texts, and
  \<open>market_i + marketOffset\<close> appends the digits of the number to the text; \<open>undefined\<close> plus a number is
  not a number, which \<open>BN\<close> refuses, and \<open>new BN(undefined)\<close> is zero. \<open>newBN\<close> is \<open>new BN\<close> of a text.
\<close>

definition replayParams ::
  "(string \<Rightarrow> BN result) \<Rightarrow> int \<Rightarrow> Row \<Rightarrow> (string option \<times> BN \<times> string option \<times> BN) result" where
  "replayParams newBN marketOffset row =
     (let vals = map snd row in
      bindE (case js_index vals 3 of
               None \<Rightarrow> Inl BnAssertion
             | Some t \<Rightarrow> newBN (t @ bn_toString marketOffset)) (\<lambda>market_i.
      bindE (bn_toNumber marketOffset) (\<lambda>offset.
      bindE (assert (market_i \<ge> offset) None) (\<lambda>_.
      bindE (case js_index vals 2 of None \<Rightarrow> Inr 0 | Some t \<Rightarrow> newBN t) (\<lambda>rand_amt.
      Inr (js_index vals 0, market_i, js_index vals 1, rand_amt))))))"

text \<open>What \<open>new BN\<close> does with decimal digits, with or without a sign.\<close>

definition digitChar :: "char \<Rightarrow> bool" where
  "digitChar c \<longleftrightarrow> (let n = of_char c :: nat in 48 \<le> n \<and> n \<le> 57)"

definition newBNDocumented :: "(string \<Rightarrow> BN result) \<Rightarrow> bool" where
  "newBNDocumented newBN \<longleftrightarrow>
     (\<forall>t. t \<noteq> [] \<and> list_all digitChar t \<longrightarrow>
        newBN t = Inr (bn_of_string t) \<and> newBN (''-'' @ t) = Inr (- bn_of_string t))"

subsection \<open>Digits\<close>

lemma bn_of_string_append:
  "bn_of_string (s @ t) = bn_of_string s * 10 ^ length t + bn_of_string t"
proof (induction t rule: rev_induct)
  case (snoc c t)
  have "bn_of_string (s @ t @ [c]) = 10 * bn_of_string (s @ t) + (int (of_char c) - 48)"
    using bn_of_string_snoc [of "s @ t" c] by simp
  with snoc show ?case by (simp add: bn_of_string_snoc algebra_simps)
qed (simp add: bn_of_string_def)

lemma digit_char: "(n :: nat) < 10 \<Longrightarrow> digitChar (char_of (48 + n))"
  by (simp add: digitChar_def of_char_of Let_def)

lemma nat_toString_digits: "nat_toString n \<noteq> [] \<and> list_all digitChar (nat_toString n)"
proof (induction n rule: nat_toString.induct)
  case (1 n)
  then show ?case
    by (subst (1 2) nat_toString.simps) (auto simp: digit_char)
qed

lemma digits_plain: "t \<noteq> [] \<and> list_all digitChar t \<Longrightarrow> plainField t \<and> plainField (''-'' @ t)"
  by (auto simp: plainField_def list_all_iff digitChar_def plainChar_def Let_def)

lemma bn_toString_plain: "plainField (bn_toString a)"
  using digits_plain [OF nat_toString_digits] by (auto simp: bn_toString_def)

lemma newBN_toString: "newBNDocumented newBN \<Longrightarrow> newBN (bn_toString a) = Inr a"
  using nat_toString_digits [of "nat a"] nat_toString_digits [of "nat (- a)"]
  by (auto simp: newBNDocumented_def bn_toString_def bn_of_string_toString)

lemma newBN_append:
  assumes "newBNDocumented newBN"
  shows "newBN (nat_toString m @ nat_toString k) = Inr (int m * 10 ^ length (nat_toString k) + int k)"
proof -
  have "nat_toString m @ nat_toString k \<noteq> [] \<and> list_all digitChar (nat_toString m @ nat_toString k)"
    using nat_toString_digits [of m] nat_toString_digits [of k] by simp
  then have "newBN (nat_toString m @ nat_toString k) = Inr (bn_of_string (nat_toString m @ nat_toString k))"
    using assms by (auto simp: newBNDocumented_def simp del: append_is_Nil_conv)
  then show ?thesis by (simp add: bn_of_string_append bn_of_string_toString)
qed

subsection \<open>Events are calls of the client\<close>

text \<open>The call of the SDK that an event stands for, if it makes one.\<close>

definition eventCall ::
  "bool \<Rightarrow> PublicKey \<Rightarrow> PublicKey \<Rightarrow> BN \<Rightarrow> string option \<Rightarrow> BN \<Rightarrow> ClientCall option" where
  "eventCall isAdmin user_e usdc mi kind amt =
     (if kind = Some ''deposit'' then Some (ByUser (DepositCollateral amt usdc None))
      else if kind = Some ''withdraw'' then Some (ByUser (WithdrawCollateral amt usdc))
      else if kind = Some ''buy'' then Some (ByUser (OpenPosition LONG amt mi None None None))
      else if kind = Some ''sell'' then Some (ByUser (OpenPosition SHORT amt mi None None None))
      else if kind = Some ''close'' then Some (ByUser (ClosePosition mi None None))
      else if kind = Some ''liquidate'' then Some (ByUser (Liquidate user_e))
      else if kind = Some ''move'' \<and> isAdmin then Some (ByAdmin (MoveAmmToPrice mi amt))
      else if kind = Some ''repeg'' \<and> isAdmin then Some (ByAdmin (RepegAmmCurve 0 mi))
      else None)"

lemma snd_ignoreResult [simp]: "snd (ignoreResult m c) = snd (m c)"
  by (simp add: ignoreResult_def bindS_def returnS_def split: prod.split sum.split)

lemma simSwitch_client:
  "snd (simSwitch sol rpc isAdmin user_e usdc mi kind amt c) =
     (case eventCall isAdmin user_e usdc mi kind amt of None \<Rightarrow> c | Some x \<Rightarrow> runCall sol rpc x c)"
  by (simp add: simSwitch_def eventCall_def eff_simps)

lemma simSwitch_idle:
  "eventCall isAdmin user_e usdc mi kind amt = None \<Longrightarrow>
     fst (simSwitch sol rpc isAdmin user_e usdc mi kind amt c) =
       (if kind = Some ''move'' \<or> kind = Some ''repeg'' then Inl TypeError else Inr ())"
  by (auto simp: simSwitch_def eventCall_def eff_simps split: if_splits)

lemma eventCall_sound: "eventCall isAdmin user_e usdc mi kind amt = Some x \<Longrightarrow> soundCall sol c x"
  by (auto simp: eventCall_def soundCall_def split: if_splits)

lemma recordEvent_cases:
  "recordEvent u mi k amt ok = (if \<bar>amt\<bar> < 2 ^ 53 \<and> \<bar>mi\<bar> < 2 ^ 53
     then Inr \<lparr>ev_user = u, ev_kind = k, ev_amt = amt, ev_market = mi, ev_succeeded = ok\<rparr>
     else Inl BnAssertion)"
  by (simp add: recordEvent_def bn_toNumber_def)

subsection \<open>Rows of events\<close>

definition eventHeader :: "string list" where
  "eventHeader = [''user_i'', ''event'', ''amt'', ''market_i'', ''succeeded'']"

text \<open>An event of a run: of a user with an index, of a kind with a plain name, on a market.\<close>

definition playedEvent :: "StressEvent \<Rightarrow> bool" where
  "playedEvent ev \<longleftrightarrow>
     (\<exists>u k m. ev_user ev = Some (nat_toString u) \<and> ev_kind ev = Some k \<and> plainField k \<and> ev_market ev = int m)"

lemma playedEvent_plain: "playedEvent ev \<Longrightarrow> plainRow eventHeader (eventRow ev)"
  using bn_toString_plain digits_plain [OF nat_toString_digits]
  by (auto simp: playedEvent_def eventRow_def plainRow_def eventHeader_def plainField_def plainChar_def)

lemma replay_row:
  assumes "newBNDocumented newBN" "ev_user ev = Some u" "ev_kind ev = Some k" "ev_market ev = int m"
    and "int offset < 2 ^ 53"
  shows "replayParams newBN (int offset) (eventRow ev) =
     Inr (Some u, int m * 10 ^ length (nat_toString offset) + int offset, Some k, ev_amt ev)"
proof -
  have "bn_toNumber (int offset) = Inr (int offset)" using assms(5) by (simp add: bn_toNumber_def)
  moreover have "bn_toString (int m) @ bn_toString (int offset) = nat_toString m @ nat_toString offset"
    by (simp add: bn_toString_def)
  ultimately show ?thesis
    using assms newBN_append [OF assms(1), of m offset] newBN_toString [OF assms(1)]
    by (simp add: replayParams_def eventRow_def js_index_def Let_def)
qed

lemma eventHeader_plain: "distinct eventHeader" "list_all plainField eventHeader" "eventHeader \<noteq> []"
  by code_simp+

subsection \<open>Properties\<close>

text \<open>
  C31: an event of the stress test is one call of the SDK, or none. Playing it never throws for a
  failed call, only for an amount or a market index that is no safe integer; the client
  afterwards is the one after the call it stands for, so that it stays reachable and every
  theorem on its transactions applies; and the record keeps the parameters. Where no call is
  made the client is unchanged: an event to move or to repeg a curve, played with a client that is
  no administrator's, always counts as failed, and every other kind, \<open>update_funding\<close> among them, as
  succeeded.
\<close>

theorem events_run_calls:
  assumes "simEvent sol rpc isAdmin user_i user_e usdc mi kind amt c = (r, c')"
  shows "c' = (case eventCall isAdmin user_e usdc mi kind amt of None \<Rightarrow> c | Some x \<Rightarrow> runCall sol rpc x c) \<and>
     (reachable_client sol c \<longrightarrow> reachable_client sol c') \<and>
     (case r of
        Inl e \<Rightarrow> e = BnAssertion \<and> \<not> (\<bar>amt\<bar> < 2 ^ 53 \<and> \<bar>mi\<bar> < 2 ^ 53)
      | Inr ev \<Rightarrow> ev_user ev = user_i \<and> ev_kind ev = kind \<and> ev_amt ev = amt \<and> ev_market ev = mi \<and>
          (eventCall isAdmin user_e usdc mi kind amt = None \<longrightarrow>
             ev_succeeded ev = (kind \<noteq> Some ''move'' \<and> kind \<noteq> Some ''repeg'')))"
proof -
  let ?switch = "simSwitch sol rpc isAdmin user_e usdc mi kind amt c"
  have c': "c' = snd ?switch"
    and r: "r = recordEvent user_i mi kind amt (case fst ?switch of Inl e \<Rightarrow> False | Inr u \<Rightarrow> True)"
    using assms by (simp_all add: simEvent_def case_prod_beta)
  have "reachable_client sol c'" if "reachable_client sol c"
    using that eventCall_sound reachable_client.call
    by (auto simp: c' simSwitch_client split: option.split)
  moreover have "case r of
        Inl e \<Rightarrow> e = BnAssertion \<and> \<not> (\<bar>amt\<bar> < 2 ^ 53 \<and> \<bar>mi\<bar> < 2 ^ 53)
      | Inr ev \<Rightarrow> ev_user ev = user_i \<and> ev_kind ev = kind \<and> ev_amt ev = amt \<and> ev_market ev = mi \<and>
          (eventCall isAdmin user_e usdc mi kind amt = None \<longrightarrow>
             ev_succeeded ev = (kind \<noteq> Some ''move'' \<and> kind \<noteq> Some ''repeg''))"
    using simSwitch_idle [of isAdmin user_e usdc mi kind amt sol rpc c]
    by (auto simp: r recordEvent_cases)
  ultimately show ?thesis using c' simSwitch_client by simp
qed

theorem events_run_calls_witness:
  "\<exists>ev. simEvent sample_solana (sample_rpc sample_user) False (Some ''0'') ''user'' ''usdc'' 0
          (Some ''repeg'') 7 sample_client = (Inr ev, sample_client) \<and> \<not> ev_succeeded ev"
proof -
  obtain r c' where run: "simEvent sample_solana (sample_rpc sample_user) False (Some ''0'') ''user'' ''usdc'' 0
      (Some ''repeg'') 7 sample_client = (r, c')" by fastforce
  from events_run_calls [OF run] show ?thesis
    using run by (cases r) (auto simp: eventCall_def)
qed

text \<open>
  C29: what a replayed timeline plays. The events of a run, written to a file and read again, give
  back the user, the kind and the amount of every event in order; but the market \<open>m\<close> becomes the
  market whose index is the digits of \<open>m\<close> followed by those of the offset, since the offset is added
  to a text. With the offset 0 market \<open>m\<close> is replayed as market \<open>10 m\<close>; only market 0 comes back as
  itself.
\<close>

theorem replay_shifts_markets:
  assumes "csvDocumented csv" "newBNDocumented newBN" "evs \<noteq> []" "\<forall>ev \<in> set evs. playedEvent ev"
    and "mkdirFails os = None" "writeFails os ff = None" "int offset < 2 ^ 53"
  shows "\<exists>d' rows. writeStressCSV os (map eventRow evs) ff d = (Inr (), d') \<and>
     readStressCSV csv ff d' = (Inr rows, d') \<and> length rows = length evs \<and>
     (\<forall>i < length evs. \<exists>m. replayParams newBN (int offset) (rows ! i) =
          Inr (ev_user (evs ! i), m, ev_kind (evs ! i), ev_amt (evs ! i)) \<and>
        m = ev_market (evs ! i) * 10 ^ length (nat_toString offset) + int offset \<and>
        (m = ev_market (evs ! i) + int offset \<longleftrightarrow> ev_market (evs ! i) = 0))"
proof -
  have plain: "list_all (plainRow eventHeader) (map eventRow evs)"
    using assms(4) playedEvent_plain by (auto simp: list_all_iff)
  obtain d' where io: "writeStressCSV os (map eventRow evs) ff d = (Inr (), d')"
    "readStressCSV csv ff d' = (Inr (map eventRow evs), d')"
    using csv_roundtrip [OF assms(1) _ eventHeader_plain(3,1,2) plain assms(5,6)] assms(3) by auto
  have "1 < (10 :: int) ^ length (nat_toString offset)"
    using nat_toString_digits [of offset] by (intro one_less_power) auto
  then have len: "(10 :: int) ^ length (nat_toString offset) \<noteq> 1" by linarith
  have "\<exists>m. replayParams newBN (int offset) (map eventRow evs ! i) =
          Inr (ev_user (evs ! i), m, ev_kind (evs ! i), ev_amt (evs ! i)) \<and>
        m = ev_market (evs ! i) * 10 ^ length (nat_toString offset) + int offset \<and>
        (m = ev_market (evs ! i) + int offset \<longleftrightarrow> ev_market (evs ! i) = 0)" if i: "i < length evs" for i
  proof -
    have "playedEvent (evs ! i)" using assms(4) i by simp
    then obtain u k m where "ev_user (evs ! i) = Some u" "ev_kind (evs ! i) = Some k"
      "ev_market (evs ! i) = int m" by (auto simp: playedEvent_def)
    with replay_row [OF assms(2) this assms(7)] i len show ?thesis by simp
  qed
  with io show ?thesis by force
qed

definition sample_events :: "StressEvent list" where
  "sample_events =
     [\<lparr>ev_user = Some ''0'', ev_kind = Some ''buy'', ev_amt = 500, ev_market = 1, ev_succeeded = True\<rparr>]"

definition sample_newBN :: "string \<Rightarrow> BN result" where
  "sample_newBN t = (case t of [] \<Rightarrow> Inr 0
     | c # cs \<Rightarrow> if c = CHR ''-'' then Inr (- bn_of_string cs) else Inr (bn_of_string t))"

lemma sample_newBN_documented: "newBNDocumented sample_newBN"
  by (auto simp: newBNDocumented_def sample_newBN_def digitChar_def Let_def split: list.split)

lemma sample_events_played: "\<forall>ev \<in> set sample_events. playedEvent ev"
proof -
  have "nat_toString 0 = ''0''" "plainField ''buy''" by code_simp+
  then show ?thesis by (force simp: sample_events_def playedEvent_def intro: exI [of _ 0] exI [of _ 1])
qed

theorem replay_shifts_markets_witness:
  "\<exists>d rows. writeStressCSV sample_os (map eventRow sample_events) ''output/a.csv'' sample_disk = (Inr (), d) \<and>
     readStressCSV (\<lambda>text. Inr (csvReference text)) ''output/a.csv'' d = (Inr rows, d) \<and>
     replayParams sample_newBN 0 (rows ! 0) = Inr (Some ''0'', 10, Some ''buy'', 500)"
proof -
  have csv: "csvDocumented (\<lambda>text. Inr (csvReference text))" by (simp add: csvDocumented_def)
  have os: "mkdirFails sample_os = None" "writeFails sample_os ''output/a.csv'' = None"
    "int 0 < 2 ^ 53" "sample_events \<noteq> []" by (simp_all add: sample_os_def sample_events_def)
  have "length (nat_toString 0) = 1" by code_simp
  with replay_shifts_markets [OF csv sample_newBN_documented os(4) sample_events_played os(1-3), of sample_disk]
  show ?thesis by (force simp: sample_events_def)
qed

end
