(* ===== verification/StressUsers.thy ===== *)
theory StressUsers
  imports Factory MockAccounts StressEvents
begin

section \<open>The users of the stress test\<close>

text \<open>
  \<open>initUserAccounts\<close> of \<open>stress/stressUtils.ts\<close>: for each user a key pair, an airdrop, a token account
  with the collateral, a client that subscribes, creates its user and deposits everything, and a
  \<open>ClearingHouseUser\<close>. \<open>StressEnv\<close> holds, for the \<open>i\<close>-th user, the new key pairs and what the node
  and the subscribers answer. The clients are built by the factory of the SDK with web socket
  subscribers, which leave the bulk loader alone.
\<close>

record 'a StressEnv =
  env_owner :: "nat \<Rightarrow> PublicKey"
  env_usdc :: "nat \<Rightarrow> PublicKey"
  env_positions :: "nat \<Rightarrow> PublicKey"
  env_net :: "nat \<Rightarrow> MockNet"
  env_rpc :: "nat \<Rightarrow> Rpc"
  env_ch :: "nat \<Rightarrow> ('a AnyChSubscriber, 'a) ChSubscriber"
  env_userSub :: "nat \<Rightarrow> ('a AnyUserSubscriber, 'a) UserSubscriber"
  env_asState :: "'a \<Rightarrow> StateAccount"
  env_asMarkets :: "'a \<Rightarrow> MarketsAccount"
  env_options :: ConfirmOptions
  env_programId :: PublicKey
  env_loader :: Loader

text \<open>
  \<open>await\<close> of a subscription. A promise that another call of \<open>subscribe\<close> left pending is marked by an
  error of its own; the subscribers here are new and have no such promise.
\<close>

definition awaited :: "SubscribeOutcome \<Rightarrow> unit result" where
  "awaited r = (case r of Subscribed _ \<Rightarrow> Inr () | Throws e \<Rightarrow> Inl e | AwaitsPromise \<Rightarrow> Inl (Thrown ''pending''))"

text \<open>What one user consists of: token account, address of the user, client and user object.\<close>

type_synonym 'a StressUser =
  "PublicKey \<times> PublicKey \<times> (Client \<times> 'a AnyChSubscriber LiveClient) \<times> 'a AnyUserSubscriber LiveUser"

definition initUser ::
  "Solana \<Rightarrow> 'a StressEnv \<Rightarrow> PublicKey \<Rightarrow> BN \<Rightarrow> nat \<Rightarrow> (TokenLog, 'a StressUser) eff" where
  "initUser sol env usdcMint usdcAmount i =
     (let owner = env_owner env i; net = env_net env i; l = env_loader env in
      bindS (modifyS (\<lambda>s. s\<lparr>sb_airdrops := sb_airdrops s @ [(owner, 100000000)]\<rparr>)) (\<lambda>_.
      bindS (liftS (requestAirdrop net owner 100000000)) (\<lambda>_.
      bindS (mockUserUSDCAccount sol net (env_usdc env i) usdcMint usdcAmount (Some owner)) (\<lambda>newUserAcct.
      bindS (liftS (clearingHouseFrom (env_options env) (env_asState env) (env_asMarkets env) owner
               (env_programId env) None)) (\<lambda>(c, live).
      case clientSubscribe (env_ch env i) None live l of (live1, l1, r1) \<Rightarrow>
      bindS (liftS (awaited r1)) (\<lambda>_.
      case initializeUserAccountAndDepositCollateral sol (env_rpc env i) (env_positions env i) usdcAmount
             newUserAcct (refreshed (env_asState env) (env_asMarkets env) (ch_sub live1) c) of (r2, c1) \<Rightarrow>
      bindS (liftS r2) (\<lambda>(sig, userAccountPublicKey).
      bindS (liftS (userFrom live1 owner)) (\<lambda>userAccount.
      case liveUserSubscribe (env_ch env i) (env_userSub env i) live1 userAccount l1 of (live2, userAccount1, l2, r3) \<Rightarrow>
      bindS (liftS (awaited r3)) (\<lambda>_.
      returnS (newUserAcct, userAccountPublicKey, (c1, live2), userAccount1))))))))))"

fun forEach :: "('b \<Rightarrow> ('s, 'a) eff) \<Rightarrow> 'b list \<Rightarrow> ('s, 'a list) eff" where
  "forEach f [] = returnS []"
| "forEach f (i # is) = bindS (f i) (\<lambda>x. bindS (forEach f is) (\<lambda>xs. returnS (x # xs)))"

text \<open>The four arrays are filled side by side; an exception leaves the caller without them.\<close>

definition initUserAccounts ::
  "Solana \<Rightarrow> 'a StressEnv \<Rightarrow> nat \<Rightarrow> PublicKey \<Rightarrow> BN \<Rightarrow>
     (TokenLog, PublicKey list \<times> PublicKey list \<times> (Client \<times> 'a AnyChSubscriber LiveClient) list \<times>
               'a AnyUserSubscriber LiveUser list) eff" where
  "initUserAccounts sol env NUM_USERS usdcMint usdcAmount =
     bindS (forEach (initUser sol env usdcMint usdcAmount) [0..<NUM_USERS]) (\<lambda>us.
     returnS (map fst us, map (\<lambda>u. fst (snd u)) us, map (\<lambda>u. fst (snd (snd u))) us,
              map (\<lambda>u. snd (snd (snd u))) us))"

lemma forEach_Inr:
  assumes "forEach f is s = (Inr xs, s')"
    and "\<And>i s x s'. i \<in> set is \<Longrightarrow> f i s = (Inr x, s') \<Longrightarrow> P i x \<and> g s' = g s @ [h i]"
  shows "list_all2 P is xs \<and> g s' = g s @ map h is"
  using assms
proof (induction "is" arbitrary: s xs)
  case Nil
  then show ?case by (simp add: eff_simps)
next
  case (Cons i js)
  from Cons.prems(1) obtain x t ys where x: "f i s = (Inr x, t)" and ys: "forEach f js t = (Inr ys, s')"
    and xs: "xs = x # ys"
    by (auto simp: eff_simps split: prod.splits sum.splits)
  have "P i x \<and> g t = g s @ [h i]" using Cons.prems(2) x by simp
  moreover have "list_all2 P js ys \<and> g s' = g t @ map h js"
    using Cons.IH [OF ys] Cons.prems(2) by simp
  ultimately show ?case using xs by simp
qed

subsection \<open>One user\<close>

text \<open>A transaction that deposits an amount from a token account.\<close>

definition depositsFrom :: "PublicKey \<Rightarrow> BN \<Rightarrow> PublicKey \<Rightarrow> Submission \<Rightarrow> bool" where
  "depositsFrom pid amt usdc sub \<longleftrightarrow>
     (\<exists>initIx ix. sub_tx sub = [initIx, Invoke pid ix] \<and> ix_name ix = ''depositCollateral'' \<and>
        ix_args ix = [ABN amt] \<and> entry (ix_accounts ix) ''userCollateralAccount'' = Some usdc)"

text \<open>The transaction that creates and fills the token account of the \<open>i\<close>-th user.\<close>

definition fundingTx :: "Solana \<Rightarrow> 'a StressEnv \<Rightarrow> PublicKey \<Rightarrow> BN \<Rightarrow> nat \<Rightarrow> MockTx" where
  "fundingTx sol env usdcMint amt i =
     (let net = env_net env i; tok = TOKEN_PROGRAM_ID sol; usdc = env_usdc env i in
      \<lparr>mock_ixs = [Standard (SystemCreateAccount (payer net) usdc (projr (rentForAccount net)) (accountSpan net) tok),
                   InitAccount tok usdcMint usdc (env_owner env i), MintTo tok usdcMint usdc (payer net) [] amt],
       mock_signers = [payer net, usdc]\<rparr>)"

definition userReady :: "Solana \<Rightarrow> 'a StressEnv \<Rightarrow> BN \<Rightarrow> nat \<Rightarrow> 'a StressUser \<Rightarrow> bool" where
  "userReady sol env amt i = (\<lambda>(usdc, key, (c, live), u).
     usdc = env_usdc env i \<and> key = getUserAccountPublicKey sol (env_programId env) (env_owner env i) \<and>
     wallet c = env_owner env i \<and> programId c = env_programId env \<and> reachable_client sol c \<and>
     clientIsSubscribed (env_ch env i) live \<and> user_authority u = env_owner env i \<and>
     (\<exists>sub. outbox c = [sub] \<and> depositsFrom (env_programId env) amt usdc sub))"

lemma init_deposit_sent:
  assumes "initializeUserAccountAndDepositCollateral sol rpc fresh amt k c = (Inr (sig, u), c')"
  shows "u = getUserAccountPublicKey sol (programId c) (wallet c) \<and> wallet c' = wallet c \<and>
     programId c' = programId c \<and> (\<exists>sub. outbox c' = outbox c @ [sub] \<and> depositsFrom (programId c) amt k sub)"
  using assms
  by (auto simp: initializeUserAccountAndDepositCollateral_def getInitializeUserInstructions_def
      getDepositCollateralInstruction_def getUserAccountPublicKeyOf_def getStatePublicKey_def programIx_def
      providerSend_def submitVia_def eff_simps Let_def getUserAccountPublicKey_def depositsFrom_def
      split: prod.splits sum.splits option.splits)

lemma mockUserUSDCAccount_done:
  assumes "mockUserUSDCAccount sol net u m amt (Some owner) s = (Inr k, s')"
  shows "k = u \<and> sb_sent s' = sb_sent s @ [\<lparr>mock_ixs =
      [Standard (SystemCreateAccount (payer net) u (projr (rentForAccount net)) (accountSpan net) (TOKEN_PROGRAM_ID sol)),
       InitAccount (TOKEN_PROGRAM_ID sol) m u owner, MintTo (TOKEN_PROGRAM_ID sol) m u (payer net) [] amt],
      mock_signers = [payer net, u]\<rparr>] \<and> \<bar>amt\<bar> < 2 ^ 53"
  using assms
  by (auto simp: mockUserUSDCAccount_def sendAndConfirmTransaction_def eff_simps Let_def bn_toNumber_def
      split: prod.splits sum.splits if_splits)

lemma awaited_Inr: "awaited r = Inr u \<Longrightarrow> \<exists>b. r = Subscribed b"
  by (cases r) (auto simp: awaited_def)

lemma liveUserSubscribe_authority:
  "liveUserSubscribe chOps ops c u l = (c1, u1, l1, r) \<Longrightarrow> user_authority u1 = user_authority u"
  by (auto simp: liveUserSubscribe_def Let_def split: prod.splits SubscribeOutcome.splits sum.splits)

lemma liveUserSubscribe_client:
  "liveUserSubscribe chOps ops c u l = (c1, u1, l1, r) \<Longrightarrow>
     \<exists>l2 r2. clientSubscribe chOps None c l = (c1, l2, r2)"
  by (auto simp: liveUserSubscribe_def Let_def split: prod.splits SubscribeOutcome.splits sum.splits)

lemma subscribed_live:
  assumes "ch_subscriber anyIsSubscribed ops" "ch_flag live = anyIsSubscribed (ch_sub live)"
    and "clientSubscribe ops None live l = (live1, l1, Subscribed b)"
    and "liveUserSubscribe ops uops live1 u l1 = (live2, u1, l2, r)"
  shows "clientIsSubscribed ops live2"
proof -
  note exact = ch_subscriber.subscribe_exact [OF assms(1) assms(2,3)]
  have on: "ch_flag live1" "anyIsSubscribed (ch_sub live1)" using exact(1) exact(2) [of b] by simp_all
  obtain l3 r3 where "clientSubscribe ops None live1 l1 = (live2, l3, r3)"
    using liveUserSubscribe_client [OF assms(4)] by blast
  with ch_subscriber.subscribe_noop [OF assms(1) on] have "live2 = live1" by simp
  with on ch_subscriber.on_def [OF assms(1)] show ?thesis by (simp add: clientIsSubscribed_def)
qed

lemma clearingHouseFrom_fresh:
  assumes "clearingHouseFrom defaultOptions asState asMarkets w pid q = Inr (c, live)"
  shows "reachable_client sol c \<and> wallet c = w \<and> programId c = pid \<and> outbox c = [] \<and>
     ch_flag live = anyIsSubscribed (ch_sub live)"
  using assms
  by (auto simp: clearingHouseFrom_def getClearingHouse_def getWebSocketClearingHouseConfig_def
      newLiveClient_def newClient_def newWsSubscribers_def Let_def
      intro: reachable_client.start [unfolded newClient_def])

lemma userFrom_authority: "userFrom live auth = Inr u \<Longrightarrow> user_authority u = auth"
  by (auto simp: userFrom_def getClearingHouseUser_def getWebSocketClearingHouseUserConfig_def newLiveUser_def
      split: if_splits)

lemma initUser_done:
  fixes env :: "'a StressEnv"
  assumes law: "ch_subscriber anyIsSubscribed (env_ch env i)"
    and run: "initUser sol env usdcMint amt i s = (Inr x, s')"
  shows "userReady sol env amt i x \<and> sb_sent s' = sb_sent s @ [fundingTx sol env usdcMint amt i]"
proof -
  let ?rpc = "env_rpc env i" and ?owner = "env_owner env i" and ?ch = "env_ch env i"
  let ?s1 = "s\<lparr>sb_airdrops := sb_airdrops s @ [(?owner, 100000000)]\<rparr>"
  from run obtain c live live1 l1 r1 c1 sig key u live2 u1 l2 r3 usdc where
    usdc: "mockUserUSDCAccount sol (env_net env i) (env_usdc env i) usdcMint amt (Some ?owner) ?s1 = (Inr usdc, s')"
    and c: "clearingHouseFrom (env_options env) (env_asState env) (env_asMarkets env) ?owner (env_programId env) None
        = Inr (c, live)"
    and sub: "clientSubscribe ?ch None live (env_loader env) = (live1, l1, r1)" "awaited r1 = Inr ()"
    and init: "initializeUserAccountAndDepositCollateral sol ?rpc (env_positions env i) amt usdc
        (refreshed (env_asState env) (env_asMarkets env) (ch_sub live1) c) = (Inr (sig, key), c1)"
    and u: "userFrom live1 ?owner = Inr u"
    and usub: "liveUserSubscribe ?ch (env_userSub env i) live1 u l1 = (live2, u1, l2, r3)"
    and x: "x = (usdc, key, (c1, live2), u1)"
    by (auto simp: initUser_def eff_simps Let_def split: prod.splits sum.splits)
  note acct = mockUserUSDCAccount_done [OF usdc]
  note fresh = clearingHouseFrom_fresh [OF c, of sol]
  note sent = init_deposit_sent [OF init]
  obtain b where b: "r1 = Subscribed b" using awaited_Inr [OF sub(2)] by blast
  have on: "clientIsSubscribed ?ch live2"
    using subscribed_live [OF law _ sub(1) [unfolded b] usub] fresh by simp
  let ?c = "refreshed (env_asState env) (env_asMarkets env) (ch_sub live1) c"
  have "reachable_client sol ?c"
    using fresh by (auto simp: refreshed_def intro: reachable_client.accounts)
  then have "reachable_client sol c1"
    using reachable_client.call [of sol ?c "ByUser (InitializeUserAccountAndDepositCollateral (env_positions env i) amt usdc)" ?rpc]
      init by (simp add: soundCall_def)
  with acct fresh sent on liveUserSubscribe_authority [OF usub] userFrom_authority [OF u] x show ?thesis
    by (simp add: userReady_def fundingTx_def refreshed_def Let_def)
qed

subsection \<open>Properties\<close>

text \<open>
  C35: when \<open>initUserAccounts\<close> returns, the users of the stress test are set up and the four arrays
  are aligned. Each has one entry per user; the \<open>i\<close>-th entries belong together: the token account that
  one transaction created for the \<open>i\<close>-th wallet and filled with the capital, the address the
  on-chain program derives for that wallet, a subscribed client of that wallet that has sent one
  transaction, which deposits the whole capital from that token account, and a user object with
  that wallet as authority. Nothing else was sent to the token program.
\<close>

theorem users_aligned:
  assumes "\<forall>i < n. ch_subscriber anyIsSubscribed (env_ch env i)"
    and "initUserAccounts sol env n usdcMint amt s = (Inr (usdcs, keys, clients, infos), s')"
  shows "length usdcs = n \<and> length keys = n \<and> length clients = n \<and> length infos = n \<and>
     (\<forall>i < n. userReady sol env amt i (usdcs ! i, keys ! i, clients ! i, infos ! i)) \<and>
     sb_sent s' = sb_sent s @ map (fundingTx sol env usdcMint amt) [0..<n]"
proof -
  from assms(2) obtain us where run: "forEach (initUser sol env usdcMint amt) [0..<n] s = (Inr us, s')"
    and out: "usdcs = map fst us" "keys = map (\<lambda>u. fst (snd u)) us"
      "clients = map (\<lambda>u. fst (snd (snd u))) us" "infos = map (\<lambda>u. snd (snd (snd u))) us"
    by (auto simp: initUserAccounts_def eff_simps split: prod.splits sum.splits)
  have "list_all2 (userReady sol env amt) [0..<n] us \<and>
      sb_sent s' = sb_sent s @ map (fundingTx sol env usdcMint amt) [0..<n]"
    by (rule forEach_Inr [OF run], rule initUser_done) (use assms(1) in auto)
  then show ?thesis by (auto simp: out list_all2_conv_all_nth)
qed

text \<open>A node and subscribers that answer every request, for two users.\<close>

definition sample_net :: MockNet where
  "sample_net = \<lparr>payer = ''payer'', mintSpan = 82, accountSpan = 165, rentForMint = Inr 1461600,
     rentForAccount = Inr 2039280, confirm = (\<lambda>tx. Inr ''signature''), requestAirdrop = (\<lambda>k n. Inr ''signature'')\<rparr>"

definition sample_chSub :: "(nat AnyChSubscriber, nat) ChSubscriber" where
  "sample_chSub =
     anyCH (webSocketCH lengthDecoder (\<lambda>_. sample_state) (\<lambda>_. Inr (1, Some [7])) (\<lambda>_. 5) (Inr ''stateKey''))
       (pollingCH \<lparr>poll_decode = lengthDecoder, poll_callbackOf = (\<lambda>_. 0), poll_errorCallback = 0,
                   poll_uuids = nat_toString, poll_loading = (\<lambda>s l. ([], [], l))\<rparr> ''stateKey'' (Inr sample_state))"

fun sample_userSubscribe ::
  "nat AnyUserSubscriber \<Rightarrow> Loader \<Rightarrow> nat AnyUserSubscriber \<times> Loader \<times> bool result" where
  "sample_userSubscribe (WebSocketUserSub s) l =
     (case wsUserSubscribe lengthDecoder (\<lambda>_. sample_user) (\<lambda>_. Inr (1, Some [7])) (\<lambda>_. 5) (Inr ''user'') s of
        (s', r) \<Rightarrow> (WebSocketUserSub s', l, r))"
| "sample_userSubscribe (PollingUserSubscriber s) l = (PollingUserSubscriber s, l, Inr True)"

definition sample_userSub :: "(nat AnyUserSubscriber, nat) UserSubscriber" where
  "sample_userSub = \<lparr>us_type = (\<lambda>_. WebsocketType), us_isSubscribed = (\<lambda>s. case s of
       WebSocketUserSub w \<Rightarrow> ws_isSubscribed w | PollingUserSubscriber p \<Rightarrow> True),
     us_subscribe = sample_userSubscribe, us_fetch = (\<lambda>s l. (s, l, None)), us_unsubscribe = (\<lambda>s l. (s, l)),
     us_getUserAccount = (\<lambda>_. Inr None), us_getUserPositionsAccount = (\<lambda>_. Inr None)\<rparr>"

definition sample_usersEnv :: "nat StressEnv" where
  "sample_usersEnv = \<lparr>env_owner = (\<lambda>i. ''wallet'' @ nat_toString i), env_usdc = (\<lambda>i. ''usdc'' @ nat_toString i),
     env_positions = (\<lambda>i. ''positions'' @ nat_toString i), env_net = (\<lambda>_. sample_net),
     env_rpc = (\<lambda>_. sample_rpc sample_user), env_ch = (\<lambda>_. sample_chSub), env_userSub = (\<lambda>_. sample_userSub),
     env_asState = (\<lambda>_. sample_state), env_asMarkets = (\<lambda>_. sample_markets), env_options = ''opts'',
     env_programId = ''program'', env_loader = newLoader\<rparr>"

definition sample_tokenLog :: TokenLog where
  "sample_tokenLog = \<lparr>sb_sent = [], sb_airdrops = []\<rparr>"

lemma sample_users_made:
  "\<exists>out s. initUserAccounts sample_solana sample_usersEnv 2 ''mint'' 10000 sample_tokenLog = (Inr out, s)"
proof -
  have "case fst (initUserAccounts sample_solana sample_usersEnv 2 ''mint'' 10000 sample_tokenLog) of
      Inl e \<Rightarrow> False | Inr x \<Rightarrow> True" by code_simp
  then show ?thesis
    by (cases "initUserAccounts sample_solana sample_usersEnv 2 ''mint'' 10000 sample_tokenLog") (auto split: sum.splits)
qed

theorem users_aligned_witness:
  "\<exists>usdcs keys clients infos s.
     initUserAccounts sample_solana sample_usersEnv 2 ''mint'' 10000 sample_tokenLog = (Inr (usdcs, keys, clients, infos), s) \<and>
     length clients = 2 \<and> wallet (fst (clients ! 1)) = env_owner sample_usersEnv 1 \<and>
     (\<exists>sub. outbox (fst (clients ! 1)) = [sub] \<and> depositsFrom ''program'' 10000 (usdcs ! 1) sub)"
proof -
  obtain usdcs keys clients infos s where
    run: "initUserAccounts sample_solana sample_usersEnv 2 ''mint'' 10000 sample_tokenLog = (Inr (usdcs, keys, clients, infos), s)"
    using sample_users_made by (metis prod.collapse)
  have "ch_subscriber anyIsSubscribed sample_chSub"
    unfolding sample_chSub_def by (rule any_ch.ch_subscriber_axioms)
  then have "\<forall>i < 2. ch_subscriber anyIsSubscribed (env_ch sample_usersEnv i)" by (simp add: sample_usersEnv_def)
  note ready = users_aligned [OF this run]
  then have "userReady sample_solana sample_usersEnv 10000 1 (usdcs ! 1, keys ! 1, clients ! 1, infos ! 1)"
    and len: "length clients = 2" by simp_all
  moreover have "env_programId sample_usersEnv = ''program''" by (simp add: sample_usersEnv_def)
  ultimately have "wallet (fst (clients ! 1)) = env_owner sample_usersEnv 1 \<and>
      (\<exists>sub. outbox (fst (clients ! 1)) = [sub] \<and> depositsFrom ''program'' 10000 (usdcs ! 1) sub)"
    by (auto simp: userReady_def case_prod_beta)
  with run len show ?thesis by blast
qed

end
