(* ===== verification/StressRun.thy ===== *)
theory StressRun
  imports StressUsers
begin

section \<open>The stress test\<close>

text \<open>
  \<open>stress_test\<close> of \<open>stress/stress.ts\<close>. \<open>StressWorld\<close> is what the script works on: the price feeds, the
  token transactions, the client that is passed in (an \<open>Admin\<close> or not), the clients and user
  objects of its own users and the disk. \<open>StressAnswers\<close> are the answers of the node, the accounts
  the subscribers hold, the new key pairs and the random draws, by the number of the event where
  they differ from event to event; the random numbers are given after \<open>Math.floor\<close>. The methods
  \<open>calculateMarkPrice\<close>, \<open>calculateTargetPriceTrade\<close> and \<open>summary\<close> that the script calls on its objects exist
  in no class of the SDK: calling them throws a \<open>TypeError\<close>. What follows such a call is never
  executed and not part of the model.
\<close>

record 'a StressWorld =
  w_feeds :: Feeds
  w_tokenLog :: TokenLog
  w_admin :: Client
  w_clients :: "(Client \<times> 'a AnyChSubscriber LiveClient) list"
  w_infos :: "'a AnyUserSubscriber LiveUser list"
  w_disk :: Disk

record 'a StressAnswers =
  an_sol :: Solana
  an_env :: "'a StressEnv"
  an_floats :: Floats
  an_isAdmin :: bool
  an_oracle :: "nat \<Rightarrow> PublicKey"
  an_pyth :: "nat \<Rightarrow> PythNet"
  an_pythRead :: "nat \<Rightarrow> PythNet"
  an_eventPyth :: "nat \<Rightarrow> PythNet"
  an_setupRpc :: "nat \<Rightarrow> Rpc"
  an_eventRpc :: "nat \<Rightarrow> Rpc"
  an_accounts :: "nat \<Rightarrow> StateAccount result \<times> MarketsAccount result"
  an_marketsAfter :: "nat \<Rightarrow> MarketsAccount result"
  an_draws :: "nat \<Rightarrow> nat \<times> nat \<times> nat"
  an_csv :: "string \<Rightarrow> Row list result"
  an_newBN :: "string \<Rightarrow> BN result"
  an_os :: Os

record StressArgs =
  NUM_USERS :: nat
  NUM_EVENTS :: nat
  user_capital :: rat
  sqrtk :: rat
  inputEventFile :: string
  pegs :: "BN list"
  marketOffset :: int
  outputFolder :: string
  outputName :: string
  arg_usdcMint :: PublicKey

text \<open>The defaults of the parameters, from the number of users on.\<close>

definition defaultArgs :: "PublicKey \<Rightarrow> StressArgs" where
  "defaultArgs mint = \<lparr>NUM_USERS = 1, NUM_EVENTS = 10, user_capital = 100000, sqrtk = 10 ^ 8,
     inputEventFile = '''', pegs = [PEG_PRECISION, PEG_PRECISION], marketOffset = 0,
     outputFolder = ''output'', outputName = '''', arg_usdcMint = mint\<rparr>"

subsection \<open>The parts of the world\<close>

definition onFeeds :: "(Feeds, 'b) eff \<Rightarrow> ('a StressWorld, 'b) eff" where
  "onFeeds m = (\<lambda>w. case m (w_feeds w) of (r, f) \<Rightarrow> (r, w\<lparr>w_feeds := f\<rparr>))"

definition onTokenLog :: "(TokenLog, 'b) eff \<Rightarrow> ('a StressWorld, 'b) eff" where
  "onTokenLog m = (\<lambda>w. case m (w_tokenLog w) of (r, s) \<Rightarrow> (r, w\<lparr>w_tokenLog := s\<rparr>))"

definition onAdmin :: "(Client, 'b) eff \<Rightarrow> ('a StressWorld, 'b) eff" where
  "onAdmin m = (\<lambda>w. case m (w_admin w) of (r, c) \<Rightarrow> (r, w\<lparr>w_admin := c\<rparr>))"

definition onDisk :: "(Disk, 'b) eff \<Rightarrow> ('a StressWorld, 'b) eff" where
  "onDisk m = (\<lambda>w. case m (w_disk w) of (r, d) \<Rightarrow> (r, w\<lparr>w_disk := d\<rparr>))"

definition onClient :: "nat \<Rightarrow> (Client, 'b) eff \<Rightarrow> ('a StressWorld, 'b) eff" where
  "onClient j m = (\<lambda>w. case w_clients w ! j of (c, live) \<Rightarrow>
     (case m c of (r, c') \<Rightarrow> (r, w\<lparr>w_clients := (w_clients w)[j := (c', live)]\<rparr>)))"

text \<open>\<open>array[user_i]\<close>, where the key is a text or \<open>undefined\<close>: the position whose digits it is.\<close>

definition positionOf :: "string option \<Rightarrow> 'b list \<Rightarrow> nat option" where
  "positionOf key xs = find (\<lambda>i. key = Some (nat_toString i)) [0..<length xs]"

subsection \<open>Setting up\<close>

definition reserveFor :: "StressArgs \<Rightarrow> BN \<Rightarrow> BN result" where
  "reserveFor p peg =
     bindE (bn_of_number (sqrtk p)) (\<lambda>pair. bindE (bn_div peg PEG_PRECISION) (\<lambda>amtScale.
     bn_div (pair * MARK_PRICE_PRECISION) amtScale))"

text \<open>The loop over the two oracles; \<open>initializeMarket\<close> is a method of \<open>Admin\<close>.\<close>

definition setupMarket ::
  "'a StressAnswers \<Rightarrow> StressArgs \<Rightarrow> PublicKey list \<Rightarrow> nat \<Rightarrow> ('a StressWorld, string) eff" where
  "setupMarket R p oracles i =
     bindS (liftS (deref (js_index (pegs p) (int i)))) (\<lambda>peg.
     bindS (liftS (reserveFor p peg)) (\<lambda>reserve.
     bindS (liftS (bn_toNumber (int i + marketOffset p))) (\<lambda>mi.
     if an_isAdmin R
     then onAdmin (initializeMarket (an_sol R) (an_setupRpc R i) mi (oracles ! i) reserve reserve 1 (Some peg))
     else throwS TypeError)))"

definition dogMoneyPrice :: "StressArgs \<Rightarrow> int result" where
  "dogMoneyPrice p =
     bindE (deref (js_index (pegs p) 0)) (\<lambda>peg. bindE (bn_div peg PEG_PRECISION) bn_toNumber)"

definition stressSetup ::
  "'a StressAnswers \<Rightarrow> StressArgs \<Rightarrow> ('a StressWorld, PublicKey list \<times> PublicKey list) eff" where
  "stressSetup R p =
     bindS (liftS (bn_of_number (user_capital p))) (\<lambda>usdcAmount.
     bindS (liftS (dogMoneyPrice p)) (\<lambda>px.
     bindS (onFeeds (mockOracle (an_floats R) (an_pyth R 0) (an_pythRead R 0) (an_oracle R 0) (of_int px) (-6))) (\<lambda>dogMoney.
     bindS (onFeeds (mockOracle (an_floats R) (an_pyth R 1) (an_pythRead R 1) (an_oracle R 1) 22 (-6))) (\<lambda>solUsd.
     bindS (liftS (bn_of_number (sqrtk p))) (\<lambda>_.
     bindS (forEach (setupMarket R p [dogMoney, solUsd]) [0, 1]) (\<lambda>_.
     bindS (onTokenLog (initUserAccounts (an_sol R) (an_env R) (NUM_USERS p) (arg_usdcMint p) usdcAmount))
       (\<lambda>(userUSDCAccounts, user_keys, clearingHouses, userAccountInfos).
     bindS (modifyS (\<lambda>w. w\<lparr>w_clients := clearingHouses, w_infos := userAccountInfos\<rparr>)) (\<lambda>_.
     returnS (userUSDCAccounts, user_keys)))))))))"

subsection \<open>The parameters of an event\<close>

definition event_kinds :: "string list" where
  "event_kinds = [''deposit'', ''buy'', ''sell'', ''close'', ''repeg'', ''update_funding'']"

text \<open>
  The trade of an arbitrageur: the oracle price is read and converted, and then
  \<open>clearingHouse.calculateMarkPrice\<close> is called.
\<close>

definition arbitrage ::
  "'a StressAnswers \<Rightarrow> nat \<Rightarrow> ('a StressWorld, string option \<times> BN \<times> string option \<times> BN) eff" where
  "arbitrage R i =
     bindS (liftS (bindE (snd (an_accounts R i)) (\<lambda>ma. deref (js_index (MarketsAccount.markets ma) 0)))) (\<lambda>marketData.
     bindS (onFeeds (getFeedData (an_floats R) (an_eventPyth R i) (amm_oracle (amm marketData)))) (\<lambda>oracleData.
     bindS (liftS (bn_of_number (round64 (an_floats R) (price (aggregatePriceInfo oracleData) * of_int PEG_PRECISION)))) (\<lambda>_.
     throwS TypeError)))"

definition getEventParams ::
  "'a StressAnswers \<Rightarrow> StressArgs \<Rightarrow> Row list \<Rightarrow> nat \<Rightarrow>
     ('a StressWorld, string option \<times> BN \<times> string option \<times> BN) eff" where
  "getEventParams R p eventTimeline i =
     (if inputEventFile p = '''' then
        case an_draws R i of (amt, user_i, rand_i) \<Rightarrow>
          let rand_e = (if i = 0 then Some ''noop'' else js_index event_kinds (int rand_i)) in
          if even user_i \<and> rand_e \<in> {Some ''buy'', Some ''sell''} then arbitrage R i
          else returnS (Some (nat_toString user_i), 0, rand_e, int amt)
      else
        bindS (liftS (deref (js_index eventTimeline (int i)))) (\<lambda>row.
        liftS (replayParams (an_newBN R) (marketOffset p) row)))"

subsection \<open>The loop\<close>

text \<open>What the subscriber of a client holds when an event starts.\<close>

definition refreshedAt :: "'a StressAnswers \<Rightarrow> nat \<Rightarrow> Client \<Rightarrow> Client" where
  "refreshedAt R i c = c\<lparr>sub_state := fst (an_accounts R i), sub_markets := snd (an_accounts R i)\<rparr>"

text \<open>
  The event is played with the client of the user, but \<open>move\<close> with the client that was passed in.
  A user that does not exist has no client: every method then throws inside \<open>simEvent\<close>.
\<close>

definition playEvent ::
  "'a StressAnswers \<Rightarrow> PublicKey list \<Rightarrow> PublicKey list \<Rightarrow> nat \<Rightarrow>
     string option \<times> BN \<times> string option \<times> BN \<Rightarrow> ('a StressWorld, StressEvent) eff" where
  "playEvent R usdcs keys i = (\<lambda>(user_i, market_i, rand_e, rand_amt).
     bindS (getS (\<lambda>w. positionOf user_i (w_clients w))) (\<lambda>pos.
     let sim = (\<lambda>isAdmin j c. simEvent (an_sol R) (an_eventRpc R i) isAdmin user_i (keys ! j) (usdcs ! j)
                 market_i rand_e rand_amt (refreshedAt R i c)) in
     if rand_e = Some ''move''
     then onAdmin (\<lambda>c. simEvent (an_sol R) (an_eventRpc R i) (an_isAdmin R) user_i [] [] market_i rand_e rand_amt
            (refreshedAt R i c))
     else case pos of
       Some j \<Rightarrow> onClient j (sim False j)
     | None \<Rightarrow> liftS (recordEvent user_i market_i rand_e rand_amt
         (rand_e \<notin> Some ` {''deposit'', ''withdraw'', ''buy'', ''sell'', ''repeg'', ''close'', ''liquidate''}))))"

definition stressStep ::
  "'a StressAnswers \<Rightarrow> StressArgs \<Rightarrow> PublicKey list \<Rightarrow> PublicKey list \<Rightarrow> Row list \<Rightarrow> nat \<Rightarrow>
     ('a StressWorld, StressEvent) eff" where
  "stressStep R p usdcs keys eventTimeline i =
     bindS (getEventParams R p eventTimeline i) (\<lambda>params.
     case params of (user_i, market_i, rand_e, rand_amt) \<Rightarrow>
     bindS (playEvent R usdcs keys i params) (\<lambda>event_i.
     bindS (liftS (an_marketsAfter R i)) (\<lambda>marketsAccount.
     bindS (liftS (bindE (bn_toNumber market_i) (\<lambda>m. deref (js_index (MarketsAccount.markets marketsAccount) m)))) (\<lambda>marketData.
     bindS (onFeeds (getFeedData (an_floats R) (an_eventPyth R i) (amm_oracle (amm marketData)))) (\<lambda>oracleData.
     bindS (liftS (bindE (deref (map_option ((!) keys) (positionOf user_i keys))) (fetchUser (an_eventRpc R i)))) (\<lambda>user.
     throwS TypeError))))))"

fun stressLoop ::
  "'a StressAnswers \<Rightarrow> StressArgs \<Rightarrow> PublicKey list \<Rightarrow> PublicKey list \<Rightarrow> Row list \<Rightarrow> nat \<Rightarrow> nat \<Rightarrow>
     ('a StressWorld, StressEvent list) eff" where
  "stressLoop R p usdcs keys timeline i 0 = returnS []"
| "stressLoop R p usdcs keys timeline i (Suc n) =
     bindS (stressStep R p usdcs keys timeline i) (\<lambda>ev.
     bindS (stressLoop R p usdcs keys timeline (Suc i) n) (\<lambda>evs. returnS (ev # evs)))"

definition unsubscribeAll :: "'a StressAnswers \<Rightarrow> 'a StressWorld \<Rightarrow> 'a StressWorld" where
  "unsubscribeAll R w = w\<lparr>
     w_clients := map (\<lambda>(i, c, live). (c, fst (clientUnsubscribe (env_ch (an_env R) i) live (env_loader (an_env R)))))
       (enumerate 0 (w_clients w)),
     w_infos := map (\<lambda>(i, u). fst (liveUserUnsubscribe (env_userSub (an_env R) i) u (env_loader (an_env R))))
       (enumerate 0 (w_infos w))\<rparr>"

text \<open>No row of the state timeline is ever pushed, since the loop throws before it does.\<close>

definition writeTimelines :: "'a StressAnswers \<Rightarrow> StressArgs \<Rightarrow> StressEvent list \<Rightarrow> ('a StressWorld, unit) eff" where
  "writeTimelines R p eventTimeline2 =
     bindS (onDisk (writeStressCSV (an_os R) (map eventRow eventTimeline2)
              (outputFolder p @ ''/'' @ outputName p @ ''_stress_event_timeline.csv''))) (\<lambda>_.
     onDisk (writeStressCSV (an_os R) []
              (outputFolder p @ ''/'' @ outputName p @ ''_stress_state_timeline.csv'')))"

text \<open>What follows the setting up.\<close>

definition stressEvents ::
  "'a StressAnswers \<Rightarrow> StressArgs \<Rightarrow> PublicKey list \<times> PublicKey list \<Rightarrow> ('a StressWorld, StressEvent list) eff" where
  "stressEvents R p = (\<lambda>(usdcs, keys).
     bindS (if inputEventFile p = '''' then returnS [] else onDisk (readStressCSV (an_csv R) (inputEventFile p))) (\<lambda>eventTimeline.
     bindS (onDisk (readStressCSV (an_csv R) ''../vAMM/solusd.csv'')) (\<lambda>solUsdTimeline.
     stressLoop R p usdcs keys eventTimeline 0
       (if inputEventFile p = '''' then NUM_EVENTS p else length eventTimeline))))"

definition stress_test :: "'a StressAnswers \<Rightarrow> StressArgs \<Rightarrow> ('a StressWorld, unit) eff" where
  "stress_test R p =
     bindS (stressSetup R p) (\<lambda>users.
     bindS (stressEvents R p users) (\<lambda>eventTimeline2.
     bindS (writeTimelines R p eventTimeline2) (\<lambda>_.
     modifyS (unsubscribeAll R))))"

subsection \<open>What a run leaves alone\<close>

text \<open>What the clients have handed to the network.\<close>

definition outboxes :: "'a StressWorld \<Rightarrow> Submission list \<times> Submission list list" where
  "outboxes w = (outbox (w_admin w), map (\<lambda>(c, live). outbox c) (w_clients w))"

lemma keeps_parts:
  "keeps (\<lambda>w. w_disk w = d \<and> outboxes w = b) (onFeeds m) (\<lambda>_. True)"
  "keeps (\<lambda>w. w_disk w = d) (onFeeds m) (\<lambda>_. True)"
  "keeps (\<lambda>w. w_disk w = d) (onTokenLog m2) (\<lambda>_. True)"
  "keeps (\<lambda>w. w_disk w = d) (onAdmin m3) (\<lambda>_. True)"
  "keeps (\<lambda>w. w_disk w = d) (onClient j m4) (\<lambda>_. True)"
  by (auto simp: keeps_def onFeeds_def onTokenLog_def onAdmin_def onClient_def outboxes_def
      split: prod.split sum.split)

lemma keeps_forEach:
  "(\<And>i. keeps P (f i) (\<lambda>_. True)) \<Longrightarrow> keeps P (forEach f is) (\<lambda>_. True)"
  by (induction "is") (auto intro!: keeps_rules intro: keeps_bind [where Q = "\<lambda>_. True"])

lemma disk_setup: "keeps (\<lambda>w. w_disk w = d) (stressSetup R p) (\<lambda>_. True)"
  unfolding stressSetup_def setupMarket_def
  by (intro keeps_rules keeps_bind [OF keeps_parts(2)] keeps_bind [OF keeps_parts(3)]
      keeps_bind [OF keeps_forEach] keeps_parts) auto

lemma disk_params: "keeps (\<lambda>w. w_disk w = d) (getEventParams R p timeline i) (\<lambda>_. True)"
  unfolding getEventParams_def arbitrage_def Let_def
  by (intro keeps_rules keeps_bind [OF keeps_parts(2)]) auto

lemma disk_play: "keeps (\<lambda>w. w_disk w = d) (playEvent R usdcs keys i params) (\<lambda>_. True)"
  unfolding playEvent_def Let_def by (intro keeps_rules keeps_parts) auto

lemma disk_step: "keeps (\<lambda>w. w_disk w = d) (stressStep R p usdcs keys timeline i) (\<lambda>_. False)"
  unfolding stressStep_def
  by (intro keeps_rules keeps_bind [OF disk_params] keeps_bind [OF disk_play] keeps_bind [OF keeps_parts(2)])

lemma positionOf_Some: "positionOf key xs = Some j \<Longrightarrow> j < length xs \<and> key = Some (nat_toString j)"
  by (auto simp: positionOf_def find_Some_iff)

lemma noop_client:
  "outbox (snd (simEvent sol rpc adm u k us mi (Some ''noop'') amt (refreshedAt R i c))) = outbox c"
  by (simp add: simEvent_def simSwitch_def eff_simps refreshedAt_def)

lemma idle_play:
  "keeps (\<lambda>w. w_disk w = d \<and> outboxes w = b) (playEvent R usdcs keys i (u, mi, Some ''noop'', amt)) (\<lambda>_. True)"
proof (rule keepsI)
  fix w r w'
  assume w: "w_disk w = d \<and> outboxes w = b"
    and run: "playEvent R usdcs keys i (u, mi, Some ''noop'', amt) w = (r, w')"
  show "(w_disk w' = d \<and> outboxes w' = b) \<and> (\<forall>a. r = Inr a \<longrightarrow> True)"
  proof (cases "positionOf u (w_clients w)")
    case None
    with run w show ?thesis by (simp add: playEvent_def eff_simps Let_def)
  next
    case (Some j)
    obtain c live where c: "w_clients w ! j = (c, live)" by fastforce
    let ?sim = "simEvent (an_sol R) (an_eventRpc R i) False u (keys ! j) (usdcs ! j) mi (Some ''noop'') amt (refreshedAt R i c)"
    from run Some c have w': "w' = w\<lparr>w_clients := (w_clients w)[j := (snd ?sim, live)]\<rparr>"
      by (simp add: playEvent_def eff_simps Let_def onClient_def case_prod_beta)
    have "map (\<lambda>(c, live). outbox c) ((w_clients w)[j := (snd ?sim, live)]) = map (\<lambda>(c, live). outbox c) (w_clients w)"
      using positionOf_Some [OF Some] c by (simp add: map_update noop_client list_update_same_conv)
    with w w' show ?thesis by (simp add: outboxes_def)
  qed
qed

lemma idle_step:
  assumes "inputEventFile p = ''''"
  shows "keeps (\<lambda>w. w_disk w = d \<and> outboxes w = b) (stressStep R p usdcs keys timeline 0) (\<lambda>_. False)"
proof -
  have "keeps (\<lambda>w. w_disk w = d \<and> outboxes w = b) (getEventParams R p timeline 0)
      (\<lambda>x. \<exists>u mi amt. x = (u, mi, Some ''noop'', amt))"
    using assms unfolding getEventParams_def Let_def by (simp, intro keeps_rules) auto
  then show ?thesis
    unfolding stressStep_def
    by (rule keeps_bind) (auto intro!: keeps_rules keeps_bind [OF idle_play] keeps_bind [OF keeps_parts(1)])
qed

lemma loop_ends: "keeps (\<lambda>w. w_disk w = d) (stressLoop R p usdcs keys timeline i n) (\<lambda>evs. evs = [])"
  by (cases n) (auto intro!: keeps_rules intro: keeps_bind [OF disk_step])

lemma idle_loop:
  "inputEventFile p = '''' \<Longrightarrow>
     keeps (\<lambda>w. w_disk w = d \<and> outboxes w = b) (stressLoop R p usdcs keys timeline 0 n) (\<lambda>evs. evs = [])"
  by (cases n) (auto intro!: keeps_rules intro: keeps_bind [OF idle_step])

lemma keeps_reading:
  "keeps (\<lambda>w. w_disk w = d) (onDisk (readStressCSV csv ff)) (\<lambda>_. True)"
  "keeps (\<lambda>w. w_disk w = d \<and> outboxes w = b) (onDisk (readStressCSV csv ff)) (\<lambda>_. True)"
  by (auto simp: keeps_def onDisk_def readStressCSV_def eff_simps outboxes_def split: prod.split sum.split)

lemma keeps_no_events:
  "keeps (\<lambda>w. w_disk w = d) (onDisk (writeStressCSV os [] ff)) (\<lambda>_. False)"
  "keeps (\<lambda>w. w_disk w = d \<and> outboxes w = b) (onDisk (writeStressCSV os [] ff)) (\<lambda>_. False)"
  by (auto simp: keeps_def onDisk_def writeStressCSV_def csvContent_def js_index_def eff_simps outboxes_def
      split: prod.split sum.split)

lemma nothing_written:
  "keeps (\<lambda>w. w_disk w = d) (writeTimelines R p []) (\<lambda>_. False)"
  "keeps (\<lambda>w. w_disk w = d \<and> outboxes w = b) (writeTimelines R p []) (\<lambda>_. False)"
  unfolding writeTimelines_def
  by (auto intro!: keeps_bind [OF keeps_no_events(1)] keeps_bind [OF keeps_no_events(2)])

text \<open>What follows the setting up fails.\<close>

definition afterSetup ::
  "'a StressAnswers \<Rightarrow> StressArgs \<Rightarrow> PublicKey list \<times> PublicKey list \<Rightarrow> ('a StressWorld, unit) eff" where
  "afterSetup R p users =
     bindS (stressEvents R p users) (\<lambda>evs. bindS (writeTimelines R p evs) (\<lambda>_. modifyS (unsubscribeAll R)))"

lemma stress_test_split: "stress_test R p = bindS (stressSetup R p) (afterSetup R p)"
  by (simp add: stress_test_def afterSetup_def [abs_def])

lemma events_fail: "keeps (\<lambda>w. w_disk w = d) (afterSetup R p x) (\<lambda>_. False)"
proof -
  have timeline: "keeps (\<lambda>w. w_disk w = d)
      (if inputEventFile p = '''' then returnS [] else onDisk (readStressCSV (an_csv R) (inputEventFile p))) (\<lambda>_. True)"
    by (auto intro: keeps_rules keeps_reading)
  have "keeps (\<lambda>w. w_disk w = d) (stressEvents R p x) (\<lambda>evs. evs = [])"
    unfolding stressEvents_def
    by (intro keeps_prod keeps_bind [OF timeline] keeps_bind [OF keeps_reading(1)] loop_ends)
  then show ?thesis
    unfolding afterSetup_def by (rule keeps_bind) (auto intro: keeps_bind [OF nothing_written(1)])
qed

lemma idle_events:
  assumes "inputEventFile p = ''''"
  shows "keeps (\<lambda>w. w_disk w = d \<and> outboxes w = b) (afterSetup R p x) (\<lambda>_. False)"
proof -
  have "keeps (\<lambda>w. w_disk w = d \<and> outboxes w = b) (stressEvents R p x) (\<lambda>evs. evs = [])"
    unfolding stressEvents_def using assms
    by (simp, intro keeps_prod keeps_bind [OF keeps_reading(2)] idle_loop [OF assms])
  then show ?thesis
    unfolding afterSetup_def by (rule keeps_bind) (auto intro: keeps_bind [OF nothing_written(2)])
qed

subsection \<open>Properties\<close>


text \<open>A run with two users on an exchange with two empty markets.\<close>

definition sample_answers :: "nat StressAnswers" where
  "sample_answers = \<lparr>an_sol = sample_solana, an_env = sample_usersEnv, an_floats = sample_floats, an_isAdmin = True,
     an_oracle = (\<lambda>i. ''oracle'' @ nat_toString i), an_pyth = (\<lambda>_. sample_pyth), an_pythRead = (\<lambda>_. sample_pyth),
     an_eventPyth = (\<lambda>_. sample_pyth), an_setupRpc = (\<lambda>_. sample_rpc sample_user),
     an_eventRpc = (\<lambda>_. sample_rpc sample_user), an_accounts = (\<lambda>_. (Inr sample_state, Inr sample_markets)),
     an_marketsAfter = (\<lambda>_. Inr sample_markets), an_draws = (\<lambda>_. (50, 1, 0)),
     an_csv = (\<lambda>text. Inr (csvReference text)), an_newBN = sample_newBN, an_os = sample_os\<rparr>"

definition sample_world :: "nat StressWorld" where
  "sample_world = \<lparr>w_feeds = (\<lambda>_. None), w_tokenLog = sample_tokenLog,
     w_admin = newClient ''admin'' ''program'' ''admin'' (DefaultTxSender ''admin'') None (Inr sample_state)
       (Inr (sample_markets\<lparr>MarketsAccount.markets :=
          [sample_market\<lparr>initialized := False\<rparr>, sample_market\<lparr>initialized := False\<rparr>]\<rparr>)),
     w_clients = [], w_infos = [], w_disk = sample_disk\<rparr>"

lemma sample_oracle_made:
  assumes "feeds k = None" "0 \<le> px" "px < 2 ^ 33" "wfFeeds feeds"
  shows "\<exists>feeds'. mockOracle sample_floats sample_pyth sample_pyth k (of_int px) (-6) feeds = (Inr k, feeds') \<and>
     wfFeeds feeds' \<and> (\<forall>k'. k' \<noteq> k \<longrightarrow> feeds' k' = feeds k')"
proof -
  have units: "bn_of_number (of_int px * 10 ^ 6) = Inr (px * 10 ^ 6)"
    "\<exists>c. bn_of_number (of_int px / 10 * 10 ^ 6) = Inr c"
    using bn_of_number_int [of "px * 10 ^ 6"] bn_of_number_int [of "px * 10 ^ 5"] assms(2,3)
    by (simp_all add: mult.commute)
  then obtain feeds' where create: "createPriceFeed sample_floats sample_pyth k (of_int px) None (-6) feeds = (Inr k, feeds')"
    and same: "\<forall>k'. k' \<noteq> k \<longrightarrow> feeds' k' = feeds k'"
    using assms(1)
    by (auto simp: createPriceFeed_def eff_simps pythRpc_def sample_floats_def sample_pyth_def
        pythInitialize_def loadPrice_def priceSize_def)
  note made = create_done [OF assms(4) _ _ create]
  let ?F = "\<lparr>feed_expo = -6, feed_twap = px * 10 ^ 6, feed_price = px * 10 ^ 6\<rparr>"
  have "feedUnits sample_floats (of_int px) (-6) = px * 10 ^ 6"
    using units(1) by (simp add: feedUnits_def sample_floats_def bn_of_number_trunc split: if_splits)
  with made have F: "wfFeeds feeds'" "absFeeds feeds' k = Some ?F" by simp_all
  obtain d where "getFeedData sample_floats sample_pyth k feeds' = (Inr d, feeds')"
    "price (aggregatePriceInfo d) = scaleNumber sample_floats (feed_price ?F mod 2 ^ 64) (feed_expo ?F)"
    using getFeedData_reads [OF F, of sample_pyth sample_floats] by (auto simp: sample_pyth_def)
  moreover have "px * 10 ^ 6 mod 2 ^ 64 = px * 10 ^ 6" using assms(2,3) by (intro mod_pos_pos_trivial) auto
  ultimately show ?thesis
    using create same F(1) by (auto simp: mockOracle_def eff_simps scaleNumber_def sample_floats_def)
qed

definition sample_args :: StressArgs where
  "sample_args = (defaultArgs ''mint'')\<lparr>NUM_USERS := 2, user_capital := 10000\<rparr>"

lemma sample_market_made:
  assumes "i < 2" "sub_markets (w_admin w) = sub_markets (w_admin sample_world)" "sub_state (w_admin w) = Inr sample_state"
  shows "case setupMarket sample_answers sample_args oracles i w of
     (Inl e, w') \<Rightarrow> False
   | (Inr sig, w') \<Rightarrow> w' = w\<lparr>w_admin := w_admin w'\<rparr> \<and>
       sub_markets (w_admin w') = sub_markets (w_admin w) \<and> sub_state (w_admin w') = sub_state (w_admin w)"
proof -
  have "i = 0 \<or> i = 1" using assms(1) by auto
  moreover have "reserveFor sample_args PEG_PRECISION = Inr (10 ^ 8 * MARK_PRICE_PRECISION)" by code_simp
  ultimately show ?thesis
    using assms(2,3)
    by (elim disjE; cases "cachedStateKey (w_admin w)") (simp_all add: setupMarket_def eff_simps sample_args_def defaultArgs_def js_index_def bn_toNumber_def
        sample_answers_def onAdmin_def initializeMarket_def marketAt_def sample_world_def newClient_def
        getStatePublicKey_def programIx_def txSenderSend_def submitVia_def sample_rpc_def)
qed

lemma sample_setup:
  "\<exists>x w. stressSetup sample_answers sample_args sample_world = (Inr x, w)"
proof -
  let ?R = sample_answers and ?p = sample_args
  have wf: "wfFeeds (\<lambda>_. None)" by (simp add: wfFeeds_def)
  obtain f1 where o1: "mockOracle sample_floats sample_pyth sample_pyth (an_oracle ?R 0) (of_int 1) (-6) (\<lambda>_. None)
      = (Inr (an_oracle ?R 0), f1)" and wf1: "wfFeeds f1" and n1: "f1 (an_oracle ?R 1) = None"
  proof -
    have "an_oracle ?R 1 \<noteq> an_oracle ?R 0" by code_simp
    with that show thesis using sample_oracle_made [OF refl _ _ wf, of 1 "an_oracle ?R 0"] by auto
  qed
  obtain f2 where o2: "mockOracle sample_floats sample_pyth sample_pyth (an_oracle ?R 1) (of_int 22) (-6) f1
      = (Inr (an_oracle ?R 1), f2)"
    using sample_oracle_made [OF n1 _ _ wf1, of 22] by auto
  let ?os = "[an_oracle ?R 0, an_oracle ?R 1]" and ?w = "sample_world\<lparr>w_feeds := f2\<rparr>"
  have w: "sub_state (w_admin ?w) = Inr sample_state" by (simp add: sample_world_def newClient_def)
  obtain s1 w1 where m1: "setupMarket ?R ?p ?os 0 ?w = (Inr s1, w1)" and w1: "w1 = ?w\<lparr>w_admin := w_admin w1\<rparr>"
    "sub_markets (w_admin w1) = sub_markets (w_admin sample_world)" "sub_state (w_admin w1) = Inr sample_state"
    using sample_market_made [of 0 ?w ?os] w by (auto split: prod.splits sum.splits)
  obtain s2 w2 where m2: "setupMarket ?R ?p ?os 1 w1 = (Inr s2, w2)" and w2: "w2 = w1\<lparr>w_admin := w_admin w2\<rparr>"
    using sample_market_made [of 1 w1 ?os] w1(2,3) by (auto split: prod.splits sum.splits)
  have "w_tokenLog w1 = sample_tokenLog" by (subst w1(1)) (simp add: sample_world_def)
  then have box: "w_tokenLog w2 = sample_tokenLog" by (subst w2) simp
  obtain a b c d s where users: "initUserAccounts sample_solana sample_usersEnv 2 ''mint'' 10000 sample_tokenLog = (Inr (a, b, c, d), s)"
    using sample_users_made by (metis prod.collapse)
  have args: "bn_of_number (user_capital ?p) = Inr 10000" "bn_of_number (sqrtk ?p) = Inr (10 ^ 8)"
    "dogMoneyPrice ?p = Inr 1"
    "NUM_USERS ?p = 2" "arg_usdcMint ?p = ''mint''" by code_simp+
  have R: "an_floats ?R = sample_floats" "an_pyth ?R i = sample_pyth" "an_pythRead ?R i = sample_pyth"
    "an_sol ?R = sample_solana" "an_env ?R = sample_usersEnv" for i by (simp_all add: sample_answers_def)
  have f: "w_feeds sample_world = (\<lambda>_. None)" by (simp add: sample_world_def)
  show ?thesis
    using o1 o2 m1 m2 users box
    by (simp add: stressSetup_def eff_simps args R onFeeds_def onTokenLog_def f)
qed


end
