(* ===== verification/Cranker.thy ===== *)
theory Cranker
  imports Factory MockAccounts StressEvents Margin
begin

section \<open>The cranker\<close>

text \<open>
  \<open>stress/mockCranker.ts\<close>: a script that is meant to liquidate users and to trade against the oracle.
  \<open>crank\<close> is modelled up to the point where it throws, which it always does: with mock accounts it
  calls \<open>initialize\<close>, a method of \<open>Admin\<close>, on a \<open>ClearingHouse\<close>; without them the loop over the users of
  the exchange has the condition \<open>i < allUsers.length, i++\<close>, whose value is the old \<open>i\<close>, zero. The module
  also imports \<open>Liquidator\<close> and \<open>Arbitrager\<close>, which the SDK does not have. \<open>_liquidate\<close> is not
  called. Of \<open>_arbMarkets\<close>, \<open>fundingRateCalcMarkets\<close> and \<open>_onMarketChange\<close>, which nothing reaches either, every
  call is to something the SDK lacks or has with other parameters.
\<close>

subsection \<open>Liquidating\<close>

text \<open>
  The loop over the users, as the answers of their \<open>getMarginRatio\<close>: for a user at or below 5 % the
  script asks for \<open>getPublicKey\<close>, which \<open>ClearingHouseUser\<close> does not have.
\<close>

fun liquidateLoop :: "UserView list \<Rightarrow> unit result" where
  "liquidateLoop [] = Inr ()"
| "liquidateLoop (u # us) =
     bindE (getMarginRatio u) (\<lambda>marginRatio.
     if marginRatio \<le> 500 then Inl TypeError else liquidateLoop us)"

subsection \<open>The crank\<close>

record CrankArgs =
  crank_wallet :: PublicKey
  crank_options :: ConfirmOptions
  crank_mint :: PublicKey
  crank_users :: "PublicKey list result"

text \<open>With mock accounts: a client, the mint of the collateral, \<open>initialize\<close>.\<close>

definition crankMock ::
  "Solana \<Rightarrow> MockNet \<Rightarrow> ('a \<Rightarrow> StateAccount) \<Rightarrow> ('a \<Rightarrow> MarketsAccount) \<Rightarrow> CrankArgs \<Rightarrow> PublicKey \<Rightarrow>
     (TokenLog, unit) eff" where
  "crankMock sol net asState asMarkets args pid =
     bindS (liftS (clearingHouseFrom (crank_options args) asState asMarkets (crank_wallet args) pid None)) (\<lambda>ch.
     bindS (mockUSDCMint sol net (crank_mint args)) (\<lambda>usdcMint.
     throwS TypeError))"

text \<open>
  The loop \<open>for (let i = 0; i < n, i++; )\<close>: the condition compares, drops the answer, and is the old
  value of \<open>i\<close>; it counts how often the body runs, at most \<open>fuel\<close> times.
\<close>

fun commaLoop :: "nat \<Rightarrow> nat \<Rightarrow> nat" where
  "commaLoop 0 i = 0"
| "commaLoop (Suc fuel) i = (if i \<noteq> 0 then Suc (commaLoop fuel (i + 1)) else 0)"

text \<open>
  On the exchange as it is: \<open>chProgram\<close> may be missing, \<open>all()\<close> may fail, there may be no users. The
  array \<open>liqUSDCAccounts\<close> is only assigned with mock accounts.
\<close>

definition crankLive ::
  "('a \<Rightarrow> StateAccount) \<Rightarrow> ('a \<Rightarrow> MarketsAccount) \<Rightarrow> CrankArgs \<Rightarrow> PublicKey option \<Rightarrow> (TokenLog, nat) eff" where
  "crankLive asState asMarkets args chProgram =
     bindS (liftS (deref chProgram)) (\<lambda>pid.
     bindS (liftS (clearingHouseFrom (crank_options args) asState asMarkets (crank_wallet args) pid None)) (\<lambda>ch.
     bindS (liftS (crank_users args)) (\<lambda>allUsers.
     if allUsers = [] then throwS (Error ''No Users Found'')
     else bindS (returnS (commaLoop (length allUsers) 0)) (\<lambda>created. throwS TypeError))))"

definition crank ::
  "Solana \<Rightarrow> MockNet \<Rightarrow> ('a \<Rightarrow> StateAccount) \<Rightarrow> ('a \<Rightarrow> MarketsAccount) \<Rightarrow> CrankArgs \<Rightarrow> PublicKey \<Rightarrow> bool \<Rightarrow>
     PublicKey option \<Rightarrow> (TokenLog, unit) eff" where
  "crank sol net asState asMarkets args pid mock chProgram =
     (if mock then crankMock sol net asState asMarkets args pid
      else ignoreResult (crankLive asState asMarkets args chProgram))"

subsection \<open>Properties\<close>

lemma commaLoop_never: "commaLoop fuel 0 = 0"
  by (cases fuel) auto

text \<open>
  \<open>_liquidate\<close> returns exactly when every margin ratio can be computed and is above 5 %; then it has
  nothing to do. The first user that is due, or whose ratio cannot be computed, ends it with an
  error, so it liquidates nobody.
\<close>

theorem cranker_liquidates_nobody:
  "liquidateLoop us = Inr () \<longleftrightarrow> (\<forall>u \<in> set us. \<exists>m. getMarginRatio u = Inr m \<and> 500 < m)"
proof (induction us)
  case (Cons u us)
  then show ?case by (cases "getMarginRatio u") auto
qed simp

text \<open>
  \<open>crank\<close> always throws. With mock accounts at most the transaction for the mint was sent; on a live
  exchange with users it is a \<open>TypeError\<close> and nothing was sent: no client for any user is created.
\<close>

theorem crank_always_throws:
  "\<exists>e s'. crank sol net asState asMarkets args pid mock chProgram s = (Inl e, s') \<and>
     length (sb_sent s') \<le> length (sb_sent s) + 1 \<and>
     (\<not> mock \<longrightarrow> s' = s \<and> (\<forall>k us. chProgram = Some k \<and> crank_users args = Inr us \<and> us \<noteq> [] \<longrightarrow> e = TypeError))"
proof (cases mock)
  case True
  obtain r s' where mint: "mockUSDCMint sol net (crank_mint args) s = (r, s')" by fastforce
  then have "length (sb_sent s') \<le> length (sb_sent s) + 1"
    by (auto simp: mockUSDCMint_def sendAndConfirmTransaction_def eff_simps Let_def split: prod.splits sum.splits)
  with True mint show ?thesis
    by (cases r; cases "clearingHouseFrom (crank_options args) asState asMarkets (crank_wallet args) pid None")
      (auto simp: crank_def crankMock_def eff_simps)
next
  case False
  have "clearingHouseFrom (crank_options args) asState asMarkets (crank_wallet args) k None \<noteq> Inl e" for k e
    using from_builds [of "crank_options args" asState asMarkets "crank_wallet args" k None] by auto
  with False show ?thesis
    by (cases chProgram; cases "crank_users args")
      (auto simp: crank_def crankLive_def ignoreResult_def eff_simps split: sum.splits)
qed

end
