(* ===== verification/Example.thy ===== *)
theory Example
  imports StressUsers Config Conversion Trade
begin

section \<open>The trade example\<close>

text \<open>
  \<open>sdk/src/examples/makeTradeExample.ts\<close>: a complete session with the SDK. It initialises the
  configuration, builds a client and a user from the environment, creates the user with a deposit
  when there is none, reads the price and the slippage, opens a position, reduces it and closes
  it. \<open>ExampleLib\<close> stands for the constructors of the libraries and the two environment variables;
  a public key is its text. The state is the configuration of the SDK and the client, once it
  exists. What is written to the log is returned as far as it is computed.
\<close>

record ExampleLib =
  ex_newPublicKey :: "string \<Rightarrow> PublicKey result"
  ex_keypair :: "string option \<Rightarrow> PublicKey result"
  ex_connection :: "string option \<Rightarrow> unit result"
  ex_getBalance :: "PublicKey \<Rightarrow> int result"
  BOT_PRIVATE_KEY :: "string option"
  RPC_ADDRESS :: "string option"

record ExampleState =
  ex_config :: DriftConfig
  ex_client :: "Client option"

definition getTokenAddress :: "Solana \<Rightarrow> ExampleLib \<Rightarrow> string \<Rightarrow> string \<Rightarrow> PublicKey result" where
  "getTokenAddress sol lib mintAddress userPubKey =
     bindE (ex_newPublicKey lib ''ATokenGPvbdGVxr1b2hvZbsiqW5xWH25efTNsLJA8knL'') (\<lambda>ata.
     bindE (ex_newPublicKey lib mintAddress) (\<lambda>mint.
     bindE (ex_newPublicKey lib userPubKey) (\<lambda>u.
     Inr (getAssociatedTokenAddress sol ata (TOKEN_PROGRAM_ID sol) mint u))))"

definition withClient :: "(Client, 'a) eff \<Rightarrow> (ExampleState, 'a) eff" where
  "withClient m = (\<lambda>s. case ex_client s of
     None \<Rightarrow> (Inl TypeError, s)
   | Some c \<Rightarrow> (case m c of (r, c') \<Rightarrow> (r, s\<lparr>ex_client := Some c'\<rparr>)))"

text \<open>\<open>Markets.find(...)\<close>, and the price and slippage the example prints.\<close>

definition solMarketInfo :: "MarketEntry option" where
  "solMarketInfo = find (\<lambda>market. baseAssetSymbol market = ''SOL'') Markets"

definition examplePrice :: "(rat \<Rightarrow> rat) \<Rightarrow> BN \<Rightarrow> (Client, rat) eff" where
  "examplePrice fl mi = readS (\<lambda>c.
     bindE (marketOf mi c) (\<lambda>m. bindE (deref m) (\<lambda>market.
     convertToNumber fl (Some (calculateMarkPrice market)) MARK_PRICE_PRECISION)))"

definition exampleSlippage :: "(rat \<Rightarrow> rat) \<Rightarrow> BN \<Rightarrow> BN \<Rightarrow> (Client, rat) eff" where
  "exampleSlippage fl mi longAmount = readS (\<lambda>c.
     bindE (marketOf mi c) (\<lambda>m. bindE (deref m) (\<lambda>market.
     bindE (calculateTradeSlippage LONG longAmount market Quote) (\<lambda>(slippage, _).
     convertToNumber fl (Some slippage) MARK_PRICE_PRECISION))))"

definition exampleTrades :: "Solana \<Rightarrow> (nat \<Rightarrow> Rpc) \<Rightarrow> (rat \<Rightarrow> rat) \<Rightarrow> (Client, rat \<times> rat) eff" where
  "exampleTrades sol rpcs fl =
     bindS (liftS (deref solMarketInfo)) (\<lambda>info.
     let mi = table_marketIndex info; longAmount = 5000 * QUOTE_PRECISION; reduceAmount = 2000 * QUOTE_PRECISION in
     bindS (examplePrice fl mi) (\<lambda>formattedPrice.
     bindS (exampleSlippage fl mi longAmount) (\<lambda>slippage.
     bindS (openPosition sol (rpcs 2) LONG longAmount mi None None None) (\<lambda>_.
     bindS (openPosition sol (rpcs 3) SHORT reduceAmount mi None None None) (\<lambda>_.
     bindS (closePosition sol (rpcs 4) mi None None) (\<lambda>_.
     returnS (formattedPrice, slippage)))))))"

text \<open>The deposit goes through \<open>getTokenAddress(usdcTokenAddress, ...)\<close>.\<close>

definition exampleDeposit ::
  "Solana \<Rightarrow> Rpc \<Rightarrow> ExampleLib \<Rightarrow> PublicKey \<Rightarrow> PublicKey \<Rightarrow> PublicKey \<Rightarrow> (Client, unit) eff" where
  "exampleDeposit sol rpc lib fresh usdcTokenAddress w =
     bindS (liftS (getTokenAddress sol lib usdcTokenAddress w)) (\<lambda>collateral.
     bindS (initializeUserAccountAndDepositCollateral sol rpc fresh (10000 * QUOTE_PRECISION) collateral) (\<lambda>_.
     returnS ()))"

definition main ::
  "ExampleLib \<Rightarrow> Solana \<Rightarrow> (nat \<Rightarrow> Rpc) \<Rightarrow> (rat \<Rightarrow> rat) \<Rightarrow> 'a StressEnv \<Rightarrow> (ExampleState, rat \<times> rat) eff" where
  "main lib sol rpcs fl env =
     bindS (\<lambda>s. case initializeSdk ''devnet'' None (ex_config s) of (cfg, cur) \<Rightarrow> (Inr cfg, s\<lparr>ex_config := cur\<rparr>)) (\<lambda>sdkConfig.
     bindS (liftS (ex_keypair lib (BOT_PRIVATE_KEY lib))) (\<lambda>w.
     bindS (liftS (ex_connection lib (RPC_ADDRESS lib))) (\<lambda>_.
     bindS (liftS (ex_getBalance lib w)) (\<lambda>lamportsBalance.
     bindS (liftS (bindE (deref (USDC_MINT_ADDRESS sdkConfig)) (\<lambda>m. getTokenAddress sol lib m w))) (\<lambda>usdcTokenAddress.
     bindS (liftS (bindE (deref (CLEARING_HOUSE_PROGRAM_ID sdkConfig)) (ex_newPublicKey lib))) (\<lambda>pid.
     bindS (liftS (clearingHouseFrom (env_options env) (env_asState env) (env_asMarkets env) w pid None)) (\<lambda>(c, live).
     case clientSubscribe (env_ch env 0) None live (env_loader env) of (live1, l1, r1) \<Rightarrow>
     bindS (liftS (awaited r1)) (\<lambda>_.
     bindS (modifyS (\<lambda>s. s\<lparr>ex_client := Some (refreshed (env_asState env) (env_asMarkets env) (ch_sub live1) c)\<rparr>)) (\<lambda>_.
     bindS (liftS (userFrom live1 w)) (\<lambda>u.
     case userExists sol (rpcs 0) pid u of (found, u1) \<Rightarrow>
     bindS (liftS found) (\<lambda>userAccountExists.
     bindS (if userAccountExists then returnS ()
            else withClient (exampleDeposit sol (rpcs 1) lib (env_positions env 0) usdcTokenAddress w)) (\<lambda>_.
     case liveUserSubscribe (env_ch env 0) (env_userSub env 0) live1 u1 l1 of (live2, u2, l2, r2) \<Rightarrow>
     bindS (liftS (awaited r2)) (\<lambda>_.
     withClient (exampleTrades sol rpcs fl))))))))))))))"

subsection \<open>What the client sends\<close>

definition callsProgram :: "PublicKey \<Rightarrow> string \<Rightarrow> Arg list \<Rightarrow> Submission \<Rightarrow> bool" where
  "callsProgram pid name args sub \<longleftrightarrow>
     (\<exists>ix. sub_tx sub = [Invoke pid ix] \<and> ix_name ix = name \<and> ix_args ix = args)"

lemma openPosition_sent:
  assumes "openPosition sol rpc dir amt mi None None None c = (Inr sig, c')"
  shows "programId c' = programId c \<and> (\<exists>sub. outbox c' = outbox c @ [sub] \<and> callsProgram (programId c)
     ''openPosition'' [directionArg dir, ABN amt, ABN mi, ABN 0, optionalFlags None None] sub)"
  using assms
  by (auto simp: openPosition_def sendIx_def getOpenPositionIx_def getUserAccountPublicKeyOf_def getUserAccountOf_def
      getStatePublicKey_def programIx_def txSenderSend_def submitVia_def wrapInTx_def eff_simps Let_def callsProgram_def
      split: prod.splits sum.splits option.splits)

lemma closePosition_sent:
  assumes "closePosition sol rpc mi None None c = (Inr sig, c')"
  shows "programId c' = programId c \<and> (\<exists>sub. outbox c' = outbox c @ [sub] \<and>
     callsProgram (programId c) ''closePosition'' [ABN mi, optionalFlags None None] sub)"
  using assms
  by (auto simp: closePosition_def sendIx_def getClosePositionIx_def getUserAccountPublicKeyOf_def getUserAccountOf_def
      getStatePublicKey_def programIx_def txSenderSend_def submitVia_def wrapInTx_def eff_simps Let_def callsProgram_def
      split: prod.splits sum.splits option.splits)

lemma sol_market: "\<exists>info. solMarketInfo = Some info \<and> table_marketIndex info = 0"
proof -
  have "map_option table_marketIndex solMarketInfo = Some 0" by code_simp
  then show ?thesis by (cases solMarketInfo) auto
qed

text \<open>The three trades of the example, on the market of SOL.\<close>

definition exampleTradesSent :: "PublicKey \<Rightarrow> Submission list \<Rightarrow> bool" where
  "exampleTradesSent pid subs \<longleftrightarrow> (\<exists>s1 s2 s3. subs = [s1, s2, s3] \<and>
     callsProgram pid ''openPosition'' [AEnum ''long'', ABN 5000000000, ABN 0, ABN 0, optionalFlags None None] s1 \<and>
     callsProgram pid ''openPosition'' [AEnum ''short'', ABN 2000000000, ABN 0, ABN 0, optionalFlags None None] s2 \<and>
     callsProgram pid ''closePosition'' [ABN 0, optionalFlags None None] s3)"

lemma trades_sent:
  assumes "exampleTrades sol rpcs fl c = (Inr x, c')"
  shows "\<exists>subs. outbox c' = outbox c @ subs \<and> exampleTradesSent (programId c) subs"
proof -
  obtain info where info: "solMarketInfo = Some info" "table_marketIndex info = 0" using sol_market by blast
  from assms obtain g1 g2 g3 c1 c2 where
    1: "openPosition sol (rpcs 2) LONG 5000000000 0 None None None c = (Inr g1, c1)" and
    2: "openPosition sol (rpcs 3) SHORT 2000000000 0 None None None c1 = (Inr g2, c2)" and
    3: "closePosition sol (rpcs 4) 0 None None c2 = (Inr g3, c')"
    by (auto simp: exampleTrades_def info eff_simps examplePrice_def exampleSlippage_def Let_def constant_values
        split: prod.splits sum.splits)
  from openPosition_sent [OF 1] openPosition_sent [OF 2] closePosition_sent [OF 3] show ?thesis
    by (auto simp: exampleTradesSent_def)
qed

lemma withClient_Inr:
  "withClient m s = (Inr x, s') \<Longrightarrow>
     \<exists>c c'. ex_client s = Some c \<and> m c = (Inr x, c') \<and> s' = s\<lparr>ex_client := Some c'\<rparr>"
  by (auto simp: withClient_def split: option.splits prod.splits)

lemma deposit_sent:
  assumes "exampleDeposit sol rpc lib fresh usdc w c = (Inr x, c')"
  shows "\<exists>acct sub. getTokenAddress sol lib usdc w = Inr acct \<and> programId c' = programId c \<and>
     outbox c' = outbox c @ [sub] \<and> depositsFrom (programId c) 10000000000 acct sub"
  using assms
  by (auto simp: exampleDeposit_def eff_simps constant_values split: prod.splits sum.splits
      dest!: init_deposit_sent)

lemma userExists_asks:
  assumes "getClearingHouseUser (getWebSocketClearingHouseUserConfig w) = Inr u"
    and "userExists sol rpc pid u = (Inr found, u1)"
  shows "accountExists rpc (getUserAccountPublicKey sol pid w) = Inr found"
  using assms
  by (auto simp: getClearingHouseUser_def getWebSocketClearingHouseUserConfig_def newLiveUser_def userExists_def
      userKeyOf_def eff_simps)

subsection \<open>Properties\<close>

text \<open>
  A session of the example that runs to its end: the client of the wallet has sent, in this order,
  a deposit of 10000 dollars when the wallet had no user account, and nothing otherwise; a long
  trade of 5000 dollars, a short one of 2000 and the closing of the position, all on market 0. The
  deposit comes from the associated token account for the \<^emph>\<open>address of the wallet's token account\<close>
  in place of the mint.
\<close>

theorem example_session:
  fixes env :: "'a StressEnv"
  assumes "main lib sol rpcs fl env s = (Inr x, s')"
  shows "\<exists>w pid c dep trades. ex_keypair lib (BOT_PRIVATE_KEY lib) = Inr w \<and>
     ex_newPublicKey lib ''AsW7LnXB9UA1uec9wi9MctYTgTz7YH9snhxd16GsFaGX'' = Inr pid \<and>
     ex_config s' = devnetConfig \<and> ex_client s' = Some c \<and> outbox c = dep @ trades \<and> exampleTradesSent pid trades \<and>
     (accountExists (rpcs 0) (getUserAccountPublicKey sol pid w) = Inr True \<and> dep = [] \<or>
      accountExists (rpcs 0) (getUserAccountPublicKey sol pid w) = Inr False \<and>
        (\<exists>usdc acct sub. dep = [sub] \<and>
           getTokenAddress sol lib ''8zGuJQqwhZafTah7Uc7Z4tXRnguqkn5KLFAP8oV6PHe2'' w = Inr usdc \<and>
           getTokenAddress sol lib usdc w = Inr acct \<and> depositsFrom pid 10000000000 acct sub))"
proof -
  have cfg: "initializeSdk ''devnet'' None cur = (devnetConfig, devnetConfig)" for cur
    by (simp add: initializeSdk_def configs_def)
  have dev: "USDC_MINT_ADDRESS devnetConfig = Some ''8zGuJQqwhZafTah7Uc7Z4tXRnguqkn5KLFAP8oV6PHe2''"
    "CLEARING_HOUSE_PROGRAM_ID devnetConfig = Some ''AsW7LnXB9UA1uec9wi9MctYTgTz7YH9snhxd16GsFaGX''"
    by (simp_all add: devnetConfig_def)
  from assms obtain w usdc pid c live live1 l1 r1 u found u1 s1 where
    w: "ex_keypair lib (BOT_PRIVATE_KEY lib) = Inr w"
    and usdc: "getTokenAddress sol lib ''8zGuJQqwhZafTah7Uc7Z4tXRnguqkn5KLFAP8oV6PHe2'' w = Inr usdc"
    and pid: "ex_newPublicKey lib ''AsW7LnXB9UA1uec9wi9MctYTgTz7YH9snhxd16GsFaGX'' = Inr pid"
    and c: "clearingHouseFrom (env_options env) (env_asState env) (env_asMarkets env) w pid None = Inr (c, live)"
    and u: "userFrom live1 w = Inr (u :: 'a AnyUserSubscriber LiveUser)"
    and found: "userExists sol (rpcs 0) pid u = (Inr found, u1)"
    and deposit: "(if found then returnS () else
        withClient (exampleDeposit sol (rpcs 1) lib (env_positions env 0) usdc w))
        (s\<lparr>ex_config := devnetConfig,
           ex_client := Some (refreshed (env_asState env) (env_asMarkets env) (ch_sub live1) c)\<rparr>) = (Inr (), s1)"
    and trades: "withClient (exampleTrades sol rpcs fl) s1 = (Inr x, s')"
    by (auto simp: main_def eff_simps cfg dev split: prod.splits sum.splits)
  let ?c = "refreshed (env_asState env) (env_asMarkets env) (ch_sub live1) c"
  have c0: "outbox ?c = []" "programId ?c = pid"
    using clearingHouseFrom_fresh [OF c, of sol] by (simp_all add: refreshed_def)
  have asks: "accountExists (rpcs 0) (getUserAccountPublicKey sol pid w) = Inr found"
    using u found by (intro userExists_asks) (auto simp: userFrom_def split: if_splits)
  have "\<exists>c1. ex_client s1 = Some c1 \<and> ex_config s1 = devnetConfig \<and> programId c1 = pid \<and>
      (if found then outbox c1 = [] else \<exists>acct sub. getTokenAddress sol lib usdc w = Inr acct \<and>
         outbox c1 = [sub] \<and> depositsFrom pid 10000000000 acct sub)"
  proof (cases found)
    case True
    with deposit c0 show ?thesis by (auto simp: eff_simps)
  next
    case False
    with deposit have "withClient (exampleDeposit sol (rpcs 1) lib (env_positions env 0) usdc w)
        (s\<lparr>ex_config := devnetConfig, ex_client := Some ?c\<rparr>) = (Inr (), s1)" by simp
    from withClient_Inr [OF this] obtain c1 where
      "exampleDeposit sol (rpcs 1) lib (env_positions env 0) usdc w ?c = (Inr (), c1)"
      "s1 = s\<lparr>ex_config := devnetConfig, ex_client := Some c1\<rparr>" by auto
    with deposit_sent c0 False show ?thesis by fastforce
  qed
  then obtain c1 where c1: "ex_client s1 = Some c1" "ex_config s1 = devnetConfig" "programId c1 = pid"
    and dep: "if found then outbox c1 = [] else \<exists>acct sub. getTokenAddress sol lib usdc w = Inr acct \<and>
         outbox c1 = [sub] \<and> depositsFrom pid 10000000000 acct sub" by blast
  from withClient_Inr [OF trades] c1 obtain c2 where
    "exampleTrades sol rpcs fl c1 = (Inr x, c2)" "ex_client s' = Some c2" "ex_config s' = devnetConfig" by auto
  with trades_sent c1(3) obtain subs where "outbox c2 = outbox c1 @ subs" "exampleTradesSent pid subs" by blast
  with w pid usdc asks dep \<open>ex_client s' = Some c2\<close> \<open>ex_config s' = devnetConfig\<close> show ?thesis
    by (cases found) auto
qed

definition sample_exampleLib :: ExampleLib where
  "sample_exampleLib = \<lparr>ex_newPublicKey = Inr, ex_keypair = (\<lambda>_. Inr ''alice''), ex_connection = (\<lambda>_. Inr ()),
     ex_getBalance = (\<lambda>_. Inr 1000000000), BOT_PRIVATE_KEY = Some ''[1]'', RPC_ADDRESS = None\<rparr>"

definition sample_exampleRpc :: Rpc where
  "sample_exampleRpc = (sample_rpc sample_user)\<lparr>accountExists := (\<lambda>_. Inr False)\<rparr>"

definition sample_exampleState :: ExampleState where
  "sample_exampleState = \<lparr>ex_config = noSettings, ex_client = None\<rparr>"

lemma example_runs:
  "\<exists>x s. main sample_exampleLib sample_solana (\<lambda>_. sample_exampleRpc) (\<lambda>x. x) sample_usersEnv sample_exampleState = (Inr x, s)"
proof -
  have "case fst (main sample_exampleLib sample_solana (\<lambda>_. sample_exampleRpc) (\<lambda>x. x) sample_usersEnv sample_exampleState) of
      Inl e \<Rightarrow> False | Inr x \<Rightarrow> True" by code_simp
  then show ?thesis
    by (cases "main sample_exampleLib sample_solana (\<lambda>_. sample_exampleRpc) (\<lambda>x. x) sample_usersEnv sample_exampleState")
      (auto split: sum.splits)
qed

theorem example_session_witness:
  "\<exists>x s c sub trades. main sample_exampleLib sample_solana (\<lambda>_. sample_exampleRpc) (\<lambda>x. x) sample_usersEnv sample_exampleState = (Inr x, s) \<and>
     ex_client s = Some c \<and> outbox c = sub # trades \<and>
     exampleTradesSent ''AsW7LnXB9UA1uec9wi9MctYTgTz7YH9snhxd16GsFaGX'' trades \<and>
     depositsFrom ''AsW7LnXB9UA1uec9wi9MctYTgTz7YH9snhxd16GsFaGX'' 10000000000
       ''8zGuJQqwhZafTah7Uc7Z4tXRnguqkn5KLFAP8oV6PHe2/alice/alice'' sub"
proof -
  obtain x s where run: "main sample_exampleLib sample_solana (\<lambda>_. sample_exampleRpc) (\<lambda>x. x) sample_usersEnv sample_exampleState = (Inr x, s)"
    using example_runs by blast
  from example_session [OF run] show ?thesis
    using run by (auto simp: sample_exampleLib_def sample_exampleRpc_def getTokenAddress_def sample_solana_def)
qed

end
