(* ===== verification/Spec2Isabelle.thy ===== *)
theory Spec2Isabelle
  imports AmmCost UserTrade Funding Vaults History PollingUser WebSocketClearingHouse
    OnChain AdminProps Pyth Utilities BulkUsers CliProps ChainLedger ChainSafety
    FaucetProgram StressRun Cranker Example
begin

text \<open>
  \<^bold>\<open>The Drift protocol.\<close> A model of the TypeScript SDK of the Drift protocol, version 1
  (\<open>src/sdk/src\<close>), of its command line and of the on-chain program it serves
  (\<open>src/programs/clearing_house/src\<close>), of the mock programs, the stress test and the example beside
  them, and of what makes them correct.

  \<^bold>\<open>The program.\<close> Drift is an exchange for perpetual futures on a virtual automated market maker.
  The accounts (state, markets, users, positions, histories) live on the Solana chain. The SDK
  does three things with them: it \<^emph>\<open>keeps copies\<close> of the accounts up to date
  (\<open>accounts/\<close>: a bulk loader that polls, and web socket subscribers), it \<^emph>\<open>computes\<close> prices, values,
  margin, funding and trade sizes from the copies (\<open>math/\<close>, \<open>clearingHouseUser.ts\<close>), and it builds
  and sends instructions (\<open>clearingHouse.ts\<close>, \<open>admin.ts\<close>, \<open>mockUSDCFaucet.ts\<close>). The on-chain program
  executes them: it repeats the computations on machine integers, moves the pool, the positions and
  the collateral, and writes the histories. The development models the SDK and the program, and
  proves where the two agree.

  \<^bold>\<open>The theories\<close>, in the order of their imports:

  \<^item> \<open>Prelude\<close>: errors and results (every \<open>throw\<close>, failed assertion and access of \<open>undefined\<close> is
    an \<open>Inl\<close>), the \<open>BN\<close> integers with truncating division, array access, and the bounds on
    truncating division all proofs use. \<open>assert\<close> is \<open>assert/assert.ts\<close>.
  \<^item> \<open>Constants\<close> (\<open>constants/numericConstants.ts\<close>), \<open>Types\<close> and \<open>History\<close> (\<open>types.ts\<close>): the constants
    and the account records, with the source's field names; sample accounts for the witnesses.
  \<^item> \<open>Sqrt\<close> (\<open>math/utils.ts\<close>): the Newton loop of \<open>squareRootBN\<close>. The loop counter is part of the state,
    so the function is total; the property shows that it leaves well before the bound.
  \<^item> \<open>Amm\<close> (\<open>math/amm.ts\<close>, \<open>math/market.ts\<close>): prices and swaps. \<open>curve_ok\<close> says that the reserves lie
    next to the constant product curve; swaps keep it, compose, can be undone, and fail in exactly
    two ways. The locale \<open>base_swap\<close> is what valuations rely on in a swap.
  \<^item> \<open>Position\<close> (\<open>math/position.ts\<close>), \<open>AmmCost\<close> (the costs of \<open>math/amm.ts\<close>), \<open>Conversion\<close>
    (\<open>math/conversion.ts\<close>), \<open>Trade\<close> (\<open>math/trade.ts\<close>), \<open>Funding\<close> (\<open>math/funding.ts\<close>), \<open>Vaults\<close>
    (\<open>math/collateral.ts\<close>, \<open>math/insuranceFund.ts\<close>): value and profit of positions, the cost of
    moving the curve, slippage and target price trades, funding estimates, vault sizes.
  \<^item> \<open>User\<close>, \<open>Margin\<close>, \<open>UserTrade\<close> (\<open>clearingHouseUser.ts\<close>): the record \<open>UserView\<close> holds what the four
    account getters return, every method is a function of it. The locales \<open>position_total\<close> and
    \<open>nonneg_total\<close> are the contract of the functions that are summed over the positions, and are
    interpreted on the value, the profit and the funding profit. \<open>Margin\<close> has the properties of
    totals, margin, leverage and liquidation, \<open>UserTrade\<close> those of liquidation prices and of the
    largest trade.
  \<^item> \<open>SlotCache\<close> (\<open>accounts/types.ts\<close>): the contract of data that is kept with the slot it was read
    at, the locale \<open>slot_cache\<close>, interpreted in \<open>Loader\<close> and in \<open>WebSocketAccount\<close>.
  \<^item> \<open>Loader\<close>, \<open>LoaderSystem\<close> (\<open>accounts/bulkAccountLoader.ts\<close>): the operations of the loader with
    explicit state, and the interleavings of clients, loads and responses as a step relation.
    Invariants of all reachable states: polling exactly while accounts are registered, slots that
    never decrease, promises.
  \<^item> \<open>WebSocketAccount\<close> (\<open>accounts/webSocketAccountSubscriber.ts\<close>, \<open>accounts/utils.ts\<close>): the
    subscriber of one account.
  \<^item> \<open>Polling\<close>, \<open>PollingClearingHouse\<close>, \<open>PollingUser\<close> (the polling subscribers): the locale \<open>registry\<close>
    is the contract between the loader and its clients; subscribing and unsubscribing restores
    the loader.
  \<^item> \<open>WebSocketClearingHouse\<close> (the two web socket subscribers): one account subscriber per field.

  \<^item> \<open>Effects\<close>: computations that read and change an object and may throw; \<open>keeps P m Q\<close> is an
    invariant of the object on every path with a property of the result.
  \<^item> \<open>Idl\<close> (\<open>idl/clearing_house.json\<close>, \<open>idl/mock_usdc_faucet.json\<close>): the interface descriptions of the
    two programs, the argument values of JavaScript, and when an instruction conforms.
  \<^item> \<open>Chain\<close> (\<open>addresses.ts\<close>, \<open>tx/\<close>): addresses, transactions, senders, and what a node answers.
  \<^item> \<open>Faucet\<close> (\<open>mockUSDCFaucet.ts\<close>), \<open>ClearingHouse\<close> (\<open>clearingHouse.ts\<close>), \<open>Admin\<close> (\<open>admin.ts\<close>): the objects
    with their caches, every instruction they build and every transaction they send.
  \<^item> \<open>ClientSystem\<close>, \<open>ClientCalls\<close>: an invariant of the client that every method keeps, and sequences of
    calls as a step relation. All transactions conform to the descriptions and carry the
    signatures these ask for; cached addresses belong to the current wallet.
  \<^item> \<open>OptionalAccounts\<close> (\<open>optional_accounts.rs\<close>, \<open>user_initialization.rs\<close> and \<open>liquidate\<close> of the program):
    how the program reads the extra accounts; \<open>OnChain\<close>: it reads what the SDK's caller means.
  \<^item> \<open>AdminProps\<close>: \<open>moveAmmToPrice\<close> end to end, the guards of the initialisers, a stale cache.
  \<^item> \<open>Pyth\<close> (\<open>stress/mockPythUtils.ts\<close>): the parsers of price and product accounts. \<open>Utilities\<close>
    (\<open>token/index.ts\<close>, \<open>pythClient.ts\<close>, \<open>util/\<close>): token accounts, compute units in logs.
  \<^item> \<open>Lifecycle\<close> (\<open>clearingHouse.ts\<close>, \<open>clearingHouseUser.ts\<close>, the interfaces of \<open>accounts/types.ts\<close>): the
    subscription of clients and users. The locales \<open>ch_subscriber\<close> and \<open>user_subscriber\<close> are the
    contracts of the subscribers, interpreted on the polling and the web socket ones; a client
    refines a switch under every sequence of calls. \<open>BulkUsers\<close> (\<open>accounts/bulkUserSubscription.ts\<close>):
    many users with one load.
  \<^item> \<open>Config\<close> (\<open>config.ts\<close>, \<open>constants/markets.ts\<close>), \<open>Factory\<close> (\<open>factory/\<close>): presets, the table of
    markets, and the clients and users built from a configuration, which start the sequences of
    calls of \<open>ClientCalls\<close>.
  \<^item> \<open>Cli\<close>, \<open>CliProps\<close> (\<open>cli/cli.ts\<close>): the configuration file, the client of a command, the actions of
    all commands; confirmation, bounds on the changes of the curve, cleaning up.

  \<^item> \<open>Rust\<close> (\<open>error.rs\<close>, \<open>math/casting.rs\<close>, \<open>math/bn.rs\<close>): error codes, panics, the integer types with
    their checked and wrapping operations, tied to machine words by the locale \<open>machine_int\<close>; a small
    logic of partial correctness (\<open>returns\<close>, \<open>returns_rules\<close>) that takes handlers apart.
  \<^item> \<open>ChainState\<close>, \<open>ChainHistory\<close> (\<open>state/\<close>): the accounts of the program and their relation to the
    SDK's copies (\<open>mirrors_amm\<close>, \<open>mirrors_market\<close>, \<open>mirrors_position\<close>); the ring histories, with the locale \<open>record_history\<close> for consecutive numbers.
  \<^item> \<open>ChainMath\<close>, \<open>ChainOracle\<close>, \<open>ChainPositions\<close>, \<open>ChainFunding\<close> (\<open>math/\<close>, \<open>controller/\<close>): prices, swaps,
    values, margin, fees, averages, oracle checks, positions, repegs, funding.
  \<^item> \<open>ChainAgree\<close>, \<open>ChainMargin\<close>: the program computes what the SDK predicts (prices, trades, values,
    funding payments, fees, who can be liquidated). \<open>ChainLedger\<close>: the totals of a market and the
    curve under every sequence of trades, as step relations.
  \<^item> \<open>ChainAccounts\<close>, \<open>ChainTrading\<close>, \<open>ChainLiquidation\<close>, \<open>ChainAdmin\<close> (\<open>lib.rs\<close>): the handlers on the record
    \<open>Accounts\<close>. \<open>ChainProps\<close> has sequences of instructions (\<open>exec_calls\<close>; a failed one changes nothing),
    conservation of tokens and the pause; \<open>ChainSafety\<close> withdrawals, liquidations, the fees of the
    admin, and guards that do not guard. \<open>ChainSamples\<close> has the accounts of the examples.

  \<^item> \<open>MockPyth\<close> (\<open>programs/pyth\<close>, the feeds of \<open>stress/mockPythUtils.ts\<close>): the mock oracle on the bytes of
    its accounts and its client; together they refine an abstract feed. \<open>FaucetProgram\<close>
    (\<open>programs/mock_usdc_faucet\<close>): the program accepts what \<open>Faucet\<close> sends. \<open>MockAccounts\<close>
    (\<open>stress/mockAccounts.ts\<close>): oracles, the collateral mint, token accounts.
  \<^item> \<open>StressCsv\<close>, \<open>StressEvents\<close>, \<open>StressUsers\<close> (\<open>stress/stressUtils.ts\<close>), \<open>StressRun\<close> (\<open>stress/stress.ts\<close>):
    timelines as text and their round trip, events as calls of \<open>ClientCalls\<close>, the users with clients
    of \<open>Factory\<close>, and the run, which never completes. \<open>Cranker\<close> (\<open>stress/mockCranker.ts\<close>): it always
    throws. \<open>Example\<close> (\<open>examples/makeTradeExample.ts\<close>): a whole session and what it sends.

  \<^bold>\<open>Conventions.\<close> A \<open>BN\<close> is an unbounded integer, division is \<open>sdiv\<close> with an error for a divisor
  of zero. A function that can throw returns \<open>js_error + 'a\<close>. Asynchronous methods are cut at
  their \<open>await\<close>s: in \<open>LoaderSystem\<close> every piece between two of them is a step; in the subscribers
  what happens during an \<open>await\<close> is a function argument (\<open>duringLoad\<close>), with a hypothesis where a
  property depends on it. Arguments stand for everything that is not in the repository: the RPC
  node, the Anchor coder, \<open>uuidv4\<close>, the clock, the rounding of floating point numbers, the numbers
  of listeners, the callbacks of clients, program addresses, the keys of new key pairs, the answers
  at the prompt of the command line, the transfers of the token program and the accounts of other
  programs. A value of a machine integer type is the integer it denotes, every operation says at
  which type it works; a handler of the program returns the changed accounts or an error, and an
  error changes nothing, as the runtime guarantees. The accounts of one instruction are distinct.
  No definition needs fuel but \<open>commaLoop\<close>, whose body never runs: the other loops are bounded by the
  data they walk through, by a counter of the source or by a measure.

  \<^bold>\<open>Not modelled.\<close> Signing (\<open>wallet.ts\<close>, calls of the Solana library only) and the deployment
  scripts; of the programs the constraints of the account contexts, which Anchor checks, the token
  program and the client library of Pyth. Of the stress test and the cranker, the statements after
  a call of a method that no class has: they are never executed. The functions of the cranker that
  nothing calls but \<open>_liquidate\<close>. \<open>CandleResolution\<close> and \<open>IWallet\<close> carry no behaviour.
\<close>

end
